(* ===== verification/Prelude.thy ===== *)
theory Prelude
  imports Complex_Main "HOL-Library.Word" "HOL-Library.Signed_Division"
begin

unbundle bit_operations_syntax

text \<open>
  Shared vocabulary of the development: the collections of rewrite rules the component
  proofs draw on, the C arithmetic the source uses (conversion of a floating value to an
  integer, integer square roots, the two libm roundings), counted loops with their
  invariant rule, and the facts on bit masks.

  Signed C integers are mathematical integers here, except where the source depends on
  a width: directions are 8-bit words, flag words and the statistics counters are 32-bit
  words, and the one range test whose product can leave the 32-bit range is written on
  32-bit words in the theory that models it.  The source's \<open>float\<close> and \<open>double\<close> values are
  rationals, so their rounding is not modelled.
\<close>

named_theorems frame_simps \<open>fields that an operation leaves alone\<close>

subsection \<open>Integers: C truncation and square roots\<close>

text \<open>Conversion of a floating value to an integer drops the fraction.\<close>

definition trunc :: "rat \<Rightarrow> int" where
  "trunc x = (if 0 \<le> x then \<lfloor>x\<rfloor> else \<lceil>x\<rceil>)"

lemma trunc_of_int [simp]: "trunc (of_int n) = n"
  by (simp add: trunc_def)

lemma trunc_0 [simp]: "trunc 0 = 0"
  by (simp add: trunc_def)

lemma trunc_numeral [simp]: "trunc (numeral n) = numeral n"
  by (simp add: trunc_def)

lemma trunc_nonneg: "0 \<le> x \<Longrightarrow> 0 \<le> trunc x"
  by (simp add: trunc_def)

lemma trunc_le: "0 \<le> x \<Longrightarrow> of_int (trunc x) \<le> x"
  by (simp add: trunc_def)

lemma trunc_mono: "x \<le> y \<Longrightarrow> trunc x \<le> trunc y"
proof (cases "0 \<le> x")
  case True
  assume "x \<le> y"
  with True show ?thesis by (simp add: trunc_def floor_mono)
next
  case False
  assume le: "x \<le> y"
  show ?thesis
  proof (cases "0 \<le> y")
    case True
    from False have "\<lceil>x\<rceil> \<le> 0" by simp
    moreover from True have "0 \<le> \<lfloor>y\<rfloor>" by simp
    ultimately have "\<lceil>x\<rceil> \<le> \<lfloor>y\<rfloor>" by (rule order_trans)
    then show ?thesis using False True by (simp add: trunc_def)
  next
    case neg: False
    with False le show ?thesis by (simp add: trunc_def ceiling_mono)
  qed
qed

lemma trunc_lower: "of_int n \<le> x \<Longrightarrow> n \<le> trunc x"
  using trunc_mono [of "of_int n" x] by simp

lemma trunc_upper: "x \<le> of_int n \<Longrightarrow> trunc x \<le> n"
  using trunc_mono [of x "of_int n"] by simp

text \<open>
  \<open>(int) hypot(dx, dy)\<close> and \<open>(int) sqrt(n)\<close> on integers are the integer square root, one
  binary digit of the result per step.
\<close>

fun isqrt :: "nat \<Rightarrow> nat" where
  "isqrt n =
     (if n = 0 then 0
      else let r = 2 * isqrt (n div 4)
           in if (r + 1) * (r + 1) \<le> n then r + 1 else r)"

declare isqrt.simps [simp del]

lemma isqrt_0 [simp]: "isqrt 0 = 0"
  by (simp add: isqrt.simps)

lemma isqrt_bounds: "isqrt n * isqrt n \<le> n \<and> n < (isqrt n + 1) * (isqrt n + 1)"
proof (induction n rule: isqrt.induct)
  case (1 n)
  show ?case
  proof (cases "n = 0")
    case True
    then show ?thesis by simp
  next
    case False
    define q where "q = isqrt (n div 4)"
    have lo: "q * q \<le> n div 4" and hi: "n div 4 < (q + 1) * (q + 1)"
      using "1.IH" [OF False] by (simp_all add: q_def)
    have "4 * (q * q) \<le> n" using lo by linarith
    then have a: "(2 * q) * (2 * q) \<le> n" by (simp add: algebra_simps)
    have "n div 4 + 1 \<le> (q + 1) * (q + 1)" using hi by linarith
    then have "n < 4 * ((q + 1) * (q + 1))" by linarith
    then have b: "n < (2 * q + 2) * (2 * q + 2)" by (simp add: algebra_simps)
    show ?thesis
      using a b False by (simp add: isqrt.simps [of n] Let_def flip: q_def)
  qed
qed

lemma isqrt_unique:
  assumes "r * r \<le> n" and "n < (r + 1) * (r + 1)"
  shows "isqrt n = r"
proof (rule antisym)
  have lt: "a < b" if "a * a < b * b" for a b :: nat
    using that by (metis mult_le_mono not_less)
  show "isqrt n \<le> r"
    using lt [of "isqrt n" "r + 1"] isqrt_bounds [of n] assms(2) by linarith
  show "r \<le> isqrt n"
    using lt [of r "isqrt n + 1"] isqrt_bounds [of n] assms(1) by linarith
qed

lemma isqrt_square [simp]: "isqrt (r * r) = r"
  by (rule isqrt_unique) simp_all

lemma isqrt_le_iff: "isqrt n \<le> r \<longleftrightarrow> n < (r + 1) * (r + 1)"
proof
  assume "isqrt n \<le> r"
  then have "(isqrt n + 1) * (isqrt n + 1) \<le> (r + 1) * (r + 1)"
    by (intro mult_le_mono) simp_all
  then show "n < (r + 1) * (r + 1)" using isqrt_bounds [of n] by linarith
next
  assume n: "n < (r + 1) * (r + 1)"
  show "isqrt n \<le> r"
  proof (rule ccontr)
    assume "\<not> isqrt n \<le> r"
    then have "(r + 1) * (r + 1) \<le> isqrt n * isqrt n"
      by (intro mult_le_mono) simp_all
    then show False using n isqrt_bounds [of n] by linarith
  qed
qed

lemma isqrt_mono: "m \<le> n \<Longrightarrow> isqrt m \<le> isqrt n"
  using isqrt_bounds [of n] by (simp add: isqrt_le_iff)

text \<open>\<open>nearbyint(sqrt(n))\<close>: a square root of an integer is never halfway between two.\<close>

definition round_sqrt :: "nat \<Rightarrow> nat" where
  "round_sqrt n = (let r = isqrt n in if r * r + r < n then r + 1 else r)"

text \<open>
  \<open>sqrt(n)\<close> as a floating value, cut off after twenty binary digits of fraction.  It is exact on
  squares and never above the root.
\<close>

definition fsqrt :: "nat \<Rightarrow> rat" where
  "fsqrt n = of_nat (isqrt (n * 1099511627776)) / 1048576"

lemma fsqrt_nonneg: "0 \<le> fsqrt n"
  by (simp add: fsqrt_def)

lemma fsqrt_square: "fsqrt (r * r) = of_nat r"
proof -
  have "r * r * 1099511627776 = (r * 1048576) * (r * 1048576)" by simp
  then have "isqrt (r * r * 1099511627776) = r * 1048576" by (simp only: isqrt_square)
  then show ?thesis by (simp add: fsqrt_def)
qed

lemma fsqrt_mono: "m \<le> n \<Longrightarrow> fsqrt m \<le> fsqrt n"
  by (simp add: fsqrt_def divide_right_mono isqrt_mono)

text \<open>C's division rounds towards zero; on natural operands it is the usual one.\<close>

lemma sdiv_eq_div: "0 \<le> a \<Longrightarrow> 0 \<le> b \<Longrightarrow> a sdiv b = a div (b :: int)"
  by (simp add: signed_divide_int_def sgn_if)

lemma sdiv_nonneg: "0 \<le> a \<Longrightarrow> 0 \<le> b \<Longrightarrow> 0 \<le> a sdiv (b :: int)"
  by (simp add: sdiv_eq_div pos_imp_zdiv_nonneg_iff) (cases "b = 0"; simp add: pos_imp_zdiv_nonneg_iff)

subsection \<open>Counted loops\<close>

text \<open>\<open>for (i = 0; i < n; i++) s = f(i, s)\<close>.\<close>

definition for_upto :: "nat \<Rightarrow> (nat \<Rightarrow> 's \<Rightarrow> 's) \<Rightarrow> 's \<Rightarrow> 's" where
  "for_upto n f s = fold f [0..<n] s"

lemma for_upto_0 [simp]: "for_upto 0 f s = s"
  by (simp add: for_upto_def)

lemma for_upto_Suc [simp]: "for_upto (Suc n) f s = f n (for_upto n f s)"
  by (simp add: for_upto_def)

lemma for_upto_inv:
  assumes "P s" and "\<And>i s. i < n \<Longrightarrow> P s \<Longrightarrow> P (f i s)"
  shows "P (for_upto n f s)"
  using assms by (induction n) auto

lemma for_upto_same:
  assumes "\<And>i s. i < n \<Longrightarrow> g (f i s) = g s"
  shows "g (for_upto n f s) = g s"
  using assms by (induction n) auto

lemma for_upto_cong:
  assumes "P s" and "\<And>i s. i < n \<Longrightarrow> P s \<Longrightarrow> f i s = h i s \<and> P (h i s)"
  shows "for_upto n f s = for_upto n h s"
proof -
  have "for_upto n f s = for_upto n h s \<and> P (for_upto n h s)"
    using assms by (induction n) auto
  then show ?thesis ..
qed

lemma fold_inv:
  assumes "P s" and "\<And>x s. x \<in> set xs \<Longrightarrow> P s \<Longrightarrow> P (f x s)"
  shows "P (fold f xs s)"
  using assms by (induction xs arbitrary: s) auto

lemma fold_same:
  assumes "\<And>x s. x \<in> set xs \<Longrightarrow> g (f x s) = g s"
  shows "g (fold f xs s) = g s"
  using assms by (induction xs arbitrary: s) auto

text \<open>A loop with an early exit: the first index in a range that satisfies a test.\<close>

definition first_in :: "nat \<Rightarrow> nat \<Rightarrow> (nat \<Rightarrow> bool) \<Rightarrow> nat option" where
  "first_in lo hi P = find P [lo..<hi]"

lemma first_in_Some: "first_in lo hi P = Some i \<Longrightarrow> lo \<le> i \<and> i < hi \<and> P i"
  unfolding first_in_def by (auto simp: find_Some_iff)

lemma first_in_None: "first_in lo hi P = None \<longleftrightarrow> (\<forall>i. lo \<le> i \<and> i < hi \<longrightarrow> \<not> P i)"
  unfolding first_in_def by (auto simp: find_None_iff)

lemma first_in_least:
  assumes "first_in lo hi P = Some i" and "lo \<le> j" and "j < i"
  shows "\<not> P j"
proof -
  from assms(1) obtain k where k: "k < hi - lo" "P (lo + k)" "i = lo + k" "\<forall>j<k. \<not> P (lo + j)"
    unfolding first_in_def by (auto simp: find_Some_iff)
  from assms(2,3) k(3) have "j - lo < k" "lo + (j - lo) = j" by simp_all
  with k(4) show ?thesis by metis
qed

text \<open>The number of indices below a bound that satisfy a test.\<close>

definition count_upto :: "nat \<Rightarrow> (nat \<Rightarrow> bool) \<Rightarrow> nat" where
  "count_upto n P = length (filter P [0..<n])"

lemma count_upto_0 [simp]: "count_upto 0 P = 0"
  by (simp add: count_upto_def)

lemma count_upto_Suc [simp]: "count_upto (Suc n) P = count_upto n P + (if P n then 1 else 0)"
  by (simp add: count_upto_def)

lemma count_upto_le: "count_upto n P \<le> n"
  by (induction n) auto

lemma count_upto_cong: "(\<And>i. i < n \<Longrightarrow> P i = Q i) \<Longrightarrow> count_upto n P = count_upto n Q"
  by (induction n) auto

lemma count_upto_pos: "i < n \<Longrightarrow> P i \<Longrightarrow> 0 < count_upto n P"
  by (induction n) (auto simp: less_Suc_eq)

lemma count_upto_insert:
  assumes "i < n" and "\<not> P i" and "Q i" and "\<And>j. j \<noteq> i \<Longrightarrow> Q j = P j"
  shows "count_upto n Q = Suc (count_upto n P)"
  using assms
proof (induction n)
  case (Suc n)
  show ?case
  proof (cases "i = n")
    case True
    have "count_upto n Q = count_upto n P"
      by (rule count_upto_cong) (use Suc.prems(4) True in auto)
    with True Suc.prems show ?thesis by simp
  next
    case False
    with Suc show ?thesis by simp
  qed
qed simp

lemma count_upto_all: "count_upto n P = n \<longleftrightarrow> (\<forall>i<n. P i)"
proof (induction n)
  case (Suc n)
  then show ?case using count_upto_le [of n P] by (auto simp: less_Suc_eq)
qed simp

subsection \<open>Chains of tests\<close>

text \<open>A property of a result that a chain of early returns selects, one branch at a time.\<close>

lemma if_prop: "(c \<Longrightarrow> P x) \<Longrightarrow> (\<not> c \<Longrightarrow> P y) \<Longrightarrow> P (if c then x else y)"
  by simp

lemma option_prop:
  "(x = None \<Longrightarrow> P a) \<Longrightarrow> (\<And>y. x = Some y \<Longrightarrow> P (f y)) \<Longrightarrow>
   P (case x of None \<Rightarrow> a | Some y \<Rightarrow> f y)"
  by (cases x) simp_all

subsection \<open>Bit masks\<close>

text \<open>\<open>(flags & mask) != 0\<close>, \<open>flags |= mask\<close> and \<open>flags &= ~mask\<close>.\<close>

definition has :: "32 word \<Rightarrow> 32 word \<Rightarrow> bool" where
  "has f m \<longleftrightarrow> f AND m \<noteq> 0"

definition set_flags :: "32 word \<Rightarrow> 32 word \<Rightarrow> 32 word" where
  "set_flags m f = f OR m"

definition clear_flags :: "32 word \<Rightarrow> 32 word \<Rightarrow> 32 word" where
  "clear_flags m f = f AND NOT m"

lemma has_zero [simp]: "\<not> has 0 m"
  by (simp add: has_def)

lemma has_numeral [simp]: "has (numeral a) (numeral b) \<longleftrightarrow> (numeral a :: 32 word) AND numeral b \<noteq> 0"
  by (simp add: has_def)

lemma has_set_other [simp]: "m AND k = 0 \<Longrightarrow> has (set_flags m f) k \<longleftrightarrow> has f k"
  by (simp add: has_def set_flags_def word_ao_dist)

lemma has_set_same [simp]: "m AND k \<noteq> 0 \<Longrightarrow> has (set_flags m f) k"
  by (simp add: has_def set_flags_def word_ao_dist or_eq_0_iff)

lemma has_clear_other [simp]:
  assumes "m AND k = 0" shows "has (clear_flags m f) k \<longleftrightarrow> has f k"
proof -
  have "NOT m AND k = k"
    using assms by (simp add: bit_eq_iff bit_simps) blast
  then show ?thesis by (simp add: has_def clear_flags_def word_bw_assocs)
qed

lemma has_clear_same [simp]:
  assumes "k AND NOT m = 0" shows "\<not> has (clear_flags m f) k"
proof -
  have "NOT m AND k = 0" using assms by (simp add: and.commute)
  then show ?thesis by (simp add: has_def clear_flags_def word_bw_assocs)
qed

text \<open>Team masks are plain integers; the source tests \<open>a & b\<close> for a shared team.\<close>

definition meets :: "int \<Rightarrow> int \<Rightarrow> bool" where
  "meets a b \<longleftrightarrow> a AND b \<noteq> 0"

lemma meets_commute: "meets a b = meets b a"
  by (simp add: meets_def and.commute)

lemma meets_0 [simp]: "\<not> meets 0 b" "\<not> meets a 0"
  by (simp_all add: meets_def)

end
