(* ===== verification/Defs.thy ===== *)
theory Defs
  imports Prelude
begin

text \<open>
  The constants of \<^verbatim>\<open>include/defs.h\<close> and \<^verbatim>\<open>include/struct.h\<close> that the model uses, under the
  source's names, as abbreviations, so that the simplifier sees the numbers.  Enumerations
  that the source spells as \<^verbatim>\<open>#define\<close>s and only compares (player, torpedo and phaser states,
  causes of death) are datatypes.  Masks stay numbers.  The build is the one
  \<^verbatim>\<open>include/config.h.in\<close> ships: LTD_STATS, SBFUEL_FIX, PRETSERVER and TWO_RACE are defined;
  LTD_PER_RACE, STURGEON, BASEPRACTICE, NEWBIESERVER, NEW_ETEMP, NEW_CREDIT, FLAT_BONUS,
  SB_CALVINWARP, ROLLING_STATS and PUCK_FIRST are not.
\<close>

subsection \<open>Sizes\<close>

abbreviation (input) MAXPLAYER :: "nat" where "MAXPLAYER \<equiv> 32"

abbreviation (input) TESTERS :: "nat" where "TESTERS \<equiv> MAXPLAYER - 16"

abbreviation (input) MAXWAITING :: "nat" where "MAXWAITING \<equiv> 32"
abbreviation (input) MAXPLANETS :: "nat" where "MAXPLANETS \<equiv> 40"
abbreviation (input) MAXTORP :: "nat" where "MAXTORP \<equiv> 8"
abbreviation (input) MAXPLASMA :: "nat" where "MAXPLASMA \<equiv> 1"
abbreviation (input) NUM_TYPES :: "nat" where "NUM_TYPES \<equiv> 8"
abbreviation (input) NUMBAYS :: "nat" where "NUMBAYS \<equiv> 4"

text \<open>With PRETSERVER defined there are fourteen queues.\<close>

abbreviation (input) MAXQUEUE :: "nat" where "MAXQUEUE \<equiv> 14"

subsection \<open>Ship types\<close>

abbreviation (input) SCOUT :: "nat" where "SCOUT \<equiv> 0"
abbreviation (input) DESTROYER :: "nat" where "DESTROYER \<equiv> 1"
abbreviation (input) CRUISER :: "nat" where "CRUISER \<equiv> 2"
abbreviation (input) BATTLESHIP :: "nat" where "BATTLESHIP \<equiv> 3"
abbreviation (input) ASSAULT :: "nat" where "ASSAULT \<equiv> 4"
abbreviation (input) STARBASE :: "nat" where "STARBASE \<equiv> 5"
abbreviation (input) SGALAXY :: "nat" where "SGALAXY \<equiv> 6"
abbreviation (input) ATT :: "nat" where "ATT \<equiv> 7"

subsection \<open>Distances, speeds and times\<close>

abbreviation (input) GWIDTH :: "int" where "GWIDTH \<equiv> 100000"
abbreviation (input) WARP1 :: "int" where "WARP1 \<equiv> 20"
abbreviation (input) EXPDIST :: "int" where "EXPDIST \<equiv> 350"
abbreviation (input) ZAPPLAYERDIST :: "int" where "ZAPPLAYERDIST \<equiv> 390"
abbreviation (input) ZAPPLASMADIST :: "int" where "ZAPPLASMADIST \<equiv> 270"
abbreviation (input) DAMDIST :: "int" where "DAMDIST \<equiv> 2000"
abbreviation (input) SHIPDAMDIST :: "int" where "SHIPDAMDIST \<equiv> 3000"
abbreviation (input) PLASDAMDIST :: "int" where "PLASDAMDIST \<equiv> 2500"
abbreviation (input) DETDIST :: "int" where "DETDIST \<equiv> 1700"
abbreviation (input) PHASEDIST :: "int" where "PHASEDIST \<equiv> 6000"
abbreviation (input) ENTORBDIST :: "int" where "ENTORBDIST \<equiv> 900"
abbreviation (input) ORBDIST :: "int" where "ORBDIST \<equiv> 800"
abbreviation (input) ORBSPEED :: "int" where "ORBSPEED \<equiv> 2"
abbreviation (input) PFIREDIST :: "int" where "PFIREDIST \<equiv> 1500"
abbreviation (input) SPM :: "int" where "SPM \<equiv> 256"
abbreviation (input) AUTOQUIT :: "int" where "AUTOQUIT \<equiv> 60"
abbreviation (input) DOCKDIST :: "int" where "DOCKDIST \<equiv> 600"
abbreviation (input) SBFUELMIN :: "int" where "SBFUELMIN \<equiv> 10000"
abbreviation (input) TRACTDIST :: "int" where "TRACTDIST \<equiv> 6000"
abbreviation (input) TRACTEHEAT :: "int" where "TRACTEHEAT \<equiv> 5"
abbreviation (input) TRACTCOST :: "int" where "TRACTCOST \<equiv> 20"
abbreviation (input) CLOAK_PHASES :: "int" where "CLOAK_PHASES \<equiv> 12"
abbreviation (input) SURREND :: "int" where "SURREND \<equiv> 4"
abbreviation (input) MIN_COUP_TIME :: "int" where "MIN_COUP_TIME \<equiv> 30"
abbreviation (input) MAX_COUP_TIME :: "int" where "MAX_COUP_TIME \<equiv> 60"
abbreviation (input) UPDATE :: "int" where "UPDATE \<equiv> 100000"
abbreviation (input) SURRLENGTH :: "int" where "SURRLENGTH \<equiv> 30"
abbreviation (input) VICTORY :: "int" where "VICTORY \<equiv> 2"

text \<open>
  Scaled positions: \<^verbatim>\<open>spi(x)\<close> shifts left by \<^verbatim>\<open>SPB\<close> bits, \<^verbatim>\<open>spo(x)\<close> shifts right.  The right
  shift of a negative integer rounds down, as \<open>div\<close> does.
\<close>

definition spi :: "int \<Rightarrow> int" where
  "spi x = x * 256"

definition spo :: "int \<Rightarrow> int" where
  "spo x = x div 256"

lemma spo_spi [simp]: "spo (spi x) = x"
  by (simp add: spo_def spi_def)

lemma spo_mono: "x \<le> y \<Longrightarrow> spo x \<le> spo y"
  by (simp add: spo_def zdiv_mono1)

lemma spo_bounds: "spi a \<le> x \<Longrightarrow> x \<le> spi b \<Longrightarrow> a \<le> spo x \<and> spo x \<le> b"
  using spo_mono [of "spi a" x] spo_mono [of x "spi b"] by simp

subsection \<open>Teams\<close>

abbreviation (input) NOBODY :: "int" where "NOBODY \<equiv> 0"
abbreviation (input) FED :: "int" where "FED \<equiv> 1"
abbreviation (input) ROM :: "int" where "ROM \<equiv> 2"
abbreviation (input) KLI :: "int" where "KLI \<equiv> 4"
abbreviation (input) ORI :: "int" where "ORI \<equiv> 8"

abbreviation (input) ALLTEAM :: "int" where "ALLTEAM \<equiv> 15"
abbreviation (input) MAXTEAM :: "nat" where "MAXTEAM \<equiv> 15"

subsection \<open>Player states and causes of death\<close>

datatype pstatus = PFREE | POUTFIT | PALIVE | PEXPLODE | PDEAD | POBSERV

fun pstatus_code :: "pstatus \<Rightarrow> int" where
  "pstatus_code PFREE = 0"
| "pstatus_code POUTFIT = 1"
| "pstatus_code PALIVE = 2"
| "pstatus_code PEXPLODE = 3"
| "pstatus_code PDEAD = 4"
| "pstatus_code POBSERV = 6"

datatype whydead =
    KLOGIN | KQUIT | KTORP | KPHASER | KPLANET | KSHIP | KDAEMON | KWINNER | KGHOST
  | KGENOCIDE | KPROVIDENCE | KPLASMA | TOURNEND | KOVER | TOURNSTART | KBADBIN
  | KTORP2 | KSHIP2 | KPLASMA2

subsection \<open>Player flags\<close>

abbreviation (input) PFSHIELD :: "32 word" where "PFSHIELD \<equiv> 1"
abbreviation (input) PFREPAIR :: "32 word" where "PFREPAIR \<equiv> 2"
abbreviation (input) PFBOMB :: "32 word" where "PFBOMB \<equiv> 4"
abbreviation (input) PFORBIT :: "32 word" where "PFORBIT \<equiv> 8"
abbreviation (input) PFCLOAK :: "32 word" where "PFCLOAK \<equiv> 16"
abbreviation (input) PFWEP :: "32 word" where "PFWEP \<equiv> 32"
abbreviation (input) PFENG :: "32 word" where "PFENG \<equiv> 64"
abbreviation (input) PFROBOT :: "32 word" where "PFROBOT \<equiv> 128"
abbreviation (input) PFBEAMUP :: "32 word" where "PFBEAMUP \<equiv> 256"
abbreviation (input) PFBEAMDOWN :: "32 word" where "PFBEAMDOWN \<equiv> 512"
abbreviation (input) PFSELFDEST :: "32 word" where "PFSELFDEST \<equiv> 1024"
abbreviation (input) PFGREEN :: "32 word" where "PFGREEN \<equiv> 2048"
abbreviation (input) PFYELLOW :: "32 word" where "PFYELLOW \<equiv> 4096"
abbreviation (input) PFRED :: "32 word" where "PFRED \<equiv> 8192"
abbreviation (input) PFPLOCK :: "32 word" where "PFPLOCK \<equiv> 16384"
abbreviation (input) PFPLLOCK :: "32 word" where "PFPLLOCK \<equiv> 32768"
abbreviation (input) PFCOPILOT :: "32 word" where "PFCOPILOT \<equiv> 65536"
abbreviation (input) PFWAR :: "32 word" where "PFWAR \<equiv> 131072"
abbreviation (input) PFPRACTR :: "32 word" where "PFPRACTR \<equiv> 262144"
abbreviation (input) PFDOCK :: "32 word" where "PFDOCK \<equiv> 524288"
abbreviation (input) PFREFIT :: "32 word" where "PFREFIT \<equiv> 1048576"
abbreviation (input) PFREFITTING :: "32 word" where "PFREFITTING \<equiv> 2097152"
abbreviation (input) PFTRACT :: "32 word" where "PFTRACT \<equiv> 4194304"
abbreviation (input) PFPRESS :: "32 word" where "PFPRESS \<equiv> 8388608"
abbreviation (input) PFDOCKOK :: "32 word" where "PFDOCKOK \<equiv> 16777216"
abbreviation (input) PFSEEN :: "32 word" where "PFSEEN \<equiv> 33554432"
abbreviation (input) PFOBSERV :: "32 word" where "PFOBSERV \<equiv> 134217728"
abbreviation (input) PFTWARP :: "32 word" where "PFTWARP \<equiv> 1073741824"
abbreviation (input) PFBPROBOT :: "32 word" where "PFBPROBOT \<equiv> 2147483648"

subsection \<open>Torpedoes, phasers and planets\<close>

datatype tstatus = TFREE | TMOVE | TEXPLODE | TDET | TOFF

datatype phstatus = PHFREE | PHHIT | PHMISS | PHHIT2

abbreviation (input) TPHOTON :: "int" where "TPHOTON \<equiv> 1"
abbreviation (input) TPLASMA :: "int" where "TPLASMA \<equiv> 2"
abbreviation (input) TWOBBLE :: "int" where "TWOBBLE \<equiv> 1"
abbreviation (input) TVECTOR :: "int" where "TVECTOR \<equiv> 2"
abbreviation (input) TOWNERSAFE :: "int" where "TOWNERSAFE \<equiv> 4"
abbreviation (input) TOWNTEAMSAFE :: "int" where "TOWNTEAMSAFE \<equiv> 8"
abbreviation (input) TDETTERSAFE :: "int" where "TDETTERSAFE \<equiv> 16"
abbreviation (input) TDETTEAMSAFE :: "int" where "TDETTEAMSAFE \<equiv> 32"
abbreviation (input) TPRACTICE :: "int" where "TPRACTICE \<equiv> 64"
abbreviation (input) PLREPAIR :: "int" where "PLREPAIR \<equiv> 16"
abbreviation (input) PLFUEL :: "int" where "PLFUEL \<equiv> 32"
abbreviation (input) PLAGRI :: "int" where "PLAGRI \<equiv> 64"
abbreviation (input) PLREDRAW :: "int" where "PLREDRAW \<equiv> 128"
abbreviation (input) PLHOME :: "int" where "PLHOME \<equiv> 256"
abbreviation (input) PLCOUP :: "int" where "PLCOUP \<equiv> 512"
abbreviation (input) PLCHEAP :: "int" where "PLCHEAP \<equiv> 1024"
abbreviation (input) PLCORE :: "int" where "PLCORE \<equiv> 2048"

subsection \<open>Game and queue flags\<close>

abbreviation (input) GU_GAMEOK :: "int" where "GU_GAMEOK \<equiv> 1"
abbreviation (input) GU_PRACTICE :: "int" where "GU_PRACTICE \<equiv> 2"
abbreviation (input) GU_CHAOS :: "int" where "GU_CHAOS \<equiv> 4"
abbreviation (input) GU_PAUSED :: "int" where "GU_PAUSED \<equiv> 8"
abbreviation (input) GU_INROBOT :: "int" where "GU_INROBOT \<equiv> 16"
abbreviation (input) GU_NEWBIE :: "int" where "GU_NEWBIE \<equiv> 32"
abbreviation (input) GU_PRET :: "int" where "GU_PRET \<equiv> 64"
abbreviation (input) GU_BOT_IN_GAME :: "int" where "GU_BOT_IN_GAME \<equiv> 128"
abbreviation (input) GU_CONQUER :: "int" where "GU_CONQUER \<equiv> 256"
abbreviation (input) GU_PUCK :: "int" where "GU_PUCK \<equiv> 512"
abbreviation (input) GU_DOG :: "int" where "GU_DOG \<equiv> 1024"
abbreviation (input) GU_INL_DRAFTING :: "int" where "GU_INL_DRAFTING \<equiv> 2048"
abbreviation (input) GU_INL_DRAFTED :: "int" where "GU_INL_DRAFTED \<equiv> 4096"

abbreviation (input) QU_PICKUP :: "nat" where "QU_PICKUP \<equiv> 0"
abbreviation (input) QU_ROBOT :: "nat" where "QU_ROBOT \<equiv> 1"
abbreviation (input) QU_HOME :: "nat" where "QU_HOME \<equiv> 2"
abbreviation (input) QU_AWAY :: "nat" where "QU_AWAY \<equiv> 3"
abbreviation (input) QU_HOME_OBS :: "nat" where "QU_HOME_OBS \<equiv> 4"
abbreviation (input) QU_AWAY_OBS :: "nat" where "QU_AWAY_OBS \<equiv> 5"
abbreviation (input) QU_PICKUP_OBS :: "nat" where "QU_PICKUP_OBS \<equiv> 6"
abbreviation (input) QU_GOD :: "nat" where "QU_GOD \<equiv> 7"
abbreviation (input) QU_GOD_OBS :: "nat" where "QU_GOD_OBS \<equiv> 8"
abbreviation (input) QU_NEWBIE_PLR :: "nat" where "QU_NEWBIE_PLR \<equiv> 9"
abbreviation (input) QU_NEWBIE_BOT :: "nat" where "QU_NEWBIE_BOT \<equiv> 10"
abbreviation (input) QU_NEWBIE_OBS :: "nat" where "QU_NEWBIE_OBS \<equiv> 11"
abbreviation (input) QU_NEWBIE_DMN :: "nat" where "QU_NEWBIE_DMN \<equiv> 12"
abbreviation (input) QU_PRET_DMN :: "nat" where "QU_PRET_DMN \<equiv> 13"

abbreviation (input) QU_OPEN :: "int" where "QU_OPEN \<equiv> 1"
abbreviation (input) QU_OBSERVER :: "int" where "QU_OBSERVER \<equiv> 2"
abbreviation (input) QU_RESTRICT :: "int" where "QU_RESTRICT \<equiv> 4"
abbreviation (input) QU_REPORT :: "int" where "QU_REPORT \<equiv> 8"
abbreviation (input) QU_TOK :: "int" where "QU_TOK \<equiv> 16"

subsection \<open>Drafting\<close>

abbreviation (input) INL_DRAFT_OFF :: "int" where "INL_DRAFT_OFF \<equiv> 0"
abbreviation (input) INL_DRAFT_MOVING_TO_POOL :: "int" where "INL_DRAFT_MOVING_TO_POOL \<equiv> 1"
abbreviation (input) INL_DRAFT_MOVING_TO_PICK :: "int" where "INL_DRAFT_MOVING_TO_PICK \<equiv> 5"

end
