(* ===== verification/Structs.thy ===== *)
theory Structs
  imports Defs
begin

text \<open>
  The shared memory of the server, without the message rings: the structures of \<^verbatim>\<open>include/struct.h\<close> and
  \<^verbatim>\<open>include/ltd_stats.h\<close> as records, and the record \<open>game\<close> that holds \<^verbatim>\<open>struct memory\<close>
  together with the sysdef variables of \<^verbatim>\<open>ntserv/data.c\<close>, the daemon's file scope
  variables and the per-process variables of the server processes.

  Arrays are functions on their index; a loop over an array is bounded as in the source.
  The sentinels \<^verbatim>\<open>VACANT\<close>, \<^verbatim>\<open>NODET\<close> and \<^verbatim>\<open>-1\<close> links are \<open>None\<close>.  Pointers to players and
  planets are their indices.
\<close>

subsection \<open>Statistics\<close>

record ltd_kills =
  lk_total :: "32 word"
  lk_max :: rat
  lk_first :: "32 word"
  lk_first_potential :: "32 word"
  lk_first_converted :: "32 word"
  lk_second :: "32 word"
  lk_second_potential :: "32 word"
  lk_second_converted :: "32 word"
  lk_phasered :: "32 word"
  lk_torped :: "32 word"
  lk_plasmaed :: "32 word"

record ltd_deaths =
  ld_total :: "32 word"
  ld_potential :: "32 word"
  ld_converted :: "32 word"
  ld_dooshed :: "32 word"
  ld_phasered :: "32 word"
  ld_torped :: "32 word"
  ld_plasmaed :: "32 word"
  ld_acc :: "32 word"

record ltd_planets =
  lp_taken :: "32 word"
  lp_destroyed :: "32 word"

record ltd_bomb =
  lb_planets :: "32 word"
  lb_planets_8 :: "32 word"
  lb_planets_core :: "32 word"
  lb_armies :: "32 word"
  lb_armies_8 :: "32 word"
  lb_armies_core :: "32 word"

record ltd_ogged =
  lo_armies :: "32 word"
  lo_dooshed :: "32 word"
  lo_converted :: "32 word"
  lo_potential :: "32 word"
  lo_bigger_ship :: "32 word"
  lo_same_ship :: "32 word"
  lo_smaller_ship :: "32 word"
  lo_sb_armies :: "32 word"
  lo_friendly :: "32 word"
  lo_friendly_armies :: "32 word"

record ltd_armies =
  la_total :: "32 word"
  la_attack :: "32 word"
  la_reinforce :: "32 word"
  la_ferries :: "32 word"
  la_killed :: "32 word"

record ltd_carries =
  lc_total :: "32 word"
  lc_partial :: "32 word"
  lc_completed :: "32 word"
  lc_attack :: "32 word"
  lc_reinforce :: "32 word"
  lc_ferries :: "32 word"

record ltd_ticks =
  lt_total :: "32 word"
  lt_yellow :: "32 word"
  lt_red :: "32 word"
  lt_zone :: "nat \<Rightarrow> 32 word"
  lt_potential :: "32 word"
  lt_carrier :: "32 word"
  lt_repair :: "32 word"

record ltd_damage =
  inflicted :: "32 word"
  taken :: "32 word"

record ltd_phaser =
  lph_fired :: "32 word"
  lph_hit :: "32 word"
  lph_damage :: ltd_damage

record ltd_torps =
  ltp_fired :: "32 word"
  ltp_hit :: "32 word"
  ltp_detted :: "32 word"
  ltp_selfdetted :: "32 word"
  ltp_wall :: "32 word"
  ltp_damage :: ltd_damage

record ltd_plasma =
  lpl_fired :: "32 word"
  lpl_hit :: "32 word"
  lpl_phasered :: "32 word"
  lpl_wall :: "32 word"
  lpl_damage :: ltd_damage

record ltd_stats =
  s_kills :: ltd_kills
  s_deaths :: ltd_deaths
  s_planets :: ltd_planets
  s_bomb :: ltd_bomb
  s_ogged :: ltd_ogged
  s_armies :: ltd_armies
  s_carries :: ltd_carries
  s_ticks :: ltd_ticks
  s_damage_repaired :: "32 word"
  s_phaser :: ltd_phaser
  s_torps :: ltd_torps
  s_plasma :: ltd_plasma

text \<open>
  The history of a player's events.  \<open>last_beamup_planet\<close> and \<open>last_beamdown_planet\<close> keep the
  source's codes: a planet number, \<open>-1\<close> for a starbase and \<open>-2\<close> for none.
\<close>

record ltd_kill =
  hk_tick :: "32 word"
  hk_potential :: int
  hk_victim :: "nat option"
  hk_before :: rat
  hk_ship :: int

abbreviation (input) LTD_NUM_HIST :: "nat" where "LTD_NUM_HIST \<equiv> 5"

record ltd_history =
  h_kills :: "nat \<Rightarrow> ltd_kill"
  num_kills :: int
  kill_potential :: int
  last_bombed_tick :: "32 word"
  last_bombed_planet :: int
  last_beamup_planet :: int
  last_beamdown_planet :: int
  enemy_team :: int

text \<open>
  The statistics slots: without LTD_PER_RACE there is one race, so \<open>ltd\<close> is indexed by ship
  slot only.  The two slots of the galaxy class and of the AT&T share a number.
\<close>

abbreviation (input) LTD_TOTAL :: "nat" where "LTD_TOTAL \<equiv> 0"
abbreviation (input) LTD_SC :: "nat" where "LTD_SC \<equiv> 1"
abbreviation (input) LTD_DD :: "nat" where "LTD_DD \<equiv> 2"
abbreviation (input) LTD_CA :: "nat" where "LTD_CA \<equiv> 3"
abbreviation (input) LTD_BB :: "nat" where "LTD_BB \<equiv> 4"
abbreviation (input) LTD_AS :: "nat" where "LTD_AS \<equiv> 5"
abbreviation (input) LTD_SB :: "nat" where "LTD_SB \<equiv> 6"
abbreviation (input) LTD_GA :: "nat" where "LTD_GA \<equiv> 7"
abbreviation (input) LTD_AT :: "nat" where "LTD_AT \<equiv> 7"
abbreviation (input) LTD_NUM_SHIPS :: "nat" where "LTD_NUM_SHIPS \<equiv> 8"

record stats =
  ltd :: "nat \<Rightarrow> ltd_stats"
  st_lastlogin :: int
  st_flags :: int
  st_keymap :: string
  st_rank :: int

subsection \<open>Ships\<close>

record ship =
  s_turns :: int
  s_accs :: int
  s_torpdamage :: int
  s_phaserdamage :: int
  s_phaserfuse :: int
  s_plasmadamage :: int
  s_torpspeed :: int
  s_torpfuse :: int
  s_torpturns :: int
  s_plasmaspeed :: int
  s_plasmafuse :: int
  s_plasmaturns :: int
  s_maxspeed :: int
  s_repair :: int
  s_maxfuel :: int
  s_torpcost :: int
  s_plasmacost :: int
  s_phasercost :: int
  s_detcost :: int
  s_warpcost :: int
  s_cloakcost :: int
  s_recharge :: int
  s_accint :: int
  s_decint :: int
  s_maxshield :: int
  s_maxdamage :: int
  s_maxegntemp :: int
  s_maxwpntemp :: int
  s_egncoolrate :: int
  s_wpncoolrate :: int
  s_maxarmies :: int
  s_width :: int
  s_height :: int
  s_type :: nat
  s_mass :: int
  s_tractstr :: int
  s_tractrng :: rat

subsection \<open>Players\<close>

record player =
  p_no :: nat
  p_updates :: int
  p_status :: pstatus
  p_flags :: "32 word"
  p_name :: string
  p_login :: string
  p_ip :: string
  p_monitor :: string
  p_longname :: string
  p_mapchars :: string
  p_ship :: ship
  p_x :: int
  p_y :: int
  p_x_internal :: int
  p_y_internal :: int
  p_x_input :: int
  p_y_input :: int
  p_x_y_set :: int
  p_x_min :: int
  p_y_min :: int
  p_x_max :: int
  p_y_max :: int
  p_dir :: "8 word"
  p_desdir :: "8 word"
  p_subdir :: int
  p_speed :: int
  p_desspeed :: int
  p_subspeed :: int
  p_team :: int
  p_damage :: int
  p_subdamage :: int
  p_shield :: int
  p_subshield :: int
  p_cloakphase :: int
  p_ntorp :: int
  p_nplasmatorp :: int
  p_hostile :: int
  p_swar :: int
  p_war :: int
  p_lastseenby :: "nat option"
  p_kills :: rat
  p_planet :: nat
  p_playerl :: nat
  p_playerl_tv :: int
  p_armies :: int
  p_fuel :: int
  p_explode :: int
  p_selfdest :: int
  p_etemp :: int
  p_etime :: int
  p_wtemp :: int
  p_wtime :: int
  p_whydead :: whydead
  p_whodead :: nat
  p_stats :: stats
  p_hist :: ltd_history
  p_bogus :: ltd_stats
  p_genoplanets :: int
  p_genoarmsbomb :: int
  p_planets :: int
  p_armsbomb :: int
  p_ghostbuster :: int
  p_bays :: "nat \<Rightarrow> nat option"
  p_dock_with :: nat
  p_dock_bay :: nat
  p_tractor :: nat
  p_pos :: int
  w_queue :: nat
  p_full_hostname :: string
  p_dns_hostname :: string
  p_xblproxy :: int
  p_sorbsproxy :: int
  p_njablproxy :: int
  p_avrt :: int
  p_stdv :: int
  p_pkls_c_s :: rat
  p_pkls_s_c :: rat
  p_ups :: int
  p_fpu :: int
  p_process :: int
  p_df :: int
  p_tg :: int
  voting :: "nat \<Rightarrow> int"
  p_candock :: bool
  p_cantranswarp :: bool
  p_transwarp :: "32 word"
  p_repair_time :: int
  p_inl_captain :: int
  p_inl_draft :: int
  p_inl_x :: int
  p_inl_y :: int
  p_inl_pool :: int
  p_inl_pick :: int
  p_ip_duplicates :: bool
  p_authorised :: bool
  p_verify_clue :: bool
  p_disconnect :: int
  p_sub_in :: bool
  p_sub_in_for :: int
  p_sub_out :: bool
  p_sub_out_for :: int
  p_ident :: string
  p_no_pick :: bool

subsection \<open>Torpedoes, phasers, planets, teams\<close>

text \<open>\<^verbatim>\<open>t_type\<close> is 0 in a torpedo record that was never fired.\<close>

record torp =
  t_status :: tstatus
  t_type :: int
  t_attribute :: int
  t_owner :: nat
  t_x :: int
  t_y :: int
  t_x_internal :: int
  t_y_internal :: int
  t_turns :: int
  t_damage :: int
  t_gspeed :: int
  t_fuse :: int
  t_dir :: "8 word"
  t_war :: int
  t_team :: int
  t_whodet :: "nat option"

record phaser =
  ph_status :: phstatus
  ph_dir :: "8 word"
  ph_target :: nat
  ph_x :: int
  ph_y :: int
  ph_fuse :: int
  ph_damage :: int

record planet =
  pl_no :: nat
  pl_flags :: int
  pl_owner :: int
  pl_x :: int
  pl_y :: int
  pl_name :: string
  pl_namelen :: nat
  pl_armies :: int
  pl_info :: int
  pl_deadtime :: int
  pl_couptime :: int

datatype surrender_pause =
  TE_SURRENDER_PAUSE_OFF | TE_SURRENDER_PAUSE_ON_TOURN | TE_SURRENDER_PAUSE_ON_PLANETS

record team =
  te_turns :: int
  te_surrender :: int
  te_surrender_frame :: int
  te_surrender_pause :: surrender_pause
  te_plcount :: int

subsection \<open>Queues\<close>

record pqueue =
  enter_sem :: int
  free_slots :: int
  max_slots :: int
  tournmask :: int
  low_slot :: nat
  high_slot :: nat
  q_prefer :: nat
  q_first :: "nat option"
  q_last :: "nat option"
  q_count :: "32 word"
  q_flags :: int
  q_name :: string

record queuewait =
  w_mynum :: nat
  w_inuse :: bool
  w_previous :: "nat option"
  w_next :: "nat option"
  w_count :: "32 word"
  w_wqueue :: "nat option"
  w_process :: int
  w_ip :: string
  w_host :: string

subsection \<open>Global state\<close>

record ban =
  b_remain :: int
  b_ip :: string

record status =
  st_tourn :: bool
  st_armsbomb :: "32 word"
  st_planets :: "32 word"
  st_kills :: "32 word"
  st_losses :: "32 word"
  st_time :: "32 word"
  st_timeprod :: rat
  gameup :: int

record contxt =
  c_daemon :: int
  frame :: int
  frame_tourn_start :: int
  frame_tourn_end :: int
  frame_test_mode :: int
  frame_test_counter :: int
  quorum :: "int \<times> int"
  blog_pickup_game_full :: int
  blog_pickup_queue_full :: int
  cp_planet_hits :: int
  cp_planet_miss :: int
  inl_draft :: int
  inl_pool :: int
  inl_home_pick :: int
  inl_away_pick :: int
  conquer_trigger :: int
  inl_game_ticks :: int
  inl_remaining :: int
  teacher_blocked_teams :: int
  teacher_phasers_none :: bool
  teacher_torps_none :: bool
  teacher_torps_some :: bool

text \<open>
  The system defaults (\<^verbatim>\<open>ntserv/data.c\<close>) that the modelled operations read.  The flags that the
  source uses as truth values are booleans.
\<close>

record sysdef =
  check_scum :: int
  genoquit :: int
  fps :: int
  distortion :: int
  minups :: int
  defups :: int
  maxups :: int
  topgun :: int
  plkills :: int
  tournplayers :: int
  sbplanets :: int
  max_chaos_bases :: int
  top_armies :: int
  max_pop :: int
  killer :: int
  surrenderStart :: int
  ddrank :: int
  garank :: int
  sbrank :: int
  asstorp_base :: int
  ghostbust_timer :: int
  twarpSpeed :: int
  hourratio :: int
  starbase_rebuild_time :: int
  logintime :: int
  pret_planets :: int
  inl_draft_style :: int
  ban_vote_duration :: int
  chaosmode :: bool
  safe_idle :: bool
  sborbit :: bool
  restrict_3rd_drop :: bool
  restrict_bomb :: bool
  no_unwarring_bombing :: bool
  classictourn :: bool
  wrap_galaxy :: bool
  pingpong_plasma :: bool
  vectortorps :: bool
  hiddenenemy :: bool
  newturn :: bool
  dead_warp :: bool
  twarpMode :: bool
  lame_refit :: bool
  lame_base_refit :: bool
  offense_rank :: bool
  is_robot_by_host :: bool
  planet_move :: bool
  pret_guest :: bool
  recreational_dogfight_mode :: bool
  self_reset :: bool
  doosher :: bool
  self_destruct_credit :: bool
  observer_keeps_game_alive :: bool
  planet_plague :: bool
  binconfirm :: bool
  voting_on :: bool
  ban_vote_enable :: bool
  eject_vote_enable :: bool
  eject_vote_only_if_queue :: bool
  eject_vote_vicious :: bool
  nopick_vote_enable :: bool
  galactic_smooth :: bool
  asstorp_fuel_mult :: rat
  asstorp_etemp_mult :: rat
  asstorp_wtemp_mult :: rat
  as_minimal_offense :: rat
  bb_minimal_offense :: rat
  dd_minimal_offense :: rat
  sb_minimal_offense :: rat
  sc_minimal_offense :: rat
  shipsallowed :: "nat \<Rightarrow> bool"
  wp_plasma :: bool
  wp_tractor :: bool
  startplanets :: "nat \<Rightarrow> bool"
  robot_host :: string

text \<open>
  Variables private to a player's server process: the end of the war and refit delays, the
  update of the last torpedo, the bombing confirmation counter, the client's options, and the
  counters of the commands a clue check looks at.
\<close>

record process =
  delay :: int
  rdelay :: int
  last_torp_fired_update :: int
  bombsOutOfTmode :: int
  has_set_speed :: int
  has_set_course :: int
  has_shield_up :: int
  has_shield_down :: int
  has_bombed :: int
  has_beamed_up :: int
  has_beamed_down :: int
  has_repaired :: int
  lastteam :: int
  lastrank :: int
  nowobble :: int
  sd_time_last :: int
  lastRefitValue :: int
  lastWarValue :: int
  mustexit :: bool
  living :: bool
  send_short :: bool
  Observer :: bool
  keeppeace :: bool
  F_tips :: bool
  tips_enabled :: bool

text \<open>
  The static variables of the daemon: the frame at which an empty server ends, the state of
  tournament mode and its last announcement, the kills of the ghost busters, and the conquest
  parade (the winner's number is \<open>-1\<close> in a parade without winner).
\<close>

datatype tourn_state = TS_PICKUP | TS_SCUMMERS | TS_BEGIN | TS_TOURNAMENT | TS_END

record daemon_vars =
  dietime :: int
  tstate :: tourn_state
  oldmessage :: int
  ghostkills :: rat
  pause_cycle :: int
  ups_counter :: int
  conquer_player :: int
  conquer_planet :: nat
  conquer_timer :: int
  conquer_type :: int
  planeti :: nat
  planetj :: nat
  pl_dist :: "nat \<Rightarrow> int"

text \<open>
  What the processes write: warnings to the player of a process (with the message number, \<open>-1\<close>
  when the source passes \<^verbatim>\<open>UNDEF\<close>, and the format string; the formatted arguments are not kept),
  short warnings, messages to players with recipient, address and format (and their numbers,
  where the numbers matter), kill messages, and
  requests to start another program.
\<close>

abbreviation (input) UNDEF :: "int" where "UNDEF \<equiv> -1"

datatype out_event =
    New_warning nat int string
  | Swarning nat string int int
  | Pmessage int string string
  | Pmessagef int string string "int list"
  | Killmess nat "nat option" "nat option" whydead
  | Rescue int "nat option"
  | Blog string
  | Script string
  | Robot int
  | Ghostmess nat string
  | Saveplayer nat
  | Conquest string
  | Sigterm int
  | Sigalrm int
  | God int string

text \<open>
  The whole state.  \<open>torps\<close> holds the photon torpedoes of player \<open>i\<close> at \<open>8 * i\<close> onwards and the
  plasma of player \<open>i\<close> at \<open>8 * 32 + i\<close>.  \<open>rng\<close> is the sequence of results of \<^verbatim>\<open>random()\<close>, and
  \<open>rng_pos\<close> counts the calls made so far.
\<close>

record game =
  players :: "nat \<Rightarrow> player"
  torps :: "nat \<Rightarrow> torp"
  planets :: "nat \<Rightarrow> planet"
  phasers :: "nat \<Rightarrow> phaser"
  teams :: "nat \<Rightarrow> team"
  status :: status
  ctxt :: contxt
  shipvals :: "nat \<Rightarrow> ship"
  queues :: "nat \<Rightarrow> pqueue"
  waiting :: "nat \<Rightarrow> queuewait"
  bans :: "nat \<Rightarrow> ban"
  cfg :: sysdef
  tcount :: "nat \<Rightarrow> int"
  pl_warning :: "nat \<Rightarrow> int"
  tm_robots :: "nat \<Rightarrow> int"
  pl_poporder :: "nat \<Rightarrow> int"
  lastpop :: nat
  procs :: "nat \<Rightarrow> process"
  dmn :: daemon_vars
  rng :: "nat \<Rightarrow> nat"
  rng_pos :: nat
  outputs :: "out_event list"

subsection \<open>Updating one element\<close>

definition upd_player :: "nat \<Rightarrow> (player \<Rightarrow> player) \<Rightarrow> game \<Rightarrow> game" where
  "upd_player i f g = g\<lparr>players := (players g)(i := f (players g i))\<rparr>"

definition upd_ban :: "nat \<Rightarrow> (ban \<Rightarrow> ban) \<Rightarrow> game \<Rightarrow> game" where
  "upd_ban i f g = g\<lparr>bans := (bans g)(i := f (bans g i))\<rparr>"

definition upd_torp :: "nat \<Rightarrow> (torp \<Rightarrow> torp) \<Rightarrow> game \<Rightarrow> game" where
  "upd_torp i f g = g\<lparr>torps := (torps g)(i := f (torps g i))\<rparr>"

definition upd_planet :: "nat \<Rightarrow> (planet \<Rightarrow> planet) \<Rightarrow> game \<Rightarrow> game" where
  "upd_planet i f g = g\<lparr>planets := (planets g)(i := f (planets g i))\<rparr>"

definition upd_phaser :: "nat \<Rightarrow> (phaser \<Rightarrow> phaser) \<Rightarrow> game \<Rightarrow> game" where
  "upd_phaser i f g = g\<lparr>phasers := (phasers g)(i := f (phasers g i))\<rparr>"

definition upd_team :: "nat \<Rightarrow> (team \<Rightarrow> team) \<Rightarrow> game \<Rightarrow> game" where
  "upd_team i f g = g\<lparr>teams := (teams g)(i := f (teams g i))\<rparr>"

definition upd_queue :: "nat \<Rightarrow> (pqueue \<Rightarrow> pqueue) \<Rightarrow> game \<Rightarrow> game" where
  "upd_queue i f g = g\<lparr>queues := (queues g)(i := f (queues g i))\<rparr>"

definition upd_wait :: "nat \<Rightarrow> (queuewait \<Rightarrow> queuewait) \<Rightarrow> game \<Rightarrow> game" where
  "upd_wait i f g = g\<lparr>waiting := (waiting g)(i := f (waiting g i))\<rparr>"

definition upd_proc :: "nat \<Rightarrow> (process \<Rightarrow> process) \<Rightarrow> game \<Rightarrow> game" where
  "upd_proc i f g = g\<lparr>procs := (procs g)(i := f (procs g i))\<rparr>"

lemma upd_player_simps [simp]:
  "players (upd_player i f g) = (players g)(i := f (players g i))"
  "torps (upd_player i f g) = torps g"
  "planets (upd_player i f g) = planets g"
  "phasers (upd_player i f g) = phasers g"
  "teams (upd_player i f g) = teams g"
  "status (upd_player i f g) = status g"
  "ctxt (upd_player i f g) = ctxt g"
  "shipvals (upd_player i f g) = shipvals g"
  "queues (upd_player i f g) = queues g"
  "waiting (upd_player i f g) = waiting g"
  "cfg (upd_player i f g) = cfg g"
  "tcount (upd_player i f g) = tcount g"
  "pl_warning (upd_player i f g) = pl_warning g"
  "tm_robots (upd_player i f g) = tm_robots g"
  "pl_poporder (upd_player i f g) = pl_poporder g"
  "lastpop (upd_player i f g) = lastpop g"
  "procs (upd_player i f g) = procs g"
  "dmn (upd_player i f g) = dmn g"
  "rng (upd_player i f g) = rng g"
  "rng_pos (upd_player i f g) = rng_pos g"
  "outputs (upd_player i f g) = outputs g"
  by (simp_all add: upd_player_def)

lemma upd_torp_simps [simp]:
  "torps (upd_torp i f g) = (torps g)(i := f (torps g i))"
  "players (upd_torp i f g) = players g"
  "planets (upd_torp i f g) = planets g"
  "phasers (upd_torp i f g) = phasers g"
  "teams (upd_torp i f g) = teams g"
  "status (upd_torp i f g) = status g"
  "ctxt (upd_torp i f g) = ctxt g"
  "shipvals (upd_torp i f g) = shipvals g"
  "queues (upd_torp i f g) = queues g"
  "waiting (upd_torp i f g) = waiting g"
  "cfg (upd_torp i f g) = cfg g"
  "tcount (upd_torp i f g) = tcount g"
  "pl_warning (upd_torp i f g) = pl_warning g"
  "tm_robots (upd_torp i f g) = tm_robots g"
  "pl_poporder (upd_torp i f g) = pl_poporder g"
  "lastpop (upd_torp i f g) = lastpop g"
  "procs (upd_torp i f g) = procs g"
  "dmn (upd_torp i f g) = dmn g"
  "rng (upd_torp i f g) = rng g"
  "rng_pos (upd_torp i f g) = rng_pos g"
  "outputs (upd_torp i f g) = outputs g"
  by (simp_all add: upd_torp_def)

lemma upd_planet_simps [simp]:
  "planets (upd_planet i f g) = (planets g)(i := f (planets g i))"
  "players (upd_planet i f g) = players g"
  "torps (upd_planet i f g) = torps g"
  "phasers (upd_planet i f g) = phasers g"
  "teams (upd_planet i f g) = teams g"
  "status (upd_planet i f g) = status g"
  "ctxt (upd_planet i f g) = ctxt g"
  "shipvals (upd_planet i f g) = shipvals g"
  "queues (upd_planet i f g) = queues g"
  "waiting (upd_planet i f g) = waiting g"
  "cfg (upd_planet i f g) = cfg g"
  "tcount (upd_planet i f g) = tcount g"
  "pl_warning (upd_planet i f g) = pl_warning g"
  "tm_robots (upd_planet i f g) = tm_robots g"
  "pl_poporder (upd_planet i f g) = pl_poporder g"
  "lastpop (upd_planet i f g) = lastpop g"
  "procs (upd_planet i f g) = procs g"
  "dmn (upd_planet i f g) = dmn g"
  "rng (upd_planet i f g) = rng g"
  "rng_pos (upd_planet i f g) = rng_pos g"
  "outputs (upd_planet i f g) = outputs g"
  by (simp_all add: upd_planet_def)

lemma upd_phaser_simps [simp]:
  "phasers (upd_phaser i f g) = (phasers g)(i := f (phasers g i))"
  "players (upd_phaser i f g) = players g"
  "torps (upd_phaser i f g) = torps g"
  "planets (upd_phaser i f g) = planets g"
  "teams (upd_phaser i f g) = teams g"
  "status (upd_phaser i f g) = status g"
  "ctxt (upd_phaser i f g) = ctxt g"
  "shipvals (upd_phaser i f g) = shipvals g"
  "queues (upd_phaser i f g) = queues g"
  "waiting (upd_phaser i f g) = waiting g"
  "cfg (upd_phaser i f g) = cfg g"
  "tcount (upd_phaser i f g) = tcount g"
  "pl_warning (upd_phaser i f g) = pl_warning g"
  "tm_robots (upd_phaser i f g) = tm_robots g"
  "pl_poporder (upd_phaser i f g) = pl_poporder g"
  "lastpop (upd_phaser i f g) = lastpop g"
  "procs (upd_phaser i f g) = procs g"
  "dmn (upd_phaser i f g) = dmn g"
  "rng (upd_phaser i f g) = rng g"
  "rng_pos (upd_phaser i f g) = rng_pos g"
  "outputs (upd_phaser i f g) = outputs g"
  by (simp_all add: upd_phaser_def)

lemma upd_team_simps [simp]:
  "teams (upd_team i f g) = (teams g)(i := f (teams g i))"
  "players (upd_team i f g) = players g"
  "torps (upd_team i f g) = torps g"
  "planets (upd_team i f g) = planets g"
  "phasers (upd_team i f g) = phasers g"
  "status (upd_team i f g) = status g"
  "ctxt (upd_team i f g) = ctxt g"
  "shipvals (upd_team i f g) = shipvals g"
  "queues (upd_team i f g) = queues g"
  "waiting (upd_team i f g) = waiting g"
  "cfg (upd_team i f g) = cfg g"
  "tcount (upd_team i f g) = tcount g"
  "pl_warning (upd_team i f g) = pl_warning g"
  "tm_robots (upd_team i f g) = tm_robots g"
  "pl_poporder (upd_team i f g) = pl_poporder g"
  "lastpop (upd_team i f g) = lastpop g"
  "procs (upd_team i f g) = procs g"
  "dmn (upd_team i f g) = dmn g"
  "rng (upd_team i f g) = rng g"
  "rng_pos (upd_team i f g) = rng_pos g"
  "outputs (upd_team i f g) = outputs g"
  by (simp_all add: upd_team_def)

lemma upd_queue_simps [simp]:
  "queues (upd_queue i f g) = (queues g)(i := f (queues g i))"
  "players (upd_queue i f g) = players g"
  "torps (upd_queue i f g) = torps g"
  "planets (upd_queue i f g) = planets g"
  "phasers (upd_queue i f g) = phasers g"
  "teams (upd_queue i f g) = teams g"
  "status (upd_queue i f g) = status g"
  "ctxt (upd_queue i f g) = ctxt g"
  "shipvals (upd_queue i f g) = shipvals g"
  "waiting (upd_queue i f g) = waiting g"
  "cfg (upd_queue i f g) = cfg g"
  "tcount (upd_queue i f g) = tcount g"
  "pl_warning (upd_queue i f g) = pl_warning g"
  "tm_robots (upd_queue i f g) = tm_robots g"
  "pl_poporder (upd_queue i f g) = pl_poporder g"
  "lastpop (upd_queue i f g) = lastpop g"
  "procs (upd_queue i f g) = procs g"
  "dmn (upd_queue i f g) = dmn g"
  "rng (upd_queue i f g) = rng g"
  "rng_pos (upd_queue i f g) = rng_pos g"
  "outputs (upd_queue i f g) = outputs g"
  by (simp_all add: upd_queue_def)

lemma upd_wait_simps [simp]:
  "waiting (upd_wait i f g) = (waiting g)(i := f (waiting g i))"
  "players (upd_wait i f g) = players g"
  "torps (upd_wait i f g) = torps g"
  "planets (upd_wait i f g) = planets g"
  "phasers (upd_wait i f g) = phasers g"
  "teams (upd_wait i f g) = teams g"
  "status (upd_wait i f g) = status g"
  "ctxt (upd_wait i f g) = ctxt g"
  "shipvals (upd_wait i f g) = shipvals g"
  "queues (upd_wait i f g) = queues g"
  "cfg (upd_wait i f g) = cfg g"
  "tcount (upd_wait i f g) = tcount g"
  "pl_warning (upd_wait i f g) = pl_warning g"
  "tm_robots (upd_wait i f g) = tm_robots g"
  "pl_poporder (upd_wait i f g) = pl_poporder g"
  "lastpop (upd_wait i f g) = lastpop g"
  "procs (upd_wait i f g) = procs g"
  "dmn (upd_wait i f g) = dmn g"
  "rng (upd_wait i f g) = rng g"
  "rng_pos (upd_wait i f g) = rng_pos g"
  "outputs (upd_wait i f g) = outputs g"
  by (simp_all add: upd_wait_def)

lemma upd_proc_simps [simp]:
  "procs (upd_proc i f g) = (procs g)(i := f (procs g i))"
  "players (upd_proc i f g) = players g"
  "torps (upd_proc i f g) = torps g"
  "planets (upd_proc i f g) = planets g"
  "phasers (upd_proc i f g) = phasers g"
  "teams (upd_proc i f g) = teams g"
  "status (upd_proc i f g) = status g"
  "ctxt (upd_proc i f g) = ctxt g"
  "shipvals (upd_proc i f g) = shipvals g"
  "queues (upd_proc i f g) = queues g"
  "waiting (upd_proc i f g) = waiting g"
  "cfg (upd_proc i f g) = cfg g"
  "tcount (upd_proc i f g) = tcount g"
  "pl_warning (upd_proc i f g) = pl_warning g"
  "tm_robots (upd_proc i f g) = tm_robots g"
  "pl_poporder (upd_proc i f g) = pl_poporder g"
  "lastpop (upd_proc i f g) = lastpop g"
  "dmn (upd_proc i f g) = dmn g"
  "rng (upd_proc i f g) = rng g"
  "rng_pos (upd_proc i f g) = rng_pos g"
  "outputs (upd_proc i f g) = outputs g"
  by (simp_all add: upd_proc_def)

text \<open>Output is a list in order of writing.\<close>

definition emit :: "out_event \<Rightarrow> game \<Rightarrow> game" where
  "emit e g = g\<lparr>outputs := outputs g @ [e]\<rparr>"

lemma emit_simps [simp]:
  "outputs (emit e g) = outputs g @ [e]"
  "players (emit e g) = players g"
  "torps (emit e g) = torps g"
  "planets (emit e g) = planets g"
  "phasers (emit e g) = phasers g"
  "teams (emit e g) = teams g"
  "status (emit e g) = status g"
  "ctxt (emit e g) = ctxt g"
  "shipvals (emit e g) = shipvals g"
  "queues (emit e g) = queues g"
  "waiting (emit e g) = waiting g"
  "cfg (emit e g) = cfg g"
  "tcount (emit e g) = tcount g"
  "pl_warning (emit e g) = pl_warning g"
  "tm_robots (emit e g) = tm_robots g"
  "pl_poporder (emit e g) = pl_poporder g"
  "lastpop (emit e g) = lastpop g"
  "procs (emit e g) = procs g"
  "dmn (emit e g) = dmn g"
  "rng (emit e g) = rng g"
  "rng_pos (emit e g) = rng_pos g"
  by (simp_all add: emit_def)

text \<open>One call of \<^verbatim>\<open>random()\<close>: a number below \<open>2 ^ 31\<close>.\<close>

definition rand_val :: "game \<Rightarrow> int" where
  "rand_val g = int (rng g (rng_pos g) mod 2147483648)"

definition rand_next :: "game \<Rightarrow> game" where
  "rand_next g = g\<lparr>rng_pos := Suc (rng_pos g)\<rparr>"

lemma rand_next_simps [simp]:
  "rng_pos (rand_next g) = Suc (rng_pos g)"
  "players (rand_next g) = players g"
  "torps (rand_next g) = torps g"
  "planets (rand_next g) = planets g"
  "phasers (rand_next g) = phasers g"
  "teams (rand_next g) = teams g"
  "status (rand_next g) = status g"
  "ctxt (rand_next g) = ctxt g"
  "shipvals (rand_next g) = shipvals g"
  "queues (rand_next g) = queues g"
  "waiting (rand_next g) = waiting g"
  "cfg (rand_next g) = cfg g"
  "tcount (rand_next g) = tcount g"
  "pl_warning (rand_next g) = pl_warning g"
  "tm_robots (rand_next g) = tm_robots g"
  "pl_poporder (rand_next g) = pl_poporder g"
  "lastpop (rand_next g) = lastpop g"
  "procs (rand_next g) = procs g"
  "dmn (rand_next g) = dmn g"
  "rng (rand_next g) = rng g"
  "outputs (rand_next g) = outputs g"
  by (simp_all add: rand_next_def)

lemma rand_val_bounds: "0 \<le> rand_val g" "rand_val g < 2147483648"
  by (simp_all add: rand_val_def)

lemma rand_mod_bounds: "0 < n \<Longrightarrow> 0 \<le> rand_val g mod n \<and> rand_val g mod n < n"
  by simp

subsection \<open>Macros of the structures\<close>

text \<open>The game modes, and the tests of \<^verbatim>\<open>include/defs.h\<close> on players and torpedoes.\<close>

abbreviation gu :: "int \<Rightarrow> game \<Rightarrow> bool" where
  "gu f g \<equiv> meets (gameup (status g)) f"

abbreviation tourn :: "game \<Rightarrow> bool" where "tourn g \<equiv> st_tourn (status g)"

definition practice_mode :: "game \<Rightarrow> bool" where "practice_mode g = gu GU_PRACTICE g"

definition chaos :: "game \<Rightarrow> bool" where "chaos g = gu GU_CHAOS g"

definition inl_mode :: "game \<Rightarrow> bool" where "inl_mode g = gu GU_INROBOT g"

definition pre_t_mode :: "game \<Rightarrow> bool" where "pre_t_mode g = gu GU_PRET g"

definition bot_in_game :: "game \<Rightarrow> bool" where "bot_in_game g = gu GU_BOT_IN_GAME g"

definition hockey_mode :: "game \<Rightarrow> bool" where "hockey_mode g = gu GU_PUCK g"

abbreviation pl :: "nat \<Rightarrow> game \<Rightarrow> player" where "pl i g \<equiv> players g i"

abbreviation pflag :: "nat \<Rightarrow> 32 word \<Rightarrow> game \<Rightarrow> bool" where
  "pflag i m g \<equiv> has (p_flags (players g i)) m"

abbreviation warn :: "nat \<Rightarrow> int \<Rightarrow> string \<Rightarrow> game \<Rightarrow> game" where
  "warn me n msg g \<equiv> emit (New_warning me n msg) g"

subsection \<open>A blank state\<close>

text \<open>A concrete state for examples: every counter zero, every slot free, nothing linked.\<close>

definition blank_ltd_kills :: ltd_kills where
  "blank_ltd_kills = \<lparr>lk_total = 0, lk_max = 0, lk_first = 0, lk_first_potential = 0,
     lk_first_converted = 0, lk_second = 0, lk_second_potential = 0,
     lk_second_converted = 0, lk_phasered = 0, lk_torped = 0, lk_plasmaed = 0\<rparr>"

definition blank_ltd_deaths :: ltd_deaths where
  "blank_ltd_deaths = \<lparr>ld_total = 0, ld_potential = 0, ld_converted = 0, ld_dooshed = 0, ld_phasered = 0,
     ld_torped = 0, ld_plasmaed = 0, ld_acc = 0\<rparr>"

definition blank_ltd_planets :: ltd_planets where
  "blank_ltd_planets = \<lparr>lp_taken = 0, lp_destroyed = 0\<rparr>"

definition blank_ltd_bomb :: ltd_bomb where
  "blank_ltd_bomb = \<lparr>lb_planets = 0, lb_planets_8 = 0, lb_planets_core = 0, lb_armies = 0, lb_armies_8 = 0,
     lb_armies_core = 0\<rparr>"

definition blank_ltd_ogged :: ltd_ogged where
  "blank_ltd_ogged = \<lparr>lo_armies = 0, lo_dooshed = 0, lo_converted = 0, lo_potential = 0, lo_bigger_ship = 0,
     lo_same_ship = 0, lo_smaller_ship = 0, lo_sb_armies = 0, lo_friendly = 0,
     lo_friendly_armies = 0\<rparr>"

definition blank_ltd_armies :: ltd_armies where
  "blank_ltd_armies = \<lparr>la_total = 0, la_attack = 0, la_reinforce = 0, la_ferries = 0, la_killed = 0\<rparr>"

definition blank_ltd_carries :: ltd_carries where
  "blank_ltd_carries = \<lparr>lc_total = 0, lc_partial = 0, lc_completed = 0, lc_attack = 0, lc_reinforce = 0,
     lc_ferries = 0\<rparr>"

definition blank_ltd_ticks :: ltd_ticks where
  "blank_ltd_ticks = \<lparr>lt_total = 0, lt_yellow = 0, lt_red = 0, lt_zone = (\<lambda>_. 0), lt_potential = 0,
     lt_carrier = 0, lt_repair = 0\<rparr>"

definition blank_ltd_damage :: ltd_damage where
  "blank_ltd_damage = \<lparr>inflicted = 0, taken = 0\<rparr>"

definition blank_ltd_phaser :: ltd_phaser where
  "blank_ltd_phaser = \<lparr>lph_fired = 0, lph_hit = 0, lph_damage = blank_ltd_damage\<rparr>"

definition blank_ltd_torps :: ltd_torps where
  "blank_ltd_torps = \<lparr>ltp_fired = 0, ltp_hit = 0, ltp_detted = 0, ltp_selfdetted = 0, ltp_wall = 0,
     ltp_damage = blank_ltd_damage\<rparr>"

definition blank_ltd_plasma :: ltd_plasma where
  "blank_ltd_plasma = \<lparr>lpl_fired = 0, lpl_hit = 0, lpl_phasered = 0, lpl_wall = 0,
     lpl_damage = blank_ltd_damage\<rparr>"

definition blank_ltd_stats :: ltd_stats where
  "blank_ltd_stats = \<lparr>s_kills = blank_ltd_kills, s_deaths = blank_ltd_deaths, s_planets = blank_ltd_planets,
     s_bomb = blank_ltd_bomb, s_ogged = blank_ltd_ogged, s_armies = blank_ltd_armies,
     s_carries = blank_ltd_carries, s_ticks = blank_ltd_ticks, s_damage_repaired = 0,
     s_phaser = blank_ltd_phaser, s_torps = blank_ltd_torps, s_plasma = blank_ltd_plasma\<rparr>"

definition blank_ltd_kill :: ltd_kill where
  "blank_ltd_kill = \<lparr>hk_tick = 0, hk_potential = 0, hk_victim = None, hk_before = 0, hk_ship = 0\<rparr>"

definition blank_ltd_history :: ltd_history where
  "blank_ltd_history = \<lparr>h_kills = (\<lambda>_. blank_ltd_kill), num_kills = 0, kill_potential = 0,
     last_bombed_tick = 0, last_bombed_planet = 0, last_beamup_planet = 0,
     last_beamdown_planet = 0, enemy_team = 0\<rparr>"

definition blank_stats :: stats where
  "blank_stats = \<lparr>ltd = (\<lambda>_. blank_ltd_stats), st_lastlogin = 0, st_flags = 0, st_keymap = [],
     st_rank = 0\<rparr>"

definition blank_ship :: ship where
  "blank_ship = \<lparr>s_turns = 0, s_accs = 0, s_torpdamage = 0, s_phaserdamage = 0, s_phaserfuse = 0,
     s_plasmadamage = 0, s_torpspeed = 0, s_torpfuse = 0, s_torpturns = 0,
     s_plasmaspeed = 0, s_plasmafuse = 0, s_plasmaturns = 0, s_maxspeed = 0, s_repair = 0,
     s_maxfuel = 0, s_torpcost = 0, s_plasmacost = 0, s_phasercost = 0, s_detcost = 0,
     s_warpcost = 0, s_cloakcost = 0, s_recharge = 0, s_accint = 0, s_decint = 0,
     s_maxshield = 0, s_maxdamage = 0, s_maxegntemp = 0, s_maxwpntemp = 0,
     s_egncoolrate = 0, s_wpncoolrate = 0, s_maxarmies = 0, s_width = 0, s_height = 0,
     s_type = 0, s_mass = 0, s_tractstr = 0, s_tractrng = 0\<rparr>"

definition blank_player :: player where
  "blank_player = \<lparr>p_no = 0, p_updates = 0, p_status = PFREE, p_flags = 0, p_name = [], p_login = [],
     p_ip = [], p_monitor = [], p_longname = [], p_mapchars = [], p_ship = blank_ship,
     p_x = 0, p_y = 0, p_x_internal = 0, p_y_internal = 0, p_x_input = 0, p_y_input = 0,
     p_x_y_set = 0, p_x_min = 0, p_y_min = 0, p_x_max = 0, p_y_max = 0, p_dir = 0,
     p_desdir = 0, p_subdir = 0, p_speed = 0, p_desspeed = 0, p_subspeed = 0, p_team = 0,
     p_damage = 0, p_subdamage = 0, p_shield = 0, p_subshield = 0, p_cloakphase = 0,
     p_ntorp = 0, p_nplasmatorp = 0, p_hostile = 0, p_swar = 0, p_war = 0,
     p_lastseenby = None, p_kills = 0, p_planet = 0, p_playerl = 0, p_playerl_tv = 0,
     p_armies = 0, p_fuel = 0, p_explode = 0, p_selfdest = 0, p_etemp = 0, p_etime = 0,
     p_wtemp = 0, p_wtime = 0, p_whydead = KLOGIN, p_whodead = 0, p_stats = blank_stats,
     p_hist = blank_ltd_history, p_bogus = blank_ltd_stats, p_genoplanets = 0,
     p_genoarmsbomb = 0, p_planets = 0, p_armsbomb = 0, p_ghostbuster = 0,
     p_bays = (\<lambda>_. None), p_dock_with = 0, p_dock_bay = 0, p_tractor = 0,
     p_pos = 0, w_queue = 0, p_full_hostname = [], p_dns_hostname = [], p_xblproxy = 0,
     p_sorbsproxy = 0, p_njablproxy = 0, p_avrt = 0, p_stdv = 0, p_pkls_c_s = 0,
     p_pkls_s_c = 0, p_ups = 0, p_fpu = 0, p_process = 0, p_df = 0, p_tg = 0,
     voting = (\<lambda>_. 0), p_candock = False, p_cantranswarp = False, p_transwarp = 0,
     p_repair_time = 0, p_inl_captain = 0, p_inl_draft = 0, p_inl_x = 0, p_inl_y = 0,
     p_inl_pool = 0, p_inl_pick = 0, p_ip_duplicates = False, p_authorised = False,
     p_verify_clue = False, p_disconnect = 0, p_sub_in = False, p_sub_in_for = 0,
     p_sub_out = False, p_sub_out_for = 0, p_ident = [], p_no_pick = False\<rparr>"

definition blank_torp :: torp where
  "blank_torp = \<lparr>t_status = TFREE, t_type = 0, t_attribute = 0, t_owner = 0, t_x = 0, t_y = 0,
     t_x_internal = 0, t_y_internal = 0, t_turns = 0, t_damage = 0, t_gspeed = 0,
     t_fuse = 0, t_dir = 0, t_war = 0, t_team = 0, t_whodet = None\<rparr>"

definition blank_phaser :: phaser where
  "blank_phaser = \<lparr>ph_status = PHFREE, ph_dir = 0, ph_target = 0, ph_x = 0, ph_y = 0, ph_fuse = 0,
     ph_damage = 0\<rparr>"

definition blank_planet :: planet where
  "blank_planet = \<lparr>pl_no = 0, pl_flags = 0, pl_owner = 0, pl_x = 0, pl_y = 0, pl_name = [],
     pl_namelen = 0, pl_armies = 0, pl_info = 0, pl_deadtime = 0, pl_couptime = 0\<rparr>"

definition blank_team :: team where
  "blank_team = \<lparr>te_turns = 0, te_surrender = 0, te_surrender_frame = 0,
     te_surrender_pause = TE_SURRENDER_PAUSE_OFF, te_plcount = 0\<rparr>"

definition blank_pqueue :: pqueue where
  "blank_pqueue = \<lparr>enter_sem = 0, free_slots = 0, max_slots = 0, tournmask = 0, low_slot = 0,
     high_slot = 0, q_prefer = 0, q_first = None, q_last = None, q_count = 0, q_flags = 0,
     q_name = []\<rparr>"

definition blank_queuewait :: queuewait where
  "blank_queuewait = \<lparr>w_mynum = 0, w_inuse = False, w_previous = None, w_next = None, w_count = 0,
     w_wqueue = None, w_process = 0, w_ip = [], w_host = []\<rparr>"

definition blank_ban :: ban where
  "blank_ban = \<lparr>b_remain = 0, b_ip = []\<rparr>"

definition blank_status :: status where
  "blank_status = \<lparr>st_tourn = False, st_armsbomb = 0, st_planets = 0, st_kills = 0, st_losses = 0,
     st_time = 0, st_timeprod = 0, gameup = 0\<rparr>"

definition blank_contxt :: contxt where
  "blank_contxt = \<lparr>c_daemon = 0, frame = 0, frame_tourn_start = 0, frame_tourn_end = 0,
     frame_test_mode = 0, frame_test_counter = 0, quorum = (0, 0),
     blog_pickup_game_full = 0, blog_pickup_queue_full = 0, cp_planet_hits = 0,
     cp_planet_miss = 0, inl_draft = 0, inl_pool = 0, inl_home_pick = 0, inl_away_pick = 0,
     conquer_trigger = 0, inl_game_ticks = 0, inl_remaining = 0, teacher_blocked_teams = 0,
     teacher_phasers_none = False, teacher_torps_none = False, teacher_torps_some = False\<rparr>"

definition blank_sysdef :: sysdef where
  "blank_sysdef = \<lparr>check_scum = 0, genoquit = 0, fps = 0, distortion = 0, minups = 0, defups = 0,
     maxups = 0, topgun = 0, plkills = 0, tournplayers = 0, sbplanets = 0,
     max_chaos_bases = 0, top_armies = 0, max_pop = 0, killer = 0, surrenderStart = 0,
     ddrank = 0, garank = 0, sbrank = 0, asstorp_base = 0, ghostbust_timer = 0,
     twarpSpeed = 0, hourratio = 0, starbase_rebuild_time = 0, logintime = 0,
     pret_planets = 0, inl_draft_style = 0, ban_vote_duration = 0, chaosmode = False, safe_idle = False,
     sborbit = False, restrict_3rd_drop = False, restrict_bomb = False,
     no_unwarring_bombing = False, classictourn = False, wrap_galaxy = False,
     pingpong_plasma = False, vectortorps = False, hiddenenemy = False, newturn = False,
     dead_warp = False, twarpMode = False, lame_refit = False, lame_base_refit = False,
     offense_rank = False, is_robot_by_host = False, planet_move = False,
     pret_guest = False, recreational_dogfight_mode = False, self_reset = False,
     doosher = False, self_destruct_credit = False, observer_keeps_game_alive = False,
     planet_plague = False, binconfirm = False, voting_on = False, ban_vote_enable = False,
     eject_vote_enable = False, eject_vote_only_if_queue = False, eject_vote_vicious = False,
     nopick_vote_enable = False, galactic_smooth = False, asstorp_fuel_mult = 0,
     asstorp_etemp_mult = 0, asstorp_wtemp_mult = 0, as_minimal_offense = 0,
     bb_minimal_offense = 0, dd_minimal_offense = 0, sb_minimal_offense = 0,
     sc_minimal_offense = 0, shipsallowed = (\<lambda>_. False), wp_plasma = False,
     wp_tractor = False, startplanets = (\<lambda>_. False), robot_host = []\<rparr>"

definition blank_process :: process where
  "blank_process = \<lparr>delay = 0, rdelay = 0, last_torp_fired_update = 0, bombsOutOfTmode = 0,
     has_set_speed = 0, has_set_course = 0, has_shield_up = 0, has_shield_down = 0,
     has_bombed = 0, has_beamed_up = 0, has_beamed_down = 0, has_repaired = 0,
     lastteam = 0, lastrank = 0, nowobble = 0, sd_time_last = 0, lastRefitValue = 0,
     lastWarValue = 0, mustexit = False, living = False, send_short = False,
     Observer = False, keeppeace = False, F_tips = False, tips_enabled = False\<rparr>"

definition blank_daemon_vars :: daemon_vars where
  "blank_daemon_vars = \<lparr>dietime = 0, tstate = TS_PICKUP, oldmessage = 0, ghostkills = 0, pause_cycle = 0,
     ups_counter = 0, conquer_player = 0, conquer_planet = 0, conquer_timer = 0,
     conquer_type = 0, planeti = 0, planetj = 0, pl_dist = (\<lambda>_. 0)\<rparr>"

definition blank_game :: game where
  "blank_game = \<lparr>players = (\<lambda>i. blank_player\<lparr>p_no := i\<rparr>),
     torps = (\<lambda>_. blank_torp),
     planets = (\<lambda>i. blank_planet\<lparr>pl_no := i\<rparr>),
     phasers = (\<lambda>_. blank_phaser), teams = (\<lambda>_. blank_team),
     status = blank_status, ctxt = blank_contxt, shipvals = (\<lambda>_. blank_ship),
     queues = (\<lambda>_. blank_pqueue), waiting = (\<lambda>_. blank_queuewait), bans = (\<lambda>_. blank_ban),
     cfg = blank_sysdef, tcount = (\<lambda>_. 0), pl_warning = (\<lambda>_. 0),
     tm_robots = (\<lambda>_. 0), pl_poporder = (\<lambda>_. 0), lastpop = 0,
     procs = (\<lambda>_. blank_process), dmn = blank_daemon_vars, rng = (\<lambda>_. 0),
     rng_pos = 0, outputs = []\<rparr>"

lemmas blank_defs = blank_ltd_kills_def blank_ltd_deaths_def blank_ltd_planets_def
  blank_ltd_bomb_def blank_ltd_ogged_def blank_ltd_armies_def blank_ltd_carries_def
  blank_ltd_ticks_def blank_ltd_damage_def blank_ltd_phaser_def blank_ltd_torps_def
  blank_ltd_plasma_def blank_ltd_stats_def blank_ltd_kill_def blank_ltd_history_def
  blank_stats_def blank_ship_def blank_player_def blank_torp_def blank_phaser_def
  blank_planet_def blank_team_def blank_pqueue_def blank_queuewait_def blank_ban_def blank_status_def
  blank_contxt_def blank_sysdef_def blank_process_def blank_daemon_vars_def blank_game_def


end
