(* ===== verification/Util.thy ===== *)
theory Util
  imports Structs
begin

text \<open>
  \<^verbatim>\<open>ntserv/util.c\<close>: angles, counting ships, teams, slots and their characters, positions of
  ships and torpedoes, the update rate of a client, the idle test and healing.  Operations on
  one \<^verbatim>\<open>struct player\<close> are functions on \<open>player\<close>; those that touch other parts of the shared
  memory are functions on \<open>game\<close>.
\<close>

subsection \<open>Angles\<close>

text \<open>The C expression works on the promoted operands; only the result is cut to 8 bits.\<close>

definition angdist :: "8 word \<Rightarrow> 8 word \<Rightarrow> int" where
  "angdist x y =
     (let res = uint (word_of_int \<bar>uint x - uint y\<bar> :: 8 word)
      in if res > 128 then 256 - res else res)"

text \<open>\<open>nearbyint\<close> in the default rounding mode: to nearest, ties to even.\<close>

definition nearbyint :: "rat \<Rightarrow> int" where
  "nearbyint x =
     (let f = \<lfloor>x\<rfloor>; d = x - of_int f
      in if d < 1/2 then f else if d > 1/2 then f + 1 else if even f then f else f + 1)"

text \<open>
  \<open>atan2f\<close> is the libm function, applied to the coordinate differences; it is a parameter of
  the operations that aim.
\<close>

definition to_dir :: "(int \<Rightarrow> int \<Rightarrow> rat) \<Rightarrow> int \<Rightarrow> int \<Rightarrow> int \<Rightarrow> int \<Rightarrow> 8 word" where
  "to_dir atan2f origin_x origin_y destination_x destination_y =
     word_of_int (nearbyint (40743665 / 1000000 *
       atan2f (destination_x - origin_x) (origin_y - destination_y)))"

subsection \<open>Counting ships\<close>

definition counts_as_ship :: "int \<Rightarrow> player \<Rightarrow> bool" where
  "counts_as_ship owner p \<longleftrightarrow>
     p_status p \<noteq> PFREE \<and> \<not> has (p_flags p) PFOBSERV \<and> \<not> has (p_flags p) PFROBOT \<and>
     p_team p = owner"

definition realNumShips :: "int \<Rightarrow> game \<Rightarrow> int" where
  "realNumShips owner g = int (count_upto MAXPLAYER (\<lambda>i. counts_as_ship owner (players g i)))"

definition realNumShipsBots :: "int \<Rightarrow> game \<Rightarrow> int" where
  "realNumShipsBots owner g =
     int (count_upto MAXPLAYER (\<lambda>i. p_status (players g i) \<noteq> PFREE \<and>
       \<not> has (p_flags (players g i)) PFOBSERV \<and> p_team (players g i) = owner))"

text \<open>The loop runs over team numbers below \<^verbatim>\<open>MAXTEAM\<close> and keeps the last one that is large enough.\<close>

definition other_team :: "int \<Rightarrow> game \<Rightarrow> int" where
  "other_team myteam g =
     for_upto MAXTEAM
       (\<lambda>i t. if int i = myteam then t
              else if realNumShips (int i) g \<ge> tournplayers (cfg g) then int i else t) 0"

definition setEnemy :: "int \<Rightarrow> nat \<Rightarrow> game \<Rightarrow> game" where
  "setEnemy myteam me g =
     upd_player me (\<lambda>p. p\<lparr>p_hist := (p_hist p)\<lparr>enemy_team := other_team myteam g\<rparr>\<rparr>) g"

subsection \<open>Finding slots\<close>

text \<open>
  The source advances \<open>i\<close> from \<open>j\<close> and the player pointer from slot 0, so the slot examined is
  \<open>i - j\<close> while the number returned is \<open>i\<close>.
\<close>

definition find_slot_by_host :: "string \<Rightarrow> nat \<Rightarrow> game \<Rightarrow> nat option" where
  "find_slot_by_host host j g =
     first_in j MAXPLAYER (\<lambda>i. let p = players g (i - j) in
       p_status p \<noteq> PFREE \<and> \<not> has (p_flags p) PFROBOT \<and> host = p_full_hostname p)"

definition find_slot_by_ip :: "string \<Rightarrow> nat \<Rightarrow> game \<Rightarrow> nat option" where
  "find_slot_by_ip ip j g =
     first_in j MAXPLAYER (\<lambda>i. let p = players g (i - j) in
       p_status p \<noteq> PFREE \<and> \<not> has (p_flags p) PFROBOT \<and> ip = p_ip p)"

subsection \<open>Teams\<close>

text \<open>The arrays have sixteen entries of which nine are initialised; the others are null.\<close>

definition lookup9 :: "string list \<Rightarrow> int \<Rightarrow> string option" where
  "lookup9 a team = (if 0 \<le> team \<and> team < int (length a) then Some (a ! nat team) else None)"

definition team_name :: "int \<Rightarrow> string option" where
  "team_name = lookup9 [''0'', ''Federation'', ''Romulans'', ''3'', ''Klingons'',
     ''5'', ''6'', ''7'', ''Orions'']"

definition team_verb :: "int \<Rightarrow> string option" where
  "team_verb = lookup9 [''0'', ''has'', ''have'', ''3'', ''have'', ''5'', ''6'', ''7'', ''have'']"

definition team_code :: "int \<Rightarrow> string option" where
  "team_code = lookup9 [''0'', ''FED'', ''ROM'', ''3'', ''KLI'', ''5'', ''6'', ''7'', ''ORI'']"

definition tolower_char :: "char \<Rightarrow> char" where
  "tolower_char c =
     (let n = of_char c :: nat in if 65 \<le> n \<and> n \<le> 90 then char_of (n + 32) else c)"

text \<open>\<open>strncasecmp(a, b, n) == 0\<close> for strings that hold no null character.\<close>

definition strncaseeq :: "string \<Rightarrow> string \<Rightarrow> nat \<Rightarrow> bool" where
  "strncaseeq a b n = (map tolower_char (take n a) = map tolower_char (take n b))"

definition team_find :: "string \<Rightarrow> int" where
  "team_find name =
     (let m = (\<lambda>t. strncaseeq name (the (team_name t)) (length name))
      in if m FED then FED else if m ROM then ROM else if m KLI then KLI
         else if m ORI then ORI else 0)"

definition team_opposing :: "int \<Rightarrow> game \<Rightarrow> int" where
  "team_opposing team g =
     (if \<not> tourn g then NOBODY
      else if team = fst (quorum (ctxt g)) then snd (quorum (ctxt g))
      else if team = snd (quorum (ctxt g)) then fst (quorum (ctxt g))
      else NOBODY)"

definition team_no :: "int \<Rightarrow> int" where
  "team_no team =
     (if team = FED then 0 else if team = ROM then 1 else if team = KLI then 2
      else if team = ORI then 3 else -1)"

text \<open>
  \<^verbatim>\<open>p_status & PFREE\<close> with \<^verbatim>\<open>PFREE = 0\<close> is never true, so the first guard of the loop does not
  skip free slots.
\<close>

definition orbit_release_by_planet :: "nat \<Rightarrow> game \<Rightarrow> game" where
  "orbit_release_by_planet l g =
     for_upto MAXPLAYER (\<lambda>i g. let p = players g i in
       if pstatus_code (p_status p) AND 0 \<noteq> 0 then g
       else if has (p_flags p) PFOBSERV then g
       else if has (p_flags p) PFORBIT \<and> p_planet p = pl_no (planets g l)
       then upd_player i (\<lambda>p. p\<lparr>p_flags :=
              clear_flags (PFBOMB OR PFORBIT OR PFBEAMUP OR PFBEAMDOWN) (p_flags p)\<rparr>) g
       else g) g"

definition is_robot :: "nat \<Rightarrow> game \<Rightarrow> bool" where
  "is_robot i g =
     (if pflag i PFBPROBOT g then True
      else if is_robot_by_host (cfg g) \<and> p_ip (players g i) = robot_host (cfg g) then True
      else pflag i PFROBOT g)"

text \<open>
  \<open>strstr\<close> finds the first occurrence, so a name in which the text occurs earlier as well
  does not count.
\<close>

fun strstr_pos :: "string \<Rightarrow> string \<Rightarrow> nat option" where
  "strstr_pos [] needle = (if needle = [] then Some 0 else None)"
| "strstr_pos (c # cs) needle =
     (if take (length needle) (c # cs) = needle then Some 0
      else map_option Suc (strstr_pos cs needle))"

definition is_local :: "player \<Rightarrow> bool" where
  "is_local p =
     (let h = p_full_hostname p; len = length h
      in len \<ge> 9 \<and> strstr_pos h ''localhost'' = Some (len - 9))"

text \<open>The possibly changed ship type, and the returned flag.\<close>

definition is_only_one_ship_type_allowed :: "game \<Rightarrow> nat \<Rightarrow> nat \<times> bool" where
  "is_only_one_ship_type_allowed g type =
     (let (count, seen) = for_upto NUM_TYPES
            (\<lambda>i (c, s). if shipsallowed (cfg g) i then (c + 1, i) else (c, s)) (0 :: nat, 0)
      in if count = 1 then (seen, True) else (type, False))"

definition my_metaserver_type :: "game \<Rightarrow> string" where
  "my_metaserver_type g =
     (if inl_mode g then ''I'' else if practice_mode g then ''F''
      else if hockey_mode g then ''H'' else ''B'')"

definition is_guest :: "string \<Rightarrow> bool" where
  "is_guest name \<longleftrightarrow> name = ''guest'' \<or> name = ''Guest''"

subsection \<open>Slot numbers and their characters\<close>

text \<open>Characters are their codes here; \<open>-1\<close> is returned for no slot.\<close>

definition slot_char :: "int \<Rightarrow> int" where
  "slot_char slotnum =
     (if slotnum \<ge> 0 \<and> slotnum < 10 then 48 + slotnum
      else if slotnum \<ge> 10 \<and> slotnum < int MAXPLAYER \<and> slotnum < 36 then 97 + slotnum - 10
      else if slotnum \<ge> 36 \<and> slotnum < int MAXPLAYER then 63
      else -1)"

definition tolower_code :: "int \<Rightarrow> int" where
  "tolower_code c = (if 65 \<le> c \<and> c \<le> 90 then c + 32 else c)"

definition slot_num :: "int \<Rightarrow> int" where
  "slot_num slot =
     (let num = (if slot \<ge> 48 \<and> slot \<le> 57 then slot - 48
                 else if tolower_code slot \<ge> 97 \<and> tolower_code slot \<le> 122
                 then tolower_code slot - 97 + 10
                 else -1)
      in if num \<ge> int MAXPLAYER then -1 else num)"

definition teamlet :: "int \<Rightarrow> char" where
  "teamlet t = ''IFRXKXXXO'' ! nat t"

definition shipnos :: "nat \<Rightarrow> char" where
  "shipnos i = ''0123456789abcdefghijklmnopqrstuvwxyz'' ! i"

subsection \<open>Changing team\<close>

definition set_names :: "nat \<Rightarrow> player \<Rightarrow> player" where
  "set_names i k =
     (let mc = [teamlet (p_team k), shipnos i]
      in k\<lparr>p_mapchars := mc, p_longname := p_name k @ '' ('' @ mc @ '')''\<rparr>)"

definition change_team_quietly :: "nat \<Rightarrow> int \<Rightarrow> int \<Rightarrow> game \<Rightarrow> game" where
  "change_team_quietly n ours theirs g =
     (let k = players g n;
          g = (if w_queue k \<noteq> QU_PICKUP \<and> ours \<noteq> NOBODY
               then let q = (if ours = FED then QU_HOME else QU_AWAY);
                        g = upd_queue (w_queue k) (\<lambda>q. q\<lparr>free_slots := free_slots q + 1\<rparr>) g;
                        g = upd_player n (\<lambda>k. k\<lparr>w_queue := q\<rparr>) g
                    in upd_queue q (\<lambda>q. q\<lparr>free_slots := free_slots q - 1\<rparr>) g
               else g)
      in upd_player n (\<lambda>k.
           let k = k\<lparr>p_hostile := p_hostile k OR theirs, p_swar := p_swar k OR theirs\<rparr>;
               k = k\<lparr>p_hostile := p_hostile k AND NOT ours, p_swar := p_swar k AND NOT ours\<rparr>;
               k = k\<lparr>p_war := p_hostile k OR p_swar k, p_team := ours\<rparr>
           in set_names n k) g)"

abbreviation (input) SBEXPVIEWS :: "int" where "SBEXPVIEWS \<equiv> 7"

definition change_team :: "nat \<Rightarrow> int \<Rightarrow> int \<Rightarrow> game \<Rightarrow> game" where
  "change_team n ours theirs g =
     upd_player n (\<lambda>k.
       let k = k\<lparr>p_status := PEXPLODE, p_whydead := TOURNSTART,
                 p_explode := (if s_type (p_ship k) = STARBASE then 2 * SBEXPVIEWS else 10),
                 p_ntorp := 0, p_nplasmatorp := 0,
                 p_hostile := ((FED OR ROM) OR ORI) OR KLI\<rparr>
       in k\<lparr>p_war := p_hostile k OR p_swar k\<rparr>)
     (change_team_quietly n ours theirs g)"

subsection \<open>Positions\<close>

definition p_x_y_go :: "int \<Rightarrow> int \<Rightarrow> player \<Rightarrow> player" where
  "p_x_y_go x y k =
     k\<lparr>p_x := x, p_y := y, p_x_internal := spi x, p_y_internal := spi y, p_x_y_set := 0\<rparr>"

definition p_x_y_box :: "int \<Rightarrow> int \<Rightarrow> int \<Rightarrow> int \<Rightarrow> player \<Rightarrow> player" where
  "p_x_y_box x0 y0 x1 y1 k =
     k\<lparr>p_x_min := spi x0, p_x_max := spi x1, p_y_min := spi y0, p_y_max := spi y1\<rparr>"

definition p_x_y_unbox :: "player \<Rightarrow> player" where
  "p_x_y_unbox k =
     k\<lparr>p_x_min := spi 0, p_x_max := spi GWIDTH, p_y_min := spi 0, p_y_max := spi GWIDTH\<rparr>"

definition p_x_y_request :: "int \<Rightarrow> int \<Rightarrow> player \<Rightarrow> player" where
  "p_x_y_request x y k =
     k\<lparr>p_x_input := spi x, p_y_input := spi y, p_x_y_set := p_x_y_set k + 1\<rparr>"

definition p_x_y_commit :: "player \<Rightarrow> player" where
  "p_x_y_commit k =
     k\<lparr>p_x_internal := p_x_input k, p_y_internal := p_y_input k, p_x_y_set := 0\<rparr>"

definition p_x_y_to_internal :: "player \<Rightarrow> player" where
  "p_x_y_to_internal k = k\<lparr>p_x_internal := spi (p_x k), p_y_internal := spi (p_y k)\<rparr>"

definition p_x_y_join :: "player \<Rightarrow> player \<Rightarrow> player" where
  "p_x_y_join p k =
     k\<lparr>p_x := p_x p, p_y := p_y p, p_x_internal := p_x_internal p, p_y_internal := p_y_internal p\<rparr>"

definition t_x_y_set :: "int \<Rightarrow> int \<Rightarrow> torp \<Rightarrow> torp" where
  "t_x_y_set x y k =
     k\<lparr>t_x := x, t_y := y, t_x_internal := spi x, t_y_internal := spi y\<rparr>"

subsection \<open>Update rate, idle test, healing, durations\<close>

text \<open>Integer division of positive numbers; \<^verbatim>\<open>minups\<close> and \<^verbatim>\<open>fps\<close> are at least 1 in any sane setup.\<close>

definition p_ups_set :: "sysdef \<Rightarrow> int \<Rightarrow> player \<Rightarrow> player \<times> int" where
  "p_ups_set c client_ups me =
     (let ups = client_ups;
          ups = (if ups < minups c then minups c else ups);
          ups = (if ups > maxups c then maxups c else ups);
          ups = (if ups > fps c then fps c else ups);
          fpu = fps c sdiv ups;
          ups = fps c sdiv fpu
      in if p_fpu me = fpu \<and> p_ups me = ups then (me, 0)
         else (me\<lparr>p_fpu := fpu, p_ups := ups\<rparr>, 1))"

definition is_idle :: "nat \<Rightarrow> game \<Rightarrow> bool" where
  "is_idle v g =
     (let p = players g v in
      p_inl_draft p \<noteq> INL_DRAFT_OFF \<or>
      (safe_idle (cfg g) \<and> \<not> tourn g \<and>
       has (p_flags p) PFCLOAK \<and> has (p_flags p) PFORBIT \<and>
       meets (pl_flags (planets g (p_planet p))) PLHOME \<and>
       p_kills p = 0 \<and> p_ntorp p = 0 \<and> p_nplasmatorp p = 0 \<and>
       p_fuel p = s_maxfuel (p_ship p) \<and> p_shield p = s_maxshield (p_ship p) \<and>
       p_damage p = 0))"

definition is_invisible_due_idle :: "nat \<Rightarrow> game \<Rightarrow> bool" where
  "is_invisible_due_idle v g = (\<not> gu GU_INL_DRAFTING g \<and> is_idle v g)"

definition p_heal :: "player \<Rightarrow> player" where
  "p_heal k =
     k\<lparr>p_shield := s_maxshield (p_ship k), p_subshield := 0, p_damage := 0, p_subdamage := 0,
       p_fuel := s_maxfuel (p_ship k), p_etemp := 0, p_etime := 0, p_wtemp := 0, p_wtime := 0\<rparr>"

text \<open>A duration as one byte and a unit letter.\<close>

definition s2du :: "int \<Rightarrow> int \<times> char" where
  "s2du input =
     (let x = input in if x < 256 then (x mod 256, CHR ''s'') else
      let x = input sdiv 60 in if x < 256 then (x mod 256, CHR ''m'') else
      let x = input sdiv 60 sdiv 60 in if x < 256 then (x mod 256, CHR ''h'') else
      let x = input sdiv 60 sdiv 60 sdiv 24 in if x < 256 then (x mod 256, CHR ''d'') else
      let x = input sdiv 60 sdiv 60 sdiv 24 sdiv 7 in if x < 256 then (x mod 256, CHR ''w'') else
      let x = input sdiv 60 sdiv 60 sdiv 24 sdiv 365 in if x < 256 then (x mod 256, CHR ''y'') else
      (input AND 255, CHR ''z''))"

subsection \<open>Facts\<close>

lemma uint_byte: "0 \<le> uint (x :: 8 word) \<and> uint x < 256"
  using uint_bounded [of x] by simp

lemma angdist_alt:
  "angdist x y = (let r = \<bar>uint x - uint y\<bar> in if r > 128 then 256 - r else r)"
proof -
  have "\<bar>uint x - uint y\<bar> mod 256 = \<bar>uint x - uint y\<bar>"
    using uint_byte [of x] uint_byte [of y] by (intro mod_pos_pos_trivial) linarith+
  then show ?thesis by (simp add: angdist_def Let_def unsigned_of_int take_bit_eq_mod)
qed

lemma uint_diff_byte:
  "uint (x - y :: 8 word) = (if uint y \<le> uint x then uint x - uint y else uint x - uint y + 256)"
  by (simp add: uint_sub_if')

lemma count_ships_le: "realNumShips t g \<le> int MAXPLAYER"
  using count_upto_le [of MAXPLAYER "\<lambda>i. counts_as_ship t (players g i)"]
  by (simp add: realNumShips_def)

lemma realNumShips_nonneg: "0 \<le> realNumShips t g"
  by (simp add: realNumShips_def)

lemma realNumShips_cong:
  "(\<And>i. i < MAXPLAYER \<Longrightarrow> counts_as_ship t (players g i) = counts_as_ship t (players h i)) \<Longrightarrow>
   realNumShips t g = realNumShips t h"
  unfolding realNumShips_def by (intro arg_cong [where f = int] count_upto_cong) auto

text \<open>Dividing twice by rounding down returns to the same skip count.\<close>

lemma div_mult_le_int: "0 < u \<Longrightarrow> f div u * u \<le> (f :: int)"
  using pos_mod_sign [of u f] div_mult_mod_eq [of f u] by linarith

lemma le_div_int: "0 < k \<Longrightarrow> u * k \<le> f \<Longrightarrow> u \<le> f div (k :: int)"
  using zdiv_mono1 [of "u * k" f k] by simp

lemma div_div_div:
  fixes f u :: int
  assumes "0 < u" and "u \<le> f"
  shows "f div (f div (f div u)) = f div u"
proof -
  define k where "k = f div u"
  have k: "0 < k" using assms by (simp add: k_def pos_imp_zdiv_pos_iff)
  have "u * k \<le> f" using div_mult_le_int [OF assms(1), of f] by (simp add: k_def mult.commute)
  then have v: "u \<le> f div k" by (rule le_div_int [OF k])
  have "f div (f div k) \<le> k"
    unfolding k_def [symmetric] using v assms by (metis k_def order_trans zdiv_mono2 less_imp_le)
  moreover have "k \<le> f div (f div k)"
    using v assms div_mult_le_int [OF k, of f] by (intro le_div_int) (auto simp: mult.commute)
  ultimately show ?thesis by (simp flip: k_def)
qed

subsection \<open>Properties\<close>

text \<open>
  \<^verbatim>\<open>angdist\<close> is the circular distance of two directions: the smaller of the two 8-bit
  differences, symmetric, and never more than half a turn.
\<close>

theorem angdist_circular:
  "angdist x y = min (uint (x - y)) (uint (y - x)) \<and> angdist x y = angdist y x \<and>
   0 \<le> angdist x y \<and> angdist x y \<le> 128"
proof -
  have "(let r = \<bar>a - b\<bar> in if r > 128 then 256 - r else r) =
      min (if b \<le> a then a - b else a - b + 256) (if a \<le> b then b - a else b - a + 256) \<and>
      (let r = \<bar>a - b\<bar> in if r > 128 then 256 - r else r) =
      (let r = \<bar>b - a\<bar> in if r > 128 then 256 - r else r) \<and>
      0 \<le> (let r = \<bar>a - b\<bar> in if r > 128 then 256 - r else r) \<and>
      (let r = \<bar>a - b\<bar> in if r > 128 then 256 - r else r) \<le> 128"
    if "0 \<le> a" "a < 256" "0 \<le> b" "b < 256" for a b :: int
    using that by (auto simp: Let_def min_def abs_if)
  from this [of "uint x" "uint y"] show ?thesis
    using uint_byte [of x] uint_byte [of y] unfolding angdist_alt uint_diff_byte by blast
qed

text \<open>
  C40: the character of a slot read back with \<^verbatim>\<open>slot_num\<close> is the slot, and \<^verbatim>\<open>slot_num\<close> never
  returns a number that is not a slot, whatever the character.
\<close>

theorem slot_char_roundtrip:
  "(0 \<le> n \<and> n < int MAXPLAYER \<longrightarrow> slot_num (slot_char n) = n) \<and>
   -1 \<le> slot_num c \<and> slot_num c < int MAXPLAYER"
proof (intro conjI impI)
  assume "0 \<le> n \<and> n < int MAXPLAYER"
  then show "slot_num (slot_char n) = n"
    by (cases "n < 10") (simp_all add: slot_char_def slot_num_def tolower_code_def)
qed (auto simp: slot_num_def tolower_code_def Let_def)

theorem slot_char_roundtrip_witness:
  "slot_num (slot_char 17) = 17 \<and> slot_char 17 = 104 \<and> slot_num 122 = -1"
  using slot_char_roundtrip [of 17 122]
  by (simp add: slot_char_def slot_num_def tolower_code_def)

definition clamped_ups :: "sysdef \<Rightarrow> int \<Rightarrow> int" where
  "clamped_ups c u = min (min (max u (minups c)) (maxups c)) (fps c)"

lemma p_ups_set_alt:
  "p_ups_set c u p =
     (let fpu = fps c sdiv clamped_ups c u; ups = fps c sdiv fpu
      in if p_fpu p = fpu \<and> p_ups p = ups then (p, 0) else (p\<lparr>p_fpu := fpu, p_ups := ups\<rparr>, 1))"
  by (simp add: p_ups_set_def clamped_ups_def Let_def min_def max_def not_le)

lemma clamped_ups_bounds:
  "1 \<le> minups c \<Longrightarrow> 1 \<le> maxups c \<Longrightarrow> 1 \<le> fps c \<Longrightarrow> 1 \<le> clamped_ups c u \<and> clamped_ups c u \<le> fps c"
  by (simp add: clamped_ups_def)

lemma sdiv_pos_int: "0 \<le> a \<Longrightarrow> 0 < b \<Longrightarrow> (a :: int) sdiv b = a div b"
  by (simp add: signed_divide_int_def sgn_if)

text \<open>
  A request for an update rate always yields a skip count between 1 and the frame rate and
  the rate that corresponds to it, the pair is stored, and asking for the rate obtained
  changes nothing any more.
\<close>

theorem p_ups_set_stable:
  fixes c :: sysdef and u :: int and p :: player
  assumes "1 \<le> minups c" and "1 \<le> maxups c" and "1 \<le> fps c"
  defines "q \<equiv> fst (p_ups_set c u p)"
  shows "1 \<le> p_fpu q \<and> p_fpu q \<le> fps c \<and> p_ups q = fps c div p_fpu q \<and>
    clamped_ups c u \<le> p_ups q \<and> p_ups_set c (p_ups q) q = (q, 0)"
proof -
  define v where "v = clamped_ups c u"
  define k where "k = fps c div v"
  define w where "w = fps c div k"
  have v: "1 \<le> v" "v \<le> fps c" using clamped_ups_bounds [OF assms(1-3)] by (simp_all add: v_def)
  have k: "1 \<le> k" "k \<le> fps c"
    using v by (auto simp: k_def pos_imp_zdiv_pos_iff int_one_le_iff_zero_less
      intro: order_trans [OF zdiv_mono2 [of _ 1]])
  have w: "v \<le> w" "w \<le> fps c"
    using le_div_int [of k v "fps c"] div_mult_le_int [of v "fps c"] v k
    by (auto simp: w_def k_def mult.commute intro: order_trans [OF zdiv_mono2 [of _ 1]])
  have q: "p_fpu q = k \<and> p_ups q = w"
    using v k by (simp add: q_def p_ups_set_alt Let_def sdiv_pos_int flip: v_def)
      (auto simp: k_def w_def sdiv_pos_int)
  define v' where "v' = clamped_ups c w"
  have v': "v \<le> v'" "v' \<le> w" "1 \<le> v'"
    using w v assms(1-3) by (auto simp: v'_def v_def clamped_ups_def)
  have "fps c div v' \<le> k" using v v' by (auto simp: k_def intro: zdiv_mono2)
  moreover have "k \<le> fps c div v'"
    using div_div_div [of v "fps c"] zdiv_mono2 [of "fps c" v' w] v v' w
    by (simp add: k_def w_def)
  ultimately have "fps c div v' = k" by simp
  then have "p_ups_set c w q = (q, 0)"
    using q v' k v by (simp add: p_ups_set_alt Let_def sdiv_pos_int flip: v'_def) (simp add: w_def sdiv_pos_int)
  with q k w show ?thesis by (simp add: w_def v_def)
qed

definition ex_cfg :: "sysdef" where
  "ex_cfg = blank_sysdef\<lparr>fps := 50, minups := 1, maxups := 50\<rparr>"

theorem p_ups_set_stable_witness:
  "p_ups (fst (p_ups_set ex_cfg 18 blank_player)) = 25 \<and>
   p_ups_set ex_cfg 25 (fst (p_ups_set ex_cfg 18 blank_player)) =
     (fst (p_ups_set ex_cfg 18 blank_player), 0)"
proof -
  have "p_ups (fst (p_ups_set ex_cfg 18 blank_player)) = 25"
    by (simp add: p_ups_set_def ex_cfg_def Let_def signed_divide_int_def)
  then show ?thesis using p_ups_set_stable [of ex_cfg 18 blank_player] by (simp add: ex_cfg_def)
qed

text \<open>
  The limit \<^verbatim>\<open>maxups\<close> bounds the request but not the result: when the frame rate is less
  than twice the limit, a client that asks for the limit or more is given the full frame rate.
\<close>

theorem p_ups_above_maxups:
  assumes "1 \<le> minups c" and "minups c \<le> maxups c" and "maxups c < fps c" and "fps c < 2 * maxups c"
    and "maxups c \<le> u"
  shows "p_fpu (fst (p_ups_set c u p)) = 1 \<and> p_ups (fst (p_ups_set c u p)) = fps c \<and>
    maxups c < p_ups (fst (p_ups_set c u p))"
proof -
  have "clamped_ups c u = maxups c" using assms by (simp add: clamped_ups_def)
  moreover have "fps c div maxups c = 1"
    using assms by (intro int_div_pos_eq [of _ _ _ "fps c - maxups c"]) auto
  ultimately show ?thesis using assms by (auto simp: p_ups_set_alt Let_def sdiv_pos_int)
qed

theorem p_ups_above_maxups_witness:
  "maxups (ex_cfg\<lparr>maxups := 30\<rparr>) = 30 \<and>
   p_ups (fst (p_ups_set (ex_cfg\<lparr>maxups := 30\<rparr>) 30 blank_player)) = 50"
  using p_ups_above_maxups [of "ex_cfg\<lparr>maxups := 30\<rparr>" 30 blank_player]
  by (simp add: ex_cfg_def)

end
