(* ===== verification/Bay.thy ===== *)
theory Bay
  imports Util
begin

text \<open>
  The docking bays of a starbase (\<^verbatim>\<open>ntserv/bay.c\<close>).  A docked ship names its base and bay, and
  the bay names the ship.  The two sides are kept in different player records, and other code
  clears a ship's dock flag without telling the base, so only one direction of the agreement
  is an invariant: a docked ship holds the bay it names.  The other direction is what
  \<^verbatim>\<open>bay_consistency_check\<close> restores before a bay is handed out.
\<close>

subsection \<open>Operations\<close>

text \<open>The assertion failure of \<^verbatim>\<open>bay_owner\<close> is \<open>None\<close>.\<close>

definition bay_owner :: "nat \<Rightarrow> game \<Rightarrow> nat option" where
  "bay_owner me g = (if pflag me PFDOCK g then Some (p_dock_with (players g me)) else None)"

definition vacate :: "nat \<Rightarrow> nat \<Rightarrow> game \<Rightarrow> game" where
  "vacate base i = upd_player base (\<lambda>b. b\<lparr>p_bays := (p_bays b)(i := None)\<rparr>)"

definition bay_consistency_check :: "nat \<Rightarrow> game \<Rightarrow> game" where
  "bay_consistency_check base g =
     for_upto NUMBAYS (\<lambda>i g.
       case p_bays (players g base) i of
         None \<Rightarrow> g
       | Some s \<Rightarrow>
           if \<not> pflag s PFDOCK g then vacate base i g
           else if p_dock_with (players g s) \<noteq> p_no (players g base) then vacate base i g
           else if p_dock_bay (players g s) \<noteq> i then vacate base i g
           else g) g"

definition bay_claim :: "nat \<Rightarrow> nat \<Rightarrow> nat \<Rightarrow> game \<Rightarrow> game" where
  "bay_claim base me bay_no g =
     upd_player base (\<lambda>b. b\<lparr>p_bays := (p_bays b)(bay_no := Some (p_no (players g me)))\<rparr>)
       (upd_player me (\<lambda>p. p\<lparr>p_dock_with := p_no (players g base), p_dock_bay := bay_no\<rparr>) g)"

definition bay_release :: "nat \<Rightarrow> game \<Rightarrow> game" where
  "bay_release me g =
     (if pflag me PFDOCK g
      then let base = p_dock_with (players g me); bay = p_dock_bay (players g me);
               g = (if p_bays (players g base) bay \<noteq> None then vacate base bay g else g)
           in upd_player me (\<lambda>p. p\<lparr>p_flags := clear_flags PFDOCK (p_flags p)\<rparr>) g
      else g)"

definition bay_release_all :: "nat \<Rightarrow> game \<Rightarrow> game" where
  "bay_release_all base g =
     for_upto NUMBAYS (\<lambda>i g.
       case p_bays (players g base) i of
         None \<Rightarrow> g
       | Some s \<Rightarrow>
           upd_player s (\<lambda>p. p\<lparr>p_flags := clear_flags PFDOCK (p_flags p)\<rparr>) (vacate base i g)) g"

definition bay_init :: "player \<Rightarrow> player" where
  "bay_init p = p\<lparr>p_bays := (\<lambda>i. if i < NUMBAYS then None else p_bays p i)\<rparr>"

text \<open>The first vacant bay in an order of preference.\<close>

definition pick_bay :: "nat list \<Rightarrow> player \<Rightarrow> nat option" where
  "pick_bay order b = find (\<lambda>i. p_bays b i = None) order"

definition bay_order :: "int \<Rightarrow> int \<Rightarrow> nat list" where
  "bay_order dx dy =
     (if dx > 0 then if dy > 0 then [3, 2, 0, 1] else [2, 3, 1, 0]
      else if dy > 0 then [0, 1, 3, 2] else [1, 2, 0, 3])"

definition bay_closest :: "nat \<Rightarrow> int \<Rightarrow> int \<Rightarrow> game \<Rightarrow> game \<times> nat option" where
  "bay_closest base dx dy g =
     (let g = bay_consistency_check base g
      in (g, pick_bay (bay_order dx dy) (players g base)))"

subsection \<open>The mooring contract\<close>

text \<open>
  What a client of the bays relies on: \<open>holds\<close> is the ship a bay names, \<open>berth\<close> the base and
  bay a docked ship names, and \<open>claim\<close> and \<open>release\<close> change them at one place.
\<close>

locale mooring =
  fixes valid :: "'s \<Rightarrow> bool"
    and holds :: "'s \<Rightarrow> nat \<Rightarrow> nat \<Rightarrow> nat option"
    and berth :: "'s \<Rightarrow> nat \<Rightarrow> (nat \<times> nat) option"
    and claim :: "nat \<Rightarrow> nat \<Rightarrow> nat \<Rightarrow> 's \<Rightarrow> 's"
    and release :: "nat \<Rightarrow> 's \<Rightarrow> 's"
  assumes valid_claim: "valid g \<Longrightarrow> valid (claim b s i g)"
    and berth_claim:
      "valid g \<Longrightarrow> berth (claim b s i g) t = (if t = s then Some (b, i) else berth g t)"
    and holds_claim:
      "valid g \<Longrightarrow> holds (claim b s i g) c j = (if c = b \<and> j = i then Some s else holds g c j)"
    and valid_release: "valid g \<Longrightarrow> valid (release s g)"
    and berth_release: "berth (release s g) t = (if t = s then None else berth g t)"
    and holds_release:
      "holds (release s g) c j = (if berth g s = Some (c, j) then None else holds g c j)"
begin

definition moored :: "'s \<Rightarrow> bool" where
  "moored g \<longleftrightarrow> (\<forall>s b i. berth g s = Some (b, i) \<longrightarrow> holds g b i = Some s)"

lemma moored_D: "moored g \<Longrightarrow> berth g s = Some (b, i) \<Longrightarrow> holds g b i = Some s"
  by (simp add: moored_def)

lemma moored_unique:
  "moored g \<Longrightarrow> berth g s = Some x \<Longrightarrow> berth g t = Some x \<Longrightarrow> s = t"
  using moored_D [of g s "fst x" "snd x"] moored_D [of g t "fst x" "snd x"] by simp

lemma moored_claim:
  "valid g \<Longrightarrow> moored g \<Longrightarrow> holds g b i = None \<Longrightarrow> moored (claim b s i g)"
  unfolding moored_def by (auto simp: berth_claim holds_claim)

lemma moored_release:
  assumes "moored g" shows "moored (release s g)"
  unfolding moored_def
proof (intro allI impI)
  fix t b i
  assume a: "berth (release s g) t = Some (b, i)"
  then have t: "t \<noteq> s" "berth g t = Some (b, i)" by (simp_all add: berth_release split: if_splits)
  then have "berth g s \<noteq> Some (b, i)" using moored_unique [OF assms] by blast
  then show "holds (release s g) b i = Some t"
    using moored_D [OF assms t(2)] by (simp add: holds_release)
qed

text \<open>After a release the bay is free again, so it can be claimed by another ship.\<close>

lemma reclaim:
  assumes "valid g" and "moored g" and "berth g s = Some (b, i)"
  shows "moored (claim b t i (release s g))"
  using assms by (intro moored_claim valid_release moored_release) (simp_all add: holds_release)

end

definition bay_holds :: "game \<Rightarrow> nat \<Rightarrow> nat \<Rightarrow> nat option" where
  "bay_holds g b i = p_bays (players g b) i"

definition ship_berth :: "game \<Rightarrow> nat \<Rightarrow> (nat \<times> nat) option" where
  "ship_berth g s =
     (if pflag s PFDOCK g then Some (p_dock_with (players g s), p_dock_bay (players g s)) else None)"

text \<open>The slot numbers in the records are written by the daemon at start and never change.\<close>

definition numbered :: "game \<Rightarrow> bool" where
  "numbered g \<longleftrightarrow> (\<forall>i. p_no (players g i) = i)"

text \<open>The part of \<^verbatim>\<open>dock\<close> that changes the mooring: the flag, then the claim.\<close>

definition moor :: "nat \<Rightarrow> nat \<Rightarrow> nat \<Rightarrow> game \<Rightarrow> game" where
  "moor b s i g =
     bay_claim b s i (upd_player s (\<lambda>p. p\<lparr>p_flags := set_flags PFDOCK (p_flags p)\<rparr>) g)"

lemma ship_berth_bay_release:
  "ship_berth (bay_release s g) t = (if t = s then None else ship_berth g t)"
  by (simp add: ship_berth_def bay_release_def vacate_def Let_def)

lemma bay_holds_bay_release:
  "bay_holds (bay_release s g) c j =
     (if ship_berth g s = Some (c, j) then None else bay_holds g c j)"
  by (auto simp: ship_berth_def bay_holds_def bay_release_def vacate_def Let_def)

lemma ship_berth_moor:
  "numbered g \<Longrightarrow> ship_berth (moor b s i g) t = (if t = s then Some (b, i) else ship_berth g t)"
  by (auto simp: numbered_def ship_berth_def moor_def bay_claim_def)

lemma bay_holds_moor:
  "numbered g \<Longrightarrow>
   bay_holds (moor b s i g) c j = (if c = b \<and> j = i then Some s else bay_holds g c j)"
  by (auto simp: numbered_def bay_holds_def moor_def bay_claim_def)

lemma numbered_moor: "numbered g \<Longrightarrow> numbered (moor b s i g)"
  by (simp add: numbered_def moor_def bay_claim_def)

lemma numbered_bay_release: "numbered g \<Longrightarrow> numbered (bay_release s g)"
  by (simp add: numbered_def bay_release_def vacate_def Let_def)

interpretation bays: mooring numbered bay_holds ship_berth moor bay_release
  by unfold_locales
    (simp_all add: ship_berth_bay_release bay_holds_bay_release ship_berth_moor bay_holds_moor
      numbered_moor numbered_bay_release)

subsection \<open>The consistency check\<close>

definition docks_ok :: "game \<Rightarrow> bool" where
  "docks_ok g \<longleftrightarrow> (\<forall>s b i. ship_berth g s = Some (b, i) \<longrightarrow> bay_holds g b i = Some s)"

lemma docks_ok_moored: "docks_ok = bays.moored"
  by (simp add: fun_eq_iff docks_ok_def bays.moored_def)

lemma bay_holds_vacate:
  "bay_holds (vacate b i g) c j = (if c = b \<and> j = i then None else bay_holds g c j)"
  by (simp add: bay_holds_def vacate_def)

lemma ship_berth_vacate [simp]: "ship_berth (vacate b i g) s = ship_berth g s"
  by (simp add: ship_berth_def vacate_def)

lemma numbered_vacate [simp]: "numbered (vacate b i g) = numbered g"
  by (auto simp: numbered_def vacate_def)

text \<open>One round of the loop: the bay keeps its ship only if that ship is docked there.\<close>

definition confirmed :: "game \<Rightarrow> nat \<Rightarrow> nat \<Rightarrow> nat option" where
  "confirmed g b i =
     (case bay_holds g b i of None \<Rightarrow> None
      | Some s \<Rightarrow> if ship_berth g s = Some (b, i) then Some s else None)"

definition check_bay :: "nat \<Rightarrow> nat \<Rightarrow> game \<Rightarrow> game" where
  "check_bay base i g =
     (if bay_holds g base i = confirmed g base i then g else vacate base i g)"

lemma check_bay_eq:
  assumes "numbered g"
  shows "check_bay base i g =
     (case p_bays (players g base) i of
         None \<Rightarrow> g
       | Some s \<Rightarrow>
           if \<not> pflag s PFDOCK g then vacate base i g
           else if p_dock_with (players g s) \<noteq> p_no (players g base) then vacate base i g
           else if p_dock_bay (players g s) \<noteq> i then vacate base i g
           else g)"
  using assms
  by (auto simp: check_bay_def confirmed_def bay_holds_def ship_berth_def numbered_def
      split: option.splits)

lemma check_bay_simps:
  "ship_berth (check_bay b i g) s = ship_berth g s"
  "numbered (check_bay b i g) = numbered g"
  "bay_holds (check_bay b i g) c j =
     (if c = b \<and> j = i then confirmed g b i else bay_holds g c j)"
  by (auto simp: check_bay_def bay_holds_vacate confirmed_def split: option.splits)

lemma confirmed_check_bay: "confirmed (check_bay b i g) c j = confirmed g c j"
  by (simp add: confirmed_def check_bay_simps split: option.splits)

lemma bay_consistency_check_alt:
  "numbered g \<Longrightarrow> bay_consistency_check b g = for_upto NUMBAYS (check_bay b) g"
  unfolding bay_consistency_check_def
  by (rule for_upto_cong [where P = numbered]) (simp_all add: check_bay_eq [symmetric] check_bay_simps)

lemma loop_check_bay:
  "ship_berth (for_upto n (check_bay b) g) s = ship_berth g s"
  "numbered (for_upto n (check_bay b) g) = numbered g"
  "confirmed (for_upto n (check_bay b) g) c j = confirmed g c j"
  "bay_holds (for_upto n (check_bay b) g) c j =
     (if c = b \<and> j < n then confirmed g b j else bay_holds g c j)"
  by (induction n) (auto simp: check_bay_simps confirmed_check_bay)

lemma check_simps:
  assumes "numbered g"
  shows "ship_berth (bay_consistency_check b g) s = ship_berth g s"
    "numbered (bay_consistency_check b g)"
    "bay_holds (bay_consistency_check b g) c j =
       (if c = b \<and> j < NUMBAYS then confirmed g b j else bay_holds g c j)"
  using assms by (simp_all add: bay_consistency_check_alt loop_check_bay)

text \<open>Releasing every bay of a base.\<close>

definition free_bay :: "nat \<Rightarrow> nat \<Rightarrow> game \<Rightarrow> game" where
  "free_bay base i g =
     (case p_bays (players g base) i of
        None \<Rightarrow> g
      | Some s \<Rightarrow>
          upd_player s (\<lambda>p. p\<lparr>p_flags := clear_flags PFDOCK (p_flags p)\<rparr>) (vacate base i g))"

lemma bay_release_all_alt: "bay_release_all b g = for_upto NUMBAYS (free_bay b) g"
  by (simp add: bay_release_all_def free_bay_def [abs_def])

lemma free_bay_simps:
  "bay_holds (free_bay b i g) c j = (if c = b \<and> j = i then None else bay_holds g c j)"
  "ship_berth (free_bay b i g) t = (if bay_holds g b i = Some t then None else ship_berth g t)"
  "numbered (free_bay b i g) = numbered g"
  by (auto simp: free_bay_def bay_holds_def ship_berth_def vacate_def numbered_def split: option.splits)

lemma docks_ok_free_bay: "docks_ok g \<Longrightarrow> docks_ok (free_bay b i g)"
  by (auto simp: docks_ok_def free_bay_simps)

lemma bay_release_all_simps:
  "bay_holds (bay_release_all b g) c j =
     (if c = b \<and> j < NUMBAYS then None else bay_holds g c j)"
  "numbered (bay_release_all b g) = numbered g"
proof -
  have "bay_holds (for_upto n (free_bay b) g) c j =
      (if c = b \<and> j < n then None else bay_holds g c j)" for n
    by (induction n) (auto simp: free_bay_simps)
  then show "bay_holds (bay_release_all b g) c j =
     (if c = b \<and> j < NUMBAYS then None else bay_holds g c j)"
    by (simp add: bay_release_all_alt)
  show "numbered (bay_release_all b g) = numbered g"
    unfolding bay_release_all_alt by (rule for_upto_same) (simp add: free_bay_simps)
qed

lemma docks_ok_check:
  assumes "numbered g" and "docks_ok g"
  shows "docks_ok (bay_consistency_check b g)"
  using assms by (auto simp: docks_ok_def check_simps confirmed_def)

lemma docks_ok_release: "docks_ok g \<Longrightarrow> docks_ok (bay_release s g)"
  unfolding docks_ok_moored by (rule bays.moored_release)

lemma docks_ok_release_all: "docks_ok g \<Longrightarrow> docks_ok (bay_release_all b g)"
  unfolding bay_release_all_alt by (rule for_upto_inv) (simp_all add: docks_ok_free_bay)

subsection \<open>The choice of a bay\<close>

lemma set_bay_order [simp]: "set (bay_order dx dy) = {0, 1, 2, 3}"
  by (auto simp: bay_order_def)

lemma pick_bay_Some: "pick_bay order b = Some i \<Longrightarrow> i \<in> set order \<and> p_bays b i = None"
  unfolding pick_bay_def by (auto simp: find_Some_iff)

lemma pick_bay_None: "pick_bay order b = None \<longleftrightarrow> (\<forall>i \<in> set order. p_bays b i \<noteq> None)"
  unfolding pick_bay_def by (auto simp: find_None_iff)

lemma bay_closest_Some:
  assumes "bay_closest b dx dy g = (h, Some i)"
  shows "h = bay_consistency_check b g \<and> i < NUMBAYS \<and> bay_holds h b i = None"
  using assms by (auto simp: bay_closest_def Let_def bay_holds_def dest!: pick_bay_Some)

subsection \<open>Properties\<close>

text \<open>
  After the consistency check a bay of the base names a ship exactly when that ship
  is docked there, ships keep their berths, bays of other bases are untouched, and a second
  check changes nothing.
\<close>

theorem bay_check_restores:
  assumes "numbered g"
  shows "bay_holds (bay_consistency_check b g) c j =
      (if c = b \<and> j < NUMBAYS then confirmed g b j else bay_holds g c j) \<and>
    ship_berth (bay_consistency_check b g) s = ship_berth g s \<and>
    bay_consistency_check b (bay_consistency_check b g) = bay_consistency_check b g"
proof -
  let ?h = "bay_consistency_check b g"
  have num: "numbered ?h" using assms by (rule check_simps)
  have same: "check_bay b i ?h = ?h" if "i < NUMBAYS" for i
    using that assms by (auto simp: check_bay_def check_simps confirmed_def split: option.splits)
  have "for_upto n (check_bay b) ?h = ?h" if "n \<le> NUMBAYS" for n
    using that by (induction n) (simp_all add: same)
  then have "bay_consistency_check b ?h = ?h"
    using num by (simp only: bay_consistency_check_alt order_refl)
  then show ?thesis using assms by (simp add: check_simps)
qed


text \<open>
  \<^verbatim>\<open>bay_closest\<close> answers that no bay is free exactly when four ships are really docked at
  the base; a bay it returns is one of the four, is vacant, and mooring a ship there keeps
  the docking invariant and puts that ship in the bay.
\<close>

theorem bay_closest_correct:
  assumes "numbered g" and "docks_ok g"
  shows "case bay_closest b dx dy g of
      (h, None) \<Rightarrow> (\<forall>j<NUMBAYS. \<exists>s. ship_berth g s = Some (b, j))
    | (h, Some i) \<Rightarrow> i < NUMBAYS \<and> \<not> (\<exists>s. ship_berth g s = Some (b, i)) \<and>
        docks_ok (moor b me i h) \<and> bay_holds (moor b me i h) b i = Some me"
proof -
  let ?h = "bay_consistency_check b g"
  obtain r where r: "bay_closest b dx dy g = (?h, r)" by (simp add: bay_closest_def Let_def)
  have num: "numbered ?h" and ok: "docks_ok ?h" using assms by (simp_all add: check_simps docks_ok_check)
  show ?thesis
  proof (cases r)
    case None
    with r have "\<forall>i \<in> {0, 1, 2, 3}. bay_holds ?h b i \<noteq> None"
      by (simp add: bay_closest_def Let_def pick_bay_None bay_holds_def)
    then have "bay_holds ?h b j \<noteq> None" if "j < NUMBAYS" for j
      using that by (auto simp: less_Suc_eq numeral_eq_Suc)
    then have "\<exists>s. ship_berth g s = Some (b, j)" if "j < NUMBAYS" for j
      using that assms(1) by (force simp: check_simps confirmed_def split: option.splits if_splits)
    with None r show ?thesis by simp
  next
    case (Some i)
    with r have i: "i < NUMBAYS" "bay_holds ?h b i = None" using bay_closest_Some by blast+
    then have "\<not> (\<exists>s. ship_berth ?h s = Some (b, i))" using ok by (auto simp: docks_ok_def)
    moreover have "docks_ok (moor b me i ?h)"
      using bays.moored_claim [of ?h b i me] num ok i(2) by (simp add: docks_ok_moored)
    ultimately show ?thesis
      using Some r i assms(1) num by (simp add: check_simps bay_holds_moor)
  qed
qed

definition ex_docked :: "game" where
  "ex_docked = moor 5 1 2 blank_game"

lemma blank_docks: "numbered blank_game" "docks_ok blank_game"
  by (simp_all add: numbered_def docks_ok_def ship_berth_def blank_defs)

lemma blank_bay: "bay_holds blank_game b i = None"
  by (simp add: bay_holds_def blank_game_def blank_player_def)

lemma ex_docked_ok:
  "numbered ex_docked" "docks_ok ex_docked" "ship_berth ex_docked 1 = Some (5, 2)"
  "bay_holds ex_docked 5 2 = Some 1" "bay_holds ex_docked 5 3 = None"
  using blank_docks bays.moored_claim [of blank_game 5 2 1]
  by (simp_all add: ex_docked_def docks_ok_moored numbered_moor ship_berth_moor bay_holds_moor
      blank_bay)

theorem bay_check_restores_witness:
  "bay_holds (bay_consistency_check 5 ex_docked) 5 2 = Some 1 \<and>
   bay_consistency_check 5 (bay_consistency_check 5 ex_docked) = bay_consistency_check 5 ex_docked"
  using bay_check_restores [OF ex_docked_ok(1), of 5 5 2 1] ex_docked_ok(3,4)
  by (simp only: confirmed_def) simp


theorem bay_closest_correct_witness:
  "snd (bay_closest 5 1 1 ex_docked) = Some 3 \<and>
   docks_ok (moor 5 7 3 (fst (bay_closest 5 1 1 ex_docked)))"
proof -
  have "bay_holds (bay_consistency_check 5 ex_docked) 5 3 = None"
    using ex_docked_ok by (simp only: check_simps(3) confirmed_def) simp
  then have "p_bays (players (bay_consistency_check 5 ex_docked) 5) 3 = None"
    by (simp only: bay_holds_def)
  then have "snd (bay_closest 5 1 1 ex_docked) = Some 3"
    by (simp add: bay_closest_def Let_def pick_bay_def bay_order_def)
  then show ?thesis
    using bay_closest_correct [OF ex_docked_ok(1,2), where b = 5 and dx = 1 and dy = 1 and me = 7]
    by (cases "bay_closest 5 1 1 ex_docked") simp
qed

end
