(* ===== verification/Ships.thy ===== *)
theory Ships
  imports Structs
begin

text \<open>
  The ship classes (\<^verbatim>\<open>ntserv/getship.c\<close>): the default value of every field of \<^verbatim>\<open>struct ship\<close> for
  each type, and the two operations.  The cost of a weapon is written, as in the source, as a
  multiple of its damage.  The top speed and the temperature limits of a starbase depend on
  whether the game is in chaos.
\<close>

definition scout_defaults :: "ship" where
  "scout_defaults = \<lparr>
     s_turns = 570000, s_accs = 100, s_torpdamage = 25, s_phaserdamage = 75,
     s_phaserfuse = 10, s_plasmadamage = -1, s_torpspeed = 16, s_torpfuse = 16,
     s_torpturns = 0, s_plasmaspeed = 0, s_plasmafuse = 0, s_plasmaturns = 0,
     s_maxspeed = 12, s_repair = 80, s_maxfuel = 5000, s_torpcost = 7 * 25,
     s_plasmacost = 20 * (-1), s_phasercost = 7 * 75, s_detcost = 100, s_warpcost = 2,
     s_cloakcost = 17, s_recharge = 8, s_accint = 200, s_decint = 270, s_maxshield = 75,
     s_maxdamage = 75, s_maxegntemp = 1000, s_maxwpntemp = 1000, s_egncoolrate = 8,
     s_wpncoolrate = 3, s_maxarmies = 2, s_width = 20, s_height = 20, s_type = SCOUT,
     s_mass = 1500, s_tractstr = 2000, s_tractrng = 7 / 10\<rparr>"

definition destroyer_defaults :: "ship" where
  "destroyer_defaults = \<lparr>
     s_turns = 310000, s_accs = 100, s_torpdamage = 30, s_phaserdamage = 85,
     s_phaserfuse = 10, s_plasmadamage = 75, s_torpspeed = 14, s_torpfuse = 30,
     s_torpturns = 0, s_plasmaspeed = 15, s_plasmafuse = 30, s_plasmaturns = 1,
     s_maxspeed = 10, s_repair = 100, s_maxfuel = 7000, s_torpcost = 7 * 30,
     s_plasmacost = 30 * 75, s_phasercost = 7 * 85, s_detcost = 100, s_warpcost = 3,
     s_cloakcost = 21, s_recharge = 11, s_accint = 200, s_decint = 300, s_maxshield = 85,
     s_maxdamage = 85, s_maxegntemp = 1000, s_maxwpntemp = 1000, s_egncoolrate = 7,
     s_wpncoolrate = 2, s_maxarmies = 5, s_width = 20, s_height = 20, s_type = DESTROYER,
     s_mass = 1800, s_tractstr = 2500, s_tractrng = 9 / 10\<rparr>"

definition cruiser_defaults :: "ship" where
  "cruiser_defaults = \<lparr>
     s_turns = 170000, s_accs = 100, s_torpdamage = 40, s_phaserdamage = 100,
     s_phaserfuse = 10, s_plasmadamage = 100, s_torpspeed = 12, s_torpfuse = 40,
     s_torpturns = 0, s_plasmaspeed = 15, s_plasmafuse = 35, s_plasmaturns = 1,
     s_maxspeed = 9, s_repair = 110, s_maxfuel = 10000, s_torpcost = 7 * 40,
     s_plasmacost = 30 * 100, s_phasercost = 7 * 100, s_detcost = 100, s_warpcost = 4,
     s_cloakcost = 26, s_recharge = 12, s_accint = 150, s_decint = 200, s_maxshield = 100,
     s_maxdamage = 100, s_maxegntemp = 1000, s_maxwpntemp = 1000, s_egncoolrate = 6,
     s_wpncoolrate = 2, s_maxarmies = 10, s_width = 20, s_height = 20, s_type = CRUISER,
     s_mass = 2000, s_tractstr = 3000, s_tractrng = 1\<rparr>"

definition battleship_defaults :: "ship" where
  "battleship_defaults = \<lparr>
     s_turns = 75000, s_accs = 100, s_torpdamage = 40, s_phaserdamage = 105,
     s_phaserfuse = 10, s_plasmadamage = 130, s_torpspeed = 12, s_torpfuse = 40,
     s_torpturns = 0, s_plasmaspeed = 15, s_plasmafuse = 35, s_plasmaturns = 1,
     s_maxspeed = 8, s_repair = 125, s_maxfuel = 14000, s_torpcost = 9 * 40,
     s_plasmacost = 30 * 130, s_phasercost = 10 * 105, s_detcost = 100, s_warpcost = 6,
     s_cloakcost = 30, s_recharge = 14, s_accint = 80, s_decint = 180, s_maxshield = 130,
     s_maxdamage = 130, s_maxegntemp = 1000, s_maxwpntemp = 1000, s_egncoolrate = 6,
     s_wpncoolrate = 3, s_maxarmies = 6, s_width = 20, s_height = 20, s_type = BATTLESHIP,
     s_mass = 2300, s_tractstr = 3700, s_tractrng = 6 / 5\<rparr>"

definition assault_defaults :: "ship" where
  "assault_defaults = \<lparr>
     s_turns = 120000, s_accs = 100, s_torpdamage = 30, s_phaserdamage = 80,
     s_phaserfuse = 10, s_plasmadamage = -1, s_torpspeed = 16, s_torpfuse = 30,
     s_torpturns = 0, s_plasmaspeed = 0, s_plasmafuse = 0, s_plasmaturns = 0,
     s_maxspeed = 8, s_repair = 120, s_maxfuel = 6000, s_torpcost = 9 * 30,
     s_plasmacost = 20 * (-1), s_phasercost = 7 * 80, s_detcost = 100, s_warpcost = 3,
     s_cloakcost = 17, s_recharge = 10, s_accint = 100, s_decint = 200, s_maxshield = 80,
     s_maxdamage = 200, s_maxegntemp = 1200, s_maxwpntemp = 1000, s_egncoolrate = 6,
     s_wpncoolrate = 2, s_maxarmies = 20, s_width = 20, s_height = 20, s_type = ASSAULT,
     s_mass = 2300, s_tractstr = 2500, s_tractrng = 7 / 10\<rparr>"

definition starbase_defaults :: "bool \<Rightarrow> ship" where
  "starbase_defaults realistic = \<lparr>
     s_turns = 50000, s_accs = 100, s_torpdamage = 30, s_phaserdamage = 120,
     s_phaserfuse = 4, s_plasmadamage = 150, s_torpspeed = 14, s_torpfuse = 30,
     s_torpturns = 0, s_plasmaspeed = 15, s_plasmafuse = 25, s_plasmaturns = 1,
     s_maxspeed = (if realistic then 2 else 3), s_repair = 140, s_maxfuel = 60000,
     s_torpcost = 10 * 30, s_plasmacost = 25 * 150, s_phasercost = 8 * 120,
     s_detcost = 100, s_warpcost = 10, s_cloakcost = 75, s_recharge = 35, s_accint = 100,
     s_decint = 200, s_maxshield = 500, s_maxdamage = 600,
     s_maxegntemp = (if realistic then 1000 else 999999),
     s_maxwpntemp = (if realistic then 1300 else 999999), s_egncoolrate = 4,
     s_wpncoolrate = 4, s_maxarmies = 25, s_width = 20, s_height = 20, s_type = STARBASE,
     s_mass = 5000, s_tractstr = 8000, s_tractrng = 3 / 2\<rparr>"

definition sgalaxy_defaults :: "ship" where
  "sgalaxy_defaults = \<lparr>
     s_turns = 192500, s_accs = 100, s_torpdamage = 40, s_phaserdamage = 100,
     s_phaserfuse = 10, s_plasmadamage = 100, s_torpspeed = 13, s_torpfuse = 35,
     s_torpturns = 0, s_plasmaspeed = 15, s_plasmafuse = 33, s_plasmaturns = 1,
     s_maxspeed = 9, s_repair = 112, s_maxfuel = 12000, s_torpcost = 7 * 40,
     s_plasmacost = 30 * 100, s_phasercost = 7 * 100, s_detcost = 100, s_warpcost = 4,
     s_cloakcost = 26, s_recharge = 13, s_accint = 150, s_decint = 240, s_maxshield = 140,
     s_maxdamage = 120, s_maxegntemp = 1000, s_maxwpntemp = 1000, s_egncoolrate = 6,
     s_wpncoolrate = 2, s_maxarmies = 5, s_width = 20, s_height = 20, s_type = SGALAXY,
     s_mass = 2050, s_tractstr = 3000, s_tractrng = 1\<rparr>"

definition att_defaults :: "ship" where
  "att_defaults = \<lparr>
     s_turns = 2140000000, s_accs = 100, s_torpdamage = 1000, s_phaserdamage = 10000,
     s_phaserfuse = 2, s_plasmadamage = 1000, s_torpspeed = 30, s_torpfuse = 200,
     s_torpturns = 10, s_plasmaspeed = 45, s_plasmafuse = 10000, s_plasmaturns = 14,
     s_maxspeed = 60, s_repair = 30000, s_maxfuel = 60000, s_torpcost = 1,
     s_plasmacost = 1, s_phasercost = 1, s_detcost = 1, s_warpcost = 1, s_cloakcost = 1,
     s_recharge = 1000, s_accint = 3000, s_decint = 3000, s_maxshield = 30000,
     s_maxdamage = 30000, s_maxegntemp = 10000, s_maxwpntemp = 10000, s_egncoolrate = 100,
     s_wpncoolrate = 100, s_maxarmies = 1000, s_width = 20, s_height = 20, s_type = ATT,
     s_mass = 32765, s_tractstr = 32765, s_tractrng = 25\<rparr>"

definition ship_default :: "bool \<Rightarrow> nat \<Rightarrow> ship" where
  "ship_default realistic t =
     (if t = SCOUT then scout_defaults
      else if t = DESTROYER then destroyer_defaults
      else if t = CRUISER then cruiser_defaults
      else if t = BATTLESHIP then battleship_defaults
      else if t = ASSAULT then assault_defaults
      else if t = STARBASE then starbase_defaults realistic
      else if t = SGALAXY then sgalaxy_defaults
      else att_defaults)"

text \<open>\<^verbatim>\<open>getshipdefaults\<close> fills the eight entries of \<^verbatim>\<open>shipvals\<close> and leaves nothing else changed.\<close>

definition getshipdefaults :: "game \<Rightarrow> game" where
  "getshipdefaults g =
     g\<lparr>shipvals := (\<lambda>t. if t < NUM_TYPES
        then ship_default (\<not> chaos g \<or> practice_mode g) t else shipvals g t)\<rparr>"

definition getship :: "nat \<Rightarrow> nat \<Rightarrow> game \<Rightarrow> game" where
  "getship me t g = upd_player me (\<lambda>p. p\<lparr>p_ship := shipvals g t\<rparr>) g"

lemmas ship_defs = ship_default_def scout_defaults_def destroyer_defaults_def
  cruiser_defaults_def battleship_defaults_def assault_defaults_def starbase_defaults_def
  sgalaxy_defaults_def att_defaults_def

text \<open>
  What the rest of the server relies on: capacities, costs and rates that must not be
  negative, limits that are divided by, and room in the 16-bit fields.
\<close>

definition ship_ok :: "ship \<Rightarrow> bool" where
  "ship_ok s \<longleftrightarrow>
     0 < s_maxspeed s \<and> 0 < s_maxfuel s \<and> 0 < s_maxshield s \<and> 0 < s_maxdamage s \<and>
     0 < s_maxegntemp s \<and> 0 < s_maxwpntemp s \<and> 0 < s_egncoolrate s \<and> 0 < s_wpncoolrate s \<and>
     0 \<le> s_torpcost s \<and> 0 \<le> s_phasercost s \<and> 0 \<le> s_detcost s \<and> 0 \<le> s_warpcost s \<and>
     0 \<le> s_cloakcost s \<and> 0 < s_recharge s \<and> 0 < s_repair s \<and> 0 < s_accint s \<and>
     0 < s_decint s \<and> 0 < s_turns s \<and> 0 < s_maxarmies s \<and> 0 < s_mass s \<and>
     0 < s_tractstr s \<and> 0 < s_tractrng s \<and> 0 < s_torpdamage s \<and> 0 < s_phaserdamage s \<and>
     0 < s_torpfuse s \<and> 0 < s_torpspeed s \<and> s_type s < NUM_TYPES"

lemma ship_default_cases:
  assumes "t < NUM_TYPES"
  shows "t = SCOUT \<or> t = DESTROYER \<or> t = CRUISER \<or> t = BATTLESHIP \<or> t = ASSAULT \<or>
    t = STARBASE \<or> t = SGALAXY \<or> t = ATT"
  using assms by linarith

lemma ship_default_type: "t < NUM_TYPES \<Longrightarrow> s_type (ship_default r t) = t"
  by (drule ship_default_cases) (auto simp: ship_defs)

lemma ship_default_ok: "t < NUM_TYPES \<Longrightarrow> ship_ok (ship_default r t)"
  by (drule ship_default_cases) (auto simp: ship_defs ship_ok_def)

lemma getshipdefaults_shipvals:
  "t < NUM_TYPES \<Longrightarrow>
     shipvals (getshipdefaults g) t = ship_default (\<not> chaos g \<or> practice_mode g) t"
  by (simp add: getshipdefaults_def)

end
