(* ===== verification/Sintab.thy ===== *)
theory Sintab
  imports Structs
begin

text \<open>
  The direction tables of \<^verbatim>\<open>ntserv/sintab.c\<close>.  The source gives each value with four decimals;
  the tables here hold the same digits as integers, in ten-thousandths.  Direction 0 points
  to the top of the galaxy (negative y), 64 to the right.
\<close>

definition Sin_tab0 :: "int list" where
  "Sin_tab0 =
    [- 10000, - 9997, - 9988, - 9973, - 9952, - 9925, - 9892, - 9853, - 9808, - 9757, - 9701, - 9638, - 9570, - 9496, - 9416, - 9330,
     - 9239, - 9143, - 9040, - 8933, - 8820, - 8701, - 8578, - 8449, - 8315, - 8176, - 8033, - 7884, - 7731, - 7573, - 7410, - 7243,
     - 7072, - 6896, - 6716, - 6533, - 6345, - 6153, - 5958, - 5759, - 5557, - 5351, - 5142, - 4930, - 4715, - 4497, - 4277, - 4054,
     - 3828, - 3600, - 3370, - 3138, - 2904, - 2668, - 2431, - 2192, - 1952, - 1711, - 1469, - 1225, - 982, - 737, - 492, - 247,
     - 1, 244, 489, 734, 979, 1223, 1466, 1708, 1949, 2190, 2428, 2666, 2901, 3135, 3367, 3598,
     3825, 4051, 4274, 4495, 4713, 4928, 5140, 5349, 5554, 5757, 5956, 6151, 6343, 6531, 6714, 6894,
     7070, 7241, 7408, 7571, 7729, 7882, 8031, 8175, 8314, 8448, 8576, 8700, 8818, 8931, 9039, 9141,
     9238, 9329, 9415, 9495, 9569, 9637, 9700, 9757, 9808, 9852, 9891, 9925, 9952, 9973, 9988, 9997]"

definition Sin_tab1 :: "int list" where
  "Sin_tab1 =
    [10000, 9997, 9988, 9973, 9952, 9925, 9892, 9853, 9808, 9757, 9700, 9638, 9569, 9495, 9415, 9330,
     9239, 9142, 9040, 8932, 8819, 8701, 8577, 8449, 8315, 8176, 8032, 7884, 7730, 7572, 7410, 7243,
     7071, 6896, 6716, 6532, 6344, 6153, 5957, 5758, 5556, 5350, 5141, 4929, 4714, 4496, 4276, 4053,
     3827, 3599, 3369, 3137, 2903, 2667, 2430, 2191, 1951, 1710, 1468, 1225, 981, 736, 491, 246,
     0, - 245, - 490, - 735, - 980, - 1224, - 1467, - 1709, - 1950, - 2190, - 2429, - 2667, - 2902, - 3136, - 3368, - 3598,
     - 3826, - 4052, - 4275, - 4496, - 4713, - 4928, - 5140, - 5349, - 5555, - 5758, - 5956, - 6152, - 6343, - 6531, - 6715, - 6895,
     - 7071, - 7242, - 7409, - 7572, - 7730, - 7883, - 8032, - 8175, - 8314, - 8448, - 8577, - 8700, - 8819, - 8932, - 9040, - 9142,
     - 9238, - 9330, - 9415, - 9495, - 9569, - 9638, - 9700, - 9757, - 9808, - 9853, - 9892, - 9925, - 9952, - 9973, - 9988, - 9997]"

definition Sin_tab :: "int list" where
  "Sin_tab = Sin_tab0 @ Sin_tab1"

definition Sin10k :: "8 word \<Rightarrow> int" where
  "Sin10k d = Sin_tab ! unat d"

definition Sin :: "8 word \<Rightarrow> rat" where
  "Sin d = of_int (Sin10k d) / 10000"

definition Cos_tab0 :: "int list" where
  "Cos_tab0 =
    [0, 245, 491, 736, 980, 1224, 1467, 1710, 1951, 2191, 2430, 2667, 2903, 3137, 3369, 3599,
     3827, 4052, 4275, 4496, 4714, 4929, 5141, 5350, 5556, 5758, 5957, 6152, 6344, 6532, 6715, 6895,
     7071, 7242, 7409, 7572, 7730, 7883, 8032, 8176, 8315, 8448, 8577, 8701, 8819, 8932, 9040, 9142,
     9239, 9330, 9415, 9495, 9569, 9638, 9700, 9757, 9808, 9853, 9892, 9925, 9952, 9973, 9988, 9997,
     10000, 9997, 9988, 9973, 9952, 9925, 9892, 9853, 9808, 9757, 9700, 9638, 9570, 9495, 9416, 9330,
     9239, 9142, 9040, 8933, 8819, 8701, 8578, 8449, 8315, 8176, 8032, 7884, 7731, 7573, 7410, 7243,
     7072, 6896, 6716, 6532, 6344, 6153, 5958, 5759, 5556, 5351, 5142, 4930, 4715, 4497, 4276, 4053,
     3828, 3600, 3370, 3138, 2904, 2668, 2431, 2192, 1952, 1710, 1468, 1225, 981, 737, 492, 246]"

definition Cos_tab1 :: "int list" where
  "Cos_tab1 =
    [1, - 244, - 490, - 735, - 979, - 1223, - 1466, - 1709, - 1950, - 2190, - 2429, - 2666, - 2902, - 3136, - 3368, - 3598,
     - 3826, - 4051, - 4275, - 4495, - 4713, - 4928, - 5140, - 5349, - 5555, - 5757, - 5956, - 6151, - 6343, - 6531, - 6715, - 6895,
     - 7070, - 7242, - 7409, - 7571, - 7729, - 7883, - 8031, - 8175, - 8314, - 8448, - 8577, - 8700, - 8819, - 8932, - 9039, - 9142,
     - 9238, - 9329, - 9415, - 9495, - 9569, - 9637, - 9700, - 9757, - 9808, - 9853, - 9892, - 9925, - 9952, - 9973, - 9988, - 9997,
     - 10000, - 9997, - 9988, - 9973, - 9952, - 9925, - 9892, - 9853, - 9808, - 9757, - 9701, - 9638, - 9570, - 9496, - 9416, - 9330,
     - 9239, - 9143, - 9041, - 8933, - 8820, - 8702, - 8578, - 8449, - 8316, - 8177, - 8033, - 7884, - 7731, - 7573, - 7411, - 7244,
     - 7072, - 6897, - 6717, - 6533, - 6345, - 6154, - 5958, - 5759, - 5557, - 5351, - 5142, - 4930, - 4715, - 4498, - 4277, - 4054,
     - 3828, - 3601, - 3371, - 3138, - 2905, - 2669, - 2432, - 2193, - 1953, - 1711, - 1469, - 1226, - 982, - 737, - 493, - 247]"

definition Cos_tab :: "int list" where
  "Cos_tab = Cos_tab0 @ Cos_tab1"

definition Cos10k :: "8 word \<Rightarrow> int" where
  "Cos10k d = Cos_tab ! unat d"

definition Cos :: "8 word \<Rightarrow> rat" where
  "Cos d = of_int (Cos10k d) / 10000"

subsection \<open>Facts on the tables\<close>

lemma tab_length [simp]:
  "length Sin_tab = 256" "length Cos_tab = 256"
  by (simp_all add: Sin_tab_def Sin_tab0_def Sin_tab1_def Cos_tab_def Cos_tab0_def Cos_tab1_def)

lemma Sin_tab_range: "list_all (\<lambda>v. -10000 \<le> v \<and> v \<le> 10000) Sin_tab"
  by (simp add: Sin_tab_def Sin_tab0_def Sin_tab1_def)

lemma Cos_tab_range: "list_all (\<lambda>v. -10000 \<le> v \<and> v \<le> 10000) Cos_tab"
  by (simp add: Cos_tab_def Cos_tab0_def Cos_tab1_def)

lemma unat_dir_less [simp]: "unat (d :: 8 word) < 256"
  using unsigned_less [of d] by simp

lemma Sin10k_range: "-10000 \<le> Sin10k d \<and> Sin10k d \<le> 10000"
  using Sin_tab_range unfolding Sin10k_def list_all_length by simp

lemma Cos10k_range: "-10000 \<le> Cos10k d \<and> Cos10k d \<le> 10000"
  using Cos_tab_range unfolding Cos10k_def list_all_length by simp

lemma abs_Sin_le: "\<bar>Sin d\<bar> \<le> 1"
  using Sin10k_range [of d] by (simp add: Sin_def abs_le_iff)

lemma abs_Cos_le: "\<bar>Cos d\<bar> \<le> 1"
  using Cos10k_range [of d] by (simp add: Cos_def abs_le_iff)

text \<open>Each table entry pair is a point close to the unit circle.\<close>

lemma tab_norm:
  "list_all (\<lambda>(s, c). \<bar>s * s + c * c - 100000000\<bar> \<le> 19474) (zip Sin_tab Cos_tab)"
  by (simp add: Sin_tab_def Sin_tab0_def Sin_tab1_def Cos_tab_def Cos_tab0_def Cos_tab1_def)

lemma dir_norm: "\<bar>Sin10k d * Sin10k d + Cos10k d * Cos10k d - 100000000\<bar> \<le> 19474"
  using tab_norm unfolding list_all_length Sin10k_def Cos10k_def
  by (auto dest!: spec [of _ "unat d"])

end
