(* ===== verification/Ltd.thy ===== *)
theory Ltd
  imports Util
begin

text \<open>
  The statistics of \<^verbatim>\<open>ntserv/ltd_stats.c\<close>.  Every update goes through \<^verbatim>\<open>ltd_stat_ptr\<close>: in
  tournament mode the record of the player's ship slot, otherwise a session record that is never
  saved.  Counters are 32-bit words.  Besides the counters there is a history from which the
  role of a player (potential or converted carrier) is derived.
\<close>

subsection \<open>Access\<close>

text \<open>The table \<^verbatim>\<open>ltd_ship\<close>: the statistics slot of each ship type, by position.\<close>

definition ltd_ship :: "nat \<Rightarrow> nat" where
  "ltd_ship t = [LTD_SC, LTD_DD, LTD_CA, LTD_BB, LTD_AS, LTD_SB, LTD_GA, LTD_TOTAL] ! t"

definition ltd_stat_by_ship :: "game \<Rightarrow> nat \<Rightarrow> nat \<Rightarrow> ltd_stats" where
  "ltd_stat_by_ship g i slot =
     (if tourn g then ltd (p_stats (players g i)) slot else p_bogus (players g i))"

definition upd_ltd_slot :: "nat \<Rightarrow> (ltd_stats \<Rightarrow> ltd_stats) \<Rightarrow> player \<Rightarrow> player" where
  "upd_ltd_slot slot f p =
     p\<lparr>p_stats := (p_stats p)\<lparr>ltd := (ltd (p_stats p))(slot := f (ltd (p_stats p) slot))\<rparr>\<rparr>"

text \<open>Reading and writing through \<^verbatim>\<open>ltd_stat_ptr\<close>.\<close>

definition ltd_stat :: "game \<Rightarrow> nat \<Rightarrow> ltd_stats" where
  "ltd_stat g i = ltd_stat_by_ship g i (ltd_ship (s_type (p_ship (players g i))))"

definition ltd_stat_total :: "game \<Rightarrow> nat \<Rightarrow> ltd_stats" where
  "ltd_stat_total g i = ltd_stat_by_ship g i LTD_TOTAL"

definition upd_ltd :: "nat \<Rightarrow> (ltd_stats \<Rightarrow> ltd_stats) \<Rightarrow> game \<Rightarrow> game" where
  "upd_ltd i f g =
     upd_player i (\<lambda>p. if tourn g then upd_ltd_slot (ltd_ship (s_type (p_ship p))) f p
                       else p\<lparr>p_bogus := f (p_bogus p)\<rparr>) g"

definition upd_hist :: "nat \<Rightarrow> (ltd_history \<Rightarrow> ltd_history) \<Rightarrow> game \<Rightarrow> game" where
  "upd_hist i f g = upd_player i (\<lambda>p. p\<lparr>p_hist := f (p_hist p)\<rparr>) g"

definition inc :: "32 word \<Rightarrow> 32 word" where "inc n = n + 1"

definition dec :: "32 word \<Rightarrow> 32 word" where "dec n = n - 1"

definition plus_int :: "int \<Rightarrow> 32 word \<Rightarrow> 32 word" where "plus_int k n = n + of_int k"

subsection \<open>Totals and ratings\<close>

definition ltd_slots :: "nat list" where
  "ltd_slots = filter (\<lambda>i. i \<noteq> LTD_SB) [1..<LTD_NUM_SHIPS]"

definition ltd_sum :: "(ltd_stats \<Rightarrow> 32 word) \<Rightarrow> (nat \<Rightarrow> ltd_stats) \<Rightarrow> 32 word" where
  "ltd_sum f l = fold (\<lambda>i t. t + f (l i)) ltd_slots 0"

text \<open>The maximum is kept in an \<^verbatim>\<open>int\<close>, so the fraction is dropped at every step.\<close>

definition ltd_maximise :: "(ltd_stats \<Rightarrow> rat) \<Rightarrow> (nat \<Rightarrow> ltd_stats) \<Rightarrow> int" where
  "ltd_maximise f l = fold (\<lambda>i m. if of_int m < f (l i) then trunc (f (l i)) else m) ltd_slots 0"

definition set_total :: "(ltd_stats \<Rightarrow> ltd_stats) \<Rightarrow> player \<Rightarrow> player" where
  "set_total f = upd_ltd_slot LTD_TOTAL f"

text \<open>The access functions refresh the total when it is asked for; the result is an \<^verbatim>\<open>int\<close>.\<close>

definition ltd_kills_of :: "nat \<Rightarrow> player \<Rightarrow> player \<times> int" where
  "ltd_kills_of s p =
     (let l = ltd (p_stats p);
          p = (if s = LTD_TOTAL
               then set_total (s_kills_update (lk_total_update (\<lambda>_. ltd_sum (lk_total \<circ> s_kills) l))) p
               else p)
      in (p, sint (lk_total (s_kills (ltd (p_stats p) s)))))"

definition ltd_deaths_of :: "nat \<Rightarrow> player \<Rightarrow> player \<times> int" where
  "ltd_deaths_of s p =
     (let l = ltd (p_stats p);
          p = (if s = LTD_TOTAL
               then set_total (s_deaths_update (ld_total_update (\<lambda>_. ltd_sum (ld_total \<circ> s_deaths) l))) p
               else p)
      in (p, sint (ld_total (s_deaths (ltd (p_stats p) s)))))"

definition ltd_armies_bombed :: "nat \<Rightarrow> player \<Rightarrow> player \<times> int" where
  "ltd_armies_bombed s p =
     (let l = ltd (p_stats p);
          p = (if s = LTD_TOTAL
               then set_total (s_ogged_update (lo_armies_update (\<lambda>_. ltd_sum (lo_armies \<circ> s_ogged) l)))
                     (set_total (s_bomb_update (lb_armies_update (\<lambda>_. ltd_sum (lb_armies \<circ> s_bomb) l))) p)
               else p)
      in (p, sint (lb_armies (s_bomb (ltd (p_stats p) s)) + 5 * lo_armies (s_ogged (ltd (p_stats p) s)))))"

definition ltd_planets_taken :: "nat \<Rightarrow> player \<Rightarrow> player \<times> int" where
  "ltd_planets_taken s p =
     (let l = ltd (p_stats p);
          p = (if s = LTD_TOTAL
               then set_total (s_planets_update (lp_taken_update (\<lambda>_. ltd_sum (lp_taken \<circ> s_planets) l))) p
               else p)
      in (p, sint (lp_taken (s_planets (ltd (p_stats p) s)))))"

definition ltd_ticks_of :: "nat \<Rightarrow> player \<Rightarrow> player \<times> int" where
  "ltd_ticks_of s p =
     (let l = ltd (p_stats p);
          p = (if s = LTD_TOTAL
               then set_total (s_ticks_update (lt_total_update (\<lambda>_. ltd_sum (lt_total \<circ> s_ticks) l))) p
               else p)
      in (p, sint (lt_total (s_ticks (ltd (p_stats p) s)))))"

definition ltd_kills_max :: "nat \<Rightarrow> player \<Rightarrow> player \<times> int" where
  "ltd_kills_max s p =
     (let l = ltd (p_stats p);
          p = (if s = LTD_TOTAL
               then set_total (s_kills_update (lk_max_update
                      (\<lambda>_. of_int (ltd_maximise (lk_max \<circ> s_kills) l)))) p
               else p)
      in (p, trunc (lk_max (s_kills (ltd (p_stats p) s)))))"

text \<open>The ratings compare a player with the totals of the server in \<^verbatim>\<open>struct status\<close>.\<close>

definition ltd_bombing_rating :: "status \<Rightarrow> player \<Rightarrow> player \<times> rat" where
  "ltd_bombing_rating st p =
     (let (p, a) = ltd_armies_bombed LTD_TOTAL p; (p, t) = ltd_ticks_of LTD_TOTAL p
      in (p, of_int a * st_timeprod st / (of_int t * of_int (uint (st_armsbomb st)))))"

definition ltd_planet_rating :: "status \<Rightarrow> player \<Rightarrow> player \<times> rat" where
  "ltd_planet_rating st p =
     (let (p, a) = ltd_planets_taken LTD_TOTAL p; (p, t) = ltd_ticks_of LTD_TOTAL p
      in (p, of_int a * st_timeprod st / (of_int t * of_int (uint (st_planets st)))))"

definition ltd_defense_rating :: "status \<Rightarrow> player \<Rightarrow> player \<times> rat" where
  "ltd_defense_rating st p =
     (let (p, t) = ltd_ticks_of LTD_TOTAL p; (p, d) = ltd_deaths_of LTD_TOTAL p
      in (p, of_int t * of_int (uint (st_losses st)) /
           (if d \<noteq> 0 then of_int d * st_timeprod st else st_timeprod st)))"

definition ltd_offense_rating :: "status \<Rightarrow> player \<Rightarrow> player \<times> rat" where
  "ltd_offense_rating st p =
     (let (p, k) = ltd_kills_of LTD_TOTAL p; (p, t) = ltd_ticks_of LTD_TOTAL p
      in (p, of_int k * st_timeprod st / (of_int t * of_int (uint (st_kills st)))))"

definition ltd_total_rating :: "status \<Rightarrow> player \<Rightarrow> player \<times> rat" where
  "ltd_total_rating st p =
     (let (p, b) = ltd_bombing_rating st p; (p, l) = ltd_planet_rating st p;
          (p, f) = ltd_offense_rating st p
      in (p, b + l + f))"

subsection \<open>Refreshing all totals\<close>

text \<open>
  \<^verbatim>\<open>ltd_update_totals\<close> rewrites the total slot, one statistic at a time, from the other slots
  (without the starbase).  The updates are composed right to left.
\<close>

definition totals_kills :: "(nat \<Rightarrow> ltd_stats) \<Rightarrow> ltd_stats \<Rightarrow> ltd_stats" where
  "totals_kills l =
     s_kills_update (lk_plasmaed_update (\<lambda>_. ltd_sum (lk_plasmaed \<circ> s_kills) l)) \<circ>
     s_kills_update (lk_torped_update (\<lambda>_. ltd_sum (lk_torped \<circ> s_kills) l)) \<circ>
     s_kills_update (lk_phasered_update (\<lambda>_. ltd_sum (lk_phasered \<circ> s_kills) l)) \<circ>
     s_kills_update (lk_second_converted_update (\<lambda>_. ltd_sum (lk_second_converted \<circ> s_kills) l)) \<circ>
     s_kills_update (lk_second_potential_update (\<lambda>_. ltd_sum (lk_second_potential \<circ> s_kills) l)) \<circ>
     s_kills_update (lk_second_update (\<lambda>_. ltd_sum (lk_second \<circ> s_kills) l)) \<circ>
     s_kills_update (lk_first_converted_update (\<lambda>_. ltd_sum (lk_first_converted \<circ> s_kills) l)) \<circ>
     s_kills_update (lk_first_potential_update (\<lambda>_. ltd_sum (lk_first_potential \<circ> s_kills) l)) \<circ>
     s_kills_update (lk_first_update (\<lambda>_. ltd_sum (lk_first \<circ> s_kills) l)) \<circ>
     s_kills_update (lk_max_update (\<lambda>_. of_int (ltd_maximise (lk_max \<circ> s_kills) l))) \<circ>
     s_kills_update (lk_total_update (\<lambda>_. ltd_sum (lk_total \<circ> s_kills) l))"

definition totals_deaths :: "(nat \<Rightarrow> ltd_stats) \<Rightarrow> ltd_stats \<Rightarrow> ltd_stats" where
  "totals_deaths l =
     s_deaths_update (ld_acc_update (\<lambda>_. ltd_sum (ld_acc \<circ> s_deaths) l)) \<circ>
     s_deaths_update (ld_plasmaed_update (\<lambda>_. ltd_sum (ld_plasmaed \<circ> s_deaths) l)) \<circ>
     s_deaths_update (ld_torped_update (\<lambda>_. ltd_sum (ld_torped \<circ> s_deaths) l)) \<circ>
     s_deaths_update (ld_phasered_update (\<lambda>_. ltd_sum (ld_phasered \<circ> s_deaths) l)) \<circ>
     s_deaths_update (ld_dooshed_update (\<lambda>_. ltd_sum (ld_dooshed \<circ> s_deaths) l)) \<circ>
     s_deaths_update (ld_converted_update (\<lambda>_. ltd_sum (ld_converted \<circ> s_deaths) l)) \<circ>
     s_deaths_update (ld_potential_update (\<lambda>_. ltd_sum (ld_potential \<circ> s_deaths) l)) \<circ>
     s_deaths_update (ld_total_update (\<lambda>_. ltd_sum (ld_total \<circ> s_deaths) l))"

definition totals_targets :: "(nat \<Rightarrow> ltd_stats) \<Rightarrow> ltd_stats \<Rightarrow> ltd_stats" where
  "totals_targets l =
     s_ogged_update (lo_friendly_armies_update (\<lambda>_. ltd_sum (lo_friendly_armies \<circ> s_ogged) l)) \<circ>
     s_ogged_update (lo_friendly_update (\<lambda>_. ltd_sum (lo_friendly \<circ> s_ogged) l)) \<circ>
     s_ogged_update (lo_sb_armies_update (\<lambda>_. ltd_sum (lo_sb_armies \<circ> s_ogged) l)) \<circ>
     s_ogged_update (lo_smaller_ship_update (\<lambda>_. ltd_sum (lo_smaller_ship \<circ> s_ogged) l)) \<circ>
     s_ogged_update (lo_same_ship_update (\<lambda>_. ltd_sum (lo_same_ship \<circ> s_ogged) l)) \<circ>
     s_ogged_update (lo_bigger_ship_update (\<lambda>_. ltd_sum (lo_bigger_ship \<circ> s_ogged) l)) \<circ>
     s_ogged_update (lo_potential_update (\<lambda>_. ltd_sum (lo_potential \<circ> s_ogged) l)) \<circ>
     s_ogged_update (lo_converted_update (\<lambda>_. ltd_sum (lo_converted \<circ> s_ogged) l)) \<circ>
     s_ogged_update (lo_dooshed_update (\<lambda>_. ltd_sum (lo_dooshed \<circ> s_ogged) l)) \<circ>
     s_ogged_update (lo_armies_update (\<lambda>_. ltd_sum (lo_armies \<circ> s_ogged) l)) \<circ>
     s_bomb_update (lb_armies_core_update (\<lambda>_. ltd_sum (lb_armies_core \<circ> s_bomb) l)) \<circ>
     s_bomb_update (lb_armies_8_update (\<lambda>_. ltd_sum (lb_armies_8 \<circ> s_bomb) l)) \<circ>
     s_bomb_update (lb_armies_update (\<lambda>_. ltd_sum (lb_armies \<circ> s_bomb) l)) \<circ>
     s_bomb_update (lb_planets_core_update (\<lambda>_. ltd_sum (lb_planets_core \<circ> s_bomb) l)) \<circ>
     s_bomb_update (lb_planets_8_update (\<lambda>_. ltd_sum (lb_planets_8 \<circ> s_bomb) l)) \<circ>
     s_bomb_update (lb_planets_update (\<lambda>_. ltd_sum (lb_planets \<circ> s_bomb) l)) \<circ>
     s_planets_update (lp_destroyed_update (\<lambda>_. ltd_sum (lp_destroyed \<circ> s_planets) l)) \<circ>
     s_planets_update (lp_taken_update (\<lambda>_. ltd_sum (lp_taken \<circ> s_planets) l))"

definition totals_carrying :: "(nat \<Rightarrow> ltd_stats) \<Rightarrow> ltd_stats \<Rightarrow> ltd_stats" where
  "totals_carrying l =
     s_carries_update (lc_ferries_update (\<lambda>_. ltd_sum (lc_ferries \<circ> s_carries) l)) \<circ>
     s_carries_update (lc_reinforce_update (\<lambda>_. ltd_sum (lc_reinforce \<circ> s_carries) l)) \<circ>
     s_carries_update (lc_attack_update (\<lambda>_. ltd_sum (lc_attack \<circ> s_carries) l)) \<circ>
     s_carries_update (lc_completed_update (\<lambda>_. ltd_sum (lc_completed \<circ> s_carries) l)) \<circ>
     s_carries_update (lc_partial_update (\<lambda>_. ltd_sum (lc_partial \<circ> s_carries) l)) \<circ>
     s_carries_update (lc_total_update (\<lambda>_. ltd_sum (lc_total \<circ> s_carries) l)) \<circ>
     s_armies_update (la_killed_update (\<lambda>_. ltd_sum (la_killed \<circ> s_armies) l)) \<circ>
     s_armies_update (la_ferries_update (\<lambda>_. ltd_sum (la_ferries \<circ> s_armies) l)) \<circ>
     s_armies_update (la_reinforce_update (\<lambda>_. ltd_sum (la_reinforce \<circ> s_armies) l)) \<circ>
     s_armies_update (la_attack_update (\<lambda>_. ltd_sum (la_attack \<circ> s_armies) l)) \<circ>
     s_armies_update (la_total_update (\<lambda>_. ltd_sum (la_total \<circ> s_armies) l))"

definition totals_ticks :: "(nat \<Rightarrow> ltd_stats) \<Rightarrow> ltd_stats \<Rightarrow> ltd_stats" where
  "totals_ticks l =
     s_damage_repaired_update (\<lambda>_. ltd_sum s_damage_repaired l) \<circ>
     s_ticks_update (lt_repair_update (\<lambda>_. ltd_sum (lt_repair \<circ> s_ticks) l)) \<circ>
     s_ticks_update (lt_carrier_update (\<lambda>_. ltd_sum (lt_carrier \<circ> s_ticks) l)) \<circ>
     s_ticks_update (lt_potential_update (\<lambda>_. ltd_sum (lt_potential \<circ> s_ticks) l)) \<circ>
     s_ticks_update (lt_zone_update (\<lambda>z. z(7 := ltd_sum (\<lambda>s. lt_zone (s_ticks s) 7) l))) \<circ>
     s_ticks_update (lt_zone_update (\<lambda>z. z(6 := ltd_sum (\<lambda>s. lt_zone (s_ticks s) 6) l))) \<circ>
     s_ticks_update (lt_zone_update (\<lambda>z. z(5 := ltd_sum (\<lambda>s. lt_zone (s_ticks s) 5) l))) \<circ>
     s_ticks_update (lt_zone_update (\<lambda>z. z(4 := ltd_sum (\<lambda>s. lt_zone (s_ticks s) 4) l))) \<circ>
     s_ticks_update (lt_zone_update (\<lambda>z. z(3 := ltd_sum (\<lambda>s. lt_zone (s_ticks s) 3) l))) \<circ>
     s_ticks_update (lt_zone_update (\<lambda>z. z(2 := ltd_sum (\<lambda>s. lt_zone (s_ticks s) 2) l))) \<circ>
     s_ticks_update (lt_zone_update (\<lambda>z. z(1 := ltd_sum (\<lambda>s. lt_zone (s_ticks s) 1) l))) \<circ>
     s_ticks_update (lt_zone_update (\<lambda>z. z(0 := ltd_sum (\<lambda>s. lt_zone (s_ticks s) 0) l))) \<circ>
     s_ticks_update (lt_red_update (\<lambda>_. ltd_sum (lt_red \<circ> s_ticks) l)) \<circ>
     s_ticks_update (lt_yellow_update (\<lambda>_. ltd_sum (lt_yellow \<circ> s_ticks) l)) \<circ>
     s_ticks_update (lt_total_update (\<lambda>_. ltd_sum (lt_total \<circ> s_ticks) l))"

definition totals_weapons :: "(nat \<Rightarrow> ltd_stats) \<Rightarrow> ltd_stats \<Rightarrow> ltd_stats" where
  "totals_weapons l =
     s_plasma_update (lpl_damage_update (taken_update (\<lambda>_. ltd_sum (taken \<circ> lpl_damage \<circ> s_plasma) l))) \<circ>
     s_plasma_update (lpl_damage_update (inflicted_update (\<lambda>_. ltd_sum (inflicted \<circ> lpl_damage \<circ> s_plasma) l))) \<circ>
     s_plasma_update (lpl_wall_update (\<lambda>_. ltd_sum (lpl_wall \<circ> s_plasma) l)) \<circ>
     s_plasma_update (lpl_phasered_update (\<lambda>_. ltd_sum (lpl_phasered \<circ> s_plasma) l)) \<circ>
     s_plasma_update (lpl_hit_update (\<lambda>_. ltd_sum (lpl_hit \<circ> s_plasma) l)) \<circ>
     s_plasma_update (lpl_fired_update (\<lambda>_. ltd_sum (lpl_fired \<circ> s_plasma) l)) \<circ>
     s_torps_update (ltp_damage_update (taken_update (\<lambda>_. ltd_sum (taken \<circ> ltp_damage \<circ> s_torps) l))) \<circ>
     s_torps_update (ltp_damage_update (inflicted_update (\<lambda>_. ltd_sum (inflicted \<circ> ltp_damage \<circ> s_torps) l))) \<circ>
     s_torps_update (ltp_wall_update (\<lambda>_. ltd_sum (ltp_wall \<circ> s_torps) l)) \<circ>
     s_torps_update (ltp_selfdetted_update (\<lambda>_. ltd_sum (ltp_selfdetted \<circ> s_torps) l)) \<circ>
     s_torps_update (ltp_detted_update (\<lambda>_. ltd_sum (ltp_detted \<circ> s_torps) l)) \<circ>
     s_torps_update (ltp_hit_update (\<lambda>_. ltd_sum (ltp_hit \<circ> s_torps) l)) \<circ>
     s_torps_update (ltp_fired_update (\<lambda>_. ltd_sum (ltp_fired \<circ> s_torps) l)) \<circ>
     s_phaser_update (lph_damage_update (taken_update (\<lambda>_. ltd_sum (taken \<circ> lph_damage \<circ> s_phaser) l))) \<circ>
     s_phaser_update (lph_damage_update (inflicted_update (\<lambda>_. ltd_sum (inflicted \<circ> lph_damage \<circ> s_phaser) l))) \<circ>
     s_phaser_update (lph_hit_update (\<lambda>_. ltd_sum (lph_hit \<circ> s_phaser) l)) \<circ>
     s_phaser_update (lph_fired_update (\<lambda>_. ltd_sum (lph_fired \<circ> s_phaser) l))"

definition ltd_update_totals :: "nat \<Rightarrow> game \<Rightarrow> game" where
  "ltd_update_totals i g =
     upd_player i (\<lambda>p. let l = ltd (p_stats p) in set_total
       (totals_weapons l \<circ> totals_ticks l \<circ> totals_carrying l \<circ> totals_targets l \<circ>
        totals_deaths l \<circ> totals_kills l) p) g"

subsection \<open>Zones and ticks\<close>

text \<open>
  Bands of 15000 counted from the home edge of the galaxy: \<open>band_up\<close> when the home is at the
  low end of the axis, \<open>band_down\<close> when it is at the high end.
\<close>

definition band_up :: "int \<Rightarrow> nat" where
  "band_up v = (if v < 20000 then 0 else if v < 35000 then 1 else if v < 50000 then 2
     else if v < 65000 then 3 else if v < 80000 then 4 else 5)"

definition band_down :: "int \<Rightarrow> nat" where
  "band_down v = (if v \<ge> 80000 then 0 else if v \<ge> 65000 then 1 else if v \<ge> 50000 then 2
     else if v \<ge> 35000 then 3 else if v \<ge> 20000 then 4 else 5)"

definition ltd_zone :: "player \<Rightarrow> nat" where
  "ltd_zone p =
     (let x = p_x p; y = p_y p; other = enemy_team (p_hist p) in
      if p_status p \<noteq> PALIVE then 7
      else if p_team p = FED then
        if other = ROM then if x < 50000 then band_down y else 6
        else if other = ORI then if y \<ge> 50000 then band_up x else 6
        else 7
      else if p_team p = ROM then
        if other = FED then if x < 50000 then band_up y else 6
        else if other = KLI then if y < 50000 then band_up x else 6
        else 7
      else if p_team p = KLI then
        if other = ROM then if y < 50000 then band_down x else 6
        else if other = ORI then if x \<ge> 50000 then band_up y else 6
        else 7
      else if p_team p = ORI then
        if other = FED then if y \<ge> 50000 then band_down x else 6
        else if other = KLI then if x \<ge> 50000 then band_down y else 6
        else 7
      else 7)"

text \<open>Green alert with the hull less than half damaged: the moment a kill may become a carry.\<close>

definition safe_now :: "player \<Rightarrow> bool" where
  "safe_now p \<longleftrightarrow> has (p_flags p) PFGREEN \<and> p_damage p < s_maxdamage (p_ship p) sdiv 2"

definition count_ticks :: "nat \<Rightarrow> game \<Rightarrow> game" where
  "count_ticks i g =
     (let fl = p_flags (players g i);
          g = upd_ltd i (s_ticks_update (lt_total_update inc)) g;
          g = (if has fl PFRED then upd_ltd i (s_ticks_update (lt_red_update inc)) g
               else if has fl PFYELLOW then upd_ltd i (s_ticks_update (lt_yellow_update inc)) g
               else g);
          g = (if p_armies (players g i) > 0 then upd_ltd i (s_ticks_update (lt_carrier_update inc)) g
               else if kill_potential (p_hist (players g i)) \<noteq> 0
               then upd_ltd i (s_ticks_update (lt_potential_update inc)) g else g);
          g = (if has fl PFREPAIR then upd_ltd i (s_ticks_update (lt_repair_update inc)) g else g)
      in if lt_total (s_ticks (ltd_stat g i)) mod 10 = 0
         then let z = ltd_zone (players g i) in
           upd_ltd i (s_ticks_update (lt_zone_update (\<lambda>f. f(z := inc (f z))))) g
         else g)"

definition first_potential :: "nat \<Rightarrow> game \<Rightarrow> game" where
  "first_potential i g =
     (if kill_potential (p_hist (players g i)) = 0 \<and> num_kills (p_hist (players g i)) > 0 \<and>
         safe_now (players g i)
      then upd_hist i (kill_potential_update (\<lambda>_. 1))
             (upd_ltd i (s_kills_update (lk_first_potential_update inc)) g)
      else g)"

definition second_potential :: "nat \<Rightarrow> game \<Rightarrow> game" where
  "second_potential i g =
     (if kill_potential (p_hist (players g i)) = 1 \<and> num_kills (p_hist (players g i)) > 1 \<and>
         safe_now (players g i)
      then upd_hist i (kill_potential_update (\<lambda>_. 2))
             (upd_ltd i (s_kills_update (lk_second_potential_update inc)) g)
      else g)"

definition ltd_update_ticks :: "nat \<Rightarrow> game \<Rightarrow> game" where
  "ltd_update_ticks i g = second_potential i (first_potential i (count_ticks i g))"

subsection \<open>Kills and deaths\<close>

definition ltd_update_kills_max :: "nat \<Rightarrow> game \<Rightarrow> game" where
  "ltd_update_kills_max i g =
     (if p_kills (players g i) > lk_max (s_kills (ltd_stat g i))
      then upd_ltd i (s_kills_update (lk_max_update (\<lambda>_. p_kills (players g i)))) g else g)"

text \<open>Which weapon the cause of death counts for.\<close>

datatype weapon = W_phaser | W_torp | W_plasma | W_none

fun weapon_of :: "whydead \<Rightarrow> weapon" where
  "weapon_of KPHASER = W_phaser"
| "weapon_of KTORP = W_torp"
| "weapon_of KTORP2 = W_torp"
| "weapon_of KPLASMA = W_plasma"
| "weapon_of KPLASMA2 = W_plasma"
| "weapon_of _ = W_none"

definition kill_by_weapon :: "weapon \<Rightarrow> ltd_stats \<Rightarrow> ltd_stats" where
  "kill_by_weapon w =
     (case w of W_phaser \<Rightarrow> s_kills_update (lk_phasered_update inc)
      | W_torp \<Rightarrow> s_kills_update (lk_torped_update inc)
      | W_plasma \<Rightarrow> s_kills_update (lk_plasmaed_update inc)
      | W_none \<Rightarrow> id)"

text \<open>Killer ship against victim ship: the galaxy class and the AT&T are not counted.\<close>

definition ship_size :: "nat \<Rightarrow> nat option" where
  "ship_size t = (if t = SCOUT \<or> t = DESTROYER then Some 0 else if t = ASSAULT then Some 1
     else if t = CRUISER \<or> t = BATTLESHIP then Some 2 else if t = STARBASE then Some 3 else None)"

definition ogged_by_size :: "nat \<Rightarrow> nat \<Rightarrow> ltd_stats \<Rightarrow> ltd_stats" where
  "ogged_by_size ks vs =
     (case (ship_size ks, ship_size vs) of
        (Some k, Some v) \<Rightarrow> if k = v then s_ogged_update (lo_same_ship_update inc)
                           else if k < v then s_ogged_update (lo_bigger_ship_update inc)
                           else s_ogged_update (lo_smaller_ship_update inc)
      | _ \<Rightarrow> id)"

definition ogg_carrier :: "nat \<Rightarrow> nat \<Rightarrow> nat \<Rightarrow> game \<Rightarrow> game" where
  "ogg_carrier credit actual victim g =
     (let v = players g victim; n = p_armies v; vs = s_type (p_ship v);
          ks = s_type (p_ship (players g credit));
          g = (if vs = STARBASE
               then upd_ltd credit (s_ogged_update (lo_sb_armies_update (plus_int n))) g
               else upd_ltd credit (s_ogged_update (lo_dooshed_update inc))
                      (upd_ltd credit (s_ogged_update (lo_armies_update (plus_int n))) g));
          g = (if p_team (players g actual) = p_team (players g victim)
               then upd_ltd actual (s_ogged_update (lo_friendly_update inc))
                      (upd_ltd actual (s_ogged_update (lo_friendly_armies_update (plus_int n))) g)
               else g)
      in upd_ltd credit (ogged_by_size ks vs) g)"

definition kill_record :: "nat \<Rightarrow> nat \<Rightarrow> game \<Rightarrow> ltd_kill" where
  "kill_record credit victim g =
     (let v = players g victim in
      \<lparr>hk_tick = lt_total (s_ticks (ltd_stat g credit)), hk_potential = 0, hk_victim = Some victim,
       hk_before = p_kills (players g credit) -
         (1 + of_int (p_armies v) * (1/10) + p_kills v * (1/10)),
       hk_ship = int (s_type (p_ship v))\<rparr>)"

definition remember_kill :: "nat \<Rightarrow> nat \<Rightarrow> game \<Rightarrow> game" where
  "remember_kill credit victim g =
     (let n = num_kills (p_hist (players g credit)) in
      if n < int LTD_NUM_HIST then
        let g = upd_hist credit
                  (h_kills_update (\<lambda>h. h(nat n := kill_record credit victim g))) g;
            g = (if n = 0 then upd_ltd credit (s_kills_update (lk_first_update inc)) g
                 else if n = 1 then upd_ltd credit (s_kills_update (lk_second_update inc)) g
                 else g)
        in upd_hist credit (num_kills_update (\<lambda>k. k + 1)) g
      else g)"

definition ltd_update_kills :: "nat \<Rightarrow> nat \<Rightarrow> nat \<Rightarrow> game \<Rightarrow> game" where
  "ltd_update_kills credit actual victim g =
     (let g = upd_ltd credit (s_kills_update (lk_total_update inc)) g;
          g = upd_ltd credit (kill_by_weapon (weapon_of (p_whydead (players g victim)))) g;
          vp = kill_potential (p_hist (players g victim));
          g = (if p_armies (players g victim) > 0 then ogg_carrier credit actual victim g
               else if vp = 1 \<or> vp = 2 then upd_ltd credit (s_ogged_update (lo_potential_update inc)) g
               else if vp > 2 then upd_ltd credit (s_ogged_update (lo_converted_update inc)) g
               else g)
      in ltd_update_kills_max credit (remember_kill credit victim g))"

definition death_by_weapon :: "weapon \<Rightarrow> ltd_stats \<Rightarrow> ltd_stats" where
  "death_by_weapon w =
     (case w of W_phaser \<Rightarrow> s_deaths_update (ld_phasered_update inc)
      | W_torp \<Rightarrow> s_deaths_update (ld_torped_update inc)
      | W_plasma \<Rightarrow> s_deaths_update (ld_plasmaed_update inc)
      | W_none \<Rightarrow> id)"

definition ltd_update_deaths :: "nat \<Rightarrow> nat option \<Rightarrow> game \<Rightarrow> game" where
  "ltd_update_deaths victim actual g =
     (let g = upd_ltd victim (s_deaths_update (ld_total_update inc)) g;
          v = players g victim; vp = kill_potential (p_hist v);
          g = (if p_armies v > 0 then
                 let g = upd_ltd victim (s_deaths_update (ld_dooshed_update inc)) g;
                     g = upd_ltd victim (s_armies_update (la_killed_update (plus_int (p_armies v)))) g
                 in if has (p_flags v) PFBEAMDOWN
                    then upd_ltd victim (s_carries_update (lc_partial_update inc)) g else g
               else if vp = 1 \<or> vp = 2 then upd_ltd victim (s_deaths_update (ld_potential_update inc)) g
               else if vp > 2 then upd_ltd victim (s_deaths_update (ld_converted_update inc)) g
               else g)
      in if actual = None then g
         else upd_ltd victim (death_by_weapon (weapon_of (p_whydead v))) g)"

subsection \<open>Bombing and planets\<close>

definition ltd_update_bomb :: "nat \<Rightarrow> nat \<Rightarrow> int \<Rightarrow> game \<Rightarrow> game" where
  "ltd_update_bomb bomber l n g =
     (let h = p_hist (players g bomber); t = lt_total (s_ticks (ltd_stat g bomber));
          fresh = (last_bombed_planet h \<noteq> int (p_planet (players g bomber)) \<or>
                   t - last_bombed_tick h > 50);
          g = (if fresh then
                 upd_ltd bomber (s_bomb_update (lb_planets_update inc))
                   (upd_hist bomber (last_bombed_planet_update
                        (\<lambda>_. int (p_planet (players g bomber))) \<circ> last_bombed_tick_update (\<lambda>_. t)) g)
               else g);
          g = upd_ltd bomber (s_bomb_update (lb_armies_update (plus_int n))) g;
          g = (if meets (pl_flags (planets g l)) PLCORE then
                 let g = upd_ltd bomber (s_bomb_update (lb_armies_core_update (plus_int n))) g
                 in if fresh then upd_ltd bomber (s_bomb_update (lb_planets_core_update inc)) g else g
               else g)
      in if pl_armies (planets g l) + n \<le> 8 then
           let g = upd_ltd bomber (s_bomb_update (lb_armies_8_update (plus_int n))) g
           in if fresh then upd_ltd bomber (s_bomb_update (lb_planets_8_update inc)) g else g
         else g)"

definition ltd_update_planets :: "nat \<Rightarrow> nat \<Rightarrow> game \<Rightarrow> game" where
  "ltd_update_planets taker l g =
     (if pl_owner (planets g l) = NOBODY
      then upd_ltd taker (s_planets_update (lp_destroyed_update inc)) g
      else upd_ltd taker (s_planets_update (lp_taken_update inc)) g)"

subsection \<open>Armies\<close>

text \<open>Dropping an army counts as a new carry once per planet in a row.\<close>

definition first_drop_here :: "nat \<Rightarrow> (ltd_stats \<Rightarrow> ltd_stats) \<Rightarrow> game \<Rightarrow> game" where
  "first_drop_here i f g =
     (let here = int (p_planet (players g i)) in
      if last_beamdown_planet (p_hist (players g i)) \<noteq> here
      then upd_ltd i f (upd_hist i (last_beamdown_planet_update (\<lambda>_. here)) g) else g)"

definition ltd_update_armies :: "nat \<Rightarrow> nat \<Rightarrow> game \<Rightarrow> game" where
  "ltd_update_armies i l g =
     (let g = (if p_armies (players g i) = 0
               then upd_ltd i (s_carries_update (lc_completed_update inc)) g else g)
      in if pl_owner (planets g l) \<noteq> p_team (players g i) then
           first_drop_here i (s_carries_update (lc_attack_update inc))
             (upd_ltd i (s_armies_update (la_attack_update inc)) g)
         else if pl_armies (planets g l) \<le> 4 then
           first_drop_here i (s_carries_update (lc_reinforce_update inc))
             (upd_ltd i (s_armies_update (la_reinforce_update inc)) g)
         else if last_beamup_planet (p_hist (players g i)) = int (p_planet (players g i)) then
           upd_ltd i (s_armies_update (la_total_update dec)) g
         else
           first_drop_here i (s_carries_update (lc_ferries_update inc))
             (upd_ltd i (s_armies_update (la_ferries_update inc)) g))"

text \<open>
  The role of a carrier after beaming up an army.  The first test of the chain decides; a role
  that does not qualify stays.
\<close>

definition carrier_role :: "nat \<Rightarrow> game \<Rightarrow> game" where
  "carrier_role i g =
     (let p = players g i; n = num_kills (p_hist p); kp = kill_potential (p_hist p) in
      if kp = 0 then
        let g = (if n \<ge> 1 then upd_ltd i (s_kills_update (lk_first_potential_update inc)) g else g);
            g = (if n \<ge> 2 then upd_ltd i (s_kills_update (lk_second_potential_update inc)) g else g)
        in upd_hist i (kill_potential_update (\<lambda>_. 3)) g
      else if kp = 1 \<or> kp = 2 then
        if n > 0 then upd_hist i (kill_potential_update (\<lambda>_. 3))
                        (upd_ltd i (s_kills_update (lk_first_converted_update inc)) g)
        else g
      else if kp = 3 then
        if n > 1 \<and> p_armies p > (if s_type (p_ship p) = ASSAULT then 3 else 2)
        then upd_hist i (kill_potential_update (\<lambda>_. 4))
               (upd_ltd i (s_kills_update (lk_second_converted_update inc)) g)
        else g
      else g)"

text \<open>
  The victim whose death let this army be carried: the first remembered kill, not yet credited,
  that the number of armies needs.  The counter is written to the victim's tournament
  statistics directly, not through \<^verbatim>\<open>ltd_stat_ptr\<close>.
\<close>

definition needs_kill :: "player \<Rightarrow> ltd_kill \<Rightarrow> bool" where
  "needs_kill p k \<longleftrightarrow>
     p_armies p > trunc (hk_before k * (if s_type (p_ship p) = ASSAULT then 3 else 2))"

definition credit_acc :: "nat \<Rightarrow> game \<Rightarrow> game" where
  "credit_acc i g =
     (let p = players g i; h = p_hist p in
      case first_in 0 (nat (num_kills h))
             (\<lambda>t. hk_victim (h_kills h t) \<noteq> None \<and> needs_kill p (h_kills h t)) of
        None \<Rightarrow> g
      | Some t \<Rightarrow>
          upd_hist i (h_kills_update (\<lambda>f. f(t := (f t)\<lparr>hk_victim := None\<rparr>)))
            (upd_player (the (hk_victim (h_kills h t)))
               (upd_ltd_slot (ltd_ship (nat (hk_ship (h_kills h t))))
                  (s_deaths_update (ld_acc_update inc))) g))"

definition first_army :: "nat \<Rightarrow> game \<Rightarrow> game" where
  "first_army i g =
     (if p_armies (players g i) = 1
      then upd_ltd i (s_carries_update (lc_total_update inc)) g else g)"

definition ltd_update_armies_carried :: "nat \<Rightarrow> nat option \<Rightarrow> game \<Rightarrow> game" where
  "ltd_update_armies_carried i sb g =
     (let g = upd_ltd i (s_armies_update (la_total_update inc)) g;
          g = credit_acc i (carrier_role i g);
          here = int (p_planet (players g i))
      in case sb of
           None \<Rightarrow>
             if last_beamup_planet (p_hist (players g i)) \<noteq> here
             then first_army i (upd_hist i (last_beamup_planet_update (\<lambda>_. here)) g) else g
         | Some b \<Rightarrow>
             let g = upd_ltd b (s_armies_update (la_attack_update inc)) g
             in if last_beamup_planet (p_hist (players g i)) \<noteq> -1
                then first_army i (upd_hist i (last_beamup_planet_update (\<lambda>_. -1)) g) else g)"

definition ltd_update_armies_ferried :: "nat \<Rightarrow> nat \<Rightarrow> game \<Rightarrow> game" where
  "ltd_update_armies_ferried i sb g =
     (let g = (if last_beamup_planet (p_hist (players g i)) = -1
               then upd_ltd sb (s_armies_update (la_attack_update dec))
                      (upd_ltd i (s_armies_update (la_total_update dec)) g)
               else upd_ltd sb (s_armies_update (la_total_update inc))
                      (upd_ltd i (s_armies_update (la_ferries_update inc)) g))
      in if p_armies (players g i) = 0
         then upd_ltd i (s_carries_update (lc_completed_update inc)) g else g)"

definition ltd_update_repaired :: "nat \<Rightarrow> int \<Rightarrow> game \<Rightarrow> game" where
  "ltd_update_repaired i n g = upd_ltd i (s_damage_repaired_update (plus_int n)) g"

subsection \<open>Weapons\<close>

definition ltd_update_phaser_fired :: "nat \<Rightarrow> game \<Rightarrow> game" where
  "ltd_update_phaser_fired i g = upd_ltd i (s_phaser_update (lph_fired_update inc)) g"

definition ltd_update_phaser_hit :: "nat \<Rightarrow> game \<Rightarrow> game" where
  "ltd_update_phaser_hit i g = upd_ltd i (s_phaser_update (lph_hit_update inc)) g"

definition ltd_update_phaser_damage :: "nat \<Rightarrow> nat \<Rightarrow> int \<Rightarrow> game \<Rightarrow> game" where
  "ltd_update_phaser_damage shooter victim n g =
     upd_ltd victim (s_phaser_update (lph_damage_update (taken_update (plus_int n))))
       (upd_ltd shooter (s_phaser_update (lph_damage_update (inflicted_update (plus_int n)))) g)"

definition ltd_update_torp_fired :: "nat \<Rightarrow> game \<Rightarrow> game" where
  "ltd_update_torp_fired i g = upd_ltd i (s_torps_update (ltp_fired_update inc)) g"

definition ltd_update_torp_hit :: "nat \<Rightarrow> game \<Rightarrow> game" where
  "ltd_update_torp_hit i g = upd_ltd i (s_torps_update (ltp_hit_update inc)) g"

definition ltd_update_torp_wall :: "nat \<Rightarrow> game \<Rightarrow> game" where
  "ltd_update_torp_wall i g = upd_ltd i (s_torps_update (ltp_wall_update inc)) g"

definition ltd_update_torp_detted :: "nat \<Rightarrow> game \<Rightarrow> game" where
  "ltd_update_torp_detted i g = upd_ltd i (s_torps_update (ltp_detted_update inc)) g"

definition ltd_update_torp_selfdetted :: "nat \<Rightarrow> game \<Rightarrow> game" where
  "ltd_update_torp_selfdetted i g = upd_ltd i (s_torps_update (ltp_selfdetted_update inc)) g"

definition ltd_update_torp_damage :: "nat \<Rightarrow> nat \<Rightarrow> int \<Rightarrow> game \<Rightarrow> game" where
  "ltd_update_torp_damage shooter victim n g =
     upd_ltd victim (s_torps_update (ltp_damage_update (taken_update (plus_int n))))
       (upd_ltd shooter (s_torps_update (ltp_damage_update (inflicted_update (plus_int n)))) g)"

definition ltd_update_plasma_fired :: "nat \<Rightarrow> game \<Rightarrow> game" where
  "ltd_update_plasma_fired i g = upd_ltd i (s_plasma_update (lpl_fired_update inc)) g"

definition ltd_update_plasma_hit :: "nat \<Rightarrow> game \<Rightarrow> game" where
  "ltd_update_plasma_hit i g = upd_ltd i (s_plasma_update (lpl_hit_update inc)) g"

definition ltd_update_plasma_phasered :: "nat \<Rightarrow> game \<Rightarrow> game" where
  "ltd_update_plasma_phasered i g = upd_ltd i (s_plasma_update (lpl_phasered_update inc)) g"

definition ltd_update_plasma_wall :: "nat \<Rightarrow> game \<Rightarrow> game" where
  "ltd_update_plasma_wall i g = upd_ltd i (s_plasma_update (lpl_wall_update inc)) g"

definition ltd_update_plasma_damage :: "nat \<Rightarrow> nat \<Rightarrow> int \<Rightarrow> game \<Rightarrow> game" where
  "ltd_update_plasma_damage shooter victim n g =
     upd_ltd victim (s_plasma_update (lpl_damage_update (taken_update (plus_int n))))
       (upd_ltd shooter (s_plasma_update (lpl_damage_update (inflicted_update (plus_int n)))) g)"

subsection \<open>Resetting\<close>

definition fresh_ltd :: "ltd_stats" where
  "fresh_ltd = blank_ltd_stats\<lparr>s_ticks := \<lparr>lt_total = 1, lt_yellow = 1, lt_red = 1,
     lt_zone = (\<lambda>z. if z < 8 then 1 else 0), lt_potential = 1, lt_carrier = 1, lt_repair = 1\<rparr>\<rparr>"

definition ltd_reset_struct :: "(nat \<Rightarrow> ltd_stats) \<Rightarrow> nat \<Rightarrow> ltd_stats" where
  "ltd_reset_struct l = (\<lambda>s. if s < LTD_NUM_SHIPS then fresh_ltd else l s)"

definition ltd_reset_hist :: "player \<Rightarrow> player" where
  "ltd_reset_hist p =
     p\<lparr>p_hist := \<lparr>h_kills = (\<lambda>i. if i < LTD_NUM_HIST then blank_ltd_kill else h_kills (p_hist p) i),
        num_kills = 0, kill_potential = 0, last_bombed_tick = 1, last_bombed_planet = -2,
        last_beamup_planet = -2, last_beamdown_planet = -2, enemy_team = 0\<rparr>\<rparr>"

definition ltd_reset :: "player \<Rightarrow> player" where
  "ltd_reset p =
     ltd_reset_hist (p\<lparr>p_stats := (p_stats p)\<lparr>ltd := ltd_reset_struct (ltd (p_stats p))\<rparr>\<rparr>)"

subsection \<open>Promotion\<close>

text \<open>The table \<^verbatim>\<open>ranks\<close>: hours, ratings and offense of each rank.\<close>

definition ranks :: "(rat \<times> rat \<times> rat) list" where
  "ranks = [(0, 0, 0), (2, 1, 0), (4, 2, 0), (8, 3, 0), (15, 4, 0), (20, 5, 0),
     (25, 6, 1), (30, 7, 12/10), (40, 8, 14/10)]"

definition rank_hours :: "nat \<Rightarrow> rat" where "rank_hours r = fst (ranks ! r)"

definition rank_ratings :: "nat \<Rightarrow> rat" where "rank_ratings r = fst (snd (ranks ! r))"

definition rank_offense :: "nat \<Rightarrow> rat" where "rank_offense r = snd (snd (ranks ! r))"

text \<open>
  The decision of \<^verbatim>\<open>ltd_can_rank\<close> from the computed ratings and hours.  The source reads the entry
  after the last rank before it tests for the last rank, and does not use the value.
\<close>

definition may_promote :: "sysdef \<Rightarrow> int \<Rightarrow> rat \<Rightarrow> rat \<Rightarrow> rat \<Rightarrow> bool" where
  "may_promote c rank offense rating hours =
     (if rank + 1 \<ge> 9 then False
      else
        let nextrank = nat (rank + 1); hr = of_int (hourratio c);
            di = rating * hours;
            need_hours = rank_hours nextrank / hr;
            required = need_hours * rank_ratings nextrank;
            off_ok = (offense \<ge> rank_offense nextrank \<or> \<not> offense_rank c)
        in (off_ok \<and> ((hours > need_hours \<and> rating \<ge> rank_ratings nextrank) \<or>
                      (hours < need_hours \<and> di \<ge> required))) \<or>
           (off_ok \<and> rating \<ge> rank_ratings (nat rank) \<and> di \<ge> required * 2) \<or>
           (rank > 0 \<and> off_ok \<and> rating \<ge> rank_ratings (nat (rank - 1)) \<and> di \<ge> required * 4) \<or>
           (rank \<ge> 4 \<and> off_ok \<and> rating \<ge> rank_ratings (nat (rank - 2)) \<and> di \<ge> required * 8))"

definition ltd_can_rank :: "game \<Rightarrow> player \<Rightarrow> player \<times> bool" where
  "ltd_can_rank g p =
     (let (p, off) = ltd_offense_rating (status g) p; (p, bomb) = ltd_bombing_rating (status g) p;
          (p, plan) = ltd_planet_rating (status g) p; (p, t) = ltd_ticks_of LTD_TOTAL p
      in (p, may_promote (cfg g) (st_rank (p_stats p)) off (off + bomb + plan) (of_int t / 36000)))"

subsection \<open>What the statistics leave alone\<close>

text \<open>Updates of statistics and of the history touch no other field of any player.\<close>

lemma upd_ltd_frame [simp]:
  "p_no (players (upd_ltd i f g) j) = p_no (players g j)"
  "p_updates (players (upd_ltd i f g) j) = p_updates (players g j)"
  "p_status (players (upd_ltd i f g) j) = p_status (players g j)"
  "p_flags (players (upd_ltd i f g) j) = p_flags (players g j)"
  "p_name (players (upd_ltd i f g) j) = p_name (players g j)"
  "p_login (players (upd_ltd i f g) j) = p_login (players g j)"
  "p_ip (players (upd_ltd i f g) j) = p_ip (players g j)"
  "p_monitor (players (upd_ltd i f g) j) = p_monitor (players g j)"
  "p_longname (players (upd_ltd i f g) j) = p_longname (players g j)"
  "p_mapchars (players (upd_ltd i f g) j) = p_mapchars (players g j)"
  "p_ship (players (upd_ltd i f g) j) = p_ship (players g j)"
  "p_x (players (upd_ltd i f g) j) = p_x (players g j)"
  "p_y (players (upd_ltd i f g) j) = p_y (players g j)"
  "p_x_internal (players (upd_ltd i f g) j) = p_x_internal (players g j)"
  "p_y_internal (players (upd_ltd i f g) j) = p_y_internal (players g j)"
  "p_x_input (players (upd_ltd i f g) j) = p_x_input (players g j)"
  "p_y_input (players (upd_ltd i f g) j) = p_y_input (players g j)"
  "p_x_y_set (players (upd_ltd i f g) j) = p_x_y_set (players g j)"
  "p_x_min (players (upd_ltd i f g) j) = p_x_min (players g j)"
  "p_y_min (players (upd_ltd i f g) j) = p_y_min (players g j)"
  "p_x_max (players (upd_ltd i f g) j) = p_x_max (players g j)"
  "p_y_max (players (upd_ltd i f g) j) = p_y_max (players g j)"
  "p_dir (players (upd_ltd i f g) j) = p_dir (players g j)"
  "p_desdir (players (upd_ltd i f g) j) = p_desdir (players g j)"
  "p_subdir (players (upd_ltd i f g) j) = p_subdir (players g j)"
  "p_speed (players (upd_ltd i f g) j) = p_speed (players g j)"
  "p_desspeed (players (upd_ltd i f g) j) = p_desspeed (players g j)"
  "p_subspeed (players (upd_ltd i f g) j) = p_subspeed (players g j)"
  "p_team (players (upd_ltd i f g) j) = p_team (players g j)"
  "p_damage (players (upd_ltd i f g) j) = p_damage (players g j)"
  "p_subdamage (players (upd_ltd i f g) j) = p_subdamage (players g j)"
  "p_shield (players (upd_ltd i f g) j) = p_shield (players g j)"
  "p_subshield (players (upd_ltd i f g) j) = p_subshield (players g j)"
  "p_cloakphase (players (upd_ltd i f g) j) = p_cloakphase (players g j)"
  "p_ntorp (players (upd_ltd i f g) j) = p_ntorp (players g j)"
  "p_nplasmatorp (players (upd_ltd i f g) j) = p_nplasmatorp (players g j)"
  "p_hostile (players (upd_ltd i f g) j) = p_hostile (players g j)"
  "p_swar (players (upd_ltd i f g) j) = p_swar (players g j)"
  "p_war (players (upd_ltd i f g) j) = p_war (players g j)"
  "p_lastseenby (players (upd_ltd i f g) j) = p_lastseenby (players g j)"
  "p_kills (players (upd_ltd i f g) j) = p_kills (players g j)"
  "p_planet (players (upd_ltd i f g) j) = p_planet (players g j)"
  "p_playerl (players (upd_ltd i f g) j) = p_playerl (players g j)"
  "p_playerl_tv (players (upd_ltd i f g) j) = p_playerl_tv (players g j)"
  "p_armies (players (upd_ltd i f g) j) = p_armies (players g j)"
  "p_fuel (players (upd_ltd i f g) j) = p_fuel (players g j)"
  "p_explode (players (upd_ltd i f g) j) = p_explode (players g j)"
  "p_selfdest (players (upd_ltd i f g) j) = p_selfdest (players g j)"
  "p_etemp (players (upd_ltd i f g) j) = p_etemp (players g j)"
  "p_etime (players (upd_ltd i f g) j) = p_etime (players g j)"
  "p_wtemp (players (upd_ltd i f g) j) = p_wtemp (players g j)"
  "p_wtime (players (upd_ltd i f g) j) = p_wtime (players g j)"
  "p_whydead (players (upd_ltd i f g) j) = p_whydead (players g j)"
  "p_whodead (players (upd_ltd i f g) j) = p_whodead (players g j)"
  "p_genoplanets (players (upd_ltd i f g) j) = p_genoplanets (players g j)"
  "p_genoarmsbomb (players (upd_ltd i f g) j) = p_genoarmsbomb (players g j)"
  "p_planets (players (upd_ltd i f g) j) = p_planets (players g j)"
  "p_armsbomb (players (upd_ltd i f g) j) = p_armsbomb (players g j)"
  "p_ghostbuster (players (upd_ltd i f g) j) = p_ghostbuster (players g j)"
  "p_bays (players (upd_ltd i f g) j) = p_bays (players g j)"
  "p_dock_with (players (upd_ltd i f g) j) = p_dock_with (players g j)"
  "p_dock_bay (players (upd_ltd i f g) j) = p_dock_bay (players g j)"
  "p_tractor (players (upd_ltd i f g) j) = p_tractor (players g j)"
  "p_pos (players (upd_ltd i f g) j) = p_pos (players g j)"
  "w_queue (players (upd_ltd i f g) j) = w_queue (players g j)"
  "p_full_hostname (players (upd_ltd i f g) j) = p_full_hostname (players g j)"
  "p_dns_hostname (players (upd_ltd i f g) j) = p_dns_hostname (players g j)"
  "p_xblproxy (players (upd_ltd i f g) j) = p_xblproxy (players g j)"
  "p_sorbsproxy (players (upd_ltd i f g) j) = p_sorbsproxy (players g j)"
  "p_njablproxy (players (upd_ltd i f g) j) = p_njablproxy (players g j)"
  "p_avrt (players (upd_ltd i f g) j) = p_avrt (players g j)"
  "p_stdv (players (upd_ltd i f g) j) = p_stdv (players g j)"
  "p_pkls_c_s (players (upd_ltd i f g) j) = p_pkls_c_s (players g j)"
  "p_pkls_s_c (players (upd_ltd i f g) j) = p_pkls_s_c (players g j)"
  "p_ups (players (upd_ltd i f g) j) = p_ups (players g j)"
  "p_fpu (players (upd_ltd i f g) j) = p_fpu (players g j)"
  "p_process (players (upd_ltd i f g) j) = p_process (players g j)"
  "p_df (players (upd_ltd i f g) j) = p_df (players g j)"
  "p_tg (players (upd_ltd i f g) j) = p_tg (players g j)"
  "voting (players (upd_ltd i f g) j) = voting (players g j)"
  "p_candock (players (upd_ltd i f g) j) = p_candock (players g j)"
  "p_cantranswarp (players (upd_ltd i f g) j) = p_cantranswarp (players g j)"
  "p_transwarp (players (upd_ltd i f g) j) = p_transwarp (players g j)"
  "p_repair_time (players (upd_ltd i f g) j) = p_repair_time (players g j)"
  "p_inl_captain (players (upd_ltd i f g) j) = p_inl_captain (players g j)"
  "p_inl_draft (players (upd_ltd i f g) j) = p_inl_draft (players g j)"
  "p_inl_x (players (upd_ltd i f g) j) = p_inl_x (players g j)"
  "p_inl_y (players (upd_ltd i f g) j) = p_inl_y (players g j)"
  "p_inl_pool (players (upd_ltd i f g) j) = p_inl_pool (players g j)"
  "p_inl_pick (players (upd_ltd i f g) j) = p_inl_pick (players g j)"
  "p_ip_duplicates (players (upd_ltd i f g) j) = p_ip_duplicates (players g j)"
  "p_authorised (players (upd_ltd i f g) j) = p_authorised (players g j)"
  "p_verify_clue (players (upd_ltd i f g) j) = p_verify_clue (players g j)"
  "p_disconnect (players (upd_ltd i f g) j) = p_disconnect (players g j)"
  "p_sub_in (players (upd_ltd i f g) j) = p_sub_in (players g j)"
  "p_sub_in_for (players (upd_ltd i f g) j) = p_sub_in_for (players g j)"
  "p_sub_out (players (upd_ltd i f g) j) = p_sub_out (players g j)"
  "p_sub_out_for (players (upd_ltd i f g) j) = p_sub_out_for (players g j)"
  "p_ident (players (upd_ltd i f g) j) = p_ident (players g j)"
  "p_no_pick (players (upd_ltd i f g) j) = p_no_pick (players g j)"
  "torps (upd_ltd i f g) = torps g"
  "planets (upd_ltd i f g) = planets g"
  "phasers (upd_ltd i f g) = phasers g"
  "teams (upd_ltd i f g) = teams g"
  "status (upd_ltd i f g) = status g"
  "ctxt (upd_ltd i f g) = ctxt g"
  "shipvals (upd_ltd i f g) = shipvals g"
  "queues (upd_ltd i f g) = queues g"
  "waiting (upd_ltd i f g) = waiting g"
  "cfg (upd_ltd i f g) = cfg g"
  "tcount (upd_ltd i f g) = tcount g"
  "pl_warning (upd_ltd i f g) = pl_warning g"
  "tm_robots (upd_ltd i f g) = tm_robots g"
  "pl_poporder (upd_ltd i f g) = pl_poporder g"
  "lastpop (upd_ltd i f g) = lastpop g"
  "procs (upd_ltd i f g) = procs g"
  "rng (upd_ltd i f g) = rng g"
  "rng_pos (upd_ltd i f g) = rng_pos g"
  "outputs (upd_ltd i f g) = outputs g"
  by (simp_all add: upd_ltd_def upd_ltd_slot_def)

lemma upd_hist_frame [simp]:
  "p_no (players (upd_hist i h g) j) = p_no (players g j)"
  "p_updates (players (upd_hist i h g) j) = p_updates (players g j)"
  "p_status (players (upd_hist i h g) j) = p_status (players g j)"
  "p_flags (players (upd_hist i h g) j) = p_flags (players g j)"
  "p_name (players (upd_hist i h g) j) = p_name (players g j)"
  "p_login (players (upd_hist i h g) j) = p_login (players g j)"
  "p_ip (players (upd_hist i h g) j) = p_ip (players g j)"
  "p_monitor (players (upd_hist i h g) j) = p_monitor (players g j)"
  "p_longname (players (upd_hist i h g) j) = p_longname (players g j)"
  "p_mapchars (players (upd_hist i h g) j) = p_mapchars (players g j)"
  "p_ship (players (upd_hist i h g) j) = p_ship (players g j)"
  "p_x (players (upd_hist i h g) j) = p_x (players g j)"
  "p_y (players (upd_hist i h g) j) = p_y (players g j)"
  "p_x_internal (players (upd_hist i h g) j) = p_x_internal (players g j)"
  "p_y_internal (players (upd_hist i h g) j) = p_y_internal (players g j)"
  "p_x_input (players (upd_hist i h g) j) = p_x_input (players g j)"
  "p_y_input (players (upd_hist i h g) j) = p_y_input (players g j)"
  "p_x_y_set (players (upd_hist i h g) j) = p_x_y_set (players g j)"
  "p_x_min (players (upd_hist i h g) j) = p_x_min (players g j)"
  "p_y_min (players (upd_hist i h g) j) = p_y_min (players g j)"
  "p_x_max (players (upd_hist i h g) j) = p_x_max (players g j)"
  "p_y_max (players (upd_hist i h g) j) = p_y_max (players g j)"
  "p_dir (players (upd_hist i h g) j) = p_dir (players g j)"
  "p_desdir (players (upd_hist i h g) j) = p_desdir (players g j)"
  "p_subdir (players (upd_hist i h g) j) = p_subdir (players g j)"
  "p_speed (players (upd_hist i h g) j) = p_speed (players g j)"
  "p_desspeed (players (upd_hist i h g) j) = p_desspeed (players g j)"
  "p_subspeed (players (upd_hist i h g) j) = p_subspeed (players g j)"
  "p_team (players (upd_hist i h g) j) = p_team (players g j)"
  "p_damage (players (upd_hist i h g) j) = p_damage (players g j)"
  "p_subdamage (players (upd_hist i h g) j) = p_subdamage (players g j)"
  "p_shield (players (upd_hist i h g) j) = p_shield (players g j)"
  "p_subshield (players (upd_hist i h g) j) = p_subshield (players g j)"
  "p_cloakphase (players (upd_hist i h g) j) = p_cloakphase (players g j)"
  "p_ntorp (players (upd_hist i h g) j) = p_ntorp (players g j)"
  "p_nplasmatorp (players (upd_hist i h g) j) = p_nplasmatorp (players g j)"
  "p_hostile (players (upd_hist i h g) j) = p_hostile (players g j)"
  "p_swar (players (upd_hist i h g) j) = p_swar (players g j)"
  "p_war (players (upd_hist i h g) j) = p_war (players g j)"
  "p_lastseenby (players (upd_hist i h g) j) = p_lastseenby (players g j)"
  "p_kills (players (upd_hist i h g) j) = p_kills (players g j)"
  "p_planet (players (upd_hist i h g) j) = p_planet (players g j)"
  "p_playerl (players (upd_hist i h g) j) = p_playerl (players g j)"
  "p_playerl_tv (players (upd_hist i h g) j) = p_playerl_tv (players g j)"
  "p_armies (players (upd_hist i h g) j) = p_armies (players g j)"
  "p_fuel (players (upd_hist i h g) j) = p_fuel (players g j)"
  "p_explode (players (upd_hist i h g) j) = p_explode (players g j)"
  "p_selfdest (players (upd_hist i h g) j) = p_selfdest (players g j)"
  "p_etemp (players (upd_hist i h g) j) = p_etemp (players g j)"
  "p_etime (players (upd_hist i h g) j) = p_etime (players g j)"
  "p_wtemp (players (upd_hist i h g) j) = p_wtemp (players g j)"
  "p_wtime (players (upd_hist i h g) j) = p_wtime (players g j)"
  "p_whydead (players (upd_hist i h g) j) = p_whydead (players g j)"
  "p_whodead (players (upd_hist i h g) j) = p_whodead (players g j)"
  "p_genoplanets (players (upd_hist i h g) j) = p_genoplanets (players g j)"
  "p_genoarmsbomb (players (upd_hist i h g) j) = p_genoarmsbomb (players g j)"
  "p_planets (players (upd_hist i h g) j) = p_planets (players g j)"
  "p_armsbomb (players (upd_hist i h g) j) = p_armsbomb (players g j)"
  "p_ghostbuster (players (upd_hist i h g) j) = p_ghostbuster (players g j)"
  "p_bays (players (upd_hist i h g) j) = p_bays (players g j)"
  "p_dock_with (players (upd_hist i h g) j) = p_dock_with (players g j)"
  "p_dock_bay (players (upd_hist i h g) j) = p_dock_bay (players g j)"
  "p_tractor (players (upd_hist i h g) j) = p_tractor (players g j)"
  "p_pos (players (upd_hist i h g) j) = p_pos (players g j)"
  "w_queue (players (upd_hist i h g) j) = w_queue (players g j)"
  "p_full_hostname (players (upd_hist i h g) j) = p_full_hostname (players g j)"
  "p_dns_hostname (players (upd_hist i h g) j) = p_dns_hostname (players g j)"
  "p_xblproxy (players (upd_hist i h g) j) = p_xblproxy (players g j)"
  "p_sorbsproxy (players (upd_hist i h g) j) = p_sorbsproxy (players g j)"
  "p_njablproxy (players (upd_hist i h g) j) = p_njablproxy (players g j)"
  "p_avrt (players (upd_hist i h g) j) = p_avrt (players g j)"
  "p_stdv (players (upd_hist i h g) j) = p_stdv (players g j)"
  "p_pkls_c_s (players (upd_hist i h g) j) = p_pkls_c_s (players g j)"
  "p_pkls_s_c (players (upd_hist i h g) j) = p_pkls_s_c (players g j)"
  "p_ups (players (upd_hist i h g) j) = p_ups (players g j)"
  "p_fpu (players (upd_hist i h g) j) = p_fpu (players g j)"
  "p_process (players (upd_hist i h g) j) = p_process (players g j)"
  "p_df (players (upd_hist i h g) j) = p_df (players g j)"
  "p_tg (players (upd_hist i h g) j) = p_tg (players g j)"
  "voting (players (upd_hist i h g) j) = voting (players g j)"
  "p_candock (players (upd_hist i h g) j) = p_candock (players g j)"
  "p_cantranswarp (players (upd_hist i h g) j) = p_cantranswarp (players g j)"
  "p_transwarp (players (upd_hist i h g) j) = p_transwarp (players g j)"
  "p_repair_time (players (upd_hist i h g) j) = p_repair_time (players g j)"
  "p_inl_captain (players (upd_hist i h g) j) = p_inl_captain (players g j)"
  "p_inl_draft (players (upd_hist i h g) j) = p_inl_draft (players g j)"
  "p_inl_x (players (upd_hist i h g) j) = p_inl_x (players g j)"
  "p_inl_y (players (upd_hist i h g) j) = p_inl_y (players g j)"
  "p_inl_pool (players (upd_hist i h g) j) = p_inl_pool (players g j)"
  "p_inl_pick (players (upd_hist i h g) j) = p_inl_pick (players g j)"
  "p_ip_duplicates (players (upd_hist i h g) j) = p_ip_duplicates (players g j)"
  "p_authorised (players (upd_hist i h g) j) = p_authorised (players g j)"
  "p_verify_clue (players (upd_hist i h g) j) = p_verify_clue (players g j)"
  "p_disconnect (players (upd_hist i h g) j) = p_disconnect (players g j)"
  "p_sub_in (players (upd_hist i h g) j) = p_sub_in (players g j)"
  "p_sub_in_for (players (upd_hist i h g) j) = p_sub_in_for (players g j)"
  "p_sub_out (players (upd_hist i h g) j) = p_sub_out (players g j)"
  "p_sub_out_for (players (upd_hist i h g) j) = p_sub_out_for (players g j)"
  "p_ident (players (upd_hist i h g) j) = p_ident (players g j)"
  "p_no_pick (players (upd_hist i h g) j) = p_no_pick (players g j)"
  "torps (upd_hist i h g) = torps g"
  "planets (upd_hist i h g) = planets g"
  "phasers (upd_hist i h g) = phasers g"
  "teams (upd_hist i h g) = teams g"
  "status (upd_hist i h g) = status g"
  "ctxt (upd_hist i h g) = ctxt g"
  "shipvals (upd_hist i h g) = shipvals g"
  "queues (upd_hist i h g) = queues g"
  "waiting (upd_hist i h g) = waiting g"
  "cfg (upd_hist i h g) = cfg g"
  "tcount (upd_hist i h g) = tcount g"
  "pl_warning (upd_hist i h g) = pl_warning g"
  "tm_robots (upd_hist i h g) = tm_robots g"
  "pl_poporder (upd_hist i h g) = pl_poporder g"
  "lastpop (upd_hist i h g) = lastpop g"
  "procs (upd_hist i h g) = procs g"
  "rng (upd_hist i h g) = rng g"
  "rng_pos (upd_hist i h g) = rng_pos g"
  "outputs (upd_hist i h g) = outputs g"
  by (simp_all add: upd_hist_def upd_ltd_slot_def)

lemma upd_ltd_hist [simp]: "p_hist (players (upd_ltd i f g) j) = p_hist (players g j)"
  by (simp add: upd_ltd_def upd_ltd_slot_def)

lemma upd_hist_simps [simp]:
  "p_hist (players (upd_hist i h g) j) =
     (if j = i then h (p_hist (players g i)) else p_hist (players g j))"
  "p_stats (players (upd_hist i h g) j) = p_stats (players g j)"
  "p_bogus (players (upd_hist i h g) j) = p_bogus (players g j)"
  by (simp_all add: upd_hist_def)

lemma upd_ltd_stats [simp]:
  "\<not> tourn g \<Longrightarrow> p_stats (players (upd_ltd i f g) j) = p_stats (players g j)"
  by (simp add: upd_ltd_def)

text \<open>The weapon counters, with the same frame.\<close>

lemmas ltd_weapon_defs = ltd_update_phaser_fired_def ltd_update_phaser_hit_def
  ltd_update_phaser_damage_def ltd_update_torp_fired_def ltd_update_torp_hit_def
  ltd_update_torp_wall_def ltd_update_torp_detted_def ltd_update_torp_selfdetted_def
  ltd_update_torp_damage_def ltd_update_plasma_fired_def ltd_update_plasma_hit_def
  ltd_update_plasma_phasered_def ltd_update_plasma_wall_def ltd_update_plasma_damage_def
  ltd_update_repaired_def

text \<open>
  A game and another that differs at most in statistics: the same outside the players, and the
  players the same up to their statistics.
\<close>

definition strip_ltd :: "player \<Rightarrow> player" where
  "strip_ltd p = p\<lparr>p_stats := (p_stats p)\<lparr>ltd := \<lambda>_. blank_ltd_stats\<rparr>, p_hist := blank_ltd_history,
     p_bogus := blank_ltd_stats\<rparr>"

definition core :: "game \<Rightarrow> game" where
  "core g = g\<lparr>players := \<lambda>i. strip_ltd (players g i)\<rparr>"

lemma strip_upd_ltd_slot [simp]: "strip_ltd (upd_ltd_slot s f p) = strip_ltd p"
  by (simp add: strip_ltd_def upd_ltd_slot_def)

lemma core_upd_player: "(\<And>p. strip_ltd (F p) = strip_ltd p) \<Longrightarrow> core (upd_player i F g) = core g"
  by (auto simp: core_def upd_player_def fun_eq_iff)

lemma core_upd_ltd [simp]: "core (upd_ltd i f g) = core g"
  unfolding upd_ltd_def by (rule core_upd_player) (simp, simp add: strip_ltd_def)

lemma core_upd_hist [simp]: "core (upd_hist i f g) = core g"
  unfolding upd_hist_def by (rule core_upd_player) (simp add: strip_ltd_def)

lemma core_upd_ltd_slot [simp]: "core (upd_player i (upd_ltd_slot s f) g) = core g"
  by (rule core_upd_player) simp

text \<open>
  Rules that push a frame argument through the text of an operation: through its conditionals,
  its local states and its other local values.
\<close>

lemma core_let: "core t = c \<Longrightarrow> (\<And>x. core x = c \<Longrightarrow> core (f x) = c) \<Longrightarrow> core (Let t f) = c"
  by (simp add: Let_def)

lemma core_let_values:
  "(\<And>x. core (f1 x) = c) \<Longrightarrow> core (Let (t1 :: player) f1) = c"
  "(\<And>x. core (f2 x) = c) \<Longrightarrow> core (Let (t2 :: int) f2) = c"
  "(\<And>x. core (f3 x) = c) \<Longrightarrow> core (Let (t3 :: nat) f3) = c"
  "(\<And>x. core (f4 x) = c) \<Longrightarrow> core (Let (t4 :: bool) f4) = c"
  "(\<And>x. core (f5 x) = c) \<Longrightarrow> core (Let (t5 :: 32 word) f5) = c"
  "(\<And>x. core (f6 x) = c) \<Longrightarrow> core (Let (t6 :: ltd_history) f6) = c"
  by (simp_all add: Let_def)

lemma core_if: "core x = c \<Longrightarrow> core y = c \<Longrightarrow> core (if b then x else y) = c"
  by simp

lemma core_case_option:
  "core x = c \<Longrightarrow> (\<And>a. core (y a) = c) \<Longrightarrow> core (case m of None \<Rightarrow> x | Some a \<Rightarrow> y a) = c"
  by (simp split: option.splits)

lemma core_ops:
  "core g = c \<Longrightarrow> core (upd_ltd i f g) = c"
  "core g = c \<Longrightarrow> core (upd_hist i h g) = c"
  "core g = c \<Longrightarrow> core (upd_player i (upd_ltd_slot s f) g) = c"
  by simp_all

lemmas core_intros = core_let core_let_values core_if core_case_option core_ops

lemma core_first_drop: "core g = c \<Longrightarrow> core (first_drop_here i f g) = c"
  unfolding first_drop_here_def by (intro core_intros)

lemma core_carrying:
  "core g = c \<Longrightarrow> core (carrier_role i g) = c"
  "core g = c \<Longrightarrow> core (credit_acc i g) = c"
  "core g = c \<Longrightarrow> core (first_army i g) = c"
  unfolding carrier_role_def credit_acc_def first_army_def by (intro core_intros; assumption)+

lemma core_killing:
  "core g = c \<Longrightarrow> core (ltd_update_kills_max i g) = c"
  "core g = c \<Longrightarrow> core (ogg_carrier k a v g) = c"
  "core g = c \<Longrightarrow> core (remember_kill k v g) = c"
  unfolding ltd_update_kills_max_def ogg_carrier_def remember_kill_def
  by (intro core_intros; assumption)+

lemma core_ltd [simp]:
  "core (ltd_update_ticks i g) = core g"
  "core (ltd_update_kills_max i g) = core g"
  "core (ltd_update_kills k a v g) = core g"
  "core (ltd_update_deaths v m g) = core g"
  "core (ltd_update_bomb i l n g) = core g"
  "core (ltd_update_planets i l g) = core g"
  "core (ltd_update_armies i l g) = core g"
  "core (ltd_update_armies_carried i sb g) = core g"
  "core (ltd_update_armies_ferried i b g) = core g"
  unfolding ltd_update_ticks_def count_ticks_def first_potential_def second_potential_def
    ltd_update_kills_def ltd_update_deaths_def ltd_update_bomb_def
    ltd_update_planets_def ltd_update_armies_def ltd_update_armies_carried_def
    ltd_update_armies_ferried_def
  by (intro core_intros core_first_drop core_carrying core_killing; (assumption | rule refl))+

lemma core_weapons [simp]:
  "core (ltd_update_phaser_fired i g) = core g" "core (ltd_update_phaser_hit i g) = core g"
  "core (ltd_update_phaser_damage i j n g) = core g" "core (ltd_update_torp_fired i g) = core g"
  "core (ltd_update_torp_hit i g) = core g" "core (ltd_update_torp_wall i g) = core g"
  "core (ltd_update_torp_detted i g) = core g" "core (ltd_update_torp_selfdetted i g) = core g"
  "core (ltd_update_torp_damage i j n g) = core g" "core (ltd_update_plasma_fired i g) = core g"
  "core (ltd_update_plasma_hit i g) = core g" "core (ltd_update_plasma_phasered i g) = core g"
  "core (ltd_update_plasma_wall i g) = core g" "core (ltd_update_plasma_damage i j n g) = core g"
  "core (ltd_update_repaired i n g) = core g"
  by (simp_all add: ltd_weapon_defs)

lemma core_totals [simp]: "core (ltd_update_totals i g) = core g"
  unfolding ltd_update_totals_def Let_def by (rule core_upd_player) (simp add: set_total_def)

text \<open>Equal cores give equal fields.\<close>

lemma core_eqD:
  assumes "core h = core g"
  shows "strip_ltd (players h i) = strip_ltd (players g i)"
  using arg_cong [OF assms, of "\<lambda>g. players g i"] by (simp add: core_def)

lemma core_player:
  assumes "core h = core g"
  shows "p_no (players h i) = p_no (players g i)"
    "p_updates (players h i) = p_updates (players g i)"
    "p_status (players h i) = p_status (players g i)"
    "p_flags (players h i) = p_flags (players g i)"
    "p_name (players h i) = p_name (players g i)"
    "p_login (players h i) = p_login (players g i)"
    "p_ip (players h i) = p_ip (players g i)"
    "p_monitor (players h i) = p_monitor (players g i)"
    "p_longname (players h i) = p_longname (players g i)"
    "p_mapchars (players h i) = p_mapchars (players g i)"
    "p_ship (players h i) = p_ship (players g i)"
    "p_x (players h i) = p_x (players g i)"
    "p_y (players h i) = p_y (players g i)"
    "p_x_internal (players h i) = p_x_internal (players g i)"
    "p_y_internal (players h i) = p_y_internal (players g i)"
    "p_x_input (players h i) = p_x_input (players g i)"
    "p_y_input (players h i) = p_y_input (players g i)"
    "p_x_y_set (players h i) = p_x_y_set (players g i)"
    "p_x_min (players h i) = p_x_min (players g i)"
    "p_y_min (players h i) = p_y_min (players g i)"
    "p_x_max (players h i) = p_x_max (players g i)"
    "p_y_max (players h i) = p_y_max (players g i)"
    "p_dir (players h i) = p_dir (players g i)"
    "p_desdir (players h i) = p_desdir (players g i)"
    "p_subdir (players h i) = p_subdir (players g i)"
    "p_speed (players h i) = p_speed (players g i)"
    "p_desspeed (players h i) = p_desspeed (players g i)"
    "p_subspeed (players h i) = p_subspeed (players g i)"
    "p_team (players h i) = p_team (players g i)"
    "p_damage (players h i) = p_damage (players g i)"
    "p_subdamage (players h i) = p_subdamage (players g i)"
    "p_shield (players h i) = p_shield (players g i)"
    "p_subshield (players h i) = p_subshield (players g i)"
    "p_cloakphase (players h i) = p_cloakphase (players g i)"
    "p_ntorp (players h i) = p_ntorp (players g i)"
    "p_nplasmatorp (players h i) = p_nplasmatorp (players g i)"
    "p_hostile (players h i) = p_hostile (players g i)"
    "p_swar (players h i) = p_swar (players g i)"
    "p_war (players h i) = p_war (players g i)"
    "p_lastseenby (players h i) = p_lastseenby (players g i)"
    "p_kills (players h i) = p_kills (players g i)"
    "p_planet (players h i) = p_planet (players g i)"
    "p_playerl (players h i) = p_playerl (players g i)"
    "p_playerl_tv (players h i) = p_playerl_tv (players g i)"
    "p_armies (players h i) = p_armies (players g i)"
    "p_fuel (players h i) = p_fuel (players g i)"
    "p_explode (players h i) = p_explode (players g i)"
    "p_selfdest (players h i) = p_selfdest (players g i)"
    "p_etemp (players h i) = p_etemp (players g i)"
    "p_etime (players h i) = p_etime (players g i)"
    "p_wtemp (players h i) = p_wtemp (players g i)"
    "p_wtime (players h i) = p_wtime (players g i)"
    "p_whydead (players h i) = p_whydead (players g i)"
    "p_whodead (players h i) = p_whodead (players g i)"
    "p_genoplanets (players h i) = p_genoplanets (players g i)"
    "p_genoarmsbomb (players h i) = p_genoarmsbomb (players g i)"
    "p_planets (players h i) = p_planets (players g i)"
    "p_armsbomb (players h i) = p_armsbomb (players g i)"
    "p_ghostbuster (players h i) = p_ghostbuster (players g i)"
    "p_bays (players h i) = p_bays (players g i)"
    "p_dock_with (players h i) = p_dock_with (players g i)"
    "p_dock_bay (players h i) = p_dock_bay (players g i)"
    "p_tractor (players h i) = p_tractor (players g i)"
    "p_pos (players h i) = p_pos (players g i)"
    "w_queue (players h i) = w_queue (players g i)"
    "p_full_hostname (players h i) = p_full_hostname (players g i)"
    "p_dns_hostname (players h i) = p_dns_hostname (players g i)"
    "p_xblproxy (players h i) = p_xblproxy (players g i)"
    "p_sorbsproxy (players h i) = p_sorbsproxy (players g i)"
    "p_njablproxy (players h i) = p_njablproxy (players g i)"
    "p_avrt (players h i) = p_avrt (players g i)"
    "p_stdv (players h i) = p_stdv (players g i)"
    "p_pkls_c_s (players h i) = p_pkls_c_s (players g i)"
    "p_pkls_s_c (players h i) = p_pkls_s_c (players g i)"
    "p_ups (players h i) = p_ups (players g i)"
    "p_fpu (players h i) = p_fpu (players g i)"
    "p_process (players h i) = p_process (players g i)"
    "p_df (players h i) = p_df (players g i)"
    "p_tg (players h i) = p_tg (players g i)"
    "voting (players h i) = voting (players g i)"
    "p_candock (players h i) = p_candock (players g i)"
    "p_cantranswarp (players h i) = p_cantranswarp (players g i)"
    "p_transwarp (players h i) = p_transwarp (players g i)"
    "p_repair_time (players h i) = p_repair_time (players g i)"
    "p_inl_captain (players h i) = p_inl_captain (players g i)"
    "p_inl_draft (players h i) = p_inl_draft (players g i)"
    "p_inl_x (players h i) = p_inl_x (players g i)"
    "p_inl_y (players h i) = p_inl_y (players g i)"
    "p_inl_pool (players h i) = p_inl_pool (players g i)"
    "p_inl_pick (players h i) = p_inl_pick (players g i)"
    "p_ip_duplicates (players h i) = p_ip_duplicates (players g i)"
    "p_authorised (players h i) = p_authorised (players g i)"
    "p_verify_clue (players h i) = p_verify_clue (players g i)"
    "p_disconnect (players h i) = p_disconnect (players g i)"
    "p_sub_in (players h i) = p_sub_in (players g i)"
    "p_sub_in_for (players h i) = p_sub_in_for (players g i)"
    "p_sub_out (players h i) = p_sub_out (players g i)"
    "p_sub_out_for (players h i) = p_sub_out_for (players g i)"
    "p_ident (players h i) = p_ident (players g i)"
    "p_no_pick (players h i) = p_no_pick (players g i)"
  using arg_cong [OF core_eqD [OF assms, of i], of p_no] apply (simp add: strip_ltd_def)
  using arg_cong [OF core_eqD [OF assms, of i], of p_updates] apply (simp add: strip_ltd_def)
  using arg_cong [OF core_eqD [OF assms, of i], of p_status] apply (simp add: strip_ltd_def)
  using arg_cong [OF core_eqD [OF assms, of i], of p_flags] apply (simp add: strip_ltd_def)
  using arg_cong [OF core_eqD [OF assms, of i], of p_name] apply (simp add: strip_ltd_def)
  using arg_cong [OF core_eqD [OF assms, of i], of p_login] apply (simp add: strip_ltd_def)
  using arg_cong [OF core_eqD [OF assms, of i], of p_ip] apply (simp add: strip_ltd_def)
  using arg_cong [OF core_eqD [OF assms, of i], of p_monitor] apply (simp add: strip_ltd_def)
  using arg_cong [OF core_eqD [OF assms, of i], of p_longname] apply (simp add: strip_ltd_def)
  using arg_cong [OF core_eqD [OF assms, of i], of p_mapchars] apply (simp add: strip_ltd_def)
  using arg_cong [OF core_eqD [OF assms, of i], of p_ship] apply (simp add: strip_ltd_def)
  using arg_cong [OF core_eqD [OF assms, of i], of p_x] apply (simp add: strip_ltd_def)
  using arg_cong [OF core_eqD [OF assms, of i], of p_y] apply (simp add: strip_ltd_def)
  using arg_cong [OF core_eqD [OF assms, of i], of p_x_internal] apply (simp add: strip_ltd_def)
  using arg_cong [OF core_eqD [OF assms, of i], of p_y_internal] apply (simp add: strip_ltd_def)
  using arg_cong [OF core_eqD [OF assms, of i], of p_x_input] apply (simp add: strip_ltd_def)
  using arg_cong [OF core_eqD [OF assms, of i], of p_y_input] apply (simp add: strip_ltd_def)
  using arg_cong [OF core_eqD [OF assms, of i], of p_x_y_set] apply (simp add: strip_ltd_def)
  using arg_cong [OF core_eqD [OF assms, of i], of p_x_min] apply (simp add: strip_ltd_def)
  using arg_cong [OF core_eqD [OF assms, of i], of p_y_min] apply (simp add: strip_ltd_def)
  using arg_cong [OF core_eqD [OF assms, of i], of p_x_max] apply (simp add: strip_ltd_def)
  using arg_cong [OF core_eqD [OF assms, of i], of p_y_max] apply (simp add: strip_ltd_def)
  using arg_cong [OF core_eqD [OF assms, of i], of p_dir] apply (simp add: strip_ltd_def)
  using arg_cong [OF core_eqD [OF assms, of i], of p_desdir] apply (simp add: strip_ltd_def)
  using arg_cong [OF core_eqD [OF assms, of i], of p_subdir] apply (simp add: strip_ltd_def)
  using arg_cong [OF core_eqD [OF assms, of i], of p_speed] apply (simp add: strip_ltd_def)
  using arg_cong [OF core_eqD [OF assms, of i], of p_desspeed] apply (simp add: strip_ltd_def)
  using arg_cong [OF core_eqD [OF assms, of i], of p_subspeed] apply (simp add: strip_ltd_def)
  using arg_cong [OF core_eqD [OF assms, of i], of p_team] apply (simp add: strip_ltd_def)
  using arg_cong [OF core_eqD [OF assms, of i], of p_damage] apply (simp add: strip_ltd_def)
  using arg_cong [OF core_eqD [OF assms, of i], of p_subdamage] apply (simp add: strip_ltd_def)
  using arg_cong [OF core_eqD [OF assms, of i], of p_shield] apply (simp add: strip_ltd_def)
  using arg_cong [OF core_eqD [OF assms, of i], of p_subshield] apply (simp add: strip_ltd_def)
  using arg_cong [OF core_eqD [OF assms, of i], of p_cloakphase] apply (simp add: strip_ltd_def)
  using arg_cong [OF core_eqD [OF assms, of i], of p_ntorp] apply (simp add: strip_ltd_def)
  using arg_cong [OF core_eqD [OF assms, of i], of p_nplasmatorp] apply (simp add: strip_ltd_def)
  using arg_cong [OF core_eqD [OF assms, of i], of p_hostile] apply (simp add: strip_ltd_def)
  using arg_cong [OF core_eqD [OF assms, of i], of p_swar] apply (simp add: strip_ltd_def)
  using arg_cong [OF core_eqD [OF assms, of i], of p_war] apply (simp add: strip_ltd_def)
  using arg_cong [OF core_eqD [OF assms, of i], of p_lastseenby] apply (simp add: strip_ltd_def)
  using arg_cong [OF core_eqD [OF assms, of i], of p_kills] apply (simp add: strip_ltd_def)
  using arg_cong [OF core_eqD [OF assms, of i], of p_planet] apply (simp add: strip_ltd_def)
  using arg_cong [OF core_eqD [OF assms, of i], of p_playerl] apply (simp add: strip_ltd_def)
  using arg_cong [OF core_eqD [OF assms, of i], of p_playerl_tv] apply (simp add: strip_ltd_def)
  using arg_cong [OF core_eqD [OF assms, of i], of p_armies] apply (simp add: strip_ltd_def)
  using arg_cong [OF core_eqD [OF assms, of i], of p_fuel] apply (simp add: strip_ltd_def)
  using arg_cong [OF core_eqD [OF assms, of i], of p_explode] apply (simp add: strip_ltd_def)
  using arg_cong [OF core_eqD [OF assms, of i], of p_selfdest] apply (simp add: strip_ltd_def)
  using arg_cong [OF core_eqD [OF assms, of i], of p_etemp] apply (simp add: strip_ltd_def)
  using arg_cong [OF core_eqD [OF assms, of i], of p_etime] apply (simp add: strip_ltd_def)
  using arg_cong [OF core_eqD [OF assms, of i], of p_wtemp] apply (simp add: strip_ltd_def)
  using arg_cong [OF core_eqD [OF assms, of i], of p_wtime] apply (simp add: strip_ltd_def)
  using arg_cong [OF core_eqD [OF assms, of i], of p_whydead] apply (simp add: strip_ltd_def)
  using arg_cong [OF core_eqD [OF assms, of i], of p_whodead] apply (simp add: strip_ltd_def)
  using arg_cong [OF core_eqD [OF assms, of i], of p_genoplanets] apply (simp add: strip_ltd_def)
  using arg_cong [OF core_eqD [OF assms, of i], of p_genoarmsbomb] apply (simp add: strip_ltd_def)
  using arg_cong [OF core_eqD [OF assms, of i], of p_planets] apply (simp add: strip_ltd_def)
  using arg_cong [OF core_eqD [OF assms, of i], of p_armsbomb] apply (simp add: strip_ltd_def)
  using arg_cong [OF core_eqD [OF assms, of i], of p_ghostbuster] apply (simp add: strip_ltd_def)
  using arg_cong [OF core_eqD [OF assms, of i], of p_bays] apply (simp add: strip_ltd_def)
  using arg_cong [OF core_eqD [OF assms, of i], of p_dock_with] apply (simp add: strip_ltd_def)
  using arg_cong [OF core_eqD [OF assms, of i], of p_dock_bay] apply (simp add: strip_ltd_def)
  using arg_cong [OF core_eqD [OF assms, of i], of p_tractor] apply (simp add: strip_ltd_def)
  using arg_cong [OF core_eqD [OF assms, of i], of p_pos] apply (simp add: strip_ltd_def)
  using arg_cong [OF core_eqD [OF assms, of i], of w_queue] apply (simp add: strip_ltd_def)
  using arg_cong [OF core_eqD [OF assms, of i], of p_full_hostname] apply (simp add: strip_ltd_def)
  using arg_cong [OF core_eqD [OF assms, of i], of p_dns_hostname] apply (simp add: strip_ltd_def)
  using arg_cong [OF core_eqD [OF assms, of i], of p_xblproxy] apply (simp add: strip_ltd_def)
  using arg_cong [OF core_eqD [OF assms, of i], of p_sorbsproxy] apply (simp add: strip_ltd_def)
  using arg_cong [OF core_eqD [OF assms, of i], of p_njablproxy] apply (simp add: strip_ltd_def)
  using arg_cong [OF core_eqD [OF assms, of i], of p_avrt] apply (simp add: strip_ltd_def)
  using arg_cong [OF core_eqD [OF assms, of i], of p_stdv] apply (simp add: strip_ltd_def)
  using arg_cong [OF core_eqD [OF assms, of i], of p_pkls_c_s] apply (simp add: strip_ltd_def)
  using arg_cong [OF core_eqD [OF assms, of i], of p_pkls_s_c] apply (simp add: strip_ltd_def)
  using arg_cong [OF core_eqD [OF assms, of i], of p_ups] apply (simp add: strip_ltd_def)
  using arg_cong [OF core_eqD [OF assms, of i], of p_fpu] apply (simp add: strip_ltd_def)
  using arg_cong [OF core_eqD [OF assms, of i], of p_process] apply (simp add: strip_ltd_def)
  using arg_cong [OF core_eqD [OF assms, of i], of p_df] apply (simp add: strip_ltd_def)
  using arg_cong [OF core_eqD [OF assms, of i], of p_tg] apply (simp add: strip_ltd_def)
  using arg_cong [OF core_eqD [OF assms, of i], of voting] apply (simp add: strip_ltd_def)
  using arg_cong [OF core_eqD [OF assms, of i], of p_candock] apply (simp add: strip_ltd_def)
  using arg_cong [OF core_eqD [OF assms, of i], of p_cantranswarp] apply (simp add: strip_ltd_def)
  using arg_cong [OF core_eqD [OF assms, of i], of p_transwarp] apply (simp add: strip_ltd_def)
  using arg_cong [OF core_eqD [OF assms, of i], of p_repair_time] apply (simp add: strip_ltd_def)
  using arg_cong [OF core_eqD [OF assms, of i], of p_inl_captain] apply (simp add: strip_ltd_def)
  using arg_cong [OF core_eqD [OF assms, of i], of p_inl_draft] apply (simp add: strip_ltd_def)
  using arg_cong [OF core_eqD [OF assms, of i], of p_inl_x] apply (simp add: strip_ltd_def)
  using arg_cong [OF core_eqD [OF assms, of i], of p_inl_y] apply (simp add: strip_ltd_def)
  using arg_cong [OF core_eqD [OF assms, of i], of p_inl_pool] apply (simp add: strip_ltd_def)
  using arg_cong [OF core_eqD [OF assms, of i], of p_inl_pick] apply (simp add: strip_ltd_def)
  using arg_cong [OF core_eqD [OF assms, of i], of p_ip_duplicates] apply (simp add: strip_ltd_def)
  using arg_cong [OF core_eqD [OF assms, of i], of p_authorised] apply (simp add: strip_ltd_def)
  using arg_cong [OF core_eqD [OF assms, of i], of p_verify_clue] apply (simp add: strip_ltd_def)
  using arg_cong [OF core_eqD [OF assms, of i], of p_disconnect] apply (simp add: strip_ltd_def)
  using arg_cong [OF core_eqD [OF assms, of i], of p_sub_in] apply (simp add: strip_ltd_def)
  using arg_cong [OF core_eqD [OF assms, of i], of p_sub_in_for] apply (simp add: strip_ltd_def)
  using arg_cong [OF core_eqD [OF assms, of i], of p_sub_out] apply (simp add: strip_ltd_def)
  using arg_cong [OF core_eqD [OF assms, of i], of p_sub_out_for] apply (simp add: strip_ltd_def)
  using arg_cong [OF core_eqD [OF assms, of i], of p_ident] apply (simp add: strip_ltd_def)
  using arg_cong [OF core_eqD [OF assms, of i], of p_no_pick] apply (simp add: strip_ltd_def)
  done

lemma core_game:
  assumes "core h = core g"
  shows "torps h = torps g"
    "planets h = planets g"
    "phasers h = phasers g"
    "teams h = teams g"
    "status h = status g"
    "ctxt h = ctxt g"
    "shipvals h = shipvals g"
    "queues h = queues g"
    "waiting h = waiting g"
    "cfg h = cfg g"
    "tcount h = tcount g"
    "pl_warning h = pl_warning g"
    "tm_robots h = tm_robots g"
    "pl_poporder h = pl_poporder g"
    "lastpop h = lastpop g"
    "procs h = procs g"
    "dmn h = dmn g"
    "rng h = rng g"
    "rng_pos h = rng_pos g"
    "outputs h = outputs g"
  using arg_cong [OF assms, of torps] apply (simp add: core_def)
  using arg_cong [OF assms, of planets] apply (simp add: core_def)
  using arg_cong [OF assms, of phasers] apply (simp add: core_def)
  using arg_cong [OF assms, of teams] apply (simp add: core_def)
  using arg_cong [OF assms, of status] apply (simp add: core_def)
  using arg_cong [OF assms, of ctxt] apply (simp add: core_def)
  using arg_cong [OF assms, of shipvals] apply (simp add: core_def)
  using arg_cong [OF assms, of queues] apply (simp add: core_def)
  using arg_cong [OF assms, of waiting] apply (simp add: core_def)
  using arg_cong [OF assms, of cfg] apply (simp add: core_def)
  using arg_cong [OF assms, of tcount] apply (simp add: core_def)
  using arg_cong [OF assms, of pl_warning] apply (simp add: core_def)
  using arg_cong [OF assms, of tm_robots] apply (simp add: core_def)
  using arg_cong [OF assms, of pl_poporder] apply (simp add: core_def)
  using arg_cong [OF assms, of lastpop] apply (simp add: core_def)
  using arg_cong [OF assms, of procs] apply (simp add: core_def)
  using arg_cong [OF assms, of dmn] apply (simp add: core_def)
  using arg_cong [OF assms, of rng] apply (simp add: core_def)
  using arg_cong [OF assms, of rng_pos] apply (simp add: core_def)
  using arg_cong [OF assms, of outputs] apply (simp add: core_def)
  done

lemmas ltd_frames [simp] =
  core_player [OF core_ltd(1)] core_game [OF core_ltd(1)]
  core_player [OF core_ltd(2)] core_game [OF core_ltd(2)]
  core_player [OF core_ltd(3)] core_game [OF core_ltd(3)]
  core_player [OF core_ltd(4)] core_game [OF core_ltd(4)]
  core_player [OF core_ltd(5)] core_game [OF core_ltd(5)]
  core_player [OF core_ltd(6)] core_game [OF core_ltd(6)]
  core_player [OF core_ltd(7)] core_game [OF core_ltd(7)]
  core_player [OF core_ltd(8)] core_game [OF core_ltd(8)]
  core_player [OF core_ltd(9)] core_game [OF core_ltd(9)]
  core_player [OF core_weapons(1)] core_game [OF core_weapons(1)]
  core_player [OF core_weapons(2)] core_game [OF core_weapons(2)]
  core_player [OF core_weapons(3)] core_game [OF core_weapons(3)]
  core_player [OF core_weapons(4)] core_game [OF core_weapons(4)]
  core_player [OF core_weapons(5)] core_game [OF core_weapons(5)]
  core_player [OF core_weapons(6)] core_game [OF core_weapons(6)]
  core_player [OF core_weapons(7)] core_game [OF core_weapons(7)]
  core_player [OF core_weapons(8)] core_game [OF core_weapons(8)]
  core_player [OF core_weapons(9)] core_game [OF core_weapons(9)]
  core_player [OF core_weapons(10)] core_game [OF core_weapons(10)]
  core_player [OF core_weapons(11)] core_game [OF core_weapons(11)]
  core_player [OF core_weapons(12)] core_game [OF core_weapons(12)]
  core_player [OF core_weapons(13)] core_game [OF core_weapons(13)]
  core_player [OF core_weapons(14)] core_game [OF core_weapons(14)]
  core_player [OF core_weapons(15)] core_game [OF core_weapons(15)]
  core_player [OF core_totals] core_game [OF core_totals]

subsection \<open>History\<close>

text \<open>
  The history of a player: at most five remembered kills, a role from 0 (none) to 4 (converted
  second kill), and the role of a potential carrier only with a kill to show for it.
\<close>

definition hist_ok :: "ltd_history \<Rightarrow> bool" where
  "hist_ok h \<longleftrightarrow> 0 \<le> num_kills h \<and> num_kills h \<le> int LTD_NUM_HIST \<and>
     0 \<le> kill_potential h \<and> kill_potential h \<le> 4 \<and>
     (kill_potential h = 1 \<longrightarrow> num_kills h \<ge> 1) \<and> (kill_potential h = 2 \<longrightarrow> num_kills h \<ge> 2)"

text \<open>The only moves of the role; a reset puts it back to 0.\<close>

definition role_moves :: "int \<Rightarrow> int \<Rightarrow> bool" where
  "role_moves a b \<longleftrightarrow> a = b \<or> (a, b) \<in> {(0, 1), (0, 2), (1, 2), (0, 3), (1, 3), (2, 3), (3, 4)}"

definition hist_step :: "ltd_history \<Rightarrow> ltd_history \<Rightarrow> bool" where
  "hist_step h k \<longleftrightarrow> (hist_ok h \<longrightarrow> hist_ok k) \<and> role_moves (kill_potential h) (kill_potential k) \<and>
     num_kills h \<le> num_kills k"

lemma hist_step_refl [simp]: "hist_step h h"
  by (simp add: hist_step_def role_moves_def)

lemma hist_step_eq: "num_kills k = num_kills h \<Longrightarrow> kill_potential k = kill_potential h \<Longrightarrow> hist_step h k"
  by (simp add: hist_step_def role_moves_def hist_ok_def)

lemma hist_let: "P t \<Longrightarrow> (\<And>x :: game. P x \<Longrightarrow> P (f x)) \<Longrightarrow> P (Let t f)"
  by (simp add: Let_def)

lemma hist_let_values:
  "(\<And>x. P (f1 x)) \<Longrightarrow> P (Let (t1 :: player) f1)"
  "(\<And>x. P (f2 x)) \<Longrightarrow> P (Let (t2 :: int) f2)"
  "(\<And>x. P (f3 x)) \<Longrightarrow> P (Let (t3 :: nat) f3)"
  "(\<And>x. P (f4 x)) \<Longrightarrow> P (Let (t4 :: bool) f4)"
  "(\<And>x. P (f5 x)) \<Longrightarrow> P (Let (t5 :: 32 word) f5)"
  by (simp_all add: Let_def)

text \<open>The history of player \<open>j\<close> is still \<open>h\<close>.\<close>

definition hist_is :: "nat \<Rightarrow> ltd_history \<Rightarrow> game \<Rightarrow> bool" where
  "hist_is j h g \<longleftrightarrow> p_hist (players g j) = h"

lemma hist_is_ops:
  "hist_is j h g \<Longrightarrow> hist_is j h (upd_ltd i f g)"
  "hist_is j h x \<Longrightarrow> hist_is j h y \<Longrightarrow> hist_is j h (if b then x else y)"
  by (simp_all add: hist_is_def)

lemmas hist_intros = hist_is_ops hist_let [where P = "hist_is j h" for j h]
  hist_let_values [where P = "hist_is j h" for j h]

lemma count_ticks_hist [simp]: "p_hist (players (count_ticks i g) j) = p_hist (players g j)"
proof -
  have "hist_is j h g \<Longrightarrow> hist_is j h (count_ticks i g)" for h
    unfolding count_ticks_def by (intro hist_intros)
  then show ?thesis by (simp add: hist_is_def)
qed

lemma ogg_carrier_hist [simp]: "p_hist (players (ogg_carrier k a v g) j) = p_hist (players g j)"
proof -
  have "hist_is j h g \<Longrightarrow> hist_is j h (ogg_carrier k a v g)" for h
    unfolding ogg_carrier_def by (intro hist_intros)
  then show ?thesis by (simp add: hist_is_def)
qed

lemma kills_max_hist [simp]: "p_hist (players (ltd_update_kills_max i g) j) = p_hist (players g j)"
  by (simp add: ltd_update_kills_max_def)

lemma ticks_hist: "hist_step (p_hist (players g j)) (p_hist (players (ltd_update_ticks i g) j))"
  by (auto simp: ltd_update_ticks_def first_potential_def second_potential_def hist_step_def hist_ok_def
      role_moves_def)

lemma remember_kill_hist:
  "hist_step (p_hist (players g j)) (p_hist (players (remember_kill k v g) j))"
  by (auto simp: remember_kill_def Let_def hist_step_def hist_ok_def role_moves_def)

lemma kills_hist:
  "hist_step (p_hist (players g j)) (p_hist (players (ltd_update_kills k a v g) j))"
proof -
  obtain g' where g': "ltd_update_kills k a v g = ltd_update_kills_max k (remember_kill k v g')"
      "hist_is j (p_hist (players g j)) g'"
    unfolding ltd_update_kills_def Let_def by (auto simp: hist_is_def)
  then show ?thesis using remember_kill_hist [of g' j k v] by (simp add: hist_is_def)
qed

lemma carrier_role_hist:
  "hist_step (p_hist (players g j)) (p_hist (players (carrier_role i g) j))"
  by (auto simp: carrier_role_def Let_def hist_step_def hist_ok_def role_moves_def)

lemma credit_acc_hist:
  "num_kills (p_hist (players (credit_acc i g) j)) = num_kills (p_hist (players g j))"
  "kill_potential (p_hist (players (credit_acc i g) j)) = kill_potential (p_hist (players g j))"
  by (auto simp: credit_acc_def Let_def upd_ltd_slot_def split: option.splits)

lemma first_army_hist [simp]: "p_hist (players (first_army i g) j) = p_hist (players g j)"
  by (simp add: first_army_def)

lemma carried_hist:
  "hist_step (p_hist (players g j)) (p_hist (players (ltd_update_armies_carried i sb g) j))"
proof -
  let ?g = "upd_ltd i (s_armies_update (la_total_update inc)) g"
  let ?h = "ltd_update_armies_carried i sb g"
  have "num_kills (p_hist (players ?h j)) = num_kills (p_hist (players (carrier_role i ?g) j)) \<and>
      kill_potential (p_hist (players ?h j)) = kill_potential (p_hist (players (carrier_role i ?g) j))"
    by (simp add: ltd_update_armies_carried_def Let_def credit_acc_hist split: option.split)
  then show ?thesis
    using carrier_role_hist [of ?g j i] by (simp add: hist_step_def hist_ok_def)
qed

subsection \<open>Properties\<close>


text \<open>Outside tournament mode the saved statistics of player \<open>j\<close> are still \<open>s\<close>.\<close>

definition stats_are :: "nat \<Rightarrow> stats \<Rightarrow> game \<Rightarrow> bool" where
  "stats_are j s g \<longleftrightarrow> \<not> tourn g \<and> p_stats (players g j) = s"

lemma stats_are_ops:
  "stats_are j s g \<Longrightarrow> stats_are j s (upd_ltd i f g)"
  "stats_are j s g \<Longrightarrow> stats_are j s (upd_hist i h g)"
  "stats_are j s x \<Longrightarrow> stats_are j s y \<Longrightarrow> stats_are j s (if b then x else y)"
  by (simp_all add: stats_are_def)

lemma stats_let_hist: "(\<And>x. P (f x)) \<Longrightarrow> P (Let (t :: ltd_history) f)"
  by (simp add: Let_def)

lemmas stats_intros = stats_are_ops hist_let [where P = "stats_are j s" for j s]
  hist_let_values [where P = "stats_are j s" for j s] stats_let_hist [where P = "stats_are j s" for j s]

lemma stats_are_parts:
  "stats_are j s g \<Longrightarrow> stats_are j s (ogg_carrier c a v g)"
  "stats_are j s g \<Longrightarrow> stats_are j s (remember_kill c v g)"
  "stats_are j s g \<Longrightarrow> stats_are j s (ltd_update_kills_max c g)"
  "stats_are j s g \<Longrightarrow> stats_are j s (first_drop_here i f g)"
  unfolding ogg_carrier_def remember_kill_def ltd_update_kills_max_def first_drop_here_def
  by (intro stats_intros; assumption)+

lemma stats_are_events:
  "stats_are j s g \<Longrightarrow> stats_are j s (ltd_update_ticks i g)"
  "stats_are j s g \<Longrightarrow> stats_are j s (ltd_update_kills c a v g)"
  "stats_are j s g \<Longrightarrow> stats_are j s (ltd_update_deaths v k g)"
  "stats_are j s g \<Longrightarrow> stats_are j s (ltd_update_bomb i l n g)"
  "stats_are j s g \<Longrightarrow> stats_are j s (ltd_update_planets i l g)"
  "stats_are j s g \<Longrightarrow> stats_are j s (ltd_update_armies i l g)"
  "stats_are j s g \<Longrightarrow> stats_are j s (ltd_update_armies_ferried i b g)"
  unfolding ltd_update_ticks_def count_ticks_def first_potential_def second_potential_def
    ltd_update_kills_def ltd_update_deaths_def ltd_update_bomb_def ltd_update_planets_def
    ltd_update_armies_def ltd_update_armies_ferried_def
  by (intro stats_intros stats_are_parts; assumption)+



text \<open>
  One event does reach the saved statistics outside tournament mode.  When a player with
  a single remembered kill beams up an army that this kill makes room for, the victim's saved
  count of such deaths goes up, in the slot of the ship it died in.
\<close>

theorem acc_saved_outside_tmode:
  assumes "\<not> tourn g" and "num_kills (p_hist (players g i)) = 1" and "v \<noteq> i"
    and "hk_victim (h_kills (p_hist (players g i)) 0) = Some v"
    and "needs_kill (players g i) (h_kills (p_hist (players g i)) 0)"
  defines "slot \<equiv> ltd_ship (nat (hk_ship (h_kills (p_hist (players g i)) 0)))"
  shows "ld_acc (s_deaths (ltd (p_stats (players (ltd_update_armies_carried i None g) v)) slot)) =
    ld_acc (s_deaths (ltd (p_stats (players g v)) slot)) + 1"
proof -
  let ?g = "carrier_role i (upd_ltd i (s_armies_update (la_total_update inc)) g)"
  have role: "h_kills (p_hist (players ?g i)) = h_kills (p_hist (players g i))"
      "num_kills (p_hist (players ?g i)) = 1"
    using assms(2) by (simp_all add: carrier_role_def Let_def)
  have p: "p_armies (players ?g i) = p_armies (players g i)" "p_ship (players ?g i) = p_ship (players g i)"
    using core_player [OF core_carrying(1) [OF core_upd_ltd]] by simp_all
  have st: "stats_are v (p_stats (players g v)) ?g"
    unfolding carrier_role_def
    by (intro stats_intros) (use assms(1) in \<open>simp_all add: stats_are_def\<close>)
  have "first_in 0 1 (\<lambda>t. hk_victim (h_kills (p_hist (players ?g i)) t) \<noteq> None \<and>
      needs_kill (players ?g i) (h_kills (p_hist (players ?g i)) t)) = Some 0"
    using assms(4,5) p by (simp add: first_in_def role needs_kill_def)
  then have "credit_acc i ?g = upd_hist i
      (h_kills_update (\<lambda>f. f(0 := (f 0)\<lparr>hk_victim := None\<rparr>)))
      (upd_player v (upd_ltd_slot slot (s_deaths_update (ld_acc_update inc))) ?g)"
    using assms(4) by (simp add: credit_acc_def Let_def role slot_def)
  then have "ltd (p_stats (players (credit_acc i ?g) v)) slot =
      s_deaths_update (ld_acc_update inc) (ltd (p_stats (players g v)) slot)"
    using st by (simp add: upd_ltd_slot_def stats_are_def)
  moreover have "p_stats (players (ltd_update_armies_carried i None g) v) = p_stats (players (credit_acc i ?g) v)"
    using assms(3) by (simp add: ltd_update_armies_carried_def Let_def first_army_def upd_ltd_def)
  ultimately show ?thesis by (simp add: inc_def)
qed

definition ex_kill :: "game" where
  "ex_kill = upd_player 1 (\<lambda>p. p\<lparr>p_armies := 1, p_hist := blank_ltd_history\<lparr>num_kills := 1,
     h_kills := (\<lambda>_. blank_ltd_kill\<lparr>hk_victim := Some 2\<rparr>)\<rparr>\<rparr>) blank_game"

theorem acc_saved_outside_tmode_witness:
  "ld_acc (s_deaths (ltd (p_stats (players (ltd_update_armies_carried 1 None ex_kill) 2)) LTD_SC)) = 1"
proof -
  have "ld_acc (s_deaths (ltd (p_stats (players ex_kill 2)) LTD_SC)) = 0"
    by (simp add: ex_kill_def blank_defs)
  moreover have "ltd_ship (nat (hk_ship (h_kills (p_hist (players ex_kill 1)) 0))) = LTD_SC"
    by (simp add: ex_kill_def blank_ltd_kill_def ltd_ship_def)
  ultimately show ?thesis
    using acc_saved_outside_tmode [of ex_kill 1 2]
    by (simp add: ex_kill_def needs_kill_def blank_ltd_kill_def blank_game_def blank_status_def)
qed

text \<open>The slots that the totals add up; the total slot itself is not among them.\<close>

lemma ltd_slots_eq: "ltd_slots = [1, 2, 3, 4, 5, 7]"
  by (simp add: ltd_slots_def upt_rec)

lemma ltd_sum_total_slot [simp]: "ltd_sum f (l(0 := x)) = ltd_sum f l"
  by (simp add: ltd_sum_def ltd_slots_eq)

lemma ltd_maximise_total_slot [simp]: "ltd_maximise f (l(0 := x)) = ltd_maximise f l"
  by (simp add: ltd_maximise_def ltd_slots_eq)

lemma totals_ignore_total_slot:
  "totals_kills (l(0 := x)) = totals_kills l" "totals_deaths (l(0 := x)) = totals_deaths l"
  "totals_targets (l(0 := x)) = totals_targets l" "totals_carrying (l(0 := x)) = totals_carrying l"
  "totals_ticks (l(0 := x)) = totals_ticks l" "totals_weapons (l(0 := x)) = totals_weapons l"
  by (simp_all add: totals_kills_def totals_deaths_def totals_targets_def totals_carrying_def
      totals_ticks_def totals_weapons_def)

lemma totals_weapons_fired: "totals_weapons l (s_torps_update (ltp_fired_update f) s) = totals_weapons l s"
  by (simp add: totals_weapons_def)

lemma totals_commute_fired:
  "totals_kills l (s_torps_update h s) = s_torps_update h (totals_kills l s)"
  "totals_deaths l (s_torps_update h s) = s_torps_update h (totals_deaths l s)"
  "totals_targets l (s_torps_update h s) = s_torps_update h (totals_targets l s)"
  "totals_carrying l (s_torps_update h s) = s_torps_update h (totals_carrying l s)"
  "totals_ticks l (s_torps_update h s) = s_torps_update h (totals_ticks l s)"
  by (simp_all add: totals_kills_def totals_deaths_def totals_targets_def totals_carrying_def
      totals_ticks_def)

text \<open>
  The table of statistics slots gives the AT&T the slot of the totals instead of the
  slot it shares with the galaxy class, so what it does in tournament mode is lost: a torpedo
  it fires is counted in the total slot, and the next refresh of the totals wipes it out.
\<close>

theorem att_statistics_lost:
  assumes "tourn g" and "s_type (p_ship (players g i)) = ATT"
  shows "ltd_ship ATT = LTD_TOTAL \<and>
    ltd_update_totals i (ltd_update_torp_fired i g) = ltd_update_totals i g"
proof -
  have slot: "ltd_ship ATT = LTD_TOTAL" by (simp add: ltd_ship_def)
  have "ltd_update_torp_fired i g =
      upd_player i (upd_ltd_slot 0 (s_torps_update (ltp_fired_update inc))) g"
    using assms slot by (simp add: ltd_update_torp_fired_def upd_ltd_def upd_player_def)
  then show ?thesis
    using slot
    by (simp add: ltd_update_totals_def set_total_def upd_ltd_slot_def upd_player_def Let_def
        totals_ignore_total_slot totals_commute_fired totals_weapons_fired)
qed

definition ex_att :: "game" where
  "ex_att = blank_game\<lparr>status := blank_status\<lparr>st_tourn := True\<rparr>,
     players := (\<lambda>_. blank_player\<lparr>p_ship := blank_ship\<lparr>s_type := ATT\<rparr>\<rparr>)\<rparr>"

theorem att_statistics_lost_witness:
  "ltd_update_totals 3 (ltd_update_torp_fired 3 ex_att) = ltd_update_totals 3 ex_att"
  using att_statistics_lost [of ex_att 3] by (simp add: ex_att_def)

lemma fold_maximise:
  fixes v :: "nat \<Rightarrow> rat"
  assumes "\<forall>i \<in> set xs. 0 \<le> v i"
  shows "fold (\<lambda>i m. if of_int m < v i then trunc (v i) else m) xs m =
    fold (\<lambda>i m. max m \<lfloor>v i\<rfloor>) xs m"
  using assms
proof (induction xs arbitrary: m)
  case (Cons x xs)
  have "(if of_int m < v x then trunc (v x) else m) = max m \<lfloor>v x\<rfloor>"
    using Cons.prems by (auto simp: trunc_def max_def not_less) linarith+
  with Cons show ?case by simp
qed simp

text \<open>
  The total slot keeps only the whole part of the best number of kills: it is the
  largest integer that some ship's best reaches (or 0), although the best of a ship has a
  fraction.
\<close>

theorem total_max_truncated:
  assumes "\<forall>s \<in> {1, 2, 3, 4, 5, 7}. 0 \<le> lk_max (s_kills (ltd (p_stats (players g i)) s))"
  shows "lk_max (s_kills (ltd (p_stats (players (ltd_update_totals i g) i)) LTD_TOTAL)) =
    of_int (Max (insert 0 ((\<lambda>s. \<lfloor>lk_max (s_kills (ltd (p_stats (players g i)) s))\<rfloor>) ` {1, 2, 3, 4, 5, 7})))"
proof -
  let ?l = "ltd (p_stats (players g i))"
  let ?v = "\<lambda>s. lk_max (s_kills (?l s))"
  have "lk_max (s_kills (ltd (p_stats (players (ltd_update_totals i g) i)) LTD_TOTAL)) =
      of_int (ltd_maximise (lk_max \<circ> s_kills) ?l)"
    by (simp add: ltd_update_totals_def set_total_def upd_ltd_slot_def Let_def totals_kills_def
        totals_deaths_def totals_targets_def totals_carrying_def totals_ticks_def totals_weapons_def)
  also have "ltd_maximise (lk_max \<circ> s_kills) ?l = fold (\<lambda>s m. max m \<lfloor>?v s\<rfloor>) ltd_slots 0"
    unfolding ltd_maximise_def using assms by (subst fold_maximise) (simp_all add: ltd_slots_eq)
  also have "\<dots> = Max (insert 0 ((\<lambda>s. \<lfloor>?v s\<rfloor>) ` {1, 2, 3, 4, 5, 7}))"
    by (simp add: ltd_slots_eq max.assoc max.commute max.left_commute)
  finally show ?thesis .
qed

definition ex_best :: "game" where
  "ex_best = upd_player 2 (upd_ltd_slot LTD_CA (s_kills_update (lk_max_update (\<lambda>_. 27/10)))) blank_game"

lemma ex_best_max:
  "lk_max (s_kills (ltd (p_stats (players ex_best 2)) s)) = (if s = LTD_CA then 27/10 else 0)"
  by (simp add: ex_best_def upd_ltd_slot_def blank_game_def blank_player_def blank_stats_def
      blank_ltd_stats_def blank_ltd_kills_def)

theorem total_max_truncated_witness:
  "lk_max (s_kills (ltd (p_stats (players (ltd_update_totals 2 ex_best) 2)) LTD_TOTAL)) = 2"
  using total_max_truncated [of ex_best 2] by (simp add: ex_best_max floor_divide_of_int_eq [where 'a = rat, of 27 10, simplified])

text \<open>
  \<^verbatim>\<open>enter\<close> passes \<^verbatim>\<open>setEnemy\<close> the number of the team where a team mask is compared.  For a
  Romulan (number 1, the mask of the Federation) entering a game of Federation against
  Romulans, the enemy recorded is the player's own team, and every tick it is alive counts
  for no zone of the map.
\<close>

theorem rom_entry_wrong_enemy:
  assumes "\<And>t. realNumShips t g \<ge> tournplayers (cfg g) \<longleftrightarrow> t = FED \<or> t = ROM"
    and "p_team (players g me) = ROM"
  shows "enemy_team (p_hist (players (setEnemy (team_no ROM) me g) me)) = ROM \<and>
    ltd_zone (players (setEnemy (team_no ROM) me g) me) = 7"
proof -
  have "other_team 1 g = 2"
    by (simp add: other_team_def for_upto_def upt_rec assms(1))
  then have "enemy_team (p_hist (players (setEnemy (team_no ROM) me g) me)) = ROM"
    by (simp add: setEnemy_def team_no_def)
  then show ?thesis
    using assms(2) by (simp add: ltd_zone_def Let_def setEnemy_def)
qed

definition ex_two_teams :: "game" where
  "ex_two_teams = blank_game\<lparr>cfg := blank_sysdef\<lparr>tournplayers := 1\<rparr>,
     players := (\<lambda>i. if i = 0 then blank_player\<lparr>p_status := PALIVE, p_team := FED\<rparr>
       else if i = 1 then blank_player\<lparr>p_status := PALIVE, p_team := ROM\<rparr> else blank_player)\<rparr>"

lemma ex_two_teams_ships:
  "realNumShips t ex_two_teams = (if t = FED \<or> t = ROM then 1 else 0)"
proof -
  have eq: "(\<lambda>i. counts_as_ship t (players ex_two_teams i)) =
      (\<lambda>i. (i = 0 \<and> t = FED) \<or> (i = 1 \<and> t = ROM))"
    by (auto simp: fun_eq_iff ex_two_teams_def counts_as_ship_def blank_player_def)
  show ?thesis unfolding realNumShips_def eq by (simp add: count_upto_def upt_rec)
qed

theorem rom_entry_wrong_enemy_witness:
  "enemy_team (p_hist (players (setEnemy 1 1 ex_two_teams) 1)) = ROM"
proof -
  have "tournplayers (cfg ex_two_teams) = 1" by (simp add: ex_two_teams_def)
  moreover have "p_team (players ex_two_teams 1) = ROM" by (simp add: ex_two_teams_def)
  ultimately show ?thesis
    using rom_entry_wrong_enemy [of ex_two_teams 1] by (simp add: ex_two_teams_ships team_no_def)
qed

end
