(* ===== verification/Waitq.thy ===== *)
theory Waitq
  imports Structs
begin

text \<open>
  The wait queues (\<^verbatim>\<open>ntserv/queue.c\<close>): fourteen queues that share one array of waiting records,
  each queue a doubly linked list through that array with the position of every record kept in
  the record.  The operations are shown to implement an abstract line of people: joining
  appends, leaving removes from anywhere, and the stored counts are the positions.

  The caller's process number and the texts of its address are arguments; what \<^verbatim>\<open>ip_lookup\<close> and
  \<^verbatim>\<open>ip_hide\<close> make of the address is decided by the name service.  The locks around the search for
  a free record make it atomic, and \<^verbatim>\<open>queue_add\<close> is one step here.
\<close>

subsection \<open>Operations\<close>

text \<open>\<^verbatim>\<open>strncpy\<close> of at most \<^verbatim>\<open>QNAMESIZE - 1\<close> characters.\<close>

definition queue_setname :: "nat \<Rightarrow> string \<Rightarrow> game \<Rightarrow> game \<times> int" where
  "queue_setname q name g =
     (if q \<ge> MAXQUEUE then (g, 0)
      else (upd_queue q (\<lambda>r. r\<lparr>q_name := take 19 name\<rparr>) g, 1))"

definition init_waiting :: "nat \<Rightarrow> game \<Rightarrow> game" where
  "init_waiting i =
     upd_wait i (\<lambda>w. w\<lparr>w_mynum := i, w_inuse := False, w_previous := None, w_next := None,
       w_count := -1, w_wqueue := None, w_process := 0\<rparr>)"

definition init_queue :: "nat \<Rightarrow> game \<Rightarrow> game" where
  "init_queue i g =
     fst (queue_setname i ''no name''
       (upd_queue i (\<lambda>q. q\<lparr>enter_sem := 1, free_slots := 0, max_slots := 0, tournmask := NOBODY,
          low_slot := 0, q_prefer := 0, high_slot := 0, q_first := None, q_last := None,
          q_count := 0, q_flags := 0\<rparr>) g))"

definition open_queue ::
  "nat \<Rightarrow> int \<Rightarrow> int \<Rightarrow> int \<Rightarrow> nat \<Rightarrow> nat \<Rightarrow> int \<Rightarrow> string \<Rightarrow> game \<Rightarrow> game" where
  "open_queue q free mx tm low high flags name g =
     fst (queue_setname q name
       (upd_queue q (\<lambda>r. r\<lparr>free_slots := free, max_slots := mx, tournmask := tm,
          low_slot := low, high_slot := high, q_flags := flags\<rparr>) g))"

definition setup_player_queues :: "game \<Rightarrow> game" where
  "setup_player_queues g =
     (let g = open_queue QU_PICKUP (int (MAXPLAYER - TESTERS)) (int (MAXPLAYER - TESTERS)) ALLTEAM
                0 (MAXPLAYER - TESTERS) (QU_OPEN OR QU_RESTRICT OR QU_REPORT) ''pickup'' g;
          g = open_queue QU_ROBOT (int TESTERS) (int TESTERS) ALLTEAM
                (MAXPLAYER - TESTERS) MAXPLAYER QU_OPEN ''robot'' g;
          g = upd_queue QU_HOME (\<lambda>r. r\<lparr>q_prefer := 0\<rparr>)
                (open_queue QU_HOME 0 (int ((MAXPLAYER - TESTERS) div 2)) FED
                   0 (MAXPLAYER - TESTERS) QU_REPORT ''home'' g)
      in upd_queue QU_AWAY (\<lambda>r. r\<lparr>q_prefer := 8\<rparr>)
           (open_queue QU_AWAY 0 (int ((MAXPLAYER - TESTERS) div 2)) ROM
              0 (MAXPLAYER - TESTERS) QU_REPORT ''away'' g))"

definition setup_observer_queues :: "game \<Rightarrow> game" where
  "setup_observer_queues g =
     (let g = open_queue QU_HOME_OBS 0 (int (TESTERS div 2)) FED (MAXPLAYER - TESTERS)
                (MAXPLAYER - TESTERS div 2) (QU_OBSERVER OR QU_REPORT) ''home observer'' g;
          g = open_queue QU_AWAY_OBS 0 (int (TESTERS div 2)) ROM (MAXPLAYER - TESTERS div 2)
                MAXPLAYER (QU_OBSERVER OR QU_REPORT) ''away observer'' g
      in open_queue QU_PICKUP_OBS (int (TESTERS - 1)) (int (TESTERS - 1)) ALLTEAM
           (MAXPLAYER - TESTERS) (MAXPLAYER - 1)
           (QU_OPEN OR QU_RESTRICT OR QU_OBSERVER OR QU_REPORT) ''pickup observer'' g)"

definition setup_god_queues :: "game \<Rightarrow> game" where
  "setup_god_queues g =
     (let g = open_queue QU_GOD (int MAXPLAYER) (int MAXPLAYER) ALLTEAM 0 MAXPLAYER QU_OPEN ''god'' g;
          g = open_queue QU_GOD_OBS 1 1 ALLTEAM 29 29 (QU_OPEN OR QU_OBSERVER OR QU_TOK)
                ''god observer'' g
      in open_queue QU_PRET_DMN 1 1 ALLTEAM (MAXPLAYER - 1) MAXPLAYER QU_OPEN ''preT daemon'' g)"

definition queues_init :: "game \<Rightarrow> game" where
  "queues_init g =
     setup_god_queues (setup_observer_queues (setup_player_queues
       (for_upto MAXQUEUE init_queue (for_upto MAXWAITING init_waiting g))))"

text \<open>
  A queue with a first but no last element never occurs (the invariant below); the source would
  write before the array there.
\<close>

definition queue_add :: "nat \<Rightarrow> int \<Rightarrow> string \<Rightarrow> string \<Rightarrow> game \<Rightarrow> game \<times> nat option" where
  "queue_add q pid ip host g =
     (if \<not> meets (q_flags (queues g q)) QU_OPEN then (g, None)
      else case first_in 0 MAXWAITING (\<lambda>i. \<not> w_inuse (waiting g i)) of
        None \<Rightarrow> (g, None)
      | Some i \<Rightarrow>
          (let g = upd_wait i (\<lambda>w. w\<lparr>w_inuse := True\<rparr>) g;
               g = (if q_first (queues g q) = None
                    then upd_queue q (\<lambda>r. r\<lparr>q_first := Some i\<rparr>) g
                    else case q_last (queues g q) of
                      Some l \<Rightarrow> upd_wait i (\<lambda>w. w\<lparr>w_previous := Some l\<rparr>)
                                  (upd_wait l (\<lambda>w. w\<lparr>w_next := Some i\<rparr>) g)
                    | None \<Rightarrow> g);
               g = upd_queue q (\<lambda>r. r\<lparr>q_last := Some i\<rparr>) g;
               c = q_count (queues g q);
               g = upd_queue q (\<lambda>r. r\<lparr>q_count := c + 1\<rparr>) g
           in (upd_wait i (\<lambda>w. w\<lparr>w_next := None, w_count := c, w_process := pid,
                 w_wqueue := Some q, w_ip := ip, w_host := host\<rparr>) g, Some i)))"

text \<open>
  The loop of \<^verbatim>\<open>queue_update\<close>; \<open>c\<close> is \<^verbatim>\<open>lcount\<close>, bounded by the redundant test.
\<close>

function update_loop :: "nat \<Rightarrow> nat option \<Rightarrow> game \<Rightarrow> game \<times> nat" where
  "update_loop c None g = (g, c)"
| "update_loop c (Some n) g =
     (if c \<ge> MAXWAITING then (g, c)
      else if \<not> w_inuse (waiting g n) then (g, c)
      else if w_process (waiting g n) = 0 then (g, c)
      else update_loop (c + 1) (w_next (waiting g n))
             (upd_wait n (\<lambda>w. w\<lparr>w_count := of_nat c\<rparr>) g))"
  by pat_completeness auto

termination by (relation "measure (\<lambda>(c, _, _). MAXWAITING - c)") auto

definition queue_update :: "nat \<Rightarrow> game \<Rightarrow> game \<times> int" where
  "queue_update q g =
     (if q \<ge> MAXQUEUE then (g, 0)
      else let (g, c) = update_loop 0 (q_first (queues g q)) g
           in (upd_queue q (\<lambda>r. r\<lparr>q_count := of_nat c\<rparr>) g, 1))"

definition queue_exit :: "nat \<Rightarrow> game \<Rightarrow> game \<times> int" where
  "queue_exit x g =
     (case w_wqueue (waiting g x) of
        None \<Rightarrow> (g, 0)
      | Some q \<Rightarrow>
          if q \<ge> MAXQUEUE then (g, 0)
          else
            let p = w_previous (waiting g x); n = w_next (waiting g x);
                g = (case p of None \<Rightarrow> upd_queue q (\<lambda>r. r\<lparr>q_first := n\<rparr>) g
                     | Some p \<Rightarrow> upd_wait p (\<lambda>w. w\<lparr>w_next := n\<rparr>) g);
                n' = w_next (waiting g x); p' = w_previous (waiting g x);
                g = (case n' of None \<Rightarrow> upd_queue q (\<lambda>r. r\<lparr>q_last := p'\<rparr>) g
                     | Some n' \<Rightarrow> upd_wait n' (\<lambda>w. w\<lparr>w_previous := p'\<rparr>) g);
                g = upd_wait x (\<lambda>w. w\<lparr>w_previous := None, w_next := None, w_count := -1,
                      w_wqueue := None, w_process := 0, w_inuse := False\<rparr>) g
            in (fst (queue_update q g), 1))"

text \<open>
  \<^verbatim>\<open>kill(pid, 0)\<close> reports whether a process exists; what it answers is up to the system.  The
  loop counts every record it looks at, over all queues, in \<^verbatim>\<open>killcount\<close>.  When a record is
  not in use or has no process, \<^verbatim>\<open>continue\<close> repeats the inner loop on the same record.
\<close>

datatype kill_result = KILL_OK | ESRCH | EINVAL | EPERM | KILL_OTHER

function purge_loop ::
  "(int \<Rightarrow> kill_result) \<Rightarrow> nat \<Rightarrow> nat option \<Rightarrow> game \<Rightarrow> game \<times> nat \<times> bool" where
  "purge_loop kill c None g = (g, c, True)"
| "purge_loop kill c (Some n) g =
     (if c \<ge> MAXWAITING then (g, c + 1, False)
      else if \<not> w_inuse (waiting g n) then purge_loop kill (c + 1) (Some n) g
      else if w_process (waiting g n) = 0 then purge_loop kill (c + 1) (Some n) g
      else let nx = w_next (waiting g n);
               g' = (if kill (w_process (waiting g n)) = ESRCH
                     then fst (queue_exit (w_mynum (waiting g n)) g) else g)
           in purge_loop kill (c + 1) nx g')"
  by pat_completeness auto

termination by (relation "measure (\<lambda>(_, c, _, _). MAXWAITING - c)") auto

definition trim_free_slots :: "nat \<Rightarrow> game \<Rightarrow> game" where
  "trim_free_slots q g =
     (if free_slots (queues g q) > max_slots (queues g q)
      then upd_queue q (\<lambda>r. r\<lparr>free_slots := max_slots r\<rparr>) g else g)"

text \<open>The state, the kill count, and whether the purge is still running.\<close>

definition purge_queue ::
  "(int \<Rightarrow> kill_result) \<Rightarrow> nat \<Rightarrow> game \<times> nat \<times> bool \<Rightarrow> game \<times> nat \<times> bool" where
  "purge_queue kill q s =
     (case s of (g, c, go) \<Rightarrow>
        if go then case purge_loop kill c (q_first (queues g q)) g of
            (g, c, ok) \<Rightarrow> if ok then (trim_free_slots q g, c, True) else (g, c, False)
        else (g, c, go))"

definition queues_purge :: "(int \<Rightarrow> kill_result) \<Rightarrow> game \<Rightarrow> game \<times> int" where
  "queues_purge kill g =
     (case for_upto MAXQUEUE (purge_queue kill) (g, 0, True)
      of (g, c, go) \<Rightarrow> (g, if go then 1 else 0))"

subsection \<open>Doubly linked segments\<close>

definition hdo :: "nat list \<Rightarrow> nat option \<Rightarrow> nat option" where
  "hdo xs n = (case xs of [] \<Rightarrow> n | x # _ \<Rightarrow> Some x)"

definition lasto :: "nat option \<Rightarrow> nat list \<Rightarrow> nat option" where
  "lasto p xs = (if xs = [] then p else Some (last xs))"

lemma hdo_simps [simp]: "hdo [] n = n" "hdo (x # xs) n = Some x"
  by (simp_all add: hdo_def)

lemma lasto_simps [simp]: "lasto p [] = p" "lasto p (x # xs) = lasto (Some x) xs"
  "lasto p (xs @ [x]) = Some x"
  by (simp_all add: lasto_def)

lemma hdo_None [simp]: "hdo xs n = None \<longleftrightarrow> xs = [] \<and> n = None"
  by (cases xs) simp_all

lemma hdo_append: "hdo (xs @ ys) n = hdo xs (hdo ys n)"
  by (cases xs) simp_all

lemma lasto_append: "lasto p (xs @ ys) = lasto (lasto p xs) ys"
  by (induction xs arbitrary: p) simp_all

text \<open>
  The records \<open>xs\<close> are linked in this order, after \<open>p\<close> and before \<open>n\<close>.
\<close>

fun seg :: "(nat \<Rightarrow> queuewait) \<Rightarrow> nat option \<Rightarrow> nat list \<Rightarrow> nat option \<Rightarrow> bool" where
  "seg w p [] n = True"
| "seg w p (x # xs) n =
     (w_previous (w x) = p \<and> w_next (w x) = hdo xs n \<and> seg w (Some x) xs n)"

lemma seg_append:
  "seg w p (xs @ ys) n \<longleftrightarrow> seg w p xs (hdo ys n) \<and> seg w (lasto p xs) ys n"
  by (induction xs arbitrary: p) (auto simp: hdo_append)

lemma seg_cong:
  "(\<And>x. x \<in> set xs \<Longrightarrow> w_previous (v x) = w_previous (w x) \<and> w_next (v x) = w_next (w x)) \<Longrightarrow>
   seg v p xs n = seg w p xs n"
  by (induction xs arbitrary: p) auto

lemma seg_set_next:
  assumes "seg w p (ys @ [l]) n" and "l \<notin> set ys"
  shows "seg (w(l := (w l)\<lparr>w_next := n'\<rparr>)) p (ys @ [l]) n'"
proof -
  have "seg (w(l := (w l)\<lparr>w_next := n'\<rparr>)) p ys (Some l) = seg w p ys (Some l)"
    by (rule seg_cong) (use assms(2) in auto)
  with assms show ?thesis by (simp add: seg_append)
qed

lemma seg_set_previous:
  assumes "seg w p (y # ys) n" and "y \<notin> set ys"
  shows "seg (w(y := (w y)\<lparr>w_previous := p'\<rparr>)) p' (y # ys) n"
proof -
  have "seg (w(y := (w y)\<lparr>w_previous := p'\<rparr>)) (Some y) ys n = seg w (Some y) ys n"
    by (rule seg_cong) (use assms(2) in auto)
  with assms show ?thesis by simp
qed

subsection \<open>The abstraction\<close>

text \<open>Who stands in a queue: follow the links, at most as many times as there are records.\<close>

fun walk :: "(nat \<Rightarrow> queuewait) \<Rightarrow> nat \<Rightarrow> nat option \<Rightarrow> nat list" where
  "walk w 0 cur = []"
| "walk w (Suc k) None = []"
| "walk w (Suc k) (Some x) = x # walk w k (w_next (w x))"

definition line :: "game \<Rightarrow> nat \<Rightarrow> nat list" where
  "line g q = walk (waiting g) MAXWAITING (q_first (queues g q))"

lemma walk_seg: "seg w p xs None \<Longrightarrow> length xs \<le> k \<Longrightarrow> walk w k (hdo xs None) = xs"
proof (induction xs arbitrary: p k)
  case Nil
  show ?case by (cases k) simp_all
next
  case (Cons x xs)
  then obtain k' where "k = Suc k'" by (cases k) auto
  with Cons show ?case by (auto simp del: hdo_simps(1))
qed

text \<open>
  A queue holds the list \<open>xs\<close>: ends, links, membership, and the numbers people are told.
\<close>

definition holds_line :: "game \<Rightarrow> nat \<Rightarrow> nat list \<Rightarrow> bool" where
  "holds_line g q xs \<longleftrightarrow>
     q_first (queues g q) = hdo xs None \<and> q_last (queues g q) = lasto None xs \<and>
     seg (waiting g) None xs None \<and> distinct xs \<and>
     (\<forall>x \<in> set xs. x < MAXWAITING \<and> w_inuse (waiting g x) \<and> w_wqueue (waiting g x) = Some q \<and>
        w_process (waiting g x) \<noteq> 0) \<and>
     q_count (queues g q) = of_nat (length xs) \<and>
     (\<forall>i < length xs. w_count (waiting g (xs ! i)) = of_nat i)"

lemma holds_line_length: "holds_line g q xs \<Longrightarrow> length xs \<le> MAXWAITING"
  using card_mono [of "{..<MAXWAITING}" "set xs"]
  by (auto simp: holds_line_def distinct_card)

lemma holds_line_eq: "holds_line g q xs \<Longrightarrow> line g q = xs"
  using holds_line_length [of g q xs] walk_seg
  unfolding holds_line_def line_def by metis

text \<open>
  The invariant of the whole array: every queue holds its line, every record in use stands in
  the line of its queue, and records that are not in use are unlinked.
\<close>

definition waitq_ok :: "game \<Rightarrow> bool" where
  "waitq_ok g \<longleftrightarrow>
     (\<forall>q < MAXQUEUE. holds_line g q (line g q)) \<and>
     (\<forall>x < MAXWAITING. w_mynum (waiting g x) = x \<and>
        (if w_inuse (waiting g x)
         then (\<exists>q < MAXQUEUE. w_wqueue (waiting g x) = Some q \<and> x \<in> set (line g q))
         else w_previous (waiting g x) = None \<and> w_wqueue (waiting g x) = None))"

lemma waitq_okI:
  assumes "\<And>q. q < MAXQUEUE \<Longrightarrow> holds_line g q (L q)"
    and "\<And>x. x < MAXWAITING \<Longrightarrow> w_mynum (waiting g x) = x \<and>
      (if w_inuse (waiting g x)
       then (\<exists>q < MAXQUEUE. w_wqueue (waiting g x) = Some q \<and> x \<in> set (L q))
       else w_previous (waiting g x) = None \<and> w_wqueue (waiting g x) = None)"
  shows "waitq_ok g" and "\<And>q. q < MAXQUEUE \<Longrightarrow> line g q = L q"
proof -
  show L: "line g q = L q" if "q < MAXQUEUE" for q
    using holds_line_eq assms(1) that by blast
  have "holds_line g q (line g q)" if "q < MAXQUEUE" for q using assms(1) L that by simp
  moreover have "w_mynum (waiting g x) = x \<and>
      (if w_inuse (waiting g x)
       then (\<exists>q < MAXQUEUE. w_wqueue (waiting g x) = Some q \<and> x \<in> set (line g q))
       else w_previous (waiting g x) = None \<and> w_wqueue (waiting g x) = None)"
    if "x < MAXWAITING" for x
    using assms(2) [OF that] L by (auto split: if_splits)
  ultimately show "waitq_ok g" by (simp add: waitq_ok_def)
qed

lemma waitq_ok_rec:
  assumes "waitq_ok g" and "x < MAXWAITING"
  shows "w_mynum (waiting g x) = x \<and>
      (if w_inuse (waiting g x)
       then (\<exists>q < MAXQUEUE. w_wqueue (waiting g x) = Some q \<and> x \<in> set (line g q))
       else w_previous (waiting g x) = None \<and> w_wqueue (waiting g x) = None)"
  using assms unfolding waitq_ok_def by blast

text \<open>The lines of different queues share no record.\<close>

lemma lines_disjoint:
  "holds_line g q xs \<Longrightarrow> holds_line g r ys \<Longrightarrow> q \<noteq> r \<Longrightarrow> set xs \<inter> set ys = {}"
  by (auto simp: holds_line_def)

lemma holds_line_cong:
  assumes "holds_line g q xs" and "q_first (queues h q) = q_first (queues g q)"
    and "q_last (queues h q) = q_last (queues g q)" and "q_count (queues h q) = q_count (queues g q)"
    and "\<And>x. x \<in> set xs \<Longrightarrow> waiting h x = waiting g x"
  shows "holds_line h q xs"
proof -
  have "seg (waiting h) None xs None = seg (waiting g) None xs None"
    by (rule seg_cong) (simp add: assms(5))
  moreover have "w_count (waiting h (xs ! i)) = w_count (waiting g (xs ! i))" if "i < length xs" for i
    using that assms(5) by simp
  ultimately show ?thesis using assms by (simp add: holds_line_def)
qed

subsection \<open>Renumbering\<close>

fun renumber :: "nat \<Rightarrow> nat list \<Rightarrow> (nat \<Rightarrow> queuewait) \<Rightarrow> nat \<Rightarrow> queuewait" where
  "renumber c [] w = w"
| "renumber c (x # xs) w = renumber (Suc c) xs (w(x := (w x)\<lparr>w_count := of_nat c\<rparr>))"

lemma renumber_other: "x \<notin> set xs \<Longrightarrow> renumber c xs w x = w x"
  by (induction xs arbitrary: c w) auto

lemma renumber_fields:
  "w_previous (renumber c xs w x) = w_previous (w x)"
  "w_next (renumber c xs w x) = w_next (w x)"
  "w_inuse (renumber c xs w x) = w_inuse (w x)"
  "w_wqueue (renumber c xs w x) = w_wqueue (w x)"
  "w_process (renumber c xs w x) = w_process (w x)"
  "w_mynum (renumber c xs w x) = w_mynum (w x)"
  "w_ip (renumber c xs w x) = w_ip (w x)"
  "w_host (renumber c xs w x) = w_host (w x)"
  by (induction xs arbitrary: c w) auto

lemma renumber_nth:
  "distinct xs \<Longrightarrow> i < length xs \<Longrightarrow> w_count (renumber c xs w (xs ! i)) = of_nat (c + i)"
proof (induction xs arbitrary: c w i)
  case (Cons x xs)
  show ?case
  proof (cases i)
    case 0
    with Cons.prems show ?thesis by (simp add: renumber_other)
  next
    case (Suc j)
    with Cons show ?thesis by simp
  qed
qed simp

lemma update_loop_line:
  assumes "seg (waiting g) p xs None" and "distinct xs" and "c + length xs \<le> MAXWAITING"
    and "\<forall>x \<in> set xs. w_inuse (waiting g x) \<and> w_process (waiting g x) \<noteq> 0"
  shows "update_loop c (hdo xs None) g = (g\<lparr>waiting := renumber c xs (waiting g)\<rparr>, c + length xs)"
  using assms
proof (induction xs arbitrary: p c g)
  case Nil
  show ?case by simp
next
  case (Cons x xs)
  let ?g = "upd_wait x (\<lambda>w. w\<lparr>w_count := of_nat c\<rparr>) g"
  have sg: "seg (waiting ?g) (Some x) xs None"
    using Cons.prems by (subst seg_cong [where w = "waiting g"]) auto
  have "update_loop (Suc c) (hdo xs None) ?g =
      (?g\<lparr>waiting := renumber (Suc c) xs (waiting ?g)\<rparr>, Suc c + length xs)"
    by (rule Cons.IH [OF sg]) (use Cons.prems in auto)
  with Cons.prems show ?case by (simp add: upd_wait_def)
qed

text \<open>
  \<^verbatim>\<open>queue_update\<close> on a line that is linked but whose numbers may be wrong.
\<close>

definition links_ok :: "game \<Rightarrow> nat \<Rightarrow> nat list \<Rightarrow> bool" where
  "links_ok g q xs \<longleftrightarrow>
     q_first (queues g q) = hdo xs None \<and> q_last (queues g q) = lasto None xs \<and>
     seg (waiting g) None xs None \<and> distinct xs \<and>
     (\<forall>x \<in> set xs. x < MAXWAITING \<and> w_inuse (waiting g x) \<and> w_wqueue (waiting g x) = Some q \<and>
        w_process (waiting g x) \<noteq> 0)"

lemma links_ok_length: "links_ok g q xs \<Longrightarrow> length xs \<le> MAXWAITING"
  using card_mono [of "{..<MAXWAITING}" "set xs"]
  by (auto simp: links_ok_def distinct_card)

lemma holds_line_links:
  "holds_line g q xs \<longleftrightarrow> links_ok g q xs \<and> q_count (queues g q) = of_nat (length xs) \<and>
     (\<forall>i < length xs. w_count (waiting g (xs ! i)) = of_nat i)"
  by (auto simp: holds_line_def links_ok_def)

definition renumbered :: "nat \<Rightarrow> nat list \<Rightarrow> game \<Rightarrow> game" where
  "renumbered q xs g =
     upd_queue q (\<lambda>r. r\<lparr>q_count := of_nat (length xs)\<rparr>) (g\<lparr>waiting := renumber 0 xs (waiting g)\<rparr>)"

lemma queue_update_line:
  assumes "links_ok g q xs" and "q < MAXQUEUE"
  shows "queue_update q g = (renumbered q xs g, 1)"
proof -
  have "update_loop 0 (hdo xs None) g = (g\<lparr>waiting := renumber 0 xs (waiting g)\<rparr>, length xs)"
    using update_loop_line [of g None xs 0] links_ok_length [OF assms(1)] assms(1)
    by (simp add: links_ok_def)
  then show ?thesis
    using assms by (simp add: queue_update_def links_ok_def renumbered_def)
qed

lemma renumbered_simps:
  "queues (renumbered q xs g) r =
     (if r = q then (queues g q)\<lparr>q_count := of_nat (length xs)\<rparr> else queues g r)"
  "waiting (renumbered q xs g) = renumber 0 xs (waiting g)"
  by (simp_all add: renumbered_def)

lemma holds_line_renumbered:
  assumes "links_ok g q xs" shows "holds_line (renumbered q xs g) q xs"
proof -
  have "seg (waiting (renumbered q xs g)) None xs None = seg (waiting g) None xs None"
    by (rule seg_cong) (simp add: renumbered_simps renumber_fields)
  with assms show ?thesis
    by (simp add: holds_line_def links_ok_def renumbered_simps renumber_fields renumber_nth)
qed

lemma holds_line_renumbered_other:
  assumes "holds_line g r ys" and "links_ok g q xs" and "r \<noteq> q"
  shows "holds_line (renumbered q xs g) r ys"
proof (rule holds_line_cong [OF assms(1)])
  show "q_first (queues (renumbered q xs g) r) = q_first (queues g r)"
    "q_last (queues (renumbered q xs g) r) = q_last (queues g r)"
    "q_count (queues (renumbered q xs g) r) = q_count (queues g r)"
    using assms(3) by (simp_all add: renumbered_simps)
  show "waiting (renumbered q xs g) x = waiting g x" if "x \<in> set ys" for x
    using that assms by (auto simp: renumbered_simps holds_line_def links_ok_def
      intro!: renumber_other)
qed

subsection \<open>Joining a line\<close>

definition joined :: "nat \<Rightarrow> nat \<Rightarrow> nat list \<Rightarrow> int \<Rightarrow> string \<Rightarrow> string \<Rightarrow> game \<Rightarrow> game" where
  "joined q i xs pid ip host g =
     g\<lparr>queues := (queues g)(q := (queues g q)\<lparr>q_first := hdo (xs @ [i]) None, q_last := Some i,
          q_count := of_nat (length xs) + 1\<rparr>),
       waiting := (\<lambda>x. if x = i
          then (waiting g i)\<lparr>w_inuse := True, w_previous := lasto (w_previous (waiting g i)) xs,
                 w_next := None, w_count := of_nat (length xs), w_process := pid,
                 w_wqueue := Some q, w_ip := ip, w_host := host\<rparr>
          else if xs \<noteq> [] \<and> x = last xs then (waiting g x)\<lparr>w_next := Some i\<rparr>
          else waiting g x)\<rparr>"

lemma queue_add_eq:
  assumes "holds_line g q xs" and "meets (q_flags (queues g q)) QU_OPEN"
    and "first_in 0 MAXWAITING (\<lambda>i. \<not> w_inuse (waiting g i)) = Some i"
  shows "queue_add q pid ip host g = (joined q i xs pid ip host g, Some i)"
proof -
  have "i \<notin> set xs" using assms(1) first_in_Some [OF assms(3)] by (auto simp: holds_line_def)
  then show ?thesis
    using assms
    by (cases xs rule: rev_cases)
      (auto simp: queue_add_def joined_def holds_line_def upd_wait_def upd_queue_def Let_def
        hdo_append fun_eq_iff split: list.splits)
qed

lemma joined_line:
  assumes "holds_line g q xs" and "i < MAXWAITING" and "\<not> w_inuse (waiting g i)"
    and "w_previous (waiting g i) = None" and "pid \<noteq> 0"
  shows "holds_line (joined q i xs pid ip host g) q (xs @ [i])"
proof -
  let ?h = "joined q i xs pid ip host g"
  have i: "i \<notin> set xs" using assms(1,3) by (auto simp: holds_line_def)
  have sg: "seg (waiting g) None xs None" and d: "distinct xs"
    using assms(1) by (simp_all add: holds_line_def)
  have "seg (waiting ?h) None xs (Some i)"
  proof (cases xs rule: rev_cases)
    case (snoc ys l)
    have "seg ((waiting g)(l := (waiting g l)\<lparr>w_next := Some i\<rparr>)) None (ys @ [l]) (Some i)"
      using seg_set_next sg d snoc by simp
    then show ?thesis
      unfolding snoc by (rule seg_cong [THEN iffD1, rotated]) (use i snoc in \<open>auto simp: joined_def\<close>)
  qed simp
  then have "seg (waiting ?h) None (xs @ [i]) None"
    using assms(4) by (simp add: seg_append joined_def)
  moreover have "w_count (waiting ?h ((xs @ [i]) ! k)) = of_nat k" if "k < Suc (length xs)" for k
    using that assms(1) i by (auto simp: joined_def holds_line_def nth_append less_Suc_eq)
  ultimately show ?thesis
    using assms i d by (auto simp: holds_line_def joined_def)
qed

lemma joined_other:
  assumes "holds_line g r ys" and "holds_line g q xs" and "r \<noteq> q" and "\<not> w_inuse (waiting g i)"
  shows "holds_line (joined q i xs pid ip host g) r ys"
proof (rule holds_line_cong [OF assms(1)])
  show "q_first (queues (joined q i xs pid ip host g) r) = q_first (queues g r)"
    "q_last (queues (joined q i xs pid ip host g) r) = q_last (queues g r)"
    "q_count (queues (joined q i xs pid ip host g) r) = q_count (queues g r)"
    using assms(3) by (simp_all add: joined_def)
  show "waiting (joined q i xs pid ip host g) x = waiting g x" if "x \<in> set ys" for x
    using that assms by (auto simp: joined_def holds_line_def)
qed

lemma queue_add_ok:
  fixes ip host :: string
  assumes ok: "waitq_ok g" and q: "q < MAXQUEUE" and pid: "pid \<noteq> 0"
    and op: "meets (q_flags (queues g q)) QU_OPEN"
    and i: "first_in 0 MAXWAITING (\<lambda>i. \<not> w_inuse (waiting g i)) = Some i"
  defines "h \<equiv> fst (queue_add q pid ip host g)"
  shows "snd (queue_add q pid ip host g) = Some i"
    and "waitq_ok h"
    and "r < MAXQUEUE \<Longrightarrow> line h r = (if r = q then line g q @ [i] else line g r)"
proof -
  have lines: "holds_line g r (line g r)" if "r < MAXQUEUE" for r
    using ok that by (simp add: waitq_ok_def)
  have eq: "queue_add q pid ip host g = (joined q i (line g q) pid ip host g, Some i)"
    using queue_add_eq [OF lines [OF q] op i] .
  then have h: "h = joined q i (line g q) pid ip host g" by (simp add: h_def)
  have i': "i < MAXWAITING" "\<not> w_inuse (waiting g i)" using first_in_Some [OF i] by simp_all
  have free: "w_previous (waiting g i) = None" using waitq_ok_rec [OF ok i'(1)] i'(2) by simp
  let ?L = "\<lambda>r. if r = q then line g q @ [i] else line g r"
  have new: "holds_line h r (?L r)" if "r < MAXQUEUE" for r
    using that joined_line [OF lines [OF q] i' free pid] joined_other [OF lines lines [OF q] _ i'(2)]
    by (simp add: h)
  have rec: "w_mynum (waiting h x) = x \<and>
      (if w_inuse (waiting h x)
       then (\<exists>r < MAXQUEUE. w_wqueue (waiting h x) = Some r \<and> x \<in> set (?L r))
       else w_previous (waiting h x) = None \<and> w_wqueue (waiting h x) = None)"
    if "x < MAXWAITING" for x
  proof (cases "x = i")
    case True
    have "w_mynum (waiting g i) = i" using waitq_ok_rec [OF ok i'(1)] by simp
    with True q show ?thesis by (auto simp: h joined_def)
  next
    case False
    have "w_mynum (waiting h x) = w_mynum (waiting g x) \<and> w_inuse (waiting h x) = w_inuse (waiting g x) \<and>
      w_wqueue (waiting h x) = w_wqueue (waiting g x) \<and>
      w_previous (waiting h x) = w_previous (waiting g x)"
      using False by (simp add: h joined_def)
    with waitq_ok_rec [OF ok that] show ?thesis by (auto split: if_splits)
  qed
  show "snd (queue_add q pid ip host g) = Some i" by (simp add: eq)
  show "waitq_ok h" using new rec by (rule waitq_okI)
  show "line h r = ?L r" if "r < MAXQUEUE" using waitq_okI(2) [OF new rec that] .
qed

subsection \<open>Leaving a line\<close>

definition unlinked :: "nat \<Rightarrow> nat list \<Rightarrow> nat \<Rightarrow> nat list \<Rightarrow> game \<Rightarrow> game" where
  "unlinked q ys x zs g =
     g\<lparr>queues := (queues g)(q := (queues g q)\<lparr>q_first := hdo (ys @ zs) None,
          q_last := lasto None (ys @ zs)\<rparr>),
       waiting := (\<lambda>y. if y = x
          then (waiting g x)\<lparr>w_previous := None, w_next := None, w_count := -1, w_wqueue := None,
                 w_process := 0, w_inuse := False\<rparr>
          else if ys \<noteq> [] \<and> y = last ys then (waiting g y)\<lparr>w_next := hdo zs None\<rparr>
          else if zs \<noteq> [] \<and> y = hd zs then (waiting g y)\<lparr>w_previous := lasto None ys\<rparr>
          else waiting g y)\<rparr>"

lemma queue_exit_eq:
  assumes "links_ok g q (ys @ x # zs)" and "q < MAXQUEUE"
  shows "queue_exit x g = (fst (queue_update q (unlinked q ys x zs g)), 1)"
proof -
  have sg: "seg (waiting g) None ys (Some x)" "w_previous (waiting g x) = lasto None ys"
    "w_next (waiting g x) = hdo zs None" "seg (waiting g) (Some x) zs None"
    and q: "w_wqueue (waiting g x) = Some q" "distinct (ys @ x # zs)"
    "q_first (queues g q) = hdo (ys @ x # zs) None" "q_last (queues g q) = lasto None (ys @ x # zs)"
    using assms(1) by (simp_all add: links_ok_def seg_append)
  have "unlinked q ys x zs g =
    (let p = lasto None ys; n = hdo zs None;
         g = (case p of None \<Rightarrow> upd_queue q (\<lambda>r. r\<lparr>q_first := n\<rparr>) g
              | Some p \<Rightarrow> upd_wait p (\<lambda>w. w\<lparr>w_next := n\<rparr>) g);
         g = (case n of None \<Rightarrow> upd_queue q (\<lambda>r. r\<lparr>q_last := p\<rparr>) g
              | Some n \<Rightarrow> upd_wait n (\<lambda>w. w\<lparr>w_previous := p\<rparr>) g)
     in upd_wait x (\<lambda>w. w\<lparr>w_previous := None, w_next := None, w_count := -1,
                      w_wqueue := None, w_process := 0, w_inuse := False\<rparr>) g)"
    using q by (cases ys rule: rev_cases; cases zs)
      (auto simp: unlinked_def upd_wait_def upd_queue_def Let_def hdo_append fun_eq_iff lasto_append)
  moreover have "lasto None ys \<noteq> Some x" "hdo zs None \<noteq> Some x"
    using q(2) by (auto simp: lasto_def hdo_def split: list.splits)
  ultimately show ?thesis
    using assms(2) sg(2,3) q(1)
    by (simp add: queue_exit_def Let_def split: option.splits)
qed

lemma unlinked_links:
  assumes "links_ok g q (ys @ x # zs)"
  shows "links_ok (unlinked q ys x zs g) q (ys @ zs)"
proof -
  let ?h = "unlinked q ys x zs g"
  have sg: "seg (waiting g) None ys (Some x)" "seg (waiting g) (Some x) zs None"
    and d: "distinct (ys @ x # zs)"
    using assms(1) by (simp_all add: links_ok_def seg_append)
  have "seg (waiting ?h) None ys (hdo zs None)"
  proof (cases ys rule: rev_cases)
    case (snoc as l)
    have "seg ((waiting g)(l := (waiting g l)\<lparr>w_next := hdo zs None\<rparr>)) None (as @ [l]) (hdo zs None)"
      using seg_set_next sg(1) d snoc by simp
    then show ?thesis
      unfolding snoc
      by (rule seg_cong [THEN iffD1, rotated]) (use d snoc in \<open>auto simp: unlinked_def neq_Nil_conv\<close>)
  qed simp
  moreover have "seg (waiting ?h) (lasto None ys) zs None"
  proof (cases zs)
    case (Cons b bs)
    have "seg ((waiting g)(b := (waiting g b)\<lparr>w_previous := lasto None ys\<rparr>)) (lasto None ys) (b # bs) None"
      using seg_set_previous sg(2) d Cons by simp
    then show ?thesis
      unfolding Cons
      by (rule seg_cong [THEN iffD1, rotated])
        (use d Cons in \<open>auto simp: unlinked_def dest!: last_in_set\<close>)
  qed simp
  ultimately have "seg (waiting ?h) None (ys @ zs) None" by (simp add: seg_append)
  then show ?thesis
    using assms d by (auto simp: links_ok_def unlinked_def)
qed

lemma unlinked_other:
  assumes "holds_line g r as" and "links_ok g q (ys @ x # zs)" and "r \<noteq> q"
  shows "holds_line (unlinked q ys x zs g) r as"
proof (rule holds_line_cong [OF assms(1)])
  show "q_first (queues (unlinked q ys x zs g) r) = q_first (queues g r)"
    "q_last (queues (unlinked q ys x zs g) r) = q_last (queues g r)"
    "q_count (queues (unlinked q ys x zs g) r) = q_count (queues g r)"
    using assms(3) by (simp_all add: unlinked_def)
  have "set as \<inter> set (ys @ x # zs) = {}"
    using assms by (auto simp: holds_line_def links_ok_def)
  then show "waiting (unlinked q ys x zs g) y = waiting g y" if "y \<in> set as" for y
    using that by (auto simp: unlinked_def dest: last_in_set hd_in_set)
qed

lemma queue_exit_ok:
  assumes ok: "waitq_ok g" and x: "x < MAXWAITING" and use: "w_inuse (waiting g x)"
  defines "h \<equiv> fst (queue_exit x g)"
  shows "snd (queue_exit x g) = 1" and "waitq_ok h"
    and "r < MAXQUEUE \<Longrightarrow> line h r = remove1 x (line g r)"
    and "\<not> w_inuse (waiting h x)"
    and "y \<noteq> x \<Longrightarrow> w_process (waiting h y) = w_process (waiting g y)"
    and "free_slots (queues h r) = free_slots (queues g r)"
    and "max_slots (queues h r) = max_slots (queues g r)"
proof -
  have lines: "holds_line g r (line g r)" if "r < MAXQUEUE" for r
    using ok that by (simp add: waitq_ok_def)
  obtain q where q: "q < MAXQUEUE" "w_wqueue (waiting g x) = Some q" "x \<in> set (line g q)"
    using waitq_ok_rec [OF ok x] use by auto
  then obtain ys zs where split: "line g q = ys @ x # zs" by (meson split_list)
  have lk: "links_ok g q (ys @ x # zs)" using lines [OF q(1)] split by (simp add: holds_line_links)
  then have d: "distinct (ys @ x # zs)" by (simp add: links_ok_def)
  have rem: "remove1 x (line g r) = (if r = q then ys @ zs else line g r)" if "r < MAXQUEUE" for r
  proof (cases "r = q")
    case True
    with split d show ?thesis by (simp add: remove1_append)
  next
    case False
    have "x \<notin> set (line g r)" using lines [OF that] q(2) False by (auto simp: holds_line_def)
    with False show ?thesis by (simp add: remove1_idem)
  qed
  let ?u = "unlinked q ys x zs g"
  have lku: "links_ok ?u q (ys @ zs)" using unlinked_links [OF lk] .
  have eq: "queue_exit x g = (renumbered q (ys @ zs) ?u, 1)"
    using queue_exit_eq [OF lk q(1)] queue_update_line [OF lku q(1)] by simp
  then have h: "h = renumbered q (ys @ zs) ?u" by (simp add: h_def)
  have new: "holds_line h r (remove1 x (line g r))" if "r < MAXQUEUE" for r
    using that holds_line_renumbered [OF lku] holds_line_renumbered_other [OF unlinked_other [OF lines lk] lku]
    by (simp add: h rem)
  have fields: "w_mynum (waiting h y) = w_mynum (waiting g y)"
    "y \<noteq> x \<Longrightarrow> w_inuse (waiting h y) = w_inuse (waiting g y)"
    "y \<noteq> x \<Longrightarrow> w_wqueue (waiting h y) = w_wqueue (waiting g y)"
    "y \<noteq> x \<Longrightarrow> \<not> w_inuse (waiting g y) \<Longrightarrow> w_previous (waiting h y) = w_previous (waiting g y)" for y
    using lk by (auto simp: h renumbered_simps renumber_fields unlinked_def links_ok_def
      dest: hd_in_set)
  have out: "\<not> w_inuse (waiting h x)" "w_previous (waiting h x) = None" "w_wqueue (waiting h x) = None"
    by (simp_all add: h renumbered_simps renumber_fields unlinked_def)
  have rec: "w_mynum (waiting h y) = y \<and>
      (if w_inuse (waiting h y)
       then (\<exists>r < MAXQUEUE. w_wqueue (waiting h y) = Some r \<and> y \<in> set (remove1 x (line g r)))
       else w_previous (waiting h y) = None \<and> w_wqueue (waiting h y) = None)"
    if "y < MAXWAITING" for y
  proof (cases "y = x")
    case True
    with waitq_ok_rec [OF ok x] out show ?thesis by (simp add: fields)
  next
    case False
    with waitq_ok_rec [OF ok that] show ?thesis
      by (auto simp: fields split: if_splits)
  qed
  show "snd (queue_exit x g) = 1" by (simp add: eq)
  show "waitq_ok h" using new rec by (rule waitq_okI)
  show "line h r = remove1 x (line g r)" if "r < MAXQUEUE" using waitq_okI(2) [OF new rec that] .
  show "\<not> w_inuse (waiting h x)" by (rule out)
  show "w_process (waiting h y) = w_process (waiting g y)" if "y \<noteq> x"
    using that by (simp add: h renumbered_simps renumber_fields unlinked_def)
  show "free_slots (queues h r) = free_slots (queues g r)"
    "max_slots (queues h r) = max_slots (queues g r)"
    by (simp_all add: h renumbered_simps unlinked_def)
qed

subsection \<open>Initialisation and purge\<close>

lemma trim_line:
  "holds_line (trim_free_slots q g) r xs = holds_line g r xs"
  by (simp add: trim_free_slots_def holds_line_def)

lemma trim_simps:
  "waiting (trim_free_slots q g) = waiting g"
  "line (trim_free_slots q g) r = line g r"
  by (simp_all add: trim_free_slots_def line_def)

lemma trim_ok: "waitq_ok (trim_free_slots q g) = waitq_ok g"
  by (simp add: waitq_ok_def trim_line trim_simps)

lemma open_queue_simps:
  "waiting (open_queue q f m t l h fl n g) = waiting g"
  "q_first (queues (open_queue q f m t l h fl n g) r) = q_first (queues g r)"
  "q_last (queues (open_queue q f m t l h fl n g) r) = q_last (queues g r)"
  "q_count (queues (open_queue q f m t l h fl n g) r) = q_count (queues g r)"
  by (simp_all add: open_queue_def queue_setname_def)

lemma open_queue_flags:
  "q_flags (queues (open_queue q f m t l h fl n g) r) = (if r = q then fl else q_flags (queues g r))"
  by (simp add: open_queue_def queue_setname_def)

lemma init_waiting_loop:
  "waiting (for_upto n init_waiting g) x =
     (if x < n then (waiting g x)\<lparr>w_mynum := x, w_inuse := False, w_previous := None, w_next := None,
        w_count := -1, w_wqueue := None, w_process := 0\<rparr> else waiting g x)"
  by (induction n) (auto simp: init_waiting_def)

lemma init_queue_loop:
  "waiting (for_upto n init_queue g) = waiting g"
  "q_first (queues (for_upto n init_queue g) r) = (if r < n then None else q_first (queues g r))"
  "q_last (queues (for_upto n init_queue g) r) = (if r < n then None else q_last (queues g r))"
  "q_count (queues (for_upto n init_queue g) r) = (if r < n then 0 else q_count (queues g r))"
  by (induction n) (auto simp: init_queue_def queue_setname_def)

lemma queues_init_simps:
  "waiting (queues_init g) = waiting (for_upto MAXWAITING init_waiting g)"
  "r < MAXQUEUE \<Longrightarrow> q_first (queues (queues_init g) r) = None"
  "r < MAXQUEUE \<Longrightarrow> q_last (queues (queues_init g) r) = None"
  "r < MAXQUEUE \<Longrightarrow> q_count (queues (queues_init g) r) = 0"
  by (simp_all add: queues_init_def setup_player_queues_def setup_observer_queues_def
      setup_god_queues_def Let_def open_queue_simps init_queue_loop)

lemma queues_init_ok:
  shows "waitq_ok (queues_init g)" and "r < MAXQUEUE \<Longrightarrow> line (queues_init g) r = []"
proof -
  have l: "holds_line (queues_init g) r []" if "r < MAXQUEUE" for r
    using that by (simp add: holds_line_def queues_init_simps)
  have w: "w_mynum (waiting (queues_init g) x) = x \<and>
      (if w_inuse (waiting (queues_init g) x)
       then (\<exists>q < MAXQUEUE. w_wqueue (waiting (queues_init g) x) = Some q \<and> x \<in> set [])
       else w_previous (waiting (queues_init g) x) = None \<and>
            w_wqueue (waiting (queues_init g) x) = None)" if "x < MAXWAITING" for x
    using that by (simp add: queues_init_simps init_waiting_loop)
  show "waitq_ok (queues_init g)" using l w by (rule waitq_okI)
  show "line (queues_init g) r = []" if "r < MAXQUEUE" using waitq_okI(2) [OF l w that] .
qed

definition alive :: "(int \<Rightarrow> kill_result) \<Rightarrow> game \<Rightarrow> nat \<Rightarrow> bool" where
  "alive kill g x \<longleftrightarrow> kill (w_process (waiting g x)) \<noteq> ESRCH"

lemma waitq_ok_line: "waitq_ok g \<Longrightarrow> r < MAXQUEUE \<Longrightarrow> holds_line g r (line g r)"
  by (simp add: waitq_ok_def)

lemma line_member:
  assumes "waitq_ok g" and "q < MAXQUEUE" and "line g q = ps @ x # xs"
  shows "x < MAXWAITING" "w_inuse (waiting g x)" "w_process (waiting g x) \<noteq> 0"
    "w_mynum (waiting g x) = x" "w_next (waiting g x) = hdo xs None" "distinct (ps @ x # xs)"
  using waitq_ok_line [OF assms(1,2)] waitq_ok_rec [OF assms(1), of x]
  by (simp_all add: assms(3) holds_line_def seg_append)

lemma lines_apart:
  assumes "waitq_ok g" and "q < MAXQUEUE" and "r < MAXQUEUE" and "y \<in> set (line g q)"
    and "q \<noteq> r"
  shows "y \<notin> set (line g r)"
  using lines_disjoint [OF waitq_ok_line waitq_ok_line] assms by blast

definition same_slots :: "game \<Rightarrow> game \<Rightarrow> bool" where
  "same_slots g h \<longleftrightarrow> (\<forall>r. free_slots (queues h r) = free_slots (queues g r) \<and>
     max_slots (queues h r) = max_slots (queues g r))"

lemma purge_loop_line:
  assumes "waitq_ok g" and "q < MAXQUEUE" and "line g q = ps @ xs" and "c + length xs \<le> MAXWAITING"
  shows "\<exists>h. purge_loop kill c (hdo xs None) g = (h, c + length xs, True) \<and> waitq_ok h \<and>
    (\<forall>r < MAXQUEUE. line h r = (if r = q then ps @ filter (alive kill g) xs else line g r)) \<and>
    (\<forall>y. y \<notin> set xs \<longrightarrow> w_process (waiting h y) = w_process (waiting g y)) \<and>
    same_slots g h"
  using assms
proof (induction xs arbitrary: c ps g)
  case Nil
  then show ?case by (simp add: same_slots_def)
next
  case (Cons x xs)
  note m = line_member [OF Cons.prems(1,2,3)]
  show ?case
  proof (cases "alive kill g x")
    case True
    have "line g q = (ps @ [x]) @ xs" using Cons.prems(3) by simp
    from Cons.IH [OF Cons.prems(1,2) this, of "Suc c"] obtain h where
      h: "purge_loop kill (Suc c) (hdo xs None) g = (h, Suc c + length xs, True)" "waitq_ok h"
        "\<forall>r < MAXQUEUE. line h r = (if r = q then (ps @ [x]) @ filter (alive kill g) xs else line g r)"
        "\<forall>y. y \<notin> set xs \<longrightarrow> w_process (waiting h y) = w_process (waiting g y)" "same_slots g h"
      using Cons.prems(4) by auto
    have "purge_loop kill c (hdo (x # xs) None) g = (h, c + length (x # xs), True)"
      using h(1) m True Cons.prems(4) by (simp add: alive_def)
    then show ?thesis using h True by (intro exI [of _ h]) auto
  next
    case False
    let ?g = "fst (queue_exit x g)"
    note e = queue_exit_ok [OF Cons.prems(1) m(1,2)]
    have line': "line ?g q = ps @ xs"
      using e(3) [OF Cons.prems(2)] m(6) Cons.prems(3) by (simp add: remove1_append)
    have other: "line ?g r = line g r" if "r < MAXQUEUE" "r \<noteq> q" for r
      using e(3) [OF that(1)] lines_apart [OF Cons.prems(1,2) that(1)] that Cons.prems(3)
      by (metis in_set_conv_decomp remove1_idem)
    from Cons.IH [OF e(2) Cons.prems(2) line', of "Suc c"] obtain h where
      h: "purge_loop kill (Suc c) (hdo xs None) ?g = (h, Suc c + length xs, True)" "waitq_ok h"
        "\<forall>r < MAXQUEUE. line h r = (if r = q then ps @ filter (alive kill ?g) xs else line ?g r)"
        "\<forall>y. y \<notin> set xs \<longrightarrow> w_process (waiting h y) = w_process (waiting ?g y)" "same_slots ?g h"
      using Cons.prems(4) by auto
    have same: "filter (alive kill ?g) xs = filter (alive kill g) xs"
    proof (intro filter_cong refl)
      fix z assume "z \<in> set xs"
      then have "z \<noteq> x" using m(6) by auto
      from e(5) [OF this] show "alive kill ?g z = alive kill g z" by (simp add: alive_def)
    qed
    have "purge_loop kill c (hdo (x # xs) None) g = (h, c + length (x # xs), True)"
      using h(1) m False Cons.prems(4) by (simp add: alive_def)
    moreover have "same_slots g ?g" using e(6,7) by (simp add: same_slots_def)
    ultimately show ?thesis
      using h False same other e(5) by (intro exI [of _ h]) (auto simp: same_slots_def)
  qed
qed

definition waiting_total :: "nat \<Rightarrow> game \<Rightarrow> nat" where
  "waiting_total n g = (\<Sum>r<n. length (line g r))"

lemma waiting_total_le:
  assumes "waitq_ok g" and "n \<le> MAXQUEUE"
  shows "waiting_total n g \<le> MAXWAITING"
proof -
  have d: "distinct (line g r)" "set (line g r) \<subseteq> {..<MAXWAITING}" if "r < n" for r
    using waitq_ok_line [OF assms(1), of r] that assms(2) by (auto simp: holds_line_def)
  have "waiting_total n g = (\<Sum>r<n. card (set (line g r)))"
    unfolding waiting_total_def by (rule sum.cong) (simp_all add: d distinct_card)
  also have "\<dots> = card (\<Union>r<n. set (line g r))"
  proof (rule card_UN_disjoint [symmetric])
    show "\<forall>r\<in>{..<n}. \<forall>j\<in>{..<n}. r \<noteq> j \<longrightarrow> set (line g r) \<inter> set (line g j) = {}"
      using lines_apart [OF assms(1)] assms(2) by (meson disjoint_iff lessThan_iff order_less_le_trans)
  qed simp_all
  also have "\<dots> \<le> card {..<MAXWAITING}" using d(2) by (intro card_mono) auto
  finally show ?thesis by simp
qed

lemma purge_all:
  assumes "waitq_ok g" and "n \<le> MAXQUEUE"
  shows "\<exists>h. for_upto n (purge_queue kill) (g, 0, True) = (h, waiting_total n g, True) \<and> waitq_ok h \<and>
    (\<forall>r < MAXQUEUE. line h r = (if r < n then filter (alive kill g) (line g r) else line g r)) \<and>
    (\<forall>y. (\<forall>r<n. y \<notin> set (line g r)) \<longrightarrow> w_process (waiting h y) = w_process (waiting g y)) \<and>
    (\<forall>r<n. free_slots (queues h r) \<le> max_slots (queues h r))"
  using assms(2)
proof (induction n)
  case 0
  then show ?case using assms(1) by (simp add: waiting_total_def)
next
  case (Suc n)
  then obtain h where h: "for_upto n (purge_queue kill) (g, 0, True) = (h, waiting_total n g, True)"
      "waitq_ok h"
      "\<forall>r < MAXQUEUE. line h r = (if r < n then filter (alive kill g) (line g r) else line g r)"
      "\<forall>y. (\<forall>r<n. y \<notin> set (line g r)) \<longrightarrow> w_process (waiting h y) = w_process (waiting g y)"
      "\<forall>r<n. free_slots (queues h r) \<le> max_slots (queues h r)"
    by auto
  have n: "n < MAXQUEUE" using Suc.prems by simp
  have ln: "line h n = [] @ line g n" using h(3) n by simp
  have tot: "waiting_total n g + length (line g n) = waiting_total (Suc n) g"
    by (simp add: waiting_total_def)
  have first: "q_first (queues h n) = hdo (line g n) None"
    using waitq_ok_line [OF h(2) n] ln by (simp add: holds_line_def)
  obtain k where k: "purge_loop kill (waiting_total n g) (hdo (line g n) None) h
        = (k, waiting_total (Suc n) g, True)" "waitq_ok k"
      "\<forall>r < MAXQUEUE. line k r = (if r = n then [] @ filter (alive kill h) (line g n) else line h r)"
      "\<forall>y. y \<notin> set (line g n) \<longrightarrow> w_process (waiting k y) = w_process (waiting h y)"
      "same_slots h k"
    using purge_loop_line [OF h(2) n ln, of "waiting_total n g" kill]
      waiting_total_le [OF assms(1) Suc.prems] tot by auto
  have "filter (alive kill h) (line g n) = filter (alive kill g) (line g n)"
    using h(4) lines_apart [OF assms(1) n] n by (intro filter_cong) (auto simp: alive_def)
  moreover have "for_upto (Suc n) (purge_queue kill) (g, 0, True) =
      (trim_free_slots n k, waiting_total (Suc n) g, True)"
    using h(1) k(1) first by (simp add: purge_queue_def [of kill n])
  moreover have "\<forall>r<Suc n. free_slots (queues (trim_free_slots n k) r) \<le>
      max_slots (queues (trim_free_slots n k) r)"
    using h(5) k(5) by (auto simp: trim_free_slots_def same_slots_def less_Suc_eq)
  ultimately show ?case
    using h(3,4) k(2,3,4) n
    by (intro exI [of _ "trim_free_slots n k"]) (auto simp: trim_simps trim_ok less_Suc_eq)
qed

subsection \<open>The contract of a line of people\<close>

text \<open>
  What the server promises to those who wait: joining puts a person behind everybody in the
  line, leaving takes out exactly one person, and nothing else moves.  \<open>person\<close> says which
  callers may join, \<open>accepts\<close> whether a queue takes somebody now.
\<close>

locale waiting_line =
  fixes good :: "'s \<Rightarrow> bool"
    and is_queue :: "nat \<Rightarrow> bool"
    and view :: "'s \<Rightarrow> nat \<Rightarrow> nat list"
    and person :: "'p \<Rightarrow> bool"
    and accepts :: "'s \<Rightarrow> nat \<Rightarrow> bool"
    and join :: "'p \<Rightarrow> nat \<Rightarrow> 's \<Rightarrow> 's"
    and leave :: "nat \<Rightarrow> 's \<Rightarrow> 's"
  assumes distinct_view: "good s \<Longrightarrow> is_queue q \<Longrightarrow> distinct (view s q)"
    and join_good: "good s \<Longrightarrow> person p \<Longrightarrow> is_queue q \<Longrightarrow> accepts s q \<Longrightarrow> good (join p q s)"
    and view_join: "good s \<Longrightarrow> person p \<Longrightarrow> is_queue q \<Longrightarrow> accepts s q \<Longrightarrow> is_queue r \<Longrightarrow>
      \<exists>i. i \<notin> set (view s q) \<and> view (join p q s) r = (if r = q then view s q @ [i] else view s r)"
    and leave_good: "good s \<Longrightarrow> is_queue q \<Longrightarrow> x \<in> set (view s q) \<Longrightarrow> good (leave x s)"
    and view_leave: "good s \<Longrightarrow> is_queue q \<Longrightarrow> x \<in> set (view s q) \<Longrightarrow> is_queue r \<Longrightarrow>
      view (leave x s) r = remove1 x (view s r)"
begin

definition ahead :: "'s \<Rightarrow> nat \<Rightarrow> nat \<Rightarrow> nat list" where
  "ahead s q x = takeWhile (\<lambda>y. y \<noteq> x) (view s q)"

lemma ahead_join:
  assumes "good s" "person p" "is_queue q" "accepts s q" "is_queue r" "x \<in> set (view s r)"
  shows "ahead (join p q s) r x = ahead s r x"
  using view_join [OF assms(1-5)] assms(6) by (auto simp: ahead_def takeWhile_append1)

lemma takeWhile_remove1:
  assumes "y \<noteq> x" and "distinct xs" and "x \<in> set xs"
  shows "takeWhile (\<lambda>z. z \<noteq> x) (remove1 y xs) = remove1 y (takeWhile (\<lambda>z. z \<noteq> x) xs)"
  using assms
proof (induction xs)
  case (Cons z zs)
  then show ?case by (cases "z = x") (auto simp: remove1_idem)
qed simp

lemma ahead_leave:
  assumes "good s" "is_queue q" "y \<in> set (view s q)" "is_queue r" "x \<in> set (view s r)" "y \<noteq> x"
  shows "ahead (leave y s) r x = remove1 y (ahead s r x)"
  using view_leave [OF assms(1-4)] takeWhile_remove1 [OF assms(6)] distinct_view [OF assms(1,4)]
    assms(5) by (simp add: ahead_def)

text \<open>The lives of a line: what can happen to it from one moment to the next.\<close>

inductive step :: "'s \<Rightarrow> 's \<Rightarrow> bool" where
  joins: "person p \<Longrightarrow> is_queue q \<Longrightarrow> accepts s q \<Longrightarrow> step s (join p q s)"
| leaves: "is_queue q \<Longrightarrow> x \<in> set (view s q) \<Longrightarrow> step s (leave x s)"

lemma step_good: "step s t \<Longrightarrow> good s \<Longrightarrow> good t"
  by (induction rule: step.induct) (auto intro: join_good leave_good)

lemma steps_good: "step\<^sup>*\<^sup>* s t \<Longrightarrow> good s \<Longrightarrow> good t"
  by (induction rule: rtranclp_induct) (auto intro: step_good)

text \<open>Nobody overtakes: after a step the people ahead are people who were ahead before.\<close>

lemma step_no_overtaking:
  assumes "step s t" and "good s" and "is_queue r" and "x \<in> set (view s r)"
    and "x \<in> set (view t r)"
  shows "set (ahead t r x) \<subseteq> set (ahead s r x) \<and> length (ahead t r x) \<le> length (ahead s r x)"
  using assms(1)
proof cases
  case (joins p q)
  then show ?thesis using ahead_join assms by simp
next
  case (leaves q y)
  show ?thesis
  proof (cases "y = x")
    case True
    have "x \<notin> set (view t r)"
      using leaves view_leave [OF assms(2) leaves(2,3) assms(3)] distinct_view [OF assms(2,3)] True
      by simp
    with assms(5) show ?thesis by simp
  next
    case False
    then show ?thesis
      using leaves ahead_leave [OF assms(2) leaves(2,3) assms(3,4)]
      by (simp add: set_remove1_subset length_remove1)
  qed
qed

end

text \<open>
  The model: a caller is its process number and address texts; a queue accepts while it is open
  and a record is free.
\<close>

definition has_free_record :: "game \<Rightarrow> bool" where
  "has_free_record g \<longleftrightarrow> (\<exists>i < MAXWAITING. \<not> w_inuse (waiting g i))"

definition queue_accepts :: "game \<Rightarrow> nat \<Rightarrow> bool" where
  "queue_accepts g q \<longleftrightarrow> meets (q_flags (queues g q)) QU_OPEN \<and> has_free_record g"

definition wq_join :: "int \<times> string \<times> string \<Rightarrow> nat \<Rightarrow> game \<Rightarrow> game" where
  "wq_join p q g = fst (queue_add q (fst p) (fst (snd p)) (snd (snd p)) g)"

definition wq_leave :: "nat \<Rightarrow> game \<Rightarrow> game" where
  "wq_leave x g = fst (queue_exit x g)"

lemma has_free_record_first:
  assumes "has_free_record g"
  obtains i where "first_in 0 MAXWAITING (\<lambda>i. \<not> w_inuse (waiting g i)) = Some i"
    "i < MAXWAITING" "\<not> w_inuse (waiting g i)"
proof (cases "first_in 0 MAXWAITING (\<lambda>i. \<not> w_inuse (waiting g i))")
  case None
  with assms show ?thesis by (auto simp: has_free_record_def first_in_None)
next
  case (Some i)
  then show ?thesis using first_in_Some [OF Some] that by blast
qed

lemma line_inuse: "waitq_ok g \<Longrightarrow> q < MAXQUEUE \<Longrightarrow> x \<in> set (line g q) \<Longrightarrow>
    x < MAXWAITING \<and> w_inuse (waiting g x)"
  using waitq_ok_line by (auto simp: holds_line_def)

lemma wq_join_ok:
  assumes "waitq_ok g" and "fst p \<noteq> 0" and q: "q < MAXQUEUE" and "queue_accepts g q"
  shows "waitq_ok (wq_join p q g)"
    and "\<exists>i. i \<notin> set (line g q) \<and> (\<forall>r < MAXQUEUE.
      line (wq_join p q g) r = (if r = q then line g q @ [i] else line g r))"
proof -
  have op: "meets (q_flags (queues g q)) QU_OPEN" "has_free_record g"
    using assms(4) by (simp_all add: queue_accepts_def)
  obtain i where i: "first_in 0 MAXWAITING (\<lambda>i. \<not> w_inuse (waiting g i)) = Some i"
    "\<not> w_inuse (waiting g i)" using has_free_record_first [OF op(2)] by metis
  note a = queue_add_ok [OF assms(1) q assms(2) op(1) i(1)]
  show "waitq_ok (wq_join p q g)" using a(2) by (simp add: wq_join_def)
  show "\<exists>i. i \<notin> set (line g q) \<and> (\<forall>r < MAXQUEUE.
      line (wq_join p q g) r = (if r = q then line g q @ [i] else line g r))"
    using a(3) i(2) line_inuse [OF assms(1) q] by (intro exI [of _ i]) (auto simp: wq_join_def)
qed

lemma wq_leave_ok:
  assumes "waitq_ok g" and "q < MAXQUEUE" and "x \<in> set (line g q)"
  shows "waitq_ok (wq_leave x g)"
    and "r < MAXQUEUE \<Longrightarrow> line (wq_leave x g) r = remove1 x (line g r)"
  using queue_exit_ok [OF assms(1)] line_inuse [OF assms] by (simp_all add: wq_leave_def)

interpretation wq: waiting_line waitq_ok "\<lambda>q. q < MAXQUEUE" line "\<lambda>p. fst p \<noteq> 0"
  queue_accepts wq_join wq_leave
proof
  show "distinct (line g q)" if "waitq_ok g" "q < MAXQUEUE" for g q
    using waitq_ok_line that by (simp add: holds_line_def)
  show "\<exists>i. i \<notin> set (line g q) \<and> line (wq_join p q g) r = (if r = q then line g q @ [i] else line g r)"
    if "waitq_ok g" "fst p \<noteq> 0" "q < MAXQUEUE" "queue_accepts g q" "r < MAXQUEUE" for g p q r
    using wq_join_ok(2) [OF that(1-4)] that(5) by blast
qed (fact wq_join_ok(1) wq_leave_ok)+

subsection \<open>Properties\<close>

text \<open>
  C36: joining a queue that is open, while a record is free, puts the caller behind
  everybody in that queue, tells it how many are ahead, leaves the other queues alone and
  keeps the linked structure; otherwise nothing changes and no record is handed out.
\<close>

theorem queue_add_appends:
  assumes "waitq_ok g" and "q < MAXQUEUE" and "pid \<noteq> 0"
  shows "case queue_add q pid ip host g of
      (h, Some i) \<Rightarrow> waitq_ok h \<and> queue_accepts g q \<and> i \<notin> set (line g q) \<and> i < MAXWAITING \<and>
        w_count (waiting h i) = of_nat (length (line g q)) \<and> w_process (waiting h i) = pid \<and>
        (\<forall>r < MAXQUEUE. line h r = (if r = q then line g q @ [i] else line g r))
    | (h, None) \<Rightarrow> h = g \<and> \<not> queue_accepts g q"
proof (cases "queue_accepts g q")
  case True
  then have op: "meets (q_flags (queues g q)) QU_OPEN" "has_free_record g"
    by (simp_all add: queue_accepts_def)
  obtain i where i: "first_in 0 MAXWAITING (\<lambda>i. \<not> w_inuse (waiting g i)) = Some i"
    "i < MAXWAITING" "\<not> w_inuse (waiting g i)" using has_free_record_first [OF op(2)] by metis
  note a = queue_add_ok [OF assms(1,2,3) op(1) i(1), where ip = ip and host = host]
  have "queue_add q pid ip host g = (joined q i (line g q) pid ip host g, Some i)"
    using queue_add_eq [OF waitq_ok_line [OF assms(1,2)] op(1) i(1)] .
  then show ?thesis
    using a True i line_inuse [OF assms(1,2)] by (auto simp: joined_def)
next
  case False
  then show ?thesis
    by (auto simp: queue_add_def queue_accepts_def has_free_record_def first_in_None
        split: option.splits dest: first_in_Some)
qed

text \<open>
  Leaving takes exactly the caller out of its queue, keeps the order of the others and
  the linked structure, and afterwards every record holds its new position in its queue.
\<close>

theorem queue_exit_removes:
  assumes "waitq_ok g" and "x < MAXWAITING" and "w_inuse (waiting g x)"
  shows "snd (queue_exit x g) = 1 \<and> waitq_ok (fst (queue_exit x g)) \<and>
    \<not> w_inuse (waiting (fst (queue_exit x g)) x) \<and>
    (\<forall>r < MAXQUEUE. line (fst (queue_exit x g)) r = remove1 x (line g r) \<and>
       (\<forall>i < length (remove1 x (line g r)).
          w_count (waiting (fst (queue_exit x g)) (remove1 x (line g r) ! i)) = of_nat i))"
proof -
  note e = queue_exit_ok [OF assms]
  have "\<forall>i < length (remove1 x (line g r)).
      w_count (waiting (fst (queue_exit x g)) (remove1 x (line g r) ! i)) = of_nat i"
    if "r < MAXQUEUE" for r
    using waitq_ok_line [OF e(2) that] e(3) [OF that] by (simp add: holds_line_def)
  with e show ?thesis by simp
qed

text \<open>
  C37: the purge takes out exactly the waiters whose process is gone, in every queue, keeps
  the order of the others, leaves no queue with more free slots than its maximum, and never
  runs into its redundant limit.
\<close>

theorem queues_purge_removes_dead:
  assumes "waitq_ok g"
  shows "snd (queues_purge kill g) = 1 \<and> waitq_ok (fst (queues_purge kill g)) \<and>
    (\<forall>r < MAXQUEUE. line (fst (queues_purge kill g)) r = filter (alive kill g) (line g r) \<and>
       free_slots (queues (fst (queues_purge kill g)) r) \<le>
       max_slots (queues (fst (queues_purge kill g)) r))"
  using purge_all [OF assms, of MAXQUEUE kill] by (auto simp: queues_purge_def)

text \<open>
  C16: from the initial queues, through any sequence of people joining and leaving, the
  linked structure stays intact, and whoever still waits is overtaken by nobody: after each
  further step the people ahead in the line are people who were ahead before.
\<close>

theorem waiting_is_fair:
  assumes "wq.step\<^sup>*\<^sup>* (queues_init g0) g" and "wq.step g h" and "r < MAXQUEUE"
    and "x \<in> set (line g r)" and "x \<in> set (line h r)"
  shows "waitq_ok g \<and> set (wq.ahead h r x) \<subseteq> set (wq.ahead g r x) \<and>
    length (wq.ahead h r x) \<le> length (wq.ahead g r x)"
  using wq.steps_good [OF assms(1) queues_init_ok(1)] wq.step_no_overtaking [OF assms(2) _ assms(3-5)]
  by blast

subsection \<open>An example\<close>

text \<open>Two processes, 5 and then 7, join the pickup queue of a fresh server.\<close>

definition ex_start :: "game" where
  "ex_start = queues_init blank_game"

definition ex_one :: "game" where
  "ex_one = fst (queue_add QU_PICKUP 5 [] [] ex_start)"

definition ex_two :: "game" where
  "ex_two = fst (queue_add QU_PICKUP 7 [] [] ex_one)"

lemma ex_start_facts:
  "waitq_ok ex_start" "line ex_start QU_PICKUP = []"
  "meets (q_flags (queues ex_start QU_PICKUP)) QU_OPEN" "\<not> w_inuse (waiting ex_start i)"
proof -
  show "waitq_ok ex_start" "line ex_start QU_PICKUP = []"
    using queues_init_ok(1) queues_init_ok(2) [of QU_PICKUP] by (simp_all add: ex_start_def)
  show "meets (q_flags (queues ex_start QU_PICKUP)) QU_OPEN"
    by (simp add: ex_start_def queues_init_def setup_player_queues_def setup_observer_queues_def
        setup_god_queues_def open_queue_flags Let_def meets_def)
  show "\<not> w_inuse (waiting ex_start i)"
    by (simp add: ex_start_def queues_init_simps init_waiting_loop blank_game_def blank_queuewait_def)
qed

lemma first_in_hit: "lo < hi \<Longrightarrow> P lo \<Longrightarrow> first_in lo hi P = Some lo"
  by (simp add: first_in_def upt_rec [of lo hi])

lemma first_in_miss: "lo < hi \<Longrightarrow> \<not> P lo \<Longrightarrow> first_in lo hi P = first_in (Suc lo) hi P"
  by (simp add: first_in_def upt_rec [of lo hi])

lemma ex_one_facts:
  "ex_one = joined QU_PICKUP 0 [] 5 [] [] ex_start" "waitq_ok ex_one" "line ex_one QU_PICKUP = [0]"
proof -
  have i: "first_in 0 MAXWAITING (\<lambda>i. \<not> w_inuse (waiting ex_start i)) = Some 0"
    by (rule first_in_hit) (simp_all add: ex_start_facts)
  show "ex_one = joined QU_PICKUP 0 [] 5 [] [] ex_start"
    using queue_add_eq [OF waitq_ok_line [OF ex_start_facts(1)] ex_start_facts(3) i]
    by (simp add: ex_one_def ex_start_facts(2))
  note a = queue_add_ok [OF ex_start_facts(1) _ _ ex_start_facts(3) i, where pid = 5 and ip = "[]" and host = "[]"]
  show "waitq_ok ex_one" using a(2) by (simp add: ex_one_def)
  show "line ex_one QU_PICKUP = [0]" using a(3) [of QU_PICKUP] by (simp add: ex_one_def ex_start_facts(2))
qed

lemma ex_two_facts:
  "waitq_ok ex_two" "line ex_two QU_PICKUP = [0, 1]" "w_inuse (waiting ex_two 0)"
  "w_process (waiting ex_two 0) = 5" "w_process (waiting ex_two 1) = 7"
  "queue_accepts ex_one QU_PICKUP" "wq.step ex_one ex_two" "wq.step\<^sup>*\<^sup>* ex_start ex_one"
proof -
  have op: "meets (q_flags (queues ex_one QU_PICKUP)) QU_OPEN"
    using ex_start_facts(3) by (simp add: ex_one_facts(1) joined_def)
  have i: "first_in 0 MAXWAITING (\<lambda>i. \<not> w_inuse (waiting ex_one i)) = Some 1"
    by (subst first_in_miss)
      (simp_all add: ex_one_facts(1) joined_def first_in_hit ex_start_facts)
  have eq: "ex_two = joined QU_PICKUP 1 [0] 7 [] [] ex_one"
    using queue_add_eq [OF waitq_ok_line [OF ex_one_facts(2)] op i]
    by (simp add: ex_two_def ex_one_facts(3))
  note a = queue_add_ok [OF ex_one_facts(2) _ _ op i, where pid = 7 and ip = "[]" and host = "[]"]
  show "waitq_ok ex_two" using a(2) by (simp add: ex_two_def)
  show "line ex_two QU_PICKUP = [0, 1]"
    using a(3) [of QU_PICKUP] by (simp add: ex_two_def ex_one_facts(3))
  show "w_inuse (waiting ex_two 0)" "w_process (waiting ex_two 0) = 5" "w_process (waiting ex_two 1) = 7"
    by (simp_all add: eq ex_one_facts(1) joined_def)
  show acc: "queue_accepts ex_one QU_PICKUP"
    using op first_in_Some [OF i] unfolding queue_accepts_def has_free_record_def by blast
  show "wq.step ex_one ex_two"
    using wq.step.joins [of "(7, [], [])" QU_PICKUP ex_one] acc
    by (simp add: wq_join_def ex_two_def)
  have "queue_accepts ex_start QU_PICKUP"
    using ex_start_facts(3,4) by (auto simp: queue_accepts_def has_free_record_def intro: exI [of _ 0])
  then have "wq.step ex_start ex_one"
    using wq.step.joins [of "(5, [], [])" QU_PICKUP ex_start] by (simp add: wq_join_def ex_one_def)
  then show "wq.step\<^sup>*\<^sup>* ex_start ex_one" by simp
qed

theorem queue_add_appends_witness:
  "line (fst (queue_add QU_PICKUP 7 [] [] ex_one)) QU_PICKUP = [0, 1] \<and>
   w_count (waiting (fst (queue_add QU_PICKUP 7 [] [] ex_one)) 1) = 1"
proof -
  have "line (fst (queue_add QU_PICKUP 7 [] [] ex_one)) QU_PICKUP = [0, 1]"
    using ex_two_facts(2) by (simp add: ex_two_def)
  then show ?thesis
    using queue_add_appends [OF ex_one_facts(2), of QU_PICKUP 7 "[]" "[]"] ex_two_facts(6) ex_one_facts(3)
    by (cases "queue_add QU_PICKUP 7 [] [] ex_one") (auto split: option.splits)
qed

theorem queue_exit_removes_witness:
  "line (fst (queue_exit 0 ex_two)) QU_PICKUP = [1] \<and>
   w_count (waiting (fst (queue_exit 0 ex_two)) 1) = 0"
proof -
  have "line (fst (queue_exit 0 ex_two)) 0 = [1] \<and>
      (\<forall>i < length [1::nat]. w_count (waiting (fst (queue_exit 0 ex_two)) ([1] ! i)) = of_nat i)"
    using queue_exit_removes [OF ex_two_facts(1) _ ex_two_facts(3)] ex_two_facts(2) by force
  then show ?thesis by simp
qed

theorem queues_purge_removes_dead_witness:
  "line (fst (queues_purge (\<lambda>pid. if pid = 5 then ESRCH else KILL_OK) ex_two)) QU_PICKUP = [1]"
  using queues_purge_removes_dead [OF ex_two_facts(1), of "\<lambda>pid. if pid = 5 then ESRCH else KILL_OK"]
    ex_two_facts(2,4,5) by (simp add: alive_def)

theorem waiting_is_fair_witness:
  "waitq_ok ex_one \<and> set (wq.ahead ex_two QU_PICKUP 0) \<subseteq> set (wq.ahead ex_one QU_PICKUP 0)"
  using waiting_is_fair [of blank_game ex_one ex_two QU_PICKUP 0]
    ex_two_facts(2,7,8) ex_one_facts(3) by (simp add: ex_start_def)

end
