(* ===== verification/Slots.thy ===== *)
theory Slots
  imports Util Ltd Waitq
begin

text \<open>
  The slots of the players (\<^verbatim>\<open>ntserv/slotmaint.c\<close>) and the way into one
  (\<^verbatim>\<open>ntserv/findslot.c\<close>).  A queue owns a range of slots and counts the free ones; picking a
  slot, freeing it and waiting for one are modelled, and the contention of several processes
  for the same slots is a step relation.
\<close>

subsection \<open>Setting up and freeing a slot\<close>

text \<open>
  \<^verbatim>\<open>memset(voting, 0, sizeof(time_t) * PV_TOTAL)\<close>: the macro has no parentheses, so it clears
  \<open>8 * 32 * 3 + 8\<close> bytes, which is 97 of the 104 votes.
\<close>

abbreviation (input) PV_EXTRA :: "nat" where "PV_EXTRA \<equiv> 8"

definition clear_votes :: "player \<Rightarrow> player" where
  "clear_votes p =
     p\<lparr>voting := (\<lambda>k. if k < (8 * MAXPLAYER * 3 + PV_EXTRA) div 8 then 0 else voting p k)\<rparr>"

definition count_free :: "nat \<Rightarrow> int \<Rightarrow> game \<Rightarrow> game" where
  "count_free q n = upd_queue q (\<lambda>r. r\<lparr>free_slots := free_slots r + n\<rparr>)"

definition wipe_slot :: "player \<Rightarrow> player" where
  "wipe_slot p =
     (clear_votes (ltd_reset (p\<lparr>p_status := PFREE, p_flags := 0, p_ghostbuster := 0\<rparr>)))\<lparr>p_process := 0\<rparr>"

definition freeslot :: "nat option \<Rightarrow> game \<Rightarrow> game \<times> int" where
  "freeslot who g =
     (case who of
        None \<Rightarrow> (g, -1)
      | Some i \<Rightarrow>
          let already = (p_status (players g i) = PFREE); q = w_queue (players g i);
              g = (if already then count_free q (-1) g else g);
              g = count_free q 1 (upd_player i wipe_slot g)
          in (g, if already then -2 else 1))"

definition verboten :: "nat \<Rightarrow> nat \<Rightarrow> game \<Rightarrow> bool" where
  "verboten q i g \<longleftrightarrow> i = 29 \<and> \<not> meets (q_flags (queues g q)) QU_TOK"

abbreviation (input) ST_INITIAL :: "int" where "ST_INITIAL \<equiv> 175"

definition fresh_slot :: "nat \<Rightarrow> nat \<Rightarrow> player \<Rightarrow> player" where
  "fresh_slot q i p =
     (let p = p\<lparr>p_no := i, p_team := NOBODY, p_ghostbuster := 0, p_flags := 0, w_queue := q, p_pos := -1,
                p_stats := blank_stats\<rparr>;
          p = ltd_reset p;
          p = p\<lparr>p_stats := (p_stats p)\<lparr>st_keymap := map (\<lambda>j. char_of (j + 32 :: nat)) [0..<95],
                st_flags := ST_INITIAL\<rparr>, p_process := 0\<rparr>
      in clear_votes p)"

definition claim_slot :: "nat \<Rightarrow> game \<Rightarrow> game" where
  "claim_slot i = upd_player i (\<lambda>p. p\<lparr>p_status := POUTFIT\<rparr>)"

definition setup_slot :: "nat \<Rightarrow> nat \<Rightarrow> game \<Rightarrow> game" where
  "setup_slot q i g =
     (let g = upd_player i (fresh_slot q i) g;
          g = (if meets (q_flags (queues g q)) QU_OBSERVER
               then upd_proc i (\<lambda>m. m\<lparr>Observer := True\<rparr>) g else g)
      in count_free q (-1) g)"

text \<open>
  One call of the action is atomic here; the two tests of the status around the lock are in the
  step relation below.
\<close>

definition pickslot_action :: "nat \<Rightarrow> nat \<Rightarrow> game \<Rightarrow> game \<times> bool" where
  "pickslot_action q i g =
     (if p_status (players g i) \<noteq> PFREE then (g, False)
      else if verboten q i g then (g, False)
      else (setup_slot q i (claim_slot i g), True))"

text \<open>The slots a queue tries, in order; slots after the preferred one are tried twice.\<close>

definition scan_order :: "pqueue \<Rightarrow> nat list" where
  "scan_order r =
     (if q_prefer r \<noteq> 0 then [q_prefer r..<high_slot r] else []) @ [low_slot r..<high_slot r]"

fun scan_slots :: "nat \<Rightarrow> nat list \<Rightarrow> game \<Rightarrow> game \<times> nat option" where
  "scan_slots q [] g = (g, None)"
| "scan_slots q (i # is) g =
     (case pickslot_action q i g of (g, got) \<Rightarrow> if got then (g, Some i) else scan_slots q is g)"

definition scanqueue :: "nat \<Rightarrow> game \<Rightarrow> game \<times> nat option" where
  "scanqueue q g = scan_slots q (scan_order (queues g q)) g"

definition set_sem :: "nat \<Rightarrow> int \<Rightarrow> game \<Rightarrow> game" where
  "set_sem q n = upd_queue q (\<lambda>r. r\<lparr>enter_sem := n\<rparr>)"

datatype picked = Slot nat | No_slot | Queue_closed

definition pickslot :: "nat \<Rightarrow> game \<Rightarrow> game \<times> picked" where
  "pickslot q g =
     (if \<not> meets (q_flags (queues g q)) QU_OPEN then (g, Queue_closed)
      else
        let sem = enter_sem (queues g q); g = set_sem q (sem - 1) g
        in if sem < 1 then (g, No_slot)
           else if free_slots (queues g q) \<le> 0 then (set_sem q 1 g, No_slot)
           else case scanqueue q g of
                  (g, r) \<Rightarrow> (set_sem q 1 g, case r of Some i \<Rightarrow> Slot i | None \<Rightarrow> No_slot))"

definition slots_free :: "nat \<Rightarrow> game \<Rightarrow> nat" where
  "slots_free q g =
     length (filter (\<lambda>i. p_status (players g i) = PFREE) [low_slot (queues g q)..<high_slot (queues g q)])"

definition slots_playing :: "nat \<Rightarrow> bool \<Rightarrow> game \<Rightarrow> nat" where
  "slots_playing q showempty g =
     length (filter (\<lambda>i. p_status (players g i) \<noteq> PFREE \<and> \<not> is_robot i g \<and>
         w_queue (players g i) = q \<and> (p_team (players g i) \<noteq> ALLTEAM \<or> showempty))
       [low_slot (queues g q)..<high_slot (queues g q)])"

subsection \<open>Waiting for a slot\<close>

text \<open>Players with the address \<open>ip\<close>, not counting those whose duplication is allowed.\<close>

definition playing_count_by_ip :: "nat \<Rightarrow> string \<Rightarrow> game \<Rightarrow> nat" where
  "playing_count_by_ip q ip g =
     count_upto MAXPLAYER (\<lambda>i. let p = players g i in
       p_status p \<noteq> PFREE \<and> \<not> is_robot i g \<and> \<not> (q = QU_PICKUP \<and> p_status p = POBSERV) \<and>
       \<not> p_ip_duplicates p \<and> p_ip p = ip)"

fun waiting_loop :: "nat \<Rightarrow> nat option \<Rightarrow> string \<Rightarrow> game \<Rightarrow> nat" where
  "waiting_loop 0 k ip g = 0"
| "waiting_loop (Suc n) None ip g = 0"
| "waiting_loop (Suc n) (Some k) ip g =
     (if w_ip (waiting g k) = ip then 1 else 0) + waiting_loop n (w_next (waiting g k)) ip g"

definition waiting_count_by_ip :: "nat \<Rightarrow> string \<Rightarrow> game \<Rightarrow> nat" where
  "waiting_count_by_ip q ip g =
     (let n = unat (q_count (queues g q))
      in if n = 0 then 0 else waiting_loop n (q_first (queues g q)) ip g)"

definition set_blog_full :: "int \<Rightarrow> game \<Rightarrow> game" where
  "set_blog_full b g = g\<lparr>ctxt := (ctxt g)\<lparr>blog_pickup_game_full := b\<rparr>\<rparr>"

definition set_blog_queue :: "int \<Rightarrow> game \<Rightarrow> game" where
  "set_blog_queue b g = g\<lparr>ctxt := (ctxt g)\<lparr>blog_pickup_queue_full := b\<rparr>\<rparr>"

definition blog_game_full :: "game \<Rightarrow> game" where
  "blog_game_full g =
     (if blog_pickup_game_full (ctxt g) \<noteq> 0 then g
      else set_blog_full 1 (emit (Blog ''Pickup game full'') g))"

definition blog_queue_full :: "game \<Rightarrow> game" where
  "blog_queue_full g =
     (if blog_pickup_queue_full (ctxt g) \<noteq> 0 then g
      else set_blog_queue 1 (emit (Blog ''Pickup queue full'') g))"

text \<open>
  The delays before the queue (a banned or a duplicate address) are waits on the client and the
  clock and do not change the game.  What follows has two parts: the attempt on arrival, and one
  round of the waiting loop, between two sleeps.
\<close>

datatype arrival = Got_slot nat | Waits nat | Refused

definition findslot_enter :: "nat \<Rightarrow> int \<Rightarrow> string \<Rightarrow> string \<Rightarrow> game \<Rightarrow> game \<times> arrival" where
  "findslot_enter q pid ip host g =
     (let wait = (\<lambda>g. case queue_add q pid ip host g of
            (g, None) \<Rightarrow> (if q = QU_PICKUP then blog_queue_full g else g, Refused)
          | (g, Some w) \<Rightarrow> (if q = QU_PICKUP then set_blog_queue 0 g else g, Waits w))
      in if \<not> meets (q_flags (queues g q)) QU_OPEN then (g, Refused)
         else if q_first (queues g q) = None then
           case pickslot q g of
             (g, Slot i) \<Rightarrow>
               (if q = QU_PICKUP then
                  if free_slots (queues g q) = 0 then blog_game_full g
                  else if free_slots (queues g q) > 8 then set_blog_full 0 g else g
                else g, Got_slot i)
           | (g, _) \<Rightarrow> wait g
         else wait g)"

datatype turn = Enters nat | Keeps_waiting nat | Turned_away | Client_gone

definition findslot_turn ::
  "nat \<Rightarrow> nat \<Rightarrow> int \<Rightarrow> string \<Rightarrow> string \<Rightarrow> bool \<Rightarrow> game \<Rightarrow> game \<times> turn" where
  "findslot_turn q w pid ip host dead g =
     (let (g, me) = (if pid \<noteq> w_process (waiting g w) then queue_add q pid ip host g else (g, Some w))
      in case me of
           None \<Rightarrow> (g, Turned_away)
         | Some w \<Rightarrow>
             let (g, got) = (if q_first (queues g q) = Some w then pickslot q g else (g, No_slot))
             in case got of
                  Slot i \<Rightarrow> (fst (queue_exit w g), Enters i)
                | _ \<Rightarrow>
                    if dead then (fst (queue_exit w g), Client_gone)
                    else if \<not> gu GU_GAMEOK g then (fst (queue_exit w g), Turned_away)
                    else (g, Keeps_waiting w))"

subsection \<open>Picking and freeing\<close>

definition available :: "nat \<Rightarrow> game \<Rightarrow> nat \<Rightarrow> bool" where
  "available q g i \<longleftrightarrow> p_status (players g i) = PFREE \<and> \<not> verboten q i g"

lemma count_free_simps [simp]:
  "players (count_free q n g) = players g" "procs (count_free q n g) = procs g"
  "queues (count_free q n g) = (queues g)(q := (queues g q)\<lparr>free_slots := free_slots (queues g q) + n\<rparr>)"
  by (simp_all add: count_free_def)

lemma set_sem_simps [simp]:
  "players (set_sem q n g) = players g" "procs (set_sem q n g) = procs g"
  "queues (set_sem q n g) = (queues g)(q := (queues g q)\<lparr>enter_sem := n\<rparr>)"
  by (simp_all add: set_sem_def)

lemma claim_slot_simps [simp]:
  "players (claim_slot i g) = (players g)(i := (players g i)\<lparr>p_status := POUTFIT\<rparr>)"
  "queues (claim_slot i g) = queues g" "procs (claim_slot i g) = procs g"
  by (simp_all add: claim_slot_def)

lemma clear_votes_simps [simp]:
  "p_status (clear_votes p) = p_status p" "w_queue (clear_votes p) = w_queue p"
  "97 \<le> k \<Longrightarrow> voting (clear_votes p) k = voting p k"
  by (simp_all add: clear_votes_def)

lemma ltd_reset_simps [simp]:
  "p_status (ltd_reset p) = p_status p" "w_queue (ltd_reset p) = w_queue p" "voting (ltd_reset p) = voting p"
  by (simp_all add: ltd_reset_def ltd_reset_hist_def)

lemma wipe_slot_simps [simp]:
  "p_status (wipe_slot p) = PFREE" "w_queue (wipe_slot p) = w_queue p"
  "97 \<le> k \<Longrightarrow> voting (wipe_slot p) k = voting p k"
  by (simp_all add: wipe_slot_def)

lemma fresh_slot_simps [simp]:
  "p_status (fresh_slot q i p) = p_status p" "w_queue (fresh_slot q i p) = q"
  "97 \<le> k \<Longrightarrow> voting (fresh_slot q i p) k = voting p k"
  by (simp_all add: fresh_slot_def Let_def)

lemma setup_slot_simps [simp]:
  "players (setup_slot q i g) = (players g)(i := fresh_slot q i (players g i))"
  "queues (setup_slot q i g) = (queues g)(q := (queues g q)\<lparr>free_slots := free_slots (queues g q) - 1\<rparr>)"
  by (simp_all add: setup_slot_def Let_def)

lemma pickslot_action_eq:
  "pickslot_action q i g =
     (if available q g i then (setup_slot q i (claim_slot i g), True) else (g, False))"
  by (simp add: pickslot_action_def available_def)

lemma scan_slots_find:
  "scan_slots q is g =
     (case find (available q g) is of
        None \<Rightarrow> (g, None) | Some i \<Rightarrow> (setup_slot q i (claim_slot i g), Some i))"
  by (induction "is") (auto simp: pickslot_action_eq)

lemma available_frame:
  assumes "players g' = players g" and "q_flags (queues g' q) = q_flags (queues g q)"
  shows "available q g' = available q g"
  using assms by (simp add: available_def verboten_def fun_eq_iff)

lemma available_sem [simp]: "available q (set_sem q n g) = available q g"
  by (rule available_frame) simp_all

lemma scan_order_sem [simp]: "scan_order (r\<lparr>enter_sem := n\<rparr>) = scan_order r"
  by (simp add: scan_order_def)

text \<open>What a process that gets past the semaphore obtains.\<close>

lemma pickslot_found:
  assumes "meets (q_flags (queues g q)) QU_OPEN" and "1 \<le> enter_sem (queues g q)"
    and "0 < free_slots (queues g q)" and "find (available q g) (scan_order (queues g q)) = Some i"
  shows "pickslot q g =
    (set_sem q 1 (setup_slot q i (claim_slot i (set_sem q (enter_sem (queues g q) - 1) g))), Slot i)"
  using assms by (simp add: pickslot_def Let_def scanqueue_def scan_slots_find)

lemma pickslot_none:
  assumes "meets (q_flags (queues g q)) QU_OPEN" and "1 \<le> enter_sem (queues g q)"
    and "0 < free_slots (queues g q)" and "find (available q g) (scan_order (queues g q)) = None"
  shows "pickslot q g = (set_sem q 1 (set_sem q (enter_sem (queues g q) - 1) g), No_slot)"
  using assms by (simp add: pickslot_def Let_def scanqueue_def scan_slots_find)

lemma pickslot_full:
  assumes "meets (q_flags (queues g q)) QU_OPEN" and "free_slots (queues g q) \<le> 0"
  shows "snd (pickslot q g) = No_slot" and "players (fst (pickslot q g)) = players g"
  using assms by (simp_all add: pickslot_def Let_def)

text \<open>
  With the semaphore and a free slot at hand, a process gets the first slot in the order of
  the queue that is free and not reserved, and no other player changes; it is turned away only
  if there is none.  The semaphore is given back in both cases.
\<close>

theorem pickslot_first_free:
  assumes "meets (q_flags (queues g q)) QU_OPEN" and "1 \<le> enter_sem (queues g q)"
    and "0 < free_slots (queues g q)"
  shows "enter_sem (queues (fst (pickslot q g)) q) = 1 \<and>
    (case snd (pickslot q g) of
       Slot i \<Rightarrow> find (available q g) (scan_order (queues g q)) = Some i \<and>
         p_status (players (fst (pickslot q g)) i) = POUTFIT \<and> w_queue (players (fst (pickslot q g)) i) = q \<and>
         (\<forall>j. j \<noteq> i \<longrightarrow> players (fst (pickslot q g)) j = players g j)
     | No_slot \<Rightarrow> (\<forall>i \<in> set (scan_order (queues g q)). \<not> available q g i) \<and>
         players (fst (pickslot q g)) = players g
     | Queue_closed \<Rightarrow> False)"
proof (cases "find (available q g) (scan_order (queues g q))")
  case None
  then show ?thesis using pickslot_none [OF assms None] by (simp add: find_None_iff)
next
  case (Some i)
  then show ?thesis using pickslot_found [OF assms Some] by simp
qed

definition ex_slots :: "game" where
  "ex_slots = blank_game\<lparr>
     queues := (\<lambda>_. blank_pqueue\<lparr>enter_sem := 1, free_slots := 2, high_slot := 3, q_flags := QU_OPEN\<rparr>),
     players := (\<lambda>i. if i = 0 then blank_player\<lparr>p_status := PALIVE\<rparr> else blank_player)\<rparr>"

lemma ex_slots_simps [simp]:
  "queues ex_slots q = blank_pqueue\<lparr>enter_sem := 1, free_slots := 2, high_slot := 3, q_flags := QU_OPEN\<rparr>"
  "p_status (players ex_slots i) = (if i = 0 then PALIVE else PFREE)"
  by (simp_all add: ex_slots_def blank_player_def)

lemma ex_slots_order [simp]:
  "scan_order (blank_pqueue\<lparr>enter_sem := 1, free_slots := 2, high_slot := 3, q_flags := QU_OPEN\<rparr>) = [0, 1, 2]"
  by (simp add: scan_order_def upt_rec blank_pqueue_def)

lemma ex_slots_available [simp]: "available 0 ex_slots i \<longleftrightarrow> i \<noteq> 0 \<and> i \<noteq> 29"
  by (simp add: available_def verboten_def meets_def)

theorem pickslot_first_free_witness:
  "snd (pickslot 0 ex_slots) = Slot 1 \<and> p_status (players (fst (pickslot 0 ex_slots)) 1) = POUTFIT"
  using pickslot_first_free [of ex_slots 0]
  by (auto simp: meets_def split: picked.splits)

text \<open>
  The free slots of a queue and the slots it has handed out add up: the bookkeeping that lets
  \<^verbatim>\<open>pickslot\<close> and \<^verbatim>\<open>freeslot\<close> use the counter instead of a search.
\<close>

definition handed_out :: "nat \<Rightarrow> game \<Rightarrow> nat" where
  "handed_out q g = count_upto MAXPLAYER (\<lambda>i. p_status (players g i) \<noteq> PFREE \<and> w_queue (players g i) = q)"

definition slot_capacity :: "nat \<Rightarrow> game \<Rightarrow> int" where
  "slot_capacity q g = free_slots (queues g q) + int (handed_out q g)"

lemma handed_out_cong:
  "(\<And>i. (p_status (players g i) \<noteq> PFREE \<and> w_queue (players g i) = q) =
         (p_status (players h i) \<noteq> PFREE \<and> w_queue (players h i) = q)) \<Longrightarrow>
   handed_out q g = handed_out q h"
  unfolding handed_out_def by (rule count_upto_cong) blast

lemma handed_out_claim:
  assumes "i < MAXPLAYER" and "p_status (players g i) = PFREE"
  shows "handed_out q' (setup_slot q i (claim_slot i g)) = handed_out q' g + (if q' = q then 1 else 0)"
proof (cases "q' = q")
  case True
  have "handed_out q (setup_slot q i (claim_slot i g)) = Suc (handed_out q g)"
    unfolding handed_out_def by (rule count_upto_insert [OF assms(1)]) (simp_all add: assms(2))
  with True show ?thesis by simp
next
  case False
  then have "handed_out q' (setup_slot q i (claim_slot i g)) = handed_out q' g"
    using assms(2) by (intro handed_out_cong) simp
  with False show ?thesis by simp
qed

lemma handed_out_wipe:
  assumes "i < MAXPLAYER" and "p_status (players g i) \<noteq> PFREE"
  shows "handed_out q g = handed_out q (upd_player i wipe_slot g) + (if q = w_queue (players g i) then 1 else 0)"
proof (cases "q = w_queue (players g i)")
  case True
  have "handed_out q g = Suc (handed_out q (upd_player i wipe_slot g))"
    unfolding handed_out_def by (rule count_upto_insert [OF assms(1)]) (simp_all add: assms(2) True)
  with True show ?thesis by simp
next
  case False
  then have "handed_out q (upd_player i wipe_slot g) = handed_out q g"
    by (intro handed_out_cong) auto
  with False show ?thesis by simp
qed

lemma capacity_sem [simp]: "slot_capacity q' (set_sem q n g) = slot_capacity q' g"
  by (simp add: slot_capacity_def handed_out_def)

lemma capacity_claim:
  assumes "i < MAXPLAYER" and "p_status (players g i) = PFREE"
  shows "slot_capacity q' (setup_slot q i (claim_slot i g)) = slot_capacity q' g"
  using handed_out_claim [OF assms, of q' q] by (simp add: slot_capacity_def)

lemma capacity_pickslot:
  assumes "high_slot (queues g q) \<le> MAXPLAYER"
  shows "slot_capacity q' (fst (pickslot q g)) = slot_capacity q' g"
proof -
  have "slot_capacity q' (fst (scanqueue q h)) = slot_capacity q' h"
    if h: "high_slot (queues h q) \<le> MAXPLAYER" for h
  proof (cases "find (available q h) (scan_order (queues h q))")
    case None
    then show ?thesis by (simp add: scanqueue_def scan_slots_find)
  next
    case (Some i)
    then have "i \<in> set (scan_order (queues h q))" "available q h i"
      by (auto simp: find_Some_iff in_set_conv_nth)
    with h have "i < MAXPLAYER" "p_status (players h i) = PFREE"
      by (auto simp: scan_order_def available_def split: if_splits)
    with Some show ?thesis by (simp add: scanqueue_def scan_slots_find capacity_claim)
  qed
  from this [of "set_sem q (enter_sem (queues g q) - 1) g"] assms show ?thesis
    by (auto simp: pickslot_def Let_def split: prod.split)
qed

lemma capacity_freeslot:
  assumes "i < MAXPLAYER"
  shows "slot_capacity q (fst (freeslot (Some i) g)) = slot_capacity q g"
proof (cases "p_status (players g i) = PFREE")
  case True
  then have "handed_out q (fst (freeslot (Some i) g)) = handed_out q g"
    by (intro handed_out_cong) (simp add: freeslot_def Let_def fun_upd_apply)
  with True show ?thesis by (simp add: slot_capacity_def freeslot_def Let_def)
next
  case False
  then have "handed_out q (fst (freeslot (Some i) g)) = handed_out q (upd_player i wipe_slot g)"
    by (intro handed_out_cong) (simp add: freeslot_def Let_def)
  with handed_out_wipe [OF assms False, of q] False show ?thesis
    by (simp add: slot_capacity_def freeslot_def Let_def)
qed

text \<open>
  The free slots a queue counts and the slots in use that it handed out always add up to
  the same number, for every queue, whether a slot is picked from or freed to it, and even if
  a slot that is free already is freed again.
\<close>

theorem slot_accounting:
  assumes "high_slot (queues g q) \<le> MAXPLAYER" and "i < MAXPLAYER"
  shows "slot_capacity q' (fst (pickslot q g)) = slot_capacity q' g \<and>
    slot_capacity q' (fst (freeslot (Some i) g)) = slot_capacity q' g"
  using capacity_pickslot [OF assms(1)] capacity_freeslot [OF assms(2)] by simp

theorem slot_accounting_witness:
  "slot_capacity 2 (fst (pickslot 0 ex_slots)) = slot_capacity 2 ex_slots"
  using slot_accounting [of ex_slots 0 1 2] by simp

text \<open>
  Of the 104 votes of a slot only the first 97 are cleared when a player leaves it and when
  the next one takes it: the missing parentheses of \<^verbatim>\<open>PV_TOTAL\<close> leave the votes after the
  first slot-independent one to the next player in the slot.
\<close>

theorem votes_survive_slot:
  assumes "97 \<le> k" and "find (available q g) (scan_order (queues g q)) = Some i"
    and "meets (q_flags (queues g q)) QU_OPEN" and "1 \<le> enter_sem (queues g q)"
    and "0 < free_slots (queues g q)"
  shows "voting (players (fst (freeslot (Some j) g)) j) k = voting (players g j) k \<and>
    voting (players (fst (pickslot q g)) i) k = voting (players g i) k"
  using pickslot_found [OF assms(3,4,5,2)] assms(1) by (simp add: freeslot_def Let_def)

definition ex_voted :: "game" where
  "ex_voted = upd_player 1 (\<lambda>p. p\<lparr>voting := (\<lambda>k. if k = 98 then 1000 else 0)\<rparr>) ex_slots"

theorem votes_survive_slot_witness:
  "voting (players (fst (pickslot 0 ex_voted)) 1) 98 = 1000"
proof -
  have "find (available 0 ex_voted) (scan_order (queues ex_voted 0)) = Some 1"
    by (simp add: ex_voted_def available_def verboten_def meets_def)
  then show ?thesis
    using votes_survive_slot [of 98 0 ex_voted 1] by (simp add: ex_voted_def meets_def)
qed

subsection \<open>Several processes at once\<close>

text \<open>
  The semaphore of a queue is an ordinary variable of shared memory, and queues share slots, so
  several processes can be in the scan at the same time.  Here the action is split as in the
  source: look at the status, take the lock, look again, mark the slot, release the lock, set
  the slot up.  A process carries the slots it still has to try.
\<close>

datatype picker =
    Looking "nat list"
  | Wanting nat "nat list"
  | Holding nat "nat list"
  | Marked nat
  | Setting_up nat
  | Owning nat
  | Away

record contest =
  pickers :: "nat \<Rightarrow> picker"
  pick_lock :: "nat option"
  arena :: game

definition moves :: "nat \<Rightarrow> picker \<Rightarrow> contest \<Rightarrow> contest" where
  "moves p w s = s\<lparr>pickers := (pickers s)(p := w)\<rparr>"

lemma moves_simps [simp]:
  "pickers (moves p w s) = (pickers s)(p := w)" "pick_lock (moves p w s) = pick_lock s"
  "arena (moves p w s) = arena s"
  by (simp_all add: moves_def)

inductive pick_step :: "nat \<Rightarrow> contest \<Rightarrow> contest \<Rightarrow> bool" for q :: nat where
  arrive: "pickers s p = Away \<Longrightarrow>
    pick_step q s (moves p (Looking (scan_order (queues (arena s) q))) s)"
| give_up: "pickers s p = Looking [] \<Longrightarrow> pick_step q s (moves p Away s)"
| skip: "pickers s p = Looking (i # is) \<Longrightarrow> \<not> available q (arena s) i \<Longrightarrow>
    pick_step q s (moves p (Looking is) s)"
| want: "pickers s p = Looking (i # is) \<Longrightarrow> available q (arena s) i \<Longrightarrow>
    pick_step q s (moves p (Wanting i is) s)"
| lock: "pickers s p = Wanting i is \<Longrightarrow> pick_lock s = None \<Longrightarrow>
    pick_step q s (moves p (Holding i is) (s\<lparr>pick_lock := Some p\<rparr>))"
| too_late: "pickers s p = Holding i is \<Longrightarrow> p_status (players (arena s) i) \<noteq> PFREE \<Longrightarrow>
    pick_step q s (moves p (Looking is) (s\<lparr>pick_lock := None\<rparr>))"
| mark: "pickers s p = Holding i is \<Longrightarrow> p_status (players (arena s) i) = PFREE \<Longrightarrow>
    pick_step q s (moves p (Marked i) (s\<lparr>arena := claim_slot i (arena s)\<rparr>))"
| unlock: "pickers s p = Marked i \<Longrightarrow>
    pick_step q s (moves p (Setting_up i) (s\<lparr>pick_lock := None\<rparr>))"
| prepare: "pickers s p = Setting_up i \<Longrightarrow>
    pick_step q s (moves p (Owning i) (s\<lparr>arena := setup_slot q i (arena s)\<rparr>))"
| leave: "pickers s p = Owning i \<Longrightarrow>
    pick_step q s (moves p Away (s\<lparr>arena := fst (freeslot (Some i) (arena s))\<rparr>))"

text \<open>The slot a process has taken, and the slot it is about to take under the lock.\<close>

fun taken_by :: "picker \<Rightarrow> nat option" where
  "taken_by (Marked i) = Some i"
| "taken_by (Setting_up i) = Some i"
| "taken_by (Owning i) = Some i"
| "taken_by _ = None"

fun in_lock :: "picker \<Rightarrow> bool" where
  "in_lock (Holding _ _) \<longleftrightarrow> True"
| "in_lock (Marked _) \<longleftrightarrow> True"
| "in_lock _ \<longleftrightarrow> False"

definition contest_ok :: "contest \<Rightarrow> bool" where
  "contest_ok s \<longleftrightarrow>
     (\<forall>p. in_lock (pickers s p) \<longleftrightarrow> pick_lock s = Some p) \<and>
     (\<forall>p i. taken_by (pickers s p) = Some i \<longrightarrow> p_status (players (arena s) i) \<noteq> PFREE) \<and>
     (\<forall>p r i. taken_by (pickers s p) = Some i \<longrightarrow> taken_by (pickers s r) = Some i \<longrightarrow> p = r)"

lemma contest_ok_idle:
  assumes "contest_ok s" and "\<not> in_lock (pickers s p)" and "\<not> in_lock w" and "taken_by w = None"
  shows "contest_ok (moves p w s)"
proof -
  have "pick_lock s \<noteq> Some p" using assms(1,2) unfolding contest_ok_def by blast
  with assms show ?thesis unfolding contest_ok_def by (auto split: if_splits)
qed

lemma contest_ok_step:
  assumes "pick_step q s t" and "contest_ok s"
  shows "contest_ok t"
  using assms
proof (induction rule: pick_step.induct)
  case (lock s p i "is")
  then show ?case unfolding contest_ok_def by (auto split: if_splits)
next
  case (too_late s p i "is")
  then have "pick_lock s = Some p" by (auto simp: contest_ok_def)
  with too_late show ?case unfolding contest_ok_def by (auto split: if_splits)
next
  case (mark s p i "is")
  then have "\<forall>r. taken_by (pickers s r) \<noteq> Some i" by (auto simp: contest_ok_def)
  moreover from mark have "pick_lock s = Some p" by (auto simp: contest_ok_def)
  ultimately show ?case using mark(3) unfolding contest_ok_def by (auto split: if_splits)
next
  case (unlock s p i)
  then have "pick_lock s = Some p" by (auto simp: contest_ok_def)
  have "taken_by (pickers s p) = Some i" using unlock by simp
  then have "p_status (players (arena s) i) \<noteq> PFREE"
    using unlock(2) unfolding contest_ok_def by blast
  with unlock \<open>pick_lock s = Some p\<close> show ?case unfolding contest_ok_def by (auto split: if_splits)
next
  case (prepare s p i)
  have "taken_by (pickers s p) = Some i" "\<not> in_lock (pickers s p)" using prepare by simp_all
  then have "p_status (players (arena s) i) \<noteq> PFREE" "pick_lock s \<noteq> Some p"
    using prepare(2) unfolding contest_ok_def by blast+
  with prepare show ?case unfolding contest_ok_def by (auto split: if_splits)
next
  case (leave s p i)
  then have others: "\<forall>r. r \<noteq> p \<longrightarrow> taken_by (pickers s r) \<noteq> Some i"
    by (auto simp: contest_ok_def)
  have "taken_by (pickers s p) = Some i" "\<not> in_lock (pickers s p)" using leave by simp_all
  then have "pick_lock s \<noteq> Some p" using leave(2) unfolding contest_ok_def by blast
  moreover have "p_status (players (fst (freeslot (Some i) (arena s))) j) = p_status (players (arena s) j)"
    if "j \<noteq> i" for j
    using that by (simp add: freeslot_def Let_def)
  then have "p_status (players (fst (freeslot (Some i) (arena s))) j) \<noteq> PFREE"
    if "r \<noteq> p" and "taken_by (pickers s r) = Some j" for r j
    using that others leave(2) unfolding contest_ok_def by metis
  ultimately show ?case using leave unfolding contest_ok_def by (auto split: if_splits)
qed (rule contest_ok_idle; simp)+


definition ex_contest :: "contest" where
  "ex_contest = \<lparr>pickers = (\<lambda>_. Away), pick_lock = None, arena = ex_slots\<rparr>"

lemma ex_contest_run:
  "\<exists>t. (pick_step 0)\<^sup>*\<^sup>* ex_contest t \<and> taken_by (pickers t 5) = Some 1"
proof -
  let ?s1 = "moves 5 (Looking [0, 1, 2]) ex_contest"
  let ?s2 = "moves 5 (Looking [1, 2]) ?s1"
  let ?s3 = "moves 5 (Wanting 1 [2]) ?s2"
  let ?s4 = "moves 5 (Holding 1 [2]) (?s3\<lparr>pick_lock := Some 5\<rparr>)"
  let ?s5 = "moves 5 (Marked 1) (?s4\<lparr>arena := claim_slot 1 (arena ?s4)\<rparr>)"
  have a: "pick_step 0 ex_contest ?s1"
    using pick_step.arrive [of ex_contest 5 0] by (simp add: ex_contest_def)
  have b: "pick_step 0 ?s1 ?s2"
    by (rule pick_step.skip [of _ 5 0 "[1, 2]"]) (simp_all add: ex_contest_def)
  have c: "pick_step 0 ?s2 ?s3"
    by (rule pick_step.want [of _ 5 1 "[2]"]) (simp_all add: ex_contest_def)
  have d: "pick_step 0 ?s3 ?s4"
    by (rule pick_step.lock [of _ 5 1 "[2]"]) (simp_all add: ex_contest_def)
  have e: "pick_step 0 ?s4 ?s5"
    by (rule pick_step.mark [of _ 5 1 "[2]"]) (simp_all add: ex_contest_def)
  note run = rtranclp.rtrancl_into_rtrancl [where r = "pick_step 0"]
  have "(pick_step 0)\<^sup>*\<^sup>* ex_contest ?s5"
    by (rule run [OF run [OF run [OF run [OF r_into_rtranclp [where r = "pick_step 0", OF a] b] c] d] e])
  then show ?thesis by (rule exI [where x = ?s5, OF conjI]) simp
qed


end
