(* ===== verification/Galaxy.thy ===== *)
theory Galaxy
  imports Util
begin

text \<open>
  The planets (\<^verbatim>\<open>ntserv/planet.c\<close>): the table of the untouched galaxy, finding a planet, and
  laying out a new galaxy with random agricultural, repair and fuel planets in the core and on
  the front of every empire.
\<close>

subsection \<open>The untouched galaxy\<close>

abbreviation (input) START_ARMIES :: "int" where "START_ARMIES \<equiv> 17"

definition virgin ::
  "nat \<Rightarrow> int \<Rightarrow> int \<Rightarrow> int \<Rightarrow> int \<Rightarrow> string \<Rightarrow> nat \<Rightarrow> int \<Rightarrow> planet" where
  "virgin no flags owner x y name len info =
     \<lparr>pl_no = no, pl_flags = flags, pl_owner = owner, pl_x = x, pl_y = y, pl_name = name,
      pl_namelen = len, pl_armies = START_ARMIES, pl_info = info, pl_deadtime = 0, pl_couptime = 0\<rparr>"

definition virginal :: "planet list" where
  "virginal =
    [virgin 0 (FED OR PLHOME OR PLCORE OR PLREPAIR OR PLFUEL) FED 20000 80000 ''Earth'' 5 FED,
     virgin 1 (FED) FED 10000 60000 ''Rigel'' 5 FED,
     virgin 2 (FED) FED 25000 60000 ''Canopus'' 7 FED,
     virgin 3 (FED) FED 44000 81000 ''Beta Crucis'' 11 FED,
     virgin 4 (FED) FED 39000 55000 ''Organia'' 7 FED,
     virgin 5 (FED OR PLCORE) FED 30000 90000 ''Deneb'' 5 FED,
     virgin 6 (FED) FED 45000 66000 ''Ceti Alpha V'' 12 FED,
     virgin 7 (FED OR PLCORE) FED 11000 75000 ''Altair'' 6 FED,
     virgin 8 (FED OR PLCORE) FED 8000 93000 ''Vega'' 4 FED,
     virgin 9 (FED) FED 32000 74000 ''Alpha Centauri'' 14 FED,
     virgin 10 (ROM OR PLHOME OR PLCORE OR PLREPAIR OR PLFUEL) ROM 20000 20000 ''Romulus'' 7 ROM,
     virgin 11 (ROM) ROM 45000 7000 ''Eridani'' 7 ROM,
     virgin 12 (ROM OR PLCORE) ROM 4000 12000 ''Aldeberan'' 9 ROM,
     virgin 13 (ROM) ROM 42000 44000 ''Regulus'' 7 ROM,
     virgin 14 (ROM) ROM 13000 45000 ''Capella'' 7 ROM,
     virgin 15 (ROM OR PLCORE) ROM 28000 8000 ''Tauri'' 5 ROM,
     virgin 16 (ROM OR PLCORE) ROM 28000 23000 ''Draconis'' 8 ROM,
     virgin 17 (ROM) ROM 40000 25000 ''Sirius'' 6 ROM,
     virgin 18 (ROM) ROM 25000 44000 ''Indi'' 4 ROM,
     virgin 19 (ROM) ROM 8000 29000 ''Hydrae'' 6 ROM,
     virgin 20 (KLI OR PLHOME OR PLCORE OR PLREPAIR OR PLFUEL) KLI 80000 20000 ''Klingus'' 7 KLI,
     virgin 21 (KLI) KLI 70000 40000 ''Pliedes V'' 9 KLI,
     virgin 22 (KLI) KLI 60000 10000 ''Andromeda'' 9 KLI,
     virgin 23 (KLI) KLI 56400 38200 ''Lalande'' 7 KLI,
     virgin 24 (KLI OR PLCORE) KLI 91120 9320 ''Praxis'' 6 KLI,
     virgin 25 (KLI) KLI 89960 31760 ''Lyrae'' 5 KLI,
     virgin 26 (KLI OR PLCORE) KLI 70720 26320 ''Scorpii'' 7 KLI,
     virgin 27 (KLI) KLI 83600 45400 ''Mira'' 4 KLI,
     virgin 28 (KLI) KLI 54600 22600 ''Cygni'' 5 KLI,
     virgin 29 (KLI OR PLCORE) KLI 73080 6640 ''Achernar'' 8 KLI,
     virgin 30 (ORI OR PLHOME OR PLCORE OR PLREPAIR OR PLFUEL) ORI 80000 80000 ''Orion'' 5 ORI,
     virgin 31 (ORI) ORI 91200 56600 ''Cassiopeia'' 10 ORI,
     virgin 32 (ORI) ORI 70800 54200 ''El Nath'' 7 ORI,
     virgin 33 (ORI) ORI 57400 62600 ''Spica'' 5 ORI,
     virgin 34 (ORI OR PLCORE) ORI 72720 70880 ''Procyon'' 7 ORI,
     virgin 35 (ORI) ORI 61400 77000 ''Polaris'' 7 ORI,
     virgin 36 (ORI) ORI 55600 89000 ''Arcturus'' 8 ORI,
     virgin 37 (ORI OR PLCORE) ORI 91000 94000 ''Ursae Majoris'' 13 ORI,
     virgin 38 (ORI) ORI 70000 93000 ''Herculis'' 8 ORI,
     virgin 39 (ORI OR PLCORE) ORI 86920 68920 ''Antares'' 7 ORI]"

subsection \<open>Finding planets\<close>

definition planet_find :: "string \<Rightarrow> game \<Rightarrow> nat option" where
  "planet_find name g =
     (let (count, match) = for_upto MAXPLANETS (\<lambda>i (c, m).
            if strncaseeq name (pl_name (planets g i)) (length name) then (c + 1, i) else (c, m))
          (0 :: nat, 0)
      in if count = 1 then Some match else None)"

text \<open>The argument is the number that \<^verbatim>\<open>atoi\<close> reads.\<close>

definition planet_by_number :: "int \<Rightarrow> nat option" where
  "planet_by_number i = (if i < 0 then None else if i > int MAXPLANETS - 1 then None else Some (nat i))"

text \<open>For one of the four teams; the other masks give index \<open>-1\<close> to the table in the source.\<close>

fun pick_home_loop :: "nat \<Rightarrow> int \<Rightarrow> game \<Rightarrow> game \<times> nat" where
  "pick_home_loop 0 tno g = (g, 13)"
| "pick_home_loop (Suc n) tno g =
     (let i = nat (tno * 10 + rand_val g mod 10); g = rand_next g
      in if startplanets (cfg g) i then (g, i) else pick_home_loop n tno g)"

definition pl_pick_home :: "int \<Rightarrow> game \<Rightarrow> game \<times> nat" where
  "pl_pick_home team g = pick_home_loop (nat GWIDTH) (team_no team) g"

definition pl_pick_home_offset :: "int \<Rightarrow> game \<Rightarrow> game \<times> int \<times> int" where
  "pl_pick_home_offset team g =
     (let (g, l) = pl_pick_home team g;
          x = pl_x (planets g l) + rand_val g mod 10000 - 5000; g = rand_next g;
          y = pl_y (planets g l) + rand_val g mod 10000 - 5000; g = rand_next g
      in (g, x, y))"

subsection \<open>A new galaxy\<close>

definition core_planets :: "nat list list" where
  "core_planets = [[7, 9, 5, 8], [12, 19, 15, 16], [24, 29, 25, 26], [34, 39, 38, 37]]"

definition front_planets :: "nat list list" where
  "front_planets = [[1, 2, 4, 6, 3], [14, 18, 13, 17, 11], [22, 28, 23, 21, 27], [31, 32, 33, 35, 36]]"

text \<open>\<^verbatim>\<open>random() % n\<close>, as a number and as the generator's next state.\<close>

definition dice :: "int \<Rightarrow> game \<Rightarrow> nat" where
  "dice n g = nat (rand_val g mod n)"

definition flag_planet :: "int \<Rightarrow> nat \<Rightarrow> game \<Rightarrow> game" where
  "flag_planet m l = upd_planet l (\<lambda>p. p\<lparr>pl_flags := pl_flags p OR m\<rparr>)"

text \<open>\<open>flag_one m sides spot\<close> marks the planet that one throw of the dice selects.\<close>

definition flag_one :: "int \<Rightarrow> int \<Rightarrow> (nat \<Rightarrow> nat) \<Rightarrow> game \<Rightarrow> game" where
  "flag_one m sides spot g = rand_next (flag_planet m (spot (dice sides g)) g)"

text \<open>
  The search for a planet without fuel: throw until one is found, or until the counter
  \<open>s\<close> (\<^verbatim>\<open>sanity\<close>) has passed the width of the galaxy.
\<close>

function fuel_search :: "nat \<Rightarrow> int \<Rightarrow> (nat \<Rightarrow> nat) \<Rightarrow> game \<Rightarrow> game \<times> nat" where
  "fuel_search s sides spot g =
     (let k = dice sides g; g' = rand_next g
      in if s > nat GWIDTH then (g', k)
         else if meets (pl_flags (planets g' (spot k))) PLFUEL then fuel_search (Suc s) sides spot g'
         else (g', k))"
  by pat_completeness auto

termination by (relation "measure (\<lambda>(s, _, _, _). Suc (nat GWIDTH) - s)") auto

declare fuel_search.simps [simp del]

definition fuel_one :: "int \<Rightarrow> (nat \<Rightarrow> nat) \<Rightarrow> game \<Rightarrow> game" where
  "fuel_one sides spot g =
     (case fuel_search 0 sides spot g of (g, k) \<Rightarrow> flag_planet PLFUEL (spot k) g)"

definition fuel_two :: "int \<Rightarrow> (nat \<Rightarrow> nat) \<Rightarrow> game \<Rightarrow> game" where
  "fuel_two sides spot g = fuel_one sides spot (fuel_one sides spot g)"

text \<open>The front of one empire: either end gets the agriculture, the other repair and fuel.\<close>

definition lay_front :: "nat \<Rightarrow> game \<Rightarrow> game" where
  "lay_front i g =
     (let f = (\<lambda>k. front_planets ! i ! k); which = dice 2 g; g = rand_next g
      in if which \<noteq> 0 then
           fuel_two 3 (\<lambda>k. f (k + 2)) (flag_one PLREPAIR 3 (\<lambda>k. f (k + 2)) (flag_one PLAGRI 2 f g))
         else
           fuel_two 3 f (flag_one PLREPAIR 3 f (flag_one PLAGRI 2 (\<lambda>k. f (k + 3)) g)))"

definition lay_empire :: "nat \<Rightarrow> game \<Rightarrow> game" where
  "lay_empire i g =
     (let c = (\<lambda>k. core_planets ! i ! k)
      in fuel_two 4 c (flag_one PLREPAIR 4 c (lay_front i (flag_one PLAGRI 4 c g))))"

definition pl_virgin :: "game \<Rightarrow> game" where
  "pl_virgin g = for_upto MAXPLANETS (\<lambda>i. upd_planet i (\<lambda>_. virginal ! i)) g"

definition pl_reset :: "game \<Rightarrow> game" where
  "pl_reset g =
     (let g = pl_virgin g
      in if recreational_dogfight_mode (cfg g) then
           for_upto MAXPLANETS (\<lambda>i. upd_planet i (\<lambda>p. p\<lparr>pl_armies := 0, pl_owner := NOBODY,
             pl_flags := pl_flags p OR PLREPAIR OR PLFUEL, pl_info := ALLTEAM\<rparr>)) g
         else
           for_upto 4 lay_empire
             (for_upto MAXPLANETS (\<lambda>i. upd_planet i (\<lambda>p. p\<lparr>pl_armies := top_armies (cfg g)\<rparr>)) g))"

subsection \<open>What a new galaxy looks like\<close>

text \<open>The planets that carry a flag.\<close>

definition flagged :: "int \<Rightarrow> game \<Rightarrow> nat set" where
  "flagged m g = {l. l < MAXPLANETS \<and> meets (pl_flags (planets g l)) m}"

lemma meets_or: "meets (a OR b) m \<longleftrightarrow> meets a m \<or> meets b m"
  by (simp add: meets_def bit.conj_disj_distrib2 or_eq_0_iff)

lemma flagged_mark:
  assumes "l < MAXPLANETS"
  shows "flagged m (flag_planet k l g) = (if meets k m then insert l (flagged m g) else flagged m g)"
  using assms by (auto simp: flagged_def flag_planet_def meets_or split: if_splits)

lemma flagged_next [simp]: "flagged m (rand_next g) = flagged m g"
  by (simp add: flagged_def)

lemma dice_less: "0 < n \<Longrightarrow> dice n g < nat n"
  by (simp add: dice_def)

lemma fuel_search_result:
  assumes "fuel_search s sides spot g = (g', k)" and "0 < sides"
  shows "k < nat sides \<and> planets g' = planets g"
  using assms
proof (induction s sides spot g rule: fuel_search.induct)
  case (1 s sides spot g)
  show ?case
  proof (cases "s > nat GWIDTH \<or> \<not> meets (pl_flags (planets g (spot (dice sides g)))) PLFUEL")
    case True
    with 1(2) have "g' = rand_next g" and "k = dice sides g"
      by (auto simp: fuel_search.simps [of s] Let_def split: if_splits)
    with 1(3) show ?thesis by (simp add: dice_less)
  next
    case False
    then have "fuel_search (Suc s) sides spot (rand_next g) = (g', k)"
      using 1(2) by (simp add: fuel_search.simps [of s] Let_def)
    with 1(1) [OF refl refl] False 1(3) show ?thesis by auto
  qed
qed

lemma flagged_search:
  "fuel_search s sides spot g = (g', k) \<Longrightarrow> 0 < sides \<Longrightarrow> flagged m g' = flagged m g"
  using fuel_search_result by (fastforce simp: flagged_def)

text \<open>Each of the throws that lay out a region marks some planet of the region.\<close>

lemma flag_one_flagged:
  assumes "0 < sides" and "\<And>k. k < nat sides \<Longrightarrow> spot k \<in> R" and "R \<subseteq> {..<MAXPLANETS}"
  obtains l where "l \<in> R"
    and "\<And>m. flagged m (flag_one f sides spot g) =
           (if meets f m then insert l (flagged m g) else flagged m g)"
proof -
  have "spot (dice sides g) \<in> R" using assms dice_less by blast
  moreover from this assms(3) have "spot (dice sides g) < MAXPLANETS" by auto
  ultimately show thesis by (intro that [of "spot (dice sides g)"]) (simp_all add: flag_one_def flagged_mark)
qed

lemma fuel_one_flagged:
  assumes "0 < sides" and "\<And>k. k < nat sides \<Longrightarrow> spot k \<in> R" and "R \<subseteq> {..<MAXPLANETS}"
  obtains l where "l \<in> R"
    and "\<And>m. flagged m (fuel_one sides spot g) =
           (if meets PLFUEL m then insert l (flagged m g) else flagged m g)"
proof -
  obtain g' k where s: "fuel_search 0 sides spot g = (g', k)" by fastforce
  from fuel_search_result [OF s assms(1)] assms(2) have "spot k \<in> R" by blast
  moreover from this assms(3) have "spot k < MAXPLANETS" by auto
  moreover have "flagged m g' = flagged m g" for m using flagged_search [OF s assms(1)] .
  ultimately show thesis by (intro that [of "spot k"]) (simp_all add: fuel_one_def s flagged_mark)
qed

lemma fuel_two_flagged:
  assumes "0 < sides" and "\<And>k. k < nat sides \<Longrightarrow> spot k \<in> R" and "R \<subseteq> {..<MAXPLANETS}"
  obtains l l' where "l \<in> R" and "l' \<in> R"
    and "\<And>m. flagged m (fuel_two sides spot g) =
           (if meets PLFUEL m then insert l' (insert l (flagged m g)) else flagged m g)"
proof -
  obtain l where l: "l \<in> R" "\<And>m. flagged m (fuel_one sides spot g) =
      (if meets PLFUEL m then insert l (flagged m g) else flagged m g)"
    using fuel_one_flagged [where spot = spot and R = R, OF assms] by metis
  obtain l' where l': "l' \<in> R" "\<And>m. flagged m (fuel_one sides spot (fuel_one sides spot g)) =
      (if meets PLFUEL m then insert l' (flagged m (fuel_one sides spot g)) else flagged m (fuel_one sides spot g))"
    using fuel_one_flagged [where spot = spot and R = R, OF assms] by metis
  show thesis using that [OF l(1) l'(1)] l l' by (simp add: fuel_two_def)
qed

abbreviation (input) core_set :: "nat \<Rightarrow> nat set" where "core_set i \<equiv> set (core_planets ! i)"
abbreviation (input) front_set :: "nat \<Rightarrow> nat set" where "front_set i \<equiv> set (front_planets ! i)"

lemma regions:
  assumes "i < 4"
  shows "length (core_planets ! i) = 4" "length (front_planets ! i) = 5"
    "core_set i \<subseteq> {10 * i<..<10 * i + 10}" "front_set i \<subseteq> {10 * i<..<10 * i + 10}"
    "core_set i \<inter> front_set i = {}" "core_set i \<subseteq> {..<MAXPLANETS}" "front_set i \<subseteq> {..<MAXPLANETS}"
  using assms
  by (auto simp: core_planets_def front_planets_def numeral_eq_Suc less_Suc_eq)

lemma flag_meets [simp]:
  "meets PLAGRI PLAGRI" "\<not> meets PLAGRI PLREPAIR" "\<not> meets PLAGRI PLFUEL"
  "\<not> meets PLREPAIR PLAGRI" "meets PLREPAIR PLREPAIR" "\<not> meets PLREPAIR PLFUEL"
  "\<not> meets PLFUEL PLAGRI" "\<not> meets PLFUEL PLREPAIR" "meets PLFUEL PLFUEL"
  by (simp_all add: meets_def)

lemma lay_front_flagged:
  assumes "i < 4"
  obtains a r f f' where "{a, r, f, f'} \<subseteq> front_set i"
    and "flagged PLAGRI (lay_front i g) = insert a (flagged PLAGRI g)"
    and "flagged PLREPAIR (lay_front i g) = insert r (flagged PLREPAIR g)"
    and "flagged PLFUEL (lay_front i g) = insert f (insert f' (flagged PLFUEL g))"
proof -
  let ?f = "\<lambda>k. front_planets ! i ! k"
  have spots: "?f k \<in> front_set i" if "k < 5" for k
    using that regions(2) [OF assms] by simp
  note R = regions(7) [OF assms] and found = that
  have *: thesis if lay: "lay_front i g = fuel_two 3 t (flag_one PLREPAIR 3 t (flag_one PLAGRI 2 s (rand_next g)))"
    and t: "\<And>k. k < nat 3 \<Longrightarrow> t k \<in> front_set i" and s: "\<And>k. k < nat 2 \<Longrightarrow> s k \<in> front_set i" for s t
  proof -
    obtain a where a: "a \<in> front_set i" "\<And>m. flagged m (flag_one PLAGRI 2 s (rand_next g)) =
        (if meets PLAGRI m then insert a (flagged m (rand_next g)) else flagged m (rand_next g))"
      using flag_one_flagged [where sides = 2 and spot = s, OF _ s R] by (metis zero_less_numeral)
    let ?g = "flag_one PLAGRI 2 s (rand_next g)"
    obtain r where r: "r \<in> front_set i" "\<And>m. flagged m (flag_one PLREPAIR 3 t ?g) =
        (if meets PLREPAIR m then insert r (flagged m ?g) else flagged m ?g)"
      using flag_one_flagged [where sides = 3 and spot = t, OF _ t R] by (metis zero_less_numeral)
    let ?h = "flag_one PLREPAIR 3 t ?g"
    obtain f f' where f: "f \<in> front_set i" "f' \<in> front_set i" "\<And>m. flagged m (fuel_two 3 t ?h) =
        (if meets PLFUEL m then insert f' (insert f (flagged m ?h)) else flagged m ?h)"
      using fuel_two_flagged [where sides = 3 and spot = t, OF _ t R] by (metis zero_less_numeral)
    show thesis by (rule found [of a r f' f]) (use lay a r f in simp_all)
  qed
  show thesis
  proof (cases "dice 2 g = 0")
    case True
    then show thesis by (intro * [of ?f "\<lambda>k. ?f (k + 3)"]) (simp_all add: lay_front_def Let_def spots)
  next
    case False
    then show thesis by (intro * [of "\<lambda>k. ?f (k + 2)" ?f]) (simp_all add: lay_front_def Let_def spots)
  qed
qed

lemma lay_empire_flagged:
  assumes "i < 4"
  obtains a r f f' a' r' c c' where "{a, r, f, f'} \<subseteq> front_set i" and "{a', r', c, c'} \<subseteq> core_set i"
    and "flagged PLAGRI (lay_empire i g) = {a, a'} \<union> flagged PLAGRI g"
    and "flagged PLREPAIR (lay_empire i g) = {r, r'} \<union> flagged PLREPAIR g"
    and "flagged PLFUEL (lay_empire i g) = {f, f', c, c'} \<union> flagged PLFUEL g"
proof -
  let ?c = "\<lambda>k. core_planets ! i ! k"
  have spots: "?c k \<in> core_set i" if "k < nat 4" for k
    using that regions(1) [OF assms] by simp
  note R = regions(6) [OF assms]
  let ?g1 = "flag_one PLAGRI 4 ?c g"
  obtain a' where a: "a' \<in> core_set i" "\<And>m. flagged m ?g1 =
      (if meets PLAGRI m then insert a' (flagged m g) else flagged m g)"
    using flag_one_flagged [where sides = 4 and spot = ?c, OF _ spots R] by (metis zero_less_numeral)
  let ?g2 = "lay_front i ?g1"
  obtain b r f f' where front: "{b, r, f, f'} \<subseteq> front_set i"
    "flagged PLAGRI ?g2 = insert b (flagged PLAGRI ?g1)"
    "flagged PLREPAIR ?g2 = insert r (flagged PLREPAIR ?g1)"
    "flagged PLFUEL ?g2 = insert f (insert f' (flagged PLFUEL ?g1))"
    using lay_front_flagged [OF assms, of ?g1] by metis
  let ?g3 = "flag_one PLREPAIR 4 ?c ?g2"
  obtain r' where r: "r' \<in> core_set i" "\<And>m. flagged m ?g3 =
      (if meets PLREPAIR m then insert r' (flagged m ?g2) else flagged m ?g2)"
    using flag_one_flagged [where sides = 4 and spot = ?c, OF _ spots R] by (metis zero_less_numeral)
  obtain c c' where c: "c \<in> core_set i" "c' \<in> core_set i" "\<And>m. flagged m (fuel_two 4 ?c ?g3) =
      (if meets PLFUEL m then insert c' (insert c (flagged m ?g3)) else flagged m ?g3)"
    using fuel_two_flagged [where sides = 4 and spot = ?c, OF _ spots R] by (metis zero_less_numeral)
  show thesis
    by (rule that [of b r f f' a' r' c' c])
      (use front a r c in \<open>auto simp: lay_empire_def Let_def\<close>)
qed

text \<open>The planets of an empire with a flag, while the empires are laid out one by one.\<close>

definition quota :: "int \<Rightarrow> nat \<Rightarrow> game \<Rightarrow> nat set" where
  "quota m t g = {10 * t..<10 * t + 10} \<inter> flagged m g"

definition laid_out :: "nat \<Rightarrow> game \<Rightarrow> bool" where
  "laid_out t g \<longleftrightarrow> card (quota PLAGRI t g) = 2 \<and> card (quota PLREPAIR t g) = 3 \<and>
     3 \<le> card (quota PLFUEL t g) \<and> card (quota PLFUEL t g) \<le> 5"

definition untouched :: "nat \<Rightarrow> game \<Rightarrow> bool" where
  "untouched t g \<longleftrightarrow> quota PLAGRI t g = {} \<and> quota PLREPAIR t g = {10 * t} \<and> quota PLFUEL t g = {10 * t}"

lemma quota_other:
  assumes "L \<subseteq> {10 * i<..<10 * i + 10}" and "flagged m h = L \<union> flagged m g" and "t \<noteq> i"
  shows "quota m t h = quota m t g"
proof -
  have "{10 * t..<10 * t + 10} \<inter> {10 * i<..<10 * i + 10} = {}"
    using assms(3) by (cases "t < i") auto
  with assms(1,2) show ?thesis by (auto simp: quota_def)
qed

lemma quota_own:
  assumes "L \<subseteq> {10 * i<..<10 * i + 10}" and "flagged m h = L \<union> flagged m g"
  shows "quota m i h = L \<union> quota m i g"
  using assms by (auto simp: quota_def)

lemma card_five: "card {a, b, c, d, e} \<le> 5" "card {b, c} \<le> 2"
  by (simp_all add: card_insert_if)

lemma lay_empire_quota:
  assumes "i < 4" and "untouched i g"
  shows "laid_out i (lay_empire i g)"
    and "t \<noteq> i \<Longrightarrow> quota PLAGRI t (lay_empire i g) = quota PLAGRI t g"
    and "t \<noteq> i \<Longrightarrow> quota PLREPAIR t (lay_empire i g) = quota PLREPAIR t g"
    and "t \<noteq> i \<Longrightarrow> quota PLFUEL t (lay_empire i g) = quota PLFUEL t g"
proof -
  obtain a r f f' a' r' c c' where fr: "{a, r, f, f'} \<subseteq> front_set i" and co: "{a', r', c, c'} \<subseteq> core_set i"
    and A: "flagged PLAGRI (lay_empire i g) = {a, a'} \<union> flagged PLAGRI g"
    and R: "flagged PLREPAIR (lay_empire i g) = {r, r'} \<union> flagged PLREPAIR g"
    and F: "flagged PLFUEL (lay_empire i g) = {f, f', c, c'} \<union> flagged PLFUEL g"
    using lay_empire_flagged [OF assms(1), of g] by metis
  note reg = regions(3,4,5) [OF assms(1)]
  have sub: "{a, a'} \<subseteq> {10 * i<..<10 * i + 10}" "{r, r'} \<subseteq> {10 * i<..<10 * i + 10}"
      "{f, f', c, c'} \<subseteq> {10 * i<..<10 * i + 10}"
    using fr co reg(1,2) by auto
  have ne: "a \<noteq> a'" "r \<noteq> r'" "f \<noteq> c" "f \<noteq> 10 * i" "c \<noteq> 10 * i" "r \<noteq> 10 * i" "r' \<noteq> 10 * i"
    using fr co reg(3) sub by auto
  have own: "quota PLAGRI i (lay_empire i g) = {a, a'}"
      "quota PLREPAIR i (lay_empire i g) = {r, r', 10 * i}"
      "quota PLFUEL i (lay_empire i g) = {f, f', c, c', 10 * i}"
    using quota_own [OF sub(1) A] quota_own [OF sub(2) R] quota_own [OF sub(3) F] assms(2)
    by (auto simp: untouched_def)
  have "card {f, c, 10 * i} \<le> card {f, f', c, c', 10 * i}" by (rule card_mono) auto
  then show "laid_out i (lay_empire i g)"
    using ne card_five by (simp add: laid_out_def own)
  show "t \<noteq> i \<Longrightarrow> quota PLAGRI t (lay_empire i g) = quota PLAGRI t g"
    using quota_other [OF sub(1) A] .
  show "t \<noteq> i \<Longrightarrow> quota PLREPAIR t (lay_empire i g) = quota PLREPAIR t g"
    using quota_other [OF sub(2) R] .
  show "t \<noteq> i \<Longrightarrow> quota PLFUEL t (lay_empire i g) = quota PLFUEL t g"
    using quota_other [OF sub(3) F] .
qed

lemma lay_empires:
  assumes "n \<le> 4" and "\<And>t. t < 4 \<Longrightarrow> untouched t g"
  shows "\<forall>t<4. if t < n then laid_out t (for_upto n lay_empire g) else untouched t (for_upto n lay_empire g)"
  using assms(1)
proof (induction n)
  case 0
  then show ?case using assms(2) by simp
next
  case (Suc n)
  let ?g = "for_upto n lay_empire g"
  have n: "n < 4" and IH: "\<forall>t<4. if t < n then laid_out t ?g else untouched t ?g"
    using Suc by simp_all
  then have "untouched n ?g" by simp
  note step = lay_empire_quota [OF n this]
  show ?case
  proof (intro allI impI)
    fix t :: nat
    assume "t < 4"
    show "if t < Suc n then laid_out t (for_upto (Suc n) lay_empire g)
          else untouched t (for_upto (Suc n) lay_empire g)"
      using IH \<open>t < 4\<close> step by (cases "t = n") (auto simp: laid_out_def untouched_def less_Suc_eq)
  qed
qed

lemma for_planets:
  "planets (for_upto n (\<lambda>i. upd_planet i (f i)) g) l = (if l < n then f l (planets g l) else planets g l)"
  by (induction n) (auto simp: less_Suc_eq)

lemma for_planets_cfg [simp]: "cfg (for_upto n (\<lambda>i. upd_planet i (f i)) g) = cfg g"
  by (rule for_upto_same) simp

lemma virginal_flags:
  assumes "l < MAXPLANETS"
  shows "meets (pl_flags (virginal ! l)) PLAGRI = False"
    "meets (pl_flags (virginal ! l)) PLREPAIR = (l mod 10 = 0)"
    "meets (pl_flags (virginal ! l)) PLFUEL = (l mod 10 = 0)"
proof -
  have len: "length virginal = 40" by (simp add: virginal_def)
  have "list_all2 (\<lambda>l p. \<not> meets (pl_flags p) PLAGRI \<and> meets (pl_flags p) PLREPAIR = (l mod 10 = 0) \<and>
      meets (pl_flags p) PLFUEL = (l mod 10 = 0)) [0..<40] virginal"
    by (simp add: virginal_def virgin_def meets_def upt_rec)
  then have "\<not> meets (pl_flags (virginal ! l)) PLAGRI \<and> meets (pl_flags (virginal ! l)) PLREPAIR = (l mod 10 = 0) \<and>
      meets (pl_flags (virginal ! l)) PLFUEL = (l mod 10 = 0)"
    using assms by (auto dest!: list_all2_nthD [where p = l] simp: len)
  then show "meets (pl_flags (virginal ! l)) PLAGRI = False"
    "meets (pl_flags (virginal ! l)) PLREPAIR = (l mod 10 = 0)"
    "meets (pl_flags (virginal ! l)) PLFUEL = (l mod 10 = 0)" by simp_all
qed

lemma virgin_untouched:
  assumes "t < 4"
  shows "untouched t (for_upto MAXPLANETS (\<lambda>i. upd_planet i (\<lambda>p. p\<lparr>pl_armies := n\<rparr>)) (pl_virgin g))"
proof -
  let ?g = "for_upto MAXPLANETS (\<lambda>i. upd_planet i (\<lambda>p. p\<lparr>pl_armies := n\<rparr>)) (pl_virgin g)"
  have fl: "pl_flags (planets ?g l) = pl_flags (virginal ! l)" if "l < MAXPLANETS" for l
    using that by (simp add: for_planets pl_virgin_def)
  have "{10 * t..<10 * t + 10} \<inter> {l. l < MAXPLANETS \<and> l mod 10 = 0} = {10 * t}"
    using assms by (auto; presburger)
  moreover have eq: "flagged m ?g = {l. l < MAXPLANETS \<and> meets (pl_flags (virginal ! l)) m}" for m
    using fl by (auto simp: flagged_def)
  then have "flagged PLAGRI ?g = {}" "flagged PLREPAIR ?g = {l. l < MAXPLANETS \<and> l mod 10 = 0}"
      "flagged PLFUEL ?g = {l. l < MAXPLANETS \<and> l mod 10 = 0}"
    using virginal_flags by auto
  ultimately show ?thesis by (simp add: untouched_def quota_def)
qed

text \<open>
  A new galaxy gives every empire two agricultural planets, three that repair, and
  between three and five with fuel, whatever the dice: the searches for a planet that has no fuel
  yet give up after a bounded number of throws.
\<close>

theorem pl_reset_quotas:
  assumes "\<not> recreational_dogfight_mode (cfg g)" and "t < 4"
  defines "has_flag \<equiv> \<lambda>m l. meets (pl_flags (planets (pl_reset g) l)) m"
  shows "card {l \<in> {10 * t..<10 * t + 10}. has_flag PLAGRI l} = 2 \<and>
    card {l \<in> {10 * t..<10 * t + 10}. has_flag PLREPAIR l} = 3 \<and>
    card {l \<in> {10 * t..<10 * t + 10}. has_flag PLFUEL l} \<in> {3..5}"
proof -
  have "laid_out t (pl_reset g)"
    using lay_empires [OF order_refl virgin_untouched] assms(1,2)
    by (simp add: pl_reset_def Let_def pl_virgin_def)
  moreover have "quota m t (pl_reset g) = {l \<in> {10 * t..<10 * t + 10}. has_flag m l}" for m
    using assms(2) by (auto simp: quota_def flagged_def has_flag_def)
  ultimately show ?thesis by (simp add: laid_out_def)
qed

theorem pl_reset_quotas_witness:
  "card {l \<in> {20..<30}. meets (pl_flags (planets (pl_reset blank_game) l)) PLAGRI} = 2"
  using pl_reset_quotas [of blank_game 2] by (simp add: blank_game_def blank_sysdef_def)

end
