(* ===== verification/Weapons.thy ===== *)
theory Weapons
  imports Util Ltd Sintab
begin

text \<open>
  Firing: photon torpedoes (\<^verbatim>\<open>ntserv/torp.c\<close>), plasma (\<^verbatim>\<open>ntserv/plasma.c\<close>), phasers
  (\<^verbatim>\<open>ntserv/phaser.c\<close>) and detonating the torpedoes of others (\<^verbatim>\<open>ntserv/detonate.c\<close>).  The
  lemmas are about the torpedo slots of a player, the adjusted costs, and what a phaser hits.
\<close>

text \<open>Ticks per frame.\<close>

definition TPF :: "game \<Rightarrow> int" where
  "TPF g = fps (cfg g) sdiv 10"

definition first_torp :: "player \<Rightarrow> nat" where "first_torp p = MAXTORP * p_no p"

definition first_plasma :: "player \<Rightarrow> nat" where
  "first_plasma p = MAXTORP * MAXPLAYER + MAXPLASMA * p_no p"

definition enemyTorp :: "player \<Rightarrow> torp \<Rightarrow> bool" where
  "enemyTorp p t \<longleftrightarrow> meets (p_team p) (t_war t) \<or> meets (t_team t) (p_war p)"

subsection \<open>Torpedo speed and cost\<close>

text \<open>
  The nearest integer to the square root of \<open>n / 100000000\<close>, halves to even: the components of
  the sum of the two vectors are multiples of one ten-thousandth.
\<close>

definition round_speed :: "nat \<Rightarrow> nat" where
  "round_speed n =
     (let r = isqrt n; q = r div 10000
      in if r mod 10000 < 5000 then q
         else if n = (10000 * q + 5000) * (10000 * q + 5000) \<and> even q then q
         else q + 1)"

definition torpGetVectorSpeed :: "8 word \<Rightarrow> int \<Rightarrow> 8 word \<Rightarrow> int \<Rightarrow> int" where
  "torpGetVectorSpeed pdir pspeed tdir tspeed =
     (let x = Cos10k pdir * (pspeed * WARP1) + Cos10k tdir * (tspeed * WARP1);
          y = Sin10k pdir * (pspeed * WARP1) + Sin10k tdir * (tspeed * WARP1);
          newspeed = int (round_speed (nat (x * x + y * y)))
      in if newspeed > 20 * WARP1 then 20 * WARP1 else newspeed)"

datatype torp_adj = TORP_ADJ_FUEL | TORP_ADJ_ETEMP | TORP_ADJ_WTEMP

text \<open>The difference in direction: from 129 on the source subtracts from 255.\<close>

definition torp_delta :: "8 word \<Rightarrow> 8 word \<Rightarrow> int" where
  "torp_delta pdir tdir =
     (let d = \<bar>uint pdir - uint tdir\<bar> in if d > 128 then 255 - d else d)"

definition torp_base_cost :: "sysdef \<Rightarrow> player \<Rightarrow> int \<Rightarrow> torp_adj \<Rightarrow> int" where
  "torp_base_cost c p delta a =
     (let s = p_ship p; heat = s_torpcost s sdiv 10 - 10 in
      case a of
        TORP_ADJ_FUEL \<Rightarrow>
          if p_cloakphase p \<noteq> 0 \<and> s_type s \<noteq> ATT then 2 * s_torpcost s else s_torpcost s
      | TORP_ADJ_WTEMP \<Rightarrow> heat
      | TORP_ADJ_ETEMP \<Rightarrow>
          if (s_type s = STARBASE \<and> asstorp_base c = 0) \<or> asstorp_etemp_mult c \<le> 1 \<or> delta < 42
          then 0 else heat)"

definition torp_adj_mult :: "sysdef \<Rightarrow> torp_adj \<Rightarrow> rat" where
  "torp_adj_mult c a =
     (case a of TORP_ADJ_FUEL \<Rightarrow> asstorp_fuel_mult c | TORP_ADJ_WTEMP \<Rightarrow> asstorp_wtemp_mult c
      | TORP_ADJ_ETEMP \<Rightarrow> asstorp_etemp_mult c)"

definition getAdjTorpCost :: "sysdef \<Rightarrow> player \<Rightarrow> 8 word \<Rightarrow> torp_adj \<Rightarrow> int" where
  "getAdjTorpCost c p torpdir a =
     (let delta = torp_delta (p_dir p) torpdir;
          base_cost = torp_base_cost c p delta a; base_adj = torp_adj_mult c a
      in if s_type (p_ship p) = STARBASE \<and> asstorp_base c = 0 then base_cost
         else if base_adj \<le> 1 then base_cost
         else if base_cost \<le> 0 then 0
         else if delta < 42 then base_cost
         else
           let speed_adj = of_int (p_speed p) / of_int (s_maxspeed (p_ship p));
               dir_adj = (if delta > 92 then 1 else 1/2);
               net_adj = 1 + (base_adj - 1) * speed_adj * dir_adj
           in trunc (of_int base_cost * net_adj))"

subsection \<open>Photon torpedoes\<close>

text \<open>The tests before a torpedo is launched, in order, up to the lockouts of the teacher.\<close>

definition forward_only :: "game \<Rightarrow> nat \<Rightarrow> 8 word \<Rightarrow> bool" where
  "forward_only g me course \<longleftrightarrow>
     (let p = players g me; t = topgun (cfg g); delta = \<bar>uint (p_dir p) - uint course\<bar>
      in t \<noteq> 0 \<and> s_type (p_ship p) \<noteq> STARBASE \<and> delta > t \<and> delta < 256 - t)"

definition teacher_refuses :: "nat \<Rightarrow> game \<Rightarrow> string option" where
  "teacher_refuses me g =
     (if teacher_torps_some (ctxt g) then
        if pflag me PFGREEN g
        then Some ''Green alert. Teacher says there's nothing here to shoot at! Fly forward.''
        else if p_kills (players g me) < 1
        then Some ''No kills. Teacher says you should learn phasers first! Middle button.''
        else None
      else None)"

definition launch_torp :: "nat \<Rightarrow> 8 word \<Rightarrow> int \<Rightarrow> int \<Rightarrow> int \<Rightarrow> int \<Rightarrow> game \<Rightarrow> game" where
  "launch_torp me course attributes c_fuel c_etemp c_wtemp g =
     (let k = (case first_in (first_torp (players g me)) (first_torp (players g me) + MAXTORP)
                      (\<lambda>k. t_status (torps g k) = TFREE) of
                 Some k \<Rightarrow> k | None \<Rightarrow> first_torp (players g me) + MAXTORP);
          g = upd_proc me (\<lambda>m. m\<lparr>last_torp_fired_update := p_updates (players g me)\<rparr>) g;
          g = upd_player me (\<lambda>p. p\<lparr>p_ntorp := p_ntorp p + 1, p_fuel := p_fuel p - c_fuel,
                p_wtemp := p_wtemp p + c_wtemp, p_etemp := p_etemp p + c_etemp\<rparr>) g;
          p = players g me; s = p_ship p;
          g = upd_torp k (\<lambda>t. (t_x_y_set (p_x p) (p_y p) (t\<lparr>t_status := TMOVE, t_type := TPHOTON,
                t_attribute := attributes, t_owner := p_no p\<rparr>))\<lparr>t_turns := s_torpturns s,
                t_damage := s_torpdamage s,
                t_gspeed := (if meets attributes TVECTOR
                  then torpGetVectorSpeed (p_dir p) (p_speed p) course (s_torpspeed s)
                  else s_torpspeed s * WARP1),
                t_fuse := (s_torpfuse s + rand_val g mod 20) * TPF g,
                t_dir := course, t_war := p_war p, t_team := p_team p, t_whodet := None\<rparr>) (rand_next g)
      in ltd_update_torp_fired me g)"

definition ntorp :: "nat \<Rightarrow> 8 word \<Rightarrow> int \<Rightarrow> game \<Rightarrow> game" where
  "ntorp me course attributes g =
     (let p = players g me; s = p_ship p; c = cfg g;
          c_fuel = getAdjTorpCost c p course TORP_ADJ_FUEL;
          c_etemp = getAdjTorpCost c p course TORP_ADJ_ETEMP;
          c_wtemp = getAdjTorpCost c p course TORP_ADJ_WTEMP;
          hot = pflag me PFWEP g;
          g' = (if hot then warn me 25 ''Torpedo launch tubes have exceeded maximum safe temperature!'' g else g)
      in if gu GU_CONQUER g then g
         else if p_updates p = last_torp_fired_update (procs g me) then g
         else if hot \<and> \<not> chaosmode c then g'
         else if p_ntorp p = int MAXTORP then
           warn me 26 ''Our computers limit us to having 8 live torpedos at a time captain!'' g'
         else if p_fuel p < c_fuel then
           warn me 27 ''We don't have enough fuel to fire photon torpedos!'' g'
         else if pflag me PFREPAIR g then
           warn me 28 ''We cannot fire while our vessel is in repair mode.'' g'
         else if p_cloakphase p \<noteq> 0 \<and> s_type s \<noteq> ATT then
           warn me 29 ''We are unable to fire while in cloak, captain!'' g'
         else if forward_only g me course then
           warn me 30 ''We only have forward mounted cannons.'' g'
         else if pflag me PFENG g \<and> c_etemp > 0 \<and> asstorp_etemp_mult c > 1 \<and>
                 (s_type s \<noteq> STARBASE \<or> asstorp_base c \<noteq> 0) then
           warn me UNDEF ''Engines have overheated rear torpedos tubes.'' g'
         else if teacher_torps_none (ctxt g) then
           warn me UNDEF (if teacher_phasers_none (ctxt g)
             then ''Teacher has locked out the torpedo controls!''
             else ''Teacher has locked out the torpedo controls!  Use phasers.  Middle button.'') g'
         else case teacher_refuses me g of
                Some msg \<Rightarrow> warn me UNDEF msg g'
              | None \<Rightarrow> launch_torp me course attributes c_fuel c_etemp c_wtemp g')"

subsection \<open>Plasma\<close>

definition launch_plasma :: "nat \<Rightarrow> 8 word \<Rightarrow> int \<Rightarrow> nat \<Rightarrow> game \<Rightarrow> game" where
  "launch_plasma me course attributes k g =
     (let s = p_ship (players g me);
          g = upd_player me (\<lambda>p. p\<lparr>p_nplasmatorp := p_nplasmatorp p + 1,
                p_fuel := p_fuel p - s_plasmacost s,
                p_wtemp := p_wtemp p + (s_plasmacost s sdiv 10 - 8)\<rparr>) g;
          p = players g me;
          g = upd_torp k (\<lambda>t. (t_x_y_set (p_x p) (p_y p) (t\<lparr>t_status := TMOVE, t_type := TPLASMA,
                t_attribute := attributes, t_owner := p_no p\<rparr>))\<lparr>t_turns := s_plasmaturns s,
                t_damage := s_plasmadamage s,
                t_gspeed := (if meets attributes TVECTOR
                  then torpGetVectorSpeed (p_dir p) (p_speed p) course (s_plasmaspeed s)
                  else s_plasmaspeed s * WARP1),
                t_fuse := s_plasmafuse s * TPF g,
                t_dir := (if s_type s = STARBASE \<or> s_type s = ATT then course else p_dir p),
                t_war := p_war p, t_team := p_team p, t_whodet := None\<rparr>) g
      in ltd_update_plasma_fired me g)"

definition nplasmatorp :: "nat \<Rightarrow> 8 word \<Rightarrow> int \<Rightarrow> game \<Rightarrow> game" where
  "nplasmatorp me course attributes g =
     (let p = players g me; s = p_ship p; c = cfg g; hot = pflag me PFWEP g;
          g' = (if hot then warn me 19 ''Plasma torpedo launch tube has exceeded the maximum safe temperature!'' g else g)
      in if \<not> wp_plasma c then warn me 17 ''Plasmas haven't been invented yet.'' g
         else if s_plasmacost s < 0 then
           warn me 18 ''Weapon's Officer:  Captain, this ship is not armed with plasma torpedoes!'' g
         else if hot \<and> \<not> chaosmode c then g'
         else if p_nplasmatorp p = int MAXPLASMA \<and> s_type s \<noteq> ATT then
           warn me 20 ''Our fire control system limits us to 1 live torpedo at a time captain!'' g'
         else if p_fuel p < s_plasmacost s then
           warn me 22 ''We don't have enough fuel to fire a plasma torpedo!'' g'
         else if pflag me PFREPAIR g then
           warn me 23 ''We cannot fire while our vessel is undergoing repairs.'' g'
         else if p_cloakphase p \<noteq> 0 \<and> s_type s \<noteq> ATT then
           warn me 24 ''We are unable to fire while in cloak, captain!'' g'
         else case first_in (first_plasma p) (first_plasma p + MAXPLASMA) (\<lambda>k. t_status (torps g k) = TFREE) of
                None \<Rightarrow> warn me UNDEF ''We are out of plasma, for the moment, Captain!'' g'
              | Some k \<Rightarrow>
                  if teacher_torps_none (ctxt g) then
                    warn me UNDEF ''Teacher has locked out the plasma controls!'' g'
                  else case teacher_refuses me g of
                         Some msg \<Rightarrow> warn me UNDEF msg g'
                       | None \<Rightarrow> launch_plasma me course attributes k g')"

subsection \<open>Phasers\<close>

text \<open>
  Whether a point, relative to the ship, is close enough to the line of fire: the nearest point
  of the line is within \<open>d\<close> of it.  Behind the ship the nearest point is the ship itself for
  players, and nothing is hit for plasma.
\<close>

definition near_line :: "8 word \<Rightarrow> int \<Rightarrow> int \<Rightarrow> int \<Rightarrow> bool \<Rightarrow> bool" where
  "near_line course a b d behind \<longleftrightarrow>
     (let C = Cos course * of_int (10 * PHASEDIST); D = Sin course * of_int (10 * PHASEDIST);
          s = (of_int a * C + of_int b * D) / of_int (10 * PHASEDIST * 10 * PHASEDIST)
      in if s < 0 \<and> \<not> behind then False
         else
           let s = (if s < 0 then 0 else s);
               dx = trunc (C * s) - a; dy = trunc (D * s) - b
           in \<bar>dx\<bar> \<le> d \<and> \<bar>dy\<bar> \<le> d \<and> dx * dx + dy * dy \<le> d * d)"

text \<open>The search keeps the range so far, its square, and the target so far.\<close>

type_synonym aim = "int \<times> int \<times> nat option"

definition closer :: "int \<Rightarrow> int \<Rightarrow> aim \<Rightarrow> bool" where
  "closer a b = (\<lambda>(reach, reach_sq, _).
     \<not> (a \<ge> reach \<or> a \<le> - reach) \<and> \<not> (b \<ge> reach \<or> b \<le> - reach) \<and> a * a + b * b < reach_sq)"

definition take_aim :: "nat \<Rightarrow> int \<Rightarrow> int \<Rightarrow> aim" where
  "take_aim j a b = (int (round_sqrt (nat (a * a + b * b))), a * a + b * b, Some j)"

definition phasable :: "nat \<Rightarrow> nat \<Rightarrow> game \<Rightarrow> bool" where
  "phasable me j g \<longleftrightarrow>
     p_status (players g j) = PALIVE \<and> j \<noteq> me \<and>
     (meets (p_war (players g j)) (p_team (players g me)) \<or>
      meets (p_war (players g me)) (p_team (players g j))) \<and>
     \<not> is_idle j g"

definition aim_player :: "nat \<Rightarrow> 8 word \<Rightarrow> game \<Rightarrow> nat \<Rightarrow> aim \<Rightarrow> aim" where
  "aim_player me course g j aim =
     (let a = p_x (players g j) - p_x (players g me); b = p_y (players g j) - p_y (players g me)
      in if phasable me j g \<and> closer a b aim \<and> near_line course a b ZAPPLAYERDIST True
         then take_aim j a b else aim)"

definition phaser_range :: "player \<Rightarrow> int" where
  "phaser_range p = (PHASEDIST * s_phaserdamage (p_ship p)) sdiv 100"

definition aim_players :: "nat \<Rightarrow> 8 word \<Rightarrow> game \<Rightarrow> aim" where
  "aim_players me course g =
     (let r = phaser_range (players g me)
      in for_upto MAXPLAYER (aim_player me course g) (r + 1, r * r + 1, None))"

definition plasma_at :: "nat \<Rightarrow> nat" where "plasma_at i = MAXTORP * MAXPLAYER + i"

definition plasma_target :: "nat \<Rightarrow> nat \<Rightarrow> game \<Rightarrow> bool" where
  "plasma_target me i g \<longleftrightarrow>
     (let t = torps g (plasma_at i); p = players g me in
      t_status t = TMOVE \<and> t_owner t \<noteq> p_no p \<and>
      (pingpong_plasma (cfg g) \<or> meets (t_war t) (p_team p) \<or> meets (p_war p) (t_team t)))"

definition aim_plasma :: "nat \<Rightarrow> 8 word \<Rightarrow> game \<Rightarrow> nat \<Rightarrow> aim \<Rightarrow> aim" where
  "aim_plasma me course g i aim =
     (let t = torps g (plasma_at i);
          a = t_x t - p_x (players g me); b = t_y t - p_y (players g me)
      in if plasma_target me i g \<and> closer a b aim \<and> near_line course a b ZAPPLASMADIST False
         then take_aim i a b else aim)"

text \<open>The plasma search goes on from the range the player search has left.\<close>

definition aim_plasmas :: "nat \<Rightarrow> 8 word \<Rightarrow> game \<Rightarrow> aim \<Rightarrow> aim" where
  "aim_plasmas me course g = (\<lambda>(reach, reach_sq, _).
     for_upto (MAXPLASMA * MAXPLAYER) (aim_plasma me course g) (reach, reach_sq, None))"

text \<open>The damage: the full charge at the ship, nothing at the end of the range.\<close>

definition phaser_damage :: "player \<Rightarrow> int \<Rightarrow> int" where
  "phaser_damage p reach =
     trunc (of_int (s_phaserdamage (p_ship p)) * (1 - of_int reach / of_int (phaser_range p)))"

definition discharge :: "nat \<Rightarrow> 8 word \<Rightarrow> phstatus \<Rightarrow> game \<Rightarrow> game" where
  "discharge me course st g =
     (let p = players g me; s = p_ship p;
          g = upd_phaser (p_no p) (\<lambda>h. h\<lparr>ph_status := st, ph_dir := course, ph_fuse := s_phaserfuse s\<rparr>) g;
          g = upd_player me (\<lambda>p. p\<lparr>p_fuel := p_fuel p - s_phasercost s,
                p_wtemp := p_wtemp p + s_phasercost s sdiv 10\<rparr>) g
      in ltd_update_phaser_fired me g)"

definition hit_player :: "nat \<Rightarrow> nat \<Rightarrow> int \<Rightarrow> game \<Rightarrow> game" where
  "hit_player me j reach g =
     (let p = players g me; n = phaser_damage p reach; victim = p_no (players g j);
          g = upd_phaser (p_no p) (\<lambda>h. h\<lparr>ph_target := victim, ph_damage := n\<rparr>) g;
          g = ltd_update_phaser_damage me j n g
      in if send_short (procs g me) \<and> victim < 64 \<and> n < 1024
         then emit (Swarning me ''PHASER_HIT_TEXT''
                      (int victim AND 63 OR (n AND 768) div 4) (n AND 255)) g
         else warn me UNDEF ''Phaser burst hit %s for %d points'' g)"

text \<open>
  Ping-pong plasma: the plasma changes hands.  The turn of a hostile one is random; the source
  seeds the generator from the clock first.
\<close>

definition take_plasma :: "nat \<Rightarrow> nat \<Rightarrow> int \<Rightarrow> game \<Rightarrow> game" where
  "take_plasma me k n g =
     (let g = upd_player (t_owner (torps g k)) (\<lambda>p. p\<lparr>p_nplasmatorp := p_nplasmatorp p - 1\<rparr>) g;
          g = upd_torp k (\<lambda>t. t\<lparr>t_owner := p_no (players g me)\<rparr>) g;
          g = upd_player me (\<lambda>p. p\<lparr>p_nplasmatorp := p_nplasmatorp p + 1\<rparr>) g
      in upd_torp k (\<lambda>t. t\<lparr>t_team := p_team (players g me), t_war := p_hostile (players g me),
           t_fuse := trunc (of_int (t_fuse t) + (of_int n * (1/4) + 5) * of_int (TPF g))\<rparr>) g)"

definition return_plasma :: "nat \<Rightarrow> nat \<Rightarrow> int \<Rightarrow> game \<Rightarrow> game" where
  "return_plasma me k n g =
     (let turn = (if rand_val g mod 9 < 8 then 128 else 80); g = rand_next g;
          more = rand_val g mod 9 < 7; g = rand_next g;
          g = upd_torp k (\<lambda>t. t\<lparr>t_damage := t_damage t + n sdiv 4, t_gspeed := t_gspeed t + n sdiv 100,
                t_turns := (if more then t_turns t + 1 else t_turns t), t_dir := t_dir t + turn\<rparr>) g
      in warn me UNDEF ''Ping-Pong!'' (take_plasma me k n g))"

definition deflect_plasma :: "nat \<Rightarrow> nat \<Rightarrow> int \<Rightarrow> game \<Rightarrow> game" where
  "deflect_plasma me k n g =
     (let g = upd_torp k (\<lambda>t. t\<lparr>t_damage := t_damage t + n, t_gspeed := t_gspeed t + n sdiv 100,
                t_turns := t_turns t + 1, t_dir := p_dir (players g me)\<rparr>) g
      in warn me UNDEF ''You deflected the plasma!'' (take_plasma me k n g))"

definition phaser_point :: "nat \<Rightarrow> torp \<Rightarrow> game \<Rightarrow> game" where
  "phaser_point me t g =
     upd_phaser (p_no (players g me)) (\<lambda>h. h\<lparr>ph_x := t_x t, ph_y := t_y t\<rparr>) g"

definition hit_plasma :: "nat \<Rightarrow> nat \<Rightarrow> int \<Rightarrow> game \<Rightarrow> game" where
  "hit_plasma me i reach g =
     (let k = plasma_at i; t = torps g k; p = players g me; n = phaser_damage p reach;
          g = ltd_update_plasma_phasered (t_owner t) g
      in if pingpong_plasma (cfg g) then
           let g = upd_phaser (p_no p) (\<lambda>h. h\<lparr>ph_damage := n\<rparr>) g; g = phaser_point me t g;
               g = upd_phaser (p_no p) (\<lambda>h. h\<lparr>ph_status := PHHIT2\<rparr>) g
           in if meets (t_war t) (p_team p) \<or> meets (p_hostile p) (t_team t)
              then return_plasma me k n g else deflect_plasma me k n g
         else
           warn me 38 ''You destroyed the plasma torpedo!''
             (upd_torp k (\<lambda>t. t\<lparr>t_status := TDET, t_whodet := Some (p_no p)\<rparr>) (phaser_point me t g)))"

definition fire_phaser :: "nat \<Rightarrow> 8 word \<Rightarrow> game \<Rightarrow> game" where
  "fire_phaser me course g =
     (let aim = aim_players me course g; (_, _, target) = aim;
          (reach, _, plasma) = aim_plasmas me course g aim
      in case plasma of
           Some i \<Rightarrow> hit_plasma me i reach (ltd_update_phaser_hit me (discharge me course PHHIT2 g))
         | None \<Rightarrow>
             (case target of
                Some j \<Rightarrow> hit_player me j reach (ltd_update_phaser_hit me (discharge me course PHHIT g))
              | None \<Rightarrow> warn me 37 ''Phaser missed.'' (discharge me course PHMISS g)))"

definition phaser_cmd :: "nat \<Rightarrow> 8 word \<Rightarrow> game \<Rightarrow> game" where
  "phaser_cmd me course g =
     (let p = players g me; s = p_ship p; hot = pflag me PFWEP g;
          g' = (if hot then warn me 35 ''Weapons overheated'' g else g)
      in if gu GU_CONQUER g then g
         else if ph_status (phasers g (p_no p)) \<noteq> PHFREE then warn me 32 ''Phasers have not recharged.'' g
         else if p_fuel p < s_phasercost s then warn me 33 ''Not enough fuel for phaser.'' g
         else if pflag me PFREPAIR g then warn me 34 ''Can't fire while repairing.'' g
         else if hot \<and> \<not> chaosmode (cfg g) then g'
         else if p_cloakphase p \<noteq> 0 \<and> s_type s \<noteq> ATT then warn me 36 ''Cannot fire while cloaked'' g'
         else if s_phasercost s < 0 then
           warn me 31 ''Weapons Officer:  This ship is not armed with phasers, captain!'' g'
         else if teacher_phasers_none (ctxt g) then
           warn me UNDEF ''Teacher has locked out the phaser controls!'' g'
         else fire_phaser me course g')"

subsection \<open>Detonating the torpedoes of others\<close>

definition in_det_range :: "player \<Rightarrow> torp \<Rightarrow> bool" where
  "in_det_range p t \<longleftrightarrow>
     (let dx = t_x t - p_x p; dy = t_y t - p_y p
      in \<not> (dx > DETDIST \<or> dx < - DETDIST) \<and> \<not> (dy > DETDIST \<or> dy < - DETDIST) \<and>
         dx * dx + dy * dy \<le> DETDIST * DETDIST)"

definition det_torp :: "nat \<Rightarrow> nat \<Rightarrow> nat \<Rightarrow> game \<Rightarrow> game" where
  "det_torp me j k g =
     (if enemyTorp (players g me) (torps g k) \<and> t_status (torps g k) = TMOVE \<and>
         in_det_range (players g me) (torps g k)
      then ltd_update_torp_detted j
             (upd_torp k (\<lambda>t. t\<lparr>t_status := TDET, t_whodet := Some (p_no (players g me))\<rparr>) g)
      else g)"

definition det_all :: "nat \<Rightarrow> game \<Rightarrow> game" where
  "det_all me g =
     for_upto MAXPLAYER (\<lambda>j g.
       if p_status (players g j) = PFREE then g
       else for_upto MAXTORP (\<lambda>n. det_torp me j (first_torp (players g j) + n)) g) g"

definition detothers :: "nat \<Rightarrow> game \<Rightarrow> game" where
  "detothers me g =
     (let p = players g me; s = p_ship p; hot = pflag me PFWEP g;
          g' = (if hot then warn me UNDEF ''Weapons overheated'' g else g)
      in if gu GU_CONQUER g then g
         else if p_fuel p < s_detcost s then warn me UNDEF ''Not enough fuel to detonate'' g
         else if hot \<and> \<not> chaosmode (cfg g) then g'
         else det_all me (upd_player me (\<lambda>p. p\<lparr>p_fuel := p_fuel p - s_detcost s,
                p_wtemp := p_wtemp p + s_detcost s sdiv 5\<rparr>) g'))"

subsection \<open>The torpedo slots of a player\<close>

definition torps_in_use :: "nat \<Rightarrow> game \<Rightarrow> nat" where
  "torps_in_use i g = count_upto MAXTORP (\<lambda>n. t_status (torps g (MAXTORP * i + n)) \<noteq> TFREE)"

lemma t_x_y_set_simps [simp]:
  "t_status (t_x_y_set x y k) = t_status k" "t_owner (t_x_y_set x y k) = t_owner k"
  "t_type (t_x_y_set x y k) = t_type k" "t_attribute (t_x_y_set x y k) = t_attribute k"
  by (simp_all add: t_x_y_set_def)

text \<open>Either a torpedo is not launched, and nothing but a warning happens, or all tests passed.\<close>

lemma ntorp_cases:
  obtains (refused) "players (ntorp me course a g) = players g" "torps (ntorp me course a g) = torps g"
  | (fired) cf ce cw h where "ntorp me course a g = launch_torp me course a cf ce cw h"
      and "players h = players g" and "torps h = torps g" and "p_ntorp (players g me) \<noteq> int MAXTORP"
      and "cf = getAdjTorpCost (cfg g) (players g me) course TORP_ADJ_FUEL" and "cf \<le> p_fuel (players g me)"
proof -
  define h where "h = (if pflag me PFWEP g
    then warn me 25 ''Torpedo launch tubes have exceeded maximum safe temperature!'' g else g)"
  have h: "players h = players g" "torps h = torps g" by (simp_all add: h_def)
  let ?c = "\<lambda>adj. getAdjTorpCost (cfg g) (players g me) course adj"
  define ok where "ok r \<longleftrightarrow> players r = players g \<and> torps r = torps g \<or>
    r = launch_torp me course a (?c TORP_ADJ_FUEL) (?c TORP_ADJ_ETEMP) (?c TORP_ADJ_WTEMP) h \<and>
    p_ntorp (players g me) \<noteq> int MAXTORP \<and> ?c TORP_ADJ_FUEL \<le> p_fuel (players g me)" for r
  have ok: "ok g" "ok h" "ok (warn me n msg h)" for n msg
    by (simp_all add: ok_def h)
  have "ok (ntorp me course a g)"
    unfolding ntorp_def Let_def h_def [symmetric]
    by (intro if_prop [of _ ok] option_prop [of _ ok] ok) (simp add: ok_def)
  then show thesis using refused fired [of _ _ _ h] h unfolding ok_def by blast
qed

text \<open>Where a launched torpedo goes.\<close>

definition torp_slot :: "nat \<Rightarrow> game \<Rightarrow> nat" where
  "torp_slot me g =
     (case first_in (first_torp (players g me)) (first_torp (players g me) + MAXTORP)
             (\<lambda>k. t_status (torps g k) = TFREE) of
        Some k \<Rightarrow> k | None \<Rightarrow> first_torp (players g me) + MAXTORP)"

lemma launch_torp_torps:
  "k \<noteq> torp_slot me g \<Longrightarrow> torps (launch_torp me course a cf ce cw g) k = torps g k"
  "t_status (torps (launch_torp me course a cf ce cw g) (torp_slot me g)) = TMOVE"
  "t_owner (torps (launch_torp me course a cf ce cw g) (torp_slot me g)) = p_no (players g me)"
  by (simp_all add: launch_torp_def Let_def torp_slot_def)

lemma launch_torp_player:
  "p_ntorp (players (launch_torp me course a cf ce cw g) me) = p_ntorp (players g me) + 1"
  "p_fuel (players (launch_torp me course a cf ce cw g) me) = p_fuel (players g me) - cf"
  by (simp_all add: launch_torp_def Let_def)

lemma torps_in_use_full: "torps_in_use i g = MAXTORP \<longleftrightarrow> (\<forall>n<MAXTORP. t_status (torps g (MAXTORP * i + n)) \<noteq> TFREE)"
  unfolding torps_in_use_def by (rule count_upto_all)

lemma torp_slot_free:
  assumes "p_no (players g me) = me" and "torps_in_use me g \<noteq> MAXTORP"
  obtains n where "n < MAXTORP" and "torp_slot me g = MAXTORP * me + n"
    and "t_status (torps g (torp_slot me g)) = TFREE"
proof -
  from assms(2) obtain n where n: "n < MAXTORP" "t_status (torps g (MAXTORP * me + n)) = TFREE"
    by (auto simp: torps_in_use_full)
  let ?P = "\<lambda>k. t_status (torps g k) = TFREE"
  have "first_in (MAXTORP * me) (MAXTORP * me + MAXTORP) ?P \<noteq> None"
    unfolding first_in_None by (intro notI) (drule spec [of _ "MAXTORP * me + n"], simp add: n)
  then obtain k where k: "first_in (MAXTORP * me) (MAXTORP * me + MAXTORP) ?P = Some k" by auto
  from first_in_Some [OF k] have "k - MAXTORP * me < MAXTORP" "k = MAXTORP * me + (k - MAXTORP * me)" "?P k"
    by auto
  with k show thesis using assms(1) by (intro that [of "k - MAXTORP * me"]) (simp_all add: torp_slot_def first_torp_def)
qed

lemma torps_in_use_launch:
  assumes "p_no (players g me) = me" and "torps_in_use me g \<noteq> MAXTORP"
  shows "torps_in_use me (launch_torp me course a cf ce cw g) = Suc (torps_in_use me g)"
proof -
  obtain n where n: "n < MAXTORP" "torp_slot me g = MAXTORP * me + n"
      "t_status (torps g (torp_slot me g)) = TFREE"
    using torp_slot_free [OF assms] .
  show ?thesis unfolding torps_in_use_def
  proof (rule count_upto_insert [OF n(1)])
    show "\<not> t_status (torps g (MAXTORP * me + n)) \<noteq> TFREE" using n by simp
    show "t_status (torps (launch_torp me course a cf ce cw g) (MAXTORP * me + n)) \<noteq> TFREE"
      using launch_torp_torps(2) [of me course a cf ce cw g] n(2) by simp
  qed (use n(2) in \<open>simp add: launch_torp_torps(1)\<close>)
qed

text \<open>
  As long as the number of torpedoes a player's record counts is the number of its slots in
  use, firing keeps it so, never spends more fuel than there is, and changes no torpedo but a
  free slot of the player's own.
\<close>

theorem ntorp_own_free_slot:
  fixes g :: game and me :: nat and course :: "8 word" and a :: int
  assumes "p_no (players g me) = me" and "p_ntorp (players g me) = int (torps_in_use me g)"
    and "0 \<le> p_fuel (players g me)"
  defines "h \<equiv> ntorp me course a g"
  shows "p_ntorp (players h me) = int (torps_in_use me h) \<and> 0 \<le> p_fuel (players h me) \<and>
    (\<forall>k. torps h k = torps g k \<or> k div MAXTORP = me \<and> t_status (torps g k) = TFREE)"
proof (cases rule: ntorp_cases [of me course a g])
  case refused
  then show ?thesis using assms by (simp add: torps_in_use_def)
next
  case (fired cf ce cw g')
  have n: "p_no (players g' me) = me" "torps_in_use me g' \<noteq> MAXTORP" "torps_in_use me g' = torps_in_use me g"
    using fired assms(1,2) by (simp_all add: torps_in_use_def)
  obtain m where m: "m < MAXTORP" "torp_slot me g' = MAXTORP * me + m" "t_status (torps g' (torp_slot me g')) = TFREE"
    using torp_slot_free [OF n(1,2)] .
  have "torp_slot me g' div MAXTORP = me" using m(1,2) by simp
  then have "torps h k = torps g k \<or> k div MAXTORP = me \<and> t_status (torps g k) = TFREE" for k
    using m(3) fired(1,3) launch_torp_torps(1) [of k me g' course a cf ce cw]
    by (cases "k = torp_slot me g'") (auto simp: h_def)
  moreover have "p_ntorp (players h me) = int (torps_in_use me h)"
    using torps_in_use_launch [OF n(1,2)] fired(1,2) assms(2) n(3) by (simp add: h_def launch_torp_player)
  moreover have "0 \<le> p_fuel (players h me)"
    using fired(1,2,6) by (simp add: h_def launch_torp_player)
  ultimately show ?thesis by blast
qed

theorem ntorp_own_free_slot_witness:
  "p_ntorp (players (ntorp 2 64 0 blank_game) 2) = int (torps_in_use 2 (ntorp 2 64 0 blank_game))"
proof -
  have "torps_in_use 2 blank_game = 0"
    by (simp add: torps_in_use_def blank_game_def blank_torp_def numeral_eq_Suc)
  moreover have "p_no (players blank_game 2) = 2" "p_ntorp (players blank_game 2) = 0" "p_fuel (players blank_game 2) = 0"
    by (simp_all add: blank_game_def blank_player_def)
  ultimately show ?thesis using ntorp_own_free_slot [of blank_game 2 64 0] by simp
qed

text \<open>
  When all eight slots of a player are in use but its record counts another number, as after
  \<^verbatim>\<open>change_team\<close> or \<^verbatim>\<open>enter\<close> has set the count to zero while the torpedoes still fly, a torpedo it
  fires is written over the first torpedo of the next player.
\<close>

theorem torp_overwrites_next_player:
  assumes "p_no (players g me) = me" and "torps_in_use me g = MAXTORP"
    and "players (ntorp me course a (change_team me ours theirs g)) \<noteq> players (change_team me ours theirs g)"
  shows "p_ntorp (players (change_team me ours theirs g) me) = 0 \<and>
    t_owner (torps (ntorp me course a (change_team me ours theirs g)) (MAXTORP * (me + 1))) = me \<and>
    t_status (torps (ntorp me course a (change_team me ours theirs g)) (MAXTORP * (me + 1))) = TMOVE"
proof -
  let ?c = "change_team me ours theirs g"
  have c: "torps ?c = torps g" "p_no (players ?c me) = me" "p_ntorp (players ?c me) = 0"
    using assms(1) by (simp_all add: change_team_def change_team_quietly_def Let_def set_names_def)
  show ?thesis
  proof (cases rule: ntorp_cases [of me course a ?c])
    case refused
    then show ?thesis using assms(3) by simp
  next
    case (fired cf ce cw g')
    have "first_in (MAXTORP * me) (MAXTORP * me + MAXTORP) (\<lambda>k. t_status (torps g' k) = TFREE) = None"
      unfolding first_in_None
    proof (intro allI impI)
      fix k assume k: "MAXTORP * me \<le> k \<and> k < MAXTORP * me + MAXTORP"
      then have "k - MAXTORP * me < MAXTORP" "MAXTORP * me + (k - MAXTORP * me) = k" by auto
      with assms(2) show "t_status (torps g' k) \<noteq> TFREE"
        using fired(3) c(1) unfolding torps_in_use_full by metis
    qed
    then have "torp_slot me g' = MAXTORP * (me + 1)"
      using fired(2) c(2) by (simp add: torp_slot_def first_torp_def)
    with launch_torp_torps(2,3) [of me course a cf ce cw g'] fired(1,2) c show ?thesis by simp
  qed
qed

definition ex_flying :: "game" where
  "ex_flying = blank_game\<lparr>players := (\<lambda>i. blank_player\<lparr>p_no := i, p_updates := 1\<rparr>),
     torps := (\<lambda>k. blank_torp\<lparr>t_status := TMOVE\<rparr>)\<rparr>"

lemma ex_flying_fires:
  "p_ntorp (players (ntorp 3 64 0 (change_team 3 ROM FED ex_flying)) 3) = 1"
proof -
  let ?g = "change_team 3 ROM FED ex_flying"
  have p: "p_updates (players ?g 3) = 1" "p_ntorp (players ?g 3) = 0" "p_fuel (players ?g 3) = 0"
      "p_flags (players ?g 3) = 0" "p_cloakphase (players ?g 3) = 0" "s_torpcost (p_ship (players ?g 3)) = 0"
    by (simp_all add: change_team_def change_team_quietly_def Let_def set_names_def ex_flying_def
        blank_game_def blank_player_def blank_ship_def)
  have c: "cfg ?g = blank_sysdef" "ctxt ?g = blank_contxt" "last_torp_fired_update (procs ?g 3) = 0"
      "status ?g = blank_status"
    by (simp_all add: change_team_def change_team_quietly_def Let_def ex_flying_def blank_game_def
        blank_process_def)
  have "getAdjTorpCost (cfg ?g) (players ?g 3) 64 TORP_ADJ_FUEL = 0"
    using p c by (simp add: getAdjTorpCost_def torp_base_cost_def torp_adj_mult_def Let_def blank_sysdef_def)
  then show ?thesis
    using p c by (simp add: ntorp_def Let_def forward_only_def teacher_refuses_def blank_sysdef_def
        blank_contxt_def blank_status_def launch_torp_player)
qed

theorem torp_overwrites_next_player_witness:
  "t_owner (torps (ntorp 3 64 0 (change_team 3 ROM FED ex_flying)) 32) = 3"
proof -
  have "players (ntorp 3 64 0 (change_team 3 ROM FED ex_flying)) \<noteq> players (change_team 3 ROM FED ex_flying)"
    using ex_flying_fires by (auto simp: change_team_def Let_def)
  moreover have "torps_in_use 3 ex_flying = MAXTORP" by (simp add: torps_in_use_full ex_flying_def)
  moreover have "p_no (players ex_flying 3) = 3" by (simp add: ex_flying_def)
  ultimately show ?thesis using torp_overwrites_next_player [of ex_flying 3 64 0 ROM FED] by simp
qed

subsection \<open>Speed and cost\<close>

lemma torp_speed_bounds:
  "0 \<le> torpGetVectorSpeed pd ps td ts \<and> torpGetVectorSpeed pd ps td ts \<le> 20 * WARP1"
  by (simp add: torpGetVectorSpeed_def Let_def)

text \<open>
  The adjusted cost of a torpedo is never below the cost of the ship, never above that cost
  times the multiplier, and is exactly that cost when it is fired forward.
\<close>

theorem torp_cost_bounds:
  assumes "1 \<le> torp_adj_mult c a" and "0 \<le> p_speed p" and "p_speed p \<le> s_maxspeed (p_ship p)"
    and "0 < s_maxspeed (p_ship p)" and "0 \<le> torp_base_cost c p (torp_delta (p_dir p) d) a"
  shows "torp_base_cost c p (torp_delta (p_dir p) d) a \<le> getAdjTorpCost c p d a \<and>
    of_int (getAdjTorpCost c p d a) \<le> of_int (torp_base_cost c p (torp_delta (p_dir p) d) a) * torp_adj_mult c a \<and>
    (torp_delta (p_dir p) d < 42 \<longrightarrow>
       getAdjTorpCost c p d a = torp_base_cost c p (torp_delta (p_dir p) d) a)"
proof -
  define b where "b = torp_base_cost c p (torp_delta (p_dir p) d) a"
  define m where "m = torp_adj_mult c a"
  define v :: rat where "v = of_int (p_speed p) / of_int (s_maxspeed (p_ship p))"
  have v: "0 \<le> v" "v \<le> 1" using assms(2,3,4) by (simp_all add: v_def)
  have m: "0 \<le> m - 1" using assms(1) by (simp add: m_def)
  have b: "0 \<le> b" using assms(5) by (simp add: b_def)
  have b_m: "of_int b \<le> of_int b * m"
    using mult_left_mono [of 1 m "of_int b"] m b by simp
  have net: "1 \<le> 1 + (m - 1) * v * e \<and> 1 + (m - 1) * v * e \<le> m" if e: "0 \<le> e" "e \<le> 1" for e
  proof -
    have "(m - 1) * (v * e) \<le> (m - 1) * 1"
      using v e m by (intro mult_left_mono mult_le_one) auto
    moreover have "0 \<le> (m - 1) * (v * e)" using v e m by simp
    ultimately show ?thesis by (simp add: mult.assoc)
  qed
  have scaled: "b \<le> trunc (of_int b * k) \<and> of_int (trunc (of_int b * k)) \<le> of_int b * m"
    if k: "1 \<le> k" "k \<le> m" for k
  proof
    have "of_int b \<le> of_int b * k" using mult_left_mono [of 1 k "of_int b"] k b by simp
    then show "b \<le> trunc (of_int b * k)" by (rule trunc_lower)
    have "of_int (trunc (of_int b * k)) \<le> of_int b * k" using k b by (intro trunc_le) simp
    also have "\<dots> \<le> of_int b * m" using k b by (intro mult_left_mono) simp_all
    finally show "of_int (trunc (of_int b * k)) \<le> of_int b * m" .
  qed
  show ?thesis
    unfolding getAdjTorpCost_def Let_def b_def [symmetric] m_def [symmetric] v_def [symmetric]
    using b b_m scaled [OF net [THEN conjunct1] net [THEN conjunct2]] by auto
qed

definition ex_assault :: "player" where
  "ex_assault = blank_player\<lparr>p_speed := 4, p_ship := blank_ship\<lparr>s_maxspeed := 8, s_torpcost := 200\<rparr>\<rparr>"

definition ex_asstorp :: "sysdef" where
  "ex_asstorp = blank_sysdef\<lparr>asstorp_fuel_mult := 2\<rparr>"

lemma ex_assault_cost:
  "torp_base_cost ex_asstorp ex_assault delta TORP_ADJ_FUEL = 200" "torp_adj_mult ex_asstorp TORP_ADJ_FUEL = 2"
  "p_speed ex_assault = 4" "s_maxspeed (p_ship ex_assault) = 8" "p_dir ex_assault = 0"
  "s_type (p_ship ex_assault) = SCOUT"
  by (simp_all add: torp_base_cost_def torp_adj_mult_def ex_assault_def ex_asstorp_def blank_player_def
      blank_ship_def Let_def)

theorem torp_cost_bounds_witness:
  "200 \<le> getAdjTorpCost ex_asstorp ex_assault 128 TORP_ADJ_FUEL \<and>
   of_int (getAdjTorpCost ex_asstorp ex_assault 128 TORP_ADJ_FUEL) \<le> (400 :: rat)"
  using torp_cost_bounds [of ex_asstorp TORP_ADJ_FUEL ex_assault 128] by (simp add: ex_assault_cost)

text \<open>
  Turning 42 units to one side costs more than turning 42 units to the other: beyond half a
  circle the difference of the directions is taken from 255 instead of 256.
\<close>

theorem torp_cost_asymmetric:
  assumes "p_dir p = 0" and "s_type (p_ship p) \<noteq> STARBASE" and "s_type (p_ship p) \<noteq> ATT \<longrightarrow> p_cloakphase p = 0"
    and "asstorp_fuel_mult c = 2" and "p_speed p = s_maxspeed (p_ship p)" and "0 < p_speed p"
    and "0 < s_torpcost (p_ship p)"
  shows "getAdjTorpCost c p 42 TORP_ADJ_FUEL = s_torpcost (p_ship p) + s_torpcost (p_ship p) div 2 \<and>
    getAdjTorpCost c p (- 42) TORP_ADJ_FUEL = s_torpcost (p_ship p)"
proof -
  let ?n = "s_torpcost (p_ship p)"
  have "torp_delta 0 42 = 42" "torp_delta 0 (- 42) = 41" by (simp_all add: torp_delta_def Let_def)
  moreover have "torp_base_cost c p k TORP_ADJ_FUEL = ?n" for k
    using assms(3) by (auto simp: torp_base_cost_def Let_def)
  moreover have "trunc (of_int ?n * (3/2)) = ?n + ?n div 2"
  proof -
    have "of_int ?n * (3/2 :: rat) = of_int (3 * ?n) / of_int 2" by simp
    then have "trunc (of_int ?n * (3/2)) = (3 * ?n) div 2"
      using assms(7) by (simp only: trunc_def floor_divide_of_int_eq) simp
    then show ?thesis by presburger
  qed
  ultimately show ?thesis
    using assms by (simp add: getAdjTorpCost_def Let_def torp_adj_mult_def)
qed

theorem torp_cost_asymmetric_witness:
  "getAdjTorpCost ex_asstorp (ex_assault\<lparr>p_speed := 8\<rparr>) 42 TORP_ADJ_FUEL = 300 \<and>
   getAdjTorpCost ex_asstorp (ex_assault\<lparr>p_speed := 8\<rparr>) (- 42) TORP_ADJ_FUEL = 200"
  using torp_cost_asymmetric [of "ex_assault\<lparr>p_speed := 8\<rparr>" ex_asstorp]
  by (simp add: ex_assault_def ex_asstorp_def blank_player_def blank_ship_def)

subsection \<open>What a phaser hits\<close>

lemma round_sqrt_mono: "m \<le> n \<Longrightarrow> round_sqrt m \<le> round_sqrt n"
proof -
  assume le: "m \<le> n"
  then have r: "isqrt m \<le> isqrt n" by (rule isqrt_mono)
  show ?thesis
  proof (cases "isqrt m = isqrt n")
    case True
    with le show ?thesis by (simp add: round_sqrt_def Let_def)
  next
    case False
    with r show ?thesis by (simp add: round_sqrt_def Let_def)
  qed
qed

lemma round_sqrt_square [simp]: "round_sqrt (r * r) = r"
  by (simp add: round_sqrt_def Let_def)

definition dist_sq :: "nat \<Rightarrow> nat \<Rightarrow> game \<Rightarrow> int" where
  "dist_sq me j g =
     (let a = p_x (players g j) - p_x (players g me); b = p_y (players g j) - p_y (players g me)
      in a * a + b * b)"

text \<open>A ship on the line of fire that the phaser may hit.\<close>

definition on_line :: "nat \<Rightarrow> 8 word \<Rightarrow> nat \<Rightarrow> game \<Rightarrow> bool" where
  "on_line me course j g \<longleftrightarrow> phasable me j g \<and>
     near_line course (p_x (players g j) - p_x (players g me)) (p_y (players g j) - p_y (players g me))
       ZAPPLAYERDIST True"

lemma dist_sq_nonneg: "0 \<le> dist_sq me j g"
  by (simp add: dist_sq_def Let_def)

lemma aim_player_eq:
  "aim_player me course g j aim =
     (if on_line me course j g \<and> closer (p_x (players g j) - p_x (players g me)) (p_y (players g j) - p_y (players g me)) aim
      then (int (round_sqrt (nat (dist_sq me j g))), dist_sq me j g, Some j) else aim)"
  by (simp add: aim_player_def on_line_def take_aim_def dist_sq_def Let_def)

text \<open>
  The state of the search after \<open>n\<close> players: the target is on the line and within range, and
  any other is either not nearer or not inside the box of the rounded range.
\<close>

definition aim_ok :: "nat \<Rightarrow> 8 word \<Rightarrow> game \<Rightarrow> int \<Rightarrow> nat \<Rightarrow> aim \<Rightarrow> bool" where
  "aim_ok me course g r n = (\<lambda>(reach, reach_sq, target).
     0 \<le> reach \<and> reach \<le> r + 1 \<and> reach_sq \<le> r * r + 1 \<and>
     (case target of
        None \<Rightarrow> reach = r + 1 \<and> reach_sq = r * r + 1
      | Some j \<Rightarrow> j < n \<and> on_line me course j g \<and> reach_sq = dist_sq me j g \<and> reach_sq \<le> r * r \<and>
          reach = int (round_sqrt (nat reach_sq))) \<and>
     (\<forall>j<n. on_line me course j g \<longrightarrow> reach_sq \<le> dist_sq me j g \<or> reach * reach \<le> dist_sq me j g))"

lemma outside_box:
  fixes a b r :: int
  assumes "0 \<le> r" and "a \<ge> r \<or> a \<le> - r \<or> b \<ge> r \<or> b \<le> - r"
  shows "r * r \<le> a * a + b * b"
proof -
  have sq: "r * r \<le> c * c" if "r \<le> \<bar>c\<bar>" for c
    using mult_mono [OF that that] assms(1) by (simp add: abs_mult_self_eq)
  from assms have "r \<le> \<bar>a\<bar> \<or> r \<le> \<bar>b\<bar>" by linarith
  then have "r * r \<le> a * a \<or> r * r \<le> b * b" using sq by blast
  then show ?thesis using zero_le_square [of a] zero_le_square [of b] by linarith
qed

lemma aim_ok_step:
  assumes ok: "aim_ok me course g r n aim" and r: "0 \<le> r"
  shows "aim_ok me course g r (Suc n) (aim_player me course g n aim)"
proof -
  obtain q s t where aim: "aim = (q, s, t)" by (cases aim)
  let ?a = "p_x (players g n) - p_x (players g me)" and ?b = "p_y (players g n) - p_y (players g me)"
  let ?d = "dist_sq me n g"
  have d: "?d = ?a * ?a + ?b * ?b" by (simp add: dist_sq_def Let_def)
  have q0: "0 \<le> q" using ok by (simp add: aim aim_ok_def)
  show ?thesis
  proof (cases "on_line me course n g \<and> closer ?a ?b aim")
    case False
    have "on_line me course n g \<longrightarrow> s \<le> ?d \<or> q * q \<le> ?d"
      using False outside_box [OF q0, of ?a ?b] by (auto simp: aim closer_def d)
    with ok False show ?thesis
      by (auto simp: aim aim_player_eq aim_ok_def less_Suc_eq split: option.splits)
  next
    case True
    then have lt: "?d < s" by (simp add: aim closer_def d)
    moreover have "s \<le> r * r + 1" using ok by (simp add: aim aim_ok_def)
    ultimately have dr: "?d \<le> r * r" by simp
    let ?q = "int (round_sqrt (nat ?d))"
    have "round_sqrt (nat ?d) \<le> round_sqrt (nat r * nat r)"
      using dr dist_sq_nonneg r by (intro round_sqrt_mono) (simp add: nat_mult_distrib [symmetric] nat_mono)
    then have qr: "?q \<le> r" using r by simp
    have "?q \<le> q"
    proof (cases t)
      case None
      then show ?thesis using qr ok by (simp add: aim aim_ok_def)
    next
      case (Some j)
      then have "q = int (round_sqrt (nat s))" using ok by (simp add: aim aim_ok_def)
      moreover have "round_sqrt (nat ?d) \<le> round_sqrt (nat s)" using lt by (intro round_sqrt_mono) simp
      ultimately show ?thesis by simp
    qed
    then have "?q * ?q \<le> q * q" by (intro mult_mono) simp_all
    then have "\<forall>j<Suc n. on_line me course j g \<longrightarrow> ?d \<le> dist_sq me j g \<or> ?q * ?q \<le> dist_sq me j g"
      using ok lt by (force simp: aim aim_ok_def less_Suc_eq)
    with True dr qr show ?thesis by (simp add: aim_player_eq aim_ok_def)
  qed
qed

lemma aim_players_ok:
  assumes "0 \<le> phaser_range (players g me)"
  shows "aim_ok me course g (phaser_range (players g me)) MAXPLAYER (aim_players me course g)"
proof -
  let ?r = "phaser_range (players g me)"
  have "aim_ok me course g ?r n (for_upto n (aim_player me course g) (?r + 1, ?r * ?r + 1, None))" for n
  proof (induction n)
    case 0
    then show ?case using assms by (simp add: aim_ok_def)
  next
    case (Suc n)
    then show ?case using aim_ok_step [OF Suc assms] by simp
  qed
  then show ?thesis by (simp add: aim_players_def Let_def)
qed

lemma phaser_damage_bounds:
  assumes "0 \<le> q" and "q \<le> phaser_range p" and "0 \<le> s_phaserdamage (p_ship p)"
  shows "0 \<le> phaser_damage p q \<and> phaser_damage p q \<le> s_phaserdamage (p_ship p)"
proof -
  let ?f = "of_int q / of_int (phaser_range p) :: rat"
  let ?n = "of_int (s_phaserdamage (p_ship p)) :: rat"
  have f: "0 \<le> ?f" "?f \<le> 1" using assms(1,2) by (auto simp: divide_le_eq_1)
  have n: "0 \<le> ?n" using assms(3) by simp
  have "0 \<le> ?n * (1 - ?f)" using f n by simp
  moreover have "?n * (1 - ?f) \<le> ?n" using mult_left_mono [of "1 - ?f" 1 ?n] f n by simp
  ultimately show ?thesis unfolding phaser_damage_def
    using trunc_nonneg [of "?n * (1 - ?f)"] trunc_upper [of "?n * (1 - ?f)"] by simp
qed

text \<open>
  C38: the player a phaser hits is alive, at war with the shooter, not idle, on the line of fire
  and within range; no other such ship is nearer, except inside the rounding of the distance; the
  damage is between nothing and the full charge.  If no player is hit, none was on the
  line and within range.
\<close>

theorem phaser_hits_nearest:
  assumes "0 \<le> s_phaserdamage (p_ship (players g me))"
  defines "r \<equiv> phaser_range (players g me)"
  shows "(case aim_players me course g of (reach, reach_sq, target) \<Rightarrow>
     (case target of
        None \<Rightarrow> \<forall>j<MAXPLAYER. on_line me course j g \<longrightarrow> r * r < dist_sq me j g
      | Some i \<Rightarrow> i < MAXPLAYER \<and> on_line me course i g \<and> dist_sq me i g \<le> r * r \<and>
          (\<forall>j<MAXPLAYER. on_line me course j g \<longrightarrow>
             dist_sq me i g \<le> dist_sq me j g \<or> (int (round_sqrt (nat (dist_sq me i g))))\<^sup>2 \<le> dist_sq me j g) \<and>
          0 \<le> phaser_damage (players g me) reach \<and>
          phaser_damage (players g me) reach \<le> s_phaserdamage (p_ship (players g me))))"
proof -
  have r: "0 \<le> r" using assms by (simp add: r_def phaser_range_def sdiv_nonneg)
  obtain q s t where aim: "aim_players me course g = (q, s, t)" by (cases "aim_players me course g")
  have ok: "aim_ok me course g r MAXPLAYER (q, s, t)"
    using aim_players_ok r aim unfolding r_def by metis
  show ?thesis
  proof (cases t)
    case None
    have "r * r < (r + 1) * (r + 1)" using r by (simp add: algebra_simps)
    then have "\<forall>j<MAXPLAYER. on_line me course j g \<longrightarrow> r * r < dist_sq me j g"
      using ok None by (force simp: aim_ok_def)
    with None aim show ?thesis by simp
  next
    case (Some i)
    then have s: "s = dist_sq me i g" "s \<le> r * r" "q = int (round_sqrt (nat s))"
      using ok by (simp_all add: aim_ok_def)
    have "round_sqrt (nat s) \<le> round_sqrt (nat r * nat r)"
      using s(1,2) dist_sq_nonneg r by (intro round_sqrt_mono) (simp add: nat_mult_distrib [symmetric] nat_mono)
    then have "0 \<le> q" "q \<le> r" using r s(3) by simp_all
    then have "0 \<le> phaser_damage (players g me) q \<and> phaser_damage (players g me) q \<le> s_phaserdamage (p_ship (players g me))"
      using phaser_damage_bounds assms(1) by (simp add: r_def)
    with Some aim ok s show ?thesis by (simp add: aim_ok_def power2_eq_square)
  qed
qed

definition ex_duel :: "game" where
  "ex_duel = blank_game\<lparr>players := (\<lambda>i.
     if i = 2 then blank_player\<lparr>p_no := 2, p_status := PALIVE, p_team := FED, p_x := 50000, p_y := 50000,
       p_war := ROM, p_ship := blank_ship\<lparr>s_phaserdamage := 100\<rparr>\<rparr>
     else if i = 5 then blank_player\<lparr>p_no := 5, p_status := PALIVE, p_team := ROM, p_x := 51000, p_y := 50000\<rparr>
     else blank_player\<lparr>p_no := i\<rparr>)\<rparr>"

lemma ex_duel_line: "on_line 2 64 5 ex_duel"
proof -
  have "Cos10k 64 = 10000 \<and> Sin10k 64 = -1" by code_simp
  moreover have "\<lceil>- (1 / 10) :: rat\<rceil> = 0" by (rule ceiling_unique) simp_all
  ultimately have near: "near_line 64 1000 0 ZAPPLAYERDIST True"
    by (simp add: near_line_def Let_def Cos_def Sin_def trunc_def floor_divide_of_int_eq
        ceiling_divide_eq_div)
  have "\<not> is_idle 5 ex_duel"
    by (simp add: is_idle_def ex_duel_def blank_game_def blank_sysdef_def blank_player_def)
  then have "phasable 2 5 ex_duel"
    by (simp add: phasable_def ex_duel_def meets_def)
  with near show ?thesis by (simp add: on_line_def) (simp add: ex_duel_def)
qed

theorem phaser_hits_nearest_witness:
  "\<exists>reach reach_sq i. aim_players 2 64 ex_duel = (reach, reach_sq, Some i)"
proof -
  have "s_phaserdamage (p_ship (players ex_duel 2)) = 100" "dist_sq 2 5 ex_duel = 1000000"
      "phaser_range (players ex_duel 2) = 6000"
    by (simp_all add: ex_duel_def dist_sq_def phaser_range_def signed_divide_int_def)
  then show ?thesis
    using phaser_hits_nearest [of ex_duel 2 64] ex_duel_line by (auto split: prod.splits option.splits dest: spec [of _ 5])
qed

subsection \<open>What a detonation touches\<close>

text \<open>The torpedoes a detonation reaches, and how far the loop has got.\<close>

definition detonated :: "nat \<Rightarrow> game \<Rightarrow> nat \<Rightarrow> bool" where
  "detonated me g k \<longleftrightarrow> enemyTorp (players g me) (torps g k) \<and> t_status (torps g k) = TMOVE \<and>
     in_det_range (players g me) (torps g k)"

definition det_view :: "game \<Rightarrow> game \<Rightarrow> bool" where
  "det_view g h \<longleftrightarrow> (\<forall>i. p_x (players h i) = p_x (players g i) \<and> p_y (players h i) = p_y (players g i) \<and>
     p_team (players h i) = p_team (players g i) \<and> p_war (players h i) = p_war (players g i) \<and>
     p_no (players h i) = p_no (players g i) \<and> p_status (players h i) = p_status (players g i) \<and>
     p_fuel (players h i) = p_fuel (players g i))"

definition det_done :: "nat \<Rightarrow> game \<Rightarrow> nat set \<Rightarrow> game \<Rightarrow> bool" where
  "det_done me g S h \<longleftrightarrow> det_view g h \<and>
     (\<forall>k. torps h k = (if k \<in> S \<and> detonated me g k
        then (torps g k)\<lparr>t_status := TDET, t_whodet := Some (p_no (players g me))\<rparr> else torps g k))"

lemma det_view_tests:
  assumes "det_view g h"
  shows "enemyTorp (players h me) t = enemyTorp (players g me) t"
    "in_det_range (players h me) t = in_det_range (players g me) t"
    "p_no (players h i) = p_no (players g i)" "p_status (players h i) = p_status (players g i)"
    "p_fuel (players h i) = p_fuel (players g i)"
  using assms by (simp_all add: det_view_def enemyTorp_def in_det_range_def)

lemma det_torp_done:
  assumes "det_done me g S h" and "k \<notin> S"
  shows "det_done me g (insert k S) (det_torp me j k h)"
proof -
  have v: "det_view g h" and same: "torps h k = torps g k" using assms by (simp_all add: det_done_def)
  note tests = det_view_tests [OF v]
  have hit: "enemyTorp (players h me) (torps h k) \<and> t_status (torps h k) = TMOVE \<and>
      in_det_range (players h me) (torps h k) \<longleftrightarrow> detonated me g k"
    by (simp add: tests same detonated_def)
  have "det_view g (det_torp me j k h)"
    using v by (simp add: det_torp_def det_view_def)
  with assms hit show ?thesis
    by (auto simp: det_done_def det_torp_def tests same)
qed

lemma det_slots_done:
  assumes "det_done me g S h" and "S \<inter> {b..<b + n} = {}"
  shows "det_done me g (S \<union> {b..<b + n}) (for_upto n (\<lambda>m. det_torp me j (b + m)) h)"
  using assms
proof (induction n)
  case (Suc n)
  have "{b..<b + n} \<subseteq> {b..<b + Suc n}" by (rule ivl_subset [THEN iffD2]) simp
  then have "S \<inter> {b..<b + n} = {}" using Suc.prems(2) by blast
  from Suc.IH [OF Suc.prems(1) this]
  have "det_done me g (S \<union> {b..<b + n}) (for_upto n (\<lambda>m. det_torp me j (b + m)) h)" .
  moreover have "b + n \<in> {b..<b + Suc n}" by simp
  then have "b + n \<notin> S \<union> {b..<b + n}" using Suc.prems(2) by auto
  ultimately have "det_done me g (insert (b + n) (S \<union> {b..<b + n})) (for_upto (Suc n) (\<lambda>m. det_torp me j (b + m)) h)"
    using det_torp_done by simp
  moreover have "insert (b + n) (S \<union> {b..<b + n}) = S \<union> {b..<b + Suc n}" by auto
  ultimately show ?case by simp
qed simp

lemma det_all_done:
  assumes "\<And>j. p_no (players g j) = j"
  shows "det_done me g {k. k < MAXTORP * MAXPLAYER \<and> p_status (players g (k div MAXTORP)) \<noteq> PFREE} (det_all me g)"
proof -
  let ?step = "\<lambda>j g. if p_status (players g j) = PFREE then g
    else for_upto MAXTORP (\<lambda>n. det_torp me j (first_torp (players g j) + n)) g"
  let ?S = "\<lambda>n. {k. k < MAXTORP * n \<and> p_status (players g (k div MAXTORP)) \<noteq> PFREE}"
  have "det_done me g (?S n) (for_upto n ?step g)" for n
  proof (induction n)
    case 0
    show ?case by (simp add: det_done_def det_view_def)
  next
    case (Suc n)
    let ?h = "for_upto n ?step g"
    have v: "det_view g ?h" using Suc by (simp add: det_done_def)
    have slot: "k div MAXTORP = n \<longleftrightarrow> MAXTORP * n \<le> k \<and> k < MAXTORP * n + MAXTORP" for k :: nat
      by (intro iffI conjI; linarith)
    have below: "k < MAXTORP * Suc n \<longleftrightarrow> k < MAXTORP * n \<or> k div MAXTORP = n" for k :: nat
      unfolding slot by (simp add: mult_Suc_right) linarith
    show ?case
    proof (cases "p_status (players g n) = PFREE")
      case True
      then have "?S (Suc n) = ?S n" unfolding below by blast
      with Suc True show ?thesis by (simp add: det_view_tests [OF v])
    next
      case False
      moreover have ivl: "{MAXTORP * n..<MAXTORP * n + MAXTORP} = {k. k div MAXTORP = n}"
        by (auto simp only: slot atLeastLessThan_iff)
      ultimately have "?S (Suc n) = ?S n \<union> {MAXTORP * n..<MAXTORP * n + MAXTORP}"
        unfolding below ivl by auto
      moreover have "?S n \<inter> {MAXTORP * n..<MAXTORP * n + MAXTORP} = {}" by auto
      ultimately show ?thesis
        using det_slots_done [OF Suc, of "MAXTORP * n" MAXTORP n] False
        by (simp add: det_view_tests [OF v] first_torp_def assms)
    qed
  qed
  then show ?thesis unfolding det_all_def .
qed

text \<open>
  When the tests pass, detonating turns exactly the moving enemy torpedoes within range, of
  slots in use, into detonating ones in the name of the player, at the price of the ship's
  detonation cost; no other torpedo changes, plasma included.
\<close>

theorem detothers_exact:
  assumes "\<And>j. p_no (players g j) = j" and "\<not> gu GU_CONQUER g" and "s_detcost (p_ship (players g me)) \<le> p_fuel (players g me)"
    and "\<not> pflag me PFWEP g \<or> chaosmode (cfg g)"
  shows "torps (detothers me g) k =
      (if k < MAXTORP * MAXPLAYER \<and> p_status (players g (k div MAXTORP)) \<noteq> PFREE \<and> detonated me g k
       then (torps g k)\<lparr>t_status := TDET, t_whodet := Some me\<rparr> else torps g k) \<and>
    p_fuel (players (detothers me g) me) = p_fuel (players g me) - s_detcost (p_ship (players g me))"
proof -
  define h where "h = upd_player me (\<lambda>p. p\<lparr>p_fuel := p_fuel p - s_detcost (p_ship (players g me)),
    p_wtemp := p_wtemp p + s_detcost (p_ship (players g me)) sdiv 5\<rparr>)
    (if pflag me PFWEP g then warn me UNDEF ''Weapons overheated'' g else g)"
  have d: "detothers me g = det_all me h"
    using assms(2,3,4) by (auto simp: detothers_def h_def Let_def)
  have h: "torps h = torps g" "p_no (players h j) = j" "p_status (players h j) = p_status (players g j)"
      "detonated me h k = detonated me g k"
      "p_fuel (players h me) = p_fuel (players g me) - s_detcost (p_ship (players g me))" for j
    using assms(1) by (simp_all add: h_def detonated_def enemyTorp_def in_det_range_def)
  from det_all_done [of h me] h(2)
  have "det_done me h {k. k < MAXTORP * MAXPLAYER \<and> p_status (players h (k div MAXTORP)) \<noteq> PFREE} (det_all me h)" .
  then show ?thesis
    unfolding d using h by (auto simp: det_done_def det_view_tests)
qed

definition ex_det :: "game" where
  "ex_det = blank_game\<lparr>players := (\<lambda>i. blank_player\<lparr>p_no := i, p_team := FED, p_status := PALIVE\<rparr>),
     torps := (\<lambda>k. blank_torp\<lparr>t_status := TMOVE, t_war := FED, t_x := (if k < 10 then 1000 else 5000)\<rparr>)\<rparr>"

lemma ex_det_simps:
  "p_no (players ex_det j) = j" "p_status (players ex_det j) = PALIVE" "status ex_det = blank_status"
  "s_detcost (p_ship (players ex_det j)) = 0" "p_fuel (players ex_det j) = 0" "p_flags (players ex_det j) = 0"
  "t_status (torps ex_det k) = TMOVE" "detonated j ex_det k \<longleftrightarrow> k < 10"
  by (simp_all add: ex_det_def blank_game_def blank_player_def blank_ship_def detonated_def enemyTorp_def
      in_det_range_def blank_torp_def meets_def Let_def)

theorem detothers_exact_witness:
  "t_whodet (torps (detothers 6 ex_det) 9) = Some 6 \<and> t_status (torps (detothers 6 ex_det) 10) = TMOVE"
  using detothers_exact [of ex_det 6 9] detothers_exact [of ex_det 6 10]
  by (simp add: ex_det_simps blank_status_def)

end
