(* ===== verification/Interface.thy ===== *)
theory Interface
  imports Weapons Bay Ships Galaxy
begin

text \<open>
  The commands of a player other than firing (\<^verbatim>\<open>ntserv/interface.c\<close>, \<^verbatim>\<open>ntserv/orbit.c\<close>,
  \<^verbatim>\<open>ntserv/coup.c\<close>): speed and course, shields, bombing and beaming orders, locks, tractor and
  pressor beams, declarations of war, refitting, docking and orbiting, and coups.

  The packet that tells the client about a new ship, and the clock read when locking on a player
  (an argument), are outside the model; \<open>atan2f\<close> is a parameter of the orbit.
\<close>

subsection \<open>Flags and orders\<close>

definition order :: "nat \<Rightarrow> 32 word \<Rightarrow> 32 word \<Rightarrow> game \<Rightarrow> game" where
  "order me on off = upd_player me (\<lambda>p. p\<lparr>p_flags := clear_flags off (set_flags on (p_flags p))\<rparr>)"

definition clear_orders :: "nat \<Rightarrow> 32 word \<Rightarrow> game \<Rightarrow> game" where
  "clear_orders me off = upd_player me (\<lambda>p. p\<lparr>p_flags := clear_flags off (p_flags p)\<rparr>)"

abbreviation (input) PF_BEAMS :: "32 word" where "PF_BEAMS \<equiv> PFBEAMUP OR PFBEAMDOWN"

definition set_speed :: "nat \<Rightarrow> int \<Rightarrow> game \<Rightarrow> game" where
  "set_speed me speed g =
     (if p_inl_draft (players g me) \<noteq> INL_DRAFT_OFF then g
      else
        let mx = s_maxspeed (p_ship (players g me));
            g = (if speed > mx then upd_player me (\<lambda>p. p\<lparr>p_desspeed := mx\<rparr>) g else g);
            speed = (if speed > mx then speed else if speed < 0 then 0 else speed);
            g = upd_player me (\<lambda>p. p\<lparr>p_desspeed := speed\<rparr>) g;
            g = bay_release me g;
            g = clear_orders me (PFREPAIR OR PFBOMB OR PFORBIT OR PF_BEAMS) g
        in upd_proc me (\<lambda>m. m\<lparr>has_set_speed := has_set_speed m + 1\<rparr>) g)"

definition set_course :: "nat \<Rightarrow> 8 word \<Rightarrow> game \<Rightarrow> game" where
  "set_course me dir g =
     (if p_inl_draft (players g me) = INL_DRAFT_MOVING_TO_POOL then g
      else if p_inl_draft (players g me) = INL_DRAFT_MOVING_TO_PICK then g
      else
        let g = upd_player me (\<lambda>p. p\<lparr>p_desdir := dir\<rparr>) g;
            g = bay_release me g;
            g = clear_orders me (PFBOMB OR PFORBIT OR PF_BEAMS) g
        in upd_proc me (\<lambda>m. m\<lparr>has_set_course := has_set_course m + 1\<rparr>) g)"

definition shield_up :: "nat \<Rightarrow> game \<Rightarrow> game" where
  "shield_up me g =
     upd_proc me (\<lambda>m. m\<lparr>has_shield_up := has_shield_up m + 1\<rparr>)
       (order me PFSHIELD (PFBOMB OR PFREPAIR OR PF_BEAMS) g)"

definition shield_down :: "nat \<Rightarrow> game \<Rightarrow> game" where
  "shield_down me g =
     upd_proc me (\<lambda>m. m\<lparr>has_shield_down := has_shield_down m + 1\<rparr>) (clear_orders me PFSHIELD g)"

text \<open>A planet that neither the player's team nor its opponent owned at the start.\<close>

definition third_space :: "nat \<Rightarrow> game \<Rightarrow> bool" where
  "third_space me g \<longleftrightarrow>
     (let p = players g me; fl = pl_flags (planets g (p_planet p))
      in \<not> meets (p_team p) fl \<and> \<not> meets (team_opposing (p_team p) g) fl)"

definition bomb_count :: "nat \<Rightarrow> (int \<Rightarrow> int) \<Rightarrow> game \<Rightarrow> game" where
  "bomb_count me f = upd_proc me (\<lambda>m. m\<lparr>bombsOutOfTmode := f (bombsOutOfTmode m)\<rparr>)"

definition bomb_planet :: "nat \<Rightarrow> game \<Rightarrow> game" where
  "bomb_planet me g =
     (let p = players g me; owner = pl_owner (planets g (p_planet p)); c = cfg g;
          bots = bot_in_game g; out = \<not> tourn g
      in if \<not> pflag me PFORBIT g then warn me 39 ''Must be orbiting to bomb'' g
         else if p_team p = owner then
           warn me 40 ''Can't bomb your own armies.  Have you been reading Catch-22 again?'' g
         else if \<not> meets (p_war p) owner then
           warn me 41 ''Must declare war first (no Pearl Harbor syndrome allowed here).'' g
         else if restrict_bomb c \<and> \<not> bots \<and> out then
           warn me UNDEF ''You may not bomb out of T-mode.'' g
         else if out \<and> bombsOutOfTmode (procs g me) = 0 \<and> \<not> bots then
           bomb_count me (\<lambda>n. n + 1)
             (warn me 42 ''Bomb out of T-mode?  Please verify your order to bomb.'' g)
         else if bots \<and> realNumShips owner g = 0 then
           warn me UNDEF ''You may not bomb 3rd and 4th space planets.'' g
         else if no_unwarring_bombing c \<and> tourn g \<and> realNumShips owner g < tournplayers c \<and> third_space me g then
           warn me UNDEF ''You may not bomb 3rd and 4th space planets.'' g
         else
           let g = (if \<not> restrict_bomb c \<and> \<not> bots \<and> out \<and> bombsOutOfTmode (procs g me) = 1
                    then bomb_count me (\<lambda>n. n + 1) (warn me 43 ''Hoser!'' g) else g);
               g = (if tourn g then bomb_count me (\<lambda>_. 0) g else g);
               g = order me PFBOMB (PFSHIELD OR PFREPAIR OR PF_BEAMS) g
           in upd_proc me (\<lambda>m. m\<lparr>has_bombed := has_bombed m + 1\<rparr>) g)"

definition beam_up :: "nat \<Rightarrow> game \<Rightarrow> game" where
  "beam_up me g =
     (let p = players g me in
      if \<not> pflag me (PFORBIT OR PFDOCK) g then warn me 44 ''Must be orbiting or docked to beam up.'' g
      else if pflag me PFORBIT g \<and> p_team p \<noteq> pl_owner (planets g (p_planet p)) then
        warn me 45 ''Those aren't our men.'' g
      else if \<not> pflag me PFORBIT g \<and> pflag me PFDOCK g \<and> p_team p \<noteq> p_team (players g (p_dock_with p)) then
        warn me 46 ''Comm Officer: We're not authorized to beam foreign troops on board!'' g
      else if p_no_pick p then
        warn me UNDEF ''Fleet command does not recognize your authority to beam up armies.'' g
      else upd_proc me (\<lambda>m. m\<lparr>has_beamed_up := has_beamed_up m + 1\<rparr>)
             (order me PFBEAMUP (PFSHIELD OR PFREPAIR OR PFBOMB OR PFBEAMDOWN) g))"

definition beam_down :: "nat \<Rightarrow> game \<Rightarrow> game" where
  "beam_down me g =
     (let p = players g me; owner = pl_owner (planets g (p_planet p)) in
      if \<not> pflag me (PFORBIT OR PFDOCK) g then warn me 47 ''Must be orbiting or docked to beam down.'' g
      else if restrict_3rd_drop (cfg g) \<and> pflag me PFORBIT g \<and> realNumShips owner g = 0 \<and>
              owner \<noteq> NOBODY \<and> third_space me g then
        warn me UNDEF ''You may not drop on 3rd and 4th space planets.'' g
      else if pre_t_mode g \<and> meets (pl_flags (planets g (p_planet p))) PLHOME \<and> owner \<noteq> p_team p then
        warn me UNDEF ''You may not drop on enemy homeworlds in pre-T mode.'' g
      else if pflag me PFDOCK g \<and> p_team p \<noteq> p_team (players g (p_dock_with p)) then
        warn me 48 ''Comm Officer: Starbase refuses permission to beam our troops over.'' g
      else upd_proc me (\<lambda>m. m\<lparr>has_beamed_down := has_beamed_down m + 1\<rparr>)
             (order me PFBEAMDOWN (PFSHIELD OR PFREPAIR OR PFBOMB OR PFBEAMUP) g))"

definition repair :: "nat \<Rightarrow> game \<Rightarrow> game" where
  "repair me g =
     (if pflag me PFENG g \<and> p_speed (players g me) \<noteq> 0 then
        warn me UNDEF ''Sorry, can't repair with melted engines while moving.'' g
      else
        let g = upd_player me (\<lambda>p. p\<lparr>p_desspeed := 0\<rparr>) g;
            g = order me PFREPAIR (PFSHIELD OR PFBOMB OR PF_BEAMS OR PFPLOCK OR PFPLLOCK) g
        in upd_proc me (\<lambda>m. m\<lparr>has_repaired := has_repaired m + 1\<rparr>) g)"

definition repair_off :: "nat \<Rightarrow> game \<Rightarrow> game" where
  "repair_off me = clear_orders me PFREPAIR"

subsection \<open>Cloak\<close>

definition cloak :: "nat \<Rightarrow> game \<Rightarrow> game" where
  "cloak me = upd_player me (\<lambda>p. p\<lparr>p_flags := clear_flags (PFTRACT OR PFPRESS) (p_flags p XOR PFCLOAK)\<rparr>)"

definition cloak_on :: "nat \<Rightarrow> game \<Rightarrow> game" where
  "cloak_on me g =
     (if p_inl_draft (players g me) \<noteq> INL_DRAFT_OFF then g else order me PFCLOAK (PFTRACT OR PFPRESS) g)"

definition cloak_off :: "nat \<Rightarrow> game \<Rightarrow> game" where
  "cloak_off me = clear_orders me PFCLOAK"

subsection \<open>Locks\<close>

definition is_sub_in_locked :: "nat \<Rightarrow> game \<Rightarrow> bool" where
  "is_sub_in_locked me g \<longleftrightarrow>
     (let m = players g me; p = players g (nat (p_sub_in_for m)) in
      p_sub_in m \<and> p_sub_in_for m \<noteq> -1 \<and> p_sub_out p \<and> p_sub_out_for p = int (p_no m) \<and>
      p_status p \<noteq> PFREE)"

definition lock_planet :: "nat \<Rightarrow> int \<Rightarrow> game \<Rightarrow> game" where
  "lock_planet me l g =
     (if p_inl_draft (players g me) \<noteq> INL_DRAFT_OFF then g
      else if l < 0 \<or> l \<ge> int MAXPLANETS then g
      else if is_sub_in_locked me g then g
      else
        let g = order me PFPLLOCK (PFPLOCK OR PFORBIT OR PF_BEAMS OR PFBOMB) g;
            g = upd_player me (\<lambda>p. p\<lparr>p_planet := nat l\<rparr>) g
        in if send_short (procs g me) then emit (Swarning me ''LOCKPLANET_TEXT'' l 0) g
           else warn me UNDEF ''Locking onto %s'' g)"

text \<open>\<open>select\<close> stands for \<^verbatim>\<open>inl_draft_select\<close>, which the drafting component models.\<close>

definition lock_player :: "(nat \<Rightarrow> int \<Rightarrow> game \<Rightarrow> game) \<Rightarrow> int \<Rightarrow> nat \<Rightarrow> int \<Rightarrow> game \<Rightarrow> game" where
  "lock_player select now me n g =
     (let j = nat n in
      if p_inl_draft (players g me) \<noteq> INL_DRAFT_OFF then select me n g
      else if n < 0 \<or> n \<ge> int MAXPLAYER then g
      else if p_status (players g j) \<noteq> PALIVE then g
      else if pflag j PFCLOAK g \<and> \<not> Observer (procs g me) then g
      else if is_sub_in_locked me g then g
      else
        let g = upd_player me (\<lambda>p. p\<lparr>p_playerl := j, p_playerl_tv := now\<rparr>) g;
            g = clear_orders me (PFPLLOCK OR PFORBIT OR PF_BEAMS OR PFBOMB) g;
            g = order me PFPLOCK 0 g;
            base = (p_team (players g j) = p_team (players g me) \<and>
                    s_type (p_ship (players g j)) = STARBASE \<and> p_candock (players g me))
        in if send_short (procs g me)
           then emit (Swarning me (if base then ''SBLOCKMYTEAM'' else ''SBLOCKSTRANGER'') n 0) g
           else warn me UNDEF (if base then ''Locking onto %s (%c%c) (docking is %s)''
                  else ''Locking onto %s (%c%c)'') g)"

subsection \<open>Tractor and pressor beams\<close>

text \<open>\<open>hypot(dx, dy) < r\<close>.\<close>

definition nearer_than :: "int \<Rightarrow> int \<Rightarrow> rat \<Rightarrow> bool" where
  "nearer_than dx dy r \<longleftrightarrow> 0 < r \<and> of_int (dx * dx + dy * dy) < r * r"

definition in_tractor_range :: "player \<Rightarrow> player \<Rightarrow> bool" where
  "in_tractor_range p v = nearer_than (p_x p - p_x v) (p_y p - p_y v) (of_int TRACTDIST * s_tractrng (p_ship p))"

text \<open>The number 32 passes the test of the bounds; it is the record after the last player.\<close>

definition tractor_player :: "nat \<Rightarrow> int \<Rightarrow> game \<Rightarrow> game" where
  "tractor_player me n g =
     (let v = nat n in
      if \<not> wp_tractor (cfg g) then g
      else if n < 0 \<or> n > int MAXPLAYER then clear_orders me (PFTRACT OR PFPRESS) g
      else if pflag me PFCLOAK g then g
      else if v = p_no (players g me) then g
      else if pflag v PFCLOAK g then g
      else if in_tractor_range (players g me) (players g v) then
        let g = bay_release me (bay_release v g);
            g = clear_orders me PFORBIT (clear_orders v PFORBIT g);
            g = upd_player me (\<lambda>p. p\<lparr>p_tractor := v\<rparr>) g
        in order me PFTRACT 0 g
      else g)"

definition pressor_player :: "nat \<Rightarrow> int \<Rightarrow> game \<Rightarrow> game" where
  "pressor_player me n g =
     (let v = nat n in
      if \<not> wp_tractor (cfg g) then warn me 0 ''Tractor beams haven't been invented yet.'' g
      else if n < 0 \<or> n > int MAXPLAYER then clear_orders me (PFTRACT OR PFPRESS) g
      else if pflag me PFPRESS g then g
      else if pflag me PFCLOAK g then
        warn me 1 ''Weapons's Officer:  Cannot tractor while cloaked, sir!'' g
      else if pflag v PFCLOAK g then g
      else if in_tractor_range (players g me) (players g v) then
        let g = bay_release me (bay_release v g);
            g = clear_orders me (PFORBIT OR PFDOCK) (clear_orders v (PFORBIT OR PFDOCK) g);
            g = upd_player me (\<lambda>p. p\<lparr>p_tractor := v\<rparr>) g
        in order me (PFTRACT OR PFPRESS) 0 g
      else warn me 2 ''Weapon's Officer:  Vessel is out of range of our tractor beam.'' g)"

subsection \<open>War\<close>

definition sendwarn :: "bool \<Rightarrow> int \<Rightarrow> game \<Rightarrow> game" where
  "sendwarn atwar team =
     emit (Pmessage team ''MTEAM'' (if atwar then ''%s (%c%c) declaring war on the %s''
       else ''%s (%c%c) declaring peace with the %s''))"

definition war_news :: "int \<Rightarrow> int \<Rightarrow> game \<Rightarrow> game" where
  "war_news changes msk g =
     fold (\<lambda>t g. if meets changes t then sendwarn (meets msk t) t g else g) [FED, ROM, KLI, ORI] g"

definition release_hostile :: "nat \<Rightarrow> int \<Rightarrow> game \<Rightarrow> game" where
  "release_hostile me msk g =
     (let g = (if pflag me PFDOCK g \<and> meets (p_team (players g (p_dock_with (players g me)))) msk
               then bay_release me g else g)
      in if s_type (p_ship (players g me)) = STARBASE then
           for_upto NUMBAYS (\<lambda>i g.
             case p_bays (players g me) i of
               None \<Rightarrow> g
             | Some s \<Rightarrow> if meets msk (p_team (players g s)) then bay_release s g else g) g
         else g)"

definition declare_war :: "nat \<Rightarrow> int \<Rightarrow> bool \<Rightarrow> game \<Rightarrow> game" where
  "declare_war me m refitdelay g =
     (let p = players g me in
      if \<not> pflag me PFROBOT g \<and> p_team p = NOBODY then
        upd_player me (\<lambda>p. p\<lparr>p_war := NOBODY, p_hostile := NOBODY, p_swar := NOBODY\<rparr>) g
      else
        let m = ((m AND ALLTEAM) AND NOT (p_team p)) OR p_swar p; changes = m XOR p_hostile p
        in if changes = 0 then g
           else
             let g = release_hostile me m (war_news changes m g);
                 g = (if refitdelay \<and> m AND NOT (p_hostile p) \<noteq> 0 then
                        warn me 49 ''Pausing ten seconds to re-program battle computers.''
                          (upd_proc me (\<lambda>q. q\<lparr>delay := p_updates p + 100\<rparr>) (order me PFWAR 0 g))
                      else g)
             in upd_player me (\<lambda>p. p\<lparr>p_hostile := m, p_war := p_swar p OR m\<rparr>) g)"

subsection \<open>Refitting\<close>

definition numPlanets :: "int \<Rightarrow> game \<Rightarrow> int" where
  "numPlanets owner g = int (count_upto MAXPLANETS (\<lambda>l. pl_owner (planets g l) = owner))"

text \<open>The other living starbases of the player's team.\<close>

definition other_base :: "nat \<Rightarrow> game \<Rightarrow> nat \<Rightarrow> bool" where
  "other_base me g i \<longleftrightarrow>
     p_no (players g me) \<noteq> i \<and> p_status (players g i) = PALIVE \<and>
     p_team (players g i) = p_team (players g me) \<and> s_type (p_ship (players g i)) = STARBASE"

text \<open>Where a refit is refused because of the place, or the state of the ship.\<close>

definition refit_place :: "nat \<Rightarrow> nat \<Rightarrow> game \<Rightarrow> (int \<times> string) option" where
  "refit_place me t g =
     (let p = players g me; fl = pl_flags (planets g (p_planet p)) in
      if pflag me PFORBIT g then
        if \<not> meets fl PLHOME then
          Some (50, ''You must orbit your HOME planet to apply for command reassignment!'')
        else if \<not> meets fl (p_team p) then
          Some (51, ''You must orbit your home planet to apply for command reassignment!'')
        else None
      else if pflag me PFDOCK g then
        if t = STARBASE then Some (52, ''Can only refit to starbase on your home planet.'')
        else if p_team (players g (p_dock_with p)) \<noteq> p_team p then
          Some (53, ''You must dock YOUR starbase to apply for command reassignment!'')
        else None
      else Some (54, ''Must orbit home planet or dock your starbase to apply for command reassignment!''))"

definition refit_condition :: "sysdef \<Rightarrow> player \<Rightarrow> (int \<times> string) option" where
  "refit_condition c p =
     (let s = p_ship p;
          damageFactor = (if (s_type s \<noteq> STARBASE \<and> lame_refit c) \<or> (s_type s = STARBASE \<and> lame_base_refit c)
                          then 3/4 else 1/4 :: rat)
      in if of_int (p_damage p) > of_int (s_maxdamage s) * damageFactor \<or>
            of_int (p_shield p) < of_int (s_maxshield s) * (3/4 :: rat) \<or>
            of_int (p_fuel p) < of_int (s_maxfuel s) * (3/4 :: rat)
         then Some (55, ''Central Command refuses to accept a ship in this condition!'')
         else if p_armies p > 0
         then Some (56, ''You must beam your armies down before moving to your new ship'')
         else None)"

text \<open>The rank and offense that a class of ship requires.\<close>

definition refit_merit :: "rat \<Rightarrow> nat \<Rightarrow> nat \<Rightarrow> game \<Rightarrow> string option" where
  "refit_merit offense me t g =
     (let c = cfg g; rank = st_rank (p_stats (players g me)); fr = inl_mode g \<or> practice_mode g in
      if t = ASSAULT \<and> \<not> fr \<and> offense < as_minimal_offense c then
        Some ''You need an offense of %2.1f or higher to command an assault ship!''
      else if t = BATTLESHIP \<and> \<not> fr \<and> offense < bb_minimal_offense c then
        Some ''You need an offense of %2.1f or higher to command a battleship!''
      else if t = DESTROYER \<and> rank < ddrank c then
        Some ''You need a rank of %s or higher to command a destroyer!''
      else if t = DESTROYER \<and> \<not> fr \<and> offense < dd_minimal_offense c then
        Some ''You need an offense of %2.1f or higher to command a destroyer!''
      else if t = SCOUT \<and> \<not> fr \<and> offense < sc_minimal_offense c then
        Some ''You need an offense of %2.1f or higher to command a scout!''
      else if t = SGALAXY \<and> rank < garank c then
        Some ''You need a rank of %s or higher to command a galaxy class ship!''
      else if t = STARBASE \<and> rank < sbrank c then
        Some (if send_short (procs g me) then ''SBRANK_TEXT''
              else ''You need a rank of %s or higher to command a starbase!'')
      else if t = STARBASE \<and> \<not> fr \<and> \<not> pre_t_mode g \<and> offense < sb_minimal_offense c then
        Some ''You need an offense of %2.1f or higher to command a starbase!''
      else None)"

text \<open>What the team must have for a starbase.\<close>

definition refit_team :: "nat \<Rightarrow> nat \<Rightarrow> game \<Rightarrow> (int \<times> string) option" where
  "refit_team me t g =
     (let c = cfg g; team = p_team (players g me); ch = chaos g; tg = (topgun c \<noteq> 0) in
      if t \<noteq> STARBASE then None
      else if ch \<and> int (count_upto MAXPLAYER (other_base me g)) \<ge> max_chaos_bases c then
        Some (UNDEF, ''Your side already has %d starbase%s'')
      else if \<not> ch \<and> count_upto MAXPLAYER (other_base me g) > 0 then
        Some (58, ''Your side already has a starbase!'')
      else if \<not> ch \<and> \<not> tg \<and> realNumShips team g < 4 then
        Some (if send_short (procs g me) then (59, ''TEXTE'')
              else (UNDEF, ''Your team is not capable of defending such an expensive ship''))
      else if \<not> ch \<and> \<not> tg \<and> te_turns (teams g (nat team)) > 0 then
        Some (UNDEF, ''Not constructed yet. %d minutes required for completion'')
      else if numPlanets team g < sbplanets c \<and> \<not> tg then
        Some (61, ''Your team's stuggling economy cannot support such an expenditure!'')
      else None)"

definition new_ship :: "nat \<Rightarrow> nat \<Rightarrow> game \<Rightarrow> game" where
  "new_ship me t g =
     (let g = (if s_type (p_ship (players g me)) = STARBASE then
                 order me PFDOCKOK 0 (bay_release_all me (upd_player me (\<lambda>p. p\<lparr>p_kills := 0\<rparr>) g))
               else g);
          g = getship me t g;
          g = (if t \<noteq> STARBASE \<and> t \<noteq> ATT \<and> p_kills (players g me) < of_int (plkills (cfg g))
               then upd_player me (\<lambda>p. p\<lparr>p_ship := (p_ship p)\<lparr>s_plasmacost := -1\<rparr>\<rparr>) g else g);
          g = upd_player me p_heal g;
          g = upd_player me (\<lambda>p. p\<lparr>p_ship := (p_ship p)\<lparr>s_type := t\<rparr>\<rparr>) g;
          g = (if t = STARBASE then order me PFDOCKOK 0 (upd_player me bay_init g) else g);
          g = clear_orders me (PFREFIT OR PFWEP OR PFENG) g;
          g = order me PFREFITTING 0 g;
          g = upd_proc me (\<lambda>m. m\<lparr>rdelay := p_updates (players g me) + 50\<rparr>) g
      in warn me 62 ''You are being transported to your new vessel .... '' g)"

definition do_refit :: "nat \<Rightarrow> int \<Rightarrow> game \<Rightarrow> game" where
  "do_refit me ty g =
     (case ltd_offense_rating (status g) (players g me) of (p, offense) \<Rightarrow>
      let g = upd_player me (\<lambda>_. p) g; refuse = (\<lambda>(n, msg) g. warn me n msg g) in
      if ty < 0 \<or> ty > int ATT then g
      else case refit_place me (nat ty) g of
        Some r \<Rightarrow> refuse r g
      | None \<Rightarrow> (case refit_condition (cfg g) (players g me) of
        Some r \<Rightarrow> refuse r g
      | None \<Rightarrow>
          let (t, only) = is_only_one_ship_type_allowed g (nat ty);
              g = (if only then warn me UNDEF ''Only one ship type is allowed, you get that one.'' g else g)
          in if \<not> shipsallowed (cfg g) t then warn me 57 ''That ship hasn't been designed yet.'' g
             else case refit_merit offense me t g of
               Some msg \<Rightarrow> warn me UNDEF msg g
             | None \<Rightarrow> (case refit_team me t g of
               Some r \<Rightarrow> refuse r g
             | None \<Rightarrow> new_ship me t g)))"

subsection \<open>Docking and orbiting\<close>

datatype dock_result = DOCK_NO_BASE | DOCK_FAILURE | DOCK_SUCCESS

definition stop_warping :: "nat \<Rightarrow> game \<Rightarrow> game" where
  "stop_warping me g =
     (if pflag me PFTWARP g then
        let g = order me 0 PFTWARP g; g = order me PFREFITTING 0 g
        in upd_proc me (\<lambda>m. m\<lparr>rdelay := p_updates (players g me) + 50\<rparr>) g
      else g)"

definition de_lock :: "nat \<Rightarrow> game \<Rightarrow> game" where
  "de_lock me g = stop_warping me (clear_orders me (PFPLOCK OR PFPLLOCK OR PFTRACT OR PFPRESS) g)"

definition friendlyPlayer :: "player \<Rightarrow> player \<Rightarrow> bool" where
  "friendlyPlayer me p \<longleftrightarrow> \<not> meets (p_team me) (p_swar p) \<and> \<not> meets (p_team p) (p_war me)"

definition dock_dir :: "nat \<Rightarrow> 8 word" where
  "dock_dir bay = of_int (((int bay * 90 + 45) * 256) div 360)"

definition moor_at :: "nat \<Rightarrow> nat \<Rightarrow> nat \<Rightarrow> game \<Rightarrow> game" where
  "moor_at me base bay g =
     (let d = dock_dir bay;
          g = order me PFDOCK 0 (clear_orders me (PFPLOCK OR PFPLLOCK OR PFTRACT OR PFPRESS) g);
          g = upd_player me (\<lambda>p. p\<lparr>p_dir := 64 + d, p_desdir := 64 + d,
                p_x := trunc (of_int (p_x (players g base)) + of_int DOCKDIST * Cos d),
                p_y := trunc (of_int (p_y (players g base)) + of_int DOCKDIST * Sin d)\<rparr>) g;
          g = upd_player me (\<lambda>p. (p_x_y_to_internal p)\<lparr>p_speed := 0, p_desspeed := 0\<rparr>) g;
          g = bay_claim base me bay (stop_warping me g)
      in if send_short (procs g me) then emit (Swarning me ''ONEARG_TEXT'' 2 (int bay)) g
         else warn me UNDEF ''Helmsman:  Docking manuever completed Captain.  All moorings secured at bay %d.'' g)"

definition refuse_dock :: "nat \<Rightarrow> nat \<Rightarrow> string \<Rightarrow> string \<Rightarrow> game \<Rightarrow> game \<times> dock_result" where
  "refuse_dock me base short long g =
     (de_lock me (if send_short (procs g me) \<and> short \<noteq> [] then emit (Swarning me short (int (p_no (players g base))) 0) g
        else warn me UNDEF long g), DOCK_FAILURE)"

definition dock :: "nat \<Rightarrow> nat \<Rightarrow> game \<Rightarrow> game \<times> dock_result" where
  "dock me base g =
     (let p = players g me; b = players g base; dx = p_x b - p_x p; dy = p_y b - p_y p in
      if dx > DOCKDIST \<or> dx < - DOCKDIST then (g, DOCK_NO_BASE)
      else if dy > DOCKDIST \<or> dy < - DOCKDIST then (g, DOCK_NO_BASE)
      else if dx * dx + dy * dy > DOCKDIST * DOCKDIST then (g, DOCK_NO_BASE)
      else if \<not> friendlyPlayer p b then
        refuse_dock me base [] ''Docking onto a hostile base is unwise, Captain!'' g
      else if \<not> p_candock p then
        refuse_dock me base ''SBDOCKREFUSE_TEXT''
          ''Starbase %s refusing us docking permission, Captain.'' g
      else if s_type (p_ship p) = STARBASE \<and> \<not> chaosmode (cfg g) then
        refuse_dock me base [] ''Starbases are too big to dock onto other starbases.'' g
      else if \<not> has (p_flags b) PFDOCKOK then
        refuse_dock me base [] ''Starbase %s refusing all docking requests, Captain.'' g
      else case bay_closest base dx dy g of
        (g, None) \<Rightarrow>
          refuse_dock me base ''SBDOCKDENIED_TEXT''
            ''Starbase %s: Permission to dock denied, all bays occupied.'' g
      | (g, Some bay) \<Rightarrow> (moor_at me base bay g, DOCK_SUCCESS))"

text \<open>
  The ships with a beam on the player.  A second one, or one that is no base, ends the order; a
  base lifts the player out of its dock or orbit.
\<close>

fun tractored_by :: "nat \<Rightarrow> nat list \<Rightarrow> nat option \<Rightarrow> game \<Rightarrow> game \<times> nat option \<times> bool" where
  "tractored_by me [] t g = (g, t, False)"
| "tractored_by me (j # js) t g =
     (if p_status (players g j) = PALIVE \<and> pflag j PFTRACT g \<and> p_tractor (players g j) = p_no (players g me) then
        if s_type (p_ship (players g j)) \<noteq> STARBASE \<or> t \<noteq> None then (g, t, True)
        else tractored_by me js (Some j) (clear_orders me (PFDOCK OR PFORBIT) g)
      else tractored_by me js t g)"

fun try_bases :: "nat \<Rightarrow> nat list \<Rightarrow> game \<Rightarrow> game \<times> bool" where
  "try_bases me [] g = (g, False)"
| "try_bases me (j # js) g =
     (if j = me \<or> s_type (p_ship (players g j)) \<noteq> STARBASE \<or> p_status (players g j) \<noteq> PALIVE
      then try_bases me js g
      else case dock me j g of
             (g, DOCK_NO_BASE) \<Rightarrow> try_bases me js g
           | (g, _) \<Rightarrow> (g, True))"

definition near_planet :: "player \<Rightarrow> planet \<Rightarrow> bool" where
  "near_planet p l \<longleftrightarrow>
     (let dx = pl_x l - p_x p; dy = pl_y l - p_y p
      in \<not> (dx > ENTORBDIST \<or> dx < - ENTORBDIST) \<and> \<not> (dy > ENTORBDIST \<or> dy < - ENTORBDIST) \<and>
         dx * dx + dy * dy \<le> ENTORBDIST * ENTORBDIST)"

definition enter_orbit :: "(int \<Rightarrow> int \<Rightarrow> rat) \<Rightarrow> nat \<Rightarrow> nat \<Rightarrow> game \<Rightarrow> game" where
  "enter_orbit atan me l g =
     (let p = players g me; k = planets g l; dir = to_dir atan (pl_x k) (pl_y k) (p_x p) (p_y p);
          g = (if \<not> meets (pl_info k) (p_team p)
               then upd_planet l (\<lambda>k. k\<lparr>pl_info := pl_info k OR p_team p\<rparr>) g else g);
          g = order me PFORBIT 0 (clear_orders me (PFPLOCK OR PFPLLOCK OR PFTRACT OR PFPRESS) g);
          g = upd_player me (\<lambda>p. p\<lparr>p_dir := dir + 64, p_desdir := dir + 64\<rparr>) g
      in upd_player me (\<lambda>p. (p_x_y_go (trunc (of_int (pl_x k) + of_int ORBDIST * Cos dir))
             (trunc (of_int (pl_y k) + of_int ORBDIST * Sin dir)) p)
           \<lparr>p_speed := 0, p_desspeed := 0, p_planet := pl_no k\<rparr>) g)"

definition orbit_planet :: "(int \<Rightarrow> int \<Rightarrow> rat) \<Rightarrow> nat \<Rightarrow> game \<Rightarrow> game" where
  "orbit_planet atan me g =
     (let p = players g me in
      case first_in 0 MAXPLANETS (\<lambda>l. near_planet p (planets g l)) of
        None \<Rightarrow> warn me 81 ''Helmsman:  Sensors read no valid targets in range to dock or orbit sir!'' g
      | Some l \<Rightarrow>
          if \<not> sborbit (cfg g) \<and> s_type (p_ship p) = STARBASE \<and> \<not> meets (p_team p) (pl_owner (planets g l)) then
            warn me 80 ''Central Command regulations prohibit you from orbiting foreign planets'' g
          else enter_orbit atan me l g)"

definition orbit :: "(int \<Rightarrow> int \<Rightarrow> rat) \<Rightarrow> nat \<Rightarrow> game \<Rightarrow> game" where
  "orbit atan me g =
     (if p_inl_draft (players g me) \<noteq> INL_DRAFT_OFF then g
      else if p_speed (players g me) > ORBSPEED then
        warn me 79 ''Helmsman: Captain, the maximum safe speed for docking or orbiting is warp 2!'' g
      else case tractored_by me [0..<MAXPLAYER] None g of
        (g, _, True) \<Rightarrow> g
      | (g, Some j, False) \<Rightarrow> fst (dock me j g)
      | (g, None, False) \<Rightarrow>
          if pflag me (PFDOCK OR PFORBIT) g then g
          else case (if s_type (p_ship (players g me)) \<noteq> STARBASE \<or> chaosmode (cfg g)
                     then try_bases me [0..<MAXPLAYER] g else (g, False)) of
            (g, True) \<Rightarrow> g
          | (g, False) \<Rightarrow> orbit_planet atan me g)"

subsection \<open>Coups\<close>

definition coup :: "nat \<Rightarrow> game \<Rightarrow> game" where
  "coup me g =
     (let p = players g me; i = p_planet p; l = planets g i in
      if p_kills p < 1 then warn me 3 ''You must have one kill to throw a coup'' g
      else if \<not> pflag me PFORBIT g then warn me 4 ''You must orbit your home planet to throw a coup'' g
      else if \<exists>k<MAXPLANETS. pl_owner (planets g k) = p_team p \<and> pl_armies (planets g k) > 0 then
        warn me 5 ''You already own a planet!!!'' g
      else if \<not> meets (pl_flags l) PLHOME \<or> pl_flags l AND ALLTEAM \<noteq> p_team p then
        warn me 6 ''You must orbit your home planet to throw a coup'' g
      else if pl_armies l > 4 then warn me 7 ''Too many armies on planet to throw a coup'' g
      else if pl_couptime l > 0 then warn me UNDEF ''Can't throw a coup for %d more minute%s'' g
      else if meets (pl_flags l) PLCOUP then g
      else upd_player me (\<lambda>p. p\<lparr>p_planets := p_planets p + 1, p_genoplanets := p_genoplanets p + 1\<rparr>)
             (upd_planet i (\<lambda>l. l\<lparr>pl_flags := pl_flags l OR PLCOUP\<rparr>) g))"

end
