(* ===== verification/Cmds.thy ===== *)
theory Cmds
  imports Interface
begin

text \<open>
  The commands of \<open>Interface\<close> as one data type, and the invariants that every sequence of
  commands keeps: exclusive orders, sound docking, one starbase per team.
\<close>

subsection \<open>Running commands\<close>

datatype command =
    Set_speed int | Set_course "8 word" | Shield_up | Shield_down | Bomb_planet | Beam_up
  | Beam_down | Repair | Repair_off | Cloak | Cloak_on | Cloak_off | Lock_planet int
  | Tractor_player int | Pressor_player int | Declare_war int bool | Do_refit int | Orbit | Coup

fun obey :: "(int \<Rightarrow> int \<Rightarrow> rat) \<Rightarrow> nat \<times> command \<Rightarrow> game \<Rightarrow> game" where
  "obey atan (me, Set_speed n) = set_speed me n"
| "obey atan (me, Set_course d) = set_course me d"
| "obey atan (me, Shield_up) = shield_up me"
| "obey atan (me, Shield_down) = shield_down me"
| "obey atan (me, Bomb_planet) = bomb_planet me"
| "obey atan (me, Beam_up) = beam_up me"
| "obey atan (me, Beam_down) = beam_down me"
| "obey atan (me, Repair) = repair me"
| "obey atan (me, Repair_off) = repair_off me"
| "obey atan (me, Cloak) = cloak me"
| "obey atan (me, Cloak_on) = cloak_on me"
| "obey atan (me, Cloak_off) = cloak_off me"
| "obey atan (me, Lock_planet n) = lock_planet me n"
| "obey atan (me, Tractor_player n) = tractor_player me n"
| "obey atan (me, Pressor_player n) = pressor_player me n"
| "obey atan (me, Declare_war m r) = declare_war me m r"
| "obey atan (me, Do_refit n) = do_refit me n"
| "obey atan (me, Orbit) = orbit atan me"
| "obey atan (me, Coup) = coup me"

text \<open>What one step keeps, a run keeps.\<close>

locale kept =
  fixes inv :: "'s \<Rightarrow> bool" and step :: "'c \<Rightarrow> 's \<Rightarrow> 's"
  assumes keep: "inv s \<Longrightarrow> inv (step c s)"
begin

lemma keep_run: "inv s \<Longrightarrow> inv (fold step cs s)"
  by (rule fold_inv) (simp_all add: keep)

end

subsection \<open>Exclusive orders\<close>

definition exclusive :: "(32 word \<times> 32 word) list" where
  "exclusive =
     [(PFSHIELD, PFREPAIR), (PFSHIELD, PFBOMB), (PFSHIELD, PFBEAMUP), (PFSHIELD, PFBEAMDOWN),
      (PFREPAIR, PFBOMB), (PFREPAIR, PFBEAMUP), (PFREPAIR, PFBEAMDOWN), (PFBOMB, PFBEAMUP),
      (PFBOMB, PFBEAMDOWN), (PFBEAMUP, PFBEAMDOWN), (PFPLOCK, PFPLLOCK),
      (PFCLOAK, PFTRACT), (PFCLOAK, PFPRESS)]"

definition orders_ok :: "32 word \<Rightarrow> bool" where
  "orders_ok f \<longleftrightarrow> list_all (\<lambda>(a, b). \<not> (has f a \<and> has f b)) exclusive"

definition flags_ok :: "game \<Rightarrow> bool" where
  "flags_ok g \<longleftrightarrow> (\<forall>i. orders_ok (p_flags (players g i)))"

named_theorems keeps_flags

lemma has_clear_le: "has (clear_flags m f) k \<Longrightarrow> has f k"
proof -
  have "(f AND NOT m) AND k = NOT m AND (f AND k)"
    by (simp add: bit_eq_iff bit_simps) blast
  then show "has (clear_flags m f) k \<Longrightarrow> has f k" by (auto simp: has_def clear_flags_def)
qed

lemma has_clear_set:
  assumes "on AND k = 0" shows "has (set_flags on f) k = has f k"
  using assms by simp

lemma orders_ok_clear: "orders_ok f \<Longrightarrow> orders_ok (clear_flags m f)"
  unfolding orders_ok_def list_all_iff using has_clear_le by fast

lemma flags_okD: "flags_ok g \<Longrightarrow> orders_ok (p_flags (players g i))"
  by (simp add: flags_ok_def)

lemma flags_ok_upd:
  "flags_ok g \<Longrightarrow> orders_ok (p_flags (f (players g i))) \<Longrightarrow> flags_ok (upd_player i f g)"
  by (simp add: flags_ok_def)

lemma flags_ok_frame [keeps_flags]:
  "flags_ok g \<Longrightarrow> (\<And>p. p_flags (f p) = p_flags p) \<Longrightarrow> flags_ok (upd_player i f g)"
  by (simp add: flags_ok_def)

lemma flags_ok_other [keeps_flags]:
  "flags_ok g \<Longrightarrow> flags_ok (emit e g)" "flags_ok g \<Longrightarrow> flags_ok (upd_proc i h g)"
  "flags_ok g \<Longrightarrow> flags_ok (upd_planet i k g)"
  by (simp_all add: flags_ok_def)

lemma flags_ok_clear [keeps_flags]: "flags_ok g \<Longrightarrow> flags_ok (clear_orders me off g)"
  unfolding clear_orders_def by (rule flags_ok_upd) (auto intro: orders_ok_clear flags_okD)

lemma flags_ok_order:
  "flags_ok g \<Longrightarrow> (\<And>f. orders_ok f \<Longrightarrow> orders_ok (clear_flags off (set_flags on f))) \<Longrightarrow> flags_ok (order me on off g)"
  unfolding order_def by (rule flags_ok_upd) (auto intro: flags_okD)

lemma flags_ok_let [keeps_flags]:
  "flags_ok x \<Longrightarrow> (\<And>y. flags_ok y \<Longrightarrow> flags_ok (f y)) \<Longrightarrow> flags_ok (Let x f)"
  by simp

lemma flags_ok_if [keeps_flags]:
  "(c \<Longrightarrow> flags_ok x) \<Longrightarrow> (\<not> c \<Longrightarrow> flags_ok y) \<Longrightarrow> flags_ok (if c then x else y)"
  by simp

lemma order_legal:
  "orders_ok f \<Longrightarrow> orders_ok (clear_flags (PFBOMB OR PFREPAIR OR PF_BEAMS) (set_flags PFSHIELD f))"
  "orders_ok f \<Longrightarrow> orders_ok (clear_flags (PFSHIELD OR PFREPAIR OR PF_BEAMS) (set_flags PFBOMB f))"
  "orders_ok f \<Longrightarrow> orders_ok (clear_flags (PFSHIELD OR PFREPAIR OR PFBOMB OR PFBEAMDOWN) (set_flags PFBEAMUP f))"
  "orders_ok f \<Longrightarrow> orders_ok (clear_flags (PFSHIELD OR PFREPAIR OR PFBOMB OR PFBEAMUP) (set_flags PFBEAMDOWN f))"
  "orders_ok f \<Longrightarrow> orders_ok (clear_flags (PFSHIELD OR PFBOMB OR PF_BEAMS OR PFPLOCK OR PFPLLOCK) (set_flags PFREPAIR f))"
  "orders_ok f \<Longrightarrow> orders_ok (clear_flags (PFTRACT OR PFPRESS) (set_flags PFCLOAK f))"
  "orders_ok f \<Longrightarrow> orders_ok (clear_flags (PFPLOCK OR PFORBIT OR PF_BEAMS OR PFBOMB) (set_flags PFPLLOCK f))"
  by (simp_all add: orders_ok_def exclusive_def)


lemma flags_ok_release [keeps_flags]: "flags_ok g \<Longrightarrow> flags_ok (bay_release me g)"
  by (simp add: flags_ok_def bay_release_def vacate_def Let_def orders_ok_clear)

lemma flags_ok_release_all [keeps_flags]:
  assumes "flags_ok g" shows "flags_ok (bay_release_all me g)"
  unfolding bay_release_all_alt
proof (rule for_upto_inv [where P = flags_ok], rule assms)
  show "flags_ok h \<Longrightarrow> flags_ok (free_bay me i h)" for i h
    by (simp add: flags_ok_def free_bay_def vacate_def orders_ok_clear split: option.split)
qed

lemma flags_ok_check [keeps_flags]:
  assumes "flags_ok g" shows "flags_ok (bay_consistency_check b g)"
  unfolding bay_consistency_check_def
  by (rule for_upto_inv [where P = flags_ok], rule assms)
    (simp add: flags_ok_def vacate_def split: option.split)

lemma flags_ok_orders:
  "flags_ok g \<Longrightarrow> flags_ok (order me PFSHIELD (PFBOMB OR PFREPAIR OR PF_BEAMS) g)"
  "flags_ok g \<Longrightarrow> flags_ok (order me PFBOMB (PFSHIELD OR PFREPAIR OR PF_BEAMS) g)"
  "flags_ok g \<Longrightarrow> flags_ok (order me PFBEAMUP (PFSHIELD OR PFREPAIR OR PFBOMB OR PFBEAMDOWN) g)"
  "flags_ok g \<Longrightarrow> flags_ok (order me PFBEAMDOWN (PFSHIELD OR PFREPAIR OR PFBOMB OR PFBEAMUP) g)"
  "flags_ok g \<Longrightarrow> flags_ok (order me PFREPAIR (PFSHIELD OR PFBOMB OR PF_BEAMS OR PFPLOCK OR PFPLLOCK) g)"
  "flags_ok g \<Longrightarrow> flags_ok (order me PFCLOAK (PFTRACT OR PFPRESS) g)"
  "flags_ok g \<Longrightarrow> flags_ok (order me PFPLLOCK (PFPLOCK OR PFORBIT OR PF_BEAMS OR PFBOMB) g)"
  by (rule flags_ok_order; simp add: orders_ok_def exclusive_def)+

lemmas flags_ok_orders_num [keeps_flags] = flags_ok_orders [simplified]

text \<open>Flags that exclude no other.\<close>

lemma flags_ok_neutral [keeps_flags]:
  "flags_ok g \<Longrightarrow> flags_ok (order me PFWAR 0 g)" "flags_ok g \<Longrightarrow> flags_ok (order me PFDOCKOK 0 g)"
  "flags_ok g \<Longrightarrow> flags_ok (order me PFREFITTING 0 g)" "flags_ok g \<Longrightarrow> flags_ok (order me PFDOCK 0 g)"
  "flags_ok g \<Longrightarrow> flags_ok (order me PFORBIT 0 g)" "flags_ok g \<Longrightarrow> flags_ok (order me 0 PFTWARP g)"
  by (rule flags_ok_order; simp add: orders_ok_def exclusive_def clear_flags_def [of 0] set_flags_def [of 0])+

lemma flags_ok_bomb_count [keeps_flags]: "flags_ok g \<Longrightarrow> flags_ok (bomb_count me f g)"
  by (simp add: flags_ok_def bomb_count_def)

lemma flags_ok_moves:
  assumes "flags_ok g"
  shows "flags_ok (set_speed me n g)" "flags_ok (set_course me d g)" "flags_ok (shield_up me g)"
    "flags_ok (shield_down me g)" "flags_ok (repair me g)" "flags_ok (repair_off me g)"
    "flags_ok (cloak_on me g)" "flags_ok (cloak_off me g)"
  using assms
  by (simp_all add: set_speed_def set_course_def shield_up_def shield_down_def repair_def repair_off_def
    cloak_on_def cloak_off_def Let_def keeps_flags)

lemma flags_ok_armies:
  assumes "flags_ok g"
  shows "flags_ok (bomb_planet me g)" "flags_ok (beam_up me g)"
    "flags_ok (beam_down me g)" "flags_ok (lock_planet me l g)" "flags_ok (coup me g)"
  using assms
  by (simp_all add: bomb_planet_def beam_up_def beam_down_def lock_planet_def coup_def Let_def keeps_flags)


lemma has_xor_other [simp]: "m AND k = 0 \<Longrightarrow> has (f XOR m) k = has f k"
proof -
  assume "m AND k = 0"
  then have "(f XOR m) AND k = f AND k" by (simp add: bit_eq_iff bit_simps) blast
  then show ?thesis by (simp add: has_def)
qed

lemma flags_ok_cloak: "flags_ok g \<Longrightarrow> flags_ok (cloak me g)"
  unfolding cloak_def
  by (rule flags_ok_upd) (auto dest!: flags_okD [of g me] simp: orders_ok_def exclusive_def)

text \<open>A beam is set only on a ship that is not cloaked.\<close>

lemma flags_ok_beam:
  "flags_ok g \<Longrightarrow> \<not> pflag me PFCLOAK g \<Longrightarrow> flags_ok (order me PFTRACT 0 g)"
  "flags_ok g \<Longrightarrow> \<not> pflag me PFCLOAK g \<Longrightarrow> flags_ok (order me (PFTRACT OR PFPRESS) 0 g)"
  unfolding order_def
  by (rule flags_ok_upd; auto dest!: flags_okD [of g me] simp: orders_ok_def exclusive_def clear_flags_def [of 0])+

lemma cloaked_frames:
  "pflag i PFCLOAK (bay_release s g) = pflag i PFCLOAK g"
  "m AND PFCLOAK = 0 \<Longrightarrow> pflag i PFCLOAK (clear_orders s m g) = pflag i PFCLOAK g"
  by (simp_all add: bay_release_def vacate_def clear_orders_def Let_def)

lemmas flags_ok_beam_num [keeps_flags] = flags_ok_beam [simplified]

lemma flags_ok_tractor: "flags_ok g \<Longrightarrow> flags_ok (tractor_player me n g)"
  by (simp add: tractor_player_def Let_def keeps_flags cloaked_frames)

lemma flags_ok_pressor: "flags_ok g \<Longrightarrow> flags_ok (pressor_player me n g)"
  by (simp add: pressor_player_def Let_def keeps_flags cloaked_frames)

lemma flags_ok_news [keeps_flags]:
  assumes "flags_ok g" shows "flags_ok (war_news c m g)"
  unfolding war_news_def
  by (rule fold_inv [where P = flags_ok], rule assms) (simp add: sendwarn_def keeps_flags)

lemma flags_ok_hostile [keeps_flags]:
  assumes "flags_ok g" shows "flags_ok (release_hostile me m g)"
proof -
  have "flags_ok (for_upto NUMBAYS (\<lambda>i g.
             case p_bays (players g me) i of
               None \<Rightarrow> g
             | Some s \<Rightarrow> if meets m (p_team (players g s)) then bay_release s g else g) h)" if "flags_ok h" for h
    by (rule for_upto_inv [where P = flags_ok], rule that) (simp add: keeps_flags split: option.split)
  then show ?thesis using assms unfolding release_hostile_def by (simp add: Let_def keeps_flags)
qed

lemmas flags_ok_neutral_num [keeps_flags] = flags_ok_neutral [simplified]

lemma flags_ok_war: "flags_ok g \<Longrightarrow> flags_ok (declare_war me m r g)"
  by (simp add: declare_war_def Let_def keeps_flags)

lemma flags_ok_new_ship [keeps_flags]: "flags_ok g \<Longrightarrow> flags_ok (new_ship me t g)"
  unfolding new_ship_def
  by (intro flags_ok_let flags_ok_if; (simp add: getship_def p_heal_def bay_init_def keeps_flags)?)

text \<open>Asking for a rating refreshes a total and changes nothing else.\<close>

lemma offense_core:
  assumes "ltd_offense_rating st (players g me) = (p, off)"
  shows "core (upd_player me (\<lambda>_. p) g) = core g"
proof -
  have "strip_ltd (fst (ltd_offense_rating st q)) = strip_ltd q" for q
    by (simp add: ltd_offense_rating_def ltd_kills_of_def ltd_ticks_of_def set_total_def Let_def)
  from this [of "players g me"] have "strip_ltd p = strip_ltd (players g me)" by (simp add: assms)
  then show ?thesis by (auto simp: core_def upd_player_def fun_eq_iff)
qed

lemma flags_ok_core:
  assumes "core h = core g" shows "flags_ok h = flags_ok g"
proof -
  have "p_flags (players h i) = p_flags (players g i)" for i using assms by (rule core_player)
  then show ?thesis by (simp add: flags_ok_def)
qed

text \<open>
  What a refit keeps: a warning keeps it, and a new ship keeps it where the team may have such a
  ship.
\<close>

lemma do_refit_inv:
  assumes stats: "\<And>h. core h = core g \<Longrightarrow> P h"
    and warns: "\<And>n msg h. P h \<Longrightarrow> P (warn me n msg h)"
    and ships: "\<And>t h. P h \<Longrightarrow> refit_team me t h = None \<Longrightarrow> P (new_ship me t h)"
  shows "P (do_refit me ty g)"
proof -
  obtain p off where r: "ltd_offense_rating (status g) (players g me) = (p, off)" by fastforce
  let ?g = "upd_player me (\<lambda>_. p) g"
  obtain t b where t: "is_only_one_ship_type_allowed ?g (nat ty) = (t, b)" by fastforce
  have start: "P ?g" by (rule stats) (rule offense_core [OF r])
  have refuse: "P ((case q of (n, msg) \<Rightarrow> \<lambda>g. warn me n msg g) h)" if "P h" for q h
    using warns [OF that] by (cases q) simp
  define h where "h = (if b then warn me UNDEF ''Only one ship type is allowed, you get that one.'' ?g else ?g)"
  have h: "P h" using start warns [OF start] by (simp add: h_def)
  have last: "P (case refit_merit off me t h of
             Some msg \<Rightarrow> warn me UNDEF msg h
           | None \<Rightarrow> (case refit_team me t h of
               Some r \<Rightarrow> (case r of (n, msg) \<Rightarrow> \<lambda>g. warn me n msg g) h
             | None \<Rightarrow> new_ship me t h))"
    by (intro option_prop [of _ P] warns refuse ships h)
  show ?thesis
    unfolding do_refit_def r prod.case Let_def t h_def [symmetric]
    by (intro if_prop [of _ P] option_prop [of _ P] start refuse warns h last)
qed

lemma flags_ok_refit:
  assumes "flags_ok g" shows "flags_ok (do_refit me n g)"
proof (rule do_refit_inv [where P = flags_ok])
  show "flags_ok h" if "core h = core g" for h using flags_ok_core [OF that] assms by simp
qed (simp_all add: keeps_flags)

subsection \<open>Docking\<close>

text \<open>
  The moorings of a game: who is docked where, and which ships are bases.  A docked ship holds the
  bay it names, and the ship it is docked with is a starbase.
\<close>

definition moorings_ok :: "game \<Rightarrow> bool" where
  "moorings_ok g \<longleftrightarrow> numbered g \<and> docks_ok g \<and>
     (\<forall>s b i. ship_berth g s = Some (b, i) \<longrightarrow> i < NUMBAYS \<and> s_type (p_ship (players g b)) = STARBASE)"

named_theorems keeps_moorings

lemma moorings_frame:
  assumes "moorings_ok g"
    and "\<And>i. p_no (players h i) = p_no (players g i)" and "\<And>i. p_bays (players h i) = p_bays (players g i)"
    and "\<And>i. s_type (p_ship (players h i)) = s_type (p_ship (players g i))"
    and "\<And>i x. ship_berth h i = Some x \<Longrightarrow> ship_berth g i = Some x"
  shows "moorings_ok h"
  using assms unfolding moorings_ok_def numbered_def docks_ok_def bay_holds_def by metis

lemma moorings_upd [keeps_moorings]:
  "moorings_ok g \<Longrightarrow>
   (\<And>p. p_no (f p) = p_no p \<and> p_bays (f p) = p_bays p \<and> s_type (p_ship (f p)) = s_type (p_ship p) \<and>
      p_dock_with (f p) = p_dock_with p \<and> p_dock_bay (f p) = p_dock_bay p \<and>
      has (p_flags (f p)) PFDOCK = has (p_flags p) PFDOCK) \<Longrightarrow>
   moorings_ok (upd_player me f g)"
  by (erule moorings_frame) (simp_all add: ship_berth_def split: if_splits)

lemma moorings_other [keeps_moorings]:
  "moorings_ok g \<Longrightarrow> moorings_ok (emit e g)" "moorings_ok g \<Longrightarrow> moorings_ok (upd_proc i h g)"
  "moorings_ok g \<Longrightarrow> moorings_ok (upd_planet i k g)" "moorings_ok g \<Longrightarrow> moorings_ok (bomb_count i c g)"
  by (erule moorings_frame; auto simp: ship_berth_def bomb_count_def split: if_splits)+

lemma moorings_clear [keeps_moorings]: "moorings_ok g \<Longrightarrow> moorings_ok (clear_orders me off g)"
  by (erule moorings_frame) (auto simp: clear_orders_def ship_berth_def dest: has_clear_le split: if_splits)

lemma moorings_order [keeps_moorings]:
  assumes "moorings_ok g" and "on AND PFDOCK = 0" shows "moorings_ok (order me on off g)"
proof -
  have flag: "has f PFDOCK" if "has (clear_flags off (set_flags on f)) PFDOCK" for f
    using has_clear_le [OF that] assms(2) by (simp only: has_set_other)
  show ?thesis
    by (rule moorings_frame [OF assms(1)])
      (simp_all add: order_def ship_berth_def split: if_splits, blast intro: flag)
qed

lemma moorings_let [keeps_moorings]:
  "moorings_ok x \<Longrightarrow> (\<And>y. moorings_ok y \<Longrightarrow> moorings_ok (f y)) \<Longrightarrow> moorings_ok (Let x f)"
  by simp

lemma moorings_if [keeps_moorings]:
  "(c \<Longrightarrow> moorings_ok x) \<Longrightarrow> (\<not> c \<Longrightarrow> moorings_ok y) \<Longrightarrow> moorings_ok (if c then x else y)"
  by simp

lemma type_release [simp]: "s_type (p_ship (players (bay_release s g) i)) = s_type (p_ship (players g i))"
  by (simp add: bay_release_def vacate_def Let_def)

lemma type_check [simp]: "p_ship (players (bay_consistency_check b g) i) = p_ship (players g i)"
  unfolding bay_consistency_check_def
  by (rule for_upto_same [where g = "\<lambda>g. p_ship (players g i)"]) (simp add: vacate_def split: option.split)

lemma type_release_all [simp]: "p_ship (players (bay_release_all b g) i) = p_ship (players g i)"
  unfolding bay_release_all_alt
  by (rule for_upto_same [where g = "\<lambda>g. p_ship (players g i)"]) (simp add: free_bay_def vacate_def split: option.split)

lemma moorings_release [keeps_moorings]: "moorings_ok g \<Longrightarrow> moorings_ok (bay_release s g)"
  unfolding moorings_ok_def
  by (auto simp: docks_ok_release numbered_bay_release ship_berth_bay_release split: if_splits)

lemma moorings_check [keeps_moorings]: "moorings_ok g \<Longrightarrow> moorings_ok (bay_consistency_check b g)"
  unfolding moorings_ok_def by (auto simp: docks_ok_check check_simps)


lemmas moorings_order_num [keeps_moorings] = moorings_order [simplified]

lemma moorings_core:
  assumes "core h = core g" shows "moorings_ok h = moorings_ok g"
proof -
  have "p_no (players h i) = p_no (players g i)" "p_bays (players h i) = p_bays (players g i)"
    "p_ship (players h i) = p_ship (players g i)" "p_flags (players h i) = p_flags (players g i)"
    "p_dock_with (players h i) = p_dock_with (players g i)" "p_dock_bay (players h i) = p_dock_bay (players g i)" for i
    using assms by (rule core_player)+
  then show ?thesis
    by (simp add: moorings_ok_def numbered_def docks_ok_def bay_holds_def ship_berth_def)
qed

lemma moorings_simple:
  assumes "moorings_ok g"
  shows "moorings_ok (set_speed me n g)" "moorings_ok (set_course me d g)" "moorings_ok (shield_up me g)"
    "moorings_ok (shield_down me g)" "moorings_ok (repair me g)" "moorings_ok (repair_off me g)"
    "moorings_ok (cloak_on me g)" "moorings_ok (cloak_off me g)" "moorings_ok (cloak me g)"
  using assms
  by (simp_all add: set_speed_def set_course_def shield_up_def shield_down_def repair_def repair_off_def
    cloak_on_def cloak_off_def cloak_def Let_def keeps_moorings)

lemma moorings_armies:
  assumes "moorings_ok g"
  shows "moorings_ok (bomb_planet me g)" "moorings_ok (beam_up me g)"
    "moorings_ok (beam_down me g)" "moorings_ok (lock_planet me l g)" "moorings_ok (coup me g)"
  using assms
  by (simp_all add: bomb_planet_def beam_up_def beam_down_def lock_planet_def coup_def Let_def keeps_moorings)

lemma moorings_beams:
  assumes "moorings_ok g"
  shows "moorings_ok (tractor_player me n g)" "moorings_ok (pressor_player me n g)"
  using assms by (simp_all add: tractor_player_def pressor_player_def Let_def keeps_moorings)

lemma moorings_war:
  assumes "moorings_ok g" shows "moorings_ok (declare_war me m r g)"
proof -
  have news: "moorings_ok (war_news c n h)" if "moorings_ok h" for c n h
    unfolding war_news_def
    by (rule fold_inv [where P = moorings_ok], rule that) (simp add: sendwarn_def keeps_moorings)
  have "moorings_ok (for_upto NUMBAYS (\<lambda>i g.
             case p_bays (players g me) i of
               None \<Rightarrow> g
             | Some s \<Rightarrow> if meets n (p_team (players g s)) then bay_release s g else g) h)"
    if "moorings_ok h" for n h
    by (rule for_upto_inv [where P = moorings_ok], rule that) (simp add: keeps_moorings split: option.split)
  then have "moorings_ok (release_hostile me n h)" if "moorings_ok h" for n h
    using that unfolding release_hostile_def by (simp add: Let_def keeps_moorings)
  with news assms show ?thesis by (simp add: declare_war_def Let_def keeps_moorings)
qed

text \<open>A new ship: an old base has let every ship go, and a ship that was no base had none.\<close>

definition undocked :: "nat \<Rightarrow> game \<Rightarrow> bool" where
  "undocked b g \<longleftrightarrow> (\<forall>s i. ship_berth g s \<noteq> Some (b, i))"

lemma undocked_frame:
  "undocked b g \<Longrightarrow> (\<And>i x. ship_berth h i = Some x \<Longrightarrow> ship_berth g i = Some x) \<Longrightarrow> undocked b h"
  unfolding undocked_def by blast

lemma undocked_free:
  assumes "moorings_ok g"
  shows "s_type (p_ship (players g b)) \<noteq> STARBASE \<Longrightarrow> undocked b g"
    and "undocked b (bay_release_all b g)" and "moorings_ok (bay_release_all b g)"
proof -
  show "s_type (p_ship (players g b)) \<noteq> STARBASE \<Longrightarrow> undocked b g"
    using assms unfolding moorings_ok_def undocked_def by blast
  have sub: "ship_berth (bay_release_all b g) s = Some x \<Longrightarrow> ship_berth g s = Some x" for s x
  proof -
    have "\<forall>s x. ship_berth (for_upto n (free_bay b) g) s = Some x \<longrightarrow> ship_berth g s = Some x" for n
      by (induction n) (auto simp: free_bay_simps split: if_splits)
    then show "ship_berth (bay_release_all b g) s = Some x \<Longrightarrow> ship_berth g s = Some x"
      unfolding bay_release_all_alt by blast
  qed
  have docks: "docks_ok (bay_release_all b g)" using assms by (simp add: moorings_ok_def docks_ok_release_all)
  then show "moorings_ok (bay_release_all b g)"
    using assms sub unfolding moorings_ok_def by (simp add: bay_release_all_simps) blast
  have "bay_holds (bay_release_all b g) b i = None" if "i < NUMBAYS" for i
    using that by (simp add: bay_release_all_simps)
  then show "undocked b (bay_release_all b g)"
    using docks sub assms unfolding docks_ok_def undocked_def moorings_ok_def by (metis option.distinct(1))
qed

text \<open>A change of the record of a ship with nobody docked at it.\<close>

lemma moorings_reship:
  assumes "moorings_ok g" and "undocked me g"
    and "\<And>p. p_no (f p) = p_no p" and "\<And>p. p_dock_with (f p) = p_dock_with p"
    and "\<And>p. p_dock_bay (f p) = p_dock_bay p" and "\<And>p. has (p_flags (f p)) PFDOCK = has (p_flags p) PFDOCK"
  shows "moorings_ok (upd_player me f g) \<and> undocked me (upd_player me f g)"
proof -
  have same: "ship_berth (upd_player me f g) s = ship_berth g s" for s
    using assms(4-6) by (simp add: ship_berth_def)
  have "b \<noteq> me" if "ship_berth g s = Some (b, i)" for s b i
    using that assms(2) unfolding undocked_def by blast
  then show ?thesis
    using assms(1-3) unfolding moorings_ok_def undocked_def docks_ok_def same
    by (auto simp: bay_holds_def numbered_def)
qed


lemma moorings_new_ship:
  assumes "moorings_ok g" shows "moorings_ok (new_ship me t g)"
proof -
  define ok where "ok = (\<lambda>g. moorings_ok g \<and> undocked me g)"
  have reship: "ok (upd_player me f h)"
    if "ok h" "\<And>p. p_no (f p) = p_no p" "\<And>p. p_dock_with (f p) = p_dock_with p"
      "\<And>p. p_dock_bay (f p) = p_dock_bay p" "\<And>p. has (p_flags (f p)) PFDOCK = has (p_flags p) PFDOCK" for f h
    unfolding ok_def by (rule moorings_reship) (use that in \<open>simp_all add: ok_def\<close>)
  have ifs: "(c \<Longrightarrow> ok x) \<Longrightarrow> (\<not> c \<Longrightarrow> ok y) \<Longrightarrow> ok (if c then x else y)" for c x y by simp
  have lets: "ok x \<Longrightarrow> (\<And>y. ok y \<Longrightarrow> ok (f y)) \<Longrightarrow> ok (Let x f)" for x f by simp
  have outs: "ok h \<Longrightarrow> ok (upd_proc me f h)" "ok h \<Longrightarrow> ok (emit e h)" for f e h
    unfolding ok_def by (auto simp: keeps_moorings elim!: undocked_frame simp: ship_berth_def split: if_splits)
  have first: "ok (if s_type (p_ship (players g me)) = STARBASE
      then order me PFDOCKOK 0 (bay_release_all me (upd_player me (\<lambda>p. p\<lparr>p_kills := 0\<rparr>) g)) else g)"
  proof (rule ifs)
    have "moorings_ok (upd_player me (\<lambda>p. p\<lparr>p_kills := 0\<rparr>) g)" using assms by (simp add: keeps_moorings)
    then have "ok (bay_release_all me (upd_player me (\<lambda>p. p\<lparr>p_kills := 0\<rparr>) g))"
      unfolding ok_def using undocked_free by blast
    then show "ok (order me PFDOCKOK 0 (bay_release_all me (upd_player me (\<lambda>p. p\<lparr>p_kills := 0\<rparr>) g)))"
      unfolding order_def by (rule reship) (simp_all add: clear_flags_def [of 0])
    show "s_type (p_ship (players g me)) \<noteq> STARBASE \<Longrightarrow> ok g"
      using assms undocked_free(1) by (simp add: ok_def)
  qed
  have "ok (new_ship me t g)"
    unfolding new_ship_def
    by (intro lets ifs first outs)
      (auto simp: getship_def order_def clear_orders_def p_heal_def bay_init_def clear_flags_def [of 0] intro!: reship first ifs)
  then show ?thesis by (simp add: ok_def)
qed

lemma moorings_refit:
  assumes "moorings_ok g" shows "moorings_ok (do_refit me n g)"
proof (rule do_refit_inv [where P = moorings_ok])
  show "moorings_ok h" if "core h = core g" for h using moorings_core [OF that] assms by simp
qed (simp_all add: keeps_moorings moorings_new_ship)

subsection \<open>Docking and orbiting\<close>

lemma stop_warping_frames [simp]:
  "p_no (players (stop_warping me g) i) = p_no (players g i)"
  "p_ship (players (stop_warping me g) i) = p_ship (players g i)"
  "p_bays (players (stop_warping me g) i) = p_bays (players g i)"
  "p_dock_with (players (stop_warping me g) i) = p_dock_with (players g i)"
  "p_dock_bay (players (stop_warping me g) i) = p_dock_bay (players g i)"
  "pflag i PFDOCK (stop_warping me g) = pflag i PFDOCK g"
  by (simp_all add: stop_warping_def order_def Let_def clear_flags_def [of 0] set_flags_def [of 0])

text \<open>What docking does to the moorings: the ship is in the bay, and nothing else changed.\<close>

lemma moor_at_frames:
  assumes num: "numbered g"
  shows "p_no (players (moor_at me base bay g) i) = i"
    "p_ship (players (moor_at me base bay g) i) = p_ship (players g i)"
    "pflag i PFDOCK (moor_at me base bay g) \<longleftrightarrow> i = me \<or> pflag i PFDOCK g"
    "p_dock_with (players (moor_at me base bay g) i) = (if i = me then base else p_dock_with (players g i))"
    "p_dock_bay (players (moor_at me base bay g) i) = (if i = me then bay else p_dock_bay (players g i))"
    "p_bays (players (moor_at me base bay g) i) j =
       (if i = base \<and> j = bay then Some me else p_bays (players g i) j)"
proof -
  have n: "p_no (players g i) = i" for i using num by (simp add: numbered_def)
  show "p_no (players (moor_at me base bay g) i) = i"
    "p_ship (players (moor_at me base bay g) i) = p_ship (players g i)"
    "pflag i PFDOCK (moor_at me base bay g) \<longleftrightarrow> i = me \<or> pflag i PFDOCK g"
    "p_dock_with (players (moor_at me base bay g) i) = (if i = me then base else p_dock_with (players g i))"
    "p_dock_bay (players (moor_at me base bay g) i) = (if i = me then bay else p_dock_bay (players g i))"
    "p_bays (players (moor_at me base bay g) i) j =
       (if i = base \<and> j = bay then Some me else p_bays (players g i) j)"
    by (simp_all add: moor_at_def Let_def order_def clear_orders_def bay_claim_def
        p_x_y_to_internal_def n clear_flags_def [of 0])
qed

lemma moor_at_moors:
  assumes "moorings_ok g" and "bay_holds g base bay = None" and "bay < NUMBAYS"
    and "s_type (p_ship (players g base)) = STARBASE"
  shows "moorings_ok (moor_at me base bay g)"
proof -
  have num: "numbered g" using assms(1) by (simp add: moorings_ok_def)
  note p = moor_at_frames [OF num]
  have "ship_berth (moor_at me base bay g) i = (if i = me then Some (base, bay) else ship_berth g i)"
    "bay_holds (moor_at me base bay g) i j = (if i = base \<and> j = bay then Some me else bay_holds g i j)" for i j
    by (simp_all only: ship_berth_def bay_holds_def p) simp_all
  then show ?thesis
    using assms unfolding moorings_ok_def numbered_def docks_ok_def p by auto
qed


lemma moorings_stop [keeps_moorings]: "moorings_ok g \<Longrightarrow> moorings_ok (stop_warping me g)"
  by (simp add: stop_warping_def Let_def keeps_moorings)

lemma moorings_de_lock [keeps_moorings]: "moorings_ok g \<Longrightarrow> moorings_ok (de_lock me g)"
  by (simp add: de_lock_def keeps_moorings)

lemma moorings_dock:
  assumes "moorings_ok g" and "s_type (p_ship (players g base)) = STARBASE"
  shows "moorings_ok (fst (dock me base g))"
proof -
  have refuse: "moorings_ok h \<Longrightarrow> moorings_ok (fst (refuse_dock me base a b h))" for a b h
    by (simp add: refuse_dock_def keeps_moorings)
  have bay: "moorings_ok (fst (case bay_closest base dx dy g of
        (g, None) \<Rightarrow> refuse_dock me base a b g
      | (g, Some bay) \<Rightarrow> (moor_at me base bay g, DOCK_SUCCESS)))" for dx dy a b
  proof -
    obtain h r where r: "bay_closest base dx dy g = (h, r)" by fastforce
    have h: "h = bay_consistency_check base g" using r by (simp add: bay_closest_def Let_def)
    show ?thesis
    proof (cases r)
      case None
      then show ?thesis by (simp add: r h refuse keeps_moorings assms(1))
    next
      case (Some i)
      then have "i < NUMBAYS" "bay_holds h base i = None" using bay_closest_Some r by blast+
      then have "moorings_ok (moor_at me base i h)"
        using assms by (intro moor_at_moors) (simp_all add: h keeps_moorings)
      then show ?thesis by (simp add: r Some)
    qed
  qed
  have ifs: "(c \<Longrightarrow> moorings_ok (fst x)) \<Longrightarrow> (\<not> c \<Longrightarrow> moorings_ok (fst y)) \<Longrightarrow>
      moorings_ok (fst (if c then x else y))" for c and x y :: "game \<times> dock_result" by simp
  show ?thesis
    unfolding dock_def Let_def by (intro ifs refuse bay) (simp_all add: assms(1))
qed

lemma tractored_by_Some:
  "tractored_by me js t g = (h, Some j, b) \<Longrightarrow> t = Some j \<or> s_type (p_ship (players h j)) = STARBASE"
proof (induction me js t g rule: tractored_by.induct)
  case (2 me i js t g)
  have frame: "p_ship (players h k) = p_ship (players g' k)" if "tractored_by me ks u g' = (h, v, c)" for ks u v c g' h k
    using that
    by (induction me ks u g' rule: tractored_by.induct) (auto simp: clear_orders_def split: if_splits)
  from 2 show ?case
    by (auto simp: clear_orders_def dest!: frame [where k = j] split: if_splits)
qed simp

lemma moorings_tractored:
  "moorings_ok g \<Longrightarrow> moorings_ok (fst (tractored_by me js t g))"
  by (induction me js t g rule: tractored_by.induct) (simp_all add: keeps_moorings)

lemma moorings_try:
  "moorings_ok g \<Longrightarrow> moorings_ok (fst (try_bases me js g))"
proof (induction js arbitrary: g)
  case (Cons j js)
  show ?case
  proof (cases "j = me \<or> s_type (p_ship (players g j)) \<noteq> STARBASE \<or> p_status (players g j) \<noteq> PALIVE")
    case True
    then show ?thesis using Cons by auto
  next
    case False
    then have "moorings_ok (fst (dock me j g))" using Cons.prems by (simp add: moorings_dock)
    then show ?thesis
      using False Cons.IH by (auto split: prod.split dock_result.split)
  qed
qed simp

lemma moorings_enter [keeps_moorings]:
  assumes "moorings_ok g" shows "moorings_ok (enter_orbit atan me l g)"
  unfolding enter_orbit_def Let_def
  by (intro moorings_upd moorings_order_num moorings_clear moorings_if moorings_other assms)
    (simp_all add: p_x_y_go_def)

lemma moorings_orbit_planet [keeps_moorings]:
  assumes "moorings_ok g" shows "moorings_ok (orbit_planet atan me g)"
  unfolding orbit_planet_def Let_def
  by (intro option_prop [of _ moorings_ok] moorings_if moorings_enter moorings_other assms)

lemma moorings_orbit:
  assumes "moorings_ok g" shows "moorings_ok (orbit atan me g)"
proof -
  obtain h t b where r: "tractored_by me [0..<MAXPLAYER] None g = (h, t, b)" by (metis prod_cases3)
  have h: "moorings_ok h" using moorings_tractored [OF assms, of me "[0..<MAXPLAYER]" None] by (simp add: r)
  have dock: "moorings_ok (fst (dock me j h))" if "t = Some j" for j
    using r tractored_by_Some that by (intro moorings_dock h) blast
  obtain k c where k: "(if s_type (p_ship (players h me)) \<noteq> STARBASE \<or> chaosmode (cfg h)
                     then try_bases me [0..<MAXPLAYER] h else (h, False)) = (k, c)" by fastforce
  have "moorings_ok k"
    using moorings_try [OF h, of me "[0..<MAXPLAYER]"] h k by (auto split: if_splits)
  then show ?thesis
    unfolding orbit_def r prod.case k using h dock
    by (auto simp: keeps_moorings assms split: option.split bool.split)
qed


lemma flags_ok_stop [keeps_flags]: "flags_ok g \<Longrightarrow> flags_ok (stop_warping me g)"
  by (simp add: stop_warping_def Let_def keeps_flags)

lemma flags_ok_moor [keeps_flags]: "flags_ok g \<Longrightarrow> flags_ok (moor_at me base bay g)"
  unfolding moor_at_def Let_def bay_claim_def
  by (intro flags_ok_frame flags_ok_other flags_ok_stop flags_ok_neutral flags_ok_clear flags_ok_if)
    (simp_all add: p_x_y_to_internal_def)

lemma flags_ok_dock:
  assumes "flags_ok g" shows "flags_ok (fst (dock me base g))"
proof -
  have refuse: "flags_ok h \<Longrightarrow> flags_ok (fst (refuse_dock me base a b h))" for a b h
    by (simp add: refuse_dock_def de_lock_def keeps_flags)
  have bay: "flags_ok (fst (case bay_closest base dx dy g of
        (g, None) \<Rightarrow> refuse_dock me base a b g
      | (g, Some bay) \<Rightarrow> (moor_at me base bay g, DOCK_SUCCESS)))" for dx dy a b
    using assms by (auto simp: bay_closest_def Let_def refuse keeps_flags split: option.split)
  have ifs: "(c \<Longrightarrow> flags_ok (fst x)) \<Longrightarrow> (\<not> c \<Longrightarrow> flags_ok (fst y)) \<Longrightarrow>
      flags_ok (fst (if c then x else y))" for c and x y :: "game \<times> dock_result" by simp
  show ?thesis
    unfolding dock_def Let_def by (intro ifs refuse bay) (simp_all add: assms)
qed

lemma flags_ok_tractored:
  "flags_ok g \<Longrightarrow> flags_ok (fst (tractored_by me js t g))"
  by (induction me js t g rule: tractored_by.induct) (simp_all add: keeps_flags)

lemma flags_ok_try:
  "flags_ok g \<Longrightarrow> flags_ok (fst (try_bases me js g))"
proof (induction js arbitrary: g)
  case (Cons j js)
  then show ?case using flags_ok_dock [of g me j] by (auto split: prod.split dock_result.split)
qed simp

lemma flags_ok_enter [keeps_flags]: "flags_ok g \<Longrightarrow> flags_ok (enter_orbit atan me l g)"
  unfolding enter_orbit_def Let_def
  by (intro flags_ok_frame flags_ok_neutral flags_ok_clear flags_ok_if flags_ok_other)
    (simp_all add: p_x_y_go_def)

lemma flags_ok_orbit:
  assumes "flags_ok g" shows "flags_ok (orbit atan me g)"
proof -
  obtain h t b where r: "tractored_by me [0..<MAXPLAYER] None g = (h, t, b)" by (metis prod_cases3)
  have h: "flags_ok h" using flags_ok_tractored [OF assms, of me "[0..<MAXPLAYER]" None] by (simp add: r)
  obtain k c where k: "(if s_type (p_ship (players h me)) \<noteq> STARBASE \<or> chaosmode (cfg h)
                     then try_bases me [0..<MAXPLAYER] h else (h, False)) = (k, c)" by fastforce
  have "flags_ok k"
    using flags_ok_try [OF h, of me "[0..<MAXPLAYER]"] h k by (auto split: if_splits)
  moreover from this have "flags_ok (orbit_planet atan me k)"
    unfolding orbit_planet_def Let_def
    by (intro option_prop [of _ flags_ok] flags_ok_if flags_ok_enter flags_ok_other)
  ultimately show ?thesis
    unfolding orbit_def r prod.case k using h
    by (auto simp: keeps_flags flags_ok_dock assms split: option.split bool.split)
qed

subsection \<open>Every command\<close>

lemma flags_ok_obey: "flags_ok g \<Longrightarrow> flags_ok (obey atan c g)"
  by (cases "(atan, c)" rule: obey.cases)
    (simp_all add: flags_ok_moves flags_ok_armies flags_ok_cloak flags_ok_tractor flags_ok_pressor
      flags_ok_war flags_ok_refit flags_ok_orbit)

lemma moorings_obey: "moorings_ok g \<Longrightarrow> moorings_ok (obey atan c g)"
  by (cases "(atan, c)" rule: obey.cases)
    (simp_all add: moorings_simple moorings_armies moorings_beams moorings_war moorings_refit moorings_orbit)

interpretation flags: kept flags_ok "obey atan" for atan
  by unfold_locales (rule flags_ok_obey)

interpretation moorings: kept moorings_ok "obey atan" for atan
  by unfold_locales (rule moorings_obey)


subsection \<open>Properties\<close>

text \<open>
  Whatever commands the players give, in whatever order, no ship ever has two orders that
  exclude each other: shields, repair, bombing and beaming in either direction, the two locks, and
  a cloak with a tractor or pressor beam.
\<close>

theorem orders_stay_exclusive:
  assumes "flags_ok g"
  shows "flags_ok (fold (obey atan) cs g)"
  using assms by (rule flags.keep_run)

text \<open>
  Whatever commands the players give, a docked ship holds the bay it names, the ship it is
  docked with is a starbase, and no two ships are docked in one bay.
\<close>

theorem moorings_stay:
  assumes "moorings_ok g"
  shows "let h = fold (obey atan) cs g in
    moorings_ok h \<and> (\<forall>s t x. ship_berth h s = Some x \<longrightarrow> ship_berth h t = Some x \<longrightarrow> s = t)"
proof -
  have ok: "moorings_ok (fold (obey atan) cs g)" using assms by (rule moorings.keep_run)
  then have "bays.moored (fold (obey atan) cs g)" by (simp add: moorings_ok_def docks_ok_moored)
  then show ?thesis using ok bays.moored_unique unfolding Let_def by blast
qed

text \<open>The living starbases of a team.\<close>

definition base_of :: "game \<Rightarrow> int \<Rightarrow> nat \<Rightarrow> bool" where
  "base_of g team i \<longleftrightarrow> i < MAXPLAYER \<and> p_status (players g i) = PALIVE \<and>
     p_team (players g i) = team \<and> s_type (p_ship (players g i)) = STARBASE"

definition one_base :: "game \<Rightarrow> bool" where
  "one_base g \<longleftrightarrow> (\<forall>team i j. base_of g team i \<longrightarrow> base_of g team j \<longrightarrow> i = j)"

lemma count_upto_0_iff: "count_upto n P = 0 \<longleftrightarrow> (\<forall>i<n. \<not> P i)"
  by (induction n) (auto simp: less_Suc_eq)

lemma release_all_keeps:
  assumes "\<And>p bs. f (p\<lparr>p_bays := bs\<rparr>) = f p" and "\<And>p fl. f (p\<lparr>p_flags := fl\<rparr>) = f p"
  shows "f (players (bay_release_all b h) i) = f (players h i)"
  unfolding bay_release_all_alt
  by (rule for_upto_same [where g = "\<lambda>g. f (players g i)"])
    (simp add: free_bay_def vacate_def assms split: option.split)

lemma new_ship_frames:
  "p_no (players (new_ship me t g) i) = p_no (players g i)"
  "p_team (players (new_ship me t g) i) = p_team (players g i)"
  "p_status (players (new_ship me t g) i) = p_status (players g i)"
  "s_type (p_ship (players (new_ship me t g) i)) = (if i = me then t else s_type (p_ship (players g i)))"
  "status (new_ship me t g) = status g"
proof -
  have all: "p_no (players (bay_release_all b h) i) = p_no (players h i)"
      "p_team (players (bay_release_all b h) i) = p_team (players h i)"
      "p_status (players (bay_release_all b h) i) = p_status (players h i)" for b h i
    by (rule release_all_keeps; simp)+
  have st: "status (bay_release_all b h) = status h" for b h
    unfolding bay_release_all_alt
    by (rule for_upto_same [where g = status]) (simp add: free_bay_def vacate_def split: option.split)
  note simps = new_ship_def Let_def order_def clear_orders_def getship_def p_heal_def bay_init_def
  show "p_no (players (new_ship me t g) i) = p_no (players g i)" by (simp add: simps all)
  show "p_team (players (new_ship me t g) i) = p_team (players g i)" by (simp add: simps all)
  show "p_status (players (new_ship me t g) i) = p_status (players g i)" by (simp add: simps all)
  show "s_type (p_ship (players (new_ship me t g) i)) = (if i = me then t else s_type (p_ship (players g i)))"
    by (simp add: simps)
  show "status (new_ship me t g) = status g" by (simp add: simps st)
qed

text \<open>
  Outside chaos mode a refit never gives a team a second living starbase.
\<close>

theorem refit_keeps_one_base:
  assumes "numbered g" and "one_base g" and "\<not> chaos g"
  shows "one_base (do_refit me ty g)"
proof -
  define P where "P h \<longleftrightarrow> numbered h \<and> one_base h \<and> \<not> chaos h" for h
  have "P (do_refit me ty g)"
  proof (rule do_refit_inv [where P = P])
    show "P h" if "core h = core g" for h
    proof -
      have "p_no (players h i) = p_no (players g i)" "p_status (players h i) = p_status (players g i)"
        "p_team (players h i) = p_team (players g i)" "p_ship (players h i) = p_ship (players g i)" for i
        using that by (rule core_player)+
      moreover have "status h = status g" using that by (rule core_game)
      ultimately show ?thesis
        using assms by (simp add: P_def numbered_def one_base_def base_of_def chaos_def)
    qed
    show "P h \<Longrightarrow> P (warn me n msg h)" for n msg h
      by (simp add: P_def numbered_def one_base_def base_of_def chaos_def)
    show "P (new_ship me t h)" if h: "P h" and team: "refit_team me t h = None" for t h
    proof -
      have n: "p_no (players h me) = me" using h by (simp add: P_def numbered_def)
      have free: "\<not> (base_of h (p_team (players h me)) i \<and> i \<noteq> me)" if "t = STARBASE" for i
        using h team that n
        by (auto simp: P_def refit_team_def Let_def count_upto_0_iff other_base_def base_of_def split: if_splits)
      have new: "base_of (new_ship me t h) k i \<longleftrightarrow>
          (if i = me then t = STARBASE \<and> me < MAXPLAYER \<and> p_status (players h me) = PALIVE \<and> p_team (players h me) = k
           else base_of h k i)" for k i
        by (auto simp: base_of_def new_ship_frames)
      have "one_base (new_ship me t h)"
        using h free unfolding one_base_def new P_def by (metis (full_types))
      then show ?thesis using h by (simp add: P_def numbered_def new_ship_frames chaos_def)
    qed
  qed
  then show ?thesis by (simp add: P_def)
qed

text \<open>
  An order to bomb is either carried out, which needs an orbit, a planet of another team and
  a war with it, or refused with exactly one warning, and then no player and no planet changes.
\<close>

theorem bomb_order_or_refusal:
  shows "let p = players g me; owner = pl_owner (planets g (p_planet p)); h = bomb_planet me g in
    planets h = planets g \<and>
    (players h = players g \<and> (\<exists>n msg. outputs h = outputs g @ [New_warning me n msg]) \<or>
     pflag me PFORBIT g \<and> p_team p \<noteq> owner \<and> meets (p_war p) owner \<and>
     pflag me PFBOMB h \<and> \<not> pflag me (PFSHIELD OR PFREPAIR OR PFBEAMUP OR PFBEAMDOWN) h)"
  unfolding bomb_planet_def
  by (simp add: Let_def bomb_count_def order_def)


text \<open>
  A coup marks the planet exactly when the player has a kill, orbits its own home planet, the
  team has no planet with armies left, at most four armies guard the planet and no coup is due or
  in progress; in every other case no planet and no player changes.
\<close>

theorem coup_exactly_when:
  shows "let p = players g me; l = planets g (p_planet p); h = coup me g in
    if 1 \<le> p_kills p \<and> pflag me PFORBIT g \<and>
       (\<forall>k<MAXPLANETS. pl_owner (planets g k) = p_team p \<longrightarrow> pl_armies (planets g k) \<le> 0) \<and>
       meets (pl_flags l) PLHOME \<and> pl_flags l AND ALLTEAM = p_team p \<and> pl_armies l \<le> 4 \<and>
       pl_couptime l \<le> 0 \<and> \<not> meets (pl_flags l) PLCOUP
    then planets h = (planets g)(p_planet p := l\<lparr>pl_flags := pl_flags l OR PLCOUP\<rparr>) \<and>
         p_genoplanets (players h me) = p_genoplanets p + 1
    else planets h = planets g \<and> players h = players g"
  unfolding coup_def by (auto simp: Let_def)

subsection \<open>Examples\<close>

text \<open>Ship 2 stands beside its team's starbase, number 5, at peace with everybody.\<close>

definition ex_fleet :: "game" where
  "ex_fleet = upd_player 5 (\<lambda>p. p\<lparr>p_status := PALIVE, p_flags := PFDOCKOK, p_team := FED, p_x := 5000, p_y := 5000,
       p_ship := blank_ship\<lparr>s_type := STARBASE\<rparr>\<rparr>)
     (upd_player 2 (\<lambda>p. p\<lparr>p_status := PALIVE, p_team := FED, p_x := 5001, p_y := 5001, p_candock := True,
       p_ship := blank_ship\<lparr>s_type := CRUISER\<rparr>\<rparr>) blank_game)"

lemma blank_flags: "p_flags (players blank_game i) = 0" "p_status (players blank_game i) = PFREE"
  by (simp_all add: blank_game_def blank_player_def)

lemma ex_fleet_ok: "flags_ok ex_fleet" "moorings_ok ex_fleet" "one_base ex_fleet" "\<not> chaos ex_fleet"
  "numbered ex_fleet"
proof -
  have orders: "orders_ok 0" "orders_ok PFDOCKOK" by (simp_all add: orders_ok_def exclusive_def)
  then show "flags_ok ex_fleet" by (simp add: flags_ok_def ex_fleet_def blank_flags)
  have none: "ship_berth ex_fleet s = None" for s by (simp add: ship_berth_def ex_fleet_def blank_flags)
  show num: "numbered ex_fleet" using blank_docks(1) by (simp add: numbered_def ex_fleet_def)
  then show "moorings_ok ex_fleet" by (simp add: moorings_ok_def docks_ok_def none)
  show "one_base ex_fleet" by (simp add: one_base_def base_of_def ex_fleet_def blank_flags)
  show "\<not> chaos ex_fleet"
    by (simp add: chaos_def ex_fleet_def blank_game_def blank_status_def meets_def)
qed

theorem orders_stay_exclusive_witness:
  "flags_ok (fold (obey (\<lambda>_ _. 0)) [(2, Cloak), (2, Orbit), (2, Shield_up), (2, Repair)] ex_fleet)"
  using ex_fleet_ok(1) by (rule orders_stay_exclusive)

theorem moorings_stay_witness:
  "let h = fold (obey (\<lambda>_ _. 0)) [(2, Orbit), (5, Do_refit 2), (2, Set_speed 3)] ex_fleet in
    moorings_ok h \<and> (\<forall>s t x. ship_berth h s = Some x \<longrightarrow> ship_berth h t = Some x \<longrightarrow> s = t)"
  using ex_fleet_ok(2) by (rule moorings_stay)

theorem refit_keeps_one_base_witness: "one_base (do_refit 2 5 ex_fleet)"
  using ex_fleet_ok(5,3,4) by (rule refit_keeps_one_base)

theorem bomb_order_or_refusal_witness:
  "players (bomb_planet 2 ex_fleet) = players ex_fleet"
proof -
  have "\<not> pflag 2 PFORBIT ex_fleet" by (simp add: ex_fleet_def blank_flags)
  then show ?thesis using bomb_order_or_refusal [where me = 2 and g = ex_fleet] by (simp only: Let_def) blast
qed

theorem coup_exactly_when_witness: "planets (coup 2 ex_fleet) = planets ex_fleet"
proof -
  have "\<not> pflag 2 PFORBIT ex_fleet" by (simp add: ex_fleet_def blank_flags)
  then show ?thesis using coup_exactly_when [where me = 2 and g = ex_fleet] by (simp only: Let_def) auto
qed

end
