(* ===== verification/Combat.thy ===== *)
theory Combat
  imports Weapons Bay Interface
begin

text \<open>
  How ships take damage, die and are credited (\<^verbatim>\<open>ntserv/daemon.c\<close>): explosions of torpedoes,
  plasma and ships, phaser hits, planets firing at ships, self destruction, the kill messages and
  the ghost busters.

  An explosion of a torpedo that was detonated always names who detonated it; in the model one
  without a name (the source would index before the array) protects nobody.  Messages keep their
  flags and format; the kill message keeps its participants instead.
\<close>

subsection \<open>Explosions and credit\<close>

definition p_explosion :: "whydead \<Rightarrow> nat \<Rightarrow> player \<Rightarrow> player" where
  "p_explosion why who p =
     p\<lparr>p_status := PEXPLODE,
       p_explode := (if s_type (p_ship p) = STARBASE then 2 * SBEXPVIEWS else 10),
       p_whydead := why, p_whodead := who\<rparr>"

definition killer_credit :: "nat \<Rightarrow> nat \<Rightarrow> game \<Rightarrow> game" where
  "killer_credit k died g =
     (let d = players g died
      in upd_player k (\<lambda>p. p\<lparr>p_kills := p_kills p + (1 + of_int (p_armies d) / 10 + p_kills d / 10)\<rparr>) g)"

text \<open>The shields take the damage first; what they do not hold goes to the hull.\<close>

definition take_damage :: "int \<Rightarrow> player \<Rightarrow> player" where
  "take_damage n p =
     (if has (p_flags p) PFSHIELD then
        let p = p\<lparr>p_shield := p_shield p - n\<rparr>
        in if p_shield p < 0 then p\<lparr>p_damage := p_damage p - p_shield p, p_shield := 0\<rparr> else p
      else p\<lparr>p_damage := p_damage p + n\<rparr>)"

definition destroyed :: "player \<Rightarrow> bool" where
  "destroyed p \<longleftrightarrow> p_damage p \<ge> s_maxdamage (p_ship p)"

text \<open>Damage falls off from the full amount at \<^verbatim>\<open>EXPDIST\<close> to nothing at the reach.\<close>

definition blast :: "int \<Rightarrow> int \<Rightarrow> int \<Rightarrow> int" where
  "blast full reach d =
     (if d \<le> EXPDIST * EXPDIST then full
      else trunc (of_int full * (of_int reach - fsqrt (nat d)) / of_int (reach - EXPDIST)))"

definition count_kill :: "game \<Rightarrow> game" where
  "count_kill g =
     (if tourn g then g\<lparr>status := (status g)\<lparr>st_kills := st_kills (status g) + 1, st_losses := st_losses (status g) + 1\<rparr>\<rparr>
      else g)"

definition count_loss :: "game \<Rightarrow> game" where
  "count_loss g =
     (if tourn g then g\<lparr>status := (status g)\<lparr>st_losses := st_losses (status g) + 1\<rparr>\<rparr> else g)"

definition doosh_message :: "player \<Rightarrow> string" where
  "doosh_message v =
     (if s_type (p_ship v) = STARBASE then ''GULP!!''
      else if p_armies v < 4 \<and> p_armies v > 0 then ''doosh''
      else if p_armies v < 8 then ''Doosh'' else ''DOOSH!'')"

definition killmess :: "nat \<Rightarrow> nat \<Rightarrow> nat \<Rightarrow> whydead \<Rightarrow> game \<Rightarrow> game" where
  "killmess v credit k why g =
     (let credit = (if p_team (players g credit) = p_team (players g k) then k else credit);
          g = emit (Killmess v (if k \<noteq> credit then Some credit else None) (Some k) why) g;
          g = (if p_armies (players g v) \<noteq> 0 \<and> doosher (cfg g)
               then emit (Pmessage 0 ''MALL | MKILLA'' (doosh_message (players g v))) g else g)
      in if recreational_dogfight_mode (cfg g)
         then upd_player k p_heal
                (emit (Pmessage 0 ''MALL'' ''WINNER: %s (%s) Shields: %d%%   Damage: %d%%   Fuel: %d%%'') g)
         else g)"

subsection \<open>Torpedoes and plasma\<close>

definition t_whydead :: "player \<Rightarrow> torp \<Rightarrow> whydead" where
  "t_whydead k t =
     (if p_no k \<noteq> t_owner t then if t_type t = TPHOTON then KTORP2 else KPLASMA2
      else if t_type t = TPHOTON then KTORP else KPLASMA)"

text \<open>Who is safe from a torpedo: the idle, and those its attributes protect.\<close>

definition t_spares :: "torp \<Rightarrow> nat \<Rightarrow> game \<Rightarrow> bool" where
  "t_spares t j g \<longleftrightarrow>
     (let p = players g j; a = t_attribute t in
      is_idle j g \<or>
      (if p_no p = t_owner t then meets a TOWNERSAFE else meets a TOWNTEAMSAFE \<and> t_team t = p_team p) \<or>
      (has (p_flags p) PFPRACTR \<and> meets a TPRACTICE) \<or>
      (t_status t = TDET \<and>
        (case t_whodet t of None \<Rightarrow> False
         | Some d \<Rightarrow> if p_no p = d then meets a TDETTERSAFE
                    else meets a TDETTEAMSAFE \<and> p_team p = p_team (players g d))))"

definition t_reach :: "torp \<Rightarrow> int" where
  "t_reach t = (if t_type t = TPHOTON then DAMDIST else PLASDAMDIST)"

text \<open>The damage to a ship, if it is in reach.\<close>

definition t_damage_to :: "torp \<Rightarrow> player \<Rightarrow> int" where
  "t_damage_to t p =
     (let r = t_reach t; dx = spo (t_x_internal t - p_x_internal p); dy = spo (t_y_internal t - p_y_internal p);
          dist = dx * dx + dy * dy
      in if dx < - r \<or> dx > r \<or> dy < - r \<or> dy > r \<or> dist > r * r then 0 else blast (t_damage t) r dist)"

definition t_damage_stats :: "torp \<Rightarrow> nat \<Rightarrow> int \<Rightarrow> game \<Rightarrow> game" where
  "t_damage_stats t j n g =
     (if t_type t = TPHOTON then ltd_update_torp_damage (t_owner t) j n g
      else if t_type t = TPLASMA then ltd_update_plasma_damage (t_owner t) j n g else g)"

definition start_war :: "nat \<Rightarrow> int \<Rightarrow> game \<Rightarrow> game" where
  "start_war me team g =
     (if meets (p_hostile (players g me)) team
      then upd_player me (\<lambda>p. p\<lparr>p_swar := p_swar p OR team\<rparr>) g else g)"

text \<open>Whoever detonated the torpedo is the killer, unless it hit its own team.\<close>

definition t_killer :: "torp \<Rightarrow> nat \<Rightarrow> game \<Rightarrow> nat" where
  "t_killer t j g =
     (case t_whodet t of None \<Rightarrow> t_owner t
      | Some d \<Rightarrow> if d \<noteq> p_no (players g j) \<and> p_team (players g d) \<noteq> p_team (players g j) then d
                 else t_owner t)"

definition t_kill :: "torp \<Rightarrow> nat \<Rightarrow> game \<Rightarrow> game" where
  "t_kill t j g =
     (let k = t_killer t j g;
          g = upd_player j (p_explosion (t_whydead (players g k) t) (p_no (players g k))) g;
          g = (if p_team (players g k) \<noteq> p_team (players g j) \<or>
                  (p_team (players g k) = p_team (players g j) \<and> pflag j PFPRACTR g)
               then killer_credit k j g else g);
          g = ltd_update_deaths j (Some k) (ltd_update_kills k (t_owner t) j (count_kill g))
      in killmess j k (t_owner t)
           (if p_no (players g k) \<noteq> t_owner t then if t_type t = TPHOTON then KTORP2 else KPLASMA2
            else p_whydead (players g j)) g)"

definition t_hit :: "torp \<Rightarrow> nat \<Rightarrow> game \<Rightarrow> game" where
  "t_hit t j g =
     (let n = t_damage_to t (players g j) in
      if p_status (players g j) \<noteq> PALIVE \<or> t_spares t j g \<or> n \<le> 0 then g
      else
        let g = upd_player j (take_damage n) (start_war (t_owner t) (p_team (players g j)) (t_damage_stats t j n g))
        in if destroyed (players g j) then t_kill t j g else g)"

definition t_explosion :: "nat \<Rightarrow> game \<Rightarrow> game" where
  "t_explosion i g =
     upd_torp i (\<lambda>t. t\<lparr>t_status := TEXPLODE, t_fuse := 10 * TPF g\<rparr>)
       (for_upto MAXPLAYER (\<lambda>j g. t_hit (torps g i) j g) g)"

subsection \<open>Exploding ships\<close>

definition ship_blast :: "player \<Rightarrow> int" where
  "ship_blast sh =
     (if s_type (p_ship sh) = STARBASE then 200 else if s_type (p_ship sh) = SCOUT then 75 else 100)"

definition blowup_damage :: "player \<Rightarrow> player \<Rightarrow> int" where
  "blowup_damage sh p =
     (let dx = p_x sh - p_x p; dy = p_y sh - p_y p; dist = dx * dx + dy * dy
      in if \<bar>dx\<bar> > SHIPDAMDIST \<or> \<bar>dy\<bar> > SHIPDAMDIST \<or> dist > SHIPDAMDIST * SHIPDAMDIST then 0
         else blast (ship_blast sh) SHIPDAMDIST dist)"

text \<open>An explosion after a kill by another team's weapon is that player's kill.\<close>

definition blowup_killer :: "nat \<Rightarrow> nat \<Rightarrow> game \<Rightarrow> nat" where
  "blowup_killer sh j g =
     (let s = players g sh; p = players g j in
      if p_no p \<noteq> p_whodead s \<and> p_team p \<noteq> p_team (players g (p_whodead s)) \<and>
         (p_whydead s = KSHIP \<or> p_whydead s = KTORP \<or> p_whydead s = KPHASER \<or> p_whydead s = KPLASMA)
      then p_whodead s else sh)"

definition blowup_kill :: "nat \<Rightarrow> nat \<Rightarrow> game \<Rightarrow> game" where
  "blowup_kill sh j g =
     (let k = blowup_killer sh j g; chain = (p_no (players g k) \<noteq> p_no (players g sh));
          g = upd_player j (p_explosion (if chain then KSHIP2 else KSHIP) (p_no (players g k))) g;
          g = (if p_team (players g k) \<noteq> p_team (players g j) \<or>
                  (p_team (players g k) = p_team (players g j) \<and> \<not> pflag j PFPRACTR g)
               then ltd_update_kills_max k (killer_credit k j g) else g);
          g = ltd_update_deaths j (Some k) (ltd_update_kills k sh j (count_kill g))
      in killmess j k sh (if chain then KSHIP2 else KSHIP) g)"

definition blowup_hit :: "nat \<Rightarrow> nat \<Rightarrow> game \<Rightarrow> game" where
  "blowup_hit sh j g =
     (let s = players g sh; p = players g j; n = blowup_damage s p in
      if p_status p \<noteq> PALIVE \<or> sh = j \<or> is_idle j g \<or>
         (p_whydead s = KQUIT \<and> friendlyPlayer s p) \<or> p_whydead s = KGHOST \<or> p_whydead s = KPROVIDENCE \<or> n \<le> 0
      then g
      else
        let g = upd_player j (take_damage n) g
        in if destroyed (players g j) then blowup_kill sh j g else g)"

definition blowup :: "nat \<Rightarrow> game \<Rightarrow> game" where
  "blowup sh g = for_upto MAXPLAYER (blowup_hit sh) g"

subsection \<open>Phasers\<close>

definition phaser_kill :: "nat \<Rightarrow> nat \<Rightarrow> game \<Rightarrow> game" where
  "phaser_kill i v g =
     (let g = upd_player v (p_explosion KPHASER i) g;
          g = killer_credit i v g;
          g = ltd_update_deaths v (Some i) (ltd_update_kills i i v (count_kill g))
      in killmess v i i KPHASER g)"

definition phaser_hit :: "nat \<Rightarrow> game \<Rightarrow> game" where
  "phaser_hit i g =
     (let v = ph_target (phasers g i); g = start_war i (p_team (players g v)) g in
      if p_status (players g v) = PALIVE then
        let g = upd_player v (take_damage (ph_damage (phasers g i))) g
        in if destroyed (players g v) then phaser_kill i v g else g
      else g)"

definition free_phaser :: "nat \<Rightarrow> game \<Rightarrow> game" where
  "free_phaser i = upd_phaser i (\<lambda>f. f\<lparr>ph_status := PHFREE\<rparr>)"

definition burn_phaser :: "nat \<Rightarrow> game \<Rightarrow> game" where
  "burn_phaser i = upd_phaser i (\<lambda>f. f\<lparr>ph_fuse := ph_fuse f - 1\<rparr>)"

definition udphaser_one :: "nat \<Rightarrow> game \<Rightarrow> game" where
  "udphaser_one i g =
     (let fuse = ph_fuse (phasers g i) in
      case ph_status (phasers g i) of
        PHFREE \<Rightarrow> g
      | PHHIT \<Rightarrow>
          let g = burn_phaser i g in
          if fuse = s_phaserfuse (p_ship (players g i)) \<and> is_idle (ph_target (phasers g i)) g then g
          else
            let g = (if fuse = s_phaserfuse (p_ship (players g i)) then phaser_hit i g else g)
            in if ph_fuse (phasers g i) = 0 then free_phaser i g else g
      | _ \<Rightarrow> let g = burn_phaser i g in if fuse = 1 then free_phaser i g else g)"

definition udphaser :: "game \<Rightarrow> game" where
  "udphaser g = for_upto MAXPLAYER udphaser_one g"


subsection \<open>Planets firing\<close>

definition planet_near :: "int \<Rightarrow> player \<Rightarrow> planet \<Rightarrow> bool" where
  "planet_near r p l \<longleftrightarrow> \<bar>pl_x l - p_x p\<bar> < r \<and> \<bar>pl_y l - p_y p\<bar> < r"

definition planet_in_range :: "player \<Rightarrow> planet \<Rightarrow> bool" where
  "planet_in_range p l \<longleftrightarrow>
     (let dx = \<bar>pl_x l - p_x p\<bar>; dy = \<bar>pl_y l - p_y p\<bar>
      in \<not> (dx > PFIREDIST \<or> dy > PFIREDIST) \<and> dx * dx + dy * dy \<le> PFIREDIST * PFIREDIST)"

definition planet_kill :: "nat \<Rightarrow> nat \<Rightarrow> game \<Rightarrow> game" where
  "planet_kill j l g =
     (let g = upd_player j (p_explosion KPLANET (pl_no (planets g l))) g;
          g = emit (Pmessage 0 ''MALL | MKILLP'' ''%s killed by %s (%c)   [planet]'') g
      in ltd_update_deaths j None (count_loss g))"

definition planet_fire :: "nat \<Rightarrow> nat \<Rightarrow> game \<Rightarrow> game" where
  "planet_fire j l g =
     (if \<not> meets (p_war (players g j)) (pl_owner (planets g l)) \<or> pl_armies (planets g l) = 0 then g
      else
        let g = (if planet_near (3 * PFIREDIST) (players g j) (planets g l)
                 then upd_planet l (\<lambda>k. k\<lparr>pl_flags := pl_flags k OR PLREDRAW\<rparr>) g else g)
        in if \<not> planet_in_range (players g j) (planets g l) then g
           else
             let g = upd_player j (take_damage (pl_armies (planets g l) sdiv 10 + 2)) g
             in if destroyed (players g j) then planet_kill j l g else g)"

definition pldamageplayer :: "nat \<Rightarrow> game \<Rightarrow> game" where
  "pldamageplayer j g = for_upto MAXPLANETS (planet_fire j) g"

subsection \<open>Self destruction and ghosts\<close>

definition hypot_int :: "int \<Rightarrow> int \<Rightarrow> int" where
  "hypot_int dx dy = int (isqrt (nat (dx * dx + dy * dy)))"

text \<open>The nearest living ship of another team within a quarter of the galaxy.\<close>

definition nearest_enemy :: "nat \<Rightarrow> game \<Rightarrow> nat option \<times> int" where
  "nearest_enemy j g =
     for_upto MAXPLAYER (\<lambda>k (enemy, max_dist).
       let p = players g j; q = players g k; dist = hypot_int (p_x p - p_x q) (p_y p - p_y q) in
       if p_status q \<noteq> PALIVE \<or> p_team q = p_team p \<or> dist > GWIDTH sdiv 4 then (enemy, max_dist)
       else if dist < max_dist then (Some k, dist) else (enemy, max_dist)) (None, GWIDTH * 2)"

definition self_destruct_award :: "nat \<Rightarrow> game \<Rightarrow> game" where
  "self_destruct_award j g =
     (case fst (nearest_enemy j g) of None \<Rightarrow> g | Some k \<Rightarrow> killer_credit k j g)"

definition remap :: "int \<Rightarrow> int" where
  "remap t = (if 0 \<le> t \<and> t < 9 then [0, 1, 2, -1, 3, -1, -1, -1, 4] ! nat t else -1)"

text \<open>The armies of a lost ship go to the first planet its team owns in its home system.\<close>

definition rescue_armies :: "nat \<Rightarrow> game \<Rightarrow> game" where
  "rescue_armies v g =
     (let p = players g v; k = 10 * (remap (p_team p) - 1) in
      if p_armies p > 0 \<and> 0 \<le> k \<and> k \<le> 30 then
        case first_in 0 10 (\<lambda>i. pl_owner (planets g (i + nat k)) = p_team p) of
          None \<Rightarrow> g
        | Some i \<Rightarrow>
            upd_player v (\<lambda>p. p\<lparr>p_armies := 0\<rparr>)
              (upd_planet (i + nat k) (\<lambda>l. l\<lparr>pl_armies := pl_armies l + p_armies p\<rparr>)
                (emit (Pmessage 0 ''MALL | MGHOST'' ''%s's %d armies placed on %s'') g))
      else g)"

definition ghostmess :: "nat \<Rightarrow> string \<Rightarrow> game \<Rightarrow> game" where
  "ghostmess v reason g =
     (let p = players g v;
          g = g\<lparr>dmn := (dmn g)\<lparr>ghostkills := ghostkills (dmn g) + (1 + of_int (p_armies p) / 10 + p_kills p / 10)\<rparr>\<rparr>;
          g = emit (Ghostmess v reason) g
      in if pflag v PFOBSERV g then g else rescue_armies v g)"

definition saveplayer :: "nat \<Rightarrow> game \<Rightarrow> game" where
  "saveplayer v g =
     (let p = players g v in
      if p_pos p < 0 then g
      else if st_lastlogin (p_stats p) = 0 then g
      else if has (p_flags p) PFROBOT then g
      else emit (Saveplayer v) g)"

subsection \<open>Robots to the rescue\<close>

text \<open>The frames of fifteen seconds must have passed since tournament mode.\<close>

definition NotTmode :: "game \<Rightarrow> bool" where
  "NotTmode g \<longleftrightarrow> \<not> tourn g \<and> (frame (ctxt g) - frame_tourn_end (ctxt g)) sdiv fps (cfg g) > 15"

definition rescue :: "int \<Rightarrow> nat \<Rightarrow> game \<Rightarrow> game" where
  "rescue team target = emit (Rescue team (Some target))"

definition plrescue :: "nat \<Rightarrow> game \<Rightarrow> game" where
  "plrescue l g =
     (let k = planets g l; own = pl_owner k in
      if \<not> inl_mode g \<and> (tcount g (nat own) = 0 \<or> NotTmode g) \<and> meets (pl_flags k) own \<and>
         \<not> bot_in_game g \<and> tm_robots g (nat own) \<le> 0
      then
        let g = rescue own (if NotTmode g then 1 else 0) g
        in rand_next (g\<lparr>tm_robots := (tm_robots g)(nat own := (1800 + rand_val g mod 1800) sdiv 5)\<rparr>)
      else g)"

datatype track = AMT_POP | AMT_PLAGUE | AMT_BOMB | AMT_BEAMUP | AMT_BEAMDOWN | AMT_TRANSUP | AMT_TRANSDOWN

definition army_track :: "track \<Rightarrow> game \<Rightarrow> game" where
  "army_track t g =
     (if \<not> inl_mode g then g
      else emit (Pmessage 0 ''0''
        (case t of AMT_POP \<Rightarrow> ''ARMYTRACK -- -- -- %s %d armies at %s (%d) [%s]''
         | AMT_PLAGUE \<Rightarrow> ''ARMYTRACK -- -- -- %s %d armies at %s (%d) [%s]''
         | AMT_TRANSUP \<Rightarrow> ''ARMYTRACK %s {%s} (%d) %s %d armies at %s {%s} (%d) [%s]''
         | AMT_TRANSDOWN \<Rightarrow> ''ARMYTRACK %s {%s} (%d) %s %d armies at %s {%s} (%d) [%s]''
         | _ \<Rightarrow> ''ARMYTRACK %s {%s} (%d) %s %d armies at %s (%d) [%s]'')) g)"


subsection \<open>Frames\<close>

text \<open>Fights change players, the status and the outputs; these parts of the game they leave alone.\<close>

definition scene :: "game \<Rightarrow> (nat \<Rightarrow> torp) \<times> (nat \<Rightarrow> planet) \<times> sysdef \<times> contxt \<times> (nat \<Rightarrow> phaser) \<times> (nat \<Rightarrow> team) \<times> nat" where
  "scene g = (torps g, planets g, cfg g, ctxt g, phasers g, teams g, rng_pos g)"

lemma scene_upd [simp]: "scene (upd_player i f g) = scene g" "scene (emit e g) = scene g"
  "scene (upd_proc i p g) = scene g"
  by (simp_all add: scene_def)

lemma scene_ltd [simp]:
  "scene (ltd_update_kills k a v g) = scene g" "scene (ltd_update_deaths v m g) = scene g"
  "scene (ltd_update_kills_max i g) = scene g" "scene (ltd_update_torp_damage i j n g) = scene g"
  "scene (ltd_update_plasma_damage i j n g) = scene g" "scene (ltd_update_torp_wall i g) = scene g"
  "scene (ltd_update_plasma_wall i g) = scene g" "scene (ltd_update_torp_hit i g) = scene g"
  "scene (ltd_update_plasma_hit i g) = scene g"
  by (simp_all add: scene_def)

lemma scene_count [simp]: "scene (count_kill g) = scene g" "scene (count_loss g) = scene g"
  by (simp_all add: scene_def count_kill_def count_loss_def)

lemma scene_if: "scene x = s \<Longrightarrow> scene y = s \<Longrightarrow> scene (if c then x else y) = s"
  by simp

lemma scene_fight [simp]:
  "scene (killmess v c k w g) = scene g" "scene (killer_credit k d g) = scene g"
  "scene (start_war me team g) = scene g" "scene (t_damage_stats t j n g) = scene g"
  by (simp_all add: killmess_def killer_credit_def start_war_def t_damage_stats_def Let_def)

lemma scene_kill [simp]:
  "scene (t_kill t j g) = scene g" "scene (blowup_kill sh j g) = scene g" "scene (phaser_kill i v g) = scene g"
  by (simp_all add: t_kill_def blowup_kill_def phaser_kill_def Let_def)

lemma scene_hit [simp]:
  "scene (t_hit t j g) = scene g" "scene (blowup_hit sh j g) = scene g" "scene (phaser_hit i g) = scene g"
  by (simp_all add: t_hit_def blowup_hit_def phaser_hit_def Let_def)

lemma scene_blowup [simp]: "scene (blowup sh g) = scene g"
  unfolding blowup_def by (rule for_upto_same) simp

lemma sceneD:
  assumes "scene h = scene g"
  shows "torps h = torps g" "planets h = planets g" "cfg h = cfg g" "ctxt h = ctxt g"
    "phasers h = phasers g" "teams h = teams g" "rng_pos h = rng_pos g"
  using assms by (simp_all add: scene_def)

lemmas scene_frames [simp] =
  sceneD [OF scene_fight(1)] sceneD [OF scene_fight(2)] sceneD [OF scene_fight(3)] sceneD [OF scene_fight(4)]
  sceneD [OF scene_kill(1)] sceneD [OF scene_kill(2)] sceneD [OF scene_kill(3)]
  sceneD [OF scene_hit(1)] sceneD [OF scene_hit(2)] sceneD [OF scene_hit(3)] sceneD [OF scene_blowup]
  sceneD [OF scene_count(1)] sceneD [OF scene_count(2)]

text \<open>An explosion: the loop over the ships sees one and the same torpedo.\<close>

lemma t_explosion_loop:
  "for_upto n (\<lambda>j g. t_hit (torps g i) j g) g = for_upto n (t_hit (torps g i)) g"
  "scene (for_upto n (t_hit (torps g i)) g) = scene g"
proof -
  have same: "scene (for_upto n (t_hit (torps g i)) g) = scene g" for n
    by (rule for_upto_same) simp
  then show "scene (for_upto n (t_hit (torps g i)) g) = scene g" .
  have "torps (for_upto n (t_hit (torps g i)) g) = torps g" for n using same by (rule sceneD)
  then show "for_upto n (\<lambda>j g. t_hit (torps g i) j g) g = for_upto n (t_hit (torps g i)) g"
    by (induction n) simp_all
qed

lemma t_explosion_torps:
  "torps (t_explosion i g) =
     (torps g)(i := (torps g i)\<lparr>t_status := TEXPLODE, t_fuse := 10 * TPF g\<rparr>)"
  "planets (t_explosion i g) = planets g" "cfg (t_explosion i g) = cfg g" "ctxt (t_explosion i g) = ctxt g"
  by (simp_all add: t_explosion_def t_explosion_loop sceneD [OF t_explosion_loop(2)])


text \<open>Of the players they leave alone what is not about damage, kills and wars.\<close>

definition chassis :: "player \<Rightarrow> nat \<times> int \<times> int \<times> int \<times> ship \<times> (nat \<Rightarrow> nat option) \<times> 32 word" where
  "chassis p = (p_no p, p_team p, p_ntorp p, p_nplasmatorp p, p_ship p, p_bays p, p_flags p)"

definition chasses :: "game \<Rightarrow> nat \<Rightarrow> nat \<times> int \<times> int \<times> int \<times> ship \<times> (nat \<Rightarrow> nat option) \<times> 32 word" where
  "chasses g i = chassis (players g i)"

lemma chasses_upd [simp]:
  "(\<And>p. chassis (f p) = chassis p) \<Longrightarrow> chasses (upd_player i f g) = chasses g"
  by (simp add: chasses_def fun_eq_iff)

lemma chasses_other [simp]: "chasses (emit e g) = chasses g" "chasses (upd_torp i t g) = chasses g"
  "chasses (count_kill g) = chasses g" "chasses (count_loss g) = chasses g"
  by (simp_all add: chasses_def fun_eq_iff count_kill_def count_loss_def)

lemma chasses_ltd [simp]:
  "chasses (ltd_update_kills k a v g) = chasses g" "chasses (ltd_update_deaths v m g) = chasses g"
  "chasses (ltd_update_kills_max i g) = chasses g" "chasses (ltd_update_torp_damage i j n g) = chasses g"
  "chasses (ltd_update_plasma_damage i j n g) = chasses g" "chasses (ltd_update_torp_wall i g) = chasses g"
  "chasses (ltd_update_plasma_wall i g) = chasses g" "chasses (ltd_update_torp_hit i g) = chasses g"
  "chasses (ltd_update_plasma_hit i g) = chasses g"
  by (simp_all add: chasses_def chassis_def fun_eq_iff)

lemma chassis_simps [simp]:
  "chassis (take_damage n p) = chassis p" "chassis (p_explosion w k p) = chassis p" "chassis (p_heal p) = chassis p"
  by (simp_all add: chassis_def take_damage_def p_explosion_def p_heal_def Let_def)

lemma chasses_fight [simp]:
  "chasses (killmess v c k w g) = chasses g" "chasses (killer_credit k d g) = chasses g"
  "chasses (start_war me team g) = chasses g" "chasses (t_damage_stats t j n g) = chasses g"
  by (simp_all add: killmess_def killer_credit_def start_war_def t_damage_stats_def Let_def)
    (simp_all add: chassis_def)

lemma chasses_kill [simp]:
  "chasses (t_kill t j g) = chasses g" "chasses (blowup_kill sh j g) = chasses g" "chasses (phaser_kill i v g) = chasses g"
  by (simp_all add: t_kill_def blowup_kill_def phaser_kill_def Let_def)

lemma chasses_hit [simp]:
  "chasses (t_hit t j g) = chasses g" "chasses (blowup_hit sh j g) = chasses g" "chasses (phaser_hit i g) = chasses g"
  by (simp_all add: t_hit_def blowup_hit_def phaser_hit_def Let_def)

lemma chasses_explosion [simp]: "chasses (t_explosion i g) = chasses g" "chasses (blowup sh g) = chasses g"
proof -
  have "chasses (for_upto n (t_hit t) g) = chasses g" for n t by (rule for_upto_same) simp
  then show "chasses (t_explosion i g) = chasses g" by (simp add: t_explosion_def t_explosion_loop)
  show "chasses (blowup sh g) = chasses g" unfolding blowup_def by (rule for_upto_same) simp
qed

lemma chassesD:
  assumes "chasses h = chasses g"
  shows "p_no (players h i) = p_no (players g i)" "p_team (players h i) = p_team (players g i)"
    "p_ntorp (players h i) = p_ntorp (players g i)" "p_nplasmatorp (players h i) = p_nplasmatorp (players g i)"
    "p_ship (players h i) = p_ship (players g i)" "p_bays (players h i) = p_bays (players g i)"
    "p_flags (players h i) = p_flags (players g i)"
  using fun_cong [OF assms, of i] by (simp_all add: chasses_def chassis_def)


text \<open>Only the victim of a hit changes its state.\<close>

lemma status_fight [simp]:
  "p_status (players (killmess v c k w g) i) = p_status (players g i)"
  "p_status (players (killer_credit k d g) i) = p_status (players g i)"
  "p_status (players (start_war me team g) i) = p_status (players g i)"
  "p_status (players (t_damage_stats t j n g) i) = p_status (players g i)"
  "players (count_kill g) = players g" "players (count_loss g) = players g"
  "p_status (take_damage n p) = p_status p" "p_status (p_explosion w k p) = PEXPLODE" "p_status (p_heal p) = p_status p"
  by (simp_all add: killmess_def killer_credit_def start_war_def t_damage_stats_def count_kill_def count_loss_def
      take_damage_def p_explosion_def p_heal_def Let_def)

lemma status_kill [simp]:
  "p_status (players (t_kill t j g) i) = (if i = j then PEXPLODE else p_status (players g i))"
  "p_status (players (blowup_kill sh j g) i) = (if i = j then PEXPLODE else p_status (players g i))"
  "p_status (players (phaser_kill k j g) i) = (if i = j then PEXPLODE else p_status (players g i))"
  by (simp_all add: t_kill_def blowup_kill_def phaser_kill_def Let_def)

lemma status_hit:
  "i \<noteq> j \<Longrightarrow> p_status (players (t_hit t j g) i) = p_status (players g i)"
  "i \<noteq> j \<Longrightarrow> p_status (players (blowup_hit sh j g) i) = p_status (players g i)"
  by (simp_all add: t_hit_def blowup_hit_def Let_def)


subsection \<open>The living are intact\<close>

text \<open>Every ship that is alive has less damage than destroys it.\<close>

definition intact :: "game \<Rightarrow> bool" where
  "intact g \<longleftrightarrow> (\<forall>j. 0 < s_maxdamage (p_ship (players g j)) \<and>
     (p_status (players g j) = PALIVE \<longrightarrow> \<not> destroyed (players g j)))"

named_theorems keeps_intact

lemma intact_upd [keeps_intact]:
  "intact g \<Longrightarrow> (\<And>p. p_ship (f p) = p_ship p \<and> p_status (f p) = p_status p \<and> p_damage (f p) = p_damage p) \<Longrightarrow>
   intact (upd_player i f g)"
  by (simp add: intact_def destroyed_def)

lemma intact_heal [keeps_intact]: "intact g \<Longrightarrow> intact (upd_player i p_heal g)"
  by (auto simp: intact_def destroyed_def p_heal_def not_le)

lemma intact_other [keeps_intact]:
  "intact g \<Longrightarrow> intact (emit e g)" "intact g \<Longrightarrow> intact (upd_torp i t g)" "intact g \<Longrightarrow> intact (upd_planet i k g)"
  "intact g \<Longrightarrow> intact (upd_phaser i h g)" "intact g \<Longrightarrow> intact (count_kill g)" "intact g \<Longrightarrow> intact (count_loss g)"
  "intact g \<Longrightarrow> intact (rand_next g)"
  by (simp_all add: intact_def)

lemma intact_ltd [keeps_intact]:
  "intact g \<Longrightarrow> intact (ltd_update_kills k a v g)" "intact g \<Longrightarrow> intact (ltd_update_deaths v' m g)"
  "intact g \<Longrightarrow> intact (ltd_update_kills_max i g)" "intact g \<Longrightarrow> intact (ltd_update_torp_damage i j n g)"
  "intact g \<Longrightarrow> intact (ltd_update_plasma_damage i j n g)" "intact g \<Longrightarrow> intact (ltd_update_torp_wall i g)"
  "intact g \<Longrightarrow> intact (ltd_update_plasma_wall i g)" "intact g \<Longrightarrow> intact (ltd_update_torp_hit i g)"
  "intact g \<Longrightarrow> intact (ltd_update_plasma_hit i g)"
  by (simp_all add: intact_def destroyed_def)

lemma intact_fight [keeps_intact]:
  "intact g \<Longrightarrow> intact (killmess v c k w g)" "intact g \<Longrightarrow> intact (killer_credit k d g)"
  "intact g \<Longrightarrow> intact (start_war me team g)" "intact g \<Longrightarrow> intact (t_damage_stats t j n g)"
  by (simp_all add: killmess_def killer_credit_def start_war_def t_damage_stats_def Let_def keeps_intact)

text \<open>
  Between the damage and the explosion a ship may be alive and destroyed; the others are intact.
\<close>

definition intact_but :: "nat \<Rightarrow> game \<Rightarrow> bool" where
  "intact_but j g \<longleftrightarrow> (\<forall>i. 0 < s_maxdamage (p_ship (players g i)) \<and>
     (i \<noteq> j \<longrightarrow> p_status (players g i) = PALIVE \<longrightarrow> \<not> destroyed (players g i)))"

lemma intact_but_damage: "intact g \<Longrightarrow> intact_but j (upd_player j (take_damage n) g)"
  by (simp add: intact_def intact_but_def take_damage_def Let_def)

lemma intact_butD: "intact_but j g \<Longrightarrow> \<not> destroyed (players g j) \<Longrightarrow> intact g"
  by (auto simp: intact_def intact_but_def)

lemma intact_explosion: "intact_but j g \<Longrightarrow> intact (upd_player j (p_explosion w k) g)"
  by (auto simp: intact_def intact_but_def p_explosion_def destroyed_def)

lemma intact_if: "(c \<Longrightarrow> intact x) \<Longrightarrow> (\<not> c \<Longrightarrow> intact y) \<Longrightarrow> intact (if c then x else y)"
  by simp

lemma intact_kill:
  assumes "intact_but j g"
  shows "intact (t_kill t j g)" "intact (blowup_kill sh j g)" "intact (phaser_kill i j g)" "intact (planet_kill j l g)"
  using assms
  by (simp_all add: t_kill_def blowup_kill_def phaser_kill_def planet_kill_def Let_def keeps_intact intact_explosion)

lemma intact_strike:
  assumes "intact g" and "\<And>h. intact_but j h \<Longrightarrow> intact (kill h)"
  shows "intact (let g = upd_player j (take_damage n) g in if destroyed (players g j) then kill g else g)"
  using intact_but_damage [OF assms(1), of j n] assms(2) intact_butD unfolding Let_def by (intro intact_if) auto

lemma intact_hit [keeps_intact]:
  assumes g: "intact g"
  shows "intact (t_hit t j g)" "intact (blowup_hit sh j g)" "intact (phaser_hit i g)" "intact (planet_fire j l g)"
proof -
  note strike = intact_strike [unfolded Let_def]
  show "intact (t_hit t j g)"
    unfolding t_hit_def Let_def by (intro intact_if strike intact_kill keeps_intact g)
  show "intact (blowup_hit sh j g)"
    unfolding blowup_hit_def Let_def by (intro intact_if strike intact_kill keeps_intact g)
  show "intact (phaser_hit i g)"
    unfolding phaser_hit_def Let_def by (intro intact_if strike intact_kill keeps_intact g)
  show "intact (planet_fire j l g)"
    unfolding planet_fire_def Let_def by (intro intact_if strike intact_kill keeps_intact g)
qed

text \<open>
  C39: no explosion of a torpedo or a ship, no phaser and no planet leaves a ship alive that has
  taken all the damage it can: whoever is destroyed explodes in the same step.
\<close>

theorem living_are_intact:
  assumes "intact g"
  shows "intact (t_explosion i g) \<and> intact (blowup sh g) \<and> intact (udphaser g) \<and> intact (pldamageplayer j g)"
proof -
  have "intact (for_upto n (t_hit t) g)" for n t
    by (rule for_upto_inv [where P = intact]) (simp_all add: assms keeps_intact)
  moreover have "intact (blowup sh g)"
    unfolding blowup_def by (rule for_upto_inv [where P = intact]) (simp_all add: assms keeps_intact)
  moreover have "intact (udphaser g)"
    unfolding udphaser_def
  proof (rule for_upto_inv [where P = intact], rule assms)
    show "intact (udphaser_one i h)" if "intact h" for i h
      using that by (simp add: udphaser_one_def burn_phaser_def free_phaser_def Let_def keeps_intact split: phstatus.split)
  qed
  moreover have "intact (pldamageplayer j g)"
    unfolding pldamageplayer_def by (rule for_upto_inv [where P = intact]) (simp_all add: assms keeps_intact)
  ultimately show ?thesis by (simp add: t_explosion_def t_explosion_loop keeps_intact)
qed

definition ex_battered :: game where
  "ex_battered = blank_game\<lparr>players := (\<lambda>i. (players blank_game i)\<lparr>p_no := i, p_status := PALIVE,
     p_ship := (p_ship (players blank_game i))\<lparr>s_maxdamage := 100\<rparr>, p_damage := 99\<rparr>)\<rparr>"

lemma living_are_intact_witness:
  "intact ex_battered \<and> intact (t_explosion 2 ex_battered) \<and> intact (blowup 3 ex_battered) \<and>
   intact (udphaser ex_battered) \<and> intact (pldamageplayer 3 ex_battered)"
proof -
  have "intact ex_battered" by (simp add: intact_def destroyed_def ex_battered_def)
  then show ?thesis using living_are_intact [of ex_battered 2 3 3] by blast
qed

end
