(* ===== verification/Torps.thy ===== *)
theory Torps
  imports Combat
begin

text \<open>
  Torpedoes and plasma in flight (\<^verbatim>\<open>udtorps\<close> of \<^verbatim>\<open>ntserv/daemon.c\<close>): tracking, movement, walls,
  the proximity fuse and the states of a slot.  A slot goes from moving to exploding to free, at
  the latest when its fuse has run out, and the count of the owner follows it.

  The range test of the tracking is written on 32-bit words, because its products can leave the
  range of an \<^verbatim>\<open>int\<close>.
\<close>

subsection \<open>Tracking\<close>

text \<open>The ships a torpedo may follow.\<close>

definition trackable :: "torp \<Rightarrow> nat \<Rightarrow> game \<Rightarrow> bool" where
  "trackable t j g \<longleftrightarrow>
     (let p = players g j; own = players g (t_owner t) in
      p_status p = PALIVE \<and> j \<noteq> t_owner t \<and>
      \<not> (p_team p = p_team own \<and> \<not> has (p_flags p) PFPRACTR) \<and>
      (meets (t_war t) (p_team p) \<or> meets (t_team t) (p_war p)))"

text \<open>How far the torpedo can still turn before its fuse runs out.\<close>

definition in_arc :: "int \<Rightarrow> int \<Rightarrow> bool" where
  "in_arc reach bearing \<longleftrightarrow> reach > 127 \<or> bearing < reach \<or> bearing > 256 - reach"

record aim_state =
  tk_turn :: int
  tk_range :: int
  tk_min :: "32 word"

definition track_one :: "(int \<Rightarrow> int \<Rightarrow> rat) \<Rightarrow> game \<Rightarrow> torp \<Rightarrow> nat \<Rightarrow> aim_state \<Rightarrow> aim_state" where
  "track_one atan g t j a =
     (let p = players g j; dx = spo (t_x_internal t - p_x_internal p); dy = spo (t_y_internal t - p_y_internal p) in
      if \<not> trackable t j g then a
      else if dx \<ge> tk_range a \<or> dx \<le> - tk_range a then a
      else if dy \<ge> tk_range a \<or> dy \<le> - tk_range a then a
      else
        let bearing = uint (to_dir atan dx dy 0 0 - t_dir t); sq = (of_int (dx * dx + dy * dy) :: 32 word)
        in if in_arc (t_turns t * t_fuse t sdiv TPF g) bearing \<and> sq < tk_min a
           then \<lparr>tk_turn = (if bearing > 127 then -1 else 1), tk_range = int (isqrt (unat sq)), tk_min = sq\<rparr>
           else a)"

definition track_turn :: "(int \<Rightarrow> int \<Rightarrow> rat) \<Rightarrow> game \<Rightarrow> torp \<Rightarrow> int" where
  "track_turn atan g t =
     tk_turn (for_upto MAXPLAYER (track_one atan g t) \<lparr>tk_turn = 0, tk_range = 65535, tk_min = 4294967295\<rparr>)"

definition t_track :: "(int \<Rightarrow> int \<Rightarrow> rat) \<Rightarrow> game \<Rightarrow> torp \<Rightarrow> torp" where
  "t_track atan g t =
     (let turn = track_turn atan g t in
      if turn < 0 then t\<lparr>t_dir := t_dir t - of_int (t_turns t)\<rparr>
      else if turn > 0 then t\<lparr>t_dir := t_dir t + of_int (t_turns t)\<rparr> else t)"

subsection \<open>Movement\<close>

definition t_move :: "game \<Rightarrow> torp \<Rightarrow> torp" where
  "t_move g t =
     (let x = trunc (of_int (t_x_internal t) + of_int (SPM * t_gspeed t) * Cos (t_dir t) / of_int (TPF g));
          y = trunc (of_int (t_y_internal t) + of_int (SPM * t_gspeed t) * Sin (t_dir t) / of_int (TPF g))
      in t\<lparr>t_x_internal := x, t_y_internal := y, t_x := spo x, t_y := spo y\<rparr>)"

text \<open>One coordinate at a wall: its new value, and whether the wall was hit.\<close>

definition wall :: "bool \<Rightarrow> int \<Rightarrow> int \<times> bool" where
  "wall wrap x =
     (let sgw = spi GWIDTH in
      if x < 0 then (if wrap then (sgw, False) else (0, True))
      else if x > sgw then (if wrap then (0, False) else (sgw, True))
      else (x, False))"

definition t_check_wall :: "game \<Rightarrow> torp \<Rightarrow> torp \<times> bool" where
  "t_check_wall g t =
     (let (x, hx) = wall (wrap_galaxy (cfg g)) (t_x_internal t);
          t = (if x \<noteq> t_x_internal t then t\<lparr>t_x_internal := x, t_x := spo x\<rparr> else t);
          (y, hy) = wall (wrap_galaxy (cfg g)) (t_y_internal t);
          t = (if y \<noteq> t_y_internal t then t\<lparr>t_y_internal := y, t_y := spo y\<rparr> else t)
      in (t, hx \<or> hy))"

definition t_hit_wall :: "nat \<Rightarrow> game \<Rightarrow> game" where
  "t_hit_wall i g =
     (let g = upd_torp i (\<lambda>t. t\<lparr>t_status := TDET, t_whodet := Some (t_owner t)\<rparr>) g;
          g = t_explosion i g; t = torps g i
      in if t_type t = TPHOTON then ltd_update_torp_wall (t_owner t) g
         else if t_type t = TPLASMA then ltd_update_plasma_wall (t_owner t) g else g)"

definition t_wobble :: "nat \<Rightarrow> game \<Rightarrow> game" where
  "t_wobble i g = rand_next (upd_torp i (\<lambda>t. t\<lparr>t_dir := t_dir t + of_int (rand_val g mod 3 - 1)\<rparr>) g)"

subsection \<open>The proximity fuse\<close>

definition t_near_one :: "torp \<Rightarrow> game \<Rightarrow> nat \<Rightarrow> bool" where
  "t_near_one t g j \<longleftrightarrow>
     (let p = players g j; dx = spo (t_x_internal t - p_x_internal p); dy = spo (t_y_internal t - p_y_internal p) in
      p_status p = PALIVE \<and> t_owner t \<noteq> p_no p \<and>
      (meets (t_war t) (p_team p) \<or> meets (t_team t) (p_war p)) \<and> \<not> is_idle j g \<and>
      \<not> (dx < - EXPDIST \<or> dx > EXPDIST) \<and> \<not> (dy < - EXPDIST \<or> dy > EXPDIST) \<and>
      dx * dx + dy * dy \<le> EXPDIST * EXPDIST)"

definition t_near :: "torp \<Rightarrow> game \<Rightarrow> bool" where
  "t_near t g \<longleftrightarrow> (\<exists>j<MAXPLAYER. t_near_one t g j)"

definition t_hit_ship_credit :: "torp \<Rightarrow> game \<Rightarrow> game" where
  "t_hit_ship_credit t g =
     (if t_type t = TPHOTON then ltd_update_torp_hit (t_owner t) g
      else if t_type t = TPLASMA then ltd_update_plasma_hit (t_owner t) g else g)"

subsection \<open>One frame of one slot\<close>

definition free_torp :: "nat \<Rightarrow> game \<Rightarrow> game" where
  "free_torp i g =
     (let t = torps g i; g = upd_torp i (\<lambda>t. t\<lparr>t_status := TFREE\<rparr>) g in
      if t_type t = TPHOTON then upd_player (t_owner t) (\<lambda>p. p\<lparr>p_ntorp := p_ntorp p - 1\<rparr>) g
      else if t_type t = TPLASMA then upd_player (t_owner t) (\<lambda>p. p\<lparr>p_nplasmatorp := p_nplasmatorp p - 1\<rparr>) g
      else g)"

definition burn_torp :: "nat \<Rightarrow> game \<Rightarrow> game" where
  "burn_torp i = upd_torp i (\<lambda>t. t\<lparr>t_fuse := t_fuse t - 1\<rparr>)"

text \<open>The work at the normal rate, ten times a second: wobbling and the proximity fuse.\<close>

definition t_proximity :: "nat \<Rightarrow> game \<Rightarrow> game" where
  "t_proximity i g =
     (let g = (if meets (t_attribute (torps g i)) TWOBBLE then t_wobble i g else g)
      in if t_near (torps g i) g then t_explosion i (t_hit_ship_credit (torps g i) g) else g)"

definition t_fly :: "(int \<Rightarrow> int \<Rightarrow> rat) \<Rightarrow> nat \<Rightarrow> game \<Rightarrow> game" where
  "t_fly atan i g =
     (let t = torps g i;
          g = (if t_fuse t smod TPF g = 0 \<and> t_turns t > 0 then upd_torp i (t_track atan g) g else g);
          (t, hit) = t_check_wall g (t_move g (torps g i));
          g = upd_torp i (\<lambda>_. t) g;
          g = (if hit then t_hit_wall i g else g)
      in if t_fuse (torps g i) smod TPF g \<noteq> 0 then g else t_proximity i g)"

definition udtorp :: "(int \<Rightarrow> int \<Rightarrow> rat) \<Rightarrow> nat \<Rightarrow> game \<Rightarrow> game" where
  "udtorp atan i g =
     (case t_status (torps g i) of
        TFREE \<Rightarrow> g
      | TMOVE \<Rightarrow> if t_fuse (torps g i) \<le> 0 then free_torp i (burn_torp i g) else t_fly atan i (burn_torp i g)
      | TDET \<Rightarrow> t_explosion i g
      | TEXPLODE \<Rightarrow> if t_fuse (torps g i) > 0 then burn_torp i g else free_torp i (burn_torp i g)
      | TOFF \<Rightarrow> free_torp i g)"

text \<open>All torpedoes, then all plasma: they are in one array.\<close>

abbreviation (input) NUM_TORPS :: nat where "NUM_TORPS \<equiv> 288"

definition udtorps :: "(int \<Rightarrow> int \<Rightarrow> rat) \<Rightarrow> game \<Rightarrow> game" where
  "udtorps atan g = for_upto NUM_TORPS (udtorp atan) g"


subsection \<open>Lifetime\<close>

text \<open>
  The frames until a slot is free, if nobody interferes: a moving torpedo burns its fuse and then
  explodes for ten ticks, or just ends.
\<close>

definition life :: "game \<Rightarrow> torp \<Rightarrow> nat" where
  "life g t =
     (let boom = 10 * nat (TPF g) in
      case t_status t of
        TFREE \<Rightarrow> 0
      | TMOVE \<Rightarrow> nat (t_fuse t) + boom + 2
      | TDET \<Rightarrow> boom + 2
      | TEXPLODE \<Rightarrow> nat (t_fuse t) + 1
      | TOFF \<Rightarrow> 1)"

text \<open>
  What one frame may do to the game besides freeing the slot: change this torpedo, whose state and
  fuse stay or become those of an explosion, and hurt ships.
\<close>

definition flies :: "nat \<Rightarrow> game \<Rightarrow> game \<Rightarrow> bool" where
  "flies i g h \<longleftrightarrow>
     cfg h = cfg g \<and> chasses h = chasses g \<and> (\<forall>k. k \<noteq> i \<longrightarrow> torps h k = torps g k) \<and>
     t_owner (torps h i) = t_owner (torps g i) \<and> t_type (torps h i) = t_type (torps g i) \<and>
     (t_status (torps h i) = t_status (torps g i) \<and> t_fuse (torps h i) = t_fuse (torps g i) \<or>
      t_status (torps h i) = TEXPLODE \<and> t_fuse (torps h i) = 10 * TPF g)"

lemma flies_refl [simp]: "flies i g g"
  by (simp add: flies_def)

lemma flies_trans: "flies i g h \<Longrightarrow> flies i h k \<Longrightarrow> flies i g k"
  by (auto simp: flies_def TPF_def)

lemma flies_torp:
  "(\<And>t. t_status (f t) = t_status t \<and> t_fuse (f t) = t_fuse t \<and> t_owner (f t) = t_owner t \<and> t_type (f t) = t_type t) \<Longrightarrow>
   flies i g (upd_torp i f g)"
  by (simp add: flies_def)

lemma flies_other:
  "torps h = torps g \<Longrightarrow> cfg h = cfg g \<Longrightarrow> chasses h = chasses g \<Longrightarrow> flies i g h"
  by (simp add: flies_def)

lemma flies_explosion: "flies i g (t_explosion i g)"
  by (simp add: flies_def t_explosion_torps)

lemma flies_wall: "flies i g (t_hit_wall i g)"
proof -
  define h where "h = upd_torp i (\<lambda>t. t\<lparr>t_status := TDET, t_whodet := Some (t_owner t)\<rparr>) g"
  have "flies i g (t_explosion i h)" by (simp add: flies_def t_explosion_torps h_def TPF_def)
  then show ?thesis
    unfolding t_hit_wall_def Let_def h_def [symmetric] by (simp add: flies_trans [OF _ flies_other])
qed

lemma flies_wobble: "flies i g (t_wobble i g)"
proof -
  have "flies i h (rand_next h)" for h by (rule flies_other) (simp_all add: chasses_def fun_eq_iff)
  then show ?thesis unfolding t_wobble_def by (rule flies_trans [rotated]) (simp add: flies_torp)
qed

lemma flies_proximity: "flies i g (t_proximity i g)"
proof -
  define h where "h = (if meets (t_attribute (torps g i)) TWOBBLE then t_wobble i g else g)"
  have "flies i g h" by (simp add: h_def flies_wobble)
  moreover have "flies i h (t_hit_ship_credit (torps h i) h)"
    by (rule flies_other) (simp_all add: t_hit_ship_credit_def)
  ultimately show ?thesis
    unfolding t_proximity_def Let_def h_def [symmetric] by (auto intro: flies_trans flies_explosion)
qed

lemma t_move_frames:
  "t_status (t_move g t) = t_status t" "t_fuse (t_move g t) = t_fuse t" "t_owner (t_move g t) = t_owner t"
  "t_type (t_move g t) = t_type t"
  by (simp_all add: t_move_def Let_def)

lemma t_check_wall_frames:
  "t_status (fst (t_check_wall g t)) = t_status t" "t_fuse (fst (t_check_wall g t)) = t_fuse t"
  "t_owner (fst (t_check_wall g t)) = t_owner t" "t_type (fst (t_check_wall g t)) = t_type t"
  by (simp_all add: t_check_wall_def Let_def split: prod.split)

lemma flies_fly: "flies i g (t_fly atan i g)"
proof -
  define g1 where "g1 = (if t_fuse (torps g i) smod TPF g = 0 \<and> t_turns (torps g i) > 0
    then upd_torp i (t_track atan g) g else g)"
  obtain t hit where w: "t_check_wall g1 (t_move g1 (torps g1 i)) = (t, hit)" by fastforce
  define g2 where "g2 = upd_torp i (\<lambda>_. t) g1"
  define g3 where "g3 = (if hit then t_hit_wall i g2 else g2)"
  have "flies i g g1" by (auto simp: g1_def t_track_def Let_def intro: flies_torp)
  moreover have "flies i g1 g2"
    using t_check_wall_frames [of g1 "t_move g1 (torps g1 i)"] by (simp add: w t_move_frames g2_def flies_def)
  moreover have "flies i g2 g3" by (simp add: g3_def flies_wall)
  ultimately have 3: "flies i g g3" by (blast intro: flies_trans)
  have "t_fly atan i g = (if t_fuse (torps g3 i) smod TPF g3 \<noteq> 0 then g3 else t_proximity i g3)"
    unfolding t_fly_def Let_def g1_def [symmetric] w prod.case g2_def [symmetric] g3_def [symmetric] ..
  then show ?thesis using 3 flies_trans [OF 3 flies_proximity] by simp
qed

lemma free_torp_torps [simp]:
  "torps (free_torp i g) = (torps g)(i := (torps g i)\<lparr>t_status := TFREE\<rparr>)" "cfg (free_torp i g) = cfg g"
  by (simp_all add: free_torp_def Let_def)

lemma burn_torp_torps [simp]:
  "torps (burn_torp i g) = (torps g)(i := (torps g i)\<lparr>t_fuse := t_fuse (torps g i) - 1\<rparr>)"
  "cfg (burn_torp i g) = cfg g" "chasses (burn_torp i g) = chasses g"
  by (simp_all add: burn_torp_def)

text \<open>One frame either flies on, or frees a slot in use.\<close>

lemma udtorp_cases:
  obtains (free) "t_status (torps g i) = TFREE" "udtorp atan i g = g"
  | (fly) "t_status (torps g i) = TMOVE" "0 < t_fuse (torps g i)" "flies i (burn_torp i g) (udtorp atan i g)"
  | (det) "t_status (torps g i) = TDET" "udtorp atan i g = t_explosion i g"
  | (burn) "t_status (torps g i) = TEXPLODE" "0 < t_fuse (torps g i)" "udtorp atan i g = burn_torp i g"
  | (ended) h where "t_status (torps g i) \<noteq> TFREE" "h = g \<or> h = burn_torp i g" "udtorp atan i g = free_torp i h"
  using flies_fly [of i "burn_torp i g" atan]
  by (cases "t_status (torps g i)"; cases "t_fuse (torps g i) \<le> 0") (auto simp: udtorp_def)

lemma udtorp_other: "k \<noteq> i \<Longrightarrow> torps (udtorp atan i g) k = torps g k" "cfg (udtorp atan i g) = cfg g"
  by (cases rule: udtorp_cases [of g i atan]; auto simp: flies_def t_explosion_torps)+

lemma udtorp_life:
  "life g (torps (udtorp atan i g) i) \<le> life g (torps g i) - 1"
proof (cases rule: udtorp_cases [of g i atan])
  case fly
  then show ?thesis by (auto simp: life_def flies_def TPF_def)
next
  case (ended h)
  then show ?thesis by (auto simp: life_def)
qed (auto simp: life_def t_explosion_torps)

lemma life_cong: "cfg h = cfg g \<Longrightarrow> life h t = life g t"
  by (simp add: life_def TPF_def)

lemma udtorps_life:
  "i < NUM_TORPS \<Longrightarrow> life g (torps (udtorps atan g) i) \<le> life g (torps g i) - 1" "cfg (udtorps atan g) = cfg g"
proof -
  have all: "cfg (for_upto n (udtorp atan) g) = cfg g \<and>
      (\<forall>k. life g (torps (for_upto n (udtorp atan) g) k) \<le> life g (torps g k) - (if k < n then 1 else 0))" for n
  proof (induction n)
    case (Suc n)
    let ?h = "for_upto n (udtorp atan) g"
    have c: "cfg ?h = cfg g" and l: "life g (torps ?h k) \<le> life g (torps g k) - (if k < n then 1 else 0)" for k
      using Suc by auto
    have "life g (torps (udtorp atan n ?h) k) \<le> life g (torps g k) - (if k < Suc n then 1 else 0)" for k
    proof (cases "k = n")
      case True
      then show ?thesis using udtorp_life [where g = ?h and i = n and atan = atan] l [of n] life_cong [OF c] by simp
    next
      case False
      then have "k < Suc n \<longleftrightarrow> k < n" by auto
      then show ?thesis using False l [of k] by (simp add: udtorp_other)
    qed
    then show ?case using c by (simp add: udtorp_other)
  qed simp
  show "cfg (udtorps atan g) = cfg g" using all [of NUM_TORPS] by (simp add: udtorps_def)
  show "life g (torps (udtorps atan g) i) \<le> life g (torps g i) - 1" if "i < NUM_TORPS"
    using all [of NUM_TORPS, THEN conjunct2, THEN spec, of i] that by (simp add: udtorps_def)
qed

text \<open>
  C19: whatever the fuse, the walls and the ships around it, a torpedo that nobody fires again is
  freed after at most the number of frames that its state and fuse allow.
\<close>

theorem torp_ends:
  assumes "i < NUM_TORPS" and "life g (torps g i) \<le> n"
  shows "t_status (torps ((udtorps atan ^^ n) g) i) = TFREE"
proof -
  have "cfg ((udtorps atan ^^ k) g) = cfg g \<and> life g (torps ((udtorps atan ^^ k) g) i) \<le> life g (torps g i) - k" for k
  proof (induction k)
    case (Suc k)
    let ?h = "(udtorps atan ^^ k) g"
    have c: "cfg ?h = cfg g" using Suc by simp
    moreover have "life g (torps (udtorps atan ?h) i) \<le> life g (torps ?h i) - 1"
      using udtorps_life(1) [of i ?h atan] life_cong [OF c] assms(1) by simp
    moreover have "life g (torps ?h i) \<le> life g (torps g i) - k" using Suc by simp
    ultimately have "life g (torps (udtorps atan ?h) i) \<le> life g (torps g i) - Suc k" by linarith
    then show ?case using udtorps_life(2) [of atan ?h] c by simp
  qed simp
  then have "life g (torps ((udtorps atan ^^ n) g) i) = 0" using assms(2) by (metis diff_is_0_eq le_zero_eq)
  then show ?thesis by (simp add: life_def Let_def split: tstatus.splits)
qed


subsection \<open>The count of the owner\<close>

text \<open>
  Every torpedo in flight is in a slot of its owner, and the owner's record counts its torpedoes
  and plasma in flight.
\<close>

definition slots_ok :: "game \<Rightarrow> bool" where
  "slots_ok g \<longleftrightarrow>
     (\<forall>k<NUM_TORPS. t_status (torps g k) \<noteq> TFREE \<longrightarrow>
        (if k < MAXTORP * MAXPLAYER then t_owner (torps g k) = k div MAXTORP \<and> t_type (torps g k) = TPHOTON
         else t_owner (torps g k) = k - MAXTORP * MAXPLAYER \<and> t_type (torps g k) = TPLASMA)) \<and>
     (\<forall>i<MAXPLAYER. p_ntorp (players g i) = int (torps_in_use i g) \<and>
        p_nplasmatorp (players g i) = (if t_status (torps g (MAXTORP * MAXPLAYER + i)) = TFREE then 0 else 1))"

lemma slots_ok_cong:
  assumes "slots_ok g" and "\<And>k. t_owner (torps h k) = t_owner (torps g k)" and "\<And>k. t_type (torps h k) = t_type (torps g k)"
    and "\<And>k. t_status (torps h k) = TFREE \<longleftrightarrow> t_status (torps g k) = TFREE"
    and "\<And>i. p_ntorp (players h i) = p_ntorp (players g i)" and "\<And>i. p_nplasmatorp (players h i) = p_nplasmatorp (players g i)"
  shows "slots_ok h"
  using assms by (simp add: slots_ok_def torps_in_use_def)

lemma slots_ok_flies:
  assumes "slots_ok g" and "flies i g h" and "t_status (torps g i) \<noteq> TFREE"
  shows "slots_ok h"
proof (rule slots_ok_cong [OF assms(1)])
  have c: "chasses h = chasses g" using assms(2) by (simp add: flies_def)
  show "p_ntorp (players h j) = p_ntorp (players g j)" "p_nplasmatorp (players h j) = p_nplasmatorp (players g j)" for j
    using chassesD [OF c] by simp_all
  show "t_owner (torps h k) = t_owner (torps g k)" "t_type (torps h k) = t_type (torps g k)"
    "t_status (torps h k) = TFREE \<longleftrightarrow> t_status (torps g k) = TFREE" for k
    using assms(2,3) by (cases "k = i"; auto simp: flies_def)+
qed

lemma torps_in_use_free:
  assumes "i < MAXTORP * MAXPLAYER" and "t_status (torps g i) \<noteq> TFREE"
  shows "torps_in_use j (free_torp i g) = (if j = i div MAXTORP then torps_in_use j g - 1 else torps_in_use j g)"
proof (cases "j = i div MAXTORP")
  case True
  have i: "MAXTORP * j + i mod MAXTORP = i" by (simp add: True)
  have "torps_in_use j g = Suc (torps_in_use j (free_torp i g))"
    unfolding torps_in_use_def
  proof (rule count_upto_insert [of "i mod MAXTORP"])
    fix n assume "n \<noteq> i mod MAXTORP"
    then have "MAXTORP * j + n \<noteq> i" using i by linarith
    then show "(t_status (torps g (MAXTORP * j + n)) \<noteq> TFREE) = (t_status (torps (free_torp i g) (MAXTORP * j + n)) \<noteq> TFREE)"
      by simp
  qed (use assms(2) i in simp_all)
  then show ?thesis using True by simp
next
  case False
  have "MAXTORP * j + n \<noteq> i" if "n < MAXTORP" for n using False that by auto
  then show ?thesis using False unfolding torps_in_use_def by (auto intro!: count_upto_cong)
qed

lemma slots_ok_free:
  assumes ok: "slots_ok g" and i: "i < NUM_TORPS" and used: "t_status (torps g i) \<noteq> TFREE"
  shows "slots_ok (free_torp i g)"
proof (cases "i < MAXTORP * MAXPLAYER")
  case True
  then have t: "t_owner (torps g i) = i div MAXTORP" "t_type (torps g i) = TPHOTON"
    using ok i used by (simp_all add: slots_ok_def)
  have "0 < torps_in_use (i div MAXTORP) g"
    unfolding torps_in_use_def by (rule count_upto_pos [of "i mod MAXTORP"]) (simp_all add: used)
  moreover have "players (free_torp i g) =
      (players g)(i div MAXTORP := (players g (i div MAXTORP))\<lparr>p_ntorp := p_ntorp (players g (i div MAXTORP)) - 1\<rparr>)"
    by (simp add: free_torp_def t Let_def)
  moreover have "i \<noteq> MAXTORP * MAXPLAYER + j" for j using True by simp
  ultimately show ?thesis
    using ok used by (auto simp: slots_ok_def torps_in_use_free [OF True used] of_nat_diff)
next
  case False
  then have t: "t_owner (torps g i) = i - MAXTORP * MAXPLAYER" "t_type (torps g i) = TPLASMA"
    using ok i used by (simp_all add: slots_ok_def)
  have same: "torps_in_use j (free_torp i g) = torps_in_use j g" if "j < MAXPLAYER" for j
    unfolding torps_in_use_def by (rule count_upto_cong) (use that False in auto)
  have "players (free_torp i g) = (players g)(i - MAXTORP * MAXPLAYER :=
      (players g (i - MAXTORP * MAXPLAYER))\<lparr>p_nplasmatorp := p_nplasmatorp (players g (i - MAXTORP * MAXPLAYER)) - 1\<rparr>)"
    by (simp add: free_torp_def t Let_def)
  moreover have "MAXTORP * MAXPLAYER + (i - MAXTORP * MAXPLAYER) = i" "i - MAXTORP * MAXPLAYER < MAXPLAYER"
    using False i by simp_all
  ultimately show ?thesis
    using ok used by (auto simp: slots_ok_def same)
qed

lemma slots_ok_udtorp:
  assumes "slots_ok g" and "i < NUM_TORPS" shows "slots_ok (udtorp atan i g)"
proof -
  have burn: "slots_ok (burn_torp i g)"
    by (rule slots_ok_cong [OF assms(1)]) (simp_all add: chassesD [OF burn_torp_torps(3)])
  show ?thesis
  proof (cases rule: udtorp_cases [of g i atan])
    case fly
    then show ?thesis using slots_ok_flies [OF burn, of i] by simp
  next
    case det
    then show ?thesis using slots_ok_flies [OF assms(1) flies_explosion] by simp
  next
    case (ended h)
    then show ?thesis using slots_ok_free [OF _ assms(2), of h] assms(1) burn by auto
  qed (use assms burn in simp_all)
qed

text \<open>
  C2: the counts of torpedoes in the players' records stay exact through every frame, so they
  bound the slots in use and tell when the last torpedo of a dead player has ended.
\<close>

theorem torp_counts_exact:
  assumes "slots_ok g"
  shows "slots_ok ((udtorps atan ^^ n) g)"
proof (induction n)
  case (Suc n)
  then show ?case
    unfolding udtorps_def funpow.simps comp_def by (rule for_upto_inv) (rule slots_ok_udtorp)
qed (simp add: assms)


subsection \<open>Two explosions at a wall\<close>

lemma t_hit_dead: "p_status (players g k) \<noteq> PALIVE \<Longrightarrow> t_hit t k g = g"
  by (simp add: t_hit_def Let_def)

lemma t_explosion_single:
  assumes "j < MAXPLAYER" and "\<And>k. k < MAXPLAYER \<Longrightarrow> k \<noteq> j \<Longrightarrow> p_status (players g k) \<noteq> PALIVE"
  shows "players (t_explosion i g) = players (t_hit (torps g i) j g)"
proof -
  have "n \<le> MAXPLAYER \<Longrightarrow> for_upto n (t_hit (torps g i)) g = (if n \<le> j then g else t_hit (torps g i) j g)" for n
  proof (induction n)
    case (Suc n)
    show ?case
    proof (cases "n = j")
      case False
      then have "p_status (players (for_upto n (t_hit (torps g i)) g) n) \<noteq> PALIVE"
        using Suc assms(2) [of n] by (simp add: status_hit)
      then show ?thesis using Suc False by (auto simp: t_hit_dead)
    qed (use Suc in simp)
  qed simp
  from this [of MAXPLAYER] show ?thesis
    using assms(1) by (simp add: t_explosion_def t_explosion_loop)
qed

text \<open>A hit that the shields hold.\<close>

lemma t_hit_shielded:
  assumes "p_status (players g j) = PALIVE" and "\<not> t_spares t j g" and "t_damage_to t (players g j) = n" and "0 < n"
    and "pflag j PFSHIELD g" and "n \<le> p_shield (players g j)" and "\<not> destroyed (players g j)"
  shows "p_shield (players (t_hit t j g) j) = p_shield (players g j) - n"
    "p_status (players (t_hit t j g) k) = p_status (players g k)"
    "p_damage (players (t_hit t j g) j) = p_damage (players g j)"
    "p_x_internal (players (t_hit t j g) k) = p_x_internal (players g k)"
    "p_y_internal (players (t_hit t j g) k) = p_y_internal (players g k)"
    "p_war (players (t_hit t j g) k) = p_war (players g k)"
    "p_inl_draft (players (t_hit t j g) k) = p_inl_draft (players g k)"
proof -
  let ?h = "start_war (t_owner t) (p_team (players g j)) (t_damage_stats t j n g)"
  have h: "p_flags (players ?h k) = p_flags (players g k)" "p_shield (players ?h k) = p_shield (players g k)"
    "p_damage (players ?h k) = p_damage (players g k)" "p_ship (players ?h k) = p_ship (players g k)" for k
    by (simp_all add: start_war_def t_damage_stats_def)
  then have "\<not> destroyed (take_damage n (players ?h j))"
    using assms(5-7) by (simp add: take_damage_def destroyed_def)
  then have hit: "t_hit t j g = upd_player j (take_damage n) ?h"
    using assms(1-4) by (simp add: t_hit_def Let_def)
  show "p_shield (players (t_hit t j g) j) = p_shield (players g j) - n"
    "p_status (players (t_hit t j g) k) = p_status (players g k)"
    "p_damage (players (t_hit t j g) j) = p_damage (players g j)"
    "p_x_internal (players (t_hit t j g) k) = p_x_internal (players g k)"
    "p_y_internal (players (t_hit t j g) k) = p_y_internal (players g k)"
    "p_war (players (t_hit t j g) k) = p_war (players g k)"
    "p_inl_draft (players (t_hit t j g) k) = p_inl_draft (players g k)"
    unfolding hit using assms(5,6)
    by (auto simp: start_war_def t_damage_stats_def take_damage_def Let_def)
qed


lemma t_damage_close:
  assumes "t_near_one t g j" shows "t_damage_to t (players g j) = t_damage t"
  using assms by (auto simp: t_near_one_def t_damage_to_def t_reach_def blast_def Let_def)

text \<open>A lone enemy ship with its shields up, beside an ordinary torpedo.\<close>

definition beside :: "torp \<Rightarrow> nat \<Rightarrow> game \<Rightarrow> bool" where
  "beside t j g \<longleftrightarrow>
     t_near_one t g j \<and> t_attribute t = 0 \<and> pflag j PFSHIELD g \<and> \<not> destroyed (players g j) \<and>
     \<not> safe_idle (cfg g) \<and> p_inl_draft (players g j) = INL_DRAFT_OFF \<and>
     (\<forall>k<MAXPLAYER. k \<noteq> j \<longrightarrow> p_status (players g k) \<noteq> PALIVE)"

lemma beside_explosion:
  assumes "beside (torps g i) j g" and "j < MAXPLAYER" and "0 < t_damage (torps g i)" and "t_damage (torps g i) \<le> p_shield (players g j)"
  shows "p_shield (players (t_explosion i g) j) = p_shield (players g j) - t_damage (torps g i)"
    and "beside t j g \<Longrightarrow> beside t j (t_explosion i g)"
proof -
  let ?t = "torps g i"
  have b: "p_status (players g j) = PALIVE" "\<not> is_idle j g" "t_near_one ?t g j"
    using assms(1) by (auto simp: beside_def t_near_one_def is_idle_def Let_def)
  have "\<not> t_spares ?t j g"
    using b assms(1) by (simp add: t_spares_def beside_def Let_def split: option.split)
  note hit = t_hit_shielded [OF b(1) this t_damage_close [OF b(3)] assms(3) _ assms(4)]
  have fl: "pflag j PFSHIELD g" "\<not> destroyed (players g j)" using assms(1) by (simp_all add: beside_def)
  have e: "players (t_explosion i g) = players (t_hit ?t j g)"
    using assms(1,2) by (intro t_explosion_single) (simp_all add: beside_def)
  show "p_shield (players (t_explosion i g) j) = p_shield (players g j) - t_damage ?t"
    using hit(1) [OF fl] by (simp add: e)
  have c: "chasses (t_hit ?t j g) = chasses g" by simp
  show "beside t j (t_explosion i g)" if "beside t j g"
    using that hit(2-7) [OF fl] chassesD [OF c]
    by (simp add: beside_def t_near_one_def is_idle_def destroyed_def e t_explosion_torps Let_def)
qed

lemma smod_mult_self: "(10 * x) smod x = (0 :: int)"
  by (cases "x = 0") (simp_all add: signed_modulo_int_def signed_divide_int_def sgn_if abs_mult)

text \<open>
  In a galaxy with walls, a torpedo that reaches the wall beside an enemy ship explodes
  there, stays in the loop with its fuse reset, is near the ship and explodes again in the same
  frame: the ship takes the damage twice.
\<close>

theorem wall_torp_explodes_twice:
  fixes g :: game and i j :: nat
  defines "t1 \<equiv> (torps g i)\<lparr>t_fuse := t_fuse (torps g i) - 1\<rparr>"
  defines "w \<equiv> fst (t_check_wall g (t_move g t1))"
  assumes "t_status (torps g i) = TMOVE" and "0 < t_fuse (torps g i)" and "t_turns (torps g i) = 0"
    and "snd (t_check_wall g (t_move g t1))" and "beside w j g" and "j < MAXPLAYER"
    and "0 < t_damage w" and "2 * t_damage w \<le> p_shield (players g j)"
  shows "p_shield (players (udtorp atan i g) j) = p_shield (players g j) - 2 * t_damage w"
proof -
  define g1 where "g1 = burn_torp i g"
  have t1: "torps g1 i = t1" "cfg g1 = cfg g" "players g1 = players g"
    by (simp_all add: g1_def t1_def) (simp add: burn_torp_def)
  have cong: "t_check_wall g1 t = t_check_wall g t" "t_move g1 t = t_move g t" for t
    by (simp_all add: t_check_wall_def t_move_def TPF_def t1(2))
  have w: "t_check_wall g1 (t_move g1 (torps g1 i)) = (w, True)"
    using assms(6) by (simp add: cong t1(1) w_def prod_eq_iff)
  define g2 where "g2 = upd_torp i (\<lambda>_. w) g1"
  define h where "h = upd_torp i (\<lambda>t. t\<lparr>t_status := TDET, t_whodet := Some (t_owner t)\<rparr>) g2"
  have b: "beside (torps h i) j h" "t_damage (torps h i) = t_damage w" "players h = players g"
    using assms(7) by (simp_all add: h_def g2_def beside_def t_near_one_def is_idle_def t1 Let_def)
  note first = beside_explosion [OF b(1) assms(8)]
  define g3 where "g3 = t_hit_wall i g2"
  have g3: "g3 = (if t_type (torps (t_explosion i h) i) = TPHOTON then ltd_update_torp_wall (t_owner (torps (t_explosion i h) i)) (t_explosion i h)
      else if t_type (torps (t_explosion i h) i) = TPLASMA then ltd_update_plasma_wall (t_owner (torps (t_explosion i h) i)) (t_explosion i h)
      else t_explosion i h)"
    by (simp add: g3_def t_hit_wall_def h_def Let_def)
  have near3: "beside t j g3" if "beside t j (t_explosion i h)" for t
    using that by (simp add: g3 beside_def t_near_one_def is_idle_def destroyed_def Let_def)
  have s3: "p_shield (players g3 j) = p_shield (players g j) - t_damage w" "torps g3 = torps (t_explosion i h)"
    "cfg g3 = cfg g"
    using first(1) assms(9,10) b by (simp_all add: g3) (simp_all add: t_explosion_torps h_def g2_def t1)
  have t3: "torps g3 i = (torps h i)\<lparr>t_status := TEXPLODE, t_fuse := 10 * TPF h\<rparr>"
    by (simp add: s3(2) t_explosion_torps)
  have b3: "beside (torps g3 i) j g3"
  proof (rule near3)
    have "beside (torps h i) j (t_explosion i h)" using first(2) [OF _ _ b(1)] assms(9,10) b by simp
    then show "beside (torps g3 i) j (t_explosion i h)" by (simp add: t3 beside_def t_near_one_def Let_def)
  qed
  have fly: "t_fly atan i g1 = t_proximity i g3"
  proof -
    have "TPF g3 = TPF h" by (simp add: TPF_def s3(3)) (simp add: h_def g2_def t1)
    then have "t_fuse (torps g3 i) smod TPF g3 = 0" by (simp add: t3 smod_mult_self)
    moreover have "t_turns (torps g1 i) = 0" using assms(5) by (simp add: t1 t1_def)
    ultimately show ?thesis using w by (simp add: t_fly_def Let_def g2_def g3_def)
  qed
  have near: "t_near (torps g3 i) g3" using b3 assms(8) by (auto simp: t_near_def beside_def)
  have nowob: "\<not> meets (t_attribute (torps g3 i)) TWOBBLE" using b3 by (simp add: beside_def)
  define k where "k = t_hit_ship_credit (torps g3 i) g3"
  have bk: "beside (torps k i) j k" "t_damage (torps k i) = t_damage w" "p_shield (players k j) = p_shield (players g3 j)"
    using b3 by (simp_all add: k_def beside_def t_near_one_def is_idle_def t_hit_ship_credit_def destroyed_def Let_def t3 b(2))
  have "p_shield (players (t_explosion i k) j) = p_shield (players k j) - t_damage w"
    using beside_explosion(1) [OF bk(1) assms(8)] bk s3(1) assms(9,10) by simp
  moreover have "udtorp atan i g = t_explosion i k"
    using assms(3,4) fly near nowob by (simp add: udtorp_def g1_def t_proximity_def k_def)
  ultimately show ?thesis using bk(3) s3(1) by simp
qed


subsection \<open>Examples\<close>

text \<open>A torpedo of player 4 on its way to the left wall, where ship 3 of another team flies.\<close>

definition ex_torp :: "torp" where
  "ex_torp = blank_torp\<lparr>t_status := TMOVE, t_type := TPHOTON, t_owner := 4, t_war := ROM, t_team := FED,
     t_damage := 30, t_gspeed := 240, t_fuse := 5, t_dir := 192, t_x_internal := 1000\<rparr>"

definition ex_wall :: "game" where
  "ex_wall = blank_game\<lparr>
     cfg := blank_sysdef\<lparr>fps := 10\<rparr>,
     players := (players blank_game)
       (4 := blank_player\<lparr>p_no := 4, p_ntorp := 1\<rparr>,
        3 := blank_player\<lparr>p_no := 3, p_status := PALIVE, p_flags := PFSHIELD, p_team := ROM,
          p_x_internal := 25600, p_shield := 100,
          p_ship := blank_ship\<lparr>s_maxshield := 100, s_maxdamage := 100, s_maxfuel := 10000\<rparr>\<rparr>),
     torps := (torps blank_game)(32 := ex_torp)\<rparr>"

lemma blank_torps: "torps blank_game k = blank_torp" "t_status blank_torp = TFREE"
  by (simp_all add: blank_game_def blank_torp_def)

lemma ex_torp_simps: "t_status ex_torp = TMOVE" "t_type ex_torp = TPHOTON" "t_owner ex_torp = 4" "t_fuse ex_torp = 5"
  "t_turns ex_torp = 0" "t_damage ex_torp = 30"
  by (simp_all add: ex_torp_def blank_torp_def)

lemma ex_wall_slots: "slots_ok ex_wall"
proof -
  have 1: "torps_in_use i ex_wall = (if i = 4 then 1 else 0)" for i
  proof (cases "i = 4")
    case True
    have "count_upto MAXTORP (\<lambda>n. n = 0) = 1" by (simp add: count_upto_def upt_rec)
    moreover have "torps_in_use i ex_wall = count_upto MAXTORP (\<lambda>n. n = 0)"
      unfolding torps_in_use_def
      by (rule count_upto_cong) (simp add: True ex_wall_def blank_torps ex_torp_simps)
    ultimately show ?thesis using True by simp
  next
    case False
    then have "MAXTORP * i + n \<noteq> 32" if "n < MAXTORP" for n using that by presburger
    then have "torps_in_use i ex_wall = count_upto MAXTORP (\<lambda>n. False)"
      unfolding torps_in_use_def by (intro count_upto_cong) (simp add: ex_wall_def blank_torps)
    then show ?thesis using False by (simp add: count_upto_def)
  qed
  have 2: "p_ntorp (players ex_wall i) = (if i = 4 then 1 else 0)" "p_nplasmatorp (players ex_wall i) = 0" for i
    by (simp_all add: ex_wall_def blank_game_def blank_player_def)
  show ?thesis unfolding slots_ok_def 1 2 by (simp add: ex_wall_def blank_torps ex_torp_simps)
qed

theorem torp_ends_witness: "t_status (torps ((udtorps (\<lambda>_ _. 0) ^^ 17) ex_wall) 32) = TFREE"
  by (rule torp_ends) (simp_all add: life_def ex_wall_def TPF_def blank_sysdef_def ex_torp_simps signed_divide_int_def)

theorem torp_counts_exact_witness: "slots_ok ((udtorps (\<lambda>_ _. 0) ^^ 3) ex_wall)"
  using ex_wall_slots by (rule torp_counts_exact)

definition ex_torp_at_wall :: "torp" where
  "ex_torp_at_wall = ex_torp\<lparr>t_fuse := 4, t_x_internal := 0, t_x := 0\<rparr>"

lemma ex_torp_moves:
  "t_check_wall ex_wall (t_move ex_wall ((torps ex_wall 32)\<lparr>t_fuse := t_fuse (torps ex_wall 32) - 1\<rparr>)) = (ex_torp_at_wall, True)"
proof -
  have cos: "Cos 192 = -1" "Sin 192 = 0" by code_simp+
  have tpf: "TPF ex_wall = 1" "\<not> wrap_galaxy (cfg ex_wall)"
    by (simp_all add: TPF_def ex_wall_def blank_sysdef_def signed_divide_int_def)
  have t: "torps ex_wall 32 = ex_torp" by (simp add: ex_wall_def)
  have m: "t_move ex_wall (ex_torp\<lparr>t_fuse := 4\<rparr>) = ex_torp\<lparr>t_fuse := 4, t_x_internal := - 60440, t_x := spo (- 60440)\<rparr>"
    by (simp add: t_move_def ex_torp_def tpf cos blank_torp_def Let_def trunc_def spo_def)
  show ?thesis
    by (simp add: t m ex_torp_simps) (simp add: t_check_wall_def wall_def tpf Let_def ex_torp_at_wall_def spo_def spi_def ex_torp_def blank_torp_def)
qed

theorem wall_torp_explodes_twice_witness:
  "p_shield (players (udtorp (\<lambda>_ _. 0) 32 ex_wall) 3) = 40"
proof -
  have st: "k \<noteq> 3 \<Longrightarrow> p_status (players ex_wall k) \<noteq> PALIVE" for k
    by (simp add: ex_wall_def blank_game_def blank_player_def)
  have p: "players ex_wall 3 = blank_player\<lparr>p_no := 3, p_status := PALIVE, p_flags := PFSHIELD, p_team := ROM,
          p_x_internal := 25600, p_shield := 100,
          p_ship := blank_ship\<lparr>s_maxshield := 100, s_maxdamage := 100, s_maxfuel := 10000\<rparr>\<rparr>"
    by (simp add: ex_wall_def)
  have t: "torps ex_wall 32 = ex_torp" by (simp add: ex_wall_def)
  have b: "beside ex_torp_at_wall 3 ex_wall"
    using st
    by (simp add: beside_def t_near_one_def p is_idle_def destroyed_def ex_torp_at_wall_def ex_torp_def blank_torp_def
        blank_player_def Let_def spo_def meets_def has_def ex_wall_def blank_sysdef_def)
  have d: "t_damage ex_torp_at_wall = 30" by (simp add: ex_torp_at_wall_def ex_torp_simps)
  have "p_shield (players (udtorp (\<lambda>_ _. 0) 32 ex_wall) 3) = p_shield (players ex_wall 3) -
      2 * t_damage (fst (t_check_wall ex_wall (t_move ex_wall ((torps ex_wall 32)\<lparr>t_fuse := t_fuse (torps ex_wall 32) - 1\<rparr>))))"
    by (rule wall_torp_explodes_twice)
      (simp_all add: ex_torp_moves [simplified t ex_torp_simps, simplified] b d t ex_torp_simps p)
  then show ?thesis by (simp only: ex_torp_moves fst_conv d p) simp
qed

end
