(* ===== verification/Motion.thy ===== *)
theory Motion
  imports Combat
begin

text \<open>
  The movement of ships in \<^verbatim>\<open>ntserv/daemon.c\<close>: turning (\<^verbatim>\<open>changedir\<close>), speed and its cost in
  fuel and heat (\<^verbatim>\<open>udplayers_palive_move_in_space\<close>), the position in space, in orbit and at a
  docking port (\<^verbatim>\<open>udships\<close>), tractor beams, cloaking (\<^verbatim>\<open>udcloak\<close>) and transwarp
  (\<^verbatim>\<open>udtwarp\<close>).  Directions are 8-bit words and wrap as in the source; positions are scaled by
  \<^verbatim>\<open>SPM\<close>.  The conversion of a floating value that is stored in an integer field truncates.
\<close>

subsection \<open>Turning\<close>

text \<open>The turn rate of a frame, in thousandths of a direction unit.\<close>

definition turn_rate :: "sysdef \<Rightarrow> player \<Rightarrow> int" where
  "turn_rate c p =
     (if newturn c then s_turns (p_ship p) sdiv (p_speed p * p_speed p)
      else s_turns (p_ship p) sdiv (if p_speed p < 30 then 2 ^ nat (p_speed p) else 1000000000))"

text \<open>Turn by a number of units, the shorter way round, but not past the desired direction.\<close>

definition turn_by :: "int \<Rightarrow> 8 word \<Rightarrow> 8 word \<Rightarrow> 8 word" where
  "turn_by ticks des dir =
     (let lo = min (uint des) (uint dir); hi = max (uint des) (uint dir) in
      if ticks > hi - lo \<or> ticks > 256 - hi + lo then des
      else if uint (dir - des) > 127 then dir + of_int ticks
      else dir - of_int ticks)"

definition changedir :: "sysdef \<Rightarrow> player \<Rightarrow> player" where
  "changedir c p =
     (if p_speed p = 0 then p\<lparr>p_dir := p_desdir p, p_subdir := 0\<rparr>
      else
        let sub = p_subdir p + turn_rate c p; ticks = sub sdiv 1000 in
        if ticks = 0 then p\<lparr>p_subdir := sub\<rparr>
        else p\<lparr>p_dir := turn_by ticks (p_desdir p) (p_dir p), p_subdir := sub smod 1000\<rparr>)"

subsection \<open>Speed\<close>

text \<open>Damage takes away speed.\<close>

definition damaged_maxspeed :: "player \<Rightarrow> int" where
  "damaged_maxspeed p =
     trunc (of_int (s_maxspeed (p_ship p) + 2) -
       of_int (s_maxspeed (p_ship p) + 1) * (of_int (p_damage p) / of_int (s_maxdamage (p_ship p))))"

definition limit_desspeed :: "player \<Rightarrow> player" where
  "limit_desspeed p =
     (let p = (if p_desspeed p > damaged_maxspeed p then p\<lparr>p_desspeed := damaged_maxspeed p\<rparr> else p)
      in if has (p_flags p) PFENG then p\<lparr>p_desspeed := 1\<rparr> else p)"

definition out_of_fuel :: "player \<Rightarrow> player" where
  "out_of_fuel p =
     (let s = p_ship p; free = s_recharge s sdiv s_warpcost s;
          des = (if free < p_speed p
                 then if free + 2 > s_maxspeed s then s_maxspeed s - 1 else free + 2
                 else p_speed p)
      in p\<lparr>p_desspeed := des, p_fuel := 0\<rparr>)"

text \<open>A base also pays for the mass of the ships that are docked.\<close>

definition charge_docked :: "nat \<Rightarrow> game \<Rightarrow> game" where
  "charge_docked j g =
     (let bays = count_upto NUMBAYS (\<lambda>k. p_bays (players g j) k \<noteq> None);
          g = for_upto NUMBAYS (\<lambda>k g. case p_bays (players g j) k of None \<Rightarrow> g
                | Some d \<Rightarrow> upd_player j (\<lambda>p. p\<lparr>p_fuel := p_fuel p - s_warpcost (p_ship (players g d)) * p_speed p\<rparr>) g) g
      in upd_player j (\<lambda>p. p\<lparr>p_etemp := trunc (of_int (p_etemp p) + 7 / 10 * of_int (p_speed p * int bays))\<rparr>) g)"

definition charge_speed :: "nat \<Rightarrow> game \<Rightarrow> game" where
  "charge_speed j g =
     (let p = players g j; cost = s_warpcost (p_ship p) * p_speed p in
      if p_fuel p < cost then upd_player j out_of_fuel g
      else
        let g = upd_player j (\<lambda>p. p\<lparr>p_fuel := p_fuel p - cost, p_etemp := p_etemp p + p_speed p\<rparr>) g
        in if s_type (p_ship p) = STARBASE then charge_docked j g else g)"

definition accelerate :: "player \<Rightarrow> player" where
  "accelerate p =
     (let s = p_ship p;
          sub = (if p_desspeed p > p_speed p then p_subspeed p + s_accint s
                 else if p_desspeed p < p_speed p then p_subspeed p - s_decint s
                 else p_subspeed p)
      in if sub sdiv 1000 = 0 then p\<lparr>p_subspeed := sub\<rparr>
         else
           let speed = p_speed p + sub sdiv 1000;
               speed = (if speed < 0 then 0 else speed);
               speed = (if speed > s_maxspeed s then s_maxspeed s else speed)
           in p\<lparr>p_speed := speed, p_subspeed := sub smod 1000\<rparr>)"

definition udplayers_palive_move_in_space :: "nat \<Rightarrow> game \<Rightarrow> game" where
  "udplayers_palive_move_in_space j g =
     (let p = players g j;
          g = (if p_dir p \<noteq> p_desdir p \<and> p_status p \<noteq> PEXPLODE then upd_player j (changedir (cfg g)) g else g)
      in if pflag j PFTWARP g then g
         else upd_player j accelerate (charge_speed j (upd_player j limit_desspeed g)))"

subsection \<open>Position\<close>

text \<open>In orbit the ship turns two units a tick on a circle around the planet.\<close>

definition orbit_position :: "planet \<Rightarrow> player \<Rightarrow> player" where
  "orbit_position l p =
     (let dir = p_dir p + 2;
          x = trunc (of_int (pl_x l * SPM) + of_int (SPM * ORBDIST) * Cos (dir - 64));
          y = trunc (of_int (pl_y l * SPM) + of_int (SPM * ORBDIST) * Sin (dir - 64))
      in p\<lparr>p_dir := dir, p_desdir := dir, p_x_internal := x, p_y_internal := y, p_x := spo x, p_y := spo y\<rparr>)"

definition udplayers_palive_move_in_orbit :: "nat \<Rightarrow> game \<Rightarrow> game" where
  "udplayers_palive_move_in_orbit j g =
     upd_player j (orbit_position (planets g (p_planet (players g j)))) g"

text \<open>A straight step at a speed, before the walls.\<close>

definition advance :: "int \<Rightarrow> int \<Rightarrow> player \<Rightarrow> player" where
  "advance tpf speed p =
     p\<lparr>p_x_internal := trunc (of_int (p_x_internal p) + of_int (SPM * speed * WARP1) * Cos (p_dir p) / of_int tpf),
       p_y_internal := trunc (of_int (p_y_internal p) + of_int (SPM * speed * WARP1) * Sin (p_dir p) / of_int tpf)\<rparr>"

definition show_position :: "player \<Rightarrow> player" where
  "show_position p = p\<lparr>p_x := spo (p_x_internal p), p_y := spo (p_y_internal p)\<rparr>"

definition udships_palive_move_in_orbit :: "nat \<Rightarrow> game \<Rightarrow> game" where
  "udships_palive_move_in_orbit j g = upd_player j (\<lambda>p. show_position (advance (TPF g) 2 p)) g"

definition bay_dir :: "nat \<Rightarrow> 8 word" where
  "bay_dir bay = of_int ((int bay * 90 + 45) * 255 sdiv 360)"

definition udships_palive_move_in_dock :: "nat \<Rightarrow> game \<Rightarrow> game" where
  "udships_palive_move_in_dock j g =
     (let b = players g (p_dock_with (players g j)); d = bay_dir (p_dock_bay (players g j)) in
      upd_player j (\<lambda>p. show_position
        (p\<lparr>p_x_internal := trunc (of_int (p_x_internal b) + of_int (SPM * DOCKDIST) * Cos d),
           p_y_internal := trunc (of_int (p_y_internal b) + of_int (SPM * DOCKDIST) * Sin d)\<rparr>)) g)"

text \<open>
  At the edge of its box a ship bounces or, in a wrapped galaxy, comes in at the other side.
  The mirrored directions wrap in 8 bits.
\<close>

definition bounce_x :: "bool \<Rightarrow> player \<Rightarrow> player" where
  "bounce_x wrap p =
     (let x = p_x_internal p; lo = p_x_min p; hi = p_x_max p in
      if x < lo then
        let dx = lo - x in
        if wrap then p\<lparr>p_x_internal := hi - dx\<rparr>
        else let d = (if p_dir p = 192 then 64 else 64 - (p_dir p - 192))
             in p\<lparr>p_x_internal := x + 2 * dx, p_dir := d, p_desdir := d\<rparr>
      else if x > hi then
        let dx = x - hi in
        if wrap then p\<lparr>p_x_internal := lo + dx\<rparr>
        else let d = (if p_dir p = 64 then 192 else 192 - (p_dir p - 64))
             in p\<lparr>p_x_internal := x - 2 * dx, p_dir := d, p_desdir := d\<rparr>
      else p)"

definition bounce_y :: "bool \<Rightarrow> player \<Rightarrow> player" where
  "bounce_y wrap p =
     (let y = p_y_internal p; lo = p_y_min p; hi = p_y_max p in
      if y < lo then
        let dy = lo - y in
        if wrap then p\<lparr>p_y_internal := hi - dy\<rparr>
        else let d = (if p_dir p = 0 then 128 else 128 - p_dir p)
             in p\<lparr>p_y_internal := y + 2 * dy, p_dir := d, p_desdir := d\<rparr>
      else if y > hi then
        let dy = y - hi in
        if wrap then p\<lparr>p_y_internal := lo + dy\<rparr>
        else let d = (if p_dir p = 128 then 0 else 0 - (p_dir p - 128))
             in p\<lparr>p_y_internal := y - 2 * dy, p_dir := d, p_desdir := d\<rparr>
      else p)"

definition move_in_space :: "int \<Rightarrow> bool \<Rightarrow> player \<Rightarrow> player" where
  "move_in_space tpf wrap p =
     (let p = (if p_x_y_set p \<noteq> 0 then p_x_y_commit p else p)
      in show_position (bounce_y wrap (bounce_x wrap (advance tpf (p_speed p) p))))"

definition udships_palive_move_in_space :: "nat \<Rightarrow> game \<Rightarrow> game" where
  "udships_palive_move_in_space j g = upd_player j (move_in_space (TPF g) (wrap_galaxy (cfg g))) g"

definition udships_palive :: "nat \<Rightarrow> game \<Rightarrow> game" where
  "udships_palive j g =
     (if pflag j PFDOCK g then udships_palive_move_in_dock j g
      else if pflag j PFORBIT g then udships_palive_move_in_orbit j g
      else udships_palive_move_in_space j g)"

definition udships :: "game \<Rightarrow> game" where
  "udships g =
     for_upto MAXPLAYER
       (\<lambda>j g. if p_status (players g j) = PEXPLODE \<or> p_status (players g j) = PALIVE then udships_palive j g else g) g"

subsection \<open>Tractor beams\<close>

definition hypot_float :: "int \<Rightarrow> int \<Rightarrow> rat" where
  "hypot_float dx dy = fsqrt (nat (dx * dx + dy * dy))"

definition tractor_holds :: "nat \<Rightarrow> game \<Rightarrow> bool" where
  "tractor_holds j g \<longleftrightarrow>
     (let p = players g j; v = players g (p_tractor p) in
      p_status v = PALIVE \<and> p_fuel p > TRACTCOST \<and> \<not> has (p_flags p) PFENG \<and>
      hypot_float (p_x p - p_x v) (p_y p - p_y v) < of_int TRACTDIST * s_tractrng (p_ship p) \<and>
      \<not> has (p_flags p) (PFORBIT OR PFDOCK) \<and> \<not> has (p_flags v) PFDOCK)"

text \<open>One end of a beam: moved along the line by the force over the mass.\<close>

definition pull :: "rat \<Rightarrow> rat \<Rightarrow> player \<Rightarrow> player" where
  "pull fx fy p =
     p_x_y_to_internal
       (p\<lparr>p_x := trunc (of_int (p_x p) + fx / of_int (s_mass (p_ship p))),
          p_y := trunc (of_int (p_y p) + fy / of_int (s_mass (p_ship p)))\<rparr>)"

definition udplayers_palive_tractor :: "nat \<Rightarrow> game \<Rightarrow> game" where
  "udplayers_palive_tractor j g =
     (if \<not> pflag j PFTRACT g then g
      else if tractor_holds j g then
        let v = p_tractor (players g j);
            g = upd_player v (\<lambda>p. p\<lparr>p_flags := clear_flags PFORBIT (p_flags p)\<rparr>) g;
            g = upd_player j (\<lambda>p. p\<lparr>p_fuel := p_fuel p - TRACTCOST, p_etemp := p_etemp p + TRACTEHEAT\<rparr>) g;
            p = players g j; q = players g v;
            dist = hypot_float (p_x p - p_x q) (p_y p - p_y q);
            dist = (if dist = 0 then 1 else dist);
            sense = (if has (p_flags p) PFPRESS then -1 else 1);
            fx = sense * (of_int (p_x q - p_x p) / dist) * of_int (WARP1 * s_tractstr (p_ship p));
            fy = sense * (of_int (p_y q - p_y p) / dist) * of_int (WARP1 * s_tractstr (p_ship p))
        in upd_player v (pull (- fx) (- fy)) (upd_player j (pull fx fy) g)
      else upd_player j (\<lambda>p. p\<lparr>p_flags := clear_flags (PFTRACT OR PFPRESS) (p_flags p)\<rparr>) g)"

subsection \<open>Cloak and transwarp\<close>

definition cloak_step :: "player \<Rightarrow> player" where
  "cloak_step p =
     (if p_status p \<noteq> PALIVE then p
      else if has (p_flags p) PFCLOAK \<and> p_cloakphase p < CLOAK_PHASES - 1 then p\<lparr>p_cloakphase := p_cloakphase p + 1\<rparr>
      else if \<not> has (p_flags p) PFCLOAK \<and> p_cloakphase p > 0 then p\<lparr>p_cloakphase := p_cloakphase p - 1\<rparr>
      else p)"

definition udcloak :: "game \<Rightarrow> game" where
  "udcloak g = for_upto MAXPLAYER (\<lambda>i. upd_player i cloak_step) g"

definition twarp_cost :: "player \<Rightarrow> player" where
  "twarp_cost p =
     (let speed = min (2 * p_speed p) (p_desspeed p) in
      p\<lparr>p_speed := speed, p_fuel := p_fuel p - trunc (of_int (s_warpcost (p_ship p) * speed) * 8 / 10),
        p_etemp := p_etemp p + s_maxspeed (p_ship p)\<rparr>)"

text \<open>On the way to a base the ship slows down in time.\<close>

definition twarp_brake :: "player \<Rightarrow> player \<Rightarrow> player" where
  "twarp_brake k p =
     (let d = hypot_int (p_x p - p_x k) (p_y p - p_y k) in
      if d - DOCKDIST div 2 < (11500 * p_speed p * p_speed p) sdiv s_decint (p_ship p) \<and> p_desspeed p > 2
      then p\<lparr>p_desspeed := p_desspeed p - 1\<rparr> else p)"

definition udtwarp_one :: "nat \<Rightarrow> game \<Rightarrow> game" where
  "udtwarp_one i g =
     (if p_status (players g i) \<noteq> PALIVE \<or> \<not> pflag i PFTWARP g then g
      else
        let g = upd_player i twarp_cost g; k = players g (p_playerl (players g i))
        in if s_type (p_ship k) = STARBASE then upd_player i (twarp_brake k) g else g)"

definition udtwarp :: "game \<Rightarrow> game" where
  "udtwarp g = for_upto MAXPLAYER udtwarp_one g"


section \<open>Properties\<close>

subsection \<open>Turning is exact\<close>

lemma uint8_plus: "uint (a + of_int k :: 8 word) = (uint a + k) mod 256"
  by (simp add: uint_word_ariths uint_word_of_int mod_simps)

lemma uint8_minus: "uint (a - of_int k :: 8 word) = (uint a - k) mod 256"
  by (simp add: uint_word_ariths uint_word_of_int mod_simps)

lemma dir_gap: "\<bar>uint x - uint y\<bar> < 256" for x y :: "8 word"
  using uint_byte [of x] uint_byte [of y] by linarith

lemma angdist_0 [simp]: "angdist x y = 0 \<longleftrightarrow> x = y"
  using dir_gap [of x y] by (auto simp: angdist_alt Let_def word_uint_eq_iff split: if_splits)

lemma angdist_nonneg: "0 \<le> angdist x y"
  using dir_gap [of x y] by (simp add: angdist_alt Let_def)

text \<open>A sum of directions wraps at most once.\<close>

lemma mod256_add: "0 \<le> k \<Longrightarrow> k < 512 \<Longrightarrow> k mod 256 = (if k < 256 then k else k - (256 :: int))"
  using mod_pos_pos_trivial [of k 256] mod_pos_pos_trivial [of "k - 256" 256] minus_mod_self2 [of k 256] by auto

lemma mod256_sub: "- 256 \<le> k \<Longrightarrow> k < 256 \<Longrightarrow> k mod 256 = (if 0 \<le> k then k else k + (256 :: int))"
  using mod_pos_pos_trivial [of "k + 256" 256] by (simp add: mod_pos_pos_trivial)

lemma turn_by_dist:
  assumes "0 < k"
  shows "angdist (turn_by k des dir) des = max 0 (angdist dir des - k)"
proof -
  define a b where "a = uint dir" and "b = uint des"
  have ab: "0 \<le> a" "a < 256" "0 \<le> b" "b < 256" using uint_byte [of dir] uint_byte [of des] by (simp_all add: a_def b_def)
  have dist: "angdist d des = (let r = \<bar>uint d - b\<bar> in if r > 128 then 256 - r else r)" for d
    by (simp add: angdist_alt b_def)
  show ?thesis
  proof (cases "k > max b a - min b a \<or> k > 256 - max b a + min b a")
    case True
    then have "angdist dir des < k" using ab by (auto simp: dist Let_def simp flip: a_def)
    then show ?thesis using True by (simp add: turn_by_def Let_def a_def b_def)
  next
    case False
    then have k: "k \<le> \<bar>a - b\<bar>" "k \<le> 256 - \<bar>a - b\<bar>" by (auto simp: max_def min_def split: if_splits)
    have near: "uint (dir - des) = (if b \<le> a then a - b else a - b + 256)" by (simp add: uint_diff_byte a_def b_def)
    have up: "uint (dir + of_int k) = (if a + k < 256 then a + k else a + k - 256)"
      using mod256_add [of "a + k"] ab k assms by (simp add: uint8_plus a_def)
    have down: "uint (dir - of_int k) = (if 0 \<le> a - k then a - k else a - k + 256)"
      using mod256_sub [of "a - k"] ab k assms by (simp add: uint8_minus a_def)
    have "angdist (if uint (dir - des) > 127 then dir + of_int k else dir - of_int k) des = max 0 (angdist dir des - k)"
    proof (cases "uint (dir - des) > 127")
      case True
      then show ?thesis using ab k assms near by (auto simp: dist up Let_def simp flip: a_def split: if_splits)
    next
      case False
      then show ?thesis using ab k assms near by (auto simp: dist down Let_def simp flip: a_def split: if_splits)
    qed
    with False show ?thesis by (simp add: turn_by_def Let_def a_def b_def)
  qed
qed


lemma carry:
  "(a + r) div 1000 = a div 1000 + (a mod 1000 + r) div (1000 :: int)" "(a + r) mod 1000 = (a mod 1000 + r) mod (1000 :: int)"
proof -
  have "a + r = (a mod 1000 + r) + (a div 1000) * 1000" using div_mult_mod_eq [of a 1000] by linarith
  then have "(a + r) div 1000 = ((a mod 1000 + r) + (a div 1000) * 1000) div 1000" by (rule arg_cong)
  also have "\<dots> = a div 1000 + (a mod 1000 + r) div 1000" by (rule div_mult_self1) simp
  finally show "(a + r) div 1000 = a div 1000 + (a mod 1000 + r) div 1000" .
  show "(a + r) mod 1000 = (a mod 1000 + r) mod 1000" by (simp only: mod_add_left_eq)
qed

lemma smod_eq_mod: "0 \<le> a \<Longrightarrow> 0 \<le> b \<Longrightarrow> a smod b = a mod (b :: int)"
  by (cases "a = 0") (simp_all add: signed_modulo_int_def)

text \<open>
  C28: turning is exact and ends.  After n frames in which the speed does not change the angle
  that is left is the old one less the whole units that the turn rate and the fraction kept in
  \<^verbatim>\<open>p_subdir\<close> have added up to, never past the desired direction; so the ship has the desired
  direction as soon as these units are as many as the angle, and stays there.
\<close>

theorem changedir_exact:
  assumes "p_speed p \<noteq> 0" and "0 \<le> p_subdir p" and "p_subdir p < 1000" and "0 \<le> turn_rate c p"
  shows "let q = (changedir c ^^ n) p; turned = (p_subdir p + int n * turn_rate c p) div 1000 in
         angdist (p_dir q) (p_desdir p) = max 0 (angdist (p_dir p) (p_desdir p) - turned) \<and>
         (p_dir q = p_desdir p \<longleftrightarrow> angdist (p_dir p) (p_desdir p) \<le> turned) \<and>
         q = p\<lparr>p_dir := p_dir q, p_subdir := p_subdir q\<rparr>"
proof -
  define total where "total n = p_subdir p + int n * turn_rate c p" for n
  have total: "0 \<le> total n" for n using assms by (simp add: total_def)
  have step: "angdist (p_dir ((changedir c ^^ n) p)) (p_desdir p) = max 0 (angdist (p_dir p) (p_desdir p) - total n div 1000) \<and>
      p_subdir ((changedir c ^^ n) p) = total n mod 1000 \<and>
      (\<exists>d s. (changedir c ^^ n) p = p\<lparr>p_dir := d, p_subdir := s\<rparr>)" for n
  proof (induction n)
    case 0
    have "total 0 div 1000 = 0" "total 0 mod 1000 = p_subdir p" using assms by (simp_all add: total_def)
    moreover have "\<exists>d s. p = p\<lparr>p_dir := d, p_subdir := s\<rparr>"
      by (rule exI [of _ "p_dir p"], rule exI [of _ "p_subdir p"]) simp
    ultimately show ?case by (simp add: angdist_nonneg)
  next
    case (Suc n)
    then obtain d where q: "(changedir c ^^ n) p = p\<lparr>p_dir := d, p_subdir := total n mod 1000\<rparr>"
      and d: "angdist d (p_desdir p) = max 0 (angdist (p_dir p) (p_desdir p) - total n div 1000)" by auto
    define k where "k = (total n mod 1000 + turn_rate c p) div 1000"
    have k: "0 \<le> k" and sd: "(total n mod 1000 + turn_rate c p) sdiv 1000 = k"
      using assms by (simp_all add: k_def sdiv_eq_div pos_imp_zdiv_nonneg_iff)
    have total_Suc: "total (Suc n) = total n + turn_rate c p" by (simp add: total_def algebra_simps)
    have Suc_total: "total (Suc n) div 1000 = total n div 1000 + k" "total (Suc n) mod 1000 = (total n mod 1000 + turn_rate c p) mod 1000"
      using carry [of "total n" "turn_rate c p"] unfolding k_def total_Suc by blast+
    have sm: "(total n mod 1000 + turn_rate c p) smod 1000 = total (Suc n) mod 1000"
      "k = 0 \<Longrightarrow> total n mod 1000 + turn_rate c p = total (Suc n) mod 1000"
      using assms(4) div_mult_mod_eq [of "total n mod 1000 + turn_rate c p" 1000]
      unfolding Suc_total(2) k_def by (simp_all add: smod_eq_mod)
    have rate: "turn_rate c (p\<lparr>p_dir := d, p_subdir := s\<rparr>) = turn_rate c p" for s by (simp add: turn_rate_def)
    have des: "angdist (if k = 0 then d else turn_by k (p_desdir p) d) (p_desdir p) = max 0 (angdist d (p_desdir p) - k)"
      using turn_by_dist [of k "p_desdir p" d] k angdist_nonneg [of d "p_desdir p"] by simp
    have "changedir c (p\<lparr>p_dir := d, p_subdir := total n mod 1000\<rparr>) =
        p\<lparr>p_dir := (if k = 0 then d else turn_by k (p_desdir p) d), p_subdir := total (Suc n) mod 1000\<rparr>"
      using assms(1) sm by (simp add: changedir_def rate sd)
    then have "(changedir c ^^ Suc n) p =
        p\<lparr>p_dir := (if k = 0 then d else turn_by k (p_desdir p) d), p_subdir := total (Suc n) mod 1000\<rparr>"
      by (simp add: q)
    moreover have "max 0 (max 0 (x - y) - k) = max 0 (x - (y + k))" for x y using k by linarith
    ultimately show ?case using des d Suc_total(1) by auto
  qed
  obtain d r where q: "(changedir c ^^ n) p = p\<lparr>p_dir := d, p_subdir := r\<rparr>"
    using step [of n, THEN conjunct2, THEN conjunct2] by (elim exE)
  have d: "angdist d (p_desdir p) = max 0 (angdist (p_dir p) (p_desdir p) - total n div 1000)"
    using step [of n] unfolding q by simp
  have "d = p_desdir p \<longleftrightarrow> angdist (p_dir p) (p_desdir p) \<le> total n div 1000"
    unfolding angdist_0 [symmetric] d by linarith
  with d show ?thesis unfolding q total_def Let_def by simp
qed


definition ex_turning :: player where
  "ex_turning = blank_player\<lparr>p_speed := 2, p_dir := 250, p_desdir := 20,
     p_ship := (p_ship blank_player)\<lparr>s_turns := 60000\<rparr>\<rparr>"

lemma changedir_exact_witness:
  "newturn (cfg blank_game) = False \<and> p_dir ((changedir (cfg blank_game) ^^ 1) ex_turning) \<noteq> 20 \<and>
   p_dir ((changedir (cfg blank_game) ^^ 2) ex_turning) = 20"
proof -
  have f: "p_speed ex_turning = 2" "p_subdir ex_turning = 0" "p_dir ex_turning = 250" "p_desdir ex_turning = 20"
    "s_turns (p_ship ex_turning) = 60000" by (simp_all add: ex_turning_def blank_player_def)
  have c: "newturn (cfg blank_game) = False" by (simp add: blank_game_def blank_sysdef_def)
  have r: "turn_rate (cfg blank_game) ex_turning = 15000" by (simp add: turn_rate_def c f sdiv_eq_div)
  have d: "angdist (250 :: 8 word) 20 = 26" by code_simp
  show ?thesis
    using changedir_exact [of ex_turning "cfg blank_game" 1] changedir_exact [of ex_turning "cfg blank_game" 2]
    by (simp add: f r d c Let_def del: funpow.simps)
qed

subsection \<open>Ships stay in their box\<close>

text \<open>A truncated sum of an integer and a bounded rational.\<close>

lemma trunc_add_bounds:
  assumes "\<bar>r\<bar> \<le> of_int n"
  shows "x - n \<le> trunc (of_int x + r)" and "trunc (of_int x + r) \<le> x + n"
  using assms by (auto intro!: trunc_lower trunc_upper)

text \<open>The longest step of a frame.\<close>

lemma step_bound:
  assumes "\<bar>c\<bar> \<le> 1" and "0 \<le> speed" and "1 \<le> tpf"
  shows "\<bar>of_int (SPM * speed * WARP1) * c / of_int tpf\<bar> \<le> (of_int (SPM * speed * WARP1) :: rat)"
proof -
  have "\<bar>of_int (SPM * speed * WARP1) * c\<bar> \<le> (of_int (SPM * speed * WARP1) :: rat) * 1"
    unfolding abs_mult using assms by (intro mult_mono) auto
  also have "\<dots> \<le> of_int (SPM * speed * WARP1) * of_int tpf"
    using assms by (intro mult_left_mono) auto
  finally show ?thesis using assms(3) by (simp add: divide_le_eq abs_divide)
qed

definition in_box :: "player \<Rightarrow> bool" where
  "in_box p \<longleftrightarrow> p_x_min p \<le> p_x_internal p \<and> p_x_internal p \<le> p_x_max p \<and>
     p_y_min p \<le> p_y_internal p \<and> p_y_internal p \<le> p_y_max p"

text \<open>The box is wider and higher than the longest step.\<close>

definition roomy :: "player \<Rightarrow> bool" where
  "roomy p \<longleftrightarrow> 0 \<le> p_speed p \<and> SPM * p_speed p * WARP1 \<le> p_x_max p - p_x_min p \<and>
     SPM * p_speed p * WARP1 \<le> p_y_max p - p_y_min p"

lemma bounce_x_fields [simp]:
  "p_y_internal (bounce_x w p) = p_y_internal p" "p_x_min (bounce_x w p) = p_x_min p" "p_x_max (bounce_x w p) = p_x_max p"
  "p_y_min (bounce_x w p) = p_y_min p" "p_y_max (bounce_x w p) = p_y_max p"
  by (simp_all add: bounce_x_def Let_def)

lemma bounce_y_fields [simp]:
  "p_x_internal (bounce_y w p) = p_x_internal p" "p_x_min (bounce_y w p) = p_x_min p" "p_x_max (bounce_y w p) = p_x_max p"
  "p_y_min (bounce_y w p) = p_y_min p" "p_y_max (bounce_y w p) = p_y_max p"
  by (simp_all add: bounce_y_def Let_def)

lemma bounce_x_in:
  assumes "p_x_min p - n \<le> p_x_internal p" and "p_x_internal p \<le> p_x_max p + n" and "n \<le> p_x_max p - p_x_min p"
  shows "p_x_min p \<le> p_x_internal (bounce_x w p)" and "p_x_internal (bounce_x w p) \<le> p_x_max p"
  using assms by (auto simp: bounce_x_def Let_def)

lemma bounce_y_in:
  assumes "p_y_min p - n \<le> p_y_internal p" and "p_y_internal p \<le> p_y_max p + n" and "n \<le> p_y_max p - p_y_min p"
  shows "p_y_min p \<le> p_y_internal (bounce_y w p)" and "p_y_internal (bounce_y w p) \<le> p_y_max p"
  using assms by (auto simp: bounce_y_def Let_def)

lemma fly_in_box:
  assumes "in_box p" and "roomy p" and "1 \<le> tpf"
  shows "in_box (bounce_y w (bounce_x w (advance tpf (p_speed p) p)))"
proof -
  define n where "n = SPM * p_speed p * WARP1"
  define q where "q = advance tpf (p_speed p) p"
  have q: "p_x_min q = p_x_min p" "p_x_max q = p_x_max p" "p_y_min q = p_y_min p" "p_y_max q = p_y_max p"
    by (simp_all add: q_def advance_def)
  have sx: "\<bar>of_int (SPM * p_speed p * WARP1) * Cos (p_dir p) / of_int tpf\<bar> \<le> of_int n"
    and sy: "\<bar>of_int (SPM * p_speed p * WARP1) * Sin (p_dir p) / of_int tpf\<bar> \<le> of_int n"
    unfolding n_def using assms by (intro step_bound abs_Cos_le abs_Sin_le; simp add: roomy_def)+
  have x: "p_x_min q - n \<le> p_x_internal q" "p_x_internal q \<le> p_x_max q + n"
    and y: "p_y_min q - n \<le> p_y_internal q" "p_y_internal q \<le> p_y_max q + n"
    using trunc_add_bounds [OF sx, of "p_x_internal p"] trunc_add_bounds [OF sy, of "p_y_internal p"] assms(1)
    by (simp_all add: q_def advance_def in_box_def)
  have n: "n \<le> p_x_max q - p_x_min q" "n \<le> p_y_max q - p_y_min q" using assms(2) by (simp_all add: roomy_def q n_def)
  from bounce_x_in [OF x n(1), of w] bounce_y_in [of "bounce_x w q" n w] y n(2)
  show ?thesis unfolding in_box_def q_def [symmetric] by simp
qed


lemma udships_palive_cfg [simp]: "cfg (udships_palive j g) = cfg g"
  by (simp add: udships_palive_def udships_palive_move_in_dock_def udships_palive_move_in_orbit_def
      udships_palive_move_in_space_def Let_def)

lemma udships_palive_other: "i \<noteq> j \<Longrightarrow> players (udships_palive i g) j = players g j"
  by (simp add: udships_palive_def udships_palive_move_in_dock_def udships_palive_move_in_orbit_def
      udships_palive_move_in_space_def Let_def)

definition moving :: "player \<Rightarrow> bool" where
  "moving p \<longleftrightarrow> (p_status p = PALIVE \<or> p_status p = PEXPLODE) \<and>
     \<not> has (p_flags p) PFDOCK \<and> \<not> has (p_flags p) PFORBIT"

lemma udships_moving:
  assumes "j < MAXPLAYER" and "moving (players g j)"
  shows "players (udships g) j = move_in_space (TPF g) (wrap_galaxy (cfg g)) (players g j)"
proof -
  define f where "f i g = (if p_status (players g i) = PEXPLODE \<or> p_status (players g i) = PALIVE
    then udships_palive i g else g)" for i g
  have "players (for_upto n f g) j = (if j < n then move_in_space (TPF g) (wrap_galaxy (cfg g)) (players g j) else players g j) \<and>
      cfg (for_upto n f g) = cfg g" for n
  proof (induction n)
    case (Suc n)
    define h where "h = for_upto n f g"
    have cfg: "cfg h = cfg g" using Suc by (simp add: h_def)
    have cfg': "cfg (f n h) = cfg h" by (simp add: f_def)
    show ?case
    proof (cases "n = j")
      case True
      with Suc have at: "players h j = players g j" by (simp add: h_def)
      with assms(2) have "f j h = udships_palive_move_in_space j h"
        by (auto simp: f_def moving_def udships_palive_def)
      then show ?thesis unfolding for_upto_Suc h_def [symmetric] using True at cfg cfg'
        by (simp add: udships_palive_move_in_space_def TPF_def)
    next
      case False
      then have "players (f n h) j = players h j" by (simp add: f_def udships_palive_other)
      then show ?thesis using Suc False cfg cfg' by (auto simp: less_Suc_eq simp flip: h_def)
    qed
  qed simp
  from this [of MAXPLAYER] show ?thesis using assms(1) by (simp add: udships_def f_def [abs_def])
qed

text \<open>What a ship does with a requested position before it moves.\<close>

definition placed :: "player \<Rightarrow> player" where
  "placed p = (if p_x_y_set p \<noteq> 0 then p_x_y_commit p else p)"

text \<open>
  C25: after a frame of movement every ship that flies free is inside its box, in a galaxy with
  walls and in a wrapped one, and the position the others see is inside the box as well, if it
  started inside (or was put inside) and the box is larger than a step at its speed.
\<close>

theorem ships_stay_in_box:
  fixes g :: game and j :: nat
  assumes "j < MAXPLAYER" and "moving (players g j)" and "1 \<le> TPF g"
    and "in_box (placed (players g j))" and "roomy (players g j)"
  shows "let p = players (udships g) j in
         in_box p \<and> spo (p_x_min p) \<le> p_x p \<and> p_x p \<le> spo (p_x_max p) \<and>
         spo (p_y_min p) \<le> p_y p \<and> p_y p \<le> spo (p_y_max p)"
proof -
  define p where "p = placed (players g j)"
  have "roomy p" using assms(5) by (simp add: p_def placed_def roomy_def p_x_y_commit_def)
  then have "in_box (bounce_y (wrap_galaxy (cfg g)) (bounce_x (wrap_galaxy (cfg g)) (advance (TPF g) (p_speed p) p)))" (is "in_box ?q")
    using assms by (intro fly_in_box) (simp_all add: p_def)
  moreover have "players (udships g) j = show_position ?q"
    unfolding udships_moving [OF assms(1,2)] move_in_space_def p_def placed_def by (simp add: Let_def)
  ultimately show ?thesis by (simp add: Let_def in_box_def show_position_def spo_mono)
qed

definition ex_drift :: game where
  "ex_drift = upd_player 3 (\<lambda>p. p\<lparr>p_status := PALIVE, p_speed := 9, p_dir := 192, p_desdir := 192,
     p_x_min := spi 0, p_y_min := spi 0, p_x_max := spi GWIDTH, p_y_max := spi GWIDTH,
     p_x := 1, p_y := 500, p_x_internal := spi 1, p_y_internal := spi 500\<rparr>)
     (blank_game\<lparr>cfg := blank_sysdef\<lparr>fps := 50\<rparr>\<rparr>)"

lemma ships_stay_in_box_witness:
  "in_box (placed (players ex_drift 3)) \<and> in_box (players (udships ex_drift) 3)"
proof -
  have "moving (players ex_drift 3)" "in_box (placed (players ex_drift 3))" "roomy (players ex_drift 3)"
    by (simp_all add: ex_drift_def moving_def in_box_def placed_def roomy_def spi_def blank_game_def blank_player_def)
  moreover have "1 \<le> TPF ex_drift" by (simp add: TPF_def ex_drift_def sdiv_eq_div)
  ultimately show ?thesis using ships_stay_in_box [of 3 ex_drift] by (simp add: Let_def)
qed

subsection \<open>Orbits are circles\<close>

lemma trunc_error: "\<bar>of_int (trunc r) - r\<bar> \<le> 1"
proof (cases "0 \<le> r")
  case True
  then show ?thesis unfolding trunc_def if_P [OF True] by linarith
next
  case False
  then show ?thesis unfolding trunc_def if_not_P [OF False] by linarith
qed

lemma sq_error:
  fixes a b :: rat
  assumes "\<bar>a - b\<bar> \<le> 1" and "\<bar>b\<bar> \<le> R"
  shows "\<bar>a * a - b * b\<bar> \<le> 2 * R + 1"
proof -
  have "a * a - b * b = (a - b) * (a - b) + 2 * b * (a - b)" by (simp add: algebra_simps)
  moreover have "\<bar>(a - b) * (a - b)\<bar> \<le> 1 * 1" unfolding abs_mult using assms by (intro mult_mono) auto
  moreover have "\<bar>2 * b * (a - b)\<bar> \<le> 2 * R * 1" unfolding abs_mult using assms by (intro mult_mono) auto
  ultimately show ?thesis by linarith
qed

lemma unit_circle: "\<bar>Cos d * Cos d + Sin d * Sin d - 1\<bar> \<le> 19474 / 100000000"
proof -
  define m where "m = Sin10k d * Sin10k d + Cos10k d * Cos10k d - 100000000"
  have "\<bar>m\<bar> \<le> 19474" using dir_norm [of d] by (simp add: m_def)
  then have "of_int \<bar>m\<bar> \<le> (of_int 19474 :: rat)" by (simp only: of_int_le_iff)
  moreover have "Cos d * Cos d + Sin d * Sin d - 1 = of_int m / 100000000"
    by (simp add: m_def Cos_def Sin_def field_simps)
  then have "\<bar>Cos d * Cos d + Sin d * Sin d - 1\<bar> = \<bar>of_int m\<bar> / 100000000" by (simp only: abs_divide abs_numeral)
  ultimately show ?thesis by simp
qed

text \<open>
  A ship in orbit is on the circle around its planet after every tick: its distance is
  within one unit of \<^verbatim>\<open>ORBDIST\<close> (the squares of the scaled coordinates differ by less than
  two times the radius times the scale), it has turned by two direction units and faces along its path.
\<close>

theorem orbit_is_circle:
  shows "let q = orbit_position l p; dx = p_x_internal q - spi (pl_x l); dy = p_y_internal q - spi (pl_y l) in
         spi (ORBDIST - 1) * spi (ORBDIST - 1) < dx * dx + dy * dy \<and>
         dx * dx + dy * dy < spi (ORBDIST + 1) * spi (ORBDIST + 1) \<and>
         p_dir q = p_dir p + 2 \<and> p_desdir q = p_dir q \<and> p_x q = spo (p_x_internal q) \<and> p_y q = spo (p_y_internal q)"
proof -
  define d where "d = p_dir p + 2 - 64"
  define x y :: rat where "x = 204800 * Cos d" and "y = 204800 * Sin d"
  define q where "q = orbit_position l p"
  define dx dy where "dx = p_x_internal q - spi (pl_x l)" and "dy = p_y_internal q - spi (pl_y l)"
  have "\<bar>of_int dx - x\<bar> \<le> 1"
    using trunc_error [of "of_int (pl_x l * SPM) + x"]
    by (simp add: dx_def q_def orbit_position_def Let_def x_def d_def spi_def)
  moreover have "\<bar>of_int dy - y\<bar> \<le> 1"
    using trunc_error [of "of_int (pl_y l * SPM) + y"]
    by (simp add: dy_def q_def orbit_position_def Let_def y_def d_def spi_def)
  moreover have "\<bar>x\<bar> \<le> 204800" "\<bar>y\<bar> \<le> 204800"
    using abs_Cos_le [of d] abs_Sin_le [of d] by (simp_all add: x_def y_def abs_mult)
  ultimately have "\<bar>of_int dx * of_int dx - x * x\<bar> \<le> 409601" "\<bar>of_int dy * of_int dy - y * y\<bar> \<le> 409601"
    using sq_error [of "of_int dx" x 204800] sq_error [of "of_int dy" y 204800] by simp_all
  moreover have "x * x + y * y - 41943040000 = 41943040000 * (Cos d * Cos d + Sin d * Sin d - 1)"
    by (simp add: x_def y_def algebra_simps)
  then have "\<bar>x * x + y * y - 41943040000\<bar> = 41943040000 * \<bar>Cos d * Cos d + Sin d * Sin d - 1\<bar>"
    by (simp only: abs_mult abs_numeral)
  then have "\<bar>x * x + y * y - 41943040000\<bar> \<le> 41943040000 * (19474 / 100000000)"
    using mult_left_mono [OF unit_circle [of d], of 41943040000] by (simp only:)
  ultimately have e: "\<bar>of_int dx * of_int dx + of_int dy * of_int dy - 41943040000\<bar> \<le> (9000000 :: rat)"
    by linarith
  have "of_int (dx * dx + dy * dy) < (of_int (spi 801 * spi 801) :: rat)" "of_int (spi 799 * spi 799) < (of_int (dx * dx + dy * dy) :: rat)"
    using e by (simp_all add: spi_def)
  then have "dx * dx + dy * dy < spi 801 * spi 801" "spi 799 * spi 799 < dx * dx + dy * dy" by (simp_all only: of_int_less_iff)
  then show ?thesis by (simp add: dx_def dy_def q_def orbit_position_def Let_def)
qed

end
