(* ===== verification/Conquer.thy ===== *)
theory Conquer
  imports Galaxy Combat
begin

text \<open>
  \<^verbatim>\<open>ntserv/conquer.c\<close>: the parade after a conquest.  The game is paused while a timer runs from
  100 to 0: the ships decloak, a ring of plasma turns around the planet, the ships take their
  places on a ring; then the parade ends, and at the end of a game every ship explodes and the
  galaxy is laid out anew.  The variables private to the file are in \<open>dmn\<close>.
\<close>

subsection \<open>The parade\<close>

abbreviation (input) CONQUER_TYPE_END :: int where "CONQUER_TYPE_END \<equiv> 0"
abbreviation (input) CONQUER_TYPE_SPECIAL :: int where "CONQUER_TYPE_SPECIAL \<equiv> 1"
abbreviation (input) CONQUER_TYPE_PRET :: int where "CONQUER_TYPE_PRET \<equiv> 2"
abbreviation (input) CONQUER_TIMER_BEGIN :: int where "CONQUER_TIMER_BEGIN \<equiv> 100"
abbreviation (input) CONQUER_TIMER_DECLOAK :: int where "CONQUER_TIMER_DECLOAK \<equiv> 90"
abbreviation (input) CONQUER_TIMER_PARADE :: int where "CONQUER_TIMER_PARADE \<equiv> 40"
abbreviation (input) CONQUER_TIMER_GOODBYE :: int where "CONQUER_TIMER_GOODBYE \<equiv> 10"
abbreviation (input) CONQUER_RING_RADIUS :: int where "CONQUER_RING_RADIUS \<equiv> 5"
abbreviation (input) CONQUER_RING_MOVE_STEPS :: int where "CONQUER_RING_MOVE_STEPS \<equiv> 10"

definition decloak_one :: "nat \<Rightarrow> game \<Rightarrow> game" where
  "decloak_one j g =
     (if p_status (players g j) = PFREE \<or> is_idle j g then g
      else upd_player j (\<lambda>p.
        let p = p\<lparr>p_flags := set_flags PFSEEN (clear_flags PFCLOAK (p_flags p))\<rparr>
        in if conquer_type (dmn g) \<noteq> CONQUER_TYPE_END
           then p\<lparr>p_flags := clear_flags (PFREPAIR OR PFBOMB OR PFORBIT OR PFBEAMUP OR PFBEAMDOWN) (p_flags p)\<rparr>
           else p) g)"

definition conquer_decloak :: "game \<Rightarrow> game" where
  "conquer_decloak g = for_upto MAXPLAYER decloak_one g"

text \<open>The plasma slots follow the torpedo slots.\<close>

definition conquer_deplasma :: "game \<Rightarrow> game" where
  "conquer_deplasma g =
     for_upto (MAXPLASMA * MAXPLAYER) (\<lambda>k. upd_torp (MAXTORP * MAXPLAYER + k) (\<lambda>t. t\<lparr>t_status := TFREE\<rparr>)) g"

definition paraded :: "game \<Rightarrow> nat \<Rightarrow> bool" where
  "paraded g j \<longleftrightarrow> p_status (players g j) \<noteq> PFREE \<and> int (p_no (players g j)) \<noteq> conquer_player (dmn g)"

definition conquer_count_players :: "game \<Rightarrow> nat" where
  "conquer_count_players g = count_upto MAXPLAYER (paraded g)"

text \<open>The place of ship number \<open>h\<close> of \<open>n\<close> on the ring, and its direction.\<close>

definition ring_dir :: "nat \<Rightarrow> nat \<Rightarrow> 8 word" where
  "ring_dir h n = of_nat (h * 256 div (n + 1))"

definition on_circle :: "planet \<Rightarrow> int \<Rightarrow> 8 word \<Rightarrow> int \<times> int" where
  "on_circle l radius d =
     (trunc (of_int (pl_x l) + of_int radius * Cos (d - 64)), trunc (of_int (pl_y l) + of_int radius * Sin (d - 64)))"

definition conquer_ring_coordinates :: "nat \<Rightarrow> nat \<Rightarrow> nat \<Rightarrow> game \<Rightarrow> game \<times> int \<times> int" where
  "conquer_ring_coordinates j h n g =
     (upd_player j (\<lambda>p. p\<lparr>p_dir := ring_dir h n, p_desdir := ring_dir h n\<rparr>) g,
      on_circle (planets g (conquer_planet (dmn g))) (ORBDIST * CONQUER_RING_RADIUS) (ring_dir h n))"

text \<open>Every second plasma slot carries one plasma of the ring, sixteen in all.\<close>

definition ring_plasma :: "nat \<Rightarrow> game \<Rightarrow> torp \<Rightarrow> torp" where
  "ring_plasma pn g t =
     (let timer = conquer_timer (dmn g); full = CONQUER_RING_RADIUS * ORBDIST;
          radius = (CONQUER_TIMER_BEGIN - timer) * CONQUER_RING_RADIUS * ORBDIST sdiv CONQUER_TIMER_BEGIN;
          radius = (if conquer_type (dmn g) = CONQUER_TYPE_END then 2 * full - radius else radius);
          d = of_int (int (pn * 256 div 16) + timer);
          (x, y) = on_circle (planets g (conquer_planet (dmn g))) radius d;
          w = players g (nat (conquer_player (dmn g)))
      in t\<lparr>t_status := TMOVE, t_type := TPLASMA, t_attribute := 0, t_owner := nat (conquer_player (dmn g)),
           t_dir := d, t_x := x, t_y := y, t_x_internal := spi x, t_y_internal := spi y,
           t_turns := 1, t_damage := 1, t_gspeed := 1, t_fuse := 1,
           t_war := p_war w, t_team := p_team w, t_whodet := None\<rparr>)"

definition conquer_plasma_ring :: "game \<Rightarrow> game" where
  "conquer_plasma_ring g =
     for_upto 16 (\<lambda>pn g. upd_torp (MAXTORP * MAXPLAYER + 2 * pn) (ring_plasma pn g) g) g"

definition conquer_plasma_explode :: "game \<Rightarrow> game" where
  "conquer_plasma_explode g =
     for_upto 16 (\<lambda>pn g. upd_torp (MAXTORP * MAXPLAYER + 2 * pn)
       (\<lambda>t. t\<lparr>t_status := TEXPLODE, t_fuse := 10 * (fps (cfg g) sdiv 10)\<rparr>) g) g"

text \<open>One ship moves a tenth of the way, or clicks into its place; the state counts the places.\<close>

definition ring_one :: "nat \<Rightarrow> nat \<Rightarrow> nat \<times> game \<Rightarrow> nat \<times> game" where
  "ring_one n j s =
     (let (k, g) = s in
      if \<not> paraded g j then (k, g)
      else
        let (g, x, y) = conquer_ring_coordinates j k n g; p = players g j; dx = p_x p - x; dy = p_y p - y
        in (k + 1,
            if \<bar>dx\<bar> + \<bar>dy\<bar> < 100 then upd_player j (p_x_y_go x y) g
            else upd_player j (p_x_y_go (p_x p - dx sdiv CONQUER_RING_MOVE_STEPS)
                                        (p_y p - dy sdiv CONQUER_RING_MOVE_STEPS)) g))"

definition conquer_ships_ring :: "game \<Rightarrow> game" where
  "conquer_ships_ring g =
     (let g = conquer_decloak g in snd (for_upto MAXPLAYER (ring_one (conquer_count_players g)) (0, g)))"

definition parade_one :: "nat \<Rightarrow> nat \<Rightarrow> nat \<times> game \<Rightarrow> nat \<times> game" where
  "parade_one n j s =
     (let (k, g) = s in
      if \<not> paraded g j \<or> is_idle j g then (k, g)
      else
        let (g, x, y) = conquer_ring_coordinates j k n g
        in (k + 1, upd_player j (\<lambda>p. (p_x_y_go x y p)\<lparr>p_speed := 0\<rparr>) g))"

definition conquer_parade :: "game \<Rightarrow> game" where
  "conquer_parade g = snd (for_upto MAXPLAYER (parade_one (conquer_count_players g)) (0, g))"

subsection \<open>The end\<close>

definition explode_one :: "nat \<Rightarrow> game \<Rightarrow> game" where
  "explode_one j g =
     (let p = players g j in
      if p_status p = PFREE \<or> has (p_flags p) PFROBOT \<or> (p_authorised p \<and> has (p_flags p) PFOBSERV) then g
      else upd_player j (\<lambda>p. p\<lparr>p_status := PEXPLODE, p_whydead := KWINNER, p_whodead := nat (conquer_player (dmn g)),
             p_explode := (if s_type (p_ship p) = STARBASE then 2 * SBEXPVIEWS else 10),
             p_ntorp := 0, p_nplasmatorp := 0\<rparr>) g)"

definition conquer_ships_explode :: "game \<Rightarrow> game" where
  "conquer_ships_explode g = for_upto MAXPLAYER explode_one g"

definition conquer_galaxy_reset :: "game \<Rightarrow> game" where
  "conquer_galaxy_reset g =
     for_upto (MAXTEAM + 1) (\<lambda>i. upd_team i (\<lambda>t. t\<lparr>te_turns := 0, te_surrender := 0\<rparr>)) (pl_reset g)"

definition conquer_end :: "game \<Rightarrow> game" where
  "conquer_end g = conquer_galaxy_reset (conquer_ships_explode g)"

definition p_x_y_go_home :: "nat \<Rightarrow> game \<Rightarrow> game" where
  "p_x_y_go_home j g =
     (let (g, x, y) = pl_pick_home_offset (p_team (players g j)) g in upd_player j (p_x_y_go x y) g)"

definition conquer_go_home :: "game \<Rightarrow> game" where
  "conquer_go_home g =
     for_upto MAXPLAYER (\<lambda>j g. if p_status (players g j) = PFREE then g else p_x_y_go_home j g) g"

definition set_gameup :: "(int \<Rightarrow> int) \<Rightarrow> game \<Rightarrow> game" where
  "set_gameup f g = g\<lparr>status := (status g)\<lparr>gameup := f (gameup (status g))\<rparr>\<rparr>"

definition conquer_tick :: "game \<Rightarrow> game" where
  "conquer_tick g = g\<lparr>dmn := (dmn g)\<lparr>conquer_timer := conquer_timer (dmn g) - 1\<rparr>\<rparr>"

text \<open>The animation of a tick, by the value of the timer.\<close>

definition conquer_animate :: "game \<Rightarrow> game" where
  "conquer_animate g =
     (let timer = conquer_timer (dmn g); special = (conquer_type (dmn g) = CONQUER_TYPE_SPECIAL);
          g = (if timer = CONQUER_TIMER_DECLOAK
               then let g = conquer_decloak g in if special then g else conquer_deplasma g else g);
          g = (if timer < CONQUER_TIMER_DECLOAK
               then conquer_ships_ring (if special then g else conquer_plasma_ring g) else g);
          g = (if timer = CONQUER_TIMER_PARADE then conquer_parade g else g)
      in if timer = CONQUER_TIMER_GOODBYE \<and> conquer_type (dmn g) = CONQUER_TYPE_END
         then emit (Pmessage 0 ''MALL'' ''Goodbye.'') g else g)"

definition conquer_finish :: "game \<Rightarrow> game" where
  "conquer_finish g =
     (let g = set_gameup (\<lambda>u. u AND NOT (GU_PAUSED OR GU_CONQUER)) g in
      if conquer_type (dmn g) = CONQUER_TYPE_END then conquer_end (conquer_plasma_explode g)
      else if conquer_type (dmn g) = CONQUER_TYPE_SPECIAL then conquer_go_home g
      else if conquer_type (dmn g) = CONQUER_TYPE_PRET then conquer_go_home (conquer_plasma_explode g)
      else g)"

definition conquer_update :: "game \<Rightarrow> game" where
  "conquer_update g =
     (let g = conquer_animate (conquer_tick g)
      in if conquer_timer (dmn g) > 0 then g else conquer_finish g)"

subsection \<open>The beginning\<close>

definition start_parade :: "int \<Rightarrow> nat \<Rightarrow> int \<Rightarrow> game \<Rightarrow> game" where
  "start_parade who planet type g =
     (set_gameup (\<lambda>u. u OR (GU_CONQUER OR GU_PAUSED)) g)
       \<lparr>dmn := (dmn g)\<lparr>conquer_player := who, conquer_planet := planet,
          conquer_timer := CONQUER_TIMER_BEGIN, conquer_type := type\<rparr>\<rparr>"

definition conquer_begin_by_type :: "nat \<Rightarrow> int \<Rightarrow> game \<Rightarrow> game" where
  "conquer_begin_by_type w type g = start_parade (int (p_no (players g w))) (p_planet (players g w)) type g"

definition conquer_begin :: "nat \<Rightarrow> game \<Rightarrow> game" where
  "conquer_begin w = conquer_begin_by_type w CONQUER_TYPE_END"

definition conquer_begin_pret :: "nat \<Rightarrow> game \<Rightarrow> game" where
  "conquer_begin_pret w = conquer_begin_by_type w CONQUER_TYPE_PRET"

definition conquer_begin_special :: "game \<Rightarrow> game" where
  "conquer_begin_special = start_parade (-1) 0 CONQUER_TYPE_SPECIAL"


section \<open>Properties\<close>

subsection \<open>Frames\<close>

text \<open>Laying out a galaxy changes planets and takes random numbers.\<close>

definition aboard :: "game \<Rightarrow> (nat \<Rightarrow> player) \<times> status \<times> daemon_vars \<times> (nat \<Rightarrow> team) \<times> sysdef \<times> contxt" where
  "aboard g = (players g, status g, dmn g, teams g, cfg g, ctxt g)"

lemma aboard_basic [simp]:
  "aboard (upd_planet l f g) = aboard g" "aboard (rand_next g) = aboard g"
  by (simp_all add: aboard_def)

lemma aboard_fuel_search: "aboard (fst (fuel_search s sides spot g)) = aboard g"
  by (induction s sides spot g rule: fuel_search.induct) (simp add: fuel_search.simps Let_def)

lemma aboard_lay [simp]:
  "aboard (flag_planet m l g) = aboard g" "aboard (flag_one m sides spot g) = aboard g"
  "aboard (fuel_one sides spot g) = aboard g" "aboard (fuel_two sides spot g) = aboard g"
  "aboard (lay_front i g) = aboard g" "aboard (lay_empire i g) = aboard g"
proof -
  show p: "aboard (flag_planet m l g) = aboard g" for m l g by (simp add: flag_planet_def)
  show o: "aboard (flag_one m sides spot g) = aboard g" for m sides spot g by (simp add: flag_one_def p)
  show f: "aboard (fuel_one sides spot g) = aboard g" for sides spot g
    using aboard_fuel_search [of 0 sides spot g] by (auto simp: fuel_one_def p split: prod.split)
  show t: "aboard (fuel_two sides spot g) = aboard g" for sides spot g by (simp add: fuel_two_def f)
  show l: "aboard (lay_front i g) = aboard g" for i g by (simp add: lay_front_def Let_def o t)
  show "aboard (lay_empire i g) = aboard g" by (simp add: lay_empire_def Let_def o t l)
qed

lemma aboard_pl_reset [simp]: "aboard (pl_reset g) = aboard g"
proof -
  have p: "aboard (for_upto n (\<lambda>i. upd_planet i (f i)) h) = aboard h" for n f h
    by (rule for_upto_same) simp
  have e: "aboard (for_upto n lay_empire h) = aboard h" for n h by (rule for_upto_same) simp
  show ?thesis by (simp add: pl_reset_def pl_virgin_def Let_def p e)
qed

lemma aboard_pick_home: "aboard (fst (pick_home_loop n tno g)) = aboard g"
  by (induction n arbitrary: g) (simp_all add: Let_def)

lemma aboard_pick_home_offset: "pl_pick_home_offset t g = (h, x, y) \<Longrightarrow> aboard h = aboard g"
  using aboard_pick_home [of "nat GWIDTH" "team_no t" g]
  by (auto simp: pl_pick_home_offset_def pl_pick_home_def Let_def split: prod.splits)

text \<open>The animation moves ships and plasma; the clock of the parade, the game flags and the settings stay.\<close>

definition clock :: "game \<Rightarrow> int \<times> daemon_vars \<times> sysdef \<times> contxt" where
  "clock g = (gameup (status g), dmn g, cfg g, ctxt g)"

lemma clock_basic [simp]:
  "clock (upd_player i p g) = clock g" "clock (upd_torp i t g) = clock g" "clock (upd_team i u g) = clock g"
  "clock (emit e g) = clock g"
  by (simp_all add: clock_def)

lemma clock_of_aboard: "aboard h = aboard g \<Longrightarrow> clock h = clock g"
  by (simp add: aboard_def clock_def)

lemma clock_ring_coordinates: "conquer_ring_coordinates j k n g = (h, xy) \<Longrightarrow> clock h = clock g"
  by (auto simp: conquer_ring_coordinates_def)

lemma clock_loop: "(\<And>i s. clock (snd (f i s)) = clock (snd s)) \<Longrightarrow> clock (snd (for_upto n f s)) = clock (snd s)"
  by (rule for_upto_same) simp

lemma clock_stage [simp]:
  "clock (conquer_decloak g) = clock g" "clock (conquer_deplasma g) = clock g" "clock (conquer_plasma_ring g) = clock g"
  "clock (conquer_ships_ring g) = clock g" "clock (conquer_parade g) = clock g" "clock (conquer_plasma_explode g) = clock g"
  "clock (conquer_ships_explode g) = clock g"
proof -
  show d: "clock (conquer_decloak g) = clock g"
    unfolding conquer_decloak_def by (rule for_upto_same) (simp add: decloak_one_def)
  show "clock (conquer_deplasma g) = clock g" unfolding conquer_deplasma_def by (rule for_upto_same) simp
  show "clock (conquer_plasma_ring g) = clock g" unfolding conquer_plasma_ring_def by (rule for_upto_same) simp
  show "clock (conquer_plasma_explode g) = clock g" unfolding conquer_plasma_explode_def by (rule for_upto_same) simp
  show "clock (conquer_ships_explode g) = clock g"
    unfolding conquer_ships_explode_def by (rule for_upto_same) (simp add: explode_one_def Let_def)
  have "clock (snd (ring_one n j s)) = clock (snd s)" for n j s
    by (auto simp: ring_one_def Let_def split: prod.split dest: clock_ring_coordinates)
  then show "clock (conquer_ships_ring g) = clock g"
    using clock_loop [of "ring_one _" MAXPLAYER "(0, conquer_decloak g)"] by (simp add: conquer_ships_ring_def Let_def d)
  have "clock (snd (parade_one n j s)) = clock (snd s)" for n j s
    by (auto simp: parade_one_def Let_def split: prod.split dest: clock_ring_coordinates)
  then show "clock (conquer_parade g) = clock g"
    using clock_loop [of "parade_one _" MAXPLAYER "(0, g)"] by (simp add: conquer_parade_def)
qed

lemma clock_animate [simp]: "clock (conquer_animate g) = clock g"
  by (simp add: conquer_animate_def Let_def)

lemma clock_go_home [simp]: "clock (conquer_go_home g) = clock g"
proof -
  have "clock (p_x_y_go_home j h) = clock h" for j h
    by (auto simp: p_x_y_go_home_def split: prod.split dest!: aboard_pick_home_offset clock_of_aboard)
  then show ?thesis unfolding conquer_go_home_def by (intro for_upto_same) simp
qed

lemma clock_end [simp]: "clock (conquer_end g) = clock g"
proof -
  have "clock (conquer_galaxy_reset h) = clock h" for h
    unfolding conquer_galaxy_reset_def
    using for_upto_same [of _ clock "\<lambda>i. upd_team i (\<lambda>t. t\<lparr>te_turns := 0, te_surrender := 0\<rparr>)" "pl_reset h"]
      clock_of_aboard [OF aboard_pl_reset [of h]] by simp
  then show ?thesis by (simp add: conquer_end_def)
qed


subsection \<open>The parade ends\<close>

lemma gu_set:
  "u AND k \<noteq> 0 \<Longrightarrow> (f OR u) AND k \<noteq> (0 :: int)"
  by (metis and_zero_eq bit.conj_disj_distrib2 or_eq_0_iff)

lemma conquer_tick_simps [simp]:
  "conquer_timer (dmn (conquer_tick g)) = conquer_timer (dmn g) - 1" "conquer_type (dmn (conquer_tick g)) = conquer_type (dmn g)"
  "gameup (status (conquer_tick g)) = gameup (status g)"
  by (simp_all add: conquer_tick_def)

lemma clockD:
  assumes "clock h = clock g"
  shows "gameup (status h) = gameup (status g)" "dmn h = dmn g" "cfg h = cfg g" "ctxt h = ctxt g"
  using assms by (simp_all add: clock_def)

lemma conquer_update_running:
  assumes "conquer_timer (dmn g) > 1"
  shows "gameup (status (conquer_update g)) = gameup (status g)" "dmn (conquer_update g) = (dmn g)\<lparr>conquer_timer := conquer_timer (dmn g) - 1\<rparr>"
proof -
  have c: "clock (conquer_animate (conquer_tick g)) = clock (conquer_tick g)" by simp
  have "conquer_update g = conquer_animate (conquer_tick g)"
    using assms clockD [OF c] by (simp add: conquer_update_def Let_def)
  with clockD [OF c] show "gameup (status (conquer_update g)) = gameup (status g)"
    "dmn (conquer_update g) = (dmn g)\<lparr>conquer_timer := conquer_timer (dmn g) - 1\<rparr>"
    by (simp_all add: conquer_tick_def)
qed

lemma conquer_update_settings: "cfg (conquer_update g) = cfg g" "ctxt (conquer_update g) = ctxt g"
proof -
  have "clock (conquer_finish h) = clock (set_gameup (\<lambda>u. u AND NOT (GU_PAUSED OR GU_CONQUER)) h)" for h
    by (simp add: conquer_finish_def Let_def)
  then have f: "cfg (conquer_finish h) = cfg h" "ctxt (conquer_finish h) = ctxt h" for h
    by (simp_all add: clock_def set_gameup_def)
  have c: "clock (conquer_animate (conquer_tick g)) = clock (conquer_tick g)" by simp
  show "cfg (conquer_update g) = cfg g" "ctxt (conquer_update g) = ctxt g"
    using clockD(3,4) [OF c] by (simp_all add: conquer_update_def Let_def f conquer_tick_def)
qed

lemma conquer_finish_gameup: "gameup (status (conquer_finish g)) = gameup (status g) AND NOT (GU_PAUSED OR GU_CONQUER)"
proof -
  have "clock (conquer_finish g) = clock (set_gameup (\<lambda>u. u AND NOT (GU_PAUSED OR GU_CONQUER)) g)"
    by (simp add: conquer_finish_def Let_def)
  then show ?thesis by (simp add: clock_def set_gameup_def)
qed

lemma conquer_update_last:
  assumes "conquer_timer (dmn g) = 1"
  shows "gameup (status (conquer_update g)) = gameup (status g) AND NOT (GU_PAUSED OR GU_CONQUER)"
proof -
  have c: "clock (conquer_animate (conquer_tick g)) = clock (conquer_tick g)" by simp
  show ?thesis using assms clockD [OF c] by (simp add: conquer_update_def Let_def conquer_finish_gameup)
qed

text \<open>
  A parade ends.  From its start the game stays paused for ninety-nine ticks; the hundredth
  ends the pause and the conquest, whichever of the three kinds of parade it was.
\<close>

theorem parade_ends:
  defines "run \<equiv> \<lambda>n who l kind g. (conquer_update ^^ n) (start_parade who l kind g)"
  fixes g :: game and l n :: nat and who kind :: int
  assumes "n < 100"
  shows "gu GU_PAUSED (run n who l kind g) \<and> gu GU_CONQUER (run n who l kind g) \<and>
         conquer_timer (dmn (run n who l kind g)) = 100 - int n \<and>
         \<not> gu GU_PAUSED (run 100 who l kind g) \<and> \<not> gu GU_CONQUER (run 100 who l kind g)"
proof -
  define h where "h n = run n who l kind g" for n
  have up: "gameup (status (h n)) = gameup (status (h 0)) \<and> conquer_timer (dmn (h n)) = 100 - int n" if "n < 100" for n
    using that
  proof (induction n)
    case 0
    then show ?case by (simp add: h_def run_def start_parade_def)
  next
    case (Suc n)
    then show ?case using conquer_update_running [of "h n"] by (simp add: h_def run_def)
  qed
  have start: "gameup (status (h 0)) = gameup (status g) OR (GU_CONQUER OR GU_PAUSED)"
    by (simp add: h_def run_def start_parade_def set_gameup_def)
  have "gu GU_PAUSED (h n)" "gu GU_CONQUER (h n)"
    using up [OF assms(2)] gu_set [of "GU_CONQUER OR GU_PAUSED" GU_PAUSED "gameup (status g)"]
      gu_set [of "GU_CONQUER OR GU_PAUSED" GU_CONQUER "gameup (status g)"] by (simp_all add: meets_def start)
  moreover have "h 100 = conquer_update (h 99)"
    using funpow.simps(2) [of 99 conquer_update] by (simp add: h_def run_def)
  then have "gameup (status (h 100)) = gameup (status (h 99)) AND NOT (GU_PAUSED OR GU_CONQUER)"
    using conquer_update_last [of "h 99"] up [of 99] by simp
  then have "\<not> gu GU_PAUSED (h 100)" "\<not> gu GU_CONQUER (h 100)"
    by (simp_all add: meets_def and.assoc)
  ultimately show ?thesis using up [OF assms(2)] by (simp add: h_def)
qed

lemma parade_ends_witness:
  "gu GU_PAUSED ((conquer_update ^^ 99) (conquer_begin 3 blank_game)) \<and>
   \<not> gu GU_PAUSED ((conquer_update ^^ 100) (conquer_begin 3 blank_game))"
  using parade_ends [of 99 "int (p_no (players blank_game 3))" "p_planet (players blank_game 3)" CONQUER_TYPE_END blank_game]
  unfolding conquer_begin_def conquer_begin_by_type_def by simp

end
