(* ===== verification/Upkeep.thy ===== *)
theory Upkeep
  imports Motion Slots
begin

text \<open>
  The update of the players in \<^verbatim>\<open>ntserv/daemon.c\<close>, ten times a second: who is seen, the life
  cycle of a slot (\<^verbatim>\<open>POUTFIT\<close>, \<^verbatim>\<open>PALIVE\<close>, \<^verbatim>\<open>PEXPLODE\<close>, \<^verbatim>\<open>PDEAD\<close>, \<^verbatim>\<open>POBSERV\<close>, \<^verbatim>\<open>PFREE\<close>) with the
  ghostbuster that ends the slots of lost clients, the upkeep of a living ship (fuel, heat,
  repair, alert, self destruction), and \<^verbatim>\<open>udplayers\<close>, which runs all of it; during a pause
  \<^verbatim>\<open>udplayers_pause\<close> takes its place.
\<close>

subsection \<open>Sight\<close>

definition sight_range :: "player \<Rightarrow> int" where
  "sight_range p = (if has (p_flags p) PFCLOAK then GWIDTH div 7 else GWIDTH div 3)"

text \<open>Squares of distances, in 32 bits; \<^verbatim>\<open>max_dist_sq\<close> is unsigned, so the comparison is unsigned.\<close>

definition dist_sq32 :: "player \<Rightarrow> player \<Rightarrow> 32 word" where
  "dist_sq32 k p = of_int ((p_x k - p_x p) * (p_x k - p_x p) + (p_y k - p_y p) * (p_y k - p_y p))"

definition still_seen :: "nat \<Rightarrow> game \<Rightarrow> bool" where
  "still_seen j g \<longleftrightarrow>
     (let p = players g j in
      case p_lastseenby p of None \<Rightarrow> False
      | Some k \<Rightarrow> p_status (players g k) = PALIVE \<and>
          dist_sq32 (players g k) p < of_int (sight_range p * sight_range p))"

definition sees :: "nat \<Rightarrow> nat \<Rightarrow> game \<Rightarrow> bool" where
  "sees k j g \<longleftrightarrow>
     (let p = players g j; q = players g k; dx = p_x q - p_x p; dy = p_y q - p_y p in
      p_status q = PALIVE \<and> \<not> has (p_flags q) PFROBOT \<and> p_team q \<noteq> p_team p \<and>
      \<not> (dx > sight_range p \<or> dx < - sight_range p) \<and> \<not> (dy > sight_range p \<or> dy < - sight_range p) \<and>
      dist_sq32 q p \<le> of_int (sight_range p * sight_range p))"

definition sight_one :: "nat \<Rightarrow> game \<Rightarrow> game" where
  "sight_one j g =
     (let p = players g j in
      if p_status p \<noteq> PALIVE \<or> (has (p_flags p) PFORBIT \<and> pl_owner (planets g (p_planet p)) \<noteq> p_team p)
      then upd_player j (\<lambda>p. p\<lparr>p_flags := set_flags PFSEEN (p_flags p)\<rparr>) g
      else if still_seen j g then g
      else case first_in 0 MAXPLAYER (\<lambda>k. sees k j g) of
          None \<Rightarrow> upd_player j (\<lambda>p. p\<lparr>p_flags := clear_flags PFSEEN (p_flags p), p_lastseenby := None\<rparr>) g
        | Some k \<Rightarrow> upd_player j (\<lambda>p. p\<lparr>p_flags := set_flags PFSEEN (clear_flags PFSEEN (p_flags p)),
                        p_lastseenby := Some (p_no (players g k))\<rparr>) g)"

definition udplayersight :: "game \<Rightarrow> game" where
  "udplayersight g = for_upto MAXPLAYER sight_one g"

subsection \<open>Explosion, death, outfitting\<close>

definition GHOSTTIME :: "game \<Rightarrow> int" where
  "GHOSTTIME g = ghostbust_timer (cfg g) * 1000000 sdiv UPDATE"

definition KGHOSTTIME :: "game \<Rightarrow> int" where
  "KGHOSTTIME g = (ghostbust_timer (cfg g) + 2) * 1000000 sdiv UPDATE"

definition OUTFITTIME :: int where
  "OUTFITTIME = 3 * AUTOQUIT * 1000000 div UPDATE"

text \<open>The base is lost for a time if it was killed in a tournament.\<close>

definition lost_base :: "nat \<Rightarrow> game \<Rightarrow> game" where
  "lost_base j g =
     (let p = players g j in
      if p_whydead p \<in> {KSHIP, KTORP, KPHASER, KPLASMA, KPLANET, KGENOCIDE} \<and> tourn g then
        let g = upd_team (nat (p_team p)) (\<lambda>t. t\<lparr>te_turns := starbase_rebuild_time (cfg g)\<rparr>) g
        in if p_status p = PDEAD then emit (Blog ''base-loss'') g else g
      else g)"

definition udplayers_pexplode_bays :: "nat \<Rightarrow> game \<Rightarrow> game" where
  "udplayers_pexplode_bays j g =
     (let g = bay_release j g in
      if s_type (p_ship (players g j)) = STARBASE then lost_base j (bay_release_all j g) else g)"

definition udplayerspause_pexplode :: "nat \<Rightarrow> game \<Rightarrow> game" where
  "udplayerspause_pexplode j g =
     (if p_whydead (players g j) = TOURNSTART
      then udplayers_pexplode_bays j
             (upd_player j (\<lambda>p. p\<lparr>p_flags := clear_flags (PFCLOAK OR PFORBIT) (p_flags p), p_status := PDEAD\<rparr>) g)
      else g)"

definition udplayers_pdead :: "nat \<Rightarrow> game \<Rightarrow> game" where
  "udplayers_pdead j g =
     (let g = upd_player j (\<lambda>p. p\<lparr>p_explode := p_explode p - 1\<rparr>) g in
      if p_explode (players g j) \<le> 0 \<or> gu GU_PAUSED g
      then upd_player j (\<lambda>p. p\<lparr>p_status := POUTFIT\<rparr>) (saveplayer j g) else g)"

definition outfit_delay :: "whydead \<Rightarrow> game \<Rightarrow> int" where
  "outfit_delay why g =
     (case why of KLOGIN \<Rightarrow> logintime (cfg g) * 1000000 sdiv UPDATE
      | KQUIT \<Rightarrow> GHOSTTIME g | KBADBIN \<Rightarrow> GHOSTTIME g | KGHOST \<Rightarrow> KGHOSTTIME g | _ \<Rightarrow> OUTFITTIME)"

definition count_ghost :: "nat \<Rightarrow> game \<Rightarrow> game" where
  "count_ghost j = upd_player j (\<lambda>p. p\<lparr>p_ghostbuster := p_ghostbuster p + 1\<rparr>)"

definition udplayers_poutfit :: "nat \<Rightarrow> game \<Rightarrow> game" where
  "udplayers_poutfit j g =
     (let g = count_ghost j g; why = p_whydead (players g j) in
      if p_ghostbuster (players g j) > outfit_delay why g then
        let g = ghostmess j (if why = KGHOST then ''no ping alive'' else ''outfit timeout'') g;
            g = saveplayer j g
        in if p_process (players g j) > 1 then emit (Sigterm (p_process (players g j))) g
           else fst (freeslot (Some j) g)
      else g)"

definition ghost_dead :: "nat \<Rightarrow> player \<Rightarrow> player" where
  "ghost_dead who p = p\<lparr>p_status := PDEAD, p_whydead := KGHOST, p_whodead := who\<rparr>"

definition udplayers_pobserv :: "nat \<Rightarrow> game \<Rightarrow> game" where
  "udplayers_pobserv j g =
     (let g = count_ghost j g in
      if p_ghostbuster (players g j) > GHOSTTIME g
      then upd_player j (\<lambda>p. ghost_dead (p_no p) p) (saveplayer j (ghostmess j ''no ping observ'' g)) else g)"

text \<open>Torpedoes that outlive their ship by more than five seconds are cut short.\<close>

definition trim_torp :: "nat \<Rightarrow> game \<Rightarrow> game" where
  "trim_torp i g =
     (if t_status (torps g i) = TMOVE \<and> t_fuse (torps g i) > 5 * fps (cfg g)
      then upd_torp i (\<lambda>t. t\<lparr>t_fuse := 5 * fps (cfg g)\<rparr>) g else g)"

definition trim_torps :: "nat \<Rightarrow> game \<Rightarrow> game" where
  "trim_torps j g =
     (let g = for_upto MAXTORP (\<lambda>k g. trim_torp (first_torp (players g j) + k) g) g
      in for_upto MAXPLASMA (\<lambda>k g. trim_torp (first_plasma (players g j) + k) g) g)"

definition blows_up :: "player \<Rightarrow> bool" where
  "blows_up p \<longleftrightarrow> (s_type (p_ship p) = STARBASE \<and> p_explode p = 2 * SBEXPVIEWS - 3) \<or> p_explode p = 10 - 3"

definition udplayers_pexplode :: "nat \<Rightarrow> game \<Rightarrow> game" where
  "udplayers_pexplode j g =
     (let g = upd_player j (\<lambda>p. p\<lparr>p_updates := p_updates p + 1, p_flags := clear_flags PFCLOAK (p_flags p)\<rparr>) g;
          g = (if blows_up (players g j) then blowup j g else g);
          g = upd_player j (\<lambda>p. p\<lparr>p_explode := p_explode p - 1\<rparr>) g;
          g = (if p_explode (players g j) \<le> 0
               then upd_player j (\<lambda>p. p\<lparr>p_status := PDEAD, p_explode := 600\<rparr>) g else g);
          g = udplayers_pexplode_bays j g;
          g = upd_player j (\<lambda>p. p\<lparr>p_flags := clear_flags PFORBIT (p_flags p)\<rparr>) g
      in trim_torps j g)"

subsection \<open>The upkeep of a living ship\<close>

definition udplayers_palive_update_stats :: "nat \<Rightarrow> game \<Rightarrow> game" where
  "udplayers_palive_update_stats j g =
     (if tourn g then
        let g = ltd_update_ticks j g
        in if s_type (p_ship (players g j)) \<noteq> STARBASE
           then g\<lparr>status := (status g)\<lparr>st_timeprod := st_timeprod (status g) + 1\<rparr>\<rparr> else g
      else g)"

definition udplayers_palive_check_ghostbuster :: "nat \<Rightarrow> game \<Rightarrow> game" where
  "udplayers_palive_check_ghostbuster j g =
     (let g = count_ghost j g in
      if p_ghostbuster (players g j) > GHOSTTIME g
      then upd_player j (\<lambda>p. p_explosion KGHOST (p_no p) p) g else g)"

definition udplayers_palive_fuel_shields :: "player \<Rightarrow> player" where
  "udplayers_palive_fuel_shields p =
     (if \<not> has (p_flags p) PFSHIELD then p
      else
        let t = s_type (p_ship p);
            cost = (if t = SCOUT then 2
                    else if t = DESTROYER \<or> t = CRUISER \<or> t = BATTLESHIP \<or> t = ASSAULT then 3
                    else if t = STARBASE then 6 else 0)
        in p\<lparr>p_fuel := p_fuel p - cost\<rparr>)"

definition cool_weapons :: "player \<Rightarrow> player" where
  "cool_weapons p =
     (let w = p_wtemp p - s_wpncoolrate (p_ship p) in p\<lparr>p_wtemp := (if w < 0 then 0 else w)\<rparr>)"

definition weapons_timer :: "player \<Rightarrow> player" where
  "weapons_timer p =
     (let p = p\<lparr>p_wtime := p_wtime p - 1\<rparr> in
      if p_wtime p \<le> 0 then p\<lparr>p_flags := clear_flags PFWEP (p_flags p)\<rparr> else p)"

text \<open>One chance in forty of a failure in every tick of overheating.\<close>

definition udplayers_palive_cool_weapons :: "nat \<Rightarrow> game \<Rightarrow> game" where
  "udplayers_palive_cool_weapons j g =
     (let g = upd_player j cool_weapons g; p = players g j in
      if has (p_flags p) PFWEP then upd_player j weapons_timer g
      else if p_wtemp p > s_maxwpntemp (p_ship p) then
        let r = rand_val g; g = rand_next g in
        if r mod 40 \<noteq> 0 then g
        else rand_next (upd_player j
          (\<lambda>p. p\<lparr>p_flags := set_flags PFWEP (p_flags p), p_wtime := rand_val g mod 150 + 100\<rparr>) g)
      else g)"

definition cool_engines :: "player \<Rightarrow> player" where
  "cool_engines p =
     (let e = p_etemp p - s_egncoolrate (p_ship p) in p\<lparr>p_etemp := (if e < 0 then 0 else e)\<rparr>)"

definition engines_timer :: "player \<Rightarrow> player" where
  "engines_timer p =
     (let p = p\<lparr>p_etime := p_etime p - 1\<rparr> in
      if p_etime p \<le> 0 then p\<lparr>p_flags := clear_flags PFENG (p_flags p)\<rparr> else p)"

definition udplayers_palive_cool_engines :: "nat \<Rightarrow> game \<Rightarrow> game" where
  "udplayers_palive_cool_engines j g =
     (let g = upd_player j cool_engines g; p = players g j in
      if has (p_flags p) PFENG then upd_player j engines_timer g
      else if p_etemp p > s_maxegntemp (p_ship p) then
        let r = rand_val g; g = rand_next g in
        if r mod 40 \<noteq> 0 then g
        else rand_next (upd_player j
          (\<lambda>p. p\<lparr>p_flags := set_flags PFENG (p_flags p), p_etime := rand_val g mod 150 + 100, p_desspeed := 0\<rparr>) g)
      else g)"

definition udplayers_palive_fuel_cloak :: "player \<Rightarrow> player" where
  "udplayers_palive_fuel_cloak p =
     (if \<not> has (p_flags p) PFCLOAK then p
      else if p_fuel p < s_cloakcost (p_ship p) then p\<lparr>p_flags := clear_flags PFCLOAK (p_flags p)\<rparr>
      else p\<lparr>p_fuel := p_fuel p - s_cloakcost (p_ship p)\<rparr>)"

text \<open>At a friendly planet of a kind, in orbit.\<close>

definition at_planet :: "int \<Rightarrow> nat \<Rightarrow> game \<Rightarrow> bool" where
  "at_planet kind j g \<longleftrightarrow>
     (let p = players g j; l = planets g (p_planet p) in
      has (p_flags p) PFORBIT \<and> meets (pl_flags l) kind \<and> \<not> meets (pl_owner l) (p_war p))"

definition limit_fuel :: "player \<Rightarrow> player" where
  "limit_fuel p =
     (let p = (if p_fuel p > s_maxfuel (p_ship p) then p\<lparr>p_fuel := s_maxfuel (p_ship p)\<rparr> else p)
      in if p_fuel p < 0 then p\<lparr>p_desspeed := 0, p_flags := clear_flags PFCLOAK (p_flags p)\<rparr> else p)"

definition udplayers_palive_make_fuel :: "nat \<Rightarrow> game \<Rightarrow> game" where
  "udplayers_palive_make_fuel j g =
     (let g = upd_player j (\<lambda>p. p\<lparr>p_fuel := p_fuel p + 2 * s_recharge (p_ship p)\<rparr>) g;
          p = players g j; s = p_ship p;
          g = (if at_planet PLFUEL j g then upd_player j (\<lambda>p. p\<lparr>p_fuel := p_fuel p + 6 * s_recharge s\<rparr>) g
               else if has (p_flags p) PFDOCK \<and> p_fuel p < s_maxfuel s \<and> p_fuel (players g (p_dock_with p)) > SBFUELMIN
               then
                 let fc = min (10 * s_recharge s) (s_maxfuel s - p_fuel p) in
                 upd_player (p_dock_with p) (\<lambda>b. b\<lparr>p_fuel := p_fuel b - fc\<rparr>)
                   (upd_player j (\<lambda>p. p\<lparr>p_fuel := p_fuel p + fc\<rparr>) g)
               else g)
      in upd_player j limit_fuel g)"

text \<open>Repair: the work of a tick, doubled at a repair planet, tripled and more in dock.\<close>

definition repairing :: "player \<Rightarrow> bool" where
  "repairing p \<longleftrightarrow> has (p_flags p) PFREPAIR \<and> p_speed p = 0"

definition shield_work :: "nat \<Rightarrow> game \<Rightarrow> int" where
  "shield_work j g =
     (let p = players g j; r = s_repair (p_ship p) in
      if repairing p
      then r * 4 + (if at_planet PLREPAIR j g then r * 4 else 0) + (if has (p_flags p) PFDOCK then r * 6 else 0)
      else r * 2)"

definition hull_work :: "nat \<Rightarrow> game \<Rightarrow> int" where
  "hull_work j g =
     (let p = players g j; r = s_repair (p_ship p) in
      if repairing p
      then r * 2 + (if at_planet PLREPAIR j g then r * 2 else 0) + (if has (p_flags p) PFDOCK then r * 3 else 0)
      else r)"

definition mend_shield :: "player \<Rightarrow> player" where
  "mend_shield p =
     (let p = (if p_subshield p sdiv 1000 \<noteq> 0
               then p\<lparr>p_shield := p_shield p + p_subshield p sdiv 1000, p_subshield := p_subshield p smod 1000\<rparr> else p)
      in if p_shield p > s_maxshield (p_ship p) then p\<lparr>p_shield := s_maxshield (p_ship p), p_subshield := 0\<rparr> else p)"

definition mend_hull :: "player \<Rightarrow> player" where
  "mend_hull p =
     (let p = (if p_subdamage p sdiv 1000 \<noteq> 0
               then p\<lparr>p_damage := p_damage p - p_subdamage p sdiv 1000, p_subdamage := p_subdamage p smod 1000\<rparr> else p)
      in if p_damage p < 0 then p\<lparr>p_damage := 0, p_subdamage := 0\<rparr> else p)"

definition count_repair :: "nat \<Rightarrow> int \<Rightarrow> game \<Rightarrow> game" where
  "count_repair j n g = (if n \<noteq> 0 then ltd_update_repaired j n g else g)"

text \<open>The first half returns the time the shields need, which the second one uses.\<close>

definition repair_shields :: "nat \<Rightarrow> game \<Rightarrow> game \<times> int" where
  "repair_shields j g =
     (let p = players g j; work = shield_work j g in
      if p_shield p < s_maxshield (p_ship p) then
        let time = (s_maxshield (p_ship p) - p_shield p) * 100 sdiv work;
            g = upd_player j (\<lambda>p. p\<lparr>p_subshield := p_subshield p + work, p_repair_time := time\<rparr>) g;
            g = count_repair j (p_subshield (players g j) sdiv 1000) g
        in (upd_player j mend_shield g, time)
      else (g, 0))"

definition repair_hull :: "nat \<Rightarrow> int \<Rightarrow> game \<Rightarrow> game" where
  "repair_hull j repair_time g =
     (let p = players g j; work = hull_work j g in
      if p_damage p \<noteq> 0 \<and> \<not> has (p_flags p) PFSHIELD then
        let time = p_damage p * 100 sdiv work;
            time = (if p_shield p \<noteq> s_maxshield (p_ship p) then max repair_time time else time);
            g = upd_player j (\<lambda>p. p\<lparr>p_subdamage := p_subdamage p + work, p_repair_time := time\<rparr>) g;
            g = count_repair j (p_subdamage (players g j) sdiv 1000) g
        in upd_player j mend_hull g
      else g)"

definition udplayers_palive_repair :: "nat \<Rightarrow> game \<Rightarrow> game" where
  "udplayers_palive_repair j g = (let (g, time) = repair_shields j g in repair_hull j time g)"

definition YRANGE :: int where "YRANGE = GWIDTH div 7"

definition RRANGE :: int where "RRANGE = GWIDTH div 10"

definition alert_by :: "nat \<Rightarrow> nat \<Rightarrow> game \<Rightarrow> game" where
  "alert_by j k g =
     (let p = players g j; q = players g k; dx = p_x p - p_x q; dy = p_y p - p_y q; dist = dx * dx + dy * dy in
      if p_status q \<noteq> PALIVE \<or> (\<not> meets (p_war p) (p_team q) \<and> \<not> meets (p_war q) (p_team p)) \<or> is_idle k g \<or> j = k
      then g
      else if \<bar>dx\<bar> > YRANGE \<or> \<bar>dy\<bar> > YRANGE then g
      else if dist < RRANGE * RRANGE
      then upd_player j (\<lambda>p. p\<lparr>p_flags := clear_flags (PFGREEN OR PFYELLOW) (set_flags PFRED (p_flags p))\<rparr>) g
      else if dist < YRANGE * YRANGE \<and> \<not> has (p_flags p) PFRED
      then upd_player j (\<lambda>p. p\<lparr>p_flags := clear_flags (PFGREEN OR PFRED) (set_flags PFYELLOW (p_flags p))\<rparr>) g
      else g)"

definition udplayers_palive_set_alert :: "nat \<Rightarrow> game \<Rightarrow> game" where
  "udplayers_palive_set_alert j g =
     for_upto MAXPLAYER (alert_by j)
       (upd_player j (\<lambda>p. p\<lparr>p_flags := clear_flags (PFRED OR PFYELLOW) (set_flags PFGREEN (p_flags p))\<rparr>) g)"

definition udplayers_palive_self_destruct :: "nat \<Rightarrow> game \<Rightarrow> game" where
  "udplayers_palive_self_destruct j g =
     (let p = players g j in
      if \<not> has (p_flags p) PFSELFDEST then g
      else if p_updates p \<ge> p_selfdest p \<or>
              (has (p_flags p) PFGREEN \<and> p_damage p = 0 \<and> p_shield p = s_maxshield (p_ship p))
      then
        let g = upd_player j (\<lambda>p. p_explosion KQUIT (p_no p) (p\<lparr>p_flags := clear_flags PFSELFDEST (p_flags p)\<rparr>)) g
        in if self_destruct_credit (cfg g) then self_destruct_award j g else g
      else g)"

definition udplayers_palive :: "nat \<Rightarrow> game \<Rightarrow> game" where
  "udplayers_palive j g =
     (let g = (if pflag j PFDOCK g then g
               else if pflag j PFORBIT g then udplayers_palive_move_in_orbit j g
               else udplayers_palive_move_in_space j g)
      in if p_status (players g j) \<in> {PEXPLODE, PDEAD, POBSERV} then g
         else
           let g = udplayers_palive_check_ghostbuster j (udplayers_palive_update_stats j g);
               g = upd_player j (\<lambda>p. p\<lparr>p_updates := p_updates p + 1\<rparr>) g;
               g = udplayers_palive_tractor j (upd_player j udplayers_palive_fuel_shields g);
               g = udplayers_palive_cool_engines j (udplayers_palive_cool_weapons j g);
               g = udplayers_palive_make_fuel j (upd_player j udplayers_palive_fuel_cloak g);
               g = udplayers_palive_set_alert j (udplayers_palive_repair j g)
           in udplayers_palive_self_destruct j g)"

subsection \<open>All players\<close>

definition count_team :: "nat \<Rightarrow> game \<Rightarrow> game" where
  "count_team j g =
     (let t = nat (p_team (players g j)) in g\<lparr>tcount := (tcount g)(t := tcount g t + 1)\<rparr>)"

text \<open>The state of the loop: the number of free slots and the game.\<close>

definition udplayer :: "nat \<Rightarrow> nat \<times> game \<Rightarrow> nat \<times> game" where
  "udplayer j s =
     (let (nfree, g) = s in
      case p_status (players g j) of
        POUTFIT \<Rightarrow> (nfree, udplayers_poutfit j g)
      | PFREE \<Rightarrow> (nfree + 1, upd_player j (\<lambda>p. p\<lparr>p_ghostbuster := 0\<rparr>) g)
      | POBSERV \<Rightarrow> (if observer_keeps_game_alive (cfg g) then nfree else nfree + 1, udplayers_pobserv j g)
      | PDEAD \<Rightarrow> (nfree, udplayers_pdead j g)
      | PEXPLODE \<Rightarrow> (nfree, udplayers_palive j (count_team j (udplayers_pexplode j g)))
      | PALIVE \<Rightarrow> (nfree, udplayers_palive j (count_team j g)))"

definition set_dietime :: "int \<Rightarrow> game \<Rightarrow> game" where
  "set_dietime n g = g\<lparr>dmn := (dmn g)\<lparr>dietime := n\<rparr>\<rparr>"

definition udplayers :: "game \<Rightarrow> game" where
  "udplayers g =
     (let g = g\<lparr>tcount := (tcount g)(1 := 0, 2 := 0, 4 := 0, 8 := 0)\<rparr>;
          (nfree, g) = for_upto MAXPLAYER udplayer (0, g)
      in if nfree = MAXPLAYER then
           if dietime (dmn g) = -1
           then set_dietime (frame (ctxt g) + (if gu GU_GAMEOK g then 60 * fps (cfg g) else fps (cfg g))) g
           else g
         else set_dietime (-1) g)"

text \<open>During a pause.\<close>

definition pause_state :: "nat \<Rightarrow> game \<Rightarrow> game \<times> bool" where
  "pause_state j g =
     (case p_status (players g j) of
        PEXPLODE \<Rightarrow> (udplayerspause_pexplode j g, False)
      | PDEAD \<Rightarrow> if p_whydead (players g j) = KQUIT then (g, True) else (udplayers_pdead j g, False)
      | _ \<Rightarrow> (g, False))"

definition end_process :: "nat \<Rightarrow> game \<Rightarrow> game" where
  "end_process j g =
     (let g = saveplayer j (upd_player j (\<lambda>p. p\<lparr>p_ghostbuster := 0\<rparr>) g)
      in fst (freeslot (Some j) (emit (Sigterm (p_process (players g j))) g)))"

definition udplayer_pause :: "nat \<Rightarrow> game \<Rightarrow> game" where
  "udplayer_pause j g =
     (let g = (if p_x_y_set (players g j) \<noteq> 0 then upd_player j p_x_y_commit g else g) in
      if p_status (players g j) = PFREE then upd_player j (\<lambda>p. p\<lparr>p_ghostbuster := 0\<rparr>) g
      else
        let (g, quits) = pause_state j g;
            g = count_ghost j g;
            lost = p_ghostbuster (players g j) > GHOSTTIME g;
            g = (if lost then upd_player j (ghost_dead j) (ghostmess j ''no ping in pause'' g) else g)
        in if (quits \<or> lost) \<and> p_process (players g j) > 1 then end_process j g else g)"

definition udplayers_pause :: "game \<Rightarrow> game" where
  "udplayers_pause g = for_upto MAXPLAYER udplayer_pause g"

section \<open>Properties\<close>

subsection \<open>The gauges of a ship\<close>

text \<open>The type of a ship in play: the numbers of its class make sense, and its gauges are in their ranges.\<close>

definition sane :: "ship \<Rightarrow> bool" where
  "sane s \<longleftrightarrow> 0 \<le> s_maxshield s \<and> 0 \<le> s_maxfuel s \<and> 0 \<le> s_repair s \<and> 0 \<le> s_recharge s \<and> 0 \<le> s_warpcost s \<and>
     0 \<le> s_cloakcost s \<and> 0 \<le> s_maxspeed s"

definition gauges :: "player \<Rightarrow> bool" where
  "gauges p \<longleftrightarrow> sane (p_ship p) \<and> 0 \<le> p_shield p \<and> p_shield p \<le> s_maxshield (p_ship p) \<and> 0 \<le> p_subshield p \<and>
     0 \<le> p_damage p \<and> 0 \<le> p_subdamage p \<and> p_fuel p \<le> s_maxfuel (p_ship p) \<and> 0 \<le> p_wtemp p \<and> 0 \<le> p_etemp p \<and> 0 \<le> p_speed p"

definition all_gauges :: "game \<Rightarrow> bool" where
  "all_gauges g \<longleftrightarrow> (\<forall>j. gauges (players g j))"

named_theorems keeps_gauges

lemma gauges_upd [keeps_gauges]:
  "all_gauges g \<Longrightarrow> (\<And>p. gauges p \<Longrightarrow> gauges (f p)) \<Longrightarrow> all_gauges (upd_player i f g)"
  by (simp add: all_gauges_def)

lemma gauges_fields [keeps_gauges]:
  "gauges p \<Longrightarrow> gauges (p\<lparr>p_flags := f\<rparr>)" "gauges p \<Longrightarrow> gauges (p\<lparr>p_fuel := p_fuel p - TRACTCOST, p_etemp := p_etemp p + TRACTEHEAT\<rparr>)"
  "gauges p \<Longrightarrow> gauges (p\<lparr>p_status := st\<rparr>)" "gauges p \<Longrightarrow> gauges (p\<lparr>p_updates := n\<rparr>)" "gauges p \<Longrightarrow> gauges (p\<lparr>p_explode := n\<rparr>)"
  "gauges p \<Longrightarrow> gauges (p\<lparr>p_ghostbuster := n\<rparr>)" "gauges p \<Longrightarrow> gauges (p\<lparr>p_armies := n\<rparr>)"
  "gauges p \<Longrightarrow> gauges (p\<lparr>p_kills := k\<rparr>)" "gauges p \<Longrightarrow> gauges (p_explosion w who p)" "gauges p \<Longrightarrow> gauges (p_heal p)"
  "gauges p \<Longrightarrow> gauges (ghost_dead who p)" "gauges p \<Longrightarrow> gauges (wipe_slot p)"
  by (simp_all add: gauges_def sane_def p_explosion_def p_heal_def ghost_dead_def wipe_slot_def clear_votes_def ltd_reset_def ltd_reset_hist_def Let_def)

lemma gauges_basic [keeps_gauges]:
  "all_gauges g \<Longrightarrow> all_gauges (upd_planet l k g)" "all_gauges g \<Longrightarrow> all_gauges (upd_team t u g)"
  "all_gauges g \<Longrightarrow> all_gauges (upd_torp n t' g)" "all_gauges g \<Longrightarrow> all_gauges (upd_queue q r g)"
  "all_gauges g \<Longrightarrow> all_gauges (emit e g)" "all_gauges g \<Longrightarrow> all_gauges (rand_next g)"
  "all_gauges g \<Longrightarrow> all_gauges (g\<lparr>status := s\<rparr>)" "all_gauges g \<Longrightarrow> all_gauges (g\<lparr>dmn := d\<rparr>)"
  "all_gauges g \<Longrightarrow> all_gauges (g\<lparr>tcount := c\<rparr>)"
  by (simp_all add: all_gauges_def)

lemma gauges_ltd [keeps_gauges]:
  "all_gauges g \<Longrightarrow> all_gauges (ltd_update_ticks j g)" "all_gauges g \<Longrightarrow> all_gauges (ltd_update_repaired j n g)"
  "all_gauges g \<Longrightarrow> all_gauges (ltd_update_kills k j' v g)" "all_gauges g \<Longrightarrow> all_gauges (ltd_update_deaths v m g)"
  "all_gauges g \<Longrightarrow> all_gauges (ltd_update_kills_max j g)"
  by (simp_all add: all_gauges_def gauges_def)

lemma gauges_loop [keeps_gauges]:
  "all_gauges g \<Longrightarrow> (\<And>i h. all_gauges h \<Longrightarrow> all_gauges (f i h)) \<Longrightarrow> all_gauges (for_upto n f g)"
  by (rule for_upto_inv [where P = all_gauges])

lemma gauges_work [keeps_gauges]:
  "gauges p \<Longrightarrow> 0 \<le> w \<Longrightarrow> gauges (p\<lparr>p_subshield := p_subshield p + w, p_repair_time := n\<rparr>)"
  "gauges p \<Longrightarrow> 0 \<le> w \<Longrightarrow> gauges (p\<lparr>p_subdamage := p_subdamage p + w, p_repair_time := n\<rparr>)"
  by (simp_all add: gauges_def)

lemma gauges_cost: "gauges p \<Longrightarrow> 0 \<le> c \<Longrightarrow> gauges (p\<lparr>p_fuel := p_fuel p - c * p_speed p\<rparr>)"
proof -
  assume p: "gauges p" and c: "0 \<le> c"
  have "0 \<le> c * p_speed p" using p c by (simp add: gauges_def)
  with p show ?thesis by (simp add: gauges_def)
qed

text \<open>Moving.\<close>

lemma gauges_move [keeps_gauges]:
  "gauges p \<Longrightarrow> gauges (changedir c p)" "gauges p \<Longrightarrow> gauges (limit_desspeed p)" "gauges p \<Longrightarrow> gauges (out_of_fuel p)"
  "gauges p \<Longrightarrow> gauges (accelerate p)" "gauges p \<Longrightarrow> gauges (orbit_position l p)" "gauges p \<Longrightarrow> gauges (pull fx fy p)"
  "gauges p \<Longrightarrow> gauges (show_position p)" "gauges p \<Longrightarrow> gauges (p_x_y_to_internal p)"
  by (simp_all add: gauges_def sane_def changedir_def limit_desspeed_def out_of_fuel_def accelerate_def orbit_position_def
      pull_def show_position_def p_x_y_to_internal_def Let_def)

lemma gauges_charge [keeps_gauges]:
  assumes "all_gauges g"
  shows "all_gauges (charge_speed j g)"
proof -
  have j: "gauges (players g i)" for i using assms by (simp add: all_gauges_def)
  have docked: "all_gauges (charge_docked j h)" if "all_gauges h" for h
  proof -
    have "all_gauges (case p_bays (players k j) i of None \<Rightarrow> k
        | Some d \<Rightarrow> upd_player j (\<lambda>p. p\<lparr>p_fuel := p_fuel p - s_warpcost (p_ship (players k d)) * p_speed p\<rparr>) k)"
      if k: "all_gauges k" for k i
    proof (cases "p_bays (players k j) i")
      case (Some d)
      have "0 \<le> s_warpcost (p_ship (players k d))" using k by (simp add: all_gauges_def gauges_def sane_def)
      then show ?thesis using k by (simp add: Some gauges_upd gauges_cost)
    qed (simp add: k)
    then have "all_gauges (for_upto NUMBAYS (\<lambda>k g. case p_bays (players g j) k of None \<Rightarrow> g
        | Some d \<Rightarrow> upd_player j (\<lambda>p. p\<lparr>p_fuel := p_fuel p - s_warpcost (p_ship (players g d)) * p_speed p\<rparr>) g) h)"
      using that by (intro gauges_loop)
    moreover have "gauges p \<Longrightarrow> gauges (p\<lparr>p_etemp := trunc (of_int (p_etemp p) + 7 / 10 * of_int (p_speed p * int n))\<rparr>)" for p n
      by (simp add: gauges_def trunc_nonneg)
    ultimately show ?thesis unfolding charge_docked_def Let_def by (intro gauges_upd)
  qed
  have "all_gauges (upd_player j (\<lambda>p. p\<lparr>p_fuel := p_fuel p - c, p_etemp := p_etemp p + p_speed p\<rparr>) g)" if "0 \<le> c" for c
    using assms that by (intro gauges_upd) (simp_all add: gauges_def)
  moreover have "0 \<le> s_warpcost (p_ship (players g j)) * p_speed (players g j)"
    using j [of j] by (simp add: gauges_def sane_def)
  ultimately show ?thesis
    using assms docked by (simp add: charge_speed_def Let_def keeps_gauges)
qed

lemma gauges_positions [keeps_gauges]:
  assumes "all_gauges g"
  shows "all_gauges (udplayers_palive_move_in_space j g)" "all_gauges (udplayers_palive_move_in_orbit j g)"
    "all_gauges (udplayers_palive_tractor j g)"
  using assms
  by (simp_all add: udplayers_palive_move_in_space_def udplayers_palive_move_in_orbit_def udplayers_palive_tractor_def
      Let_def keeps_gauges)

text \<open>Fuel, heat and repair.\<close>

lemma gauges_timers [keeps_gauges]:
  "gauges p \<Longrightarrow> gauges (udplayers_palive_fuel_shields p)" "gauges p \<Longrightarrow> gauges (udplayers_palive_fuel_cloak p)"
  "gauges p \<Longrightarrow> gauges (cool_weapons p)" "gauges p \<Longrightarrow> gauges (weapons_timer p)"
  "gauges p \<Longrightarrow> gauges (cool_engines p)" "gauges p \<Longrightarrow> gauges (engines_timer p)"
  "gauges p \<Longrightarrow> gauges (p\<lparr>p_flags := f, p_wtime := n\<rparr>)" "gauges p \<Longrightarrow> gauges (p\<lparr>p_flags := f, p_etime := n, p_desspeed := v\<rparr>)"
  by (auto simp: gauges_def sane_def udplayers_palive_fuel_shields_def udplayers_palive_fuel_cloak_def cool_weapons_def
      weapons_timer_def cool_engines_def engines_timer_def Let_def)

lemma gauges_cool [keeps_gauges]:
  "all_gauges g \<Longrightarrow> all_gauges (udplayers_palive_cool_weapons j g)" "all_gauges g \<Longrightarrow> all_gauges (udplayers_palive_cool_engines j g)"
  by (simp_all add: udplayers_palive_cool_weapons_def udplayers_palive_cool_engines_def Let_def keeps_gauges)

lemma gauges_limit:
  "gauges p \<Longrightarrow> gauges (p\<lparr>p_fuel := 0\<rparr>)" "gauges (p\<lparr>p_fuel := 0\<rparr>) \<Longrightarrow> gauges (limit_fuel p)"
  "gauges p \<Longrightarrow> 0 \<le> n \<Longrightarrow> gauges (p\<lparr>p_fuel := p_fuel p - n\<rparr>)"
  by (auto simp: gauges_def sane_def limit_fuel_def Let_def)

lemma gauges_make_fuel [keeps_gauges]:
  assumes "all_gauges g"
  shows "all_gauges (udplayers_palive_make_fuel j g)"
proof -
  define ok where "ok h \<longleftrightarrow> gauges ((players h j)\<lparr>p_fuel := 0\<rparr>) \<and> (\<forall>i. i \<noteq> j \<longrightarrow> gauges (players h i))" for h :: game
  have "ok g" using assms by (simp add: ok_def all_gauges_def gauges_limit)
  moreover have "ok h \<Longrightarrow> ok (upd_player j (\<lambda>p. p\<lparr>p_fuel := f p\<rparr>) h)" for h f
    by (simp add: ok_def)
  moreover have "ok h \<Longrightarrow> 0 \<le> n \<Longrightarrow> ok (upd_player i (\<lambda>b. b\<lparr>p_fuel := p_fuel b - n\<rparr>) h)" for h i n
    by (cases "i = j") (simp_all add: ok_def gauges_limit)
  moreover have "ok h \<Longrightarrow> all_gauges (upd_player j limit_fuel h)" for h
    by (simp add: ok_def all_gauges_def gauges_limit)
  moreover have "0 \<le> s_recharge (p_ship (players g j))" using assms by (simp add: all_gauges_def gauges_def sane_def)
  ultimately show ?thesis by (simp add: udplayers_palive_make_fuel_def Let_def)
qed

lemma gauges_mend [keeps_gauges]:
  assumes "gauges p"
  shows "gauges (mend_shield p)" "gauges (mend_hull p)"
proof -
  have "0 \<le> p_subshield p smod 1000" "0 \<le> p_subshield p sdiv 1000" "0 \<le> p_subdamage p smod 1000"
    using assms by (simp_all add: gauges_def smod_eq_mod sdiv_nonneg)
  with assms show "gauges (mend_shield p)" "gauges (mend_hull p)"
    by (auto simp: gauges_def sane_def mend_shield_def mend_hull_def Let_def)
qed

lemma gauges_repair [keeps_gauges]:
  assumes "all_gauges g"
  shows "all_gauges (udplayers_palive_repair j g)"
proof -
  have work: "0 \<le> shield_work j h" "0 \<le> hull_work j h" if "all_gauges h" for h
    using that by (simp_all add: shield_work_def hull_work_def all_gauges_def gauges_def sane_def Let_def)
  have count: "all_gauges (count_repair j n h)" if "all_gauges h" for n h
    using that by (simp add: count_repair_def keeps_gauges)
  have "all_gauges (fst (repair_shields j g))"
    using assms work(1) [OF assms] by (simp add: repair_shields_def Let_def keeps_gauges count)
  moreover have "all_gauges (repair_hull j n h)" if "all_gauges h" for n h
    using that work(2) [OF that] by (simp add: repair_hull_def Let_def keeps_gauges count)
  ultimately show ?thesis by (simp add: udplayers_palive_repair_def case_prod_beta)
qed

text \<open>The other parts of an update.\<close>

lemma gauges_release [keeps_gauges]:
  "all_gauges g \<Longrightarrow> all_gauges (bay_release j g)" "all_gauges g \<Longrightarrow> all_gauges (bay_release_all j g)"
proof -
  have bays: "gauges p \<Longrightarrow> gauges (p\<lparr>p_bays := b\<rparr>)" for p b by (simp add: gauges_def)
  have vacate: "all_gauges h \<Longrightarrow> all_gauges (vacate b i h)" for h b i by (simp add: vacate_def keeps_gauges bays)
  then show "all_gauges g \<Longrightarrow> all_gauges (bay_release j g)" by (simp add: bay_release_def Let_def keeps_gauges)
  assume "all_gauges g"
  then show "all_gauges (bay_release_all j g)"
    unfolding bay_release_all_def
  proof (rule gauges_loop)
    show "all_gauges (case p_bays (players h j) i of None \<Rightarrow> h
      | Some s \<Rightarrow> upd_player s (\<lambda>p. p\<lparr>p_flags := clear_flags PFDOCK (p_flags p)\<rparr>) (vacate j i h))" if "all_gauges h" for i h
      using that vacate by (simp add: keeps_gauges split: option.split)
  qed
qed

lemma gauges_ghost [keeps_gauges]:
  assumes "all_gauges g"
  shows "all_gauges (lost_base j g)" "all_gauges (saveplayer j g)" "all_gauges (ghostmess j m g)"
    "all_gauges (fst (freeslot (Some j) g))" "all_gauges (count_ghost j g)"
proof -
  have "all_gauges (rescue_armies j h)" if "all_gauges h" for h
    using that by (simp add: rescue_armies_def Let_def keeps_gauges split: option.split)
  then show "all_gauges (ghostmess j m g)" using assms by (simp add: ghostmess_def Let_def keeps_gauges)
qed (use assms in \<open>simp_all add: lost_base_def saveplayer_def freeslot_def count_free_def count_ghost_def Let_def keeps_gauges\<close>)

lemma gauges_blowup [keeps_gauges]:
  assumes "all_gauges g"
  shows "all_gauges (blowup sh g)"
proof -
  have damage: "gauges p \<Longrightarrow> 0 \<le> n \<Longrightarrow> gauges (take_damage n p)" for p n
    by (auto simp: gauges_def take_damage_def Let_def)
  have mess: "all_gauges (killmess v c k w h)" "all_gauges (killer_credit k v h)" "all_gauges (count_kill h)" if "all_gauges h" for v c k w h
    using that by (simp_all add: killmess_def killer_credit_def count_kill_def Let_def keeps_gauges)
  have "all_gauges (blowup_kill sh j h)" if "all_gauges h" for j h
    using that by (simp add: blowup_kill_def Let_def keeps_gauges mess)
  then have "all_gauges (blowup_hit sh j h)" if "all_gauges h" for j h
    using that by (simp add: blowup_hit_def Let_def keeps_gauges damage)
  then show ?thesis unfolding blowup_def using assms by (intro gauges_loop)
qed

lemma gauges_states [keeps_gauges]:
  assumes "all_gauges g"
  shows "all_gauges (udplayers_pdead j g)" "all_gauges (udplayers_poutfit j g)" "all_gauges (udplayers_pobserv j g)"
    "all_gauges (udplayers_pexplode j g)"
proof -
  have trim: "all_gauges (trim_torps j h)" if "all_gauges h" for h
    using that by (simp add: trim_torps_def trim_torp_def Let_def keeps_gauges del: for_upto_Suc)
  have "gauges p \<Longrightarrow> gauges (p\<lparr>p_updates := n, p_flags := f\<rparr>)" "gauges p \<Longrightarrow> gauges (p\<lparr>p_status := st, p_explode := n\<rparr>)" for p n f st
    by (simp_all add: gauges_def)
  with assms trim show "all_gauges (udplayers_pdead j g)" "all_gauges (udplayers_poutfit j g)" "all_gauges (udplayers_pobserv j g)"
    "all_gauges (udplayers_pexplode j g)"
    by (simp_all add: udplayers_pdead_def udplayers_poutfit_def udplayers_pobserv_def udplayers_pexplode_def
        udplayers_pexplode_bays_def Let_def keeps_gauges)
qed

lemma gauges_alive [keeps_gauges]:
  assumes "all_gauges g"
  shows "all_gauges (udplayers_palive j g)"
proof -
  have stats: "all_gauges (udplayers_palive_update_stats j h)" "all_gauges (udplayers_palive_check_ghostbuster j h)"
    if "all_gauges h" for h
    using that by (simp_all add: udplayers_palive_update_stats_def udplayers_palive_check_ghostbuster_def Let_def keeps_gauges)
  have alert: "all_gauges (udplayers_palive_set_alert j h)" if "all_gauges h" for h
    using that by (simp add: udplayers_palive_set_alert_def alert_by_def Let_def keeps_gauges del: for_upto_Suc)
  have award: "all_gauges (self_destruct_award j h)" if "all_gauges h" for h
    using that by (simp add: self_destruct_award_def killer_credit_def Let_def keeps_gauges split: option.split)
  have destruct: "all_gauges (udplayers_palive_self_destruct j h)" if "all_gauges h" for h
    using that award by (simp add: udplayers_palive_self_destruct_def Let_def keeps_gauges)
  show ?thesis
    unfolding udplayers_palive_def Let_def using assms by (simp add: keeps_gauges stats alert destruct)
qed

text \<open>
  C8: an update of all the players keeps every ship well formed: its shields between nothing and
  the most of its class, its damage, temperatures and speed not negative, its fuel at most what
  its tanks hold, whatever burns, cools, docks, explodes or is repaired in it.
\<close>

theorem gauges_stay_in_range:
  assumes "all_gauges g"
  shows "all_gauges (udplayers g)"
proof -
  have "all_gauges (snd (for_upto n udplayer (m, h)))" if "all_gauges h" for n m h
  proof (rule for_upto_inv [where P = "\<lambda>s. all_gauges (snd s)"])
    show "all_gauges (snd (udplayer j s))" if "all_gauges (snd s)" for j s
    proof -
      obtain nfree k where s: "s = (nfree, k)" by fastforce
      have "all_gauges (count_team j h)" if "all_gauges h" for h
        using that by (simp add: count_team_def Let_def keeps_gauges)
      with that show ?thesis
        by (simp add: s udplayer_def keeps_gauges split: pstatus.split)
    qed
  qed (simp add: that)
  moreover have "all_gauges (set_dietime n h)" if "all_gauges h" for n h
    using that by (simp add: set_dietime_def keeps_gauges)
  ultimately show ?thesis
    using assms by (simp add: udplayers_def Let_def case_prod_beta keeps_gauges del: for_upto_Suc)
qed

definition ex_fleet_out :: game where
  "ex_fleet_out = blank_game\<lparr>players := \<lambda>i. blank_player\<lparr>p_status := PALIVE, p_flags := PFSHIELD,
     p_ship := cruiser_defaults, p_shield := 50, p_damage := 30, p_fuel := 400\<rparr>\<rparr>"

lemma gauges_stay_in_range_witness: "all_gauges (udplayers ex_fleet_out)"
proof (rule gauges_stay_in_range)
  show "all_gauges ex_fleet_out"
    by (simp add: ex_fleet_out_def all_gauges_def gauges_def sane_def cruiser_defaults_def blank_defs)
qed

end
