(* ===== verification/Planets.thy ===== *)
theory Planets
  imports Conquer "HOL-Library.Multiset" "HOL-Library.Sublist"
begin

text \<open>
  The planets in \<^verbatim>\<open>ntserv/daemon.c\<close>: the growth of armies in a random order of the planets,
  the surrender of a team, and what the loss of a planet sets off: genocide (\<^verbatim>\<open>checkgen\<close>), conquest (\<^verbatim>\<open>checkwin\<close>), the list of the
  best players (\<^verbatim>\<open>displayBest\<close>) and new troops.  The files of a conquest are outputs.
\<close>

subsection \<open>Growth\<close>

definition PLAGUE_DICE :: int where "PLAGUE_DICE = 4500"

definition plague :: "nat \<Rightarrow> game \<Rightarrow> game" where
  "plague l g =
     (if planet_plague (cfg g) \<and> pl_armies (planets g l) > 5 then
        let a = pl_armies (planets g l); num = (rand_val g mod PLAGUE_DICE + a * a) sdiv PLAGUE_DICE; g = rand_next g
        in if num \<noteq> 0 then upd_planet l (\<lambda>k. k\<lparr>pl_armies := pl_armies k - num\<rparr>) (army_track AMT_PLAGUE g) else g
      else g)"

text \<open>One more army; the planet is redrawn when that makes it more than four.\<close>

definition breed :: "planet \<Rightarrow> planet" where
  "breed k = (let k = k\<lparr>pl_armies := pl_armies k + 1\<rparr>
              in if pl_armies k > 4 then k\<lparr>pl_flags := pl_flags k OR PLREDRAW\<rparr> else k)"

definition pop_small :: "nat \<Rightarrow> game \<Rightarrow> game" where
  "pop_small l g =
     (if pl_armies (planets g l) < 4 then
        let lucky = (rand_val g mod 20 = 0); g = rand_next g;
            g = (if lucky then upd_planet l (\<lambda>k. k\<lparr>pl_armies := pl_armies k + 1\<rparr>) g else g)
        in if meets (pl_flags (planets g l)) PLAGRI then upd_planet l breed g else g
      else g)"

definition pop_extra :: "nat \<Rightarrow> game \<Rightarrow> game" where
  "pop_extra l g =
     (let lucky = (rand_val g mod 10 = 0); g = rand_next g in
      if lucky then
        let g = (if pl_armies (planets g l) < 5 then upd_planet l (\<lambda>k. k\<lparr>pl_flags := pl_flags k OR PLREDRAW\<rparr>) g else g);
            num = rand_val g mod 3 + 1; g = rand_next g
        in upd_planet l (\<lambda>k. k\<lparr>pl_armies := pl_armies k + num\<rparr>) g
      else g)"

definition pop_agri :: "nat \<Rightarrow> game \<Rightarrow> game" where
  "pop_agri l g =
     (if meets (pl_flags (planets g l)) PLAGRI then
        let lucky = (rand_val g mod 5 = 0); g = rand_next g in if lucky then upd_planet l breed g else g
      else g)"

definition PopPlanet :: "int \<Rightarrow> game \<Rightarrow> game" where
  "PopPlanet plnum g =
     (let l = nat plnum in
      if plnum < 0 \<or> plnum \<ge> int MAXPLANETS then g
      else if pl_armies (planets g l) = 0 then g
      else if pl_armies (planets g l) \<ge> max_pop (cfg g) \<and> \<not> tourn g then g
      else
        let g = plague l g; orig = pl_armies (planets g l);
            g = pop_agri l (pop_extra l (pop_small l g))
        in if pl_armies (planets g l) \<noteq> orig then army_track AMT_POP g else g)"

text \<open>The order of the planets is shuffled whenever all had their turn.\<close>

definition init_poporder :: "game \<Rightarrow> game" where
  "init_poporder g = (if pl_poporder g 0 < 0 then g\<lparr>pl_poporder := (\<lambda>i. if i < MAXPLANETS then int i else pl_poporder g i)\<rparr> else g)"

definition swap_pop :: "nat \<Rightarrow> game \<Rightarrow> game" where
  "swap_pop i g =
     (let t = nat (rand_val g mod int (i + 1)); g = rand_next g; v = pl_poporder g t
      in g\<lparr>pl_poporder := (pl_poporder g)(t := pl_poporder g i, i := v)\<rparr>)"

text \<open>\<^verbatim>\<open>for (i = n; i; i--)\<close>.\<close>

fun shuffle_from :: "nat \<Rightarrow> game \<Rightarrow> game" where
  "shuffle_from 0 g = g"
| "shuffle_from (Suc i) g = shuffle_from i (swap_pop (Suc i) g)"

definition RandomizePopOrder :: "game \<Rightarrow> game" where
  "RandomizePopOrder g = (shuffle_from (MAXPLANETS - 1) (init_poporder g))\<lparr>lastpop := MAXPLANETS - 1\<rparr>"

text \<open>\<^verbatim>\<open>lastpop\<close> is never negative here: at 0 the decrement makes it so and the order is shuffled.\<close>

definition udplanets :: "game \<Rightarrow> game" where
  "udplanets g =
     (let g = (if lastpop g = 0 then RandomizePopOrder g else g\<lparr>lastpop := lastpop g - 1\<rparr>)
      in PopPlanet (pl_poporder g (lastpop g)) g)"

subsection \<open>Surrender\<close>

definition lacks_players :: "int \<Rightarrow> game \<Rightarrow> bool" where
  "lacks_players t g \<longleftrightarrow> realNumShips t g < tournplayers (cfg g)"

definition terminate_one :: "nat \<Rightarrow> game \<Rightarrow> game" where
  "terminate_one j g =
     (let p = players g j in
      if p_status p = PALIVE \<and> \<not> has (p_flags p) PFROBOT \<and> p_team p \<noteq> NOBODY \<and> lacks_players (p_team p) g then
        let hit = (rand_val g mod 5 = 0); g = rand_next g in if hit then rescue (-2) (p_no p) g else g
      else g)"

definition bump_observer :: "nat \<Rightarrow> game \<Rightarrow> game" where
  "bump_observer j g =
     (let p = players g j in
      if p_status p = POBSERV \<and> p_team p \<noteq> NOBODY \<and> lacks_players (p_team p) g \<and> \<not> p_authorised p
      then upd_player j (\<lambda>p. p_x_y_to_internal (p\<lparr>p_status := PEXPLODE, p_whydead := KPROVIDENCE,
             p_flags := clear_flags (PFPLOCK OR PFPLLOCK) (p_flags p), p_x := -100000, p_y := -100000\<rparr>)) g
      else g)"

text \<open>A home planet cannot be couped for half an hour to an hour.\<close>

definition set_couptime :: "nat \<Rightarrow> game \<Rightarrow> game" where
  "set_couptime l g =
     rand_next (upd_planet l (\<lambda>k. k\<lparr>pl_couptime := MIN_COUP_TIME + rand_val g mod (MAX_COUP_TIME - MIN_COUP_TIME)\<rparr>) g)"

definition neutralise :: "int \<Rightarrow> nat \<Rightarrow> game \<Rightarrow> game" where
  "neutralise t l g =
     (let k = planets g l;
          g = (if pl_flags k AND ALLTEAM = t \<and> meets (pl_flags k) PLHOME then set_couptime l g else g)
      in if pl_owner (planets g l) = t
         then upd_planet l (\<lambda>k. k\<lparr>pl_owner := 0, pl_armies := 0, pl_flags := pl_flags k OR PLCHEAP\<rparr>) g else g)"

text \<open>The players of a lost team lose their credit and their ships.\<close>

definition kick_out :: "int \<Rightarrow> whydead \<Rightarrow> nat \<Rightarrow> nat \<Rightarrow> game \<Rightarrow> game" where
  "kick_out t why who j g =
     (let g = (if p_team (players g j) = t
               then upd_player j (\<lambda>p. p\<lparr>p_genoplanets := 0, p_genoarmsbomb := 0, p_armsbomb := 0, p_planets := 0\<rparr>) g else g)
      in if p_status (players g j) = PALIVE \<and> p_team (players g j) = t
         then upd_player j (p_explosion why who) g else g)"

definition all_msg :: "string \<Rightarrow> game \<Rightarrow> game" where
  "all_msg m = emit (Pmessage 0 ''MALL'' m)"

definition terminate_race :: "int \<Rightarrow> game \<Rightarrow> game" where
  "terminate_race t g =
     (let g = emit (Conquest ''surrendered'') (all_msg ''The %s %s surrendered.'' g);
          g = for_upto MAXPLANETS (neutralise t) g
      in for_upto MAXPLAYER (kick_out t KPROVIDENCE 0) g)"

definition countdown_news :: "int \<Rightarrow> game \<Rightarrow> game" where
  "countdown_news n g =
     (let g = (if n smod 5 = 0 \<or> n < 5 then all_msg ''The %s %s %d minute%s remaining.'' g else g)
      in if n smod 5 = 0 then all_msg ''%d planets will sustain the empire.  %d suspends countdown.'' g else g)"

definition set_pause :: "nat \<Rightarrow> surrender_pause \<Rightarrow> game \<Rightarrow> game" where
  "set_pause t s = upd_team t (\<lambda>k. k\<lparr>te_surrender_pause := s\<rparr>)"

definition surrender_team :: "nat \<Rightarrow> game \<Rightarrow> game" where
  "surrender_team t g =
     (if te_surrender (teams g t) = 0 \<or> lacks_players (int t) g then set_pause t TE_SURRENDER_PAUSE_ON_TOURN g
      else if te_plcount (teams g t) > surrenderStart (cfg g) then set_pause t TE_SURRENDER_PAUSE_ON_PLANETS g
      else
        let g = upd_team t (\<lambda>k. k\<lparr>te_surrender := te_surrender k - 1, te_surrender_frame := frame (ctxt g)\<rparr>)
                  (set_pause t TE_SURRENDER_PAUSE_OFF g)
        in if te_surrender (teams g t) = 0 then terminate_race (int t) g
           else countdown_news (te_surrender (teams g t)) g)"

definition minute_timers :: "game \<Rightarrow> game" where
  "minute_timers g =
     (let g = for_upto (MAXTEAM + 1) (\<lambda>i. upd_team i (\<lambda>t. t\<lparr>te_turns := te_turns t - 1\<rparr>)) g
      in for_upto MAXPLANETS (\<lambda>l. upd_planet l
           (\<lambda>k. if pl_couptime k \<noteq> 0 then k\<lparr>pl_couptime := pl_couptime k - 1\<rparr> else k)) g)"

definition udsurrend :: "game \<Rightarrow> game" where
  "udsurrend g =
     (let g = minute_timers g in
      if \<not> tourn g then g
      else for_upto (MAXTEAM + 1) surrender_team (for_upto MAXPLAYER bump_observer (for_upto MAXPLAYER terminate_one g)))"

definition teamtimers :: "game \<Rightarrow> game" where
  "teamtimers g =
     g\<lparr>tm_robots := (\<lambda>i. if i \<le> MAXTEAM \<and> tm_robots g i > 0 then tm_robots g i - 1 else tm_robots g i)\<rparr>"

subsection \<open>The best players\<close>

record winner =
  wn_slot :: nat
  wn_planets :: int
  wn_armies :: int

definition score :: "winner \<Rightarrow> int" where
  "score w = 30 * wn_planets w + wn_armies w"

text \<open>The first place of a worse player; all behind it move one place down.\<close>

definition place_of :: "winner \<Rightarrow> winner list \<Rightarrow> nat" where
  "place_of w ws = (case first_in 0 (length ws) (\<lambda>k. score (ws ! k) < score w) of None \<Rightarrow> length ws | Some k \<Rightarrow> k)"

definition insert_winner :: "winner \<Rightarrow> winner list \<Rightarrow> winner list" where
  "insert_winner w ws = (let k = place_of w ws in take k ws @ [w] @ drop k ws)"

definition credit_of :: "bool \<Rightarrow> nat \<Rightarrow> game \<Rightarrow> winner" where
  "credit_of geno j g =
     (let p = players g j in
      if geno then \<lparr>wn_slot = j, wn_planets = p_genoplanets p, wn_armies = p_genoarmsbomb p\<rparr>
      else \<lparr>wn_slot = j, wn_planets = p_planets p, wn_armies = p_armsbomb p\<rparr>)"

definition on_team :: "int \<Rightarrow> game \<Rightarrow> nat \<Rightarrow> bool" where
  "on_team t g j \<longleftrightarrow> p_team (players g j) = t \<and> p_status (players g j) \<noteq> PFREE"

definition best_one :: "int \<Rightarrow> bool \<Rightarrow> nat \<Rightarrow> winner list \<times> game \<Rightarrow> winner list \<times> game" where
  "best_one t geno j s =
     (let (ws, g) = s in
      if \<not> on_team t g j then (ws, g)
      else (insert_winner (credit_of geno j g) ws,
            if geno then upd_player j (\<lambda>p. p\<lparr>p_genoplanets := 0, p_genoarmsbomb := 0\<rparr>) g else g))"

definition best_players :: "int \<Rightarrow> bool \<Rightarrow> game \<Rightarrow> winner list \<times> game" where
  "best_players t geno g = for_upto MAXPLAYER (best_one t geno) ([], g)"

definition displayBest :: "int \<Rightarrow> whydead \<Rightarrow> game \<Rightarrow> game" where
  "displayBest t type g =
     (let (ws, g) = best_players t (type = KGENOCIDE) g in
      fold (\<lambda>w g. if wn_planets w \<noteq> 0 \<or> wn_armies w \<noteq> 0
                  then emit (Pmessage 0 ''MALL | MCONQ'' ''  %16.16s (%2.2s) with %d planets and %d armies.'') g else g) ws g)"

definition genocideMessage :: "int \<Rightarrow> int \<Rightarrow> game \<Rightarrow> game" where
  "genocideMessage loser w g =
     displayBest loser KGENOCIDE (displayBest w KGENOCIDE
       (emit (Pmessage 0 ''MALL | MGENO'' ''The %s %s been genocided by the %s.'') (emit (Conquest ''genocided'') g)))"

definition conquerMessage :: "int \<Rightarrow> game \<Rightarrow> game" where
  "conquerMessage w g =
     displayBest w KWINNER
       (emit (Pmessage 0 ''MALL | MCONQ'' ''The galaxy has been conquered by the %s:'') (emit (Conquest ''conquered'') g))"

subsection \<open>Conquest and genocide\<close>

text \<open>A home system counts for the team that owns planets there while no other of the four does.\<close>

definition owns_in :: "nat \<Rightarrow> game \<Rightarrow> int \<Rightarrow> int" where
  "owns_in i g t = int (count_upto 10 (\<lambda>h. pl_owner (planets g (i * 10 + h)) = t))"

definition system_of :: "nat \<Rightarrow> game \<Rightarrow> int option" where
  "system_of i g =
     (let n = owns_in i g in
      if n FED + n ROM + n KLI = 0 then Some ORI
      else if n FED + n ROM + n ORI = 0 then Some KLI
      else if n FED + n KLI + n ORI = 0 then Some ROM
      else if n ROM + n KLI + n ORI = 0 then Some FED
      else None)"

definition systems :: "game \<Rightarrow> int \<Rightarrow> nat" where
  "systems g t = count_upto 4 (\<lambda>i. system_of i g = Some t)"

text \<open>The counts of planets of the team numbers that can own one.\<close>

definition recount :: "game \<Rightarrow> game" where
  "recount g =
     for_upto MAXPLANETS (\<lambda>l g. upd_team (nat (pl_owner (planets g l))) (\<lambda>t. t\<lparr>te_plcount := te_plcount t + 1\<rparr>) g)
       (fold (\<lambda>t. upd_team t (\<lambda>k. k\<lparr>te_plcount := 0\<rparr>)) [0, 1, 2, 4, 8] g)"

definition end_surrender :: "int \<Rightarrow> game \<Rightarrow> game" where
  "end_surrender t g =
     (if te_surrender (teams g (nat t)) > 0 \<and> te_plcount (teams g (nat t)) = SURREND then
        upd_team (nat t) (\<lambda>k. k\<lparr>te_surrender := 0, te_surrender_frame := frame (ctxt g)\<rparr>)
          (all_msg ''The %s %s prevented collapse of the empire.'' (emit (Blog ''racial'') g))
      else g)"

definition conquered :: "game \<Rightarrow> bool" where
  "conquered g \<longleftrightarrow> (\<exists>i<4. int (systems g (2 ^ i)) \<ge> VICTORY)"

definition pret_round :: "nat \<Rightarrow> game \<Rightarrow> game" where
  "pret_round w g =
     (if \<not> tourn g \<and> gu GU_PRET g then
        if 10 + pret_planets (cfg g) - te_plcount (teams g (nat (p_team (players g w)))) < 1
        then conquer_begin_pret w g else all_msg ''%s need %d more planet%s to win this round!'' g
      else g)"

definition checkwin :: "nat \<Rightarrow> game \<Rightarrow> game \<times> bool" where
  "checkwin w g =
     (if inl_mode g then (g, False)
      else
        let g = end_surrender (p_team (players g w)) (recount g) in
        if conquered g then (conquer_begin w (conquerMessage (p_team (players g w)) g), True)
        else (pret_round w g, False))"

definition addTroops :: "int \<Rightarrow> int \<Rightarrow> game \<Rightarrow> game" where
  "addTroops loser w g =
     (let count = int (count_upto MAXPLAYER (\<lambda>i. p_status (players g i) \<noteq> PFREE \<and> p_team (players g i) = loser)) in
      if count < 3 then g
      else
        let unlucky = (count < 6 \<and> rand_val g mod count = 0); g = (if count < 6 then rand_next g else g)
        in if unlucky then g
           else for_upto MAXPLANETS (\<lambda>i g.
             if pl_owner (planets g i) = w
             then rand_next (upd_planet i (\<lambda>k. k\<lparr>pl_armies := pl_armies k + rand_val g mod (2 * count)\<rparr>) g) else g)
             (emit (Pmessage w ''MTEAM'' ''The recent victory has boosted enrollment!'') g))"

definition recount_all :: "game \<Rightarrow> game" where
  "recount_all g =
     for_upto MAXPLANETS (\<lambda>l g. upd_team (nat (pl_owner (planets g l))) (\<lambda>t. t\<lparr>te_plcount := te_plcount t + 1\<rparr>) g)
       (for_upto (MAXTEAM + 1) (\<lambda>t. upd_team t (\<lambda>k. k\<lparr>te_plcount := 0\<rparr>)) g)"

text \<open>The last home planet of a team in the table; \<open>None\<close> is the null pointer.\<close>

definition home_planet :: "int \<Rightarrow> game \<Rightarrow> nat option" where
  "home_planet t g =
     for_upto MAXPLANETS (\<lambda>l h. if pl_flags (planets g l) AND ALLTEAM = t \<and> meets (pl_flags (planets g l)) PLHOME
                                then Some l else h) None"

definition start_surrender :: "int \<Rightarrow> game \<Rightarrow> game" where
  "start_surrender loser g =
     (let k = teams g (nat loser) in
      if te_surrender k = 0 \<and> te_plcount k = surrenderStart (cfg g) then
        let minutes = (if binconfirm (cfg g) then SURRLENGTH else SURRLENGTH * 2 div 3)
        in upd_team (nat loser) (\<lambda>k. k\<lparr>te_surrender := minutes, te_surrender_pause := TE_SURRENDER_PAUSE_OFF,
             te_surrender_frame := frame (ctxt g)\<rparr>)
             (all_msg ''%d planets are needed to sustain the empire.''
               (all_msg ''The %s %s %d minute%s before the empire collapses.'' (emit (Blog ''racial'') g)))
      else g)"

definition genocide :: "int \<Rightarrow> nat \<Rightarrow> nat option \<Rightarrow> game \<Rightarrow> game" where
  "genocide loser w home g =
     (let t = p_team (players g w);
          g = addTroops loser t (genocideMessage loser t g);
          g = for_upto MAXPLAYER (kick_out loser KGENOCIDE (p_no (players g w))) g
      in case home of None \<Rightarrow> g | Some l \<Rightarrow> set_couptime l g)"

definition checkgen :: "int \<Rightarrow> nat \<Rightarrow> game \<Rightarrow> game" where
  "checkgen loser w g =
     (if inl_mode g then g
      else
        let g = recount_all g; home = home_planet loser g; g = start_surrender loser g in
        if te_plcount (teams g (nat loser)) > 0 then g
        else
          let g = upd_team (nat loser) (\<lambda>k. k\<lparr>te_surrender := 0, te_surrender_frame := frame (ctxt g)\<rparr>) g;
              g = upd_player w (\<lambda>p. p\<lparr>p_genoplanets := p_genoplanets p + 1, p_planets := p_planets p + 1\<rparr>) g;
              (g, won) = checkwin w g
          in if won then g else genocide loser w home g)"

section \<open>Properties\<close>

subsection \<open>The best players\<close>

text \<open>An insertion puts the new player behind all that are at least as good.\<close>

lemma insert_winner_split:
  "insert_winner w ws = takeWhile (\<lambda>v. score w \<le> score v) ws @ w # dropWhile (\<lambda>v. score w \<le> score v) ws"
proof (cases "first_in 0 (length ws) (\<lambda>k. score (ws ! k) < score w)")
  case None
  then have "\<forall>v \<in> set ws. score w \<le> score v"
    unfolding first_in_None by (auto simp: in_set_conv_nth not_less)
  then have "takeWhile (\<lambda>v. score w \<le> score v) ws = ws" "dropWhile (\<lambda>v. score w \<le> score v) ws = []"
    by (simp_all only: takeWhile_eq_all_conv dropWhile_eq_Nil_conv)
  moreover have "insert_winner w ws = ws @ [w]" using None by (simp add: insert_winner_def place_of_def)
  ultimately show ?thesis by (simp only:)
next
  case (Some k)
  note at_k = first_in_Some [OF Some]
  have before: "score w \<le> score (ws ! i)" if "i < k" for i
    using first_in_least [OF Some, of i] that by (simp add: not_less)
  have "takeWhile (\<lambda>v. score w \<le> score v) ws = take k ws"
    by (rule takeWhile_eq_take_P_nth) (use at_k before in auto)
  moreover from this have "dropWhile (\<lambda>v. score w \<le> score v) ws = drop k ws"
    using at_k by (simp add: dropWhile_eq_drop)
  ultimately show ?thesis using Some by (simp add: insert_winner_def place_of_def)
qed

abbreviation best_first :: "winner list \<Rightarrow> winner list" where
  "best_first \<equiv> sort_key (\<lambda>w. - score w)"

lemma insert_winner_sort: "insert_winner w (best_first ws) = best_first (ws @ [w])"
proof -
  let ?P = "\<lambda>v. score w \<le> score v"
  define A where "A = takeWhile ?P (best_first ws)"
  define B where "B = dropWhile ?P (best_first ws)"
  have split: "best_first ws = A @ B" by (simp add: A_def B_def)
  have sorted: "sorted (map (\<lambda>w. - score w) (A @ B))"
    using sorted_sort_key [of "\<lambda>w. - score w" ws] by (simp only: split)
  have ahead: "score w \<le> score v" if "v \<in> set A" for v
    using that by (auto simp: A_def dest: set_takeWhileD)
  have behind: "score v < score w" if "v \<in> set B" for v
  proof (cases B)
    case Nil
    with that show ?thesis by simp
  next
    case (Cons u us)
    then have "\<not> ?P u" using hd_dropWhile [of ?P "best_first ws"] by (simp add: B_def)
    moreover have "sorted (map (\<lambda>w. - score w) (u # us))" using sorted Cons by (simp add: sorted_append)
    ultimately show ?thesis using that Cons by auto
  qed
  have "best_first (ws @ [w]) = A @ w # B"
  proof (rule properties_for_sort_key)
    have "mset (A @ B) = mset ws" using mset_sort [of "\<lambda>w. - score w" ws] by (simp only: split)
    then show "mset (A @ w # B) = mset (ws @ [w])" by simp
    show "filter (\<lambda>x. - score k = - score x) (A @ w # B) = filter (\<lambda>x. - score k = - score x) (ws @ [w])" for k
    proof -
      have "filter (\<lambda>x. - score x = - score k) (A @ B) = filter (\<lambda>x. - score x = - score k) ws"
        using sort_key_stable [of "\<lambda>w. - score w" "- score k" ws] by (simp only: split)
      then have stable: "filter (\<lambda>x. score k = score x) A @ filter (\<lambda>x. score k = score x) B = filter (\<lambda>x. score k = score x) ws"
        by (simp add: eq_commute [of _ "score k"])
      have "filter (\<lambda>x. score w = score x) B = []"
        unfolding filter_empty_conv using behind by (metis less_irrefl)
      with stable show ?thesis by (cases "score k = score w") auto
    qed
    show "sorted (map (\<lambda>w. - score w) (A @ w # B))"
      using sorted behind ahead by (auto simp: sorted_append intro: less_imp_le)
  qed
  then show ?thesis by (simp add: insert_winner_split A_def B_def)
qed

text \<open>The loop over the slots: the list so far, and the players whose credit is taken.\<close>

definition credit_taken :: "int \<Rightarrow> bool \<Rightarrow> game \<Rightarrow> nat \<Rightarrow> player" where
  "credit_taken t geno g j =
     (if on_team t g j \<and> geno then (players g j)\<lparr>p_genoplanets := 0, p_genoarmsbomb := 0\<rparr> else players g j)"

lemma best_loop:
  "for_upto n (best_one t geno) ([], g) = (ws, h) \<Longrightarrow>
   ws = best_first (map (\<lambda>j. credit_of geno j g) (filter (on_team t g) [0..<n])) \<and>
   players h = (\<lambda>j. if j < n then credit_taken t geno g j else players g j)"
proof (induction n arbitrary: ws h)
  case (Suc n)
  obtain vs k where k: "for_upto n (best_one t geno) ([], g) = (vs, k)" by fastforce
  note IH = Suc.IH [OF k]
  have n: "on_team t k n = on_team t g n" "credit_of geno n k = credit_of geno n g" "players k n = players g n"
    using IH by (simp_all add: on_team_def credit_of_def)
  have step: "best_one t geno n (vs, k) = (ws, h)" using Suc.prems k by simp
  show ?case
  proof (cases "on_team t g n")
    case True
    then have "ws = insert_winner (credit_of geno n g) vs" and
      h: "h = (if geno then upd_player n (\<lambda>p. p\<lparr>p_genoplanets := 0, p_genoarmsbomb := 0\<rparr>) k else k)"
      using step n by (auto simp: best_one_def)
    then have "ws = best_first (map (\<lambda>j. credit_of geno j g) (filter (on_team t g) [0..<Suc n]))"
      using IH True by (simp add: insert_winner_sort)
    moreover have "players h = (\<lambda>j. if j < Suc n then credit_taken t geno g j else players g j)"
      using IH True n by (auto simp: h credit_taken_def fun_eq_iff less_Suc_eq)
    ultimately show ?thesis ..
  next
    case False
    then have "ws = vs" "h = k" using step n by (simp_all add: best_one_def)
    then show ?thesis using IH False by (auto simp: credit_taken_def fun_eq_iff less_Suc_eq)
  qed
qed simp

text \<open>
  C21: the list that a conquest or a genocide shows is the players of the team sorted by their
  credit, best first, equal ones in the order of their slots: the insertion into a table of the
  source is a stable sort.  A genocide clears the credit of exactly these players.
\<close>

theorem best_players_sorted:
  "fst (best_players t geno g) =
     sort_key (\<lambda>w. - score w) (map (\<lambda>j. credit_of geno j g) (filter (on_team t g) [0..<MAXPLAYER])) \<and>
   players (snd (best_players t geno g)) = (\<lambda>j. if j < MAXPLAYER then credit_taken t geno g j else players g j)"
proof -
  obtain ws h where b: "best_players t geno g = (ws, h)" by fastforce
  then have "for_upto MAXPLAYER (best_one t geno) ([], g) = (ws, h)" by (simp only: best_players_def)
  from best_loop [OF this] show ?thesis by (simp only: b fst_conv snd_conv)
qed

subsection \<open>The order of growth\<close>

definition order_ok :: "game \<Rightarrow> bool" where
  "order_ok g \<longleftrightarrow> bij_betw (pl_poporder g) {..<MAXPLANETS} {0..<int MAXPLANETS}"

lemma order_swap:
  assumes "order_ok g" and "i < MAXPLANETS"
  shows "order_ok (swap_pop i g)"
proof -
  let ?f = "pl_poporder g" and ?t = "nat (rand_val g mod int (i + 1))"
  have t: "?t < MAXPLANETS"
  proof -
    have "rand_val g mod int (i + 1) < int (i + 1)" by (rule pos_mod_bound) simp
    with assms(2) show ?thesis by linarith
  qed
  have f: "inj_on ?f {..<MAXPLANETS}" "?f ` {..<MAXPLANETS} = {0..<int MAXPLANETS}"
    using assms(1) by (auto simp: order_ok_def bij_betw_def)
  let ?h = "?f(?t := ?f i, i := ?f ?t)"
  have "inj_on ?h {..<MAXPLANETS}"
    using f(1) t assms(2) unfolding inj_on_def by (metis fun_upd_apply lessThan_iff)
  moreover have "?h ` {..<MAXPLANETS} = ?f ` {..<MAXPLANETS}"
  proof (rule card_subset_eq)
    show "finite (?f ` {..<MAXPLANETS})" by simp
    show "?h ` {..<MAXPLANETS} \<subseteq> ?f ` {..<MAXPLANETS}" using t assms(2) by auto
    show "card (?h ` {..<MAXPLANETS}) = card (?f ` {..<MAXPLANETS})"
      using \<open>inj_on ?h {..<MAXPLANETS}\<close> f(1) by (simp only: card_image)
  qed
  ultimately have "bij_betw ?h {..<MAXPLANETS} {0..<int MAXPLANETS}" using f(2) by (simp only: bij_betw_def)
  then show ?thesis by (simp add: order_ok_def swap_pop_def Let_def)
qed

lemma order_shuffle: "order_ok g \<Longrightarrow> i < MAXPLANETS \<Longrightarrow> order_ok (shuffle_from i g)"
  by (induction i arbitrary: g) (simp_all add: order_swap)

lemma order_init: "pl_poporder g 0 < 0 \<or> order_ok g \<Longrightarrow> order_ok (init_poporder g)"
proof -
  have "bij_betw int {..<MAXPLANETS} {0..<int MAXPLANETS}"
    by (simp add: bij_betw_def lessThan_atLeast0 image_int_atLeastLessThan)
  then have "bij_betw (\<lambda>i. if i < MAXPLANETS then int i else f i) {..<MAXPLANETS} {0..<int MAXPLANETS}" for f
    by (rule bij_betw_cong [THEN iffD1, rotated]) simp
  then show "pl_poporder g 0 < 0 \<or> order_ok g \<Longrightarrow> order_ok (init_poporder g)"
    by (auto simp: init_poporder_def order_ok_def)
qed

text \<open>Growth leaves the order and the place in it alone.\<close>

definition pop_order :: "game \<Rightarrow> (nat \<Rightarrow> int) \<times> nat" where
  "pop_order g = (pl_poporder g, lastpop g)"

lemma pop_order_basic [simp]:
  "pop_order (upd_planet l f g) = pop_order g" "pop_order (rand_next g) = pop_order g" "pop_order (emit e g) = pop_order g"
  by (simp_all add: pop_order_def)

lemma pop_order_track [simp]: "pop_order (army_track a g) = pop_order g"
  unfolding army_track_def by simp

lemma pop_order_grow [simp]:
  "pop_order (plague l g) = pop_order g" "pop_order (pop_small l g) = pop_order g"
  "pop_order (pop_extra l g) = pop_order g" "pop_order (pop_agri l g) = pop_order g"
  by (simp_all add: plague_def pop_small_def pop_extra_def pop_agri_def Let_def)

lemma pop_planet_order [simp]:
  "pl_poporder (PopPlanet n g) = pl_poporder g" "lastpop (PopPlanet n g) = lastpop g"
proof -
  have "pop_order (PopPlanet n g) = pop_order g" by (simp add: PopPlanet_def Let_def)
  then show "pl_poporder (PopPlanet n g) = pl_poporder g" "lastpop (PopPlanet n g) = lastpop g"
    by (simp_all add: pop_order_def)
qed

lemma RandomizePopOrder_ok:
  assumes "pl_poporder g 0 < 0 \<or> order_ok g"
  shows "order_ok (RandomizePopOrder g)" "lastpop (RandomizePopOrder g) = MAXPLANETS - 1"
proof -
  have "order_ok (shuffle_from (MAXPLANETS - 1) (init_poporder g))"
    by (rule order_shuffle [OF order_init [OF assms]]) simp
  moreover have "order_ok (h\<lparr>lastpop := n\<rparr>) = order_ok h" for h n by (simp add: order_ok_def)
  ultimately show "order_ok (RandomizePopOrder g)" by (simp only: RandomizePopOrder_def)
  have "lastpop (h\<lparr>lastpop := n\<rparr>) = n" for h :: game and n by simp
  then show "lastpop (RandomizePopOrder g) = MAXPLANETS - 1" by (simp only: RandomizePopOrder_def)
qed

text \<open>The planets that grow in the next calls, in this order.\<close>

fun pop_trace :: "nat \<Rightarrow> game \<Rightarrow> int list" where
  "pop_trace 0 g = []"
| "pop_trace (Suc n) g = (let h = udplanets g in pl_poporder h (lastpop h) # pop_trace n h)"

lemma udplanets_next:
  "0 < lastpop g \<Longrightarrow> pl_poporder (udplanets g) = pl_poporder g \<and> lastpop (udplanets g) = lastpop g - 1"
  "lastpop g = 0 \<Longrightarrow> pl_poporder (udplanets g) = pl_poporder (RandomizePopOrder g) \<and>
     lastpop (udplanets g) = lastpop (RandomizePopOrder g)"
  by (simp_all add: udplanets_def Let_def)

lemma pop_trace_down:
  "pop_trace (lastpop g) g = map (pl_poporder g) (rev [0..<lastpop g])"
proof (induction "lastpop g" arbitrary: g)
  case (Suc n)
  have next_g: "pl_poporder (udplanets g) = pl_poporder g" "lastpop (udplanets g) = n"
    using udplanets_next(1) [of g] Suc(2) by simp_all
  have "pop_trace n (udplanets g) = map (pl_poporder g) (rev [0..<n])"
    using Suc(1) [of "udplanets g"] next_g by simp
  then have "pop_trace (Suc n) g = map (pl_poporder g) (rev [0..<Suc n])" by (simp add: Let_def next_g)
  then show ?case by (simp only: Suc(2))
qed simp



subsection \<open>The collapse of an empire\<close>

text \<open>A minute of the countdown: the team's record and the messages change, nothing else.\<close>

lemma surrender_team_counts:
  assumes "1 < te_surrender (teams g t)" and "\<not> lacks_players (int t) g"
    and "te_plcount (teams g t) \<le> surrenderStart (cfg g)"
  shows "te_surrender (teams (surrender_team t g) t) = te_surrender (teams g t) - 1"
    "te_plcount (teams (surrender_team t g) t) = te_plcount (teams g t)"
    "players (surrender_team t g) = players g" "cfg (surrender_team t g) = cfg g"
  using assms by (simp_all add: surrender_team_def Let_def set_pause_def countdown_news_def all_msg_def)

lemma lacks_players_same: "players h = players g \<Longrightarrow> cfg h = cfg g \<Longrightarrow> lacks_players t h = lacks_players t g"
  by (simp add: lacks_players_def realNumShips_def)

lemma surrender_team_ends:
  assumes "te_surrender (teams g t) = 1" and "\<not> lacks_players (int t) g"
    and "te_plcount (teams g t) \<le> surrenderStart (cfg g)"
  obtains h where "surrender_team t g = terminate_race (int t) h" and "players h = players g"
proof
  let ?h = "upd_team t (\<lambda>k. k\<lparr>te_surrender := te_surrender k - 1, te_surrender_frame := frame (ctxt g)\<rparr>)
      (set_pause t TE_SURRENDER_PAUSE_OFF g)"
  show "surrender_team t g = terminate_race (int t) ?h"
    using assms by (simp add: surrender_team_def Let_def set_pause_def)
  show "players ?h = players g" by (simp add: set_pause_def)
qed

text \<open>The collapse itself.\<close>

lemma neutralise_owner:
  "pl_owner (planets (neutralise t l g) i) = (if i = l \<and> pl_owner (planets g l) = t then 0 else pl_owner (planets g i))"
  "players (neutralise t l g) = players g"
  by (simp_all add: neutralise_def set_couptime_def Let_def)

lemma kick_out_fleet:
  "planets (kick_out t w k j g) = planets g" "p_team (players (kick_out t w k j g) i) = p_team (players g i)"
  "p_status (players (kick_out t w k j g) i) =
     (if i = j \<and> p_status (players g j) = PALIVE \<and> p_team (players g j) = t then PEXPLODE else p_status (players g i))"
  by (auto simp: kick_out_def Let_def p_explosion_def)

lemma terminate_race_end:
  assumes "t \<noteq> 0"
  shows "l < MAXPLANETS \<Longrightarrow> pl_owner (planets (terminate_race t g) l) \<noteq> t"
    and "j < MAXPLAYER \<Longrightarrow> p_status (players (terminate_race t g) j) = PALIVE \<Longrightarrow> p_team (players (terminate_race t g) j) \<noteq> t"
proof -
  have owner: "pl_owner (planets (for_upto n (neutralise t) h) l) =
      (if l < n \<and> pl_owner (planets h l) = t then 0 else pl_owner (planets h l))" for n h l
    by (induction n) (auto simp: neutralise_owner less_Suc_eq)
  have kept: "planets (for_upto n (kick_out t w k) h) = planets h" for n w k h
    by (induction n) (simp_all add: kick_out_fleet)
  have fleet: "p_team (players (for_upto n (kick_out t w k) h) j) = p_team (players h j) \<and>
      p_status (players (for_upto n (kick_out t w k) h) j) =
        (if j < n \<and> p_status (players h j) = PALIVE \<and> p_team (players h j) = t then PEXPLODE else p_status (players h j))" for n w k h j
    by (induction n) (auto simp: kick_out_fleet less_Suc_eq)
  show "l < MAXPLANETS \<Longrightarrow> pl_owner (planets (terminate_race t g) l) \<noteq> t"
    using assms by (simp add: terminate_race_def Let_def kept owner)
  show "j < MAXPLAYER \<Longrightarrow> p_status (players (terminate_race t g) j) = PALIVE \<Longrightarrow> p_team (players (terminate_race t g) j) \<noteq> t"
    by (auto simp: terminate_race_def Let_def fleet split: if_splits)
qed

text \<open>
  C20: an empire that cannot stop the countdown collapses on time.  While it has enough players
  and no more planets than the countdown allows, every minute takes one from the countdown and
  touches no player; the last minute leaves the team no planet and no living ship.
\<close>

theorem empire_collapses:
  assumes "te_surrender (teams g t) = int n" and "0 < n" and "0 < t" and "\<not> lacks_players (int t) g"
    and "te_plcount (teams g t) \<le> surrenderStart (cfg g)"
  shows "(\<forall>k<n. te_surrender (teams ((surrender_team t ^^ k) g) t) = int (n - k) \<and> players ((surrender_team t ^^ k) g) = players g) \<and>
    (\<forall>l<MAXPLANETS. pl_owner (planets ((surrender_team t ^^ n) g) l) \<noteq> int t) \<and>
    (\<forall>j<MAXPLAYER. p_status (players ((surrender_team t ^^ n) g) j) = PALIVE \<longrightarrow>
       p_team (players ((surrender_team t ^^ n) g) j) \<noteq> int t)"
proof -
  let ?g = "\<lambda>k. (surrender_team t ^^ k) g"
  have run: "te_surrender (teams (?g k) t) = int (n - k) \<and> te_plcount (teams (?g k) t) = te_plcount (teams g t) \<and>
      players (?g k) = players g \<and> cfg (?g k) = cfg g" if "k < n" for k
    using that
  proof (induction k)
    case 0
    with assms(1) show ?case by simp
  next
    case (Suc k)
    then have "\<not> lacks_players (int t) (?g k)" using assms(4) lacks_players_same [of "?g k" g] by simp
    with Suc assms(5) surrender_team_counts [of "?g k" t] show ?case by (simp add: of_nat_diff)
  qed
  have "n - 1 < n" using assms(2) by simp
  with run [of "n - 1"] assms lacks_players_same [of "?g (n - 1)" g]
  have "te_surrender (teams (?g (n - 1)) t) = 1" "\<not> lacks_players (int t) (?g (n - 1))"
    "te_plcount (teams (?g (n - 1)) t) \<le> surrenderStart (cfg (?g (n - 1)))" by simp_all
  then obtain h where "surrender_team t (?g (n - 1)) = terminate_race (int t) h" by (rule surrender_team_ends)
  moreover have "?g n = surrender_team t (?g (n - 1))"
    using funpow.simps(2) [of "n - 1" "surrender_team t"] assms(2) by simp
  ultimately show ?thesis using run terminate_race_end [of "int t"] assms(3) by simp
qed

definition ex_collapsing :: game where
  "ex_collapsing = upd_team 2 (\<lambda>k. k\<lparr>te_surrender := 3\<rparr>) blank_game"

lemma empire_collapses_witness:
  "te_surrender (teams ((surrender_team 2 ^^ 2) ex_collapsing) 2) = 1 \<and>
   pl_owner (planets ((surrender_team 2 ^^ 3) ex_collapsing) 5) \<noteq> ROM"
proof -
  have "te_surrender (teams ex_collapsing 2) = 3" by (simp add: ex_collapsing_def)
  moreover have "\<not> lacks_players 2 ex_collapsing" "te_plcount (teams ex_collapsing 2) \<le> surrenderStart (cfg ex_collapsing)"
    by (simp_all add: ex_collapsing_def lacks_players_def realNumShips_def blank_defs)
  ultimately show ?thesis using empire_collapses [of ex_collapsing 2 3] by simp
qed

end
