(* ===== verification/Armies.thy ===== *)
theory Armies
  imports Planets Bay
begin

text \<open>
  Bombing and beaming in \<^verbatim>\<open>ntserv/daemon.c\<close>.  \<^verbatim>\<open>plfight\<close> lets the planets fire, carries out the
  bombing orders and completes coups; \<^verbatim>\<open>beam\<close> moves one army of every ship that beams, between
  the ship and the planet it orbits or the base it is docked at, and may destroy a planet, take
  it over, end a team or the game.
\<close>

subsection \<open>Coups and bombing\<close>

definition coup_one :: "nat \<Rightarrow> game \<Rightarrow> game" where
  "coup_one h g =
     (let g = (if meets (pl_flags (planets g h)) PLCOUP then
                 let old = pl_owner (planets g h);
                     g = upd_planet h (\<lambda>l. l\<lparr>pl_flags := pl_flags l AND NOT PLCOUP\<rparr>) g;
                     g = emit (Pmessage old ''MTEAM | MCOUP1'' ''Planet lost in political struggle'') g;
                     g = upd_planet h (\<lambda>l. l\<lparr>pl_owner := pl_flags l AND ALLTEAM, pl_armies := 4\<rparr>) g
                 in emit (Pmessage (pl_owner (planets g h)) ''MTEAM | MCOUP2'' ''Previous dictatorship overthrown in coup d'etat'') g
               else g);
          g = upd_planet h (\<lambda>l. l\<lparr>pl_flags := pl_flags l AND NOT PLREDRAW\<rparr>) g
      in if pl_warning g h > 0 then g\<lparr>pl_warning := (pl_warning g)(h := pl_warning g h - 1)\<rparr> else g)"

text \<open>Whether the ship bombs the planet it orbits.\<close>

definition bombs :: "nat \<Rightarrow> game \<Rightarrow> bool" where
  "bombs j g \<longleftrightarrow>
     (let p = players g j; l = planets g (p_planet p) in
      has (p_flags p) PFORBIT \<and> has (p_flags p) PFBOMB \<and> p_team p \<noteq> pl_owner l \<and>
      meets (p_war p) (pl_owner l) \<and> \<not> pl_armies l < 5)"

definition bomb_warning :: "nat \<Rightarrow> nat \<Rightarrow> game \<Rightarrow> game" where
  "bomb_warning j l g =
     (if pl_warning g l \<le> 0
      then emit (Pmessage (pl_owner (planets g l)) ''MTEAM | MBOMB'' ''We are being attacked by %s %s who is %d%% damaged.'')
             (g\<lparr>pl_warning := (pl_warning g)(l := 50 div 5)\<rparr>)
      else g)"

text \<open>Half of the throws miss.\<close>

definition bomb_yield :: "int \<Rightarrow> player \<Rightarrow> int" where
  "bomb_yield rnd p =
     (if rnd < 50 then 0
      else (if rnd < 80 then 1 else if rnd < 90 then 2 else 3) + (if s_type (p_ship p) = ASSAULT then 1 else 0))"

definition bomb_hit :: "nat \<Rightarrow> nat \<Rightarrow> int \<Rightarrow> game \<Rightarrow> game" where
  "bomb_hit j l ab g =
     (let g = upd_planet l (\<lambda>k. let k = k\<lparr>pl_armies := pl_armies k - ab\<rparr>
                in if pl_armies k < 5 then k\<lparr>pl_flags := pl_flags k OR PLREDRAW\<rparr> else k) g;
          g = upd_player j (\<lambda>p. p\<lparr>p_kills := p_kills p + 2 / 100 * of_int ab, p_armsbomb := p_armsbomb p + ab,
                p_genoarmsbomb := p_genoarmsbomb p + ab\<rparr>) g;
          g = army_track AMT_BOMB g;
          g = (if tourn g then g\<lparr>status := (status g)\<lparr>st_armsbomb := st_armsbomb (status g) + of_int ab\<rparr>\<rparr> else g);
          g = ltd_update_bomb j l ab (ltd_update_kills_max j g)
      in plrescue l g)"

definition bomb_one :: "nat \<Rightarrow> game \<Rightarrow> game" where
  "bomb_one j g =
     (if p_status (players g j) \<noteq> PALIVE then g
      else
        let g = pldamageplayer j g in
        if \<not> bombs j g then g
        else
          let l = p_planet (players g j); g = bomb_warning j l g;
              g = upd_player j (\<lambda>p. p\<lparr>p_swar := p_swar p OR pl_owner (planets g l)\<rparr>) g;
              ab = bomb_yield (rand_val g mod 100) (players g j); g = rand_next g
          in if ab = 0 then g else bomb_hit j l ab g)"

definition plfight :: "game \<Rightarrow> game" where
  "plfight g = for_upto MAXPLAYER bomb_one (for_upto MAXPLANETS coup_one g)"

subsection \<open>Beaming up\<close>

text \<open>Two armies for a whole kill, three in an assault ship, counted in hundredths.\<close>

definition kill_capacity :: "player \<Rightarrow> int" where
  "kill_capacity p =
     (let kills = of_int (trunc (p_kills p * 100)) / 100
      in trunc (kills * (if s_type (p_ship p) = ASSAULT then 3 else 2)))"

definition room_for_army :: "player \<Rightarrow> bool" where
  "room_for_army p \<longleftrightarrow>
     p_armies p < s_maxarmies (p_ship p) \<and> (s_type (p_ship p) = STARBASE \<or> p_armies p < kill_capacity p)"

definition may_beam_up :: "nat \<Rightarrow> game \<Rightarrow> bool" where
  "may_beam_up j g \<longleftrightarrow>
     (let p = players g j; l = planets g (p_planet p) in
      (has (p_flags p) PFORBIT \<longrightarrow> \<not> pl_armies l < 5 \<and> p_team p = pl_owner l \<and> \<not> meets (p_war p) (pl_owner l)) \<and>
      (has (p_flags p) PFDOCK \<longrightarrow> \<not> p_armies (players g (p_dock_with p)) < 1) \<and> room_for_army p)"

definition add_armies :: "int \<Rightarrow> player \<Rightarrow> player" where
  "add_armies n p = p\<lparr>p_armies := p_armies p + n\<rparr>"

definition reinforce :: "int \<Rightarrow> planet \<Rightarrow> planet" where
  "reinforce n l = l\<lparr>pl_armies := pl_armies l + n\<rparr>"

definition beam_up_army :: "nat \<Rightarrow> game \<Rightarrow> game" where
  "beam_up_army j g =
     (if \<not> may_beam_up j g then g
      else
        let g = upd_player j (add_armies 1) g in
        if pflag j PFORBIT g
        then ltd_update_armies_carried j None (army_track AMT_BEAMUP (upd_planet (p_planet (players g j)) (reinforce (-1)) g))
        else if pflag j PFDOCK g then
          let base = p_dock_with (players g j)
          in ltd_update_armies_carried j (Some base) (army_track AMT_TRANSUP (upd_player base (add_armies (-1)) g))
        else g)"

subsection \<open>Beaming down\<close>

text \<open>The last army of a planet is gone.\<close>

definition planet_destroyed :: "nat \<Rightarrow> nat \<Rightarrow> game \<Rightarrow> game" where
  "planet_destroyed j l g =
     (let k = planets g l; old = pl_owner k;
          g = emit (Pmessage old ''MTEAM | MDEST'' ''%s destroyed by %s'') g;
          g = (if tourn g \<and> realNumShips old g < 2 \<and> realNumShips (pl_flags k AND ALLTEAM) g < 2
               then upd_planet l (\<lambda>k. k\<lparr>pl_flags := pl_flags k OR PLCHEAP\<rparr>) g else g);
          g = ltd_update_planets j l (upd_planet l (\<lambda>k. k\<lparr>pl_owner := NOBODY\<rparr>) g);
          g = (if NotTmode g \<and> \<not> bot_in_game g then
                 let g = (if pl_flags (planets g l) AND ALLTEAM \<noteq> p_team (players g j)
                          then rescue (-3) (p_no (players g j)) g else g)
                 in rescue (-3) (p_no (players g j)) g
               else g)
      in checkgen old j g)"

definition beam_down_attack :: "nat \<Rightarrow> nat \<Rightarrow> game \<Rightarrow> game" where
  "beam_down_attack j l g =
     (let g = upd_planet l (reinforce (-1)) (upd_player j (\<lambda>p. p\<lparr>p_swar := p_swar p OR pl_owner (planets g l)\<rparr>) g);
          g = upd_player j (\<lambda>p. p\<lparr>p_kills := p_kills p + 2 / 100, p_armsbomb := p_armsbomb p + 1,
                p_genoarmsbomb := p_genoarmsbomb p + 1\<rparr>) g;
          g = ltd_update_kills_max j (ltd_update_armies j l g)
      in if pl_armies (planets g l) = 0 then planet_destroyed j l g else g)"

definition take_planet :: "nat \<Rightarrow> nat \<Rightarrow> game \<Rightarrow> game \<times> bool" where
  "take_planet j l g =
     (let t = p_team (players g j);
          g = upd_player j (\<lambda>p. p\<lparr>p_planets := p_planets p + 1, p_genoplanets := p_genoplanets p + 1,
                p_kills := p_kills p + 1 / 4\<rparr>) (upd_planet l (reinforce 1) g);
          g = upd_planet l (\<lambda>k. k\<lparr>pl_flags := pl_flags k AND NOT PLCHEAP, pl_owner := t, pl_info := t\<rparr>) g;
          g = (if tourn g then g\<lparr>status := (status g)\<lparr>st_planets := st_planets (status g) + 1\<rparr>\<rparr> else g);
          g = ltd_update_kills_max j (ltd_update_planets j l (ltd_update_armies j l g));
          (g, won) = checkwin j g
      in if won then (g, True)
         else (emit (Pmessage (pl_owner (planets g l)) ''MTEAM | MTAKE'' ''%s taken over by %s'') g, False))"

definition beam_down_planet :: "nat \<Rightarrow> nat \<Rightarrow> game \<Rightarrow> game \<times> bool" where
  "beam_down_planet j l g =
     (let p = players g j; own = pl_owner (planets g l) in
      if \<not> meets (p_war p) own \<and> p_team p \<noteq> own \<and> own \<noteq> NOBODY then (g, False)
      else
        let g = upd_player j (add_armies (-1)) (army_track AMT_BEAMDOWN g) in
        if p_team p \<noteq> own then
          if pl_armies (planets g l) \<noteq> 0 then (beam_down_attack j l g, False) else take_planet j l g
        else (ltd_update_armies j l (upd_planet l (reinforce 1) g), False))"

definition beam_down_base :: "nat \<Rightarrow> nat \<Rightarrow> game \<Rightarrow> game" where
  "beam_down_base j base g =
     (let b = players g base in
      if p_team b \<noteq> p_team (players g j) \<or> p_armies b \<ge> s_maxarmies (p_ship b) then g
      else ltd_update_armies_ferried j base
             (upd_player base (add_armies 1) (upd_player j (add_armies (-1)) (army_track AMT_TRANSDOWN g))))"

definition beam_down_army :: "nat \<Rightarrow> game \<Rightarrow> game \<times> bool" where
  "beam_down_army j g =
     (let p = players g j in
      if p_armies p = 0 then (g, False)
      else if has (p_flags p) PFORBIT then beam_down_planet j (p_planet p) g
      else if has (p_flags p) PFDOCK then (beam_down_base j (p_dock_with p) g, False)
      else (g, False))"

text \<open>The result of the functions for beaming down says whether the game was won; the loop ends then.\<close>

definition beam_one :: "nat \<Rightarrow> game \<times> bool \<Rightarrow> game \<times> bool" where
  "beam_one j s =
     (let (g, won) = s; p = players g j in
      if won then s
      else if p_status p \<noteq> PALIVE \<or> \<not> has (p_flags p) (PFORBIT OR PFDOCK) then s
      else if has (p_flags p) PFBEAMUP then (beam_up_army j g, False)
      else if has (p_flags p) PFBEAMDOWN then beam_down_army j g
      else s)"

definition beam :: "game \<Rightarrow> game" where
  "beam g = fst (for_upto MAXPLAYER beam_one (g, False))"

section \<open>Properties\<close>

subsection \<open>No army is owed\<close>

definition armies_ok :: "game \<Rightarrow> bool" where
  "armies_ok g \<longleftrightarrow> (\<forall>l. 0 \<le> pl_armies (planets g l)) \<and> (\<forall>j. 0 \<le> p_armies (players g j))"

named_theorems keeps_armies

lemma armies_basic [keeps_armies]:
  "armies_ok g \<Longrightarrow> (\<And>p. p_armies (f p) = p_armies p) \<Longrightarrow> armies_ok (upd_player i f g)"
  "armies_ok g \<Longrightarrow> (\<And>k. pl_armies (h k) = pl_armies k) \<Longrightarrow> armies_ok (upd_planet l h g)"
  "armies_ok g \<Longrightarrow> armies_ok (upd_team t u g)" "armies_ok g \<Longrightarrow> armies_ok (emit e g)"
  "armies_ok g \<Longrightarrow> armies_ok (rand_next g)" "armies_ok g \<Longrightarrow> armies_ok (g\<lparr>status := s\<rparr>)"
  "armies_ok g \<Longrightarrow> armies_ok (g\<lparr>dmn := d\<rparr>)" "armies_ok g \<Longrightarrow> armies_ok (g\<lparr>pl_warning := w\<rparr>)"
  "armies_ok g \<Longrightarrow> armies_ok (g\<lparr>tm_robots := r\<rparr>)" "armies_ok g \<Longrightarrow> armies_ok (army_track a g)"
  by (simp_all add: armies_ok_def army_track_def)

lemma armies_ltd [keeps_armies]:
  "armies_ok g \<Longrightarrow> armies_ok (ltd_update_armies_carried j b g)" "armies_ok g \<Longrightarrow> armies_ok (ltd_update_planets j l g)"
  "armies_ok g \<Longrightarrow> armies_ok (ltd_update_kills_max j g)" "armies_ok g \<Longrightarrow> armies_ok (ltd_update_armies j l g)"
  "armies_ok g \<Longrightarrow> armies_ok (ltd_update_armies_ferried j k g)" "armies_ok g \<Longrightarrow> armies_ok (ltd_update_bomb j l n g)"
  "armies_ok g \<Longrightarrow> armies_ok (ltd_update_kills k j' v g)" "armies_ok g \<Longrightarrow> armies_ok (ltd_update_deaths v m g)"
  by (simp_all add: armies_ok_def)

lemma armies_loop [keeps_armies]:
  "armies_ok g \<Longrightarrow> (\<And>i h. armies_ok h \<Longrightarrow> armies_ok (f i h)) \<Longrightarrow> armies_ok (for_upto n f g)"
  by (rule for_upto_inv [where P = armies_ok])

lemma armies_if [keeps_armies]: "(c \<Longrightarrow> armies_ok x) \<Longrightarrow> (\<not> c \<Longrightarrow> armies_ok y) \<Longrightarrow> armies_ok (if c then x else y)"
  by simp

text \<open>Conquest, genocide and what they set off.\<close>

lemma armies_parts:
  assumes "players h = players g" and "planets h = planets g" and "armies_ok g"
  shows "armies_ok h"
  using assms by (simp add: armies_ok_def)

lemma armies_displayBest [keeps_armies]:
  assumes "armies_ok g"
  shows "armies_ok (displayBest t why g)"
proof -
  have loop: "armies_ok (snd (for_upto n (best_one t geno) (ws, g)))" for n geno ws
  proof (rule for_upto_inv [where P = "\<lambda>s. armies_ok (snd s)"])
    show "armies_ok (snd (best_one t geno i s))" if "armies_ok (snd s)" for i s
      using that by (auto simp: best_one_def split: prod.split intro!: keeps_armies)
  qed (simp add: assms)
  have out: "armies_ok (fold (\<lambda>w g. if wn_planets w \<noteq> 0 \<or> wn_armies w \<noteq> 0 then emit (e w) g else g) ws h)"
    if "armies_ok h" for ws h e
    using that by (induction ws arbitrary: h) (auto intro: keeps_armies)
  obtain ws h where b: "best_players t (why = KGENOCIDE) g = (ws, h)" by fastforce
  then have "for_upto MAXPLAYER (best_one t (why = KGENOCIDE)) ([], g) = (ws, h)" by (simp only: best_players_def)
  with loop [of MAXPLAYER "why = KGENOCIDE" "[]"] have "armies_ok h" by (simp only: snd_conv)
  then show ?thesis unfolding displayBest_def b Let_def prod.case by (rule out)
qed

lemma armies_messages [keeps_armies]:
  "armies_ok g \<Longrightarrow> armies_ok (genocideMessage t w g)" "armies_ok g \<Longrightarrow> armies_ok (conquerMessage t g)"
  "armies_ok g \<Longrightarrow> armies_ok (all_msg m g)" "armies_ok g \<Longrightarrow> armies_ok (rescue c p g)"
  unfolding genocideMessage_def conquerMessage_def all_msg_def rescue_def
  by (rule armies_displayBest armies_basic(4) | assumption)+

lemma armies_counts [keeps_armies]:
  "armies_ok g \<Longrightarrow> armies_ok (recount g)" "armies_ok g \<Longrightarrow> armies_ok (recount_all g)"
  by (simp_all add: recount_def recount_all_def keeps_armies)

lemma armies_conquest [keeps_armies]:
  "armies_ok g \<Longrightarrow> armies_ok (end_surrender t g)" "armies_ok g \<Longrightarrow> armies_ok (conquer_begin w g)"
  "armies_ok g \<Longrightarrow> armies_ok (pret_round w g)" "armies_ok g \<Longrightarrow> armies_ok (start_surrender t g)"
  "armies_ok g \<Longrightarrow> armies_ok (set_couptime l g)"
  by (simp_all add: end_surrender_def conquer_begin_def conquer_begin_pret_def conquer_begin_by_type_def start_parade_def
      set_gameup_def pret_round_def start_surrender_def set_couptime_def Let_def keeps_armies)

lemma armies_checkwin [keeps_armies]: "armies_ok g \<Longrightarrow> armies_ok (fst (checkwin w g))"
  by (simp add: checkwin_def Let_def keeps_armies)

lemma armies_kick_out [keeps_armies]: "armies_ok g \<Longrightarrow> armies_ok (kick_out t why w j g)"
  unfolding kick_out_def Let_def by (intro keeps_armies; simp add: p_explosion_def)

lemma armies_reinforced:
  "armies_ok g \<Longrightarrow> 0 \<le> pl_armies (planets g l) + n \<Longrightarrow> armies_ok (upd_planet l (reinforce n) g)"
  "armies_ok g \<Longrightarrow> 0 \<le> p_armies (players g j) + n \<Longrightarrow> armies_ok (upd_player j (add_armies n) g)"
  by (auto simp: armies_ok_def reinforce_def add_armies_def)

lemma armies_more [keeps_armies]:
  "armies_ok g \<Longrightarrow> armies_ok (upd_planet l (reinforce 1) g)" "armies_ok g \<Longrightarrow> armies_ok (upd_player j (add_armies 1) g)"
  by (rule armies_reinforced; simp add: armies_ok_def)+

lemma armies_addTroops [keeps_armies]:
  assumes "armies_ok g"
  shows "armies_ok (addTroops loser w g)"
proof -
  have grow: "armies_ok (upd_planet l (\<lambda>k. k\<lparr>pl_armies := pl_armies k + n\<rparr>) h)" if "armies_ok h" "0 \<le> n" for l n h
    using that by (simp add: armies_ok_def add_nonneg_nonneg)
  define c where "c = int (count_upto MAXPLAYER (\<lambda>i. p_status (players g i) \<noteq> PFREE \<and> p_team (players g i) = loser))"
  show ?thesis
  proof (cases "c < 3")
    case True
    with assms show ?thesis by (simp add: addTroops_def Let_def c_def)
  next
    case False
    then have "0 \<le> n mod (2 * c)" for n :: int by simp
    then have one: "armies_ok (if pl_owner (planets h i) = w
        then rand_next (upd_planet i (\<lambda>k. k\<lparr>pl_armies := pl_armies k + rand_val h mod (2 * c)\<rparr>) h) else h)"
      if "armies_ok h" for i h
      using that grow by (simp add: keeps_armies)
    show ?thesis
      unfolding addTroops_def Let_def c_def [symmetric]
      using assms one by (simp add: keeps_armies False)
  qed
qed

lemma armies_checkgen [keeps_armies]:
  assumes "armies_ok g"
  shows "armies_ok (checkgen loser w g)"
proof -
  have gen: "armies_ok (genocide loser w home h)" if "armies_ok h" for home h
    using that by (auto simp: genocide_def Let_def split: option.split intro!: keeps_armies)
  show ?thesis
    using assms by (simp add: checkgen_def Let_def case_prod_beta keeps_armies gen)
qed

text \<open>Planet fire and bombs.\<close>

lemma armies_fire [keeps_armies]:
  assumes "armies_ok g"
  shows "armies_ok (pldamageplayer j g)" "armies_ok (plrescue l g)"
proof -
  have kill: "armies_ok (killmess v c k w h)" "armies_ok (count_loss h)" if "armies_ok h" for v c k w h
    using that by (simp_all add: killmess_def count_loss_def p_heal_def Let_def keeps_armies)
  have "armies_ok (planet_kill j l h)" if "armies_ok h" for l h
    using that by (simp add: planet_kill_def Let_def p_explosion_def keeps_armies kill)
  then have "armies_ok (planet_fire j l h)" if "armies_ok h" for l h
    using that by (simp add: planet_fire_def Let_def take_damage_def keeps_armies)
  then show "armies_ok (pldamageplayer j g)"
    unfolding pldamageplayer_def by (intro keeps_armies assms)
  show "armies_ok (plrescue l g)"
    using assms by (simp add: plrescue_def Let_def keeps_armies)
qed

lemma bomb_yield_bounds: "0 \<le> bomb_yield n p \<and> bomb_yield n p \<le> 4"
  by (simp add: bomb_yield_def)

lemma armies_bomb [keeps_armies]:
  assumes "armies_ok g"
  shows "armies_ok (bomb_one j g)"
proof -
  define h where "h = pldamageplayer j g"
  have h: "armies_ok h" using assms by (simp add: h_def keeps_armies)
  let ?l = "p_planet (players h j)"
  have hit: "armies_ok (bomb_hit j l n k)" if "armies_ok k" "n \<le> pl_armies (planets k l)" for l n k
  proof -
    have "armies_ok (upd_planet l (\<lambda>k. let k = k\<lparr>pl_armies := pl_armies k - n\<rparr>
        in if pl_armies k < 5 then k\<lparr>pl_flags := pl_flags k OR PLREDRAW\<rparr> else k) k)"
      using that by (simp add: armies_ok_def Let_def)
    then show ?thesis by (simp add: bomb_hit_def Let_def keeps_armies)
  qed
  have warned: "armies_ok (bomb_warning j ?l h)" "planets (bomb_warning j ?l h) = planets h"
    using h by (simp_all add: bomb_warning_def keeps_armies)
  show ?thesis
  proof (cases "p_status (players g j) = PALIVE \<and> bombs j h")
    case True
    then have "\<not> pl_armies (planets h ?l) < 5" by (simp add: bombs_def Let_def)
    then have "bomb_yield n p \<le> pl_armies (planets h ?l)" for n p using bomb_yield_bounds [of n p] by linarith
    with True warned show ?thesis
      by (simp add: bomb_one_def Let_def h_def [symmetric] keeps_armies hit)
  next
    case False
    then show ?thesis using assms h by (auto simp: bomb_one_def Let_def h_def [symmetric])
  qed
qed

lemma armies_coup [keeps_armies]: "armies_ok g \<Longrightarrow> armies_ok (coup_one h g)"
proof -
  have "armies_ok (upd_planet h (\<lambda>l. l\<lparr>pl_owner := pl_flags l AND ALLTEAM, pl_armies := 4\<rparr>) k)" if "armies_ok k" for k
    using that by (simp add: armies_ok_def)
  then show "armies_ok g \<Longrightarrow> armies_ok (coup_one h g)" by (simp add: coup_one_def Let_def keeps_armies)
qed

text \<open>Beams.\<close>

lemma armies_beam_up [keeps_armies]:
  assumes "armies_ok g"
  shows "armies_ok (beam_up_army j g)"
proof (cases "may_beam_up j g")
  case False
  with assms show ?thesis by (simp add: beam_up_army_def)
next
  case True
  define h where "h = upd_player j (add_armies 1) g"
  have h: "armies_ok h" unfolding h_def by (rule armies_reinforced(2)) (use assms in \<open>simp_all add: armies_ok_def\<close>)
  have parts: "p_flags (players h j) = p_flags (players g j)" "p_planet (players h j) = p_planet (players g j)"
    "p_dock_with (players h j) = p_dock_with (players g j)" "planets h = planets g"
    by (simp_all add: h_def add_armies_def)
  have orbit: "0 \<le> pl_armies (planets h (p_planet (players g j))) - 1" if "pflag j PFORBIT g"
    using True that parts by (simp add: may_beam_up_def Let_def)
  have dock: "0 \<le> p_armies (players h (p_dock_with (players g j))) - 1" if "pflag j PFDOCK g"
    using True that by (cases "p_dock_with (players g j) = j") (simp_all add: may_beam_up_def Let_def h_def add_armies_def)
  show ?thesis
    using True h orbit dock parts
    by (simp add: beam_up_army_def Let_def h_def [symmetric] armies_reinforced keeps_armies)
qed

lemma armies_destroyed [keeps_armies]: "armies_ok g \<Longrightarrow> armies_ok (planet_destroyed j l g)"
  by (simp add: planet_destroyed_def Let_def keeps_armies)

lemma armies_attack:
  assumes "armies_ok g" and "pl_armies (planets g l) \<noteq> 0"
  shows "armies_ok (beam_down_attack j l g)"
proof -
  let ?h = "upd_player j (\<lambda>p. p\<lparr>p_swar := p_swar p OR pl_owner (planets g l)\<rparr>) g"
  have "0 \<le> pl_armies (planets g l)" using assms(1) by (simp add: armies_ok_def)
  then have "armies_ok (upd_planet l (reinforce (-1)) ?h)"
    using assms by (intro armies_reinforced keeps_armies) simp_all
  then show ?thesis by (simp add: beam_down_attack_def Let_def keeps_armies)
qed

lemma armies_take: "armies_ok g \<Longrightarrow> armies_ok (fst (take_planet j l g))"
proof -
  assume ok: "armies_ok g"
  then have "armies_ok (upd_planet l (reinforce 1) g)" by (rule armies_more)
  then show ?thesis by (simp add: take_planet_def Let_def case_prod_beta keeps_armies)
qed

lemma armies_beam_down [keeps_armies]:
  assumes "armies_ok g"
  shows "armies_ok (fst (beam_down_army j g))"
proof (cases "p_armies (players g j) = 0")
  case True
  with assms show ?thesis by (simp add: beam_down_army_def)
next
  case False
  with assms have one: "0 \<le> p_armies (players g j) - 1" by (simp add: armies_ok_def) (metis int_one_le_iff_zero_less order_le_less)
  have down: "armies_ok (upd_player j (add_armies (-1)) (army_track a g))" for a
    by (rule armies_reinforced(2)) (use assms one in \<open>simp_all add: keeps_armies army_track_def\<close>)
  have planet: "armies_ok (fst (beam_down_planet j l g))" for l
  proof -
    let ?h = "upd_player j (add_armies (-1)) (army_track AMT_BEAMDOWN g)"
    have "armies_ok (upd_planet l (reinforce 1) ?h)" using down by (rule armies_more)
    with down show ?thesis
      by (simp add: beam_down_planet_def Let_def assms armies_attack armies_take keeps_armies)
  qed
  have base: "armies_ok (beam_down_base j b g)" for b
  proof -
    let ?h = "upd_player j (add_armies (-1)) (army_track AMT_TRANSDOWN g)"
    have "armies_ok (upd_player b (add_armies 1) ?h)" using down by (rule armies_more)
    with assms show ?thesis by (simp add: beam_down_base_def Let_def keeps_armies)
  qed
  show ?thesis using assms planet base by (simp add: beam_down_army_def Let_def)
qed

text \<open>
  C4: bombing and beaming never leave a planet or a ship with fewer than no armies, whoever bombs
  and beams in whatever order, planets are taken or destroyed, and teams or the game end.
\<close>

theorem armies_never_negative:
  assumes "armies_ok g"
  shows "armies_ok (plfight g) \<and> armies_ok (beam g)"
proof
  show "armies_ok (plfight g)" using assms by (simp add: plfight_def keeps_armies del: for_upto_Suc)
  have "armies_ok (fst (for_upto n beam_one (g, False)))" for n
  proof (rule for_upto_inv [where P = "\<lambda>s. armies_ok (fst s)"])
    show "armies_ok (fst (beam_one j s))" if "armies_ok (fst s)" for j s
      using that by (auto simp: beam_one_def Let_def split: prod.split intro: keeps_armies)
  qed (simp add: assms)
  then show "armies_ok (beam g)" by (simp only: beam_def)
qed

lemma blank_armies: "armies_ok blank_game"
  by (simp add: armies_ok_def blank_defs)

lemma armies_never_negative_witness: "armies_ok (plfight blank_game) \<and> armies_ok (beam blank_game)"
  using armies_never_negative [OF blank_armies] .

subsection \<open>Beaming up\<close>

text \<open>All the armies of the galaxy, on planets and in ships.\<close>

definition all_armies :: "game \<Rightarrow> int" where
  "all_armies g = (\<Sum>l<MAXPLANETS. pl_armies (planets g l)) + (\<Sum>j<MAXPLAYER. p_armies (players g j))"

lemma sum_change:
  fixes h :: "'a \<Rightarrow> int" and n :: nat
  assumes "a < n"
  shows "(\<Sum>l<n. h ((F(a := x)) l)) = (\<Sum>l<n. h (F l)) + (h x - h (F a))"
proof -
  have "(\<Sum>l<n. h ((F(a := x)) l)) = h x + (\<Sum>l\<in>{..<n} - {a}. h ((F(a := x)) l))"
    using assms by (subst sum.remove [of _ a]) simp_all
  also have "(\<Sum>l\<in>{..<n} - {a}. h ((F(a := x)) l)) = (\<Sum>l\<in>{..<n} - {a}. h (F l))"
    by (intro sum.cong) auto
  also have "(\<Sum>l<n. h (F l)) = h (F a) + (\<Sum>l\<in>{..<n} - {a}. h (F l))"
    using assms by (intro sum.remove) simp_all
  ultimately show ?thesis by simp
qed

lemma all_armies_moved:
  "j < MAXPLAYER \<Longrightarrow> all_armies (upd_player j (add_armies n) g) = all_armies g + n"
  "l < MAXPLANETS \<Longrightarrow> all_armies (upd_planet l (reinforce n) g) = all_armies g + n"
  using sum_change [of j MAXPLAYER p_armies "players g" "add_armies n (players g j)"]
    sum_change [of l MAXPLANETS pl_armies "planets g" "reinforce n (planets g l)"]
  by (simp_all add: all_armies_def add_armies_def reinforce_def)

lemma all_armies_frames:
  "all_armies (ltd_update_armies_carried j b g) = all_armies g" "all_armies (army_track a g) = all_armies g"
  by (simp_all add: all_armies_def army_track_def)

text \<open>
  C31: a ship that may beam up takes exactly one army, from the planet it orbits or the base it is
  docked at, and no army is made or lost.  It never carries more than its class and, but for a
  starbase, its kills allow, and the planet keeps at least four.
\<close>

theorem beam_up_takes_one:
  assumes "may_beam_up j g" and "pflag j PFORBIT g \<or> pflag j PFDOCK g"
    and "j < MAXPLAYER" and "p_planet (players g j) < MAXPLANETS"
    and "p_dock_with (players g j) < MAXPLAYER" and "p_dock_with (players g j) \<noteq> j"
  shows "all_armies (beam_up_army j g) = all_armies g \<and>
    p_armies (players (beam_up_army j g) j) = p_armies (players g j) + 1 \<and>
    p_armies (players (beam_up_army j g) j) \<le> s_maxarmies (p_ship (players g j)) \<and>
    (s_type (p_ship (players g j)) \<noteq> STARBASE \<longrightarrow>
      p_armies (players (beam_up_army j g) j) \<le> kill_capacity (players g j)) \<and>
    (pflag j PFORBIT g \<longrightarrow> 4 \<le> pl_armies (planets (beam_up_army j g) (p_planet (players g j))))"
proof -
  define h where "h = upd_player j (add_armies 1) g"
  have h: "all_armies h = all_armies g + 1" "p_armies (players h j) = p_armies (players g j) + 1"
    "p_flags (players h j) = p_flags (players g j)" "p_planet (players h j) = p_planet (players g j)"
    "p_dock_with (players h j) = p_dock_with (players g j)" "planets h = planets g"
    using assms(3) by (simp_all add: h_def all_armies_moved) (simp_all add: add_armies_def)
  have room: "room_for_army (players g j)" and
    orbit: "pflag j PFORBIT g \<Longrightarrow> 5 \<le> pl_armies (planets g (p_planet (players g j)))"
    using assms(1) by (simp_all add: may_beam_up_def Let_def)
  have up: "beam_up_army j g = (if pflag j PFORBIT g
      then ltd_update_armies_carried j None (army_track AMT_BEAMUP (upd_planet (p_planet (players g j)) (reinforce (-1)) h))
      else ltd_update_armies_carried j (Some (p_dock_with (players g j)))
        (army_track AMT_TRANSUP (upd_player (p_dock_with (players g j)) (add_armies (-1)) h)))"
    using assms(1,2) h by (auto simp: beam_up_army_def Let_def h_def [symmetric])
  have "all_armies (beam_up_army j g) = all_armies g"
    using assms(4,5) h by (simp add: up all_armies_frames all_armies_moved)
  moreover have "p_armies (players (beam_up_army j g) j) = p_armies (players g j) + 1"
    using assms(6) h by (simp add: up army_track_def)
  moreover have "pflag j PFORBIT g \<longrightarrow> 4 \<le> pl_armies (planets (beam_up_army j g) (p_planet (players g j)))"
    using orbit h by (auto simp: up army_track_def reinforce_def)
  ultimately show ?thesis using room by (auto simp: room_for_army_def)
qed

definition ex_beamer :: game where
  "ex_beamer =
     upd_planet 3 (\<lambda>l. l\<lparr>pl_armies := 9, pl_owner := FED\<rparr>)
       (upd_player 2 (\<lambda>p. p\<lparr>p_flags := PFORBIT, p_team := FED, p_planet := 3, p_kills := 2, p_dock_with := 7,
          p_ship := (p_ship p)\<lparr>s_maxarmies := 6, s_type := CRUISER\<rparr>\<rparr>) blank_game)"

lemma beam_up_takes_one_witness:
  "p_armies (players (beam_up_army 2 ex_beamer) 2) = 1 \<and> 4 \<le> pl_armies (planets (beam_up_army 2 ex_beamer) 3)"
proof -
  have p: "p_flags (players ex_beamer 2) = PFORBIT" "p_team (players ex_beamer 2) = FED" "p_planet (players ex_beamer 2) = 3"
    "p_kills (players ex_beamer 2) = 2" "p_dock_with (players ex_beamer 2) = 7" "p_armies (players ex_beamer 2) = 0"
    "p_war (players ex_beamer 2) = 0" "s_maxarmies (p_ship (players ex_beamer 2)) = 6" "s_type (p_ship (players ex_beamer 2)) = CRUISER"
    and l: "pl_armies (planets ex_beamer 3) = 9" "pl_owner (planets ex_beamer 3) = FED"
    by (simp_all add: ex_beamer_def blank_defs)
  have "trunc (2 * 100 :: rat) = 200" by simp
  then have "may_beam_up 2 ex_beamer"
    by (simp add: may_beam_up_def room_for_army_def kill_capacity_def Let_def p l has_def meets_def)
  then show ?thesis using beam_up_takes_one [of 2 ex_beamer] by (simp add: p l has_def)
qed

end
