(* ===== verification/Wander.thy ===== *)
theory Wander
  imports Combat
begin

text \<open>
  \<^verbatim>\<open>ntserv/wander2.c\<close>: the core planets circle their home planet.  The functions of the C
  mathematics library are the fields of a record that the model takes as a parameter; the
  tables of cosines and sines are written as the functions that fill them.
\<close>

record libm =
  lm_atan2 :: "int \<Rightarrow> int \<Rightarrow> rat"
  lm_cos :: "rat \<Rightarrow> rat"
  lm_sin :: "rat \<Rightarrow> rat"

definition pl_home :: "nat \<Rightarrow> nat" where
  "pl_home i = 10 * i"

definition pl_core :: "nat \<Rightarrow> nat \<Rightarrow> nat" where
  "pl_core i j = [[5, 7, 8, 9], [12, 15, 16, 19], [24, 26, 29, 25], [34, 37, 38, 39]] ! i ! j"

definition Cosine :: "libm \<Rightarrow> nat \<Rightarrow> rat" where
  "Cosine m k = lm_cos m (of_nat k * (16 / 1000))"

definition Sine :: "libm \<Rightarrow> nat \<Rightarrow> rat" where
  "Sine m k = lm_sin m (of_nat k * (16 / 1000))"

definition COS :: "libm \<Rightarrow> rat \<Rightarrow> rat" where
  "COS m x = (if x \<ge> 0 then Cosine m (nat (trunc x)) else Cosine m (nat (trunc (- x))))"

definition SIN :: "libm \<Rightarrow> rat \<Rightarrow> rat" where
  "SIN m x = (if x \<ge> 0 then Sine m (nat (trunc x)) else - Sine m (nat (trunc (- x))))"

text \<open>The distances, measured once at the start.\<close>

definition pinit :: "game \<Rightarrow> game" where
  "pinit g =
     g\<lparr>dmn := (dmn g)\<lparr>pl_dist := (\<lambda>k. let c = planets g (pl_core (k div 4) (k mod 4)); h = planets g (pl_home (k div 4))
         in hypot_int (pl_x c - pl_x h) (pl_y c - pl_y h))\<rparr>\<rparr>"

definition wander_angle :: "libm \<Rightarrow> planet \<Rightarrow> planet \<Rightarrow> rat" where
  "wander_angle m c h =
     (let dir = lm_atan2 m (pl_y c - pl_y h) (pl_x c - pl_x h)
      in if dir \<ge> 0 then dir * (125 / 2) + 3 / 2 else dir * (125 / 2) + 1 / 2)"

definition pmove_one :: "libm \<Rightarrow> game \<Rightarrow> game" where
  "pmove_one m g =
     (let i = planeti (dmn g); j = planetj (dmn g); j' = (j + 1) mod 4;
          g = g\<lparr>dmn := (dmn g)\<lparr>planetj := j', planeti := (if j' = 0 then (i + 1) mod 4 else i)\<rparr>\<rparr>;
          c = planets g (pl_core i j); h = planets g (pl_home i);
          dir = wander_angle m c h; d = of_int (pl_dist (dmn g) (4 * i + j))
      in upd_planet (pl_core i j) (\<lambda>l. l\<lparr>pl_x := pl_x h + trunc (d * COS m dir),
           pl_y := pl_y h + trunc (d * SIN m dir), pl_flags := pl_flags l OR PLREDRAW\<rparr>) g)"

definition pmove :: "libm \<Rightarrow> game \<Rightarrow> game" where
  "pmove m g = for_upto 16 (\<lambda>_. pmove_one m) g"

end
