(* ===== verification/Draft.thy ===== *)
theory Draft
  imports Galaxy Ships Bay
begin

text \<open>
  \<^verbatim>\<open>ntserv/draft.c\<close>: the captains of two teams pick players from a pool.  Every slot has a
  draft state and a place to move to; each tick moves the ships a tenth of the way, and a ship
  that arrives changes its state.  The three styles place captains, pool and picks differently.
\<close>

subsection \<open>States\<close>

abbreviation (input) INL_DRAFT_CAPTAIN_UP :: int where "INL_DRAFT_CAPTAIN_UP \<equiv> 2"
abbreviation (input) INL_DRAFT_CAPTAIN_DOWN :: int where "INL_DRAFT_CAPTAIN_DOWN \<equiv> 3"
abbreviation (input) INL_DRAFT_POOLED :: int where "INL_DRAFT_POOLED \<equiv> 4"
abbreviation (input) INL_DRAFT_PICKED :: int where "INL_DRAFT_PICKED \<equiv> 6"
abbreviation (input) INL_DRAFT_PICKED_SELECTOR :: int where "INL_DRAFT_PICKED_SELECTOR \<equiv> 7"
abbreviation (input) INL_DRAFT_MOVING_TO_HOME :: int where "INL_DRAFT_MOVING_TO_HOME \<equiv> 8"
abbreviation (input) INL_DRAFT_END :: int where "INL_DRAFT_END \<equiv> 9"

abbreviation (input) INL_DRAFT_STYLE_CENTRE_OUTWARDS :: int where "INL_DRAFT_STYLE_CENTRE_OUTWARDS \<equiv> 0"
abbreviation (input) INL_DRAFT_STYLE_LEFT_TO_RIGHT :: int where "INL_DRAFT_STYLE_LEFT_TO_RIGHT \<equiv> 1"
abbreviation (input) INL_DRAFT_STYLE_BOTTOM_TO_TOP :: int where "INL_DRAFT_STYLE_BOTTOM_TO_TOP \<equiv> 2"

abbreviation (input) DRAFT_X :: int where "DRAFT_X \<equiv> 50000"
abbreviation (input) DRAFT_Y :: int where "DRAFT_Y \<equiv> 50000"
abbreviation (input) DRAFT_W :: int where "DRAFT_W \<equiv> 20000"

abbreviation (input) RANK_ADMIRAL :: int where "RANK_ADMIRAL \<equiv> 8"
abbreviation (input) NUMRANKS :: int where "NUMRANKS \<equiv> 9"

definition inl_draft_ignore :: "player \<Rightarrow> bool" where
  "inl_draft_ignore p \<longleftrightarrow> p_status p = PFREE \<or> has (p_flags p) PFROBOT \<or> has (p_flags p) PFOBSERV"

definition inl_draft_count_by_state :: "int \<Rightarrow> game \<Rightarrow> nat" where
  "inl_draft_count_by_state d g =
     count_upto MAXPLAYER (\<lambda>h. \<not> inl_draft_ignore (players g h) \<and> p_inl_draft (players g h) = d)"

definition inl_draft_pool_size :: "game \<Rightarrow> nat" where
  "inl_draft_pool_size g =
     count_upto MAXPLAYER (\<lambda>h. \<not> inl_draft_ignore (players g h) \<and>
       p_inl_draft (players g h) \<in> {INL_DRAFT_MOVING_TO_POOL, INL_DRAFT_POOLED, INL_DRAFT_MOVING_TO_PICK})"

definition draft_captain :: "player \<Rightarrow> bool" where
  "draft_captain p \<longleftrightarrow> p_inl_draft p = INL_DRAFT_CAPTAIN_UP \<or> p_inl_draft p = INL_DRAFT_CAPTAIN_DOWN"

definition inl_draft_team_to_captain :: "int \<Rightarrow> game \<Rightarrow> nat option" where
  "inl_draft_team_to_captain team g =
     first_in 0 MAXPLAYER (\<lambda>h. let p = players g h in
       \<not> inl_draft_ignore p \<and> p_inl_captain p \<noteq> 0 \<and> p_team p = team \<and> draft_captain p)"

definition inl_draft_pick_to_captain :: "nat \<Rightarrow> game \<Rightarrow> nat option" where
  "inl_draft_pick_to_captain k g = inl_draft_team_to_captain (p_team (players g k)) g"

subsection \<open>Places\<close>

text \<open>\<open>by_side t d\<close> is \<open>d\<close> for the home team, \<open>-d\<close> for the away team, 0 for others.\<close>

definition by_side :: "int \<Rightarrow> int \<Rightarrow> int" where
  "by_side t d = (if t = FED then d else if t = ROM then - d else 0)"

definition place_at :: "int \<Rightarrow> int \<Rightarrow> player \<Rightarrow> player" where
  "place_at x y p = p\<lparr>p_inl_x := x, p_inl_y := y\<rparr>"

definition inl_draft_place_captain :: "int \<Rightarrow> player \<Rightarrow> player" where
  "inl_draft_place_captain style p =
     (if style = INL_DRAFT_STYLE_LEFT_TO_RIGHT then place_at DRAFT_X (DRAFT_Y + by_side (p_team p) 2000) p
      else if style = INL_DRAFT_STYLE_BOTTOM_TO_TOP then place_at (DRAFT_X + by_side (p_team p) (DRAFT_W div 10)) DRAFT_Y p
      else if style = INL_DRAFT_STYLE_CENTRE_OUTWARDS
      then place_at DRAFT_X (if p_team p = FED \<or> p_team p = ROM then DRAFT_Y + by_side (p_team p) 2000 else p_inl_y p) p
      else p)"

definition inl_draft_place_pool :: "int \<Rightarrow> int \<Rightarrow> player \<Rightarrow> player" where
  "inl_draft_place_pool style n p =
     (if style = INL_DRAFT_STYLE_LEFT_TO_RIGHT
      then place_at (DRAFT_X - 10000 + p_inl_pool p * (10000 div 18) + 1000) DRAFT_Y p
      else if style = INL_DRAFT_STYLE_BOTTOM_TO_TOP
      then let dy = DRAFT_W div 5; dx = DRAFT_W div 2
           in place_at (DRAFT_X - dx div 2 + p_inl_pool p * (dx div 14)) (DRAFT_Y + dy) p
      else if style = INL_DRAFT_STYLE_CENTRE_OUTWARDS
      then if n = 0 then place_at DRAFT_X DRAFT_Y p
           else let dx = DRAFT_W div 20 in place_at (DRAFT_X - dx * n sdiv 2 + p_inl_pool p * dx) DRAFT_Y p
      else p)"

definition inl_draft_place_pick :: "int \<Rightarrow> int \<Rightarrow> int \<Rightarrow> player \<Rightarrow> player" where
  "inl_draft_place_pick style home away p =
     (let t = p_team p; k = p_inl_pick p in
      if style = INL_DRAFT_STYLE_LEFT_TO_RIGHT
      then place_at (DRAFT_X + k * (DRAFT_W div 20)) (DRAFT_Y + by_side t 4000) p
      else if style = INL_DRAFT_STYLE_BOTTOM_TO_TOP
      then let dx = by_side t (DRAFT_W div 8 + DRAFT_W div 10 * (k sdiv 3));
               dy = (if t = FED \<or> t = ROM then DRAFT_W div 8 + DRAFT_W div 10 * (k smod 3) else 0)
           in place_at (DRAFT_X + dx) (DRAFT_Y - dy) p
      else if style = INL_DRAFT_STYLE_CENTRE_OUTWARDS
      then let n = (if t = ROM then away else if t = FED then home else 0); dx = DRAFT_W div 20;
               y = (if t = FED \<or> t = ROM then DRAFT_Y + by_side t 4000 else p_inl_y p)
           in place_at (if n = 0 then DRAFT_X else DRAFT_X - dx * n sdiv 2 + k * dx + dx div 2) y p
      else p)"

definition inl_draft_place_selector :: "int \<Rightarrow> player \<Rightarrow> player" where
  "inl_draft_place_selector style p =
     (let p = inl_draft_place_captain style p in
      if style = INL_DRAFT_STYLE_BOTTOM_TO_TOP then p\<lparr>p_inl_y := p_inl_y p - 1000\<rparr>
      else if style = INL_DRAFT_STYLE_LEFT_TO_RIGHT then p\<lparr>p_inl_x := p_inl_x p - 2000\<rparr>
      else if style = INL_DRAFT_STYLE_CENTRE_OUTWARDS then p\<lparr>p_inl_x := p_inl_x p - by_side (p_team p) 2000\<rparr>
      else p)"

definition inl_draft_place_end :: "nat \<Rightarrow> game \<Rightarrow> game" where
  "inl_draft_place_end j g =
     (let (g, x, y) = pl_pick_home_offset (p_team (players g j)) g in upd_player j (place_at x y) g)"

definition inl_draft_place :: "nat \<Rightarrow> game \<Rightarrow> game" where
  "inl_draft_place j g =
     (let d = p_inl_draft (players g j); style = inl_draft_style (cfg g); c = ctxt g in
      if d = INL_DRAFT_CAPTAIN_UP \<or> d = INL_DRAFT_CAPTAIN_DOWN then upd_player j (inl_draft_place_captain style) g
      else if d = INL_DRAFT_MOVING_TO_POOL \<or> d = INL_DRAFT_POOLED then upd_player j (inl_draft_place_pool style (inl_pool c)) g
      else if d = INL_DRAFT_MOVING_TO_PICK \<or> d = INL_DRAFT_PICKED
      then upd_player j (inl_draft_place_pick style (inl_home_pick c) (inl_away_pick c)) g
      else if d = INL_DRAFT_PICKED_SELECTOR then upd_player j (inl_draft_place_selector style) g
      else g)"

subsection \<open>Beginning and end\<close>

definition tell :: "nat \<Rightarrow> string \<Rightarrow> game \<Rightarrow> game" where
  "tell j m g = emit (God (int (p_no (players g j))) m) g"

definition shout :: "string \<Rightarrow> game \<Rightarrow> game" where
  "shout m = emit (Pmessage 0 ''MALL'' m)"

definition inl_draft_highlight_up :: "nat \<Rightarrow> game \<Rightarrow> game" where
  "inl_draft_highlight_up k g = tell k ''Draft captain, your turn to pick a player.'' (getship k BATTLESHIP g)"

definition inl_draft_highlight_down :: "nat \<Rightarrow> game \<Rightarrow> game" where
  "inl_draft_highlight_down k g =
     tell k ''Draft captain, the other captain has the pick, standby.'' (getship k SCOUT g)"

definition inl_draft_highlight_off :: "nat \<Rightarrow> game \<Rightarrow> game" where
  "inl_draft_highlight_off k g = getship k CRUISER g"

definition set_draft :: "int \<Rightarrow> nat \<Rightarrow> game \<Rightarrow> game" where
  "set_draft d j = upd_player j (\<lambda>p. p\<lparr>p_inl_draft := d\<rparr>)"

definition upd_ctxt :: "(contxt \<Rightarrow> contxt) \<Rightarrow> game \<Rightarrow> game" where
  "upd_ctxt f g = g\<lparr>ctxt := f (ctxt g)\<rparr>"

definition inl_draft_assign_to_pool :: "nat \<Rightarrow> game \<Rightarrow> game" where
  "inl_draft_assign_to_pool j g =
     (let g = upd_player j (\<lambda>p. p\<lparr>p_inl_draft := INL_DRAFT_MOVING_TO_POOL, p_inl_pick := 0\<rparr>) g in
      if p_inl_captain (players g j) \<noteq> 0 then g
      else
        let n = inl_pool (ctxt g);
            g = upd_player j (\<lambda>p. p\<lparr>p_inl_pool := n\<rparr>) (upd_ctxt (\<lambda>c. c\<lparr>inl_pool := n + 1\<rparr>) g)
        in change_team_quietly (p_no (players g j)) NOBODY (p_team (players g j)) g)"

definition draft_flags :: "(int \<Rightarrow> int) \<Rightarrow> game \<Rightarrow> game" where
  "draft_flags f g = g\<lparr>status := (status g)\<lparr>gameup := f (gameup (status g))\<rparr>\<rparr>"

definition begin_one :: "nat \<Rightarrow> game \<Rightarrow> game" where
  "begin_one j g =
     (if inl_draft_ignore (players g j) then g
      else
        let g = bay_release j (upd_player j (\<lambda>p. p\<lparr>p_desspeed := 0\<rparr>) g);
            g = upd_player j (\<lambda>p. p\<lparr>p_flags := set_flags PFSEEN
                  (clear_flags (PFREPAIR OR PFBOMB OR PFORBIT OR PFBEAMUP OR PFBEAMDOWN OR PFCLOAK) (p_flags p))\<rparr>) g
        in inl_draft_place j (inl_draft_assign_to_pool j (inl_draft_highlight_off j g)))"

definition inl_draft_begin :: "game \<Rightarrow> game" where
  "inl_draft_begin g =
     (let g = draft_flags (\<lambda>u. u AND NOT GU_INL_DRAFTED) g;
          g = upd_ctxt (\<lambda>c. c\<lparr>inl_draft := INL_DRAFT_MOVING_TO_POOL, inl_pool := 0, inl_home_pick := 0, inl_away_pick := 0\<rparr>) g;
          g = draft_flags (\<lambda>u. u OR GU_INL_DRAFTING) (for_upto MAXPLAYER begin_one g)
      in shout ''The captains have agreed to hold a draft.'' g)"

definition send_home :: "nat \<Rightarrow> game \<Rightarrow> game" where
  "send_home j g =
     (if inl_draft_ignore (players g j) then g
      else inl_draft_place_end j (inl_draft_highlight_off j (set_draft INL_DRAFT_MOVING_TO_HOME j g)))"

definition inl_draft_done :: "game \<Rightarrow> game" where
  "inl_draft_done g =
     (let g = for_upto MAXPLAYER send_home (upd_ctxt (\<lambda>c. c\<lparr>inl_draft := INL_DRAFT_MOVING_TO_HOME\<rparr>) g)
      in if gu GU_INROBOT g then draft_flags (\<lambda>u. u OR GU_INL_DRAFTED) g else g)"

definition inl_draft_end :: "game \<Rightarrow> game" where
  "inl_draft_end g =
     (let g = upd_ctxt (\<lambda>c. c\<lparr>inl_draft := INL_DRAFT_OFF\<rparr>) g;
          g = for_upto MAXPLAYER (\<lambda>j g. upd_player j p_heal (set_draft INL_DRAFT_OFF j g)) g
      in draft_flags (\<lambda>u. u AND NOT GU_INL_DRAFTING) (shout ''The draft has completed.'' g))"

subsection \<open>Arrivals\<close>

definition inl_draft_arrival_captain :: "nat \<Rightarrow> game \<Rightarrow> game" where
  "inl_draft_arrival_captain k g =
     (let other = inl_draft_team_to_captain (if p_team (players g k) = ROM then FED else ROM) g;
          g = (if gu GU_INROBOT g
               then upd_player k (\<lambda>p. p\<lparr>p_stats := (p_stats p)\<lparr>st_rank := RANK_ADMIRAL\<rparr>\<rparr>) g else g)
      in case other of
           Some c \<Rightarrow>
             if p_inl_draft (players g c) = INL_DRAFT_CAPTAIN_UP
             then inl_draft_highlight_down k (set_draft INL_DRAFT_CAPTAIN_DOWN k g)
             else inl_draft_highlight_up k (set_draft INL_DRAFT_CAPTAIN_UP k g)
         | None \<Rightarrow> inl_draft_highlight_up k (set_draft INL_DRAFT_CAPTAIN_UP k g))"

definition inl_draft_arrival :: "nat \<Rightarrow> game \<Rightarrow> game" where
  "inl_draft_arrival j g =
     (let p = players g j; d = p_inl_draft p; captain = (p_inl_captain p \<noteq> 0) in
      if d = INL_DRAFT_MOVING_TO_POOL
      then if captain then inl_draft_arrival_captain j g else set_draft INL_DRAFT_POOLED j g
      else if d = INL_DRAFT_MOVING_TO_PICK then set_draft INL_DRAFT_PICKED j g
      else if d = INL_DRAFT_POOLED \<or> d = INL_DRAFT_PICKED
      then if captain then inl_draft_arrival_captain j g else g
      else if d = INL_DRAFT_MOVING_TO_HOME then set_draft INL_DRAFT_END j g
      else g)"

definition draft_step :: "nat \<Rightarrow> game \<Rightarrow> game" where
  "draft_step j g =
     (let p = players g j; dx = p_x p - p_inl_x p; dy = p_y p - p_inl_y p in
      if \<bar>dx\<bar> + \<bar>dy\<bar> > 750
      then upd_player j (\<lambda>p. let p = p_x_y_go (p_x p - dx sdiv 10) (p_y p - dy sdiv 10) p; d = p_dir p + 24
                             in p\<lparr>p_dir := d, p_desdir := d\<rparr>) g
      else inl_draft_arrival j (upd_player j (\<lambda>p. p_x_y_go (p_inl_x p) (p_inl_y p) p) g))"

definition update_one :: "nat \<Rightarrow> game \<Rightarrow> game" where
  "update_one j g =
     (if inl_draft_ignore (players g j) \<or> p_status (players g j) \<noteq> PALIVE then g
      else
        let g = (if inl_draft (ctxt g) = INL_DRAFT_MOVING_TO_POOL \<and> p_inl_draft (players g j) = INL_DRAFT_OFF
                 then inl_draft_assign_to_pool j (shout ''%s has joined, and is ready to be drafted'' g) else g)
        in draft_step j (inl_draft_place j g))"

definition inl_draft_update :: "game \<Rightarrow> game" where
  "inl_draft_update g =
     (let g = for_upto MAXPLAYER update_one g in
      if inl_draft (ctxt g) = INL_DRAFT_MOVING_TO_POOL
      then if inl_draft_pool_size g = 0 then inl_draft_done g else g
      else if inl_draft (ctxt g) = INL_DRAFT_MOVING_TO_HOME
      then if inl_draft_count_by_state INL_DRAFT_MOVING_TO_HOME g = 0 then inl_draft_end g else g
      else g)"

subsection \<open>Picking\<close>

text \<open>The pick passes to the first other captain; the result says whether there is one.\<close>

definition inl_draft_next :: "nat \<Rightarrow> game \<Rightarrow> game \<times> bool" where
  "inl_draft_next k g =
     (case first_in 0 MAXPLAYER (\<lambda>h. h \<noteq> k \<and> \<not> inl_draft_ignore (players g h) \<and> p_inl_captain (players g h) \<noteq> 0) of
        None \<Rightarrow> (shout ''Draft stalled, no captain of other team.'' g, False)
      | Some j \<Rightarrow> (inl_draft_highlight_down k (set_draft INL_DRAFT_CAPTAIN_DOWN k
                    (inl_draft_highlight_up j (set_draft INL_DRAFT_CAPTAIN_UP j g))), True))"

definition number_pick :: "nat \<Rightarrow> game \<Rightarrow> game" where
  "number_pick j g =
     (let c = ctxt g in
      if p_team (players g j) = FED
      then upd_player j (\<lambda>p. p\<lparr>p_inl_pick := inl_home_pick c\<rparr>) (upd_ctxt (\<lambda>c. c\<lparr>inl_home_pick := inl_home_pick c + 1\<rparr>) g)
      else if p_team (players g j) = ROM
      then upd_player j (\<lambda>p. p\<lparr>p_inl_pick := inl_away_pick c\<rparr>) (upd_ctxt (\<lambda>c. c\<lparr>inl_away_pick := inl_away_pick c + 1\<rparr>) g)
      else g)"

definition inl_draft_pick :: "nat \<Rightarrow> nat \<Rightarrow> game \<Rightarrow> game" where
  "inl_draft_pick j k g =
     (let t = p_team (players g k);
          g = (if p_team (players g j) \<noteq> t then change_team_quietly (p_no (players g j)) t (p_team (players g j)) g else g);
          g = set_draft INL_DRAFT_MOVING_TO_PICK j (number_pick j g);
          g = shout ''Selection #%d: %s (%s) drafts %s (%s).'' g;
          rank = NUMRANKS - (inl_home_pick (ctxt g) + inl_away_pick (ctxt g) - 1) sdiv 2 - 2
      in if gu GU_INROBOT g then upd_player j (\<lambda>p. p\<lparr>p_stats := (p_stats p)\<lparr>st_rank := rank\<rparr>\<rparr>) g else g)"

text \<open>A captain with the pick, or the selector on a captain's behalf, picks from the pool.\<close>

definition pick_for :: "nat \<Rightarrow> nat \<Rightarrow> game \<Rightarrow> game" where
  "pick_for j k g =
     (if p_inl_captain (players g j) \<noteq> 0 then g
      else case inl_draft_next k g of (g, ok) \<Rightarrow> if ok then inl_draft_pick j k g else g)"

definition inl_draft_select :: "nat \<Rightarrow> int \<Rightarrow> game \<Rightarrow> game" where
  "inl_draft_select me n g =
     (let j = nat n; d = p_inl_draft (players g j); m = p_inl_draft (players g me);
          mates = (p_team (players g j) = p_team (players g me)) in
      if n < 0 \<or> n > int MAXPLAYER then g
      else if d = INL_DRAFT_CAPTAIN_DOWN then
        if m = INL_DRAFT_CAPTAIN_UP
        then case inl_draft_next me g of (g, ok) \<Rightarrow> if ok then shout ''%s passes this draft pick.'' g else g
        else g
      else if d = INL_DRAFT_MOVING_TO_POOL \<or> d = INL_DRAFT_POOLED then
        if m = INL_DRAFT_CAPTAIN_UP then pick_for j me g
        else if m = INL_DRAFT_PICKED_SELECTOR then
          case inl_draft_pick_to_captain me g of
            None \<Rightarrow> shout ''Draft error, %s has no captain.'' g
          | Some k \<Rightarrow>
              if p_inl_draft (players g k) \<noteq> INL_DRAFT_CAPTAIN_UP
              then shout ''Draft error, pick by %s ignored because captain is not up.'' g
              else pick_for j k g
        else g
      else if d = INL_DRAFT_MOVING_TO_PICK \<or> d = INL_DRAFT_PICKED then
        if draft_captain (players g me) \<and> mates
        then tell j ''Draft selector, your captain has chosen you to pick.'' (set_draft INL_DRAFT_PICKED_SELECTOR j g) else g
      else if d = INL_DRAFT_PICKED_SELECTOR then
        if draft_captain (players g me) \<and> mates
        then tell j ''Draft selector, your captain has withdrawn your duty to pick.'' (set_draft INL_DRAFT_PICKED j g) else g
      else g)"

definition inl_draft_reject :: "nat \<Rightarrow> int \<Rightarrow> game \<Rightarrow> game" where
  "inl_draft_reject me n g =
     (if n < 0 \<or> n > int MAXPLAYER then g
      else if draft_captain (players g (nat n)) \<and> draft_captain (players g me)
      then shout ''Captain %s slaps captain %s around with a dead trout.'' g else g)"

fun inl_draft_name :: "nat \<Rightarrow> string" where
  "inl_draft_name x =
     (if x < 10 then [''_OFF'', ''_MOVING_TO_POOL'', ''_CAPTAIN_UP'', ''_CAPTAIN_DOWN'', ''_POOLED'',
        ''_MOVING_TO_PICK'', ''_PICKED'', ''_PICKED_SELECTOR'', ''_MOVING_TO_HOME'', ''_END''] ! x
      else ''UNKNOWN'')"

section \<open>Properties\<close>

text \<open>At most one captain has the pick.\<close>

definition one_up :: "game \<Rightarrow> bool" where
  "one_up g \<longleftrightarrow> (\<forall>a b. p_inl_draft (players g a) = INL_DRAFT_CAPTAIN_UP \<longrightarrow>
     p_inl_draft (players g b) = INL_DRAFT_CAPTAIN_UP \<longrightarrow> a = b)"

text \<open>What the steps of a pick do to the draft states and the teams.\<close>

lemma draft_messages [simp]:
  "players (tell k m g) = players g" "players (shout m g) = players g"
  by (simp_all add: tell_def shout_def)

lemma draft_of_highlight [simp]:
  "p_inl_draft (players (inl_draft_highlight_up k g) i) = p_inl_draft (players g i)"
  "p_inl_draft (players (inl_draft_highlight_down k g) i) = p_inl_draft (players g i)"
  "p_team (players (inl_draft_highlight_up k g) i) = p_team (players g i)"
  "p_team (players (inl_draft_highlight_down k g) i) = p_team (players g i)"
  "p_no (players (inl_draft_highlight_up k g) i) = p_no (players g i)"
  "p_no (players (inl_draft_highlight_down k g) i) = p_no (players g i)"
  by (simp_all add: inl_draft_highlight_up_def inl_draft_highlight_down_def getship_def)

lemma draft_of_set [simp]:
  "p_inl_draft (players (set_draft d j g) i) = (if i = j then d else p_inl_draft (players g i))"
  "p_team (players (set_draft d j g) i) = p_team (players g i)" "p_no (players (set_draft d j g) i) = p_no (players g i)"
  by (simp_all add: set_draft_def)

lemma draft_of_number [simp]:
  "p_inl_draft (players (number_pick j g) i) = p_inl_draft (players g i)"
  "p_team (players (number_pick j g) i) = p_team (players g i)"
  by (simp_all add: number_pick_def upd_ctxt_def Let_def)

lemma draft_of_change_team [simp]:
  "p_inl_draft (players (change_team_quietly p t u g) i) = p_inl_draft (players g i)"
  "p_team (players (change_team_quietly p t u g) i) = (if i = p then t else p_team (players g i))"
  by (simp_all add: change_team_quietly_def set_names_def Let_def)

lemma draft_of_pick [simp]:
  "p_inl_draft (players (inl_draft_pick j k g) i) = (if i = j then INL_DRAFT_MOVING_TO_PICK else p_inl_draft (players g i))"
  by (simp add: inl_draft_pick_def Let_def)

lemma team_of_pick:
  assumes "p_no (players g j) = j"
  shows "p_team (players (inl_draft_pick j k g) j) = p_team (players g k)"
  using assms by (simp add: inl_draft_pick_def Let_def)

text \<open>Passing the pick on.\<close>

lemma next_captain:
  assumes "inl_draft_next k g = (h, True)"
  obtains j where "j < MAXPLAYER" and "j \<noteq> k" and "\<not> inl_draft_ignore (players g j)" and "p_inl_captain (players g j) \<noteq> 0"
    and "\<forall>i. p_inl_draft (players h i) =
      (if i = k then INL_DRAFT_CAPTAIN_DOWN else if i = j then INL_DRAFT_CAPTAIN_UP else p_inl_draft (players g i))"
    and "\<forall>i. p_team (players h i) = p_team (players g i) \<and> p_no (players h i) = p_no (players g i)"
proof (cases "first_in 0 MAXPLAYER (\<lambda>h. h \<noteq> k \<and> \<not> inl_draft_ignore (players g h) \<and> p_inl_captain (players g h) \<noteq> 0)")
  case None
  with assms show ?thesis by (simp add: inl_draft_next_def)
next
  case (Some j)
  from first_in_Some [OF Some] Some assms show ?thesis by (intro that [of j]) (auto simp: inl_draft_next_def)
qed

lemma next_stalled: "inl_draft_next k g = (h, False) \<Longrightarrow> players h = players g"
  by (auto simp: inl_draft_next_def split: option.splits)

lemma one_up_next:
  assumes "one_up g" and "p_inl_draft (players g k) = INL_DRAFT_CAPTAIN_UP" and "inl_draft_next k g = (h, ok)"
  shows "one_up h"
proof (cases ok)
  case True
  with assms(3) have t: "inl_draft_next k g = (h, True)" by simp
  obtain j where "j < MAXPLAYER" "j \<noteq> k" "\<not> inl_draft_ignore (players g j)" "p_inl_captain (players g j) \<noteq> 0"
    and "\<forall>i. p_inl_draft (players h i) =
      (if i = k then INL_DRAFT_CAPTAIN_DOWN else if i = j then INL_DRAFT_CAPTAIN_UP else p_inl_draft (players g i))"
    and "\<forall>i. p_team (players h i) = p_team (players g i) \<and> p_no (players h i) = p_no (players g i)"
    by (rule next_captain [OF t])
  with assms(1,2) show ?thesis by (auto simp: one_up_def)
next
  case False
  with assms(1,3) next_stalled [of k g h] show ?thesis by (simp add: one_up_def)
qed

lemma one_up_less:
  assumes "one_up g" and "\<And>i. p_inl_draft (players h i) = INL_DRAFT_CAPTAIN_UP \<Longrightarrow> p_inl_draft (players g i) = INL_DRAFT_CAPTAIN_UP"
  shows "one_up h"
  using assms unfolding one_up_def by blast

lemma one_up_pick_for:
  assumes "one_up g" and "p_inl_draft (players g k) = INL_DRAFT_CAPTAIN_UP"
  shows "one_up (pick_for j k g)"
proof -
  obtain h ok where h: "inl_draft_next k g = (h, ok)" by fastforce
  have "one_up h" by (rule one_up_next [OF assms h])
  moreover from this have "one_up (inl_draft_pick j k h)" by (rule one_up_less) (simp split: if_splits)
  ultimately show ?thesis using assms(1) by (simp add: pick_for_def h)
qed

lemma one_up_select:
  assumes "one_up g"
  shows "one_up (inl_draft_select me n g)"
proof -
  have same: "one_up (shout m h)" if "one_up h" for m h using that by (simp add: one_up_def)
  have drop: "one_up (tell j m (set_draft d j g))" if "d \<noteq> INL_DRAFT_CAPTAIN_UP" for j m d
    using assms by (rule one_up_less) (use that in \<open>simp split: if_splits\<close>)
  have pass: "one_up (case inl_draft_next me g of (h, ok) \<Rightarrow> if ok then shout m h else h)"
    if "p_inl_draft (players g me) = INL_DRAFT_CAPTAIN_UP" for m
    using that one_up_next [OF assms] by (auto split: prod.split intro: same)
  show ?thesis
    using assms same drop pass one_up_pick_for [OF assms]
    by (simp add: inl_draft_select_def Let_def split: option.split)
qed


definition ex_draft :: game where
  "ex_draft = upd_player 3 (\<lambda>p. p\<lparr>p_status := PALIVE, p_inl_draft := INL_DRAFT_CAPTAIN_UP, p_inl_captain := 1, p_team := FED\<rparr>)
     (upd_player 4 (\<lambda>p. p\<lparr>p_status := PALIVE, p_inl_draft := INL_DRAFT_CAPTAIN_DOWN, p_inl_captain := 1, p_team := ROM\<rparr>)
       (upd_player 5 (\<lambda>p. p\<lparr>p_status := PALIVE, p_inl_draft := INL_DRAFT_POOLED, p_no := 5\<rparr>) blank_game))"


end
