(* ===== verification/Bans.thy ===== *)
theory Bans
  imports Util
begin

text \<open>
  \<^verbatim>\<open>ntserv/bans.c\<close>: temporary bans, a list in shared memory that players vote into and the daemon
  ages once a minute of game time, and permanent bans, read from a file.  The lines of that
  file, as \<^verbatim>\<open>fgets\<close> returns them, are an argument of the model, \<^term>\<open>None\<close> if it cannot be opened.
\<close>

subsection \<open>Temporary bans\<close>

abbreviation (input) MAXBANS :: nat where "MAXBANS \<equiv> 32"

definition bans_add_temporary_by_player :: "nat \<Rightarrow> game \<Rightarrow> game \<times> bool" where
  "bans_add_temporary_by_player who g =
     (case first_in 0 MAXBANS (\<lambda>i. b_remain (bans g i) = 0) of
        None \<Rightarrow> (g, False)
      | Some i \<Rightarrow> (emit (Blog ''banned'') (upd_ban i (\<lambda>b. b\<lparr>b_ip := p_ip (players g who),
                    b_remain := ban_vote_duration (cfg g)\<rparr>) g), True))"

definition age_ban :: "int \<Rightarrow> nat \<Rightarrow> game \<Rightarrow> game" where
  "age_ban elapsed i g =
     (let r = b_remain (bans g i) in
      if r = 0 then g
      else if r < elapsed then emit (Blog ''ban expired'') (upd_ban i (\<lambda>b. b\<lparr>b_remain := 0\<rparr>) g)
      else upd_ban i (\<lambda>b. b\<lparr>b_remain := r - elapsed\<rparr>) g)"

definition bans_age_temporary :: "int \<Rightarrow> game \<Rightarrow> game" where
  "bans_age_temporary elapsed g = (if elapsed = 0 then g else for_upto MAXBANS (age_ban elapsed) g)"

text \<open>The ban that is found, which the source keeps in \<^verbatim>\<open>bans_check_temporary_identified\<close>.\<close>

definition bans_check_temporary :: "string \<Rightarrow> game \<Rightarrow> nat option" where
  "bans_check_temporary ip g = first_in 0 MAXBANS (\<lambda>i. b_remain (bans g i) \<noteq> 0 \<and> b_ip (bans g i) = ip)"

definition bans_check_temporary_remaining :: "nat \<Rightarrow> game \<Rightarrow> int" where
  "bans_check_temporary_remaining i g = b_remain (bans g i)"

subsection \<open>Permanent bans\<close>

definition isspace :: "char \<Rightarrow> bool" where
  "isspace c \<longleftrightarrow> of_char c = (32 :: nat) \<or> 9 \<le> (of_char c :: nat) \<and> of_char c \<le> (13 :: nat)"

text \<open>
  A line is split at its last \<open>@\<close>; comments, empty lines and lines without one are skipped.  The
  source copies at most 63 characters of the host and cuts them at the first space.
\<close>

definition banned_entry :: "string \<Rightarrow> (string \<times> string) option" where
  "banned_entry l =
     (let after = takeWhile (\<lambda>c. c \<noteq> CHR ''@'') (rev l); before = dropWhile (\<lambda>c. c \<noteq> CHR ''@'') (rev l) in
      if l = [] \<or> hd l = CHR ''#'' \<or> hd l = CHR 0x0A \<or> before = [] then None
      else Some (rev (tl before), takeWhile (\<lambda>c. \<not> isspace c) (take 63 (rev after))))"

definition login_banned :: "string \<Rightarrow> string \<Rightarrow> bool" where
  "login_banned login l \<longleftrightarrow> take 1 l = ''*'' \<or> login = l"

definition host_banned :: "string \<Rightarrow> string \<Rightarrow> bool" where
  "host_banned host h \<longleftrightarrow> take 1 h = ''*'' \<or> strstr_pos host h \<noteq> None \<or> host = h"

text \<open>The loop over the lines; \<open>hit\<close> says that \<^verbatim>\<open>hits\<close> is one.  It is not reset between lines.\<close>

fun ban_scan :: "string \<Rightarrow> string \<Rightarrow> bool \<Rightarrow> string list \<Rightarrow> bool" where
  "ban_scan login host hit [] = False"
| "ban_scan login host hit (l # ls) =
     (case banned_entry l of
        None \<Rightarrow> ban_scan login host hit ls
      | Some (who, h) \<Rightarrow>
          let hit = (login_banned login who \<or> hit) in
          hit \<and> host_banned host h \<or> ban_scan login host hit ls)"

definition bans_check_permanent :: "string list option \<Rightarrow> string \<Rightarrow> string \<Rightarrow> bool" where
  "bans_check_permanent lines login host =
     (case lines of None \<Rightarrow> False | Some ls \<Rightarrow> ban_scan login host False ls)"

section \<open>Properties\<close>

lemma emit_bans [simp]: "bans (emit e g) = bans g"
  by (simp add: emit_def)

lemma upd_ban_simps [simp]:
  "bans (upd_ban i f g) = (bans g)(i := f (bans g i))"
  "players (upd_ban i f g) = players g" "cfg (upd_ban i f g) = cfg g"
  by (simp_all add: upd_ban_def)

definition aged :: "int \<Rightarrow> ban \<Rightarrow> ban" where
  "aged elapsed b = b\<lparr>b_remain := (if b_remain b < elapsed then 0 else b_remain b - elapsed)\<rparr>"

lemma aged_0 [simp]: "0 \<le> b_remain b \<Longrightarrow> aged 0 b = b"
  by (simp add: aged_def)

lemma age_ban_bans:
  "0 \<le> e \<Longrightarrow> 0 \<le> b_remain (bans g i) \<Longrightarrow> bans (age_ban e i g) = (bans g)(i := aged e (bans g i))"
  by (auto simp: age_ban_def aged_def Let_def fun_eq_iff)

lemma bans_age:
  assumes "0 \<le> e" and "\<forall>i. 0 \<le> b_remain (bans g i)"
  shows "bans (bans_age_temporary e g) = (\<lambda>i. if i < MAXBANS then aged e (bans g i) else bans g i)"
proof -
  have "bans (for_upto n (age_ban e) g) = (\<lambda>i. if i < n then aged e (bans g i) else bans g i)" for n
  proof (induction n)
    case (Suc n)
    then show ?case using assms by (auto simp: age_ban_bans fun_eq_iff)
  qed simp
  then show ?thesis using assms by (auto simp: bans_age_temporary_def fun_eq_iff simp del: for_upto_Suc)
qed

lemma aged_remain: "0 \<le> e \<Longrightarrow> 0 \<le> b_remain b \<Longrightarrow> b_remain (aged e b) = max 0 (b_remain b - e) \<and> b_ip (aged e b) = b_ip b"
  by (simp add: aged_def max_def)

lemma fold_age:
  assumes "\<forall>e \<in> set es. 0 \<le> e" and "\<forall>i. 0 \<le> b_remain (bans g i)" and "i < MAXBANS"
  shows "b_remain (bans (fold bans_age_temporary es g) i) = max 0 (b_remain (bans g i) - sum_list es) \<and>
    b_ip (bans (fold bans_age_temporary es g) i) = b_ip (bans g i)"
  using assms
proof (induction es arbitrary: g)
  case (Cons e es)
  define h where "h = bans_age_temporary e g"
  have h: "bans h = (\<lambda>i. if i < MAXBANS then aged e (bans g i) else bans g i)"
    using Cons.prems by (simp add: h_def bans_age)
  have pos: "\<forall>i. 0 \<le> b_remain (bans h i)" using Cons.prems by (simp add: h aged_remain)
  have "0 \<le> sum_list es" using Cons.prems by (simp add: sum_list_nonneg)
  moreover have "b_remain (bans (fold bans_age_temporary es h) i) = max 0 (b_remain (bans h i) - sum_list es) \<and>
      b_ip (bans (fold bans_age_temporary es h) i) = b_ip (bans h i)"
    by (rule Cons.IH) (use Cons.prems pos in simp_all)
  ultimately show ?case using Cons.prems by (simp add: h aged_remain flip: h_def)
qed simp

text \<open>
  C18: a temporary ban lasts exactly its time.  When the list has room and the address is not
  banned yet, the address is refused after it has been added and aged any number of times if
  and only if the time that has gone by is less than the duration of a ban.
\<close>

theorem ban_lasts_its_time:
  fixes g :: game and who :: nat and es :: "int list"
  defines "h \<equiv> fold bans_age_temporary es (fst (bans_add_temporary_by_player who g))"
  assumes "\<forall>i. 0 \<le> b_remain (bans g i)" and "0 \<le> ban_vote_duration (cfg g)" and "\<forall>e \<in> set es. 0 \<le> e"
    and "bans_check_temporary (p_ip (players g who)) g = None"
    and "snd (bans_add_temporary_by_player who g)"
  shows "bans_check_temporary (p_ip (players g who)) h \<noteq> None \<longleftrightarrow> sum_list es < ban_vote_duration (cfg g)"
proof -
  from assms(6) obtain k where k: "first_in 0 MAXBANS (\<lambda>i. b_remain (bans g i) = 0) = Some k"
    by (auto simp: bans_add_temporary_by_player_def split: option.splits)
  then have "k < MAXBANS" by (auto dest: first_in_Some)
  define h0 where "h0 = fst (bans_add_temporary_by_player who g)"
  have b: "bans h0 = (bans g)(k := (bans g k)\<lparr>b_ip := p_ip (players g who), b_remain := ban_vote_duration (cfg g)\<rparr>)"
    using k by (simp add: h0_def bans_add_temporary_by_player_def)
  have pos: "\<forall>i. 0 \<le> b_remain (bans h0 i)" using assms(2,3) by (simp add: b)
  have s: "0 \<le> sum_list es" using assms(4) by (simp add: sum_list_nonneg)
  have left: "b_remain (bans h i) = max 0 (b_remain (bans h0 i) - sum_list es)" "b_ip (bans h i) = b_ip (bans h0 i)"
    if "i < MAXBANS" for i
    using fold_age [OF assms(4) pos that] by (simp_all add: h_def h0_def)
  have "(b_remain (bans h i) \<noteq> 0 \<and> b_ip (bans h i) = p_ip (players g who)) \<longleftrightarrow> i = k \<and> sum_list es < ban_vote_duration (cfg g)"
    if "i < MAXBANS" for i
  proof (cases "i = k")
    case True
    then show ?thesis using that by (auto simp: left b max_def)
  next
    case False
    with assms(5) that have "b_remain (bans g i) = 0 \<or> b_ip (bans g i) \<noteq> p_ip (players g who)"
      by (auto simp: bans_check_temporary_def first_in_None)
    then show ?thesis using False that s by (auto simp: left b max_def)
  qed
  with \<open>k < MAXBANS\<close> show ?thesis by (auto simp: bans_check_temporary_def first_in_None)
qed

definition ex_banned :: game where
  "ex_banned = blank_game\<lparr>cfg := blank_sysdef\<lparr>ban_vote_duration := 120\<rparr>\<rparr>"

lemma ban_lasts_its_time_witness:
  "bans_check_temporary [] (fold bans_age_temporary [60] (fst (bans_add_temporary_by_player 0 ex_banned))) \<noteq> None \<and>
   bans_check_temporary [] (fold bans_age_temporary [60, 60] (fst (bans_add_temporary_by_player 0 ex_banned))) = None"
proof -
  have free: "\<forall>i. b_remain (bans ex_banned i) = 0" by (simp add: ex_banned_def blank_defs)
  have set: "ban_vote_duration (cfg ex_banned) = 120" "p_ip (players ex_banned 0) = []"
    by (simp_all add: ex_banned_def blank_defs)
  have none: "bans_check_temporary [] ex_banned = None"
    using free by (simp add: bans_check_temporary_def first_in_None)
  have "first_in 0 MAXBANS (\<lambda>i. b_remain (bans ex_banned i) = 0) \<noteq> None"
    using free by (simp add: first_in_None) (rule exI [of _ 0], simp)
  then have added: "snd (bans_add_temporary_by_player 0 ex_banned)"
    by (auto simp: bans_add_temporary_by_player_def)
  show ?thesis
    using ban_lasts_its_time [of ex_banned "[60]" 0] ban_lasts_its_time [of ex_banned "[60, 60]" 0] free set none added
    by simp
qed

text \<open>
  C35: the check of the permanent bans mixes up the lines of the file: a player is refused if and
  only if some line names the login and that line or a later one names the host, since the mark
  that the login was found is never taken back.
\<close>

theorem permanent_ban_mixes_lines:
  "bans_check_permanent (Some ls) login host \<longleftrightarrow>
     (\<exists>i j. i \<le> j \<and> j < length (List.map_filter banned_entry ls) \<and>
        login_banned login (fst (List.map_filter banned_entry ls ! i)) \<and>
        host_banned host (snd (List.map_filter banned_entry ls ! j)))"
proof -
  have scan: "ban_scan login host hit ls \<longleftrightarrow>
      (\<exists>j < length (List.map_filter banned_entry ls). host_banned host (snd (List.map_filter banned_entry ls ! j)) \<and>
        (hit \<or> (\<exists>i \<le> j. login_banned login (fst (List.map_filter banned_entry ls ! i)))))" for hit
  proof (induction ls arbitrary: hit)
    case (Cons l ls)
    show ?case
    proof (cases "banned_entry l")
      case None
      then show ?thesis by (simp add: Cons.IH)
    next
      case (Some e)
      obtain who h where e: "e = (who, h)" by fastforce
      have "(\<exists>i \<le> Suc j. P i) \<longleftrightarrow> P 0 \<or> (\<exists>i \<le> j. P (Suc i))" for P j
        by (metis Suc_le_mono le0 not0_implies_Suc)
      then show ?thesis
        by (simp add: Some e Cons.IH Let_def Ex_less_Suc2) blast
    qed
  qed simp
  show ?thesis by (simp only: bans_check_permanent_def option.case scan simp_thms) (meson le_less_trans)
qed

lemma innocent_banned:
  "bans_check_permanent (Some [''bob@evil.com'' @ [CHR 0x0A], ''al@good.com'' @ [CHR 0x0A]]) ''bob'' ''good.com''"
  by code_simp

end
