(* ===== verification/Frame.thy ===== *)
theory Frame
  imports Upkeep Armies Torps Draft Waitq Wander Bans
begin

text \<open>
  One frame of the simulation: \<^verbatim>\<open>move\<close> of \<^verbatim>\<open>ntserv/daemon.c\<close>.  It ages the wait queues
  and the bans, handles a pause or a parade, runs the state machine of tournament mode, and then the components in
  their fixed order, each at its own rate.  What \<^verbatim>\<open>kill\<close> answers is a
  parameter, as are the functions of the C mathematics library; the configuration file is the parameter \<open>reload\<close>, which gives the new
  configuration when the file has changed.  The game managers the daemon starts and the
  metaserver reports are left out; the \<^verbatim>\<open>exit\<close> of the daemon is the result \<open>False\<close>.
\<close>

subsection \<open>Tournament mode\<close>

definition counts_for_tmode :: "int \<Rightarrow> player \<Rightarrow> bool" where
  "counts_for_tmode t p \<longleftrightarrow>
     p_status p \<noteq> PFREE \<and> \<not> has (p_flags p) PFOBSERV \<and> p_status p \<noteq> POBSERV \<and>
     \<not> has (p_flags p) PFROBOT \<and> p_team p = t"

definition team_count :: "int \<Rightarrow> game \<Rightarrow> nat" where
  "team_count t g = count_upto MAXPLAYER (\<lambda>i. counts_for_tmode t (players g i))"

definition teams_in_quorum :: "game \<Rightarrow> int list" where
  "teams_in_quorum g = filter (\<lambda>t. int (team_count t g) \<ge> tournplayers (cfg g)) [FED, ROM, KLI, ORI]"

definition is_tournament_mode :: "game \<Rightarrow> game \<times> bool" where
  "is_tournament_mode g =
     (if practice_mode g \<or> bot_in_game g then (g, False)
      else
        let q = teams_in_quorum g; nth0 = (\<lambda>i. if i < length q then q ! i else 0)
        in (upd_ctxt (\<lambda>c. c\<lparr>quorum := (nth0 0, nth0 1)\<rparr>) g, length q > 1))"

text \<open>
  Players on the same host.  Reading a player's ticks refreshes the totals of its statistics, in
  the source as here; the file that records the suspects is left out.
\<close>

definition scum_eligible :: "nat \<Rightarrow> game \<Rightarrow> bool" where
  "scum_eligible i g \<longleftrightarrow>
     p_status (players g i) \<noteq> PFREE \<and> \<not> is_robot i g \<and> p_status (players g i) \<noteq> POBSERV"

definition scum_ticks :: "nat \<Rightarrow> game \<Rightarrow> game \<times> bool" where
  "scum_ticks i g =
     (let (p, t) = ltd_ticks_of LTD_TOTAL (players g i) in (upd_player i (\<lambda>_. p) g, t \<noteq> 0))"

definition scum_pair :: "nat \<Rightarrow> nat \<Rightarrow> game \<times> int \<Rightarrow> game \<times> int" where
  "scum_pair i j s =
     (let (g, num) = s in
      if j \<le> i \<or> \<not> scum_eligible j g then (g, num)
      else
        let (g, played) = scum_ticks j g in
        if played \<and> p_ip (players g i) = p_ip (players g j) \<and> \<not> p_ip_duplicates (players g j)
        then (g, num + 1) else (g, num))"

definition scum_one :: "nat \<Rightarrow> game \<Rightarrow> game \<times> bool" where
  "scum_one i g =
     (if \<not> scum_eligible i g then (g, False)
      else
        let (g, played) = scum_ticks i g in
        if \<not> played then (g, False)
        else let (g, num) = for_upto MAXPLAYER (scum_pair i) (g, 0) in (g, num > check_scum (cfg g) - 1))"

fun scum_search :: "nat list \<Rightarrow> game \<Rightarrow> game \<times> bool" where
  "scum_search [] g = (g, False)"
| "scum_search (i # js) g =
     (let (g, found) = scum_one i g in if found then (g, True) else scum_search js g)"

definition check_scummers :: "bool \<Rightarrow> game \<Rightarrow> game \<times> bool" where
  "check_scummers verbose g =
     (let (g, found) = scum_search [0..<MAXPLAYER] g in
      if found \<and> verbose
      then (for_upto MAXPLAYER (\<lambda>j g. if p_status (players g j) = PFREE then g else fst (scum_ticks j g))
              (all_msg ''They have been noted for god to review.''
                (all_msg ''Possible t-mode scummers have been found.'' g)), True)
      else (g, found))"

definition begin_messages :: "string list" where
  "begin_messages = [''A dark mood settles upon the galaxy'', ''Political pressure to expand is rising'',
     ''Border disputes break out as political tensions increase!'', ''Galactic superpowers seek to colonize new territory!'',
     ''Manifest Destiny becomes motive in galactic superpower conflict!'',
     ''Diplomat insults foreign emperors mother and fighting breaks out!'',
     ''%s declares self as galactic emperor and chaos breaks out!'']"

definition end_messages :: "string list" where
  "end_messages = [''A new day dawns as the oppressive mood lifts'', ''The expansionist pressure subsides'',
     ''Temporary agreement is reached in local border disputes.'', ''Galactic governments reduce colonization efforts.'',
     ''Manifest Destiny is no longer a fad. says influential philosopher.'',
     ''Diplomat apologizes to emperors mother and invasion is stopped!'',
     ''%s is locked up and order returns to the galaxy!'']"

definition message_no :: "string list \<Rightarrow> string \<Rightarrow> int \<Rightarrow> string" where
  "message_no ms other n = (if 0 \<le> n \<and> n < int (length ms) then ms ! nat n else other)"

definition political_begin :: "int \<Rightarrow> game \<Rightarrow> game" where
  "political_begin n = all_msg (message_no begin_messages ''Peace parties have been demobilized, and fighting ensues.'' n)"

definition political_end :: "int \<Rightarrow> game \<Rightarrow> game" where
  "political_end n = all_msg (message_no end_messages ''The peace party has reformed, and is rallying for peace'' n)"

definition set_ts :: "tourn_state \<Rightarrow> game \<Rightarrow> game" where
  "set_ts s g = g\<lparr>dmn := (dmn g)\<lparr>tstate := s\<rparr>\<rparr>"

definition set_tourn :: "bool \<Rightarrow> game \<Rightarrow> game" where
  "set_tourn b g = g\<lparr>status := (status g)\<lparr>st_tourn := b\<rparr>\<rparr>"

text \<open>The cases of the state machine; the last two are reached by falling through as well.\<close>

definition tmode_pickup :: "game \<Rightarrow> game" where
  "tmode_pickup g =
     (let (g, quorate) = is_tournament_mode (set_tourn False g) in
      if \<not> quorate then g
      else if check_scum (cfg g) = 0 then set_ts TS_BEGIN g
      else let (g, scum) = check_scummers True g
           in set_ts (if scum \<and> \<not> inl_mode g then TS_SCUMMERS else TS_BEGIN) g)"

definition tmode_scummers :: "game \<Rightarrow> game" where
  "tmode_scummers g =
     (let (g, quorate) = is_tournament_mode (set_tourn False g) in
      if \<not> quorate then set_ts TS_PICKUP g
      else if check_scum (cfg g) = 0 then set_ts TS_BEGIN g
      else let (g, scum) = check_scummers False g in if scum then g else set_ts TS_BEGIN g)"

definition tmode_end :: "game \<Rightarrow> game" where
  "tmode_end g =
     (let g = upd_ctxt (\<lambda>c. c\<lparr>frame_tourn_end := frame c\<rparr>) g
      in emit (Script ''tourn_end'') (set_ts TS_PICKUP (political_end (oldmessage (dmn g)) g)))"

definition tmode_run :: "game \<Rightarrow> game" where
  "tmode_run g =
     (let g = set_tourn True g;
          g = g\<lparr>status := (status g)\<lparr>st_time := st_time (status g) + 1\<rparr>\<rparr>;
          g = upd_ctxt (\<lambda>c. c\<lparr>frame_tourn_end := frame c\<rparr>) g;
          (g, quorate) = is_tournament_mode g
      in if quorate then g else tmode_end (set_ts TS_END g))"

definition tmode_begin :: "game \<Rightarrow> game" where
  "tmode_begin g =
     (let n = rand_val g mod 8; g = rand_next g;
          g = set_ts TS_TOURNAMENT (political_begin n (g\<lparr>dmn := (dmn g)\<lparr>oldmessage := n\<rparr>\<rparr>));
          g = upd_ctxt (\<lambda>c. c\<lparr>frame_tourn_start := frame c\<rparr>) g
      in tmode_run (emit (Script ''tourn_start'') g))"

definition tmode_step :: "game \<Rightarrow> game" where
  "tmode_step g =
     (case tstate (dmn g) of
        TS_PICKUP \<Rightarrow> tmode_pickup g
      | TS_SCUMMERS \<Rightarrow> tmode_scummers g
      | TS_BEGIN \<Rightarrow> tmode_begin g
      | TS_TOURNAMENT \<Rightarrow> tmode_run g
      | TS_END \<Rightarrow> tmode_end g)"

subsection \<open>Signals to the servers\<close>

text \<open>
  A server with \<^verbatim>\<open>p_fpu\<close> frames per update is woken at every \<^verbatim>\<open>p_fpu\<close>-th count, its slot number
  spreading the servers over the frames.  \<open>kill\<close> is the answer of the system; a server that is
  gone loses its slot.
\<close>

definition signal_due :: "int \<Rightarrow> nat \<Rightarrow> int \<Rightarrow> bool" where
  "signal_due counter i fpu \<longleftrightarrow>
     (let t = if fpu = 0 then 5 else fpu in t = 1 \<or> (counter + int i) smod t = 0)"

definition signal_one :: "(int \<Rightarrow> kill_result) \<Rightarrow> int \<Rightarrow> nat \<Rightarrow> game \<Rightarrow> game" where
  "signal_one kill counter i g =
     (let p = players g i in
      if p_status p = PFREE \<or> p_process p \<le> 1 \<or> \<not> signal_due counter i (p_fpu p) then g
      else
        let g = emit (Sigalrm (p_process p)) g
        in if kill (p_process p) = ESRCH then fst (freeslot (Some i) g) else g)"

definition signal_servers :: "(int \<Rightarrow> kill_result) \<Rightarrow> game \<Rightarrow> game" where
  "signal_servers kill g =
     (let g = g\<lparr>dmn := (dmn g)\<lparr>ups_counter := ups_counter (dmn g) + 1\<rparr>\<rparr>
      in for_upto MAXPLAYER (signal_one kill (ups_counter (dmn g))) g)"

subsection \<open>The end of the daemon\<close>

definition exit_player :: "nat \<Rightarrow> game \<Rightarrow> game" where
  "exit_player i g =
     (if p_status (players g i) = PFREE then g
      else
        let g = upd_player i (\<lambda>p. p\<lparr>p_status := PEXPLODE, p_whydead := KDAEMON, p_ntorp := 0,
                  p_nplasmatorp := 0, p_explode := 600\<rparr>) g
        in if p_process (players g i) > 1 then emit (Sigterm (p_process (players g i))) g else g)"

definition exitDaemon :: "game \<Rightarrow> game" where
  "exitDaemon g =
     (let g = set_gameup (\<lambda>u. u AND NOT GU_GAMEOK) (for_upto MAXPLAYER exit_player g)
      in for_upto MAXQUEUE (\<lambda>q. upd_queue q (\<lambda>r. r\<lparr>q_flags := 0\<rparr>)) g)"

subsection \<open>A frame\<close>

definition fuse :: "int \<Rightarrow> game \<Rightarrow> bool" where
  "fuse x g \<longleftrightarrow> frame (ctxt g) smod ((x * fps (cfg g)) sdiv distortion (cfg g)) = 0"

definition whenever :: "bool \<Rightarrow> (game \<Rightarrow> game) \<Rightarrow> game \<Rightarrow> game" where
  "whenever b f g = (if b then f g else g)"

text \<open>During a pause the players and the parade run ten times a second.\<close>

definition pause_frame :: "(int \<Rightarrow> kill_result) \<Rightarrow> game \<Rightarrow> game" where
  "pause_frame kill g =
     (let cycle = pause_cycle (dmn g); g = g\<lparr>dmn := (dmn g)\<lparr>pause_cycle := cycle + 1\<rparr>\<rparr>;
          g = (if cycle smod (fps (cfg g) sdiv 10) = 0
               then let g = udplayers_pause g in whenever (gu GU_CONQUER g) conquer_update g else g);
          g = (if conquer_trigger (ctxt g) \<noteq> 0
               then upd_ctxt (\<lambda>c. c\<lparr>conquer_trigger := 0\<rparr>) (conquer_begin_special g) else g)
      in signal_servers kill g)"

definition load_config :: "sysdef option \<Rightarrow> game \<Rightarrow> game" where
  "load_config new g =
     (case new of
        None \<Rightarrow> g
      | Some c \<Rightarrow>
          let g = set_gameup (\<lambda>u. if chaosmode c then u OR GU_CHAOS else u AND NOT GU_CHAOS) (g\<lparr>cfg := c\<rparr>)
          in all_msg ''Loading new server configuration.'' g)"

definition rescue_due :: "game \<Rightarrow> bool" where
  "rescue_due g \<longleftrightarrow>
     killer (cfg g) \<noteq> 0 \<and> (if topgun (cfg g) = 0 then fuse 18000 g else fuse 3000 g)"

text \<open>
  \<^verbatim>\<open>PLANETFUSE\<close> is the text \<^verbatim>\<open>400/MAXPLANETS\<close>, which the macro multiplies out from the left: ten
  ticks.
\<close>

definition components :: "libm \<Rightarrow> (int \<Rightarrow> kill_result) \<Rightarrow> game \<Rightarrow> game" where
  "components m kill g =
     (let g = udships g;
          g = whenever (fuse 1 g) udplayers g;
          g = whenever (fuse 1 g) udtwarp g;
          g = udtorps (lm_atan2 m) g;
          g = whenever (fuse 1 g) udphaser g;
          g = whenever (fuse 1 g) udcloak g;
          g = signal_servers kill g;
          g = whenever (fuse 5 g) teamtimers g;
          g = whenever (fuse 5 g) udplayersight g;
          g = whenever (fuse 5 g) plfight g;
          g = whenever (fuse 8 g) beam g;
          g = whenever (fuse 1 g \<and> gu GU_INL_DRAFTING g) inl_draft_update g;
          g = whenever (planet_move (cfg g) \<and> fuse 300 g) (pmove m) g;
          g = whenever (rescue_due g) (rescue (-1) 0) g;
          g = whenever (fuse 10 g) udplanets g
      in whenever (fuse 600 g) udsurrend g)"

text \<open>Whether the daemon goes on after the frame, beside the new state.\<close>

definition play_frame :: "libm \<Rightarrow> (int \<Rightarrow> kill_result) \<Rightarrow> sysdef option \<Rightarrow> game \<Rightarrow> game \<times> bool" where
  "play_frame m kill new g =
     (let g = upd_ctxt (\<lambda>c. c\<lparr>frame := frame c + 1\<rparr>) g in
      if frame (ctxt g) = dietime (dmn g)
      then (exitDaemon (whenever (self_reset (cfg g)) pl_reset (emit (Blog ''game over'') g)), False)
      else (components m kill (tmode_step (load_config new g)), True))"

text \<open>Once a minute the queues drop the processes that are gone, and the bans run on by that minute of game time.\<close>

definition age_lists :: "(int \<Rightarrow> kill_result) \<Rightarrow> game \<Rightarrow> game" where
  "age_lists kill g = bans_age_temporary (600 sdiv distortion (cfg g)) (fst (queues_purge kill g))"

definition move :: "libm \<Rightarrow> (int \<Rightarrow> kill_result) \<Rightarrow> sysdef option \<Rightarrow> game \<Rightarrow> game \<times> bool" where
  "move m kill new g =
     (let g = whenever (fuse 600 g) (age_lists kill) g in
      if gu GU_PAUSED g then (pause_frame kill g, True)
      else if frame_test_mode (ctxt g) \<noteq> 0 then
        if frame_test_counter (ctxt g) = 0
        then (upd_ctxt (\<lambda>c. c\<lparr>frame_test_mode := 0\<rparr>) (set_gameup (\<lambda>u. u OR GU_PAUSED) g), True)
        else play_frame m kill new (upd_ctxt (\<lambda>c. c\<lparr>frame_test_counter := frame_test_counter c - 1\<rparr>) g)
      else play_frame m kill new g)"

section \<open>Properties\<close>

subsection \<open>Tournament mode\<close>

text \<open>
  What the state machine promises: tournament mode is off, held back while suspects are in the
  game, about to begin, or on.
\<close>

datatype tmode = Off | Screening | Armed | On

fun tmode_of :: "tourn_state \<Rightarrow> tmode" where
  "tmode_of TS_PICKUP = Off"
| "tmode_of TS_SCUMMERS = Screening"
| "tmode_of TS_BEGIN = Armed"
| "tmode_of TS_TOURNAMENT = On"
| "tmode_of TS_END = Off"

fun next_tmode :: "bool \<Rightarrow> bool \<Rightarrow> bool \<Rightarrow> tmode \<Rightarrow> tmode" where
  "next_tmode quorate suspects league Off = (if \<not> quorate then Off else if suspects \<and> \<not> league then Screening else Armed)"
| "next_tmode quorate suspects league Screening = (if \<not> quorate then Off else if suspects then Screening else Armed)"
| "next_tmode quorate suspects league Armed = (if quorate then On else Off)"
| "next_tmode quorate suspects league On = (if quorate then On else Off)"

text \<open>What a frame sees of the players: whether two teams have a quorum, and whether the scan finds suspects.\<close>

definition quorate :: "game \<Rightarrow> bool" where
  "quorate g \<longleftrightarrow> \<not> practice_mode g \<and> \<not> bot_in_game g \<and>
     (\<exists>t u. t \<in> {FED, ROM, KLI, ORI} \<and> u \<in> {FED, ROM, KLI, ORI} \<and> t \<noteq> u \<and>
            int (team_count t g) \<ge> tournplayers (cfg g) \<and> int (team_count u g) \<ge> tournplayers (cfg g))"

definition suspects :: "game \<Rightarrow> bool" where
  "suspects g \<longleftrightarrow> check_scum (cfg g) \<noteq> 0 \<and> snd (scum_search [0..<MAXPLAYER] (fst (is_tournament_mode (set_tourn False g))))"

abbreviation (input) tm :: "game \<Rightarrow> tmode" where "tm g \<equiv> tmode_of (tstate (dmn g))"

lemma two_of_distinct:
  assumes "distinct xs"
  shows "length xs > 1 \<longleftrightarrow> (\<exists>t u. t \<in> set xs \<and> u \<in> set xs \<and> t \<noteq> u)"
proof -
  have "length xs = card (set xs)" using assms by (simp add: distinct_card)
  moreover have "card (set xs) > 1 \<longleftrightarrow> (\<exists>t u. t \<in> set xs \<and> u \<in> set xs \<and> t \<noteq> u)"
    using card_le_Suc0_iff_eq [of "set xs"] by (auto simp: not_le [symmetric])
  ultimately show ?thesis by simp
qed

lemma is_tournament_mode_quorate: "snd (is_tournament_mode g) = quorate g"
proof -
  have d: "distinct (teams_in_quorum g)" unfolding teams_in_quorum_def by (rule distinct_filter) simp
  have "(length (teams_in_quorum g) > 1) =
    (\<exists>t u. t \<in> {FED, ROM, KLI, ORI} \<and> u \<in> {FED, ROM, KLI, ORI} \<and> t \<noteq> u \<and>
            int (team_count t g) \<ge> tournplayers (cfg g) \<and> int (team_count u g) \<ge> tournplayers (cfg g))"
    unfolding two_of_distinct [OF d] by (auto simp: teams_in_quorum_def)
  then show ?thesis by (simp add: is_tournament_mode_def quorate_def Let_def)
qed

lemma quorate_same:
  assumes "players h = players g" and "gameup (status h) = gameup (status g)" and "cfg h = cfg g"
  shows "quorate h = quorate g"
  using assms by (simp add: quorate_def team_count_def practice_mode_def bot_in_game_def)

text \<open>The parts that the state machine works on.\<close>

definition machine :: "game \<Rightarrow> daemon_vars \<times> status \<times> sysdef" where
  "machine g = (dmn g, status g, cfg g)"

lemma machine_is_tournament_mode: "machine (fst (is_tournament_mode g)) = machine g"
  by (simp add: machine_def is_tournament_mode_def Let_def upd_ctxt_def)

lemma machine_scum_ticks: "machine (fst (scum_ticks i g)) = machine g"
  by (simp add: machine_def scum_ticks_def case_prod_beta)

lemma machine_scum_search: "machine (fst (scum_search is g)) = machine g"
proof (induction "is" arbitrary: g)
  case (Cons i js)
  have pair: "machine (fst (scum_pair i j s)) = machine (fst s)" for j s
    by (simp add: scum_pair_def case_prod_beta machine_scum_ticks Let_def)
  have loop: "machine (fst (for_upto n (scum_pair i) s)) = machine (fst s)" for n s
    by (rule for_upto_same [where g = "\<lambda>s. machine (fst s)"]) (rule pair)
  have one: "machine (fst (scum_one i h)) = machine h" for h
    by (simp add: scum_one_def case_prod_beta machine_scum_ticks loop Let_def)
  from Cons one [of g] show ?case by (simp add: case_prod_beta)
qed simp

lemma machine_check_scummers: "machine (fst (check_scummers b g)) = machine g"
  "snd (check_scummers b g) = snd (scum_search [0..<MAXPLAYER] g)"
proof -
  have one: "machine (if p_status (players h j) = PFREE then h else fst (scum_ticks j h)) = machine h" for j h
    by (simp add: machine_scum_ticks)
  have "machine (for_upto n (\<lambda>j g. if p_status (players g j) = PFREE then g else fst (scum_ticks j g)) h) = machine h" for n h
    by (rule for_upto_same [where g = machine]) (rule one)
  then show "machine (fst (check_scummers b g)) = machine g"
    using machine_scum_search [of "[0..<MAXPLAYER]" g]
    by (simp add: check_scummers_def case_prod_beta Let_def all_msg_def machine_def)
  show "snd (check_scummers b g) = snd (scum_search [0..<MAXPLAYER] g)"
    by (simp add: check_scummers_def case_prod_beta Let_def)
qed

text \<open>What one step does to the phase, the flag and the clock, state by state.\<close>

lemma machine_upd [simp]: "machine (upd_ctxt f g) = machine g" "machine (emit e g) = machine g"
  by (simp_all add: machine_def upd_ctxt_def)

lemma machine_parts:
  assumes "machine h = machine g"
  shows "dmn h = dmn g" "status h = status g" "cfg h = cfg g"
  using assms by (simp_all add: machine_def)

lemmas after_quorum = machine_parts [OF machine_is_tournament_mode]
lemmas after_scan = machine_parts [OF machine_check_scummers(1)]

lemma suspects_scan:
  "suspects g \<longleftrightarrow> check_scum (cfg g) \<noteq> 0 \<and> snd (check_scummers b (fst (is_tournament_mode (set_tourn False g))))"
  unfolding suspects_def machine_check_scummers(2) by (rule refl)

lemma set_tourn_simps [simp]:
  "cfg (set_tourn b g) = cfg g" "dmn (set_tourn b g) = dmn g" "players (set_tourn b g) = players g"
  "status (set_tourn b g) = (status g)\<lparr>st_tourn := b\<rparr>"
  by (simp_all add: set_tourn_def)

lemma quorate_set_tourn [simp]: "quorate (set_tourn b g) = quorate g"
  by (rule quorate_same) simp_all

lemma set_ts_simps [simp]:
  "cfg (set_ts s g) = cfg g" "status (set_ts s g) = status g" "tstate (dmn (set_ts s g)) = s"
  by (simp_all add: set_ts_def)

lemma inl_mode_status: "gameup (status h) = gameup (status g) \<Longrightarrow> inl_mode h = inl_mode g"
  by (simp add: inl_mode_def)

lemma step_screening:
  assumes "tstate (dmn g) \<in> {TS_PICKUP, TS_SCUMMERS}"
  shows "tm (tmode_step g) = next_tmode (quorate g) (suspects g) (inl_mode g) (tm g)"
    and "tstate (dmn (tmode_step g)) \<noteq> TS_END" and "\<not> tourn (tmode_step g)"
    and "st_time (status (tmode_step g)) = st_time (status g)"
proof -
  let ?g = "fst (is_tournament_mode (set_tourn False g))"
  have q: "snd (is_tournament_mode (set_tourn False g)) = quorate g" by (simp add: is_tournament_mode_quorate)
  have inl: "inl_mode (fst (check_scummers b ?g)) = inl_mode g" for b
    by (rule inl_mode_status) (simp add: after_scan after_quorum)
  have s: "snd (check_scummers b ?g) = suspects g" if "check_scum (cfg g) \<noteq> 0" for b
    using suspects_scan [of g b] that by simp
  have n: "\<not> suspects g" if "check_scum (cfg g) = 0" using that by (simp add: suspects_def)
  note defs = tmode_step_def tmode_pickup_def tmode_scummers_def Let_def case_prod_beta q after_quorum after_scan inl
  from assms consider "tstate (dmn g) = TS_PICKUP" | "tstate (dmn g) = TS_SCUMMERS" by blast
  note cases = this
  show "tm (tmode_step g) = next_tmode (quorate g) (suspects g) (inl_mode g) (tm g)"
    using cases by cases (simp_all add: defs s n)
  show "tstate (dmn (tmode_step g)) \<noteq> TS_END"
    using cases by cases (simp_all add: defs)
  show "\<not> tourn (tmode_step g)" and "st_time (status (tmode_step g)) = st_time (status g)"
    using cases by (cases; simp add: defs)+
qed

lemma tmode_run_step:
  "tm (tmode_run g) = (if quorate g then tm g else Off)"
  "tstate (dmn (tmode_run g)) = (if quorate g then tstate (dmn g) else TS_PICKUP)"
  "tourn (tmode_run g)" "st_time (status (tmode_run g)) = st_time (status g) + 1"
proof -
  define h where "h = upd_ctxt (\<lambda>c. c\<lparr>frame_tourn_end := frame c\<rparr>)
    ((set_tourn True g)\<lparr>status := (status (set_tourn True g))\<lparr>st_time := st_time (status (set_tourn True g)) + 1\<rparr>\<rparr>)"
  have q: "snd (is_tournament_mode h) = quorate g"
    unfolding is_tournament_mode_quorate
    by (rule quorate_same) (simp_all add: h_def upd_ctxt_def set_tourn_def)
  have h: "dmn h = dmn g" "st_tourn (status h)" "st_time (status h) = st_time (status g) + 1"
    by (simp_all add: h_def upd_ctxt_def)
  have run: "tmode_run g = (if quorate g then fst (is_tournament_mode h)
      else tmode_end (set_ts TS_END (fst (is_tournament_mode h))))"
    unfolding tmode_run_def Let_def h_def [symmetric] case_prod_beta q by (rule refl)
  have e: "status (tmode_end k) = status k" "tstate (dmn (tmode_end k)) = TS_PICKUP" for k
    by (simp_all add: tmode_end_def Let_def political_end_def all_msg_def upd_ctxt_def)
  show "tm (tmode_run g) = (if quorate g then tm g else Off)"
    "tstate (dmn (tmode_run g)) = (if quorate g then tstate (dmn g) else TS_PICKUP)"
    "tourn (tmode_run g)" "st_time (status (tmode_run g)) = st_time (status g) + 1"
    by (simp_all add: run e after_quorum h)
qed

lemma step_playing:
  assumes "tstate (dmn g) \<in> {TS_BEGIN, TS_TOURNAMENT}"
  shows "tm (tmode_step g) = next_tmode (quorate g) (suspects g) (inl_mode g) (tm g)"
    and "tstate (dmn (tmode_step g)) \<noteq> TS_END" and "tourn (tmode_step g)"
    and "st_time (status (tmode_step g)) = st_time (status g) + 1"
proof -
  define h where "h = emit (Script ''tourn_start'') (upd_ctxt (\<lambda>c. c\<lparr>frame_tourn_start := frame c\<rparr>)
    (set_ts TS_TOURNAMENT (political_begin (rand_val g mod 8)
      ((rand_next g)\<lparr>dmn := (dmn g)\<lparr>oldmessage := rand_val g mod 8\<rparr>\<rparr>))))"
  have beg: "tmode_begin g = tmode_run h"
    by (simp add: tmode_begin_def Let_def h_def)
  have h: "quorate h = quorate g" "tstate (dmn h) = TS_TOURNAMENT" "st_time (status h) = st_time (status g)"
    by (simp_all add: h_def upd_ctxt_def political_begin_def all_msg_def quorate_def team_count_def
        practice_mode_def bot_in_game_def set_ts_def)
  from assms consider "tstate (dmn g) = TS_BEGIN" | "tstate (dmn g) = TS_TOURNAMENT" by blast
  note cases = this
  show "tm (tmode_step g) = next_tmode (quorate g) (suspects g) (inl_mode g) (tm g)"
    and "tstate (dmn (tmode_step g)) \<noteq> TS_END" and "tourn (tmode_step g)"
    and "st_time (status (tmode_step g)) = st_time (status g) + 1"
    using cases by (cases; simp add: tmode_step_def beg tmode_run_step h)+
qed

text \<open>
  C1: the code refines the machine with four phases: a step moves to the phase that the quorum,
  the suspects and a league game determine.  Statistics are on in a frame, and the clock of
  tournament time advances, exactly if the machine was armed or on before it.  So in two frames
  between which other components leave the machine alone, statistics are on in the second only
  if there was a quorum in the first.
\<close>

theorem tmode_refines:
  fixes g :: game and other :: "game \<Rightarrow> game"
  assumes "tstate (dmn g) \<noteq> TS_END"
    and "tstate (dmn (other (tmode_step g))) = tstate (dmn (tmode_step g))"
  shows "tm (tmode_step g) = next_tmode (quorate g) (suspects g) (inl_mode g) (tm g) \<and>
         tstate (dmn (tmode_step g)) \<noteq> TS_END \<and>
         tourn (tmode_step g) = (tm g \<in> {Armed, On}) \<and>
         st_time (status (tmode_step g)) = st_time (status g) + (if tm g \<in> {Armed, On} then 1 else 0) \<and>
         (tourn (tmode_step (other (tmode_step g))) \<longrightarrow> quorate g)"
proof -
  have on: "tourn (tmode_step h) = (tm h \<in> {Armed, On})" if "tstate (dmn h) \<noteq> TS_END" for h
    using that step_screening(3) [of h] step_playing(3) [of h] by (cases "tstate (dmn h)") simp_all
  have next_on: "next_tmode False s l m \<notin> {Armed, On}" for s l m by (cases m) simp_all
  show ?thesis
    using assms(1) step_screening [of g] step_playing [of g]
    by (cases "tstate (dmn g)") (auto simp: on assms(2) next_on split: if_splits)
qed

lemma tmode_refines_witness:
  "tmode_of (tstate (dmn (tmode_step blank_game))) = Armed \<and> \<not> tourn (tmode_step blank_game)"
proof -
  have blank: "tstate (dmn blank_game) = TS_PICKUP" "check_scum (cfg blank_game) = 0"
    "tournplayers (cfg blank_game) = 0" "gameup (status blank_game) = 0"
    by (simp_all add: blank_defs)
  have "\<exists>t u. t \<in> {FED, ROM, KLI, ORI} \<and> u \<in> {FED, ROM, KLI, ORI} \<and> t \<noteq> u \<and>
      int (team_count t blank_game) \<ge> tournplayers (cfg blank_game) \<and>
      int (team_count u blank_game) \<ge> tournplayers (cfg blank_game)"
    by (rule exI [of _ FED], rule exI [of _ ROM]) (simp add: blank)
  then have "quorate blank_game"
    unfolding quorate_def practice_mode_def bot_in_game_def blank by (simp add: meets_def)
  with blank show ?thesis
    using tmode_refines [of blank_game "\<lambda>g. g"] by (simp add: suspects_def)
qed

subsection \<open>Signals\<close>

text \<open>One round of signals, when every server that is signalled exists.\<close>

definition signals_to :: "int \<Rightarrow> game \<Rightarrow> nat" where
  "signals_to pid g = count_list (outputs g) (Sigalrm pid)"

lemma signal_one_alive:
  assumes "\<And>p. kill p \<noteq> ESRCH"
  shows "players (signal_one kill c i g) = players g" "dmn (signal_one kill c i g) = dmn g"
    "signals_to pid (signal_one kill c i g) = signals_to pid g +
       (if p_status (players g i) \<noteq> PFREE \<and> p_process (players g i) > 1 \<and> p_process (players g i) = pid \<and>
           signal_due c i (p_fpu (players g i)) then 1 else 0)"
  using assms by (auto simp: signal_one_def Let_def signals_to_def emit_def)

lemma signal_loop_alive:
  assumes alive: "\<And>p. kill p \<noteq> ESRCH"
    and "p_status (players g i) \<noteq> PFREE" and "1 < p_process (players g i)"
    and only: "\<And>j. j \<noteq> i \<Longrightarrow> p_process (players g j) \<noteq> p_process (players g i)"
  shows "players (for_upto n (signal_one kill c) g) = players g \<and> dmn (for_upto n (signal_one kill c) g) = dmn g \<and>
    signals_to (p_process (players g i)) (for_upto n (signal_one kill c) g) =
      signals_to (p_process (players g i)) g + (if i < n \<and> signal_due c i (p_fpu (players g i)) then 1 else 0)"
proof (induction n)
  case (Suc n)
  then show ?case
    using only [of n] assms(2,3) by (cases "n = i") (auto simp: signal_one_alive [OF alive])
qed simp

lemma signal_servers_alive:
  assumes "\<And>p. kill p \<noteq> ESRCH" and "i < MAXPLAYER"
    and "p_status (players g i) \<noteq> PFREE" and "1 < p_process (players g i)"
    and "\<And>j. j \<noteq> i \<Longrightarrow> p_process (players g j) \<noteq> p_process (players g i)"
  shows "players (signal_servers kill g) = players g"
    "ups_counter (dmn (signal_servers kill g)) = ups_counter (dmn g) + 1"
    "signals_to (p_process (players g i)) (signal_servers kill g) = signals_to (p_process (players g i)) g +
       (if signal_due (ups_counter (dmn g) + 1) i (p_fpu (players g i)) then 1 else 0)"
proof -
  let ?g = "g\<lparr>dmn := (dmn g)\<lparr>ups_counter := ups_counter (dmn g) + 1\<rparr>\<rparr>"
  have "signals_to pid ?g = signals_to pid g" for pid by (simp add: signals_to_def)
  with signal_loop_alive [of kill ?g i MAXPLAYER "ups_counter (dmn g) + 1"] assms
  show "players (signal_servers kill g) = players g"
    "ups_counter (dmn (signal_servers kill g)) = ups_counter (dmn g) + 1"
    "signals_to (p_process (players g i)) (signal_servers kill g) = signals_to (p_process (players g i)) g +
       (if signal_due (ups_counter (dmn g) + 1) i (p_fpu (players g i)) then 1 else 0)"
    by (simp_all add: signal_servers_def Let_def)
qed

text \<open>Of any \<open>t\<close> consecutive integers one is a multiple of \<open>t\<close>.\<close>

lemma one_multiple:
  fixes c t :: int
  assumes "0 < t"
  shows "(\<Sum>k<nat t. if (c + int k) mod t = 0 then 1 else 0 :: nat) = 1"
proof -
  let ?m = "nat ((- c) mod t)"
  have m: "?m < nat t" using assms by simp
  have "(c + int k) mod t = 0 \<longleftrightarrow> k = ?m" if "k < nat t" for k
  proof -
    have "(c + int k) mod t = 0 \<longleftrightarrow> (int k - (- c)) mod t = 0" by (simp add: add.commute)
    also have "\<dots> \<longleftrightarrow> int k mod t = (- c) mod t" by (simp add: mod_eq_dvd_iff dvd_eq_mod_eq_0)
    also have "\<dots> \<longleftrightarrow> int k = (- c) mod t" using that assms by simp
    also have "\<dots> \<longleftrightarrow> k = ?m" using assms by (auto simp: nat_eq_iff pos_mod_sign)
    finally show ?thesis .
  qed
  then have "(\<Sum>k<nat t. if (c + int k) mod t = 0 then 1 else 0 :: nat) = (\<Sum>k<nat t. if k = ?m then 1 else 0)"
    by (intro sum.cong) auto
  also have "\<dots> = 1" using m by simp
  finally show ?thesis .
qed

lemma signal_due_mod:
  assumes "0 \<le> c" and "0 \<le> fpu"
  shows "signal_due c i fpu \<longleftrightarrow> (c + int i) mod (if fpu = 0 then 5 else fpu) = 0"
  using assms by (auto simp: signal_due_def Let_def smod_eq_mod)

text \<open>
  C24: in as many rounds as a server has frames per update (five if it has asked for none) it is
  signalled exactly once, at whatever count the rounds begin.
\<close>

theorem server_signalled_once:
  fixes g :: game and i :: nat
  defines "pid \<equiv> p_process (players g i)" and "t \<equiv> (if p_fpu (players g i) = 0 then 5 else p_fpu (players g i))"
  assumes "\<And>p. kill p \<noteq> ESRCH" and "i < MAXPLAYER" and "p_status (players g i) \<noteq> PFREE" and "1 < pid"
    and "\<And>j. j \<noteq> i \<Longrightarrow> p_process (players g j) \<noteq> pid"
    and "0 \<le> p_fpu (players g i)" and "0 \<le> ups_counter (dmn g)"
  shows "signals_to pid ((signal_servers kill ^^ nat t) g) = signals_to pid g + 1"
proof -
  let ?c = "ups_counter (dmn g)"
  have run: "players ((signal_servers kill ^^ n) g) = players g \<and> ups_counter (dmn ((signal_servers kill ^^ n) g)) = ?c + int n \<and>
      signals_to pid ((signal_servers kill ^^ n) g) =
        signals_to pid g + (\<Sum>k<n. if (?c + 1 + int i + int k) mod t = 0 then 1 else 0)" for n
  proof (induction n)
    case (Suc n)
    let ?h = "(signal_servers kill ^^ n) g"
    have "0 \<le> ups_counter (dmn ?h) + 1" using Suc assms by simp
    then have "signal_due (ups_counter (dmn ?h) + 1) i (p_fpu (players ?h i)) \<longleftrightarrow> (?c + 1 + int i + int n) mod t = 0"
      using Suc assms by (simp add: signal_due_mod t_def algebra_simps)
    then show ?case
      using signal_servers_alive [of kill i ?h] Suc assms by (simp add: pid_def)
  qed simp
  have "0 < t" using assms by (auto simp: t_def)
  with run [of "nat t"] show ?thesis by (simp add: one_multiple)
qed

definition ex_signalled :: game where
  "ex_signalled = upd_player 3 (\<lambda>p. p\<lparr>p_status := PALIVE, p_process := 100, p_fpu := 5\<rparr>) blank_game"

lemma server_signalled_once_witness:
  "signals_to 100 ((signal_servers (\<lambda>_. KILL_OK) ^^ 5) ex_signalled) = 1"
proof -
  have "p_process (players ex_signalled j) = (if j = 3 then 100 else 0)" for j
    by (simp add: ex_signalled_def blank_defs)
  moreover have "p_status (players ex_signalled 3) = PALIVE" "p_fpu (players ex_signalled 3) = 5"
    by (simp_all add: ex_signalled_def)
  moreover have "ups_counter (dmn ex_signalled) = 0" "signals_to 100 ex_signalled = 0"
    by (simp_all add: ex_signalled_def signals_to_def blank_defs)
  ultimately show ?thesis
    using server_signalled_once [of "\<lambda>_. KILL_OK" 3 ex_signalled] by simp
qed

subsection \<open>Pauses and parades\<close>

text \<open>
  What a pause leaves alone: the clock (but for the count of ghosts), the settings, the torpedoes
  and the phasers.
\<close>

definition frozen :: "game \<Rightarrow> int \<times> daemon_vars \<times> sysdef \<times> contxt \<times> (nat \<Rightarrow> torp) \<times> (nat \<Rightarrow> phaser)" where
  "frozen g = (gameup (status g), (dmn g)\<lparr>ghostkills := 0\<rparr>, cfg g, ctxt g, torps g, phasers g)"

lemma frozen_basic [simp]:
  "frozen (upd_player i p g) = frozen g" "frozen (upd_team i u g) = frozen g" "frozen (upd_planet l k g) = frozen g"
  "frozen (upd_queue q r g) = frozen g" "frozen (upd_wait n w g) = frozen g" "frozen (emit e g) = frozen g"
  "frozen (rand_next g) = frozen g"
  by (simp_all add: frozen_def)

lemma frozen_release [simp]: "frozen (bay_release j g) = frozen g" "frozen (bay_release_all j g) = frozen g"
proof -
  show r: "frozen (bay_release j g) = frozen g" for j g
    by (simp add: bay_release_def vacate_def bay_owner_def Let_def split: option.split)
  show "frozen (bay_release_all j g) = frozen g"
    unfolding bay_release_all_def by (rule for_upto_same) (simp add: vacate_def split: option.split)
qed

lemma frozen_rescue_armies [simp]: "frozen (rescue_armies j g) = frozen g"
  by (simp add: rescue_armies_def Let_def split: option.split)

lemma frozen_ghost [simp]:
  "frozen (lost_base j g) = frozen g" "frozen (saveplayer j g) = frozen g" "frozen (ghostmess j m g) = frozen g"
  "frozen (fst (freeslot (Some j) g)) = frozen g" "frozen (count_ghost j g) = frozen g"
proof -
  have "frozen (h\<lparr>dmn := (dmn h)\<lparr>ghostkills := k\<rparr>\<rparr>) = frozen h" for h k by (simp add: frozen_def)
  then show "frozen (ghostmess j m g) = frozen g" by (simp add: ghostmess_def Let_def)
qed (simp_all add: lost_base_def saveplayer_def freeslot_def count_free_def count_ghost_def Let_def)

lemma frozen_pause_player [simp]: "frozen (udplayer_pause j g) = frozen g"
proof -
  have "frozen (udplayerspause_pexplode j h) = frozen h" "frozen (udplayers_pdead j h) = frozen h" for h
    by (simp_all add: udplayerspause_pexplode_def udplayers_pexplode_bays_def udplayers_pdead_def Let_def)
  then have "frozen (fst (pause_state j h)) = frozen h" for h
    by (simp add: pause_state_def split: pstatus.split)
  then have state: "pause_state j h = (k, q) \<Longrightarrow> frozen k = frozen h" for h k q by (metis fst_conv)
  have "frozen (end_process j h) = frozen h" for h by (simp add: end_process_def Let_def)
  then show ?thesis
    by (auto simp: udplayer_pause_def Let_def split: prod.split dest!: state)
qed

lemma frozen_pause [simp]: "frozen (udplayers_pause g) = frozen g"
  unfolding udplayers_pause_def by (rule for_upto_same) simp

lemma frozen_purge [simp]: "frozen (fst (queues_purge kill g)) = frozen g"
proof -
  have update: "frozen (fst (update_loop c n h)) = frozen h" for c n h
    by (induction c n h rule: update_loop.induct) simp_all
  have "frozen (fst (queue_exit x h)) = frozen h" for x h
    using update by (simp add: queue_exit_def queue_update_def Let_def case_prod_beta split: option.split)
  then have loop: "frozen (fst (purge_loop kill c n h)) = frozen h" for c n h
  proof (induction kill c n h rule: purge_loop.induct)
    case (2 kill c n g)
    then show ?case by (subst purge_loop.simps) (simp del: purge_loop.simps add: Let_def)
  qed simp
  have "frozen (fst (purge_queue kill q s)) = frozen (fst s)" for q s
    using loop by (auto simp: purge_queue_def trim_free_slots_def split: prod.split) (metis fst_conv)+
  then have "frozen (fst (for_upto n (purge_queue kill) s)) = frozen (fst s)" for n s
    by (intro for_upto_same [where g = "\<lambda>s. frozen (fst s)"])
  then show ?thesis by (simp add: queues_purge_def case_prod_beta)
qed

lemma frozen_age_lists [simp]: "frozen (age_lists kill g) = frozen g"
proof -
  have "frozen (age_ban e i h) = frozen h" for e i h by (simp add: age_ban_def upd_ban_def frozen_def Let_def emit_def)
  then have "frozen (for_upto n (age_ban e) h) = frozen h" for n e h by (rule for_upto_same)
  then show ?thesis by (simp add: age_lists_def bans_age_temporary_def del: for_upto_Suc)
qed

lemma frozenD:
  assumes "frozen h = frozen g"
  shows "gameup (status h) = gameup (status g)" "cfg h = cfg g" "ctxt h = ctxt g" "torps h = torps g" "phasers h = phasers g"
    "conquer_timer (dmn h) = conquer_timer (dmn g)" "pause_cycle (dmn h) = pause_cycle (dmn g)"
proof -
  have "(dmn h)\<lparr>ghostkills := 0\<rparr> = (dmn g)\<lparr>ghostkills := 0\<rparr>" using assms by (simp add: frozen_def)
  then have "conquer_timer ((dmn h)\<lparr>ghostkills := 0\<rparr>) = conquer_timer ((dmn g)\<lparr>ghostkills := 0\<rparr>)"
    "pause_cycle ((dmn h)\<lparr>ghostkills := 0\<rparr>) = pause_cycle ((dmn g)\<lparr>ghostkills := 0\<rparr>)" by simp_all
  then show "conquer_timer (dmn h) = conquer_timer (dmn g)" "pause_cycle (dmn h) = pause_cycle (dmn g)" by simp_all
qed (use assms in \<open>simp_all add: frozen_def\<close>)

lemma frozen_signal_one: "frozen (signal_one kill c i g) = frozen g"
  by (simp add: signal_one_def Let_def)

lemma signal_servers_still:
  "gameup (status (signal_servers kill g)) = gameup (status g)" "cfg (signal_servers kill g) = cfg g"
  "ctxt (signal_servers kill g) = ctxt g" "torps (signal_servers kill g) = torps g"
  "phasers (signal_servers kill g) = phasers g"
  "conquer_timer (dmn (signal_servers kill g)) = conquer_timer (dmn g)"
  "pause_cycle (dmn (signal_servers kill g)) = pause_cycle (dmn g)"
proof -
  let ?h = "g\<lparr>dmn := (dmn g)\<lparr>ups_counter := ups_counter (dmn g) + 1\<rparr>\<rparr>"
  have "frozen (signal_servers kill g) = frozen ?h"
    unfolding signal_servers_def Let_def by (rule for_upto_same) (rule frozen_signal_one)
  from frozenD [OF this]
  show "gameup (status (signal_servers kill g)) = gameup (status g)" "cfg (signal_servers kill g) = cfg g"
    "ctxt (signal_servers kill g) = ctxt g" "torps (signal_servers kill g) = torps g"
    "phasers (signal_servers kill g) = phasers g"
    "conquer_timer (dmn (signal_servers kill g)) = conquer_timer (dmn g)"
    "pause_cycle (dmn (signal_servers kill g)) = pause_cycle (dmn g)" by simp_all
qed

text \<open>The players of a pause frame, before the parade: the tenths of a second come every \<open>fps / 10\<close> frames.\<close>

lemma pause_frame_parts:
  assumes "conquer_trigger (ctxt g) = 0"
  obtains k where "frozen k = frozen (g\<lparr>dmn := (dmn g)\<lparr>pause_cycle := pause_cycle (dmn g) + 1\<rparr>\<rparr>)"
    and "pause_frame kill g = signal_servers kill
      (if pause_cycle (dmn g) smod (fps (cfg g) sdiv 10) = 0 \<and> gu GU_CONQUER g then conquer_update k else k)"
proof -
  let ?g = "g\<lparr>dmn := (dmn g)\<lparr>pause_cycle := pause_cycle (dmn g) + 1\<rparr>\<rparr>"
  let ?now = "pause_cycle (dmn g) smod (fps (cfg g) sdiv 10) = 0"
  define k where "k = (if ?now then udplayers_pause ?g else ?g)"
  have k: "frozen k = frozen ?g" by (simp add: k_def)
  have gu: "gu GU_CONQUER k = gu GU_CONQUER g" using frozenD(1) [OF k] by simp
  have trigger: "conquer_trigger (ctxt k) = 0" "conquer_trigger (ctxt (conquer_update k)) = 0"
    using frozenD(3) [OF k] assms by (simp_all add: conquer_update_settings)
  have "pause_frame kill g = signal_servers kill (if ?now \<and> gu GU_CONQUER g then conquer_update k else k)"
    using trigger gu by (cases ?now) (auto simp: pause_frame_def Let_def whenever_def k_def)
  with k show ?thesis by (rule that)
qed

lemma move_paused:
  assumes "gu GU_PAUSED g" and "conquer_trigger (ctxt g) = 0"
  obtains k where "frozen k = frozen (g\<lparr>dmn := (dmn g)\<lparr>pause_cycle := pause_cycle (dmn g) + 1\<rparr>\<rparr>)"
    and "move m kill new g = (signal_servers kill
      (if pause_cycle (dmn g) smod (fps (cfg g) sdiv 10) = 0 \<and> gu GU_CONQUER g then conquer_update k else k), True)"
proof -
  define h where "h = whenever (fuse 600 g) (age_lists kill) g"
  have h: "frozen h = frozen g" by (simp add: h_def whenever_def)
  note parts = frozenD [OF h]
  have "conquer_trigger (ctxt h) = 0" using parts assms by simp
  then obtain k where k: "frozen k = frozen (h\<lparr>dmn := (dmn h)\<lparr>pause_cycle := pause_cycle (dmn h) + 1\<rparr>\<rparr>)"
    and frame: "pause_frame kill h = signal_servers kill
      (if pause_cycle (dmn h) smod (fps (cfg h) sdiv 10) = 0 \<and> gu GU_CONQUER h then conquer_update k else k)"
    by (rule pause_frame_parts)
  have "(dmn h)\<lparr>ghostkills := 0\<rparr> = (dmn g)\<lparr>ghostkills := 0\<rparr>" using h by (simp add: frozen_def)
  then have "(dmn h)\<lparr>pause_cycle := c, ghostkills := 0\<rparr> = (dmn g)\<lparr>pause_cycle := c, ghostkills := 0\<rparr>" for c
    by (metis daemon_vars.update_convs(4) daemon_vars.update_convs(5) daemon_vars.surjective)
  then have "frozen k = frozen (g\<lparr>dmn := (dmn g)\<lparr>pause_cycle := pause_cycle (dmn g) + 1\<rparr>\<rparr>)"
    using k parts by (simp add: frozen_def)
  moreover have "move m kill new g = (pause_frame kill h, True)"
    using assms(1) parts(1) by (simp add: move_def Let_def h_def [symmetric])
  ultimately show ?thesis using frame parts that by simp
qed

text \<open>The frames that the daemon plays one after the other.\<close>

abbreviation frames :: "libm \<Rightarrow> (int \<Rightarrow> kill_result) \<Rightarrow> sysdef option \<Rightarrow> nat \<Rightarrow> game \<Rightarrow> game" where
  "frames m kill new n \<equiv> (\<lambda>g. fst (move m kill new g)) ^^ n"

text \<open>
  C29: nothing flies, burns or elapses in a pause.  As long as no parade is on and none is asked
  for, any number of frames leaves the pause, the frame counter, the settings, the torpedoes and
  the phasers as they are, whatever the players and their processes do.
\<close>

theorem pause_freezes:
  assumes "gu GU_PAUSED g" and "\<not> gu GU_CONQUER g" and "conquer_trigger (ctxt g) = 0"
  shows "gu GU_PAUSED (frames m kill new n g) \<and> ctxt (frames m kill new n g) = ctxt g \<and>
         cfg (frames m kill new n g) = cfg g \<and> torps (frames m kill new n g) = torps g \<and>
         phasers (frames m kill new n g) = phasers g"
proof -
  have "gameup (status (frames m kill new n g)) = gameup (status g) \<and> ctxt (frames m kill new n g) = ctxt g \<and>
    cfg (frames m kill new n g) = cfg g \<and> torps (frames m kill new n g) = torps g \<and>
    phasers (frames m kill new n g) = phasers g"
  proof (induction n)
    case (Suc n)
    define h where "h = frames m kill new n g"
    note IH = Suc [folded h_def]
    have off: "\<not> gu GU_CONQUER h" using IH assms(2) by simp
    have "gu GU_PAUSED h" "conquer_trigger (ctxt h) = 0" using IH assms by simp_all
    then obtain k where k: "frozen k = frozen (h\<lparr>dmn := (dmn h)\<lparr>pause_cycle := pause_cycle (dmn h) + 1\<rparr>\<rparr>)"
      and move: "move m kill new h = (signal_servers kill
        (if pause_cycle (dmn h) smod (fps (cfg h) sdiv 10) = 0 \<and> gu GU_CONQUER h then conquer_update k else k), True)"
      by (rule move_paused)
    have "frames m kill new (Suc n) g = signal_servers kill k"
      using move off by (simp add: h_def)
    with IH frozenD [OF k] show ?case by (simp add: signal_servers_still)
  qed simp
  with assms show ?thesis by simp
qed

text \<open>A parade under way, with \<open>w\<close> frames to go.\<close>

definition parading :: "game \<Rightarrow> bool" where
  "parading g \<longleftrightarrow> gu GU_PAUSED g \<and> gu GU_CONQUER g \<and> conquer_trigger (ctxt g) = 0 \<and>
     1 \<le> conquer_timer (dmn g) \<and> 0 \<le> pause_cycle (dmn g) \<and> 10 \<le> fps (cfg g)"

definition frames_left :: "game \<Rightarrow> nat" where
  "frames_left g =
     (let k = fps (cfg g) div 10 in nat ((conquer_timer (dmn g) - 1) * k + (- pause_cycle (dmn g)) mod k + 1))"

lemma minus_mod_step:
  fixes c k :: int
  assumes "0 < k" and "c mod k \<noteq> 0"
  shows "(- (c + 1)) mod k = (- c) mod k - 1"
proof -
  have r: "(- c) mod k = k - c mod k" using assms(2) by (simp add: zmod_zminus1_eq_if)
  have "0 < c mod k" using assms pos_mod_sign [of k c] by linarith
  moreover have "c mod k < k" using assms(1) by simp
  ultimately have "((- c) mod k - 1) mod k = (- c) mod k - 1" using r by (intro mod_pos_pos_trivial) simp_all
  moreover have "- (c + 1) = - c - 1" by simp
  then have "(- (c + 1)) mod k = ((- c) mod k - 1) mod k" by (simp only: mod_diff_left_eq)
  ultimately show ?thesis by simp
qed

lemma minus_mod_restart:
  fixes c k :: int
  assumes "0 < k" and "c mod k = 0"
  shows "(- (c + 1)) mod k = k - 1" and "(- c) mod k = 0"
proof -
  obtain q where c: "c = k * q" using assms(2) by (auto simp: mod_eq_0_iff_dvd)
  have "- (c + 1) = (k - 1) + k * (- q - 1)" by (simp add: c algebra_simps)
  then have "(- (c + 1)) mod k = (k - 1) mod k" by (simp only: mod_mult_self2)
  moreover have "(k - 1) mod k = k - 1" using assms(1) by (intro mod_pos_pos_trivial) simp_all
  ultimately show "(- (c + 1)) mod k = k - 1" by (rule trans)
  show "(- c) mod k = 0" using assms(2) by (simp add: zmod_zminus1_eq_if)
qed

lemma parading_step:
  assumes "parading g"
  shows "(frames_left g = 1 \<and> \<not> gu GU_PAUSED (fst (move m kill new g)) \<and> \<not> gu GU_CONQUER (fst (move m kill new g))) \<or>
    (frames_left g > 1 \<and> parading (fst (move m kill new g)) \<and> frames_left (fst (move m kill new g)) = frames_left g - 1)"
proof -
  let ?k = "fps (cfg g) div 10" and ?c = "pause_cycle (dmn g)" and ?t = "conquer_timer (dmn g)"
  have par: "gu GU_PAUSED g" "gu GU_CONQUER g" "conquer_trigger (ctxt g) = 0" "1 \<le> ?t" "0 \<le> ?c" "0 < ?k"
    using assms by (auto simp: parading_def)
  obtain h where h: "frozen h = frozen (g\<lparr>dmn := (dmn g)\<lparr>pause_cycle := ?c + 1\<rparr>\<rparr>)"
    and move: "move m kill new g = (signal_servers kill
      (if ?c smod (fps (cfg g) sdiv 10) = 0 \<and> gu GU_CONQUER g then conquer_update h else h), True)"
    using par(1,3) by (rule move_paused)
  have "fps (cfg g) sdiv 10 = ?k" using assms by (simp add: parading_def sdiv_eq_div)
  then have now: "?c smod (fps (cfg g) sdiv 10) = ?c mod ?k" using par by (simp add: smod_eq_mod)
  note parts = frozenD [OF h, simplified]
  have t1: "0 \<le> (?t - 1) * ?k" using par by simp
  have m1: "0 \<le> (- ?c) mod ?k" using par(6) by simp
  have pred: "nat (x + 1) - Suc 0 = nat x" if "0 \<le> x" for x :: int using that by arith
  consider "?c mod ?k \<noteq> 0" | "?c mod ?k = 0" "?t > 1" | "?c mod ?k = 0" "?t = 1" using par(4) by linarith
  then show ?thesis
  proof cases
    case 1
    then have left: "(- ?c - 1) mod ?k = (- ?c) mod ?k - 1" using minus_mod_step [OF par(6)] by simp
    have "(- ?c) mod ?k \<noteq> 0" using 1 pos_mod_bound [OF par(6), of ?c] by (simp add: zmod_zminus1_eq_if)
    with t1 m1 have "frames_left g > 1" by (simp add: frames_left_def Let_def)
    with 1 assms t1 m1 show ?thesis
      by (simp add: move now parading_def frames_left_def Let_def signal_servers_still parts left pred)
  next
    case 2
    note upd = conquer_update_running [of h, unfolded parts, OF 2(2)] conquer_update_settings [of h]
    have "?k \<le> (?t - 1) * ?k" using 2(2) par(6) by simp
    moreover have "(- ?c - 1) mod ?k = ?k - 1" "(- ?c) mod ?k = 0" using minus_mod_restart [OF par(6) 2(1)] by simp_all
    moreover have "(?t - 2) * ?k = (?t - 1) * ?k - ?k" by (simp add: algebra_simps)
    ultimately show ?thesis
      using 2 assms t1 par(6)
      by (simp add: move now parading_def frames_left_def Let_def signal_servers_still parts upd pred)
  next
    case 3
    have "gameup (status (conquer_update h)) = gameup (status g) AND NOT (GU_PAUSED OR GU_CONQUER)"
      using conquer_update_last [of h] 3(2) parts by simp
    with 3 par(2) minus_mod_restart [OF par(6) 3(1)] show ?thesis
      by (simp add: move now frames_left_def Let_def signal_servers_still meets_def and.assoc)
  qed
qed

text \<open>
  C7: a parade ends in the play of the daemon.  The frames run the players and the parade ten
  times a second, whatever the frame rate; the game stays paused for exactly the frames that the
  timer, the rate and the phase of the cycle determine, and then goes on, with the parade over.
\<close>

theorem parade_ends_in_time:
  assumes "parading g" and "n < frames_left g"
  shows "parading (frames m kill new n g) \<and> \<not> gu GU_PAUSED (frames m kill new (frames_left g) g) \<and>
         \<not> gu GU_CONQUER (frames m kill new (frames_left g) g)"
proof -
  have run: "parading (frames m kill new n g) \<and> frames_left (frames m kill new n g) = frames_left g - n"
    if "n < frames_left g" for n
    using that
  proof (induction n)
    case 0
    with assms(1) show ?case by simp
  next
    case (Suc n)
    then have "parading (frames m kill new n g)" "frames_left (frames m kill new n g) = frames_left g - n" by simp_all
    with parading_step [of "frames m kill new n g" m kill new] Suc.prems show ?case by auto
  qed
  let ?l = "frames_left g - 1"
  have l: "frames_left g = Suc ?l" "?l < frames_left g" using assms(2) by simp_all
  from run [OF l(2)] l have "parading (frames m kill new ?l g)" "frames_left (frames m kill new ?l g) = 1" by simp_all
  with parading_step [of "frames m kill new ?l g" m kill new]
  have "\<not> gu GU_PAUSED (frames m kill new (Suc ?l) g) \<and> \<not> gu GU_CONQUER (frames m kill new (Suc ?l) g)" by simp
  with run [OF assms(2)] l(1) show ?thesis by simp
qed

definition ex_libm :: libm where
  "ex_libm = \<lparr>lm_atan2 = (\<lambda>_ _. 0), lm_cos = (\<lambda>_. 1), lm_sin = (\<lambda>x. x)\<rparr>"

definition ex_parade :: game where
  "ex_parade = start_parade 3 20 CONQUER_TYPE_END (blank_game\<lparr>cfg := blank_sysdef\<lparr>fps := 50\<rparr>\<rparr>)"

lemma parade_ends_in_time_witness:
  "gu GU_PAUSED (frames ex_libm (\<lambda>_. KILL_OK) None 495 ex_parade) \<and> \<not> gu GU_PAUSED (frames ex_libm (\<lambda>_. KILL_OK) None 496 ex_parade)"
proof -
  have ex: "gameup (status ex_parade) = 264" "conquer_trigger (ctxt ex_parade) = 0" "conquer_timer (dmn ex_parade) = 100"
    "pause_cycle (dmn ex_parade) = 0" "fps (cfg ex_parade) = 50"
    by (simp_all add: ex_parade_def start_parade_def set_gameup_def blank_defs)
  have "parading ex_parade" by (simp add: parading_def ex meets_def)
  moreover have "frames_left ex_parade = 496" by (simp add: frames_left_def ex)
  ultimately show ?thesis
    using parade_ends_in_time [where g = ex_parade and n = 495 and m = ex_libm and kill = "\<lambda>_. KILL_OK" and new = None] by (simp add: parading_def)
qed

lemma pause_freezes_witness:
  "gu GU_PAUSED (frames ex_libm (\<lambda>_. ESRCH) None 7 (set_gameup (\<lambda>_. GU_PAUSED) blank_game)) \<and>
   torps (frames ex_libm (\<lambda>_. ESRCH) None 7 (set_gameup (\<lambda>_. GU_PAUSED) blank_game)) = torps blank_game"
proof -
  have "gameup (status (set_gameup (\<lambda>_. GU_PAUSED) blank_game)) = 8"
    "conquer_trigger (ctxt (set_gameup (\<lambda>_. GU_PAUSED) blank_game)) = 0"
    "torps (set_gameup (\<lambda>_. GU_PAUSED) blank_game) = torps blank_game"
    by (simp_all add: set_gameup_def blank_defs)
  then show ?thesis
    using pause_freezes [where g = "set_gameup (\<lambda>_. GU_PAUSED) blank_game" and m = ex_libm and kill = "\<lambda>_. ESRCH" and new = None and n = 7] by (simp add: meets_def)
qed

end
