(* ===== verification/Enter.thy ===== *)
theory Enter
  imports Galaxy Ships Interface Conquer
begin

text \<open>
  \<^verbatim>\<open>ntserv/enter.c\<close> and \<^verbatim>\<open>ntserv/death.c\<close>: a player enters the game in a new ship, and leaves it
  when the ship is lost.  \<^verbatim>\<open>enter\<close> takes the team number (4 for an independent player, 5 for a
  terminator), the player and the ship type.  The look-ups of addresses, the wording of the
  join messages and the packets to the client are left out; \<^verbatim>\<open>atan2f\<close> is a parameter.  The
  functions called by \<^verbatim>\<open>enter\<close> work on the process's own player, which is the entering one.
\<close>

subsection \<open>Where a ship enters\<close>

definition face_enemy :: "(int \<Rightarrow> int \<Rightarrow> rat) \<Rightarrow> nat \<Rightarrow> game \<Rightarrow> game \<times> 8 word" where
  "face_enemy atan me g =
     (if inl_mode g then (g, 0)
      else
        let p = players g me; other = team_opposing (p_team p) g;
            (g, x, y) = (if other = NOBODY then (g, GWIDTH div 2, GWIDTH div 2)
                         else let (g, l) = pl_pick_home other g in (g, pl_x (planets g l), pl_y (planets g l)))
        in (g, (to_dir atan (p_x p) (p_y p) x y + 16) AND 0xe0))"

text \<open>The middle ninth of the galaxy, not too close to another ship; ten attempts.\<close>

abbreviation (input) INDEP :: int where "INDEP \<equiv> 33333"

definition random_place :: "nat \<Rightarrow> game \<Rightarrow> game" where
  "random_place me g =
     (let x = GWIDTH div 2 + rand_val g mod INDEP - INDEP div 2; g = rand_next g;
          y = GWIDTH div 2 + rand_val g mod INDEP - INDEP div 2; g = rand_next g
      in upd_player me (p_x_y_go x y) g)"

definition crowded :: "nat \<Rightarrow> game \<Rightarrow> bool" where
  "crowded me g \<longleftrightarrow>
     (\<exists>i<MAXPLAYER. let p = players g i; q = players g me in
        p_status p \<noteq> PFREE \<and> i \<noteq> me \<and> \<bar>p_x p - p_x q\<bar> < 2 * TRACTDIST \<and> \<bar>p_y p - p_y q\<bar> < 2 * TRACTDIST)"

fun place_tries :: "nat \<Rightarrow> nat \<Rightarrow> game \<Rightarrow> game" where
  "place_tries 0 me g = g"
| "place_tries (Suc n) me g =
     (let g = random_place me g in if crowded me g then place_tries n me g else g)"

definition placeIndependent :: "nat \<Rightarrow> game \<Rightarrow> game" where
  "placeIndependent me g = place_tries 10 me g"

definition team_size :: "int \<Rightarrow> game \<Rightarrow> int" where
  "team_size t g = int (count_upto MAXPLAYER (\<lambda>i. p_status (players g i) \<noteq> PFREE \<and> p_team (players g i) = t))"

definition auto_peace :: "nat \<Rightarrow> game \<Rightarrow> game" where
  "auto_peace me g =
     (let big = (\<lambda>t. if team_size t g \<ge> tournplayers (cfg g) then t else 0)
      in upd_player me (\<lambda>p. p\<lparr>p_hostile :=
           (if tourn g then big FED OR big ROM OR big KLI OR big ORI else FED OR ROM OR KLI OR ORI)\<rparr>) g)"

subsection \<open>Entering\<close>

text \<open>A new base lets its team dock and transwarp.\<close>

definition welcome_team :: "nat \<Rightarrow> game \<Rightarrow> game" where
  "welcome_team me g =
     for_upto MAXPLAYER (\<lambda>i g. if p_team (players g i) = p_team (players g me)
       then upd_player i (\<lambda>p. p\<lparr>p_candock := True, p_cantranswarp := True\<rparr>) g else g) g"

definition equip :: "nat \<Rightarrow> nat \<Rightarrow> game \<Rightarrow> game" where
  "equip me ty g =
     (let g = getship me ty g;
          g = (if ty \<noteq> STARBASE \<and> ty \<noteq> ATT \<and> plkills (cfg g) > 0
               then upd_player me (\<lambda>p. p\<lparr>p_ship := (p_ship p)\<lparr>s_plasmacost := -1\<rparr>\<rparr>) g else g);
          g = upd_player me (\<lambda>p. p\<lparr>p_updates := 0,
                p_flags := (if ty = STARBASE then PFSHIELD OR PFGREEN OR PFDOCKOK else PFSHIELD OR PFGREEN)\<rparr>) g;
          g = (if ty = STARBASE then welcome_team me g else g)
      in upd_player me (\<lambda>p. p\<lparr>p_transwarp := PFGREEN OR PFYELLOW OR PFRED, p_speed := 0, p_desspeed := 0, p_subspeed := 0\<rparr>) g)"

definition face :: "8 word \<Rightarrow> player \<Rightarrow> player" where
  "face d p = p\<lparr>p_dir := d, p_desdir := d\<rparr>"

definition locate :: "(int \<Rightarrow> int \<Rightarrow> rat) \<Rightarrow> int \<Rightarrow> nat \<Rightarrow> game \<Rightarrow> game" where
  "locate atan tno me g =
     (if tno = 4 \<or> tno = 5 \<or> w_queue (players g me) = QU_GOD_OBS
      then upd_player me (face 0) (placeIndependent me (upd_player me (\<lambda>p. p\<lparr>p_team := 0\<rparr>) g))
      else
        let g = upd_player me (\<lambda>p. p\<lparr>p_team := 2 ^ nat tno\<rparr>) g;
            (g, d) = face_enemy atan me (p_x_y_go_home me g)
        in upd_player me (face d) g)"

definition fresh_record :: "player \<Rightarrow> player" where
  "fresh_record p =
     bay_init ((p_heal ((p_x_y_unbox p)\<lparr>p_ntorp := 0, p_cloakphase := 0, p_nplasmatorp := 0\<rparr>))
       \<lparr>p_swar := 0, p_lastseenby := None, p_kills := 0, p_armies := 0\<rparr>)\<lparr>p_dock_with := 0, p_dock_bay := 0\<rparr>"

definition set_hostility :: "nat \<Rightarrow> game \<Rightarrow> game" where
  "set_hostility me g =
     (if \<not> pflag me PFROBOT g \<and> p_team (players g me) = NOBODY
      then upd_player me (\<lambda>p. p\<lparr>p_hostile := NOBODY, p_war := NOBODY, p_swar := NOBODY\<rparr>) g
      else upd_player me (\<lambda>p. p\<lparr>p_hostile := p_hostile p AND NOT (p_team p), p_war := p_hostile p AND NOT (p_team p)\<rparr>)
             (if keeppeace (procs g me) then g else auto_peace me g))"

definition clear_eject_votes :: "nat \<Rightarrow> game \<Rightarrow> game" where
  "clear_eject_votes me g =
     for_upto MAXPLAYER (\<lambda>i. upd_player i (\<lambda>p. p\<lparr>voting := (voting p)(p_no (players g me) := -1)\<rparr>)) g"

text \<open>A change of team: a new enemy for the statistics, and war with the former team.\<close>

definition join_team :: "int \<Rightarrow> nat \<Rightarrow> game \<Rightarrow> game" where
  "join_team tno me g =
     (let last = lastteam (procs g me);
          g = (if last < 4 \<and> last \<noteq> tno then
                 let g = setEnemy tno me g in if last \<ge> 0 then declare_war me (2 ^ nat last) False g else g
               else g);
          g = upd_player me (\<lambda>p. p\<lparr>p_no_pick := False\<rparr>) g;
          rank = st_rank (p_stats (players g me));
          g = upd_proc me (\<lambda>m. m\<lparr>lastrank := (if lastrank m = -1 then rank else lastrank m), lastteam := tno\<rparr>) g;
          promoted = (lastrank (procs g me) \<noteq> rank);
          g = (if promoted
               then if gu GU_INL_DRAFTED g then g else emit (Pmessage 0 ''MALL | MJOIN'' ''%.16s (%2.2s) promoted to %s (%.16s@%.32s)'') g
               else emit (Pmessage 0 ''MALL | MJOIN'' ''%s %.16s is now %2.2s (%.16s@%s%.32s)'') g)
      in upd_proc me (\<lambda>m. m\<lparr>lastrank := rank\<rparr>) g)"

definition enter :: "(int \<Rightarrow> int \<Rightarrow> rat) \<Rightarrow> int \<Rightarrow> nat \<Rightarrow> nat \<Rightarrow> string \<Rightarrow> game \<Rightarrow> game" where
  "enter atan tno me ty name g =
     (let g = equip me ty (upd_player me (\<lambda>p. p\<lparr>p_name := name\<rparr>) g);
          g = upd_player me fresh_record (locate atan tno me g);
          g = clear_eject_votes me (set_hostility me g);
          g = upd_player me (\<lambda>p. set_names me (p\<lparr>p_inl_draft := INL_DRAFT_OFF\<rparr>)) g;
          g = (if lastteam (procs g me) \<noteq> tno \<or> lastrank (procs g me) \<noteq> st_rank (p_stats (players g me))
               then join_team tno me g else g)
      in upd_proc me (\<lambda>m. m\<lparr>delay := 0\<rparr>) g)"

subsection \<open>Death\<close>

definition must_leave :: "nat \<Rightarrow> game \<Rightarrow> bool" where
  "must_leave me g \<longleftrightarrow>
     (let p = players g me; admin = (p_authorised p \<and> has (p_flags p) PFOBSERV); q = queues g QU_PICKUP in
      case p_whydead p of
        KWINNER \<Rightarrow> genoquit (cfg g) \<noteq> 0 \<and> meets (q_flags q) QU_OPEN \<and> int (unat (q_count q)) \<ge> genoquit (cfg g) \<and>
                   \<not> has (p_flags p) PFOBSERV
      | KQUIT \<Rightarrow> \<not> admin | KDAEMON \<Rightarrow> \<not> admin | KOVER \<Rightarrow> \<not> admin | KBADBIN \<Rightarrow> \<not> admin
      | KLOGIN \<Rightarrow> True
      | _ \<Rightarrow> False)"

definition promote :: "nat \<Rightarrow> game \<Rightarrow> game" where
  "promote me g =
     (if st_rank (p_stats (players g me)) < 8 \<and> \<not> gu GU_INL_DRAFTED g then
        let (p, ok) = ltd_can_rank g (players g me)
        in upd_player me (\<lambda>_. if ok then p\<lparr>p_stats := (p_stats p)\<lparr>st_rank := st_rank (p_stats p) + 1\<rparr>\<rparr> else p) g
      else g)"

definition death :: "nat \<Rightarrow> game \<Rightarrow> game" where
  "death me g =
     (let g = upd_player me (\<lambda>p. p\<lparr>p_status := POUTFIT, p_flags := clear_flags PFTWARP (p_flags p)\<rparr>) g;
          g = (if must_leave me g then upd_proc me (\<lambda>m. m\<lparr>mustexit := True\<rparr>) g else g);
          g = ltd_update_totals me (upd_player me ltd_reset_hist g);
          g = upd_player me (\<lambda>p. p\<lparr>p_flags := clear_flags (PFWAR OR PFREFITTING) (p_flags p)\<rparr>) g;
          g = (if inl_mode g then g\<lparr>cfg := (cfg g)\<lparr>hourratio := 5\<rparr>\<rparr> else g)
      in upd_proc me (\<lambda>m. m\<lparr>living := False\<rparr>) (emit (Saveplayer me) (promote me g)))"

end
