(* ===== verification/Client.thy ===== *)
theory Client
  imports Enter Motion Armies
begin

text \<open>
  What a player's server process does on its own each update: \<^verbatim>\<open>ntserv/redraw.c\<close> (following a
  locked ship or planet, finishing orders, an observer's view) and the transwarp command of
  \<^verbatim>\<open>ntserv/transwarp.c\<close>.  The process is identified with its player; \<^verbatim>\<open>atan2f\<close> is a parameter.
  The checks of the client's binary and the masks of accepted packets are left out, as is the
  wait before a transwarp.
\<close>

subsection \<open>Transwarp\<close>

abbreviation (input) MIN_INITIAL_SPEED :: int where "MIN_INITIAL_SPEED \<equiv> 2"
abbreviation (input) MAX_TRANSWARP_SPEED :: int where "MAX_TRANSWARP_SPEED \<equiv> 60"

definition base_refusal :: "32 word \<Rightarrow> string" where
  "base_refusal w =
     (if w = PFGREEN then ''Starbase refusing transwarp, in red or yellow alert''
      else if w = PFYELLOW OR PFGREEN then ''Starbase refusing transwarp, in red alert''
      else if w = PFSHIELD then ''Starbase refusing transwarp, her shields are up''
      else ''Starbase refusing transwarp, captain!'')"

text \<open>The first test that fails, in the order of the source; the empty string is silence.\<close>

definition transwarp_refusal :: "nat \<Rightarrow> game \<Rightarrow> string option" where
  "transwarp_refusal me g =
     (let p = players g me; j = players g (p_playerl p); f = (\<lambda>m. has (p_flags p) m) in
      if p_inl_draft p \<noteq> INL_DRAFT_OFF then Some ''''
      else if \<not> twarpMode (cfg g) then Some ''Sorry, transwarp mode is not active.''
      else if p_status p \<noteq> PALIVE then Some ''''
      else if \<not> p_cantranswarp p then Some ''Starbase refuses transwarping from us in particular, captain!''
      else if \<not> p_candock p then Some ''Starbase refuses docking from us in particular, captain!''
      else if f PFENG then Some ''Engine temperature is too high to initiate transwarp!''
      else if s_type (p_ship p) = STARBASE \<and> \<not> chaosmode (cfg g)
      then Some ''Starbases are not allowed to transwarp, captain!''
      else if \<not> f PFPLOCK \<or> s_type (p_ship j) \<noteq> STARBASE then Some ''You're not locked on to a starbase!''
      else if \<not> f PFGREEN then Some ''OSHA safety regulations prohibit transwarp near enemy ships.''
      else if p_status j \<noteq> PALIVE then Some ''The starbase has been destroyed!''
      else if has (p_flags j) PFTWARP then Some ''Cannot transwarp to a ship already in transwarp, captain!''
      else if meets (p_war j) (p_team p) \<or> meets (p_war p) (p_team j)
      then Some ''Transwarp request rejected by battle computers, captain!''
      else if \<not> has (p_flags j) PFDOCKOK then Some ''Starbase refusing all docking permission captain!''
      else if \<not> has (p_transwarp j) (p_flags j XOR PFSHIELD) then Some (base_refusal (p_transwarp j))
      else if p_speed p > MIN_INITIAL_SPEED then Some ''We cannot exceed warp 2 to initiate transwarp, captain!''
      else if f PFREPAIR then Some ''Vessel under repair, cannot initiate transwarp!''
      else if f PFCLOAK then Some ''We're not allowed to transwarp while cloaked, captain!''
      else if f PFORBIT then Some ''We can't transwarp while orbiting, captain!''
      else if p_damage p > s_maxdamage (p_ship p) sdiv 3
      then Some ''Our ship's condition makes it impossible to tranwswarp, captain!''
      else if p_fuel p < s_maxfuel (p_ship p) sdiv 2 then Some ''Too low on fuel, cannot initiate transwarp!''
      else None)"

definition transwarp_speed :: "player \<Rightarrow> int" where
  "transwarp_speed p =
     (let s = p_ship p; v = min (5 * s_maxspeed s) MAX_TRANSWARP_SPEED;
          mx = 5 * (s_maxspeed s + 2 -
                 trunc (of_int (s_maxspeed s + 1) * (of_int (p_damage p) / of_int (s_maxdamage s))))
      in min v mx)"

definition handleTranswarp :: "nat \<Rightarrow> game \<Rightarrow> game \<times> int" where
  "handleTranswarp me g =
     (case transwarp_refusal me g of
        Some m \<Rightarrow> (if m = '''' then g else warn me UNDEF m g, 0)
      | None \<Rightarrow>
          let g = set_speed me 1 (warn me UNDEF ''Transwarp initiated, all systems are DOWN meanwhile!'' g);
              g = upd_player me (\<lambda>p. p\<lparr>p_flags :=
                    set_flags (PFSHIELD OR PFTWARP OR PFPLOCK) (clear_flags (PFPLOCK OR PFPLLOCK OR PFDOCK) (p_flags p))\<rparr>) g;
              g = upd_player me (\<lambda>p. p\<lparr>p_desspeed := transwarp_speed p\<rparr>) g
          in (upd_player me (\<lambda>p. if p_speed p = 0 then p\<lparr>p_speed := p_speed p + 1\<rparr> else p) g, 1))"

subsection \<open>Observers\<close>

definition off_tactical :: "player \<Rightarrow> player" where
  "off_tactical p = p\<lparr>p_x := -100000, p_y := -100000\<rparr>"

definition drop_lock :: "32 word \<Rightarrow> player \<Rightarrow> player" where
  "drop_lock m p = p\<lparr>p_flags := clear_flags m (p_flags p)\<rparr>"

abbreviation (input) NOOBSMASK :: "32 word" where
  "NOOBSMASK \<equiv> PFSELFDEST OR PFPLOCK OR PFPLLOCK OR PFOBSERV"

definition watch :: "player \<Rightarrow> player \<Rightarrow> player" where
  "watch q p =
     p\<lparr>p_ship := (p_ship p)\<lparr>s_type := s_type (p_ship q)\<rparr>, p_x := p_x q, p_y := p_y q, p_shield := p_shield q,
       p_damage := p_damage q, p_armies := p_armies q, p_fuel := p_fuel q, p_wtemp := p_wtemp q, p_etemp := p_etemp q,
       p_flags := (p_flags q AND NOT NOOBSMASK) OR (p_flags p AND NOOBSMASK), p_dir := p_dir q,
       p_tractor := p_tractor q, p_dock_with := p_dock_with q, p_dock_bay := p_dock_bay q,
       p_planet := p_planet q, p_speed := p_speed q\<rparr>"

definition observe_player :: "nat \<Rightarrow> game \<Rightarrow> game" where
  "observe_player me g =
     (let p = players g me; q = players g (p_playerl p) in
      if p_playerl p \<ge> MAXPLAYER
      then upd_player me (\<lambda>p. off_tactical (drop_lock PFPLOCK (p\<lparr>p_playerl := 0\<rparr>))) g
      else if p_status q \<noteq> PALIVE \<and> p_status q \<noteq> PEXPLODE \<and> p_status q \<noteq> PDEAD
      then warn me 99 ''Player lock lost while player rejoins.'' (upd_player me off_tactical g)
      else if p_team q \<noteq> p_team p \<and> p_team q \<noteq> 0 \<and> p_team p \<noteq> 0
      then upd_player me (\<lambda>p. drop_lock PFPLOCK (off_tactical p)) (warn me 100 ''Can only lock on own team.'' g)
      else upd_player me (watch q) g)"

definition observe_planet :: "nat \<Rightarrow> game \<Rightarrow> game" where
  "observe_planet me g =
     (let p = players g me; l = planets g (p_planet p) in
      if p_planet p \<ge> MAXPLANETS
      then upd_player me (\<lambda>p. off_tactical (drop_lock PFPLLOCK (p\<lparr>p_planet := 0\<rparr>))) g
      else if pl_owner l \<noteq> p_team p \<and> p_team p \<noteq> 0
      then upd_player me (\<lambda>p. drop_lock PFPLLOCK (off_tactical p))
             (if p_x p = pl_x l \<and> p_y p = pl_y l
              then warn me 102 ''Planet lock lost on change of ownership.'' g
              else warn me 101 ''You can only warp to your own team's planets!'' g)
      else upd_player me (\<lambda>p. p\<lparr>p_x := pl_x l, p_y := pl_y l\<rparr>) g)"

definition observe :: "nat \<Rightarrow> game \<Rightarrow> game" where
  "observe me g =
     (if pflag me PFSELFDEST g
      then death me (upd_player me (\<lambda>p. p\<lparr>p_status := POUTFIT, p_whydead := KQUIT\<rparr>) g)
      else
        let g = upd_player me (\<lambda>p. p\<lparr>p_flags := set_flags PFOBSERV (p_flags p)\<rparr>) g in
        if pflag me PFPLOCK g then observe_player me g
        else if pflag me PFPLLOCK g then observe_planet me g
        else upd_player me off_tactical g)"

definition check_observs :: "nat \<Rightarrow> game \<Rightarrow> game" where
  "check_observs me g =
     (if \<not> Observer (procs g me) then g
      else if p_status (players g me) = PDEAD \<or> p_status (players g me) = PEXPLODE then death me g
      else observe me (upd_player me (\<lambda>p. p\<lparr>p_status := POBSERV\<rparr>) g))"

subsection \<open>Countdowns\<close>

definition self_destruct_countdown :: "nat \<Rightarrow> game \<Rightarrow> game" where
  "self_destruct_countdown me g =
     (let p = players g me; n = (p_selfdest p - p_updates p) sdiv 10 in
      if \<not> has (p_flags p) PFSELFDEST then upd_proc me (\<lambda>m. m\<lparr>sd_time_last := -1\<rparr>) g
      else if n = sd_time_last (procs g me) then g
      else warn me UNDEF (if n = 4 \<or> n = 5 then ''You notice everyone on the bridge is staring at you.''
                          else ''Stand By ... Self Destruct in %d seconds'')
             (upd_proc me (\<lambda>m. m\<lparr>sd_time_last := n\<rparr>) g))"

definition refit_quips :: "string list" where
  "refit_quips = [''Wait, you forgot your toothbrush!'', ''Nothing like turning in a used ship for a new one.'',
     ''First officer:  Oh no, not you again... we're doomed!'',
     ''First officer:  Uh, I'd better run diagnostics on the escape pods.'',
     ''Shipyard controller:  This time, *please* be more careful, okay?'']"

definition refit_countdown :: "nat \<Rightarrow> game \<Rightarrow> game" where
  "refit_countdown me g =
     (let n = (rdelay (procs g me) - p_updates (players g me)) sdiv 10 in
      if \<not> pflag me PFREFITTING g \<or> lastRefitValue (procs g me) = n then g
      else
        let g = upd_proc me (\<lambda>m. m\<lparr>lastRefitValue := n\<rparr>) g in
        if n = 3 \<or> n = 2 then warn me UNDEF ''Engineering:  Energizing transporters in %d seconds'' g
        else if n = 1 then warn me UNDEF ''Engineering:  Energize. [ SFX: chimes ]'' g
        else if n = 0 then rand_next (warn me UNDEF (refit_quips ! nat (rand_val g mod 5)) g)
        else g)"

definition war_quips :: "string list" where
  "war_quips = [''First Officer:  laws of the universe, like 'tires on the ether'.'',
     ''First Officer:  laws of the universe, like 'Klingon bitmaps are ugly'.'',
     ''First Officer:  laws of the universe, like 'all admirals have scummed'.'',
     ''First Officer:  laws of the universe, like 'Mucus Pig exists'.'',
     ''First Officer:  laws of the universe, like 'guests advance 5x faster'.'']"

definition war_countdown :: "nat \<Rightarrow> game \<Rightarrow> game" where
  "war_countdown me g =
     (let n = (delay (procs g me) - p_updates (players g me)) sdiv 10 in
      if \<not> pflag me PFWAR g \<or> lastWarValue (procs g me) = n then g
      else
        let g = upd_proc me (\<lambda>m. m\<lparr>lastWarValue := n\<rparr>) g in
        if n = 9 then warn me UNDEF ''Weapons officer:  Not again!  This is absurd...'' g
        else if n = 7 then warn me UNDEF ''Weapons officer:  ... the whole ship's computer is down?'' g
        else if n = 5 then warn me UNDEF ''Weapons officer:  Just to twiddle a few bits of the ship's memory?'' g
        else if n = 3 then warn me UNDEF ''Weapons officer:  Bah! [ bangs fist on inoperative console ]'' g
        else if n = 1 then warn me UNDEF ''First Officer:  Easy, big guy... it's just one of those mysterious'' g
        else if n = 0 then rand_next (warn me UNDEF (war_quips ! nat (rand_val g mod 5)) g)
        else g)"

subsection \<open>Orders in progress\<close>

text \<open>
  Orders that can go no further are cancelled; the others are reported.  An observer sees the
  capacity that the kills of the observed player give to its own ship.
\<close>

definition troop_capacity :: "nat \<Rightarrow> game \<Rightarrow> int" where
  "troop_capacity me g =
     (let p = players g me; s = p_ship p;
          q = (if Observer (procs g me) \<and> has (p_flags p) PFPLOCK then players g (p_playerl p) else p);
          c = trunc (of_int (trunc (p_kills q * 100)) / 100 * (if s_type s = ASSAULT then 3 else 2))
      in if s_type s = STARBASE \<or> c > s_maxarmies s then s_maxarmies s else c)"

definition cancel :: "32 word \<Rightarrow> nat \<Rightarrow> game \<Rightarrow> game" where
  "cancel m me = upd_player me (drop_lock m)"

definition bomb_info :: "nat \<Rightarrow> game \<Rightarrow> game" where
  "bomb_info me g =
     (if \<not> pflag me PFBOMB g then g
      else if pl_armies (planets g (p_planet (players g me))) < 5
      then cancel PFBOMB me (warn me UNDEF ''Weapons Officer: Bombarding %s... Ineffective, %d armies left.'' g)
      else warn me UNDEF ''Weapons Officer: Bombarding %s...  Sensors read %d armies left.'' g)"

definition beam_up_info :: "nat \<Rightarrow> game \<Rightarrow> game" where
  "beam_up_info me g =
     (let p = players g me; cap = troop_capacity me g; room = ''No more room on board for armies'';
          few = ''Too few armies to beam up''; no = (\<lambda>m. warn me UNDEF m (cancel PFBEAMUP me g)) in
      if \<not> pflag me PFBEAMUP g then g
      else if pflag me PFORBIT g then
        if pl_armies (planets g (p_planet p)) < 5 then no few
        else if p_armies p = cap then no room
        else warn me UNDEF ''Beaming up'' g
      else case bay_owner me g of
          None \<Rightarrow> g
        | Some base \<Rightarrow>
            if p_armies (players g base) \<le> 0 then no few
            else if p_armies p \<ge> cap then no room
            else warn me UNDEF ''Beaming up'' g)"

definition beam_down_info :: "nat \<Rightarrow> game \<Rightarrow> game" where
  "beam_down_info me g =
     (let p = players g me; none = ''No more armies to beam down'';
          no = (\<lambda>m. warn me UNDEF m (cancel PFBEAMDOWN me g)) in
      if \<not> pflag me PFBEAMDOWN g then g
      else if pflag me PFORBIT g then
        if p_armies p = 0 then no none else warn me UNDEF ''Beaming down'' g
      else case bay_owner me g of
          None \<Rightarrow> g
        | Some base \<Rightarrow>
            if p_armies p \<le> 0 then no none
            else if p_armies (players g base) \<ge> s_maxarmies (p_ship (players g base))
            then no ''All troop bunkers are full''
            else warn me UNDEF ''Transfering ground units'' g)"

definition end_repair :: "nat \<Rightarrow> game \<Rightarrow> game" where
  "end_repair me g =
     (let p = players g me in
      if has (p_flags p) PFREPAIR \<and> p_damage p = 0 \<and> p_shield p = s_maxshield (p_ship p)
      then cancel PFREPAIR me g else g)"

subsection \<open>Following a lock\<close>

definition abort_transwarp :: "nat \<Rightarrow> string \<Rightarrow> game \<Rightarrow> game" where
  "abort_transwarp me m g =
     set_speed me 0 (upd_player me (\<lambda>p. (drop_lock PFTWARP p)\<lparr>p_speed := 3\<rparr>) (warn me UNDEF m g))"

text \<open>The first two causes are tested apart, the other three in turn.\<close>

definition check_transwarp :: "nat \<Rightarrow> player \<Rightarrow> game \<Rightarrow> game" where
  "check_transwarp me base g =
     (if \<not> pflag me PFTWARP g then g
      else
        let g = (if p_status base \<noteq> PALIVE then abort_transwarp me ''Starbase is dead; Transwarp aborted!'' g else g);
            g = (if s_type (p_ship base) \<noteq> STARBASE
                 then abort_transwarp me ''Starbase has been turned in; Transwarp aborted!'' g else g);
            p = players g me
        in if p_etemp p > s_maxegntemp (p_ship p) - 10
           then abort_transwarp me ''Warp drive reaching critical temperature!'' g
           else if p_fuel p < s_maxfuel (p_ship p) sdiv 8
           then abort_transwarp me ''Not enough fuel to continue transwarp!'' g
           else if \<not> pflag me PFPLOCK g then abort_transwarp me ''Lost player lock!'' g
           else g)"

definition stopping :: "int \<Rightarrow> int \<Rightarrow> player \<Rightarrow> bool" where
  "stopping d reach p \<longleftrightarrow>
     d - reach sdiv 2 < (11500 * p_speed p * p_speed p) sdiv s_decint (p_ship p) \<and> p_desspeed p > 2"

definition near_base :: "(int \<Rightarrow> int \<Rightarrow> rat) \<Rightarrow> nat \<Rightarrow> player \<Rightarrow> game \<Rightarrow> game" where
  "near_base atan me base g =
     (let p = players g me; d = hypot_int (p_x p - p_x base) (p_y p - p_y base);
          g = (if \<not> has (p_flags p) PFTWARP \<and> stopping d DOCKDIST p then set_speed me (p_desspeed p - 1) g else g)
      in if d < 2 * DOCKDIST \<and> pflag me PFTWARP g
         then orbit atan me (upd_player me (\<lambda>p. (drop_lock (PFPLOCK OR PFTWARP) (p_x_y_join base p))\<lparr>p_speed := 2\<rparr>) g)
         else if d < DOCKDIST \<and> p_speed (players g me) \<le> 2 then orbit atan me (cancel PFPLOCK me g)
         else g)"

definition follow_player :: "(int \<Rightarrow> int \<Rightarrow> rat) \<Rightarrow> nat \<Rightarrow> game \<Rightarrow> game" where
  "follow_player atan me g =
     (if \<not> pflag me PFPLOCK g \<or> Observer (procs g me) then g
      else
        let k = p_playerl (players g me);
            g = (if p_status (players g k) \<noteq> PALIVE then cancel PFPLOCK me g else g);
            g = check_transwarp me (players g k) g;
            g = (if s_type (p_ship (players g k)) = STARBASE then near_base atan me (players g k) g else g)
        in if \<not> pflag me PFPLOCK g then g
           else
             let p = players g me; q = players g k; course = to_dir atan (p_x p) (p_y p) (p_x q) (p_y q)
             in if pflag me PFTWARP g then upd_player me (\<lambda>p. p\<lparr>p_dir := course\<rparr>) g else set_course me course g)"

text \<open>
  Whether the course to the planet needs correcting: the point of arrival on the present course
  misses by more than the remaining distance over the wobble factor, or, without one, the
  classical rule.
\<close>

definition off_course :: "int \<Rightarrow> 8 word \<Rightarrow> int \<Rightarrow> planet \<Rightarrow> player \<Rightarrow> bool" where
  "off_course wobble course d l p \<longleftrightarrow>
     (if wobble \<noteq> 0 then
        let ax = trunc (of_int (p_x p) + Cos (p_desdir p) * of_int d);
            ay = trunc (of_int (p_y p) + Sin (p_desdir p) * of_int d)
        in hypot_int (ax - pl_x l) (ay - pl_y l) > d sdiv wobble
      else \<bar>uint course - uint (p_desdir p)\<bar> > 2 \<or> d < ENTORBDIST * 10)"

definition follow_planet :: "(int \<Rightarrow> int \<Rightarrow> rat) \<Rightarrow> nat \<Rightarrow> game \<Rightarrow> game" where
  "follow_planet atan me g =
     (if \<not> pflag me PFPLLOCK g \<or> Observer (procs g me) then g
      else
        let p = players g me; l = planets g (p_planet p); d = hypot_int (p_x p - pl_x l) (p_y p - pl_y l);
            g = (if stopping d ORBDIST p then set_speed me 2 g else g);
            p = players g me
        in if d < ENTORBDIST \<and> p_speed p \<le> 2 then orbit atan me (cancel PFPLLOCK me g)
           else
             let course = to_dir atan (p_x p) (p_y p) (pl_x l) (pl_y l)
             in if off_course (nowobble (procs g me)) course d l p then set_course me course g else g)"

definition auto_features :: "(int \<Rightarrow> int \<Rightarrow> rat) \<Rightarrow> nat \<Rightarrow> game \<Rightarrow> game" where
  "auto_features atan me g =
     (let g = check_observs me g in
      if \<not> living (procs g me) then g
      else
        let g = war_countdown me (refit_countdown me (self_destruct_countdown me g));
            g = end_repair me (beam_down_info me (beam_up_info me (bomb_info me g)))
        in follow_planet atan me (follow_player atan me g))"

text \<open>
  The update of a server process, without the checks of the client's binary.  The result tells
  whether the slot still exists.
\<close>

definition intrupt :: "(int \<Rightarrow> int \<Rightarrow> rat) \<Rightarrow> nat \<Rightarrow> game \<Rightarrow> game \<times> bool" where
  "intrupt atan me g =
     (let p = players g me in
      if p_status p = PFREE then (g, False)
      else if (\<not> Observer (procs g me) \<or> p_status p = PEXPLODE) \<and> (p_status p = PDEAD \<or> p_status p = POUTFIT) \<and>
              p_ntorp p \<le> 0 \<and> p_nplasmatorp p \<le> 0
      then (death me g, True)
      else (auto_features atan me g, True))"

section \<open>Properties\<close>

text \<open>
  What the process of an observer may not touch: the other players, the planets, the torpedoes,
  and who is an observer.
\<close>

definition rest_of :: "nat \<Rightarrow> game \<Rightarrow> (nat \<Rightarrow> player) \<times> (nat \<Rightarrow> planet) \<times> (nat \<Rightarrow> torp) \<times> (nat \<Rightarrow> bool)" where
  "rest_of me g = ((players g)(me := blank_player), planets g, torps g, \<lambda>i. Observer (procs g i))"

lemma rest_basic [simp]:
  "rest_of me (upd_player me f g) = rest_of me g"
  "rest_of me (emit e g) = rest_of me g" "rest_of me (rand_next g) = rest_of me g" "rest_of me (g\<lparr>cfg := c\<rparr>) = rest_of me g"
  by (simp_all add: rest_of_def)

lemma rest_proc [simp]: "(\<And>m. Observer (f m) = Observer m) \<Longrightarrow> rest_of me (upd_proc i f g) = rest_of me g"
  by (auto simp: rest_of_def fun_eq_iff)

lemma rest_totals [simp]: "rest_of me (ltd_update_totals me g) = rest_of me g"
  by (simp add: ltd_update_totals_def)

lemma rest_death [simp]: "rest_of me (death me g) = rest_of me g"
  by (simp add: death_def promote_def Let_def case_prod_beta)

lemma rest_countdowns [simp]:
  "rest_of me (self_destruct_countdown me g) = rest_of me g" "rest_of me (refit_countdown me g) = rest_of me g"
  "rest_of me (war_countdown me g) = rest_of me g"
  by (simp_all add: self_destruct_countdown_def refit_countdown_def war_countdown_def Let_def)

lemma rest_orders [simp]:
  "rest_of me (bomb_info me g) = rest_of me g" "rest_of me (beam_up_info me g) = rest_of me g"
  "rest_of me (beam_down_info me g) = rest_of me g" "rest_of me (end_repair me g) = rest_of me g"
  by (simp_all add: bomb_info_def beam_up_info_def beam_down_info_def end_repair_def cancel_def Let_def split: option.split)

lemma rest_observe [simp]: "rest_of me (check_observs me g) = rest_of me g"
  by (simp add: check_observs_def observe_def observe_player_def observe_planet_def Let_def)

text \<open>
  C30: an observer only watches.  Whatever the flags of an observer are, what its server process
  does in an update (following its lock, its countdowns, its orders, its death) changes no other
  player, no planet and no torpedo, and it stays an observer.
\<close>

theorem observers_only_watch:
  assumes "Observer (procs g me)"
  shows "(\<forall>j. j \<noteq> me \<longrightarrow> players (fst (intrupt atan me g)) j = players g j) \<and>
    planets (fst (intrupt atan me g)) = planets g \<and> torps (fst (intrupt atan me g)) = torps g \<and>
    Observer (procs (fst (intrupt atan me g)) me)"
proof -
  define h where "h = end_repair me (beam_down_info me (beam_up_info me (bomb_info me
    (war_countdown me (refit_countdown me (self_destruct_countdown me (check_observs me g)))))))"
  have h: "rest_of me h = rest_of me g" by (simp add: h_def)
  then have "Observer (procs h me)" using assms by (simp add: rest_of_def fun_eq_iff)
  then have "follow_planet atan me (follow_player atan me h) = h"
    by (simp add: follow_player_def follow_planet_def)
  then have "rest_of me (auto_features atan me g) = rest_of me g"
    using h by (simp add: auto_features_def Let_def h_def)
  then have r: "rest_of me (fst (intrupt atan me g)) = rest_of me g"
    by (simp add: intrupt_def Let_def)
  then have "(players (fst (intrupt atan me g)))(me := blank_player) = (players g)(me := blank_player)"
    by (simp add: rest_of_def)
  then have "players (fst (intrupt atan me g)) j = players g j" if "j \<noteq> me" for j
    using that by (metis fun_upd_other)
  with r assms show ?thesis by (simp add: rest_of_def fun_eq_iff)
qed

definition ex_observer :: game where
  "ex_observer = upd_proc 4 (\<lambda>m. m\<lparr>Observer := True, living := True\<rparr>)
     (upd_player 4 (\<lambda>p. p\<lparr>p_status := POBSERV, p_flags := PFPLOCK OR PFBOMB, p_playerl := 3\<rparr>) blank_game)"

lemma observers_only_watch_witness:
  "players (fst (intrupt (\<lambda>_ _. 0) 4 ex_observer)) 3 = players blank_game 3 \<and>
   Observer (procs (fst (intrupt (\<lambda>_ _. 0) 4 ex_observer)) 4)"
proof -
  have "Observer (procs ex_observer 4)" "players ex_observer 3 = players blank_game 3"
    by (simp_all add: ex_observer_def)
  with observers_only_watch [of ex_observer 4 "\<lambda>_ _. 0"] show ?thesis by simp
qed

end
