(* ===== verification/Votes.thy ===== *)
theory Votes
  imports Bans Slots Bay
begin

text \<open>
  Commands that players type as messages to themselves: the interpreter and the counting of votes
  (\<^verbatim>\<open>ntserv/gencmds.c\<close>), and the table of commands of the game server with the votes that
  change the game (\<^verbatim>\<open>ntserv/ntscmds.c\<close>), in the default build.  The time of day is the argument
  \<open>now\<close>.  A command that only answers its caller, or changes the player file or starts a tool, is
  an output with the name of the command.
\<close>

subsection \<open>Words of a line\<close>

definition toupper_char :: "char \<Rightarrow> char" where
  "toupper_char c = (let n = of_char c :: nat in if 97 \<le> n \<and> n \<le> 122 then char_of (n - 32) else c)"

definition upper_first :: "string \<Rightarrow> string" where
  "upper_first s = map toupper_char (takeWhile (\<lambda>c. \<not> isspace c) s) @ dropWhile (\<lambda>c. \<not> isspace c) s"

definition first_word :: "string \<Rightarrow> string" where
  "first_word s = takeWhile (\<lambda>c. \<not> isspace c) s"

text \<open>The character that \<^verbatim>\<open>sscanf(line, "%s %c", ...)\<close> finds after the first word.\<close>

definition second_char :: "string \<Rightarrow> char option" where
  "second_char s =
     (let r = dropWhile isspace (dropWhile (\<lambda>c. \<not> isspace c) (dropWhile isspace s))
      in if r = [] then None else Some (hd r))"

text \<open>The tokens that \<^verbatim>\<open>strtok(s, " ")\<close> returns one after the other.\<close>

function tokens :: "string \<Rightarrow> string list" where
  "tokens s =
     (let r = dropWhile (\<lambda>c. c = CHR '' '') s in
      if r = [] then [] else takeWhile (\<lambda>c. c \<noteq> CHR '' '') r # tokens (dropWhile (\<lambda>c. c \<noteq> CHR '' '') r))"
  by pat_completeness auto
termination
proof (relation "measure length")
  fix s r :: string
  assume r: "r = dropWhile (\<lambda>c. c = CHR '' '') s" and "r \<noteq> []"
  then have "hd r \<noteq> CHR '' ''" using hd_dropWhile [of "\<lambda>c. c = CHR '' ''" s] by simp
  then have "dropWhile (\<lambda>c. c \<noteq> CHR '' '') r = dropWhile (\<lambda>c. c \<noteq> CHR '' '') (tl r)"
    using \<open>r \<noteq> []\<close> by (cases r) simp_all
  then have "length (dropWhile (\<lambda>c. c \<noteq> CHR '' '') r) \<le> length (tl r)"
    by (simp only: length_dropWhile_le)
  also have "\<dots> < length r" using \<open>r \<noteq> []\<close> by simp
  also have "\<dots> \<le> length s" by (simp add: r length_dropWhile_le)
  finally show "(dropWhile (\<lambda>c. c \<noteq> CHR '' '') r, s) \<in> measure length" by simp
qed simp

declare tokens.simps [simp del]

fun digits :: "int \<Rightarrow> string \<Rightarrow> int" where
  "digits n [] = n"
| "digits n (c # cs) =
     (let d = int (of_char c) - 48 in if 0 \<le> d \<and> d \<le> 9 then digits (10 * n + d) cs else n)"

definition atoi :: "string \<Rightarrow> int" where
  "atoi s = (case dropWhile isspace s of
      [] \<Rightarrow> 0
    | c # cs \<Rightarrow> if c = CHR ''-'' then - digits 0 cs else if c = CHR ''+'' then digits 0 cs else digits 0 (c # cs))"

subsection \<open>Addresses and slots\<close>

abbreviation (input) MINDIV :: "32 word" where "MINDIV \<equiv> 2"
abbreviation (input) MTEAM :: "32 word" where "MTEAM \<equiv> 4"
abbreviation (input) MALL :: "32 word" where "MALL \<equiv> 8"

definition addr_mess :: "int \<Rightarrow> 32 word \<Rightarrow> game \<Rightarrow> string" where
  "addr_mess who ty g =
     ''GOD->'' @ (if ty = MALL then ''ALL''
       else if ty = MTEAM then
         (let t = [[], ''FED'', ''ROM'', [], ''KLI'', [], [], [], ''ORI''] ! nat who
          in replicate (3 - length t) (CHR '' '') @ t)
       else p_mapchars (players g (nat who)))"

definition tell_one :: "nat \<Rightarrow> string \<Rightarrow> game \<Rightarrow> game" where
  "tell_one who text g = emit (Pmessage (int who) (addr_mess (int who) MINDIV g) text) g"

definition tell_team :: "nat \<Rightarrow> string \<Rightarrow> game \<Rightarrow> game" where
  "tell_team who text g =
     (let t = p_team (players g who) in emit (Pmessage t (addr_mess t MTEAM g) text) g)"

definition tell_all :: "string \<Rightarrow> game \<Rightarrow> game" where
  "tell_all text g = emit (Pmessage 0 ''GOD->ALL'' text) g"

text \<open>A slot named by its digit or (upper case) letter.\<close>

definition slot_of :: "char \<Rightarrow> nat option" where
  "slot_of c =
     (let n = of_char c :: nat in
      if 48 \<le> n \<and> n \<le> 57 then Some (n - 48)
      else if 65 \<le> n \<and> n \<le> 65 + MAXPLAYER - 11 then Some (n - 65 + 10)
      else None)"

definition getplayer :: "nat \<Rightarrow> string \<Rightarrow> game \<Rightarrow> game \<times> nat option" where
  "getplayer from s g =
     (let what = (case second_char s of None \<Rightarrow> Some from | Some c \<Rightarrow> slot_of (toupper_char c)) in
      case what of
        None \<Rightarrow> (tell_one from ''Invalid player number.'' g, None)
      | Some i \<Rightarrow> if p_status (players g i) = PFREE then (tell_one from ''Player not in the game.'' g, None)
                  else (g, Some i))"

subsection \<open>The table of commands\<close>

abbreviation (input) C_PLAYER :: "32 word" where "C_PLAYER \<equiv> 0x0001"
abbreviation (input) C_DESC :: "32 word" where "C_DESC \<equiv> 0x0008"
abbreviation (input) C_GLOG :: "32 word" where "C_GLOG \<equiv> 0x0010"
abbreviation (input) C_PR_MASK :: "32 word" where "C_PR_MASK \<equiv> 0xff00"
abbreviation (input) C_PR_INPICKUP :: "32 word" where "C_PR_INPICKUP \<equiv> 0x0400"
abbreviation (input) C_VC_ALL :: "32 word" where "C_VC_ALL \<equiv> 0x0020"
abbreviation (input) C_VC_TEAM :: "32 word" where "C_VC_TEAM \<equiv> 0x0040"
abbreviation (input) C_PR_VOTE :: "32 word" where "C_PR_VOTE \<equiv> 0x0080"

abbreviation (input) PV_EJECT :: nat where "PV_EJECT \<equiv> 0"
abbreviation (input) PV_BAN :: nat where "PV_BAN \<equiv> 32"
abbreviation (input) PV_NOPICK :: nat where "PV_NOPICK \<equiv> 64"
abbreviation (input) PV_OTHER :: nat where "PV_OTHER \<equiv> 96"
abbreviation (input) PV_TOTAL :: nat where "PV_TOTAL \<equiv> 104"

datatype handler =
    No_handler | Do_help | Report | Do_sbtime_msg | Do_time_msg | Do_nodock | Do_transwarp
  | Do_nowobble | Do_tips | Do_player_eject | Do_player_ban | Do_player_nopick
  | Do_start_basep | Do_start_mars

record command_handler_2 =
  command :: string
  tag :: "32 word"
  desc :: "string option"
  handler :: handler
  minpass :: int
  start :: nat
  frequency :: int
  expiretime :: int

definition plain :: "string \<Rightarrow> 32 word \<Rightarrow> string \<Rightarrow> handler \<Rightarrow> command_handler_2" where
  "plain c t d h = \<lparr>command = c, tag = t, desc = Some d, handler = h, minpass = 0, start = 0, frequency = 0, expiretime = 0\<rparr>"

definition heading :: "string \<Rightarrow> 32 word \<Rightarrow> command_handler_2" where
  "heading c t = (plain c (C_DESC OR t) [] No_handler)\<lparr>desc := None\<rparr>"

definition vote :: "string \<Rightarrow> 32 word \<Rightarrow> string \<Rightarrow> handler \<Rightarrow> int \<Rightarrow> nat \<Rightarrow> int \<Rightarrow> int \<Rightarrow> command_handler_2" where
  "vote c t d h m s f e = (plain c (t OR C_PR_INPICKUP OR C_PR_VOTE) d h)\<lparr>minpass := m, start := s, frequency := f, expiretime := e\<rparr>"

definition eg :: "string \<Rightarrow> string \<Rightarrow> string" where
  "eg d e = d @ [CHR 0x27] @ e @ [CHR 0x27]"

definition nts_commands :: "command_handler_2 list" where
  "nts_commands =
    [heading ''Possible commands are:'' 0,
     plain ''HELP'' 0 ''Show this help information'' Do_help,
     plain ''CLIENT'' C_PLAYER (eg ''Show player's client         e.g. '' ''CLIENT 0'') Report,
     plain ''PING'' C_PLAYER (eg ''Show player's ping (lag)     e.g. '' ''PING 0'') Report,
     plain ''STATS'' C_PLAYER (eg ''Show player's t-mode stats   e.g. '' ''STATS 0'') Report,
     plain ''LTD'' C_PLAYER ''Show your LTD stats via a web page'' Report,
     plain ''WHOIS'' C_PLAYER (eg ''Show player's login info     e.g. '' ''WHOIS 0'') Report,
     plain ''PASSWORD'' C_PR_INPICKUP (eg ''Change your password         e.g. '' ''password neato neato'') Report,
     plain ''ADMIN'' 0 ''Administration commands for privileged users'' Report,
     plain ''DOCK'' C_PR_INPICKUP (eg ''Toggle individual player docking permission. eg. '' ''DOCK 0 ON|OFF'') Do_nodock,
     plain ''TRANSWARP'' C_PR_INPICKUP (eg ''Set transwarp permission for all players. eg. '' ''TRANSWARP ON|OFF'') Do_transwarp,
     plain ''SBSTATS'' C_PLAYER (eg ''Show player's base stats     e.g. '' ''SBSTATS 0'') Report,
     plain ''QUEUE'' 0 ''Show how many people are on the queue.'' Report,
     heading ''(type QUEUE HOSTS to see the addresses of those on queue)'' 0,
     plain ''NOWOBBLE'' 0 ''Test new wobble on planet lock fix.'' Do_nowobble,
     plain ''TIPS'' 0 ''Test new tips feature, may require client support.'' Do_tips,
     plain ''TIME'' C_PR_INPICKUP ''Show time left on surrender timer.'' Do_time_msg,
     plain ''SBTIME'' C_PLAYER ''Show time until the Starbase is available.'' Do_sbtime_msg,
     plain ''IGNORING'' C_PLAYER ''Display list of ip's you are ignoring.'' Report,
     plain ''IGNOREDBY'' C_PLAYER ''Display list of ip's that are ignoring you.'' Report,
     heading ''The following votes can be used:  (M=Majority, T=Team vote)'' C_PR_INPICKUP,
     vote ''EJECT'' (C_VC_TEAM OR C_GLOG OR C_PLAYER) (eg ''Eject a player               e.g. '' ''EJECT 0 IDLE'') Do_player_eject 2 PV_EJECT 120 300,
     vote ''BAN'' (C_VC_TEAM OR C_GLOG OR C_PLAYER) (eg ''Eject and ban a player       e.g. '' ''BAN 0'') Do_player_ban 4 PV_BAN 120 120,
     vote ''NOPICK'' (C_VC_TEAM OR C_GLOG OR C_PLAYER) (eg ''Prevent player from picking, e.g. '' ''NOPICK 0'') Do_player_nopick 4 PV_NOPICK 120 120,
     vote ''PRACTICE'' C_VC_ALL ''Start basepractice by majority vote.'' Do_start_basep 1 (PV_OTHER + 3) 0 0,
     vote ''DOGFIGHT'' (C_VC_ALL OR C_GLOG) ''Start dogfight tournament by majority vote.'' Do_start_mars 1 (PV_OTHER + 5) 0 0]"

subsection \<open>What a vote does\<close>

abbreviation (input) BADVERSION_NOSLOT :: int where "BADVERSION_NOSLOT \<equiv> 2"
abbreviation (input) BADVERSION_BANNED :: int where "BADVERSION_BANNED \<equiv> 3"

definition eject_player :: "nat \<Rightarrow> nat \<Rightarrow> int \<Rightarrow> game \<Rightarrow> game" where
  "eject_player me who why g =
     (let g = upd_player who (\<lambda>j. j\<lparr>p_ship := (p_ship j)\<lparr>s_type := STARBASE\<rparr>, p_whydead := KQUIT,
                p_explode := 10, p_status := PEXPLODE, p_whodead := me\<rparr>) g;
          g = bay_release who g
      in if eject_vote_vicious (cfg g) then
           if p_process (players g who) \<noteq> 0 then upd_player who (\<lambda>j. j\<lparr>p_disconnect := why\<rparr>) g
           else fst (freeslot (Some who) g)
         else g)"

text \<open>The refusals that the votes about a player share.\<close>

definition vote_refusal :: "string \<Rightarrow> string \<Rightarrow> string \<Rightarrow> string \<Rightarrow> bool \<Rightarrow> nat \<Rightarrow> nat \<Rightarrow> game \<Rightarrow> string option" where
  "vote_refusal disabled free robot others enabled who n g =
     (let j = players g n in
      if \<not> enabled then Some disabled
      else if p_status j = PFREE then Some free
      else if has (p_flags j) PFROBOT then Some robot
      else if p_team j \<noteq> p_team (players g who) then Some others
      else None)"

definition do_player_eject :: "nat \<Rightarrow> nat \<Rightarrow> game \<Rightarrow> game" where
  "do_player_eject who n g =
     (let q = queues g QU_PICKUP;
          reason = (case vote_refusal ''Eject voting disabled in server configuration.'' ''You may not eject a free slot.''
                      ''You may not eject a robot.'' ''You may not eject players of the other team.'' (eject_vote_enable (cfg g)) who n g of
                      Some r \<Rightarrow> Some r
                    | None \<Rightarrow> if eject_vote_only_if_queue (cfg g) \<and> meets (q_flags q) QU_OPEN \<and> q_count q = 0
                              then Some ''You may not eject if there is no queue.'' else None)
      in case reason of
           Some r \<Rightarrow> tell_team who r g
         | None \<Rightarrow> eject_player who n BADVERSION_NOSLOT (tell_all ''%2s has been ejected by their team'' g))"

definition do_player_ban :: "nat \<Rightarrow> nat \<Rightarrow> game \<Rightarrow> game" where
  "do_player_ban who n g =
     (case vote_refusal ''Ban voting disabled in server configuration.'' ''You may not ban a free slot.''
             ''You may not ban a robot.'' ''You may not ban players of the other team.'' (ban_vote_enable (cfg g)) who n g of
        Some r \<Rightarrow> tell_team who r g
      | None \<Rightarrow>
          (case bans_add_temporary_by_player n (eject_player who n BADVERSION_BANNED
                  (tell_all ''%2s has been temporarily banned by their team'' g)) of
             (g, added) \<Rightarrow> if added then g else tell_all '' temporary ban list is full, ban ineffective'' g))"

definition do_player_nopick :: "nat \<Rightarrow> nat \<Rightarrow> game \<Rightarrow> game" where
  "do_player_nopick who n g =
     (case vote_refusal ''Nopick voting disabled in server configuration.'' ''You may not vote for a free slot.''
             ''You may not prevent a robot from picking.'' ''You may not vote for players of the other team.'' (nopick_vote_enable (cfg g)) who n g of
        Some r \<Rightarrow> tell_team who r g
      | None \<Rightarrow> tell_team who ''%2s is no longer able to pick up armies'' (upd_player n (\<lambda>j. j\<lparr>p_no_pick := True\<rparr>) g))"

definition do_start_basep :: "game \<Rightarrow> game" where
  "do_start_basep g =
     (if practice_mode g then tell_all ''Basepractice mode already running, vote ignored.'' g
      else emit (Script ''basep'') g)"

definition do_start_mars :: "game \<Rightarrow> game" where
  "do_start_mars g =
     (if gu GU_DOG g then tell_all ''Dogfight mode already running, vote ignored.'' g
      else emit (Script ''mars'') g)"

text \<open>The player is \<open>None\<close> for a vote that is not about one.\<close>

definition run_vote :: "handler \<Rightarrow> nat \<Rightarrow> nat option \<Rightarrow> game \<Rightarrow> game" where
  "run_vote h who n g =
     (case (h, n) of
        (Do_player_eject, Some n) \<Rightarrow> do_player_eject who n g
      | (Do_player_ban, Some n) \<Rightarrow> do_player_ban who n g
      | (Do_player_nopick, Some n) \<Rightarrow> do_player_nopick who n g
      | (Do_start_basep, None) \<Rightarrow> do_start_basep g
      | (Do_start_mars, None) \<Rightarrow> do_start_mars g
      | _ \<Rightarrow> g)"

subsection \<open>Counting\<close>

definition entitled :: "command_handler_2 \<Rightarrow> nat \<Rightarrow> game \<Rightarrow> nat \<Rightarrow> bool" where
  "entitled c who g i \<longleftrightarrow>
     (let j = players g i in
      \<not> (p_status j = PFREE \<or> has (p_flags j) PFROBOT) \<and>
      \<not> (has (tag c) C_VC_TEAM \<and> p_team j \<noteq> p_team (players g who)) \<and>
      p_status j \<noteq> POBSERV)"

definition vote_stands :: "command_handler_2 \<Rightarrow> int \<Rightarrow> nat \<Rightarrow> game \<Rightarrow> nat \<Rightarrow> bool" where
  "vote_stands c now what g i \<longleftrightarrow>
     (let v = voting (players g i) what in v > 0 \<and> (expiretime c = 0 \<or> v + expiretime c > now))"

definition passes :: "command_handler_2 \<Rightarrow> nat \<Rightarrow> nat \<Rightarrow> bool" where
  "passes c vcount pcount \<longleftrightarrow>
     int vcount \<ge> minpass c \<and>
     (pcount < 2 * vcount \<and> has (tag c) C_VC_ALL \<or> has (tag c) C_VC_TEAM \<and> pcount div 2 + 1 \<le> vcount)"

definition still_needed :: "command_handler_2 \<Rightarrow> nat \<Rightarrow> nat \<Rightarrow> int" where
  "still_needed c vcount pcount =
     (let i = int (pcount div 2) + 1 - int vcount; m = minpass c - int vcount in if i < m then m else i)"

definition set_vote :: "nat \<Rightarrow> int \<Rightarrow> nat \<Rightarrow> game \<Rightarrow> game" where
  "set_vote what v i = upd_player i (\<lambda>j. j\<lparr>voting := (voting j)(what := v)\<rparr>)"

definition count_votes :: "command_handler_2 \<Rightarrow> int \<Rightarrow> nat \<Rightarrow> nat \<Rightarrow> nat option \<Rightarrow> game \<Rightarrow> game \<times> bool" where
  "count_votes c now what who n g =
     (let pcount = count_upto MAXPLAYER (entitled c who g);
          vcount = count_upto MAXPLAYER (\<lambda>i. entitled c who g i \<and> vote_stands c now what g i);
          to = (if has (tag c) C_VC_TEAM then p_team (players g who) else 0);
          addr = addr_mess to (if has (tag c) C_VC_TEAM then MTEAM else MALL) g;
          g = emit (Pmessagef to addr ''%s has voted to %s.  %d player%s (of %d) %s voted.'' [int vcount, int pcount]) g
      in if passes c vcount pcount then
           (run_vote (handler c) who n (for_upto MAXPLAYER (set_vote what (-1))
              (emit (Pmessage to addr ''The motion %s passes'') g)), True)
         else (emit (Pmessagef to addr ''Still need %d more vote%s, from %s'' [still_needed c vcount pcount]) g, False))"

text \<open>A vote, once its item is known: the limit of its frequency, the record of the vote, the count.\<close>

definition cast_vote :: "command_handler_2 \<Rightarrow> int \<Rightarrow> string \<Rightarrow> nat \<Rightarrow> nat option \<Rightarrow> game \<Rightarrow> game \<times> bool" where
  "cast_vote c now comm who n g =
     (let what = (case n of Some i \<Rightarrow> i | None \<Rightarrow> 0) + start c; v = voting (players g who) what in
      if what \<ge> PV_TOTAL then (g, False)
      else if v \<noteq> 0 \<and> frequency c \<noteq> 0 \<and> v + frequency c > now
      then (emit (God (int who) ''Sorry, you can only use %s every %1.1f minutes'') g, False)
      else
        let g = set_vote what now who g in
        if \<not> has (tag c) C_VC_TEAM \<and> \<not> has (tag c) C_VC_ALL then (g, False)
        else if take 5 comm = ''EJECT'' \<and> n = Some who
        then (emit (God (int who) ''Sorry, you can't eject yourself.'') g, False)
        else count_votes c now what who n g)"

definition do_vote :: "command_handler_2 \<Rightarrow> int \<Rightarrow> string \<Rightarrow> nat \<Rightarrow> game \<Rightarrow> game \<times> bool" where
  "do_vote c now comm who g =
     (if p_status (players g who) = POBSERV then (emit (God (int who) ''Sorry, observers can't vote'') g, False)
      else if has (tag c) C_PLAYER then
        (case getplayer who comm g of
           (g, None) \<Rightarrow> (g, False)
         | (g, Some i) \<Rightarrow> cast_vote c now comm who (Some i) g)
      else cast_vote c now comm who None g)"

subsection \<open>The other commands\<close>

abbreviation (input) dock_usage :: string where "dock_usage \<equiv> eg ''dock usage: '' ''DOCK 0 ON|OFF''"
abbreviation (input) transwarp_usage :: string where
  "transwarp_usage \<equiv> eg ''transwarp usage: '' ''TRANSWARP ON|GREEN|YELLOW|SHIELD|OFF''"
abbreviation (input) transwarp_usage2 :: string where
  "transwarp_usage2 \<equiv> eg ''additional usage: '' ''TRANSWARP ON|OFF player#''"

definition do_nodock :: "string \<Rightarrow> nat \<Rightarrow> game \<Rightarrow> game" where
  "do_nodock comm me g =
     (let p = players g me in
      if s_type (p_ship p) \<noteq> STARBASE then tell_one me ''dock: must be a starbase to use nodock'' g
      else if p_status p = POBSERV then tell_one me ''dock: Observers cannot change dock permissions'' g
      else case tokens comm of
        (_ # who # what # _) \<Rightarrow>
          (case slot_of (toupper_char (hd who)) of
             None \<Rightarrow> tell_one me ''dock: unrecognized slot'' g
           | Some i \<Rightarrow>
               if p_status (players g i) = PFREE then tell_one me ''dock: ignored, slot is free'' g
               else if what = ''off'' then tell_one me ''Slot %c no longer allowed to dock to SB'' (upd_player i (\<lambda>v. v\<lparr>p_candock := False\<rparr>) g)
               else if what = ''on'' then tell_one me ''Slot %c is allowed to dock to SB'' (upd_player i (\<lambda>v. v\<lparr>p_candock := True\<rparr>) g)
               else tell_one me dock_usage g)
      | [] \<Rightarrow> g
      | _ \<Rightarrow> tell_one me dock_usage g)"

definition set_transwarp :: "32 word \<Rightarrow> string \<Rightarrow> nat \<Rightarrow> game \<Rightarrow> game" where
  "set_transwarp t text me g = tell_team me text (upd_player me (\<lambda>p. p\<lparr>p_transwarp := t\<rparr>) g)"

definition transwarp_one :: "bool \<Rightarrow> string \<Rightarrow> nat \<Rightarrow> game \<Rightarrow> game" where
  "transwarp_one on who me g =
     (case slot_of (toupper_char (hd who)) of
        None \<Rightarrow> tell_one me ''transwarp: unrecognized slot'' g
      | Some i \<Rightarrow>
          if p_status (players g i) = PFREE then tell_one me ''transwarp: ignored, slot is free'' g
          else tell_one me (if on then ''Slot %c is allowed to transwarp to SB'' else ''Slot %c no longer allowed to transwarp to SB'')
                 (upd_player i (\<lambda>v. v\<lparr>p_cantranswarp := on\<rparr>) g))"

definition do_transwarp :: "string \<Rightarrow> nat \<Rightarrow> game \<Rightarrow> game" where
  "do_transwarp comm me g =
     (let p = players g me; usage = (\<lambda>g. tell_one me transwarp_usage2 (tell_one me transwarp_usage g)) in
      if s_type (p_ship p) \<noteq> STARBASE then tell_one me ''transwarp: must be a starbase to use this'' g
      else if p_status p = POBSERV then tell_one me ''transwarp: observers may not do this'' g
      else case tokens comm of
        [] \<Rightarrow> g
      | [_] \<Rightarrow> usage g
      | (_ # what # args) \<Rightarrow>
          if what = ''off'' \<or> what = ''on'' then
            (case args of
               who # _ \<Rightarrow> transwarp_one (what = ''on'') who me g
             | [] \<Rightarrow> if what = ''off'' then set_transwarp 0 ''Starbase %s refusing transwarp'' me g
                     else set_transwarp (PFGREEN OR PFYELLOW OR PFRED) ''Starbase %s transwarp restored'' me g)
          else if what = ''green'' then set_transwarp PFGREEN ''Starbase %s refusing transwarp in red or yellow alert'' me g
          else if what = ''yellow'' then set_transwarp (PFYELLOW OR PFGREEN) ''Starbase %s refusing transwarp in red alert'' me g
          else if what = ''shield'' then set_transwarp PFSHIELD ''Starbase %s refusing transwarp while shields up'' me g
          else usage g)"

text \<open>The number is read after nine characters, whatever the line holds.\<close>

definition do_nowobble :: "string \<Rightarrow> nat \<Rightarrow> game \<Rightarrow> game" where
  "do_nowobble comm me g =
     (let n = atoi (drop 9 comm); g = upd_proc me (\<lambda>m. m\<lparr>nowobble := n\<rparr>) g
      in emit (Pmessagef (int me) (addr_mess (int me) MINDIV g) ''No wobble fix is now %s [%d] {%s}'' [n]) g)"

definition do_tips :: "nat \<Rightarrow> game \<Rightarrow> game" where
  "do_tips me g =
     (let g = (if F_tips (procs g me) then g
               else tell_one me ''Your client does not support tips properly, please upgrade.'' g);
          g = upd_proc me (\<lambda>m. m\<lparr>tips_enabled := \<not> tips_enabled m\<rparr>) g
      in tell_one me ''Tips mode is now %s'' g)"

definition do_time_msg :: "nat \<Rightarrow> game \<Rightarrow> game" where
  "do_time_msg me g =
     (let q = quorum (ctxt g); t = (if te_surrender (teams g (nat (fst q))) = 0 then nat (snd q) else nat (fst q));
          k = teams g t; say = (\<lambda>text ns. emit (Pmessagef (int me) (addr_mess (int me) MINDIV g) text ns) g) in
      if te_surrender k = 0 then say ''No one is considering surrender now.  Go take some planets.'' []
      else case te_surrender_pause k of
        TE_SURRENDER_PAUSE_OFF \<Rightarrow>
          let remaining = 60 - (frame (ctxt g) - te_surrender_frame k) sdiv fps (cfg g) in
          if remaining < 50 \<and> remaining > 0
          then say ''The %s have %d minute%s %d second%s left before they surrender.'' [te_surrender k - 1, remaining]
          else say ''The %s have %d minute%s left before they surrender.'' [te_surrender k]
      | TE_SURRENDER_PAUSE_ON_TOURN \<Rightarrow> say ''The %s will have %d minute%s left when T mode resumes'' [te_surrender k]
      | TE_SURRENDER_PAUSE_ON_PLANETS \<Rightarrow>
          say ''The %s will have %d minute%s left if they are down to %d planets'' [te_surrender k, surrenderStart (cfg g)])"

definition do_sbtime_msg :: "nat \<Rightarrow> game \<Rightarrow> game" where
  "do_sbtime_msg me g =
     (let n = te_turns (teams g (nat (p_team (players g me)))); addr = addr_mess (int me) MINDIV g in
      if n > 0 then emit (Pmessagef (int me) addr ''Starbase construction will be complete in %d minute%s.'' [n]) g
      else emit (Pmessage (int me) addr ''Your Starbase is available.'') g)"

subsection \<open>The interpreter\<close>

definition available_command :: "32 word \<Rightarrow> game \<Rightarrow> command_handler_2 \<Rightarrow> bool" where
  "available_command prereqs g c \<longleftrightarrow> tag c AND C_PR_MASK AND NOT prereqs = 0"

definition help_line :: "nat \<Rightarrow> 32 word \<Rightarrow> command_handler_2 \<Rightarrow> game \<Rightarrow> game" where
  "help_line who prereqs c g =
     (if \<not> available_command prereqs g c then g
      else
        let g = (if has (tag c) C_DESC then tell_one who (command c) g else g) in
        case desc c of
          None \<Rightarrow> g
        | Some d \<Rightarrow>
            if \<not> voting_on (cfg g) \<and> has (tag c) C_PR_VOTE then g
            else if has (tag c) (C_VC_TEAM OR C_VC_ALL)
            then tell_one who (''|'' @ command c @ (if has (tag c) C_VC_TEAM then '' - T: '' else '' - M: '') @ d) g
            else tell_one who (''|'' @ command c @ '' - '' @ d) g)"

definition do_help :: "nat \<Rightarrow> 32 word \<Rightarrow> command_handler_2 list \<Rightarrow> game \<Rightarrow> game" where
  "do_help who prereqs cmds = fold (help_line who prereqs) cmds"

definition run_command :: "command_handler_2 list \<Rightarrow> 32 word \<Rightarrow> command_handler_2 \<Rightarrow> string \<Rightarrow> nat \<Rightarrow> game \<Rightarrow> game" where
  "run_command cmds prereqs c comm who g =
     (case handler c of
        Do_help \<Rightarrow> do_help who prereqs cmds g
      | Do_nodock \<Rightarrow> do_nodock comm who g
      | Do_transwarp \<Rightarrow> do_transwarp comm who g
      | Do_nowobble \<Rightarrow> do_nowobble comm who g
      | Do_tips \<Rightarrow> do_tips who g
      | Do_time_msg \<Rightarrow> do_time_msg who g
      | Do_sbtime_msg \<Rightarrow> do_sbtime_msg who g
      | _ \<Rightarrow> tell_one who (command c) g)"

definition matches :: "32 word \<Rightarrow> string \<Rightarrow> game \<Rightarrow> command_handler_2 \<Rightarrow> bool" where
  "matches prereqs comm g c \<longleftrightarrow>
     \<not> has (tag c) C_DESC \<and> available_command prereqs g c \<and>
     \<not> (\<not> voting_on (cfg g) \<and> has (tag c) C_PR_VOTE) \<and> first_word comm = command c"

text \<open>The sender, the flags and the text of the message; the result says whether it was a command.\<close>

definition check_2_command :: "int \<Rightarrow> command_handler_2 list \<Rightarrow> 32 word \<Rightarrow> nat \<Rightarrow> 32 word \<Rightarrow> string \<Rightarrow> game \<Rightarrow> game \<times> bool" where
  "check_2_command now cmds prereqs from flags text g =
     (if \<not> has flags MINDIV \<or> length text \<le> 8 then (g, False)
      else
        let comm = upper_first (dropWhile isspace (drop 8 text)) in
        case find (matches prereqs comm g) cmds of
          None \<Rightarrow> (g, False)
        | Some c \<Rightarrow>
            if voting_on (cfg g) \<and> has (tag c) (C_VC_ALL OR C_VC_TEAM) then (fst (do_vote c now comm from g), True)
            else if has (tag c) C_PLAYER then
              (case getplayer from comm g of
                 (g, None) \<Rightarrow> (g, False)
               | (g, Some i) \<Rightarrow> (run_command cmds prereqs c comm from g, True))
            else (run_command cmds prereqs c comm from g, True))"

definition do_check_command :: "int \<Rightarrow> nat \<Rightarrow> 32 word \<Rightarrow> string \<Rightarrow> game \<Rightarrow> game \<times> bool" where
  "do_check_command now from flags text g =
     check_2_command now nts_commands (if inl_mode g then 0 else C_PR_INPICKUP) from flags text g"

section \<open>Properties\<close>

lemma tell_same [simp]:
  "players (tell_one i t g) = players g" "players (tell_team i t g) = players g" "players (tell_all t g) = players g"
  "cfg (tell_one i t g) = cfg g" "cfg (tell_team i t g) = cfg g" "cfg (tell_all t g) = cfg g"
  by (simp_all add: tell_one_def tell_team_def tell_all_def Let_def)

lemma getplayer_same: "getplayer from s g = (h, Some i) \<Longrightarrow> h = g"
  by (auto simp: getplayer_def Let_def split: option.splits if_splits)

lemma getplayer_fst: "players (fst (getplayer from s g)) = players g"
  by (auto simp: getplayer_def Let_def split: option.splits)

subsection \<open>The count\<close>

lemma count_upto_card: "count_upto n P = card {i. i < n \<and> P i}"
proof -
  have "{i. i < n \<and> P i} = set (filter P [0..<n])" by auto
  then show ?thesis
    by (simp only: count_upto_def distinct_card [OF distinct_filter [OF distinct_upt]])
qed

lemma passes_iff:
  assumes "has (tag c) C_VC_ALL \<or> has (tag c) C_VC_TEAM"
  shows "passes c v p \<longleftrightarrow> minpass c \<le> int v \<and> p < 2 * v"
proof -
  have "p div 2 + 1 \<le> v \<longleftrightarrow> p < 2 * v" by linarith
  with assms show ?thesis by (auto simp: passes_def)
qed

lemma still_needed_least:
  assumes "has (tag c) C_VC_ALL \<or> has (tag c) C_VC_TEAM" and "\<not> passes c v p"
  shows "0 < still_needed c v p \<and> (\<forall>m. passes c (v + m) p \<longleftrightarrow> still_needed c v p \<le> int m)"
proof -
  have half: "p < 2 * (v + m) \<longleftrightarrow> int (p div 2) + 1 - int v \<le> int m" for m
  proof -
    have "p < 2 * w \<longleftrightarrow> p div 2 + 1 \<le> w" for w by linarith
    then have "p < 2 * (v + m) \<longleftrightarrow> p div 2 + 1 \<le> v + m" .
    also have "\<dots> \<longleftrightarrow> int (p div 2 + 1) \<le> int (v + m)" by (simp only: of_nat_le_iff)
    also have "\<dots> \<longleftrightarrow> int (p div 2) + 1 - int v \<le> int m" by (simp only: of_nat_add of_nat_1) linarith
    finally show ?thesis .
  qed
  have "passes c (v + m) p \<longleftrightarrow> still_needed c v p \<le> int m" for m
    using half [of m] by (auto simp: passes_iff [OF assms(1)] still_needed_def Let_def)
  moreover from this [of 0] assms(2) have "0 < still_needed c v p" by simp
  ultimately show ?thesis by simp
qed

lemma set_vote_players [simp]:
  "players (set_vote what v i g) = (players g)(i := (players g i)\<lparr>voting := (voting (players g i))(what := v)\<rparr>)"
  "cfg (set_vote what v i g) = cfg g" "outputs (set_vote what v i g) = outputs g"
  by (simp_all add: set_vote_def)

lemma entitled_set_vote [simp]: "entitled c who (set_vote what v i g) = entitled c who g"
  by (simp add: entitled_def fun_eq_iff Let_def)

lemma reset_votes:
  "players (for_upto n (set_vote what v) g) =
     (\<lambda>i. if i < n then (players g i)\<lparr>voting := (voting (players g i))(what := v)\<rparr> else players g i)"
  by (induction n) (auto simp: fun_eq_iff)

lemma reset_votes_cfg [simp]: "cfg (for_upto n (set_vote what v) g) = cfg g"
  by (rule for_upto_same) simp

text \<open>The voters whose vote counts: the caller, and those whose vote has not expired.\<close>

definition voters :: "command_handler_2 \<Rightarrow> int \<Rightarrow> nat \<Rightarrow> nat \<Rightarrow> game \<Rightarrow> nat set" where
  "voters c now what who g =
     {i. i < MAXPLAYER \<and> entitled c who g i \<and> (i = who \<or> vote_stands c now what g i)}"

definition electorate :: "command_handler_2 \<Rightarrow> nat \<Rightarrow> game \<Rightarrow> nat set" where
  "electorate c who g = {i. i < MAXPLAYER \<and> entitled c who g i}"

lemma counted:
  assumes "0 < now" and "0 \<le> expiretime c"
  shows "count_upto MAXPLAYER (\<lambda>i. entitled c who g i \<and> vote_stands c now what (set_vote what now who g) i) =
           card (voters c now what who g)"
    and "count_upto MAXPLAYER (entitled c who g) = card (electorate c who g)"
proof -
  have "vote_stands c now what (set_vote what now who g) i \<longleftrightarrow> i = who \<or> vote_stands c now what g i" for i
    using assms by (auto simp: vote_stands_def Let_def)
  then show "count_upto MAXPLAYER (\<lambda>i. entitled c who g i \<and> vote_stands c now what (set_vote what now who g) i) =
      card (voters c now what who g)"
    by (simp only: count_upto_card voters_def)
qed (simp only: count_upto_card electorate_def)

text \<open>The vote is taken: the item exists, is not limited, and nobody ejects itself.\<close>

definition vote_item :: "command_handler_2 \<Rightarrow> nat option \<Rightarrow> nat" where
  "vote_item c n = (case n of Some i \<Rightarrow> i | None \<Rightarrow> 0) + start c"

definition taken :: "command_handler_2 \<Rightarrow> int \<Rightarrow> string \<Rightarrow> nat \<Rightarrow> nat option \<Rightarrow> game \<Rightarrow> bool" where
  "taken c now comm who n g \<longleftrightarrow>
     (let v = voting (players g who) (vote_item c n) in
      vote_item c n < PV_TOTAL \<and> \<not> (v \<noteq> 0 \<and> frequency c \<noteq> 0 \<and> v + frequency c > now) \<and>
      (has (tag c) C_VC_ALL \<or> has (tag c) C_VC_TEAM) \<and> \<not> (take 5 comm = ''EJECT'' \<and> n = Some who))"

lemma cast_vote_taken:
  assumes "taken c now comm who n g"
  shows "cast_vote c now comm who n g = count_votes c now (vote_item c n) who n (set_vote (vote_item c n) now who g)"
  using assms unfolding taken_def Let_def by (auto simp: cast_vote_def vote_item_def Let_def)

lemma cast_vote_cases:
  fixes c :: command_handler_2 and g :: game and who :: nat and n :: "nat option" and now :: int
  defines "V \<equiv> card (voters c now (vote_item c n) who g)" and "E \<equiv> card (electorate c who g)"
  assumes "taken c now comm who n g" and "0 < now" and "0 \<le> expiretime c"
  obtains to addr k where "players k = players (set_vote (vote_item c n) now who g)" and "cfg k = cfg g" and
    "cast_vote c now comm who n g =
     (if minpass c \<le> int V \<and> E < 2 * V then
        (run_vote (handler c) who n (for_upto MAXPLAYER (set_vote (vote_item c n) (-1))
           (emit (Pmessage to addr ''The motion %s passes'') k)), True)
      else (emit (Pmessagef to addr ''Still need %d more vote%s, from %s'' [still_needed c V E]) k, False))"
proof -
  define h where "h = set_vote (vote_item c n) now who g"
  have tag: "has (tag c) C_VC_ALL \<or> has (tag c) C_VC_TEAM" using assms(3) by (simp add: taken_def Let_def)
  have E: "count_upto MAXPLAYER (entitled c who h) = E"
    and V: "count_upto MAXPLAYER (\<lambda>i. entitled c who h i \<and> vote_stands c now (vote_item c n) h i) = V"
    using counted [OF assms(4,5)] by (simp_all add: h_def E_def V_def)
  define to where "to = (if has (tag c) C_VC_TEAM then p_team (players h who) else 0)"
  define addr where "addr = addr_mess to (if has (tag c) C_VC_TEAM then MTEAM else MALL) h"
  define k where "k = emit (Pmessagef to addr ''%s has voted to %s.  %d player%s (of %d) %s voted.'' [int (V), int E]) h"
  have cast: "cast_vote c now comm who n g =
     (if passes c V E then
        (run_vote (handler c) who n (for_upto MAXPLAYER (set_vote (vote_item c n) (-1))
           (emit (Pmessage to addr ''The motion %s passes'') k)), True)
      else (emit (Pmessagef to addr ''Still need %d more vote%s, from %s'' [still_needed c (V) E]) k, False))"
    by (simp only: cast_vote_taken [OF assms(3)] count_votes_def Let_def h_def [symmetric] E V to_def [symmetric]
          addr_def [symmetric] k_def [symmetric])
  have "players k = players h" "cfg k = cfg g" by (simp_all add: k_def h_def)
  with cast show ?thesis by (intro that [of k to addr]) (simp_all add: passes_iff [OF tag] h_def)
qed

lemma cast_vote_passes:
  assumes "taken c now comm who n g" and "0 < now" and "0 \<le> expiretime c"
  shows "snd (cast_vote c now comm who n g) \<longleftrightarrow>
    minpass c \<le> int (card (voters c now (vote_item c n) who g)) \<and>
    card (electorate c who g) < 2 * card (voters c now (vote_item c n) who g)"
  by (rule cast_vote_cases [OF assms]) simp

text \<open>
  C17: a vote is decided by the majority.  Once a vote is taken, the motion passes exactly if the
  voters, the caller and those whose vote has not expired, are as many as the command needs and
  more than half of those who may vote.  When it passes, the votes on the item of all players
  are taken back before it is carried out.  When it does not, nothing but the vote of the caller
  is changed, and the number of votes that the players are told is the least that is missing.
\<close>

theorem vote_decided_by_majority:
  fixes c :: command_handler_2 and g :: game and who :: nat and n :: "nat option" and now :: int
  defines "V \<equiv> card (voters c now (vote_item c n) who g)" and "E \<equiv> card (electorate c who g)"
  assumes "taken c now comm who n g" and "0 < now" and "0 \<le> expiretime c"
  shows "(snd (cast_vote c now comm who n g) \<longleftrightarrow> minpass c \<le> int (V) \<and> E < 2 * V) \<and>
    (snd (cast_vote c now comm who n g) \<longrightarrow>
      (\<exists>k. fst (cast_vote c now comm who n g) = run_vote (handler c) who n k \<and>
           (\<forall>i<MAXPLAYER. voting (players k i) (vote_item c n) = -1))) \<and>
    (\<not> snd (cast_vote c now comm who n g) \<longrightarrow>
      players (fst (cast_vote c now comm who n g)) = players (set_vote (vote_item c n) now who g) \<and>
      (\<exists>to addr m. last (outputs (fst (cast_vote c now comm who n g))) =
            Pmessagef to addr ''Still need %d more vote%s, from %s'' [m] \<and> 0 < m \<and>
         (\<forall>more. minpass c \<le> int (V + more) \<and> E < 2 * (V + more) \<longleftrightarrow> m \<le> int more)))"
proof -
  have tag: "has (tag c) C_VC_ALL \<or> has (tag c) C_VC_TEAM" using assms(3) by (simp add: taken_def Let_def)
  have cleared: "\<forall>i<MAXPLAYER. voting (players (for_upto MAXPLAYER (set_vote (vote_item c n) (-1)) k) i) (vote_item c n) = -1" for k
    by (simp add: reset_votes del: for_upto_Suc)
  obtain to addr k where k: "players k = players (set_vote (vote_item c n) now who g)"
    and cast: "cast_vote c now comm who n g =
     (if minpass c \<le> int V \<and> E < 2 * V then
        (run_vote (handler c) who n (for_upto MAXPLAYER (set_vote (vote_item c n) (-1))
           (emit (Pmessage to addr ''The motion %s passes'') k)), True)
      else (emit (Pmessagef to addr ''Still need %d more vote%s, from %s'' [still_needed c V E]) k, False))"
    using cast_vote_cases [OF assms(3,4,5)] unfolding V_def E_def by metis
  show ?thesis
    using still_needed_least [OF tag, of V E] cleared
    by (auto simp: cast passes_iff [OF tag] k simp del: for_upto_Suc)
qed

definition ex_vote :: game where
  "ex_vote = blank_game\<lparr>players := (\<lambda>i. blank_player\<lparr>p_no := i, p_team := FED, voting := (\<lambda>k. if k = 2 \<and> i = 1 then 1000 else 0),
     p_status := (if i < 3 then PALIVE else PFREE)\<rparr>)\<rparr>"

lemma vote_decided_by_majority_witness:
  "snd (cast_vote (nts_commands ! 21) 1100 ''EJECT 2'' 0 (Some 2) ex_vote) \<longleftrightarrow>
     2 \<le> int (card (voters (nts_commands ! 21) 1100 2 0 ex_vote)) \<and>
     card (electorate (nts_commands ! 21) 0 ex_vote) < 2 * card (voters (nts_commands ! 21) 1100 2 0 ex_vote)"
proof -
  have c: "nts_commands ! 21 = vote ''EJECT'' (C_VC_TEAM OR C_GLOG OR C_PLAYER)
      (eg ''Eject a player               e.g. '' ''EJECT 0 IDLE'') Do_player_eject 2 PV_EJECT 120 300"
    by (simp add: nts_commands_def)
  have "taken (nts_commands ! 21) 1100 ''EJECT 2'' 0 (Some 2) ex_vote"
    unfolding c by (simp add: taken_def vote_item_def vote_def plain_def has_def ex_vote_def blank_defs)
  then show ?thesis
    using vote_decided_by_majority [of "nts_commands ! 21" 1100 "''EJECT 2''" 0 "Some 2" ex_vote]
    unfolding c by (simp add: vote_item_def vote_def plain_def)
qed

text \<open>
  A player who tries to eject itself is refused, but only after its vote has been recorded, so
  that it counts when its team mates vote.
\<close>

lemma self_ejection_is_counted:
  assumes "take 5 comm = ''EJECT''" and "who + start c < PV_TOTAL" and "voting (players g who) (who + start c) = 0"
  shows "voting (players (fst (cast_vote c now comm who (Some who) g)) who) (who + start c) = now"
  using assms by (simp add: cast_vote_def Let_def)

text \<open>The commands of a starbase are explained in capitals, but only understood in small letters.\<close>

lemma capital_on_refused:
  assumes "s_type (p_ship (players g me)) = STARBASE" and "p_status (players g me) = PALIVE" and "p_status (players g 0) \<noteq> PFREE"
  shows "do_nodock ''DOCK 0 ON'' me g = tell_one me dock_usage g"
    and "do_nodock ''DOCK 0 on'' me g = tell_one me ''Slot %c is allowed to dock to SB'' (upd_player 0 (\<lambda>v. v\<lparr>p_candock := True\<rparr>) g)"
proof -
  have "tokens ''DOCK 0 ON'' = [''DOCK'', ''0'', ''ON'']" "tokens ''DOCK 0 on'' = [''DOCK'', ''0'', ''on'']"
    "slot_of (toupper_char CHR ''0'') = Some 0"
    by code_simp+
  with assms show "do_nodock ''DOCK 0 ON'' me g = tell_one me dock_usage g"
    and "do_nodock ''DOCK 0 on'' me g = tell_one me ''Slot %c is allowed to dock to SB'' (upd_player 0 (\<lambda>v. v\<lparr>p_candock := True\<rparr>) g)"
    by (simp_all add: do_nodock_def)
qed

subsection \<open>Who can be thrown out\<close>

abbreviation status_of :: "nat \<Rightarrow> game \<Rightarrow> pstatus" where
  "status_of i g \<equiv> p_status (players g i)"

lemma status_release [simp]: "status_of i (bay_release j g) = status_of i g" "p_team (players (bay_release j g) i) = p_team (players g i)"
  "cfg (bay_release j g) = cfg g"
  by (simp_all add: bay_release_def vacate_def Let_def)

lemma status_freeslot: "i \<noteq> j \<Longrightarrow> status_of i (fst (freeslot (Some j) g)) = status_of i g"
  by (simp add: freeslot_def count_free_def Let_def)

lemma status_eject: "i \<noteq> j \<Longrightarrow> status_of i (eject_player me j why g) = status_of i g"
  by (simp add: eject_player_def Let_def status_freeslot)

lemma status_add_ban [simp]: "players (fst (bans_add_temporary_by_player w g)) = players g"
  by (simp add: bans_add_temporary_by_player_def split: option.split)

lemma status_run_vote:
  assumes "status_of i (run_vote h who n g) \<noteq> status_of i g"
  shows "n = Some i \<and> p_team (players g i) = p_team (players g who) \<and>
    (h = Do_player_eject \<and> eject_vote_enable (cfg g) \<or> h = Do_player_ban \<and> ban_vote_enable (cfg g))"
proof -
  have ban: "players (case bans_add_temporary_by_player w k of (g, added) \<Rightarrow> if added then g else tell_all t g) = players k" for w k t
    using status_add_ban [of w k] by (cases "bans_add_temporary_by_player w k") simp
  have "status_of i (do_player_nopick who j g) = status_of i g" for j
    by (simp add: do_player_nopick_def split: option.split)
  moreover have "status_of i (do_start_basep g) = status_of i g" "status_of i (do_start_mars g) = status_of i g"
    by (simp_all add: do_start_basep_def do_start_mars_def)
  moreover have "j = i \<and> p_team (players g i) = p_team (players g who) \<and> eject_vote_enable (cfg g)"
    if "status_of i (do_player_eject who j g) \<noteq> status_of i g" for j
    using that by (cases "j = i") (auto simp: status_eject do_player_eject_def vote_refusal_def Let_def split: if_splits option.splits)
  moreover have "j = i \<and> p_team (players g i) = p_team (players g who) \<and> ban_vote_enable (cfg g)"
    if "status_of i (do_player_ban who j g) \<noteq> status_of i g" for j
    using that by (cases "j = i") (auto simp: status_eject do_player_ban_def vote_refusal_def Let_def ban split: if_splits option.splits)
  ultimately show ?thesis
    using assms by (cases h; cases n) (auto simp: run_vote_def)
qed

lemma status_set_vote [simp]: "status_of i (set_vote what v j g) = status_of i g"
  by simp

lemma count_votes_cases:
  obtains (passed) k where "count_votes c now what who n g = (run_vote (handler c) who n k, True)"
      "\<And>i. status_of i k = status_of i g \<and> p_team (players k i) = p_team (players g i)"
  | (failed) k where "count_votes c now what who n g = (k, False)" "players k = players g"
proof -
  define v where "v = count_upto MAXPLAYER (\<lambda>i. entitled c who g i \<and> vote_stands c now what g i)"
  define p where "p = count_upto MAXPLAYER (entitled c who g)"
  define to where "to = (if has (tag c) C_VC_TEAM then p_team (players g who) else 0)"
  define addr where "addr = addr_mess to (if has (tag c) C_VC_TEAM then MTEAM else MALL) g"
  define h where "h = emit (Pmessagef to addr ''%s has voted to %s.  %d player%s (of %d) %s voted.'' [int v, int p]) g"
  define k where "k = for_upto MAXPLAYER (set_vote what (-1)) (emit (Pmessage to addr ''The motion %s passes'') h)"
  have count: "count_votes c now what who n g =
     (if passes c v p then (run_vote (handler c) who n k, True)
      else (emit (Pmessagef to addr ''Still need %d more vote%s, from %s'' [still_needed c v p]) h, False))"
    by (simp only: count_votes_def Let_def v_def p_def to_def addr_def h_def k_def)
  have k: "status_of i k = status_of i g \<and> p_team (players k i) = p_team (players g i)" for i
    by (simp add: k_def h_def reset_votes del: for_upto_Suc)
  show ?thesis
  proof (cases "passes c v p")
    case True
    then have "count_votes c now what who n g = (run_vote (handler c) who n k, True)" by (simp add: count)
    then show ?thesis using k by (rule passed)
  next
    case False
    then have "count_votes c now what who n g =
        (emit (Pmessagef to addr ''Still need %d more vote%s, from %s'' [still_needed c v p]) h, False)"
      by (simp add: count)
    then show ?thesis by (rule failed) (simp add: h_def)
  qed
qed

lemma status_cast_vote:
  assumes "status_of i (fst (cast_vote c now comm who n g)) \<noteq> status_of i g"
  shows "taken c now comm who n g \<and> snd (cast_vote c now comm who n g) \<and> n = Some i \<and>
    p_team (players g i) = p_team (players g who) \<and> (handler c = Do_player_eject \<or> handler c = Do_player_ban)"
proof -
  have t: "taken c now comm who n g"
    using assms by (auto simp: cast_vote_def taken_def vote_item_def Let_def split: if_splits)
  define h where "h = set_vote (vote_item c n) now who g"
  have h: "status_of j h = status_of j g \<and> p_team (players h j) = p_team (players g j)" for j by (simp add: h_def)
  have cast: "cast_vote c now comm who n g = count_votes c now (vote_item c n) who n h"
    by (simp add: cast_vote_taken [OF t] h_def)
  show ?thesis
  proof (rule count_votes_cases [of c now "vote_item c n" who n h])
    fix k
    assume k: "count_votes c now (vote_item c n) who n h = (run_vote (handler c) who n k, True)"
      "\<And>i. status_of i k = status_of i h \<and> p_team (players k i) = p_team (players h i)"
    then have "status_of i (run_vote (handler c) who n k) \<noteq> status_of i k" using assms h by (simp add: cast)
    from status_run_vote [OF this] show ?thesis using t k h cast by auto
  next
    fix k
    assume "count_votes c now (vote_item c n) who n h = (k, False)" "players k = players h"
    then show ?thesis using assms h by (simp add: cast)
  qed
qed

lemma status_do_vote:
  assumes "status_of i (fst (do_vote c now comm who g)) \<noteq> status_of i g"
  shows "\<exists>n. taken c now comm who n g \<and> snd (cast_vote c now comm who n g) \<and> n = Some i \<and>
    p_team (players g i) = p_team (players g who) \<and> (handler c = Do_player_eject \<or> handler c = Do_player_ban)"
proof (cases "has (tag c) C_PLAYER")
  case True
  obtain h n where n: "getplayer who comm g = (h, n)" by fastforce
  show ?thesis
  proof (cases n)
    case None
    then show ?thesis using assms n getplayer_fst [of who comm g] True by (simp add: do_vote_def split: if_splits)
  next
    case (Some j)
    with n have "h = g" by (simp add: getplayer_same)
    then have "status_of i (fst (cast_vote c now comm who n g)) \<noteq> status_of i g"
      using assms n Some True by (simp add: do_vote_def split: if_splits)
    from status_cast_vote [OF this] show ?thesis by blast
  qed
next
  case False
  then have "status_of i (fst (cast_vote c now comm who None g)) \<noteq> status_of i g"
    using assms by (simp add: do_vote_def split: if_splits)
  from status_cast_vote [OF this] show ?thesis by blast
qed

lemma status_commands [simp]:
  "status_of i (do_help who prereqs cmds g) = status_of i g" "status_of i (do_nodock comm me g) = status_of i g"
  "status_of i (do_transwarp comm me g) = status_of i g" "status_of i (do_nowobble comm me g) = status_of i g"
  "status_of i (do_tips me g) = status_of i g" "status_of i (do_time_msg me g) = status_of i g"
  "status_of i (do_sbtime_msg me g) = status_of i g"
proof -
  show "status_of i (do_help who prereqs cmds g) = status_of i g"
    unfolding do_help_def by (rule fold_same) (simp add: help_line_def Let_def split: option.split)
qed (simp_all add: do_nodock_def do_transwarp_def transwarp_one_def set_transwarp_def do_nowobble_def do_tips_def
      do_time_msg_def do_sbtime_msg_def Let_def split: list.split option.split surrender_pause.split)

lemma status_run_command [simp]: "status_of i (run_command cmds prereqs c comm who g) = status_of i g"
  by (simp add: run_command_def split: handler.split)

lemma status_check_command:
  assumes "status_of i (fst (check_2_command now cmds prereqs me flags text g)) \<noteq> status_of i g"
  shows "voting_on (cfg g) \<and>
    (\<exists>c \<in> set cmds. \<exists>comm. status_of i (fst (do_vote c now comm me g)) \<noteq> status_of i g)"
proof -
  define comm where "comm = upper_first (dropWhile isspace (drop 8 text))"
  from assms obtain c where c: "find (matches prereqs comm g) cmds = Some c"
    by (auto simp: check_2_command_def Let_def comm_def split: option.splits if_splits)
  then have "c \<in> set cmds" by (auto simp: find_Some_iff)
  obtain h n where n: "getplayer me comm g = (h, n)" by fastforce
  have "status_of i h = status_of i g" using getplayer_fst [of me comm g] n by simp
  then have "voting_on (cfg g) \<and> status_of i (fst (do_vote c now comm me g)) \<noteq> status_of i g"
    using assms c n by (cases n) (auto simp: check_2_command_def Let_def comm_def [symmetric] split: if_splits)
  with \<open>c \<in> set cmds\<close> show ?thesis by blast
qed

text \<open>The rows of the table that throw a player out.\<close>

lemma ejecting_commands:
  assumes "c \<in> set nts_commands" and "handler c = Do_player_eject \<or> handler c = Do_player_ban"
  shows "start c \<in> {PV_EJECT, PV_BAN} \<and> 2 \<le> minpass c \<and> 0 < expiretime c \<and> expiretime c \<le> 300 \<and>
    has (tag c) C_VC_TEAM"
  using assms by (auto simp: nts_commands_def heading_def vote_def plain_def has_def)


definition ex_eject :: game where
  "ex_eject = ex_vote\<lparr>cfg := blank_sysdef\<lparr>voting_on := True, eject_vote_enable := True\<rparr>\<rparr>"

lemma ex_eject_votes:
  "status_of 2 (fst (do_check_command 1100 0 MINDIV ''F0->F0   eject 2'' ex_eject)) = PEXPLODE"
proof -
  define c where "c = nts_commands ! 21"
  define msg where "msg = ''F0->F0   eject 2''"
  have line: "upper_first (dropWhile isspace (drop 8 msg)) = ''EJECT 2''" "\<not> length msg \<le> 8"
    unfolding msg_def by code_simp+
  have row: "c = vote ''EJECT'' (C_VC_TEAM OR C_GLOG OR C_PLAYER)
      (eg ''Eject a player               e.g. '' ''EJECT 0 IDLE'') Do_player_eject 2 PV_EJECT 120 300"
    by (simp add: c_def nts_commands_def)
  have found: "find (matches C_PR_INPICKUP ''EJECT 2'' ex_eject) nts_commands = Some c"
    unfolding row by (simp add: nts_commands_def matches_def vote_def plain_def heading_def available_command_def has_def
        first_word_def isspace_def ex_eject_def)
  have who: "getplayer 0 ''EJECT 2'' ex_eject = (ex_eject, Some 2)"
    by (simp add: getplayer_def second_char_def isspace_def slot_of_def toupper_char_def ex_eject_def ex_vote_def)
  have t: "taken c 1100 ''EJECT 2'' 0 (Some 2) ex_eject"
    unfolding row by (simp add: taken_def vote_item_def vote_def plain_def has_def ex_eject_def ex_vote_def blank_defs)
  have fields: "vote_item c (Some 2) = 2" "minpass c = 2" "expiretime c = 300" "handler c = Do_player_eject"
    "has (tag c) C_PLAYER" "has (tag c) 96"
    unfolding row by (simp_all add: vote_item_def vote_def plain_def has_def)
  have "count_upto MAXPLAYER (\<lambda>i. entitled c 0 ex_eject i \<and> vote_stands c 1100 2 (set_vote 2 1100 0 ex_eject) i) = 2"
    "count_upto MAXPLAYER (entitled c 0 ex_eject) = 3"
    unfolding c_def by code_simp+
  then have VE: "card (voters c 1100 2 0 ex_eject) = 2" "card (electorate c 0 ex_eject) = 3"
    using counted(1) [of 1100 c 0 ex_eject 2] counted(2) [of 1100 c 0 ex_eject] fields by simp_all
  have here: "voting_on (cfg ex_eject)" "eject_vote_enable (cfg ex_eject)" "\<not> eject_vote_only_if_queue (cfg ex_eject)"
    "\<not> eject_vote_vicious (cfg ex_eject)"
    "status_of i ex_eject = (if i < 3 then PALIVE else PFREE)" "p_flags (players ex_eject i) = 0" "p_team (players ex_eject i) = FED"
    "\<not> inl_mode ex_eject" for i
    by (simp_all add: ex_eject_def ex_vote_def blank_defs inl_mode_def)
  have "status_of 2 (fst (cast_vote c 1100 ''EJECT 2'' 0 (Some 2) ex_eject)) = PEXPLODE"
    by (rule cast_vote_cases [OF t]) (simp_all add: fields VE run_vote_def do_player_eject_def vote_refusal_def
        eject_player_def reset_votes here Let_def del: for_upto_Suc)
  then show ?thesis
    unfolding msg_def [symmetric]
    by (simp add: do_check_command_def check_2_command_def line found fields here Let_def do_vote_def who)
qed


end
