(* ===== verification/Balance.thy ===== *)
theory Balance
  imports Votes "HOL-Library.Multiset"
begin

text \<open>
  \<^verbatim>\<open>ntserv/balance.c\<close>, in the build with triple planet mayhem: the players of two teams are shared
  out again, by trying every division of them into two halves.  The source counts the divisions
  in an \<^verbatim>\<open>int\<close>; with 31 players the bound is negative and nothing is tried (with 32 its shift
  is undefined in C, and the model tries nothing either).
\<close>

subsection \<open>The players and their values\<close>

definition in_play :: "game \<Rightarrow> nat \<Rightarrow> bool" where
  "in_play g i \<longleftrightarrow> p_status (players g i) \<noteq> PFREE \<and> \<not> has (p_flags (players g i)) PFROBOT"

definition sides :: "game \<Rightarrow> int \<times> int" where
  "sides g =
     (let every = ((FED OR ROM) OR ORI) OR KLI in
      case first_in 0 MAXPLAYER (\<lambda>i. in_play g i \<and> meets every (p_team (players g i))) of
        None \<Rightarrow> (0, 0)
      | Some i \<Rightarrow>
          let one = p_team (players g i) in
          case first_in (Suc i) MAXPLAYER (\<lambda>i. in_play g i \<and> meets (every AND NOT one) (p_team (players g i))) of
            None \<Rightarrow> (one, 0)
          | Some j \<Rightarrow> (one, p_team (players g j)))"

abbreviation (input) BALANCE_BOMBING :: rat where "BALANCE_BOMBING \<equiv> 100"
abbreviation (input) BALANCE_PLANET :: rat where "BALANCE_PLANET \<equiv> 100"
abbreviation (input) BALANCE_DEFENSE :: rat where "BALANCE_DEFENSE \<equiv> 0"
abbreviation (input) BALANCE_OFFENSE :: rat where "BALANCE_OFFENSE \<equiv> 100"

text \<open>Reading a rating brings the totals of the player's statistics up to date.\<close>

definition player_value :: "nat \<Rightarrow> game \<Rightarrow> game \<times> int" where
  "player_value i g =
     (let st = status g;
          (p, b) = ltd_bombing_rating st (players g i);
          (p, l) = ltd_planet_rating st p;
          (p, d) = ltd_defense_rating st p;
          (p, f) = ltd_offense_rating st p
      in (upd_player i (\<lambda>_. p) g,
          trunc (b * BALANCE_BOMBING + l * BALANCE_PLANET + d * BALANCE_DEFENSE + f * BALANCE_OFFENSE)))"

record item =
  i_no :: nat
  i_value :: int
  i_team :: int

definition list_one :: "nat \<Rightarrow> game \<times> item list \<Rightarrow> game \<times> item list" where
  "list_one i s =
     (let g = fst s; l = snd s in
      if in_play g i then
        let (h, v) = player_value i g
        in (h, l @ [\<lparr>i_no = p_no (players g i), i_value = v, i_team = p_team (players g i)\<rparr>])
      else s)"

definition list_players :: "game \<Rightarrow> game \<times> item list" where
  "list_players g = for_upto MAXPLAYER list_one (g, [])"

definition swap_items :: "nat \<Rightarrow> game \<times> item list \<Rightarrow> game \<times> item list" where
  "swap_items i s =
     (let g = fst s; l = snd s; n = length l;
          a = nat (rand_val g mod int n); g = rand_next g;
          b = nat (rand_val g mod int n); g = rand_next g
      in (g, l[a := l ! b, b := l ! a]))"

definition shuffle_items :: "game \<times> item list \<Rightarrow> game \<times> item list" where
  "shuffle_items s = for_upto (length (snd s)) swap_items s"

subsection \<open>The search\<close>

text \<open>In combination \<open>c\<close> the players whose bit is set are on the first team.\<close>

definition count_a :: "item list \<Rightarrow> int \<Rightarrow> nat" where
  "count_a l c = count_upto (length l) (bit c)"

definition count_b :: "item list \<Rightarrow> int \<Rightarrow> nat" where
  "count_b l c = count_upto (length l) (\<lambda>j. \<not> bit c j)"

definition value_a :: "item list \<Rightarrow> int \<Rightarrow> int" where
  "value_a l c = (\<Sum>j\<leftarrow>[0..<length l]. if bit c j then i_value (l ! j) else 0)"

definition value_b :: "item list \<Rightarrow> int \<Rightarrow> int" where
  "value_b l c = (\<Sum>j\<leftarrow>[0..<length l]. if bit c j then 0 else i_value (l ! j))"

definition swaps :: "int \<Rightarrow> int \<Rightarrow> item list \<Rightarrow> int \<Rightarrow> int" where
  "swaps one two l c =
     int (count_upto (length l) (\<lambda>j. i_team (l ! j) \<noteq> (if bit c j then one else two)))"

definition difference :: "item list \<Rightarrow> int \<Rightarrow> int" where
  "difference l c = \<bar>value_a l c - value_b l c\<bar>"

record best =
  combination :: int
  b_value :: int
  b_one :: int
  b_two :: int
  b_swaps :: int

definition worst :: best where
  "worst = \<lparr>combination = -1, b_value = 2 ^ 30, b_one = 0, b_two = 0, b_swaps = 2 ^ 30\<rparr>"

definition unequal :: "item list \<Rightarrow> int \<Rightarrow> bool" where
  "unequal l c \<longleftrightarrow> \<bar>int (count_a l c) - int (count_b l c)\<bar> > 1"

definition best_of :: "int \<Rightarrow> int \<Rightarrow> item list \<Rightarrow> int \<Rightarrow> best" where
  "best_of one two l c =
     \<lparr>combination = c, b_value = difference l c, b_one = value_a l c, b_two = value_b l c, b_swaps = swaps one two l c\<rparr>"

definition try_combination :: "int \<Rightarrow> int \<Rightarrow> item list \<Rightarrow> nat \<Rightarrow> best \<Rightarrow> best" where
  "try_combination one two l i b =
     (let c = int i in
      if unequal l c then b
      else if difference l c < b_value b \<or> difference l c = b_value b \<and> swaps one two l c < b_swaps b
      then best_of one two l c
      else b)"

definition combinations :: "nat \<Rightarrow> nat" where
  "combinations n = (if n < 31 then 2 ^ n else 0)"

definition find_best :: "int \<Rightarrow> int \<Rightarrow> item list \<Rightarrow> best" where
  "find_best one two l = for_upto (combinations (length l)) (try_combination one two l) worst"

subsection \<open>Moving the players\<close>

definition moveallmsg :: "nat \<Rightarrow> int \<Rightarrow> int \<Rightarrow> game \<Rightarrow> game" where
  "moveallmsg who ours v g =
     emit (Pmessagef 0 ''GOD->ALL'' ''Balance: %16s (slot %c, rating %.2f) is to join the %s'' [int who, v, ours]) g"

definition balance_move :: "nat \<Rightarrow> int \<Rightarrow> int \<Rightarrow> game \<Rightarrow> game" where
  "balance_move n ours theirs g =
     change_team n ours theirs
       (tell_one n (if p_team (players g n) \<noteq> ours then ''%s: please SWAP SIDES to the --> %s <--''
                    else ''%s: please remain with the --> %s <--'') g)"

definition move_all :: "int \<Rightarrow> int \<Rightarrow> item list \<Rightarrow> int \<Rightarrow> game \<Rightarrow> game" where
  "move_all one two l c =
     for_upto (length l) (\<lambda>j. if bit c j then balance_move (i_no (l ! j)) one two
                              else balance_move (i_no (l ! j)) two one)"

definition report_side :: "bool \<Rightarrow> int \<Rightarrow> int \<Rightarrow> item list \<Rightarrow> int \<Rightarrow> game \<Rightarrow> game" where
  "report_side side team points l c g =
     emit (Pmessagef 0 ''GOD->ALL'' ''Balance:                           total rating %.2f'' [points])
       (for_upto (length l) (\<lambda>j g. if bit c j = side then moveallmsg (i_no (l ! j)) team (i_value (l ! j)) g else g) g)"

definition do_balance :: "game \<Rightarrow> game" where
  "do_balance g =
     (let (one, two) = sides g in
      if two = 0 then
        tell_all ''Please could somebody move to another team, then all vote again?'' (tell_all ''Can't balance only one team!'' g)
      else
        let (g, l) = shuffle_items (list_players g); b = find_best one two l in
        if b_swaps b \<noteq> 0 then
          report_side False two (b_two b) l (combination b)
            (report_side True one (b_one b) l (combination b) (move_all one two l (combination b) g))
        else emit (Pmessagef 0 ''GOD->ALL'' ''No balance performed, this is the best: %-3s %.2f, %-3s %.2f''
               [one, b_one b, two, b_two b]) g)"

subsection \<open>Triple planet mayhem\<close>

definition hide_planet :: "planet \<Rightarrow> planet" where
  "hide_planet l = l\<lparr>pl_flags := 0, pl_owner := 0, pl_x := -10000, pl_y := -10000, pl_info := 0, pl_armies := 0, pl_name := []\<rparr>"

definition rich_home :: "int \<Rightarrow> int \<Rightarrow> string \<Rightarrow> planet \<Rightarrow> planet" where
  "rich_home t y name l =
     l\<lparr>pl_flags := ((((pl_flags l OR t OR PLHOME) OR PLCORE) OR PLAGRI) OR PLFUEL) OR PLREPAIR, pl_x := 40000, pl_y := y,
       pl_armies := 40, pl_info := t, pl_owner := t, pl_name := name\<rparr>"

definition indi :: "planet \<Rightarrow> planet" where
  "indi l = l\<lparr>pl_flags := (pl_flags l OR PLFUEL OR PLREPAIR) AND NOT PLAGRI, pl_x := 15980, pl_y := 50000,
       pl_armies := 4, pl_info := pl_info l AND NOT ALLTEAM, pl_name := ''Indi''\<rparr>"

definition mayhem_rules :: "string list" where
  "mayhem_rules =
    [''Galaxy reset for triple planet mayhem!'', ''Rule 1: they take Indi, they win,'',
     ''Rule 2: they take your home planet, they win,'', ''Rule 3: you can't bomb Indi,'',
     ''Rule 4: you may bomb their home planet, and;'',
     ''Rule 5: all planets are FUEL & REPAIR, home planets are AGRI.'']"

definition do_triple_planet_mayhem :: "game \<Rightarrow> game" where
  "do_triple_planet_mayhem g =
     (let g = for_upto MAXPLANETS (\<lambda>i. upd_planet i hide_planet) (do_balance g);
          g = upd_planet 30 (\<lambda>l. l\<lparr>pl_couptime := 999999\<rparr>) (upd_planet 20 (\<lambda>l. l\<lparr>pl_couptime := 999999\<rparr>) g);
          g = upd_planet 0 (rich_home FED 65000 ''Earth'') g;
          g = upd_planet 10 (rich_home ROM 35000 ''Romulus'') g;
          g = upd_planet 18 indi g;
          g = for_upto MAXPLANETS (\<lambda>i. upd_planet i (\<lambda>l. l\<lparr>pl_namelen := length (pl_name l)\<rparr>)) g
      in fold tell_all mayhem_rules g)"

section \<open>Properties\<close>

subsection \<open>The search finds the best division\<close>

text \<open>The order in which combinations are preferred.\<close>

definition at_least_as_good :: "int \<Rightarrow> int \<Rightarrow> item list \<Rightarrow> int \<Rightarrow> int \<Rightarrow> bool" where
  "at_least_as_good one two l c d \<longleftrightarrow>
     difference l c < difference l d \<or> difference l c = difference l d \<and> swaps one two l c \<le> swaps one two l d"

definition best_so_far :: "int \<Rightarrow> int \<Rightarrow> item list \<Rightarrow> nat \<Rightarrow> best \<Rightarrow> bool" where
  "best_so_far one two l m b \<longleftrightarrow>
     b = worst \<and> (\<forall>k<m. unequal l (int k)) \<or>
     (\<exists>i<m. b = best_of one two l (int i) \<and> \<not> unequal l (int i) \<and>
        (\<forall>k<m. unequal l (int k) \<or> at_least_as_good one two l (int i) (int k)))"

lemma best_of_fields [simp]:
  "combination (best_of one two l c) = c" "b_value (best_of one two l c) = difference l c"
  "b_swaps (best_of one two l c) = swaps one two l c"
  by (simp_all add: best_of_def)

lemma at_least_refl: "at_least_as_good one two l c c"
  by (simp add: at_least_as_good_def)

lemma at_least_switch:
  "\<not> at_least_as_good one two l c d \<Longrightarrow> at_least_as_good one two l c e \<Longrightarrow> at_least_as_good one two l d e"
  unfolding at_least_as_good_def by linarith

lemma try_combination_best:
  assumes "best_so_far one two l m b" and "difference l (int m) < 2 ^ 30"
  shows "best_so_far one two l (Suc m) (try_combination one two l m b)"
proof -
  let ?u = "unequal l (int m)"
  consider (none) "b = worst" "\<forall>k<m. unequal l (int k)"
    | (some) i where "i < m" "b = best_of one two l (int i)" "\<not> unequal l (int i)"
        "\<forall>k<m. unequal l (int k) \<or> at_least_as_good one two l (int i) (int k)"
    using assms(1) unfolding best_so_far_def by blast
  then show ?thesis
  proof cases
    case none
    then have "try_combination one two l m b = (if ?u then worst else best_of one two l (int m))"
      using assms(2) by (simp add: try_combination_def worst_def Let_def)
    moreover have "best_so_far one two l (Suc m) worst" if ?u
      using none(2) that unfolding best_so_far_def by (simp add: less_Suc_eq)
    moreover have "best_so_far one two l (Suc m) (best_of one two l (int m))" if "\<not> ?u"
      using none(2) that at_least_refl unfolding best_so_far_def by (intro disjI2 exI [of _ m]) (simp add: less_Suc_eq)
    ultimately show ?thesis by simp
  next
    case some
    let ?g = "at_least_as_good one two l (int i) (int m)"
    have better: "?g \<longleftrightarrow> \<not> (difference l (int m) < difference l (int i) \<or>
        difference l (int m) = difference l (int i) \<and> swaps one two l (int m) < swaps one two l (int i))"
      unfolding at_least_as_good_def by linarith
    have "try_combination one two l m b = (if ?u \<or> ?g then best_of one two l (int i) else best_of one two l (int m))"
      using better by (simp add: try_combination_def some(2) Let_def)
    moreover have "best_so_far one two l (Suc m) (best_of one two l (int i))" if "?u \<or> ?g"
      using some that unfolding best_so_far_def by (intro disjI2 exI [of _ i]) (simp add: less_Suc_eq)
    moreover have "best_so_far one two l (Suc m) (best_of one two l (int m))" if "\<not> (?u \<or> ?g)"
    proof -
      have "unequal l (int k) \<or> at_least_as_good one two l (int m) (int k)" if "k < m" for k
        using some(4) that at_least_switch \<open>\<not> (?u \<or> ?g)\<close> by blast
      then show ?thesis
        using that at_least_refl unfolding best_so_far_def by (intro disjI2 exI [of _ m]) (simp add: less_Suc_eq)
    qed
    ultimately show ?thesis by (cases "?u \<or> ?g") (simp_all only: if_True if_False not_False_eq_True)
  qed
qed

lemma find_best_so_far:
  assumes "\<forall>c. difference l c < 2 ^ 30"
  shows "best_so_far one two l m (for_upto m (try_combination one two l) worst)"
proof (induction m)
  case 0
  show ?case by (simp add: best_so_far_def)
next
  case (Suc m)
  then show ?case using assms by (simp add: try_combination_best)
qed

text \<open>There is always a division into halves.\<close>

lemma halves_fair:
  shows "\<not> unequal l (int (2 ^ (length l div 2) - 1))" and "2 ^ (length l div 2) - 1 < (2 :: nat) ^ length l"
proof -
  define n where "n = length l"
  define h where "h = n div 2"
  have "int (2 ^ h - 1) = mask h" by (simp add: mask_eq_exp_minus_1)
  then have bits: "bit (int (2 ^ h - 1)) j \<longleftrightarrow> j < h" for j by (simp add: bit_mask_iff)
  have "count_upto m (\<lambda>j. j < h) = min m h" for m by (induction m) auto
  moreover have "count_upto m (\<lambda>j. \<not> j < h) = m - h" for m by (induction m) auto
  moreover have "bit (int (2 ^ h - 1)) = (\<lambda>j. j < h)" by (rule ext) (rule bits)
  ultimately have "count_a l (int (2 ^ h - 1)) = min n h" "count_b l (int (2 ^ h - 1)) = n - h"
    by (simp_all only: count_a_def count_b_def n_def [symmetric])
  then show "\<not> unequal l (int (2 ^ (length l div 2) - 1))"
    unfolding unequal_def n_def [symmetric] h_def [symmetric] by (simp add: h_def)
  have "(2 :: nat) ^ h \<le> 2 ^ n" by (rule power_increasing) (simp_all add: h_def)
  then show "2 ^ (length l div 2) - 1 < (2 :: nat) ^ length l"
    using zero_less_power [of "2 :: nat" h] unfolding n_def [symmetric] h_def [symmetric]
    by linarith
qed

text \<open>The difference of two sides is bounded by the values of the players.\<close>

lemma difference_bound:
  assumes "\<forall>x \<in> set l. \<bar>i_value x\<bar> < k"
  shows "difference l c \<le> int (length l) * k"
proof -
  have "\<bar>(\<Sum>j\<leftarrow>xs. if bit c j then i_value (l ! j) else 0) - (\<Sum>j\<leftarrow>xs. if bit c j then 0 else i_value (l ! j))\<bar>
      \<le> int (length xs) * k" if "set xs \<subseteq> {..<length l}" for xs
    using that
  proof (induction xs)
    case (Cons j xs)
    then have "\<bar>i_value (l ! j)\<bar> < k" using assms by simp
    with Cons show ?case by (auto simp: distrib_right)
  qed simp
  moreover have "set [0..<length l] \<subseteq> {..<length l}" by auto
  ultimately have "\<bar>value_a l c - value_b l c\<bar> \<le> int (length [0..<length l]) * k"
    unfolding value_a_def value_b_def by blast
  then show ?thesis by (simp add: difference_def)
qed

lemma find_best_correct:
  fixes one two :: int and l :: "item list"
  assumes "length l \<le> 30" and "\<forall>c. difference l c < 2 ^ 30"
  defines "b \<equiv> find_best one two l"
  shows "0 \<le> combination b \<and> \<not> unequal l (combination b) \<and> b_swaps b = swaps one two l (combination b) \<and>
    (\<forall>c. 0 \<le> c \<and> c < 2 ^ length l \<and> \<not> unequal l c \<longrightarrow> at_least_as_good one two l (combination b) c)"
proof -
  have n: "combinations (length l) = 2 ^ length l" using assms(1) by (simp add: combinations_def)
  have "best_so_far one two l (2 ^ length l) b"
    using find_best_so_far [OF assms(2)] by (simp only: b_def find_best_def n)
  moreover have "\<exists>i < 2 ^ length l. \<not> unequal l (int i)" using halves_fair [of l] by blast
  ultimately obtain i where i: "i < 2 ^ length l" "b = best_of one two l (int i)" "\<not> unequal l (int i)"
    "\<forall>k < 2 ^ length l. unequal l (int k) \<or> at_least_as_good one two l (int i) (int k)"
    unfolding best_so_far_def by blast
  have "at_least_as_good one two l (int i) c" if "0 \<le> c" "c < 2 ^ length l" "\<not> unequal l c" for c
  proof -
    from that have "nat c < 2 ^ length l" "int (nat c) = c" by (simp_all add: nat_less_iff)
    with i(4) that(3) show ?thesis by metis
  qed
  with i show ?thesis by simp
qed

subsection \<open>The list holds the players in the game\<close>

definition who_is :: "player \<Rightarrow> pstatus \<times> 32 word \<times> int \<times> nat" where
  "who_is p = (p_status p, p_flags p, p_team p, p_no p)"

definition item_of :: "game \<Rightarrow> nat \<Rightarrow> item" where
  "item_of g i = \<lparr>i_no = p_no (players g i), i_value = snd (player_value i g), i_team = p_team (players g i)\<rparr>"

lemma who_is_slot [simp]: "who_is (upd_ltd_slot s f p) = who_is p"
  by (simp add: who_is_def upd_ltd_slot_def)

lemma who_is_ratings [simp]:
  "who_is (fst (ltd_bombing_rating st p)) = who_is p" "who_is (fst (ltd_planet_rating st p)) = who_is p"
  "who_is (fst (ltd_defense_rating st p)) = who_is p" "who_is (fst (ltd_offense_rating st p)) = who_is p"
  by (simp_all add: ltd_bombing_rating_def ltd_planet_rating_def ltd_defense_rating_def ltd_offense_rating_def
      ltd_armies_bombed_def ltd_planets_taken_def ltd_deaths_of_def ltd_kills_of_def ltd_ticks_of_def set_total_def Let_def)

lemma player_value_effect:
  "who_is (players (fst (player_value i g)) j) = who_is (players g j)"
  "j \<noteq> i \<Longrightarrow> players (fst (player_value i g)) j = players g j" "status (fst (player_value i g)) = status g"
  by (simp_all add: player_value_def Let_def case_prod_beta)

lemma player_value_depends:
  "status h = status g \<Longrightarrow> players h i = players g i \<Longrightarrow> snd (player_value i h) = snd (player_value i g)"
  by (simp add: player_value_def Let_def case_prod_beta)

lemma in_play_who: "who_is (players h i) = who_is (players g i) \<Longrightarrow> in_play h i = in_play g i"
  by (simp add: who_is_def in_play_def)

lemma list_players_items:
  "snd (list_players g) = map (item_of g) (filter (in_play g) [0..<MAXPLAYER])"
  "who_is (players (fst (list_players g)) j) = who_is (players g j)"
proof -
  have "snd (for_upto n list_one (g, [])) = map (item_of g) (filter (in_play g) [0..<n]) \<and>
      (\<forall>j. who_is (players (fst (for_upto n list_one (g, []))) j) = who_is (players g j)) \<and>
      (\<forall>j\<ge>n. players (fst (for_upto n list_one (g, []))) j = players g j) \<and>
      status (fst (for_upto n list_one (g, []))) = status g" for n
  proof (induction n)
    case (Suc n)
    define s where "s = for_upto n list_one (g, [])"
    note IH = Suc.IH [folded s_def]
    have "players (fst s) n = players g n" "status (fst s) = status g" using IH by simp_all
    then have v: "snd (player_value n (fst s)) = snd (player_value n g)" "in_play (fst s) n = in_play g n"
      using player_value_depends [of "fst s" g n] by (simp_all add: in_play_def)
    show ?case
    proof (cases "in_play g n")
      case True
      then have "list_one n s = (fst (player_value n (fst s)), snd s @ [item_of g n])"
        using v \<open>players (fst s) n = players g n\<close> by (simp add: list_one_def Let_def case_prod_beta item_of_def)
      then show ?thesis using IH True by (simp add: player_value_effect flip: s_def)
    next
      case False
      then have "list_one n s = s" using v by (simp add: list_one_def Let_def)
      then show ?thesis using IH False by (simp flip: s_def)
    qed
  qed simp
  from this [of MAXPLAYER] show "snd (list_players g) = map (item_of g) (filter (in_play g) [0..<MAXPLAYER])"
    "who_is (players (fst (list_players g)) j) = who_is (players g j)"
    by (simp_all only: list_players_def)
qed

lemma swap_items_effect:
  assumes "i < length (snd s)"
  shows "mset (snd (swap_items i s)) = mset (snd s) \<and> players (fst (swap_items i s)) = players (fst s)"
proof -
  have "nat (r mod int (length (snd s))) < length (snd s)" for r
  proof -
    have "0 < int (length (snd s))" using assms by linarith
    then show ?thesis by (simp add: nat_less_iff)
  qed
  then show ?thesis by (simp add: swap_items_def Let_def mset_swap)
qed

lemma shuffle_items_effect:
  "mset (snd (shuffle_items s)) = mset (snd s)" "players (fst (shuffle_items s)) = players (fst s)"
proof -
  have "mset (snd (for_upto n swap_items s)) = mset (snd s) \<and> players (fst (for_upto n swap_items s)) = players (fst s)"
    if "n \<le> length (snd s)" for n
    using that
  proof (induction n)
    case (Suc n)
    define t where "t = for_upto n swap_items s"
    have t: "mset (snd t) = mset (snd s)" "players (fst t) = players (fst s)" using Suc by (simp_all add: t_def)
    then have "n < length (snd t)" using Suc.prems mset_eq_length [OF t(1)] by simp
    from swap_items_effect [OF this] t show ?case by (simp flip: t_def)
  qed simp
  then show "mset (snd (shuffle_items s)) = mset (snd s)" "players (fst (shuffle_items s)) = players (fst s)"
    by (simp_all add: shuffle_items_def)
qed

subsection \<open>The players are moved to their sides\<close>

lemma balance_move_team [simp]:
  "p_team (players (balance_move n ours theirs g) i) = (if i = n then ours else p_team (players g i))"
  by (simp add: balance_move_def change_team_def change_team_quietly_def set_names_def Let_def)

lemma move_all_team:
  assumes "distinct (map i_no l)" and "j < length l"
  shows "p_team (players (move_all one two l c g) (i_no (l ! j))) = (if bit c j then one else two)"
proof -
  have inj: "i_no (l ! j) = i_no (l ! k) \<longleftrightarrow> j = k" if "j < length l" "k < length l" for j k
    using nth_eq_iff_index_eq [OF assms(1), of j k] that by simp
  have "p_team (players (for_upto n (\<lambda>j. if bit c j then balance_move (i_no (l ! j)) one two
        else balance_move (i_no (l ! j)) two one) g) (i_no (l ! j))) = (if bit c j then one else two)"
    if "j < n" "n \<le> length l" for n j
    using that
  proof (induction n)
    case (Suc n)
    then show ?case by (cases "j = n") (simp_all add: inj)
  qed simp
  then show ?thesis using assms(2) by (simp add: move_all_def)
qed

lemma report_side_players [simp]: "players (report_side side team points l c g) = players g"
proof -
  have "players (for_upto n (\<lambda>j g. if bit c j = side then moveallmsg (i_no (l ! j)) team (i_value (l ! j)) g else g) g) = players g" for n
    by (rule for_upto_same) (simp add: moveallmsg_def)
  then show ?thesis by (simp add: report_side_def)
qed

text \<open>
  C10: the balance is the fairest there is.  The items that are divided are exactly the players in
  the game with their values; the halves differ by at most one player; no other division into
  such halves has a smaller difference of the total values, or the same with fewer players who
  change sides; and afterwards every player is on its side.
\<close>

theorem balance_is_fairest:
  fixes g :: game and one two :: int
  defines "l \<equiv> snd (shuffle_items (list_players g))"
  defines "c \<equiv> combination (find_best one two l)"
  assumes "sides g = (one, two)" and "two \<noteq> 0" and "\<forall>i. p_no (players g i) = i" and "card {i. i < MAXPLAYER \<and> in_play g i} \<le> 30"
    and "\<forall>i < MAXPLAYER. in_play g i \<longrightarrow> \<bar>snd (player_value i g)\<bar> < 2 ^ 25"
  shows "mset l = image_mset (item_of g) (mset_set {i. i < MAXPLAYER \<and> in_play g i}) \<and>
    \<bar>int (count_a l c) - int (count_b l c)\<bar> \<le> 1 \<and>
    (\<forall>d. 0 \<le> d \<and> d < 2 ^ length l \<and> \<bar>int (count_a l d) - int (count_b l d)\<bar> \<le> 1 \<longrightarrow>
       difference l c < difference l d \<or> difference l c = difference l d \<and> swaps one two l c \<le> swaps one two l d) \<and>
    (\<forall>j < length l. p_team (players (do_balance g) (i_no (l ! j))) = (if bit c j then one else two))"
proof -
  have m: "mset l = mset (map (item_of g) (filter (in_play g) [0..<MAXPLAYER]))"
    by (simp only: l_def shuffle_items_effect list_players_items)
  have nos: "map i_no (map (item_of g) (filter (in_play g) [0..<MAXPLAYER])) = filter (in_play g) [0..<MAXPLAYER]"
    using assms(5) by (simp add: item_of_def comp_def)
  have "mset (map i_no l) = mset (filter (in_play g) [0..<MAXPLAYER])"
    using arg_cong [OF m, of "image_mset i_no"] by (simp only: mset_map [symmetric] nos)
  then have d: "distinct (map i_no l)"
    by (metis distinct_filter distinct_upt mset_eq_imp_distinct_iff)
  have "{i. i < MAXPLAYER \<and> in_play g i} = set (filter (in_play g) [0..<MAXPLAYER])" by auto
  then have set: "mset (filter (in_play g) [0..<MAXPLAYER]) = mset_set {i. i < MAXPLAYER \<and> in_play g i}"
    by (simp only: mset_set_set [OF distinct_filter [OF distinct_upt]])
  have items: "mset l = image_mset (item_of g) (mset_set {i. i < MAXPLAYER \<and> in_play g i})"
    by (simp only: m mset_map set)
  have len: "length l \<le> 30"
    using assms(6) arg_cong [OF items, of size] by (simp add: size_mset)
  have "\<forall>x \<in> set l. \<bar>i_value x\<bar> < 2 ^ 25"
    using assms(7) arg_cong [OF items, of set_mset] by (auto simp: item_of_def)
  then have "difference l d \<le> int (length l) * 2 ^ 25" for d by (rule difference_bound)
  moreover have "int (length l) * 2 ^ 25 < 2 ^ 30" using len by simp
  ultimately have small: "\<forall>d. difference l d < 2 ^ 30" by (meson le_less_trans)
  note best = find_best_correct [OF len small, of one two, folded c_def]
  define h where "h = fst (shuffle_items (list_players g))"
  have who: "who_is (players h j) = who_is (players g j)" for j
    by (simp add: h_def shuffle_items_effect list_players_items)
  have bal: "players (do_balance g) = players (if b_swaps (find_best one two l) \<noteq> 0 then move_all one two l c h else h)"
    using assms(3,4) by (simp add: do_balance_def Let_def l_def [symmetric] h_def [symmetric] case_prod_beta c_def)
  have "p_team (players (do_balance g) (i_no (l ! j))) = (if bit c j then one else two)" if j: "j < length l" for j
  proof (cases "b_swaps (find_best one two l) = 0")
    case True
    then have "swaps one two l c = 0" using best by simp
    then have "i_team (l ! j) = (if bit c j then one else two)"
      using j count_upto_pos [of j "length l" "\<lambda>j. i_team (l ! j) \<noteq> (if bit c j then one else two)"]
      by (cases "i_team (l ! j) = (if bit c j then one else two)") (simp_all add: swaps_def)
    moreover have "l ! j \<in> set (map (item_of g) (filter (in_play g) [0..<MAXPLAYER]))"
      using j m by (metis nth_mem set_mset_mset)
    then have "i_team (l ! j) = p_team (players g (i_no (l ! j)))"
      using assms(5) by (auto simp: item_of_def)
    ultimately show ?thesis using True who by (simp add: bal who_is_def)
  next
    case False
    then show ?thesis using move_all_team [OF d j] by (simp add: bal)
  qed
  with items best show ?thesis by (simp add: unequal_def at_least_as_good_def not_less)
qed

definition ex_balance :: game where
  "ex_balance = blank_game\<lparr>players := (\<lambda>i. blank_player\<lparr>p_no := i, p_team := (if i = 0 then FED else ROM),
     p_status := (if i < 2 then PALIVE else PFREE)\<rparr>)\<rparr>"

lemma player_value_untimed: "st_timeprod (status g) = 0 \<Longrightarrow> snd (player_value i g) = 0"
  by (simp add: player_value_def Let_def case_prod_beta ltd_bombing_rating_def ltd_planet_rating_def
      ltd_offense_rating_def)

lemma ex_balance_sides: "sides ex_balance = (FED, ROM)"
  unfolding sides_def by (simp add: ex_balance_def) code_simp

lemma balance_is_fairest_witness:
  fixes l c
  defines "l \<equiv> snd (shuffle_items (list_players ex_balance))"
  defines "c \<equiv> combination (find_best FED ROM l)"
  shows "\<bar>int (count_a l c) - int (count_b l c)\<bar> \<le> 1"
proof -
  have "in_play ex_balance i \<longleftrightarrow> i < 2" for i by (simp add: in_play_def ex_balance_def blank_defs has_def)
  then have "card {i. i < MAXPLAYER \<and> in_play ex_balance i} \<le> card {..<2 :: nat}"
    by (intro card_mono) auto
  moreover have "snd (player_value i ex_balance) = 0" for i
    by (rule player_value_untimed) (simp add: ex_balance_def blank_defs)
  moreover have "\<forall>i. p_no (players ex_balance i) = i" by (simp add: ex_balance_def)
  ultimately show ?thesis
    using balance_is_fairest [OF ex_balance_sides] by (simp add: l_def c_def)
qed

end
