(* ===== verification/View.thy ===== *)
theory View
  imports Client Draft Votes
begin

text \<open>
  What a client is sent (\<^verbatim>\<open>ntserv/genspkt.c\<close>): the packets of the classic protocol, without short
  packets, and the choice between them.  For every kind of packet the server process keeps the one
  it sent last, and sends a new one when it differs or when the client must not know the rest.
  These copies, the features that the client has asked for and the list of packets sent so far are
  a record of their own, so that every function here maps the pair of the game and this record.
  The variable \<^verbatim>\<open>f_many_self\<close> is zero in this program.
\<close>

subsection \<open>Packets\<close>

record plyr_login_spacket =
  lg_rank :: int
  lg_name :: string
  lg_monitor :: string
  lg_login :: string

record hostile_spacket =
  ho_war :: int
  ho_hostile :: int

record plyr_info_spacket =
  in_shiptype :: int
  in_team :: int

record flags_spacket =
  fl_flags :: "32 word"
  fl_tractor :: int

text \<open>The type is 0 in a packet that was never filled in; it is kept because such a packet can be sent again.\<close>

record player_spacket =
  cpl_type :: int
  cpl_pnum :: nat
  cpl_dir :: "8 word"
  cpl_speed :: int
  cpl_x :: int
  cpl_y :: int

text \<open>The value -1 of a status that was never sent is \<open>None\<close>.\<close>

record torp_info_spacket =
  ti_war :: int
  ti_status :: "tstatus option"

record torp_spacket =
  ts_dir :: "8 word"
  ts_x :: int
  ts_y :: int

record plasma_spacket =
  pas_x :: int
  pas_y :: int

record phaser_spacket =
  phs_status :: "phstatus option"
  phs_dir :: "8 word"
  phs_x :: int
  phs_y :: int
  phs_target :: nat

record planet_spacket =
  pls_owner :: int
  pls_info :: int
  pls_flags :: int
  pls_armies :: int

record planet_loc_spacket =
  loc_x :: int
  loc_y :: int
  loc_name :: string

record status_spacket =
  sts_tourn :: bool
  sts_armsbomb :: "32 word"
  sts_planets :: "32 word"
  sts_kills :: "32 word"
  sts_losses :: "32 word"
  sts_time :: "32 word"
  sts_timeprod :: int

record you_spacket =
  y_pnum :: int
  y_hostile :: int
  y_swar :: int
  y_armies :: int
  y_tractor :: int
  y_flags :: "32 word"
  y_damage :: int
  y_shield :: int
  y_fuel :: int
  y_etemp :: int
  y_wtemp :: int
  y_whydead :: whydead
  y_whodead :: nat

text \<open>The counters in the order \<^verbatim>\<open>tkills, tlosses, kills, losses, tticks, tplanets, tarmies, sbkills,
  sblosses, armies, planets\<close>.\<close>

record stats_spacket =
  stt_counts :: "int list"
  stt_maxkills :: int
  stt_sbmaxkills :: int

datatype generic_32_spacket =
    Generic_32_none
  | Generic_32_a int int
  | Generic_32_b int int "16 word" "8 word" "int \<times> char" "int \<times> char" int int

text \<open>The two bits of \<^verbatim>\<open>SP_YOU\<close> mark it as semi-critical and critical.  \<open>Ip_ignore_login\<close> is no packet: it
  stands for the call that looks up the stored ignore setting of the address of a player.  The arguments
  of a feature are its kind, value, two more values and its name; a reply about UDP may leave the
  port unset.\<close>

datatype packet =
    SP_PL_LOGIN nat plyr_login_spacket
  | Ip_ignore_login nat
  | SP_HOSTILE nat hostile_spacket
  | SP_PLAYER_INFO nat plyr_info_spacket
  | SP_KILLS nat int
  | SP_FLAGS nat flags_spacket
  | SP_PSTATUS nat pstatus
  | SP_PLAYER player_spacket
  | SP_TORP_INFO nat torp_info_spacket
  | SP_TORP nat torp_spacket
  | SP_PLASMA_INFO nat torp_info_spacket
  | SP_PLASMA nat plasma_spacket
  | SP_PHASER nat phaser_spacket
  | SP_PLANET nat planet_spacket
  | SP_PLANET_LOC nat planet_loc_spacket
  | SP_STATUS status_spacket
  | SP_YOU bool bool you_spacket
  | SP_GENERIC_32 generic_32_spacket
  | SP_FLAGS_ALL nat "32 word"
  | SP_STATS nat stats_spacket
  | SP_FEATURE char int int int string
  | SP_UDP_REPLY int "int option"
  | SP_MASK int
  | SP_PICKOK int
  | SP_MESSAGE "8 word" int int string

record client =
  clientLogin :: "nat \<Rightarrow> plyr_login_spacket"
  clientHostile :: "nat \<Rightarrow> hostile_spacket"
  clientPlayersInfo :: "nat \<Rightarrow> plyr_info_spacket"
  clientKills :: "nat \<Rightarrow> int"
  clientFlags :: "nat \<Rightarrow> flags_spacket"
  clientPStatus :: "nat \<Rightarrow> pstatus option"
  clientPlayers :: "nat \<Rightarrow> player_spacket"
  clientTorpsInfo :: "nat \<Rightarrow> torp_info_spacket"
  clientTorps :: "nat \<Rightarrow> torp_spacket"
  clientPlasmasInfo :: "nat \<Rightarrow> torp_info_spacket"
  clientPlasmas :: "nat \<Rightarrow> plasma_spacket"
  clientPhasers :: "nat \<Rightarrow> phaser_spacket"
  clientPlanets :: "nat \<Rightarrow> planet_spacket"
  clientPlanetLocs :: "nat \<Rightarrow> planet_loc_spacket"
  clientSelf :: you_spacket
  clientStatus :: status_spacket
  clientGeneric32 :: generic_32_spacket
  clientStats :: "nat \<Rightarrow> stats_spacket"
  mustUpdate :: "nat \<Rightarrow> bool"
  repCount :: int
  feature_var :: "string \<Rightarrow> int"
  A_sp_generic_32 :: int
  f_sp_rank_was :: int
  lastpno :: int
  start_totals :: "int list"
  ignored :: "nat \<Rightarrow> 32 word"
  macroignore :: bool
  dooshignore :: bool
  whitelist_all :: bool
  whitelist_team :: bool
  whitelist_indiv :: bool
  comm_udp :: bool
  udpMode :: int
  sent :: "(bool \<times> packet) list"

type_synonym view = "game \<times> client"

abbreviation (input) MODE_TCP :: int where "MODE_TCP \<equiv> 0"

definition feature_on :: "string \<Rightarrow> client \<Rightarrow> bool" where
  "feature_on f c \<longleftrightarrow> feature_var c f \<noteq> 0"

abbreviation (input) "F_sp_rank c \<equiv> feature_var c ''SP_RANK''"
abbreviation (input) "F_show_all_tractors c \<equiv> feature_on ''SHOW_ALL_TRACTORS'' c"
abbreviation (input) "F_full_weapon_resolution c \<equiv> feature_on ''FULL_WEAPON_RESOLUTION'' c"
abbreviation (input) "F_flags_all c \<equiv> feature_on ''SP_FLAGS_ALL'' c"
abbreviation (input) "F_why_dead_2 c \<equiv> feature_on ''WHY_DEAD_2'' c"
abbreviation (input) "F_sp_generic_32 c \<equiv> feature_on ''SP_GENERIC_32'' c"
abbreviation (input) "dead_warp_var c \<equiv> feature_var c ''DEAD_WARP''"

text \<open>Over UDP all packets but the critical ones go that way; the first part of an entry of \<open>sent\<close> says so.\<close>

fun by_udp :: "packet \<Rightarrow> bool" where
  "by_udp (SP_PL_LOGIN _ _) = False"
| "by_udp (SP_PLAYER_INFO _ _) = False"
| "by_udp (SP_PSTATUS _ _) = False"
| "by_udp (SP_PLANET_LOC _ _) = False"
| "by_udp (SP_FEATURE _ _ _ _ _) = False"
| "by_udp (SP_MESSAGE _ _ _ _) = False"
| "by_udp (SP_MASK _) = False"
| "by_udp (SP_PICKOK _) = False"
| "by_udp (Ip_ignore_login _) = False"
| "by_udp (SP_YOU _ critical _) = (\<not> critical)"
| "by_udp _ = True"

definition sendClientPacket :: "packet \<Rightarrow> client \<Rightarrow> client" where
  "sendClientPacket p c =
     (let udp = comm_udp c \<and> udpMode c \<noteq> MODE_TCP \<and> by_udp p in
      case p of
        SP_PLAYER r \<Rightarrow> if cpl_type r = 0 then c else c\<lparr>sent := sent c @ [(udp, p)]\<rparr>
      | _ \<Rightarrow> c\<lparr>sent := sent c @ [(udp, p)]\<rparr>)"

datatype howmuch = UPDT_ALL | UPDT_MOST | UPDT_MANY | UPDT_LITTLE | UPDT_LEAST

subsection \<open>Players\<close>

definition limited_rank :: "plyr_login_spacket \<Rightarrow> plyr_login_spacket" where
  "limited_rank l = l\<lparr>lg_rank := RANK_ADMIRAL\<rparr>"

definition sndLogin :: "nat \<Rightarrow> nat \<Rightarrow> game \<Rightarrow> client \<Rightarrow> client" where
  "sndLogin me i g c =
     (let pl = players g i; rank = st_rank (p_stats pl);
          c = (if f_sp_rank_was c \<noteq> F_sp_rank c \<and> F_sp_rank c \<noteq> 0 \<and> rank > RANK_ADMIRAL
               then c\<lparr>clientLogin := (clientLogin c)(i := (clientLogin c i)\<lparr>lg_rank := -1\<rparr>),
                      f_sp_rank_was := F_sp_rank c\<rparr>
               else c);
          login = clientLogin c i in
      if rank = lg_rank login \<and> p_name pl = lg_name login \<and> p_monitor pl = lg_monitor login \<and>
         p_login pl = lg_login login then c
      else
        let login = \<lparr>lg_rank = rank, lg_name = take 15 (p_name pl), lg_monitor = take 15 (p_monitor pl),
                     lg_login = take 15 (p_login pl)\<rparr>;
            c = c\<lparr>clientLogin := (clientLogin c)(i := login)\<rparr>;
            c = (if rank > RANK_ADMIRAL \<and> F_sp_rank c = 0
                 then sendClientPacket (SP_PL_LOGIN (p_no pl) (limited_rank login)) (c\<lparr>f_sp_rank_was := 0\<rparr>)
                 else sendClientPacket (SP_PL_LOGIN (p_no pl) login) c)
        in if me \<noteq> i \<and> p_status pl = PFREE then sendClientPacket (Ip_ignore_login i) c else c)"

definition sndHostile :: "nat \<Rightarrow> nat \<Rightarrow> howmuch \<Rightarrow> game \<Rightarrow> client \<Rightarrow> client" where
  "sndHostile me i howmuch g c =
     (let pl = players g i;
          mine = (\<lambda>x. if howmuch = UPDT_ALL then x else x AND p_team (players g me));
          new = \<lparr>ho_war = mine (p_swar pl), ho_hostile = mine (p_hostile pl)\<rparr> in
      if new \<noteq> clientHostile c i
      then sendClientPacket (SP_HOSTILE (p_no pl) new) (c\<lparr>clientHostile := (clientHostile c)(i := new)\<rparr>)
      else c)"

definition sndPlayerInfo :: "nat \<Rightarrow> game \<Rightarrow> client \<Rightarrow> client" where
  "sndPlayerInfo i g c =
     (let pl = players g i; new = \<lparr>in_shiptype = s_type (p_ship pl), in_team = p_team pl\<rparr> in
      if new \<noteq> clientPlayersInfo c i
      then sendClientPacket (SP_PLAYER_INFO (p_no pl) new) (c\<lparr>clientPlayersInfo := (clientPlayersInfo c)(i := new)\<rparr>)
      else c)"

definition sndKills :: "nat \<Rightarrow> game \<Rightarrow> client \<Rightarrow> client" where
  "sndKills i g c =
     (let pl = players g i; kills = trunc (p_kills pl * 100) in
      if clientKills c i \<noteq> kills
      then sendClientPacket (SP_KILLS (p_no pl) kills) (c\<lparr>clientKills := (clientKills c)(i := kills)\<rparr>)
      else c)"

abbreviation (input) INVISOMASK :: "32 word" where
  "INVISOMASK \<equiv> PFCLOAK OR PFROBOT OR PFPRACTR OR PFDOCKOK OR PFOBSERV OR PFBPROBOT"

abbreviation (input) FLAGMASK :: "32 word" where "FLAGMASK \<equiv> PFSHIELD OR INVISOMASK"

definition sndFlags :: "nat \<Rightarrow> howmuch \<Rightarrow> game \<Rightarrow> client \<Rightarrow> client" where
  "sndFlags i howmuch g c =
     (let pl = players g i;
          tractor = (if F_show_all_tractors c \<and> has (p_flags pl) PFTRACT then int (p_tractor pl) OR 0x40 else 0);
          (mask, tractor) =
            (if p_status pl = POBSERV then (PFOBSERV, 0)
             else if howmuch = UPDT_ALL
             then (if F_show_all_tractors c then FLAGMASK OR PFTRACT OR PFPRESS else FLAGMASK, tractor)
             else (INVISOMASK, tractor));
          new = \<lparr>fl_flags = p_flags pl AND mask, fl_tractor = tractor\<rparr> in
      if clientFlags c i = new then c
      else sendClientPacket (SP_FLAGS (p_no pl) new) (c\<lparr>clientFlags := (clientFlags c)(i := new)\<rparr>))"

definition observed_status :: "nat \<Rightarrow> nat \<Rightarrow> game \<Rightarrow> pstatus" where
  "observed_status me i g =
     (if p_status (players g i) \<noteq> POBSERV then p_status (players g i) else if i = me then PALIVE else POUTFIT)"

text \<open>The second part of the result says that a packet was sent.\<close>

definition sndPStatus :: "nat \<Rightarrow> nat \<Rightarrow> game \<Rightarrow> client \<Rightarrow> client \<times> bool" where
  "sndPStatus me i g c =
     (let os = observed_status me i g in
      if clientPStatus c i \<noteq> Some os then
        let c = sendClientPacket (SP_PSTATUS (p_no (players g i)) os) (c\<lparr>clientPStatus := (clientPStatus c)(i := Some os)\<rparr>)
        in (if dead_warp_var c \<noteq> 0 then c\<lparr>feature_var := (feature_var c)(''DEAD_WARP'' := 1)\<rparr> else c, True)
      else (c, False))"

text \<open>Death at warp 14: the direction counts, so that successive packets differ.\<close>

definition send_dead :: "nat \<Rightarrow> player_spacket \<Rightarrow> client \<Rightarrow> client" where
  "send_dead i r c =
     c\<lparr>clientPlayers := (clientPlayers c)(i := r\<lparr>cpl_dir := of_int (dead_warp_var c), cpl_speed := 14\<rparr>),
       feature_var := (feature_var c)(''DEAD_WARP'' := dead_warp_var c + 1)\<rparr>"

definition updtPlayer :: "nat \<Rightarrow> howmuch \<Rightarrow> view \<Rightarrow> view \<times> bool" where
  "updtPlayer i howmuch s =
     (let g = fst s; c = snd s; pl = players g i; cpl = clientPlayers c i;
          dead = (p_status pl = PDEAD \<or> p_status pl = PEXPLODE) \<and> dead_warp_var c \<noteq> 0;
          gone = cpl\<lparr>cpl_type := 4, cpl_pnum := p_no pl, cpl_x := -10000, cpl_y := -10000\<rparr>;
          put = (\<lambda>r. c\<lparr>clientPlayers := (clientPlayers c)(i := r\<lparr>cpl_type := 4, cpl_pnum := p_no pl\<rparr>)\<rparr>) in
      if howmuch = UPDT_LEAST then
        if cpl_x cpl = -10000 \<and> cpl_y cpl = -10000 then (s, False)
        else if dead then ((g, send_dead i gone c), True)
        else ((g, put (gone\<lparr>cpl_dir := 0, cpl_speed := 0\<rparr>)), True)
      else if p_x pl \<noteq> cpl_x cpl \<or> p_y pl \<noteq> cpl_y cpl \<or> p_dir pl \<noteq> cpl_dir cpl \<or> p_speed pl \<noteq> cpl_speed cpl then
        if dead then ((g, send_dead i gone c), True)
        else if howmuch = UPDT_LITTLE then (s, True)
        else if howmuch = UPDT_MANY then
          let x = p_x pl + rand_val g mod 2000 - 1000; g = rand_next g;
              y = p_y pl + rand_val g mod 2000 - 1000; g = rand_next g
          in ((g, put (cpl\<lparr>cpl_speed := 15, cpl_x := x, cpl_y := y\<rparr>)), True)
        else
          ((g, put (cpl\<lparr>cpl_dir := p_dir pl, cpl_x := p_x pl, cpl_y := p_y pl,
                        cpl_speed := (if howmuch = UPDT_ALL then p_speed pl else 15)\<rparr>)), True)
      else (s, False))"

definition sndPlayer :: "nat \<Rightarrow> howmuch \<Rightarrow> view \<Rightarrow> view" where
  "sndPlayer i howmuch s =
     (case updtPlayer i howmuch s of
        ((g, c), True) \<Rightarrow> (g, sendClientPacket (SP_PLAYER (clientPlayers c i)) c)
      | (s, False) \<Rightarrow> s)"

subsection \<open>Torpedoes and phasers\<close>

abbreviation (input) myTorp :: "nat \<Rightarrow> torp \<Rightarrow> bool" where "myTorp me t \<equiv> t_owner t = me"

definition snd_torp_info :: "nat \<Rightarrow> torp_info_spacket \<Rightarrow> client \<Rightarrow> client" where
  "snd_torp_info i r c = sendClientPacket (SP_TORP_INFO i r) (c\<lparr>clientTorpsInfo := (clientTorpsInfo c)(i := r)\<rparr>)"

definition snd_torp_place :: "nat \<Rightarrow> torp \<Rightarrow> client \<Rightarrow> client" where
  "snd_torp_place i t c =
     (let r = \<lparr>ts_dir = t_dir t, ts_x = t_x t, ts_y = t_y t\<rparr>
      in sendClientPacket (SP_TORP i r) (c\<lparr>clientTorps := (clientTorps c)(i := r)\<rparr>))"

definition sndTorp :: "nat \<Rightarrow> torp \<Rightarrow> nat \<Rightarrow> howmuch \<Rightarrow> game \<Rightarrow> client \<Rightarrow> client" where
  "sndTorp me t i howmuch g c =
     (let tpi = clientTorpsInfo c i; tp = clientTorps c i; mine = t_war t AND p_team (players g me) in
      if t_status t = TFREE \<and> ti_status tpi = Some TFREE then c
      else if howmuch = UPDT_ALL then
        let c = (if t_war t \<noteq> ti_war tpi \<or> Some (t_status t) \<noteq> ti_status tpi
                 then snd_torp_info i \<lparr>ti_war = t_war t, ti_status = Some (t_status t)\<rparr> c else c)
        in if ts_x tp \<noteq> t_x t \<or> ts_y tp \<noteq> t_y t then snd_torp_place i t c else c
      else if howmuch = UPDT_MOST then
        let c = snd_torp_place i t c
        in if Some (t_status t) \<noteq> ti_status tpi \<or> mine \<noteq> ti_war tpi
           then snd_torp_info i \<lparr>ti_war = mine, ti_status = Some (t_status t)\<rparr> c else c
      else if t_status t = TFREE \<and> ti_status tpi = Some TEXPLODE
      then c\<lparr>clientTorpsInfo := (clientTorpsInfo c)(i := tpi\<lparr>ti_status := Some TFREE\<rparr>)\<rparr>
      else if ti_status tpi \<noteq> Some TFREE then snd_torp_info i (tpi\<lparr>ti_status := Some TFREE\<rparr>) c
      else c)"

definition snd_plasma_info :: "nat \<Rightarrow> torp_info_spacket \<Rightarrow> client \<Rightarrow> client" where
  "snd_plasma_info i r c = sendClientPacket (SP_PLASMA_INFO i r) (c\<lparr>clientPlasmasInfo := (clientPlasmasInfo c)(i := r)\<rparr>)"

definition snd_plasma_place :: "nat \<Rightarrow> torp \<Rightarrow> client \<Rightarrow> client" where
  "snd_plasma_place i t c =
     (let r = \<lparr>pas_x = t_x t, pas_y = t_y t\<rparr>
      in sendClientPacket (SP_PLASMA i r) (c\<lparr>clientPlasmas := (clientPlasmas c)(i := r)\<rparr>))"

definition sndPlasma :: "nat \<Rightarrow> torp \<Rightarrow> nat \<Rightarrow> howmuch \<Rightarrow> game \<Rightarrow> client \<Rightarrow> client" where
  "sndPlasma me t i howmuch g c =
     (let tpi = clientPlasmasInfo c i; tp = clientPlasmas c i; p = players g me;
          mine = t_war t AND p_team p;
          war = (if pingpong_plasma (cfg g) \<and> meets (t_team t) (p_war p) then mine OR p_team p else mine) in
      if t_status t = TFREE \<and> ti_status tpi = Some TFREE then c
      else if howmuch = UPDT_ALL then
        let c = (if t_war t \<noteq> ti_war tpi \<or> Some (t_status t) \<noteq> ti_status tpi
                 then snd_plasma_info i \<lparr>ti_war = t_war t, ti_status = Some (t_status t)\<rparr> c else c)
        in if pas_x tp \<noteq> t_x t \<or> pas_y tp \<noteq> t_y t then snd_plasma_place i t c else c
      else if howmuch = UPDT_MOST then
        let c = snd_plasma_place i t c
        in if Some (t_status t) \<noteq> ti_status tpi \<or> mine \<noteq> ti_war tpi
           then snd_plasma_info i \<lparr>ti_war = war, ti_status = Some (t_status t)\<rparr> c else c
      else if t_status t = TFREE \<and> ti_status tpi = Some TEXPLODE
      then c\<lparr>clientPlasmasInfo := (clientPlasmasInfo c)(i := tpi\<lparr>ti_status := Some TFREE\<rparr>)\<rparr>
      else if ti_status tpi \<noteq> Some TFREE then snd_plasma_info i (tpi\<lparr>ti_status := Some TFREE\<rparr>) c
      else c)"

definition sndPhaser :: "phaser \<Rightarrow> nat \<Rightarrow> howmuch \<Rightarrow> client \<Rightarrow> client" where
  "sndPhaser phase i howmuch c =
     (let ph = clientPhasers c i;
          put = (\<lambda>r. sendClientPacket (SP_PHASER i r) (c\<lparr>clientPhasers := (clientPhasers c)(i := r)\<rparr>)) in
      if howmuch = UPDT_ALL then
        if phs_status ph \<noteq> Some (ph_status phase) \<or> phs_dir ph \<noteq> ph_dir phase \<or> phs_target ph \<noteq> ph_target phase
        then put \<lparr>phs_status = Some (ph_status phase), phs_dir = ph_dir phase, phs_x = ph_x phase, phs_y = ph_y phase,
                  phs_target = ph_target phase\<rparr>
        else c
      else if phs_status ph \<noteq> Some PHFREE then put (ph\<lparr>phs_status := Some PHFREE\<rparr>)
      else c)"

subsection \<open>Planets and the state of the game\<close>

abbreviation (input) PLFLAGMASK :: int where
  "PLFLAGMASK \<equiv> PLREPAIR OR PLFUEL OR PLAGRI OR PLHOME OR PLCOUP OR PLCORE"

definition sndPlanet :: "nat \<Rightarrow> nat \<Rightarrow> howmuch \<Rightarrow> game \<Rightarrow> client \<Rightarrow> client" where
  "sndPlanet me i howmuch g c =
     (let pl = clientPlanets c i; plan = planets g i;
          put = (\<lambda>r. sendClientPacket (SP_PLANET (pl_no plan) r) (c\<lparr>clientPlanets := (clientPlanets c)(i := r)\<rparr>)) in
      if howmuch = UPDT_ALL then
        let new = \<lparr>pls_owner = pl_owner plan, pls_info = pl_info plan, pls_flags = pl_flags plan AND PLFLAGMASK,
                   pls_armies = pl_armies plan\<rparr>
        in if pl \<noteq> new then put new else c
      else if meets (pls_info pl) (p_team (players g me))
      then put \<lparr>pls_owner = 0, pls_info = 0, pls_flags = 0, pls_armies = 0\<rparr>
      else c)"

definition sndPlanetLoc :: "nat \<Rightarrow> game \<Rightarrow> client \<Rightarrow> client" where
  "sndPlanetLoc i g c =
     (let pll = clientPlanetLocs c i; plan = planets g i;
          new = \<lparr>loc_x = pl_x plan, loc_y = pl_y plan, loc_name = pl_name plan\<rparr> in
      if loc_x pll \<noteq> pl_x plan \<or> loc_y pll \<noteq> pl_y plan
      then sendClientPacket (SP_PLANET_LOC (pl_no plan) new) (c\<lparr>clientPlanetLocs := (clientPlanetLocs c)(i := new)\<rparr>)
      else c)"

abbreviation (input) timeprod_int :: "game \<Rightarrow> int" where
  "timeprod_int g \<equiv> trunc (st_timeprod (status g) / 10)"

abbreviation (input) efticks :: "int \<Rightarrow> nat \<Rightarrow> game \<Rightarrow> int" where
  "efticks x me g \<equiv> (x * (fps (cfg g) sdiv 5)) sdiv p_fpu (players g me)"

definition updateStatus :: "bool \<Rightarrow> nat \<Rightarrow> view \<Rightarrow> view" where
  "updateStatus force me s =
     (let g = fst s; c = snd s; st = status g in
      if sts_tourn (clientStatus c) \<noteq> st_tourn st \<or>
         (force \<and> repCount c smod efticks 50 me g = 0 \<and> sts_timeprod (clientStatus c) \<noteq> timeprod_int g)
      then
        let g = setEnemy (p_team (players g me)) me g;
            new = \<lparr>sts_tourn = st_tourn st, sts_armsbomb = st_armsbomb st div 10, sts_planets = st_planets st div 10,
                   sts_kills = st_kills st div 10, sts_losses = st_losses st div 10, sts_time = st_time st div 10,
                   sts_timeprod = timeprod_int g\<rparr>
        in (g, sendClientPacket (SP_STATUS new) (c\<lparr>clientStatus := new\<rparr>))
      else s)"

subsection \<open>The player itself\<close>

definition legacy_whydead :: "client \<Rightarrow> whydead \<Rightarrow> whydead" where
  "legacy_whydead c w =
     (if F_why_dead_2 c then w
      else case w of KTORP2 \<Rightarrow> KTORP | KSHIP2 \<Rightarrow> KSHIP | KPLASMA2 \<Rightarrow> KPLASMA | _ \<Rightarrow> w)"

definition you_of :: "client \<Rightarrow> player \<Rightarrow> you_spacket" where
  "you_of c p =
     \<lparr>y_pnum = int (p_no p), y_hostile = p_hostile p, y_swar = p_swar p, y_armies = p_armies p,
      y_tractor = (if has (p_flags p) PFTRACT then int (p_tractor p) OR 0x40 else 0), y_flags = p_flags p,
      y_damage = p_damage p, y_shield = p_shield p, y_fuel = p_fuel p, y_etemp = p_etemp p, y_wtemp = p_wtemp p,
      y_whydead = legacy_whydead c (p_whydead p), y_whodead = p_whodead p\<rparr>"

text \<open>The marks of the packet compare what was sent last with what there is now; only over UDP.\<close>

definition semi_critical :: "you_spacket \<Rightarrow> you_spacket \<Rightarrow> bool" where
  "semi_critical old new \<longleftrightarrow> y_flags old \<noteq> y_flags new \<or> y_armies old \<noteq> y_armies new \<or> y_swar old \<noteq> y_swar new"

definition critical :: "you_spacket \<Rightarrow> you_spacket \<Rightarrow> bool" where
  "critical old new \<longleftrightarrow>
     y_whydead old \<noteq> y_whydead new \<or> y_whodead old \<noteq> y_whodead new \<or> y_pnum old \<noteq> y_pnum new"

text \<open>A change of \<^verbatim>\<open>p_hostile\<close> alone sends nothing.\<close>

definition sndSelf :: "howmuch \<Rightarrow> player \<Rightarrow> client \<Rightarrow> client" where
  "sndSelf howmuch p c =
     (let old = clientSelf c; new = you_of c p in
      if howmuch = UPDT_ALL \<or> new\<lparr>y_hostile := y_hostile old\<rparr> \<noteq> old
      then sendClientPacket (SP_YOU (comm_udp c \<and> semi_critical old new) (comm_udp c \<and> critical old new) new)
             (c\<lparr>clientSelf := new\<rparr>)
      else c)"

abbreviation (input) GU_UNSAFE :: int where "GU_UNSAFE \<equiv> 1"

definition my :: "nat \<Rightarrow> game \<Rightarrow> nat" where
  "my me g = (if Observer (procs g me) \<and> pflag me PFPLOCK g then p_playerl (players g me) else me)"

definition orbited :: "player \<Rightarrow> int" where
  "orbited p = (if has (p_flags p) PFORBIT then int (p_planet p) else -1)"

definition sendGeneric32PacketB :: "nat \<Rightarrow> game \<Rightarrow> generic_32_spacket" where
  "sendGeneric32PacketB i g =
     (let pl = players g i; c = ctxt g; f = fps (cfg g); k = te_turns (teams g (nat (p_team pl)));
          q = quorum c in
      Generic_32_b (p_repair_time pl) (orbited pl)
        (of_int ((gameup (status g) AND NOT GU_UNSAFE) OR (if is_idle i g then 0 else GU_UNSAFE)))
        (of_int ((push_bit 4 (snd q) AND 0xf0) OR (fst q AND 0xf)))
        (s2du ((frame c - frame_tourn_start c) sdiv f)) (s2du (inl_remaining c sdiv f))
        (if k < 0 then 0 else if k > 255 then 255 else k)
        (case first_in 0 (Suc MAXTEAM) (\<lambda>t. te_surrender (teams g t) \<noteq> 0) of
           None \<Rightarrow> 0
         | Some t \<Rightarrow> let v = te_surrender (teams g t) * 60 + (frame c - te_surrender_frame (teams g t)) sdiv f
                    in if v > 255 then 255 else v mod 256))"

definition sendGeneric32Packet :: "nat \<Rightarrow> game \<Rightarrow> client \<Rightarrow> client" where
  "sendGeneric32Packet me g c =
     (if \<not> F_sp_generic_32 c then c
      else
        let i = my me g;
            gp = (if A_sp_generic_32 c = 1 \<or> A_sp_generic_32 c = 0
                  then Generic_32_a (p_repair_time (players g i)) (orbited (players g i))
                  else if A_sp_generic_32 c = 2 then sendGeneric32PacketB i g
                  else Generic_32_none)
        in if gp = Generic_32_none \<or> clientGeneric32 c = gp then c
           else sendClientPacket (SP_GENERIC_32 gp) (c\<lparr>clientGeneric32 := gp\<rparr>))"

definition updateSelf :: "bool \<Rightarrow> nat \<Rightarrow> game \<Rightarrow> client \<Rightarrow> client" where
  "updateSelf force me g c =
     sendGeneric32Packet me g (sndSelf (if force then UPDT_ALL else UPDT_MOST) (players g me) c)"

subsection \<open>All ships, torpedoes, phasers and planets\<close>

abbreviation (input) view_range :: int where "view_range \<equiv> 10000"

definition out_of_view :: "nat \<Rightarrow> int \<Rightarrow> int \<Rightarrow> game \<Rightarrow> bool" where
  "out_of_view me x y g \<longleftrightarrow>
     (let p = players g me in
      y > p_y p + view_range \<or> x > p_x p + view_range \<or> x < p_x p - view_range \<or> y < p_y p - view_range)"

text \<open>
  The place that was sent last is read back by \<^verbatim>\<open>ntohl\<close> as an unsigned number, and so the comparison is
  unsigned; near the edges of the galaxy, where the bound is negative, it is out of view.
\<close>

definition last_out_of_view :: "nat \<Rightarrow> player_spacket \<Rightarrow> game \<Rightarrow> bool" where
  "last_out_of_view me cpl g \<longleftrightarrow>
     (let p = players g me; u = (\<lambda>z. word_of_int z :: 32 word) in
      u (cpl_x cpl) < u (p_x p - view_range) \<or> u (p_x p + view_range) < u (cpl_x cpl) \<or>
      u (p_y p + view_range) < u (cpl_y cpl) \<or> u (cpl_y cpl) < u (p_y p - view_range))"

text \<open>Ships that this client must not see.\<close>

definition hidden_from :: "nat \<Rightarrow> nat \<Rightarrow> game \<Rightarrow> bool" where
  "hidden_from me i g \<longleftrightarrow>
     (let pl = players g i in
      hiddenenemy (cfg g) \<and> p_team pl \<noteq> p_team (players g me) \<and> \<not> has (p_flags pl) PFSEEN \<and> st_tourn (status g) \<or>
      p_status pl = POBSERV \<and> i \<noteq> me \<or>
      is_invisible_due_idle i g \<and> i \<noteq> me)"

definition hostility_shown :: "nat \<Rightarrow> nat \<Rightarrow> game \<Rightarrow> howmuch" where
  "hostility_shown me i g =
     (if i = me \<or> \<not> pflag me PFROBOT g \<and> p_team (players g me) = NOBODY then UPDT_ALL
      else if is_invisible_due_idle i g then UPDT_LEAST else UPDT_MOST)"

text \<open>The part of a ship that moves, once it may be seen.\<close>

definition show_ship :: "nat \<Rightarrow> nat \<Rightarrow> bool \<Rightarrow> view \<Rightarrow> view" where
  "show_ship me i update s =
     (let g = fst s; c = snd s; pl = players g i; cpl = clientPlayers c i in
      if \<not> update \<and> \<not> galactic_smooth (cfg g) \<and> repCount c smod efticks 9 me g \<noteq> 0 \<and>
         last_out_of_view me cpl g \<and> out_of_view me (p_x pl) (p_y pl) g then s
      else if has (p_flags pl) PFCLOAK \<and> p_cloakphase pl = CLOAK_PHASES - 1 \<and> i \<noteq> me \<and> \<not> mustUpdate c i then
        sndPlayer i (if repCount c smod efticks 9 me g \<noteq> 0 then UPDT_LITTLE else UPDT_MANY) s
      else if i \<noteq> me \<and> has (p_flags pl) PFCLOAK then sndPlayer i UPDT_MOST s
      else sndPlayer i UPDT_ALL s)"

definition update_ship :: "nat \<Rightarrow> nat \<Rightarrow> view \<Rightarrow> view" where
  "update_ship me i s =
     (let g = fst s;
          c = sndKills i g (sndPlayerInfo i g (sndHostile me i (hostility_shown me i g) g (sndLogin me i g (snd s))));
          (c, update) = sndPStatus me i g c;
          c = (if update \<and> p_status (players g i) = PFREE then c\<lparr>ignored := (ignored c)(i := 0)\<rparr> else c)
      in if hidden_from me i g then
           sndPlayer i UPDT_LEAST (g, if me \<noteq> i then sndFlags i UPDT_MOST g c else c)
         else
           show_ship me i update (g, if me \<noteq> i then sndFlags i UPDT_ALL g c else c))"

definition flags_all_of :: "player \<Rightarrow> 32 word" where
  "flags_all_of p =
     (if p_status p = POBSERV \<or> p_status p = PALIVE
      then (if has (p_flags p) PFCLOAK then 1 else if has (p_flags p) PFSHIELD then 2 else 3)
      else 0)"

definition updateFlagsAll :: "nat \<Rightarrow> game \<Rightarrow> client \<Rightarrow> client" where
  "updateFlagsAll offset g c =
     sendClientPacket (SP_FLAGS_ALL offset
       (fold (\<lambda>j w. w OR push_bit (2 * j) (flags_all_of (players g (offset * 16 + j)))) [0..<16] 0)) c"

text \<open>Without short packets the highest player number is never set, so the second half is not sent.\<close>

definition updateShips :: "nat \<Rightarrow> view \<Rightarrow> view" where
  "updateShips me s =
     (let (g, c) = for_upto MAXPLAYER (update_ship me) s
      in (g, if F_flags_all c then updateFlagsAll 0 g c else c))"

definition update_torp :: "nat \<Rightarrow> game \<Rightarrow> nat \<Rightarrow> client \<Rightarrow> client" where
  "update_torp me g i c =
     (let t = torps g i in
      if myTorp me t \<or> F_full_weapon_resolution c \<and> p_status (players g me) = POBSERV
      then sndTorp me t i UPDT_ALL g c
      else if F_full_weapon_resolution c then c
      else if out_of_view me (t_x t) (t_y t) g \<or> t_status t = TFREE then sndTorp me t i UPDT_LITTLE g c
      else sndTorp me t i UPDT_MOST g c)"

definition updateTorps :: "nat \<Rightarrow> game \<Rightarrow> client \<Rightarrow> client" where
  "updateTorps me g = for_upto (MAXTORP * MAXPLAYER) (update_torp me g)"

definition update_plasma :: "nat \<Rightarrow> game \<Rightarrow> nat \<Rightarrow> client \<Rightarrow> client" where
  "update_plasma me g i c =
     (let t = torps g (MAXTORP * MAXPLAYER + i) in
      if myTorp me t \<or> F_full_weapon_resolution c \<and> p_status (players g me) = POBSERV
      then sndPlasma me t i UPDT_ALL g c
      else if out_of_view me (t_x t) (t_y t) g \<or> t_status t = TFREE then sndPlasma me t i UPDT_LITTLE g c
      else sndPlasma me t i UPDT_MOST g c)"

definition updatePlasmas :: "nat \<Rightarrow> game \<Rightarrow> client \<Rightarrow> client" where
  "updatePlasmas me g = for_upto (MAXPLASMA * MAXPLAYER) (update_plasma me g)"

definition update_phaser :: "nat \<Rightarrow> game \<Rightarrow> nat \<Rightarrow> client \<Rightarrow> client" where
  "update_phaser me g i c =
     (let pl = players g i; phase = phasers g i in
      if out_of_view me (p_x pl) (p_y pl) g \<and> \<not> (F_full_weapon_resolution c \<and> p_status (players g me) = POBSERV)
      then sndPhaser phase i UPDT_LITTLE c
      else sndPhaser phase i UPDT_ALL
             (if ph_status phase = PHHIT then c\<lparr>mustUpdate := (mustUpdate c)(ph_target phase := True)\<rparr> else c))"

definition updatePhasers :: "nat \<Rightarrow> game \<Rightarrow> client \<Rightarrow> client" where
  "updatePhasers me g c =
     for_upto MAXPLAYER (update_phaser me g)
       (for_upto MAXPLAYER (\<lambda>i c. c\<lparr>mustUpdate := (mustUpdate c)(i := False)\<rparr>) c)"

definition update_planet :: "nat \<Rightarrow> game \<Rightarrow> nat \<Rightarrow> client \<Rightarrow> client" where
  "update_planet me g i c =
     (let p = players g me in
      sndPlanetLoc i g
        (sndPlanet me i
           (if p_x p > 0 \<and> p_y p > 0 \<and> p_team p = NOBODY \<or> meets (pl_info (planets g i)) (p_team p)
            then UPDT_ALL else UPDT_LITTLE) g c))"

definition updatePlanets :: "nat \<Rightarrow> game \<Rightarrow> client \<Rightarrow> client" where
  "updatePlanets me g = for_upto MAXPLANETS (update_planet me g)"

subsection \<open>Statistics\<close>

text \<open>Reading a total brings it up to date in shared memory.\<close>

definition read_totals :: "(nat \<Rightarrow> player \<Rightarrow> player \<times> int) list \<Rightarrow> nat \<Rightarrow> nat \<Rightarrow> game \<Rightarrow> game \<times> int list" where
  "read_totals reads slot i g =
     fold (\<lambda>f s. case f slot (players (fst s) i) of (p, n) \<Rightarrow> (upd_player i (\<lambda>_. p) (fst s), snd s @ [n])) reads (g, [])"

definition next_player :: "int \<Rightarrow> game \<Rightarrow> nat option" where
  "next_player lst g =
     map_option (\<lambda>k. nat ((lst + int k) mod 32))
       (first_in 1 33 (\<lambda>k. let st = p_status (players g (nat ((lst + int k) mod 32))) in st \<noteq> PFREE \<and> st \<noteq> POBSERV))"

definition updatePlayerStats :: "nat \<Rightarrow> view \<Rightarrow> view" where
  "updatePlayerStats me s =
     (let g = fst s; c = snd s in
      if repCount c smod efticks 5 me g \<noteq> 0 then s
      else case next_player (lastpno c) g of
        None \<Rightarrow> s
      | Some i \<Rightarrow>
          let (g, t) = read_totals [ltd_kills_of, ltd_deaths_of, ltd_armies_bombed, ltd_planets_taken] LTD_TOTAL i g;
              (g, b) = read_totals [ltd_kills_of, ltd_deaths_of, ltd_ticks_of] LTD_SB i g;
              (g, u) = read_totals [ltd_ticks_of, ltd_kills_max] LTD_TOTAL i g;
              (g, w) = read_totals [ltd_kills_max] LTD_SB i g;
              (g, mine) = read_totals [ltd_kills_of, ltd_deaths_of, ltd_armies_bombed, ltd_planets_taken, ltd_ticks_of] LTD_TOTAL me g;
              c = c\<lparr>lastpno := int i\<rparr>;
              c = (if list_ex (\<lambda>(a, b). a > b) (zip (start_totals c) mine) then c\<lparr>start_totals := mine\<rparr> else c);
              counts = [t ! 0, t ! 1, 0, 0, u ! 0, t ! 3, t ! 2, b ! 0, b ! 1, 0, 0];
              new = \<lparr>stt_counts = counts,
                     stt_maxkills = (if s_type (p_ship (players g i)) = STARBASE \<and> feature_on ''SBHOURS'' c
                                     then b ! 2 else u ! 1 * 100),
                     stt_sbmaxkills = w ! 0 * 100\<rparr>
          in (g, if stt_counts (clientStats c i) \<noteq> counts
                 then sendClientPacket (SP_STATS i new) (c\<lparr>clientStats := (clientStats c)(i := new)\<rparr>)
                 else c))"

subsection \<open>Messages\<close>

text \<open>The new messages of the ring are an argument; the number of their sender is 255 for the game itself.\<close>

record message =
  m_flags :: "32 word"
  m_recpt :: int
  m_from :: int
  m_data :: string

abbreviation (input) MVALID :: "32 word" where "MVALID \<equiv> 1"
abbreviation (input) MCONQ :: "32 word" where "MCONQ \<equiv> 0x20"
abbreviation (input) MDISTR :: "32 word" where "MDISTR \<equiv> 0xC0"
abbreviation (input) MMACRO :: "32 word" where "MMACRO \<equiv> 0x100"
abbreviation (input) DOOSHMSG :: int where "DOOSHMSG \<equiv> 254"

definition addressed :: "nat \<Rightarrow> game \<Rightarrow> message \<Rightarrow> bool" where
  "addressed me g m \<longleftrightarrow>
     has (m_flags m) MVALID \<and>
     (has (m_flags m) MALL \<or>
      has (m_flags m) MTEAM \<and> meets (m_recpt m) (p_team (players g me)) \<or>
      has (m_flags m) MINDIV \<and> m_recpt m = int (p_no (players g me)))"

text \<open>A message to oneself that was meant for everybody's screen.\<close>

definition show_flags :: "32 word \<Rightarrow> 32 word" where
  "show_flags f = (if has f MINDIV \<and> has f MCONQ then (f AND NOT MINDIV) OR MALL else f)"

definition parseQuery :: "message \<Rightarrow> bool" where
  "parseQuery m = (drop 10 (m_data m) \<in> {''?'', ''!'', ''^'', ''@'', ''udpstats''})"

text \<open>
  The expansion of a distress call is the argument \<open>makedistress\<close>; the test of the list of
  addresses that are never ignored is the argument \<open>whitelisted\<close>.
\<close>

definition updtMessage :: "(message \<Rightarrow> string) \<Rightarrow> nat \<Rightarrow> 32 word \<Rightarrow> message \<Rightarrow> game \<Rightarrow> client \<Rightarrow> client" where
  "updtMessage makedistress me flags m g c =
     (let from = (if m_from m = DOOSHMSG then 255 else m_from m) in
      if m_recpt m = p_team (players g me) \<and> \<not> feature_on ''RC_DISTRESS'' c \<and> flags = MTEAM OR MDISTR OR MVALID
      then sendClientPacket (SP_MESSAGE (ucast (flags XOR MDISTR)) (m_recpt m) from (makedistress m)) c
      else sendClientPacket (SP_MESSAGE (ucast flags) (m_recpt m) from (take 79 (m_data m))) c)"

text \<open>The result of the decision, with what the sender is told; the answer to a query is an output with the query.\<close>

definition send_msg :: "(nat \<Rightarrow> bool) \<Rightarrow> 32 word \<Rightarrow> message \<Rightarrow> client \<Rightarrow> bool \<times> string option" where
  "send_msg whitelisted f m c =
     (if m_from m < 0 \<or> m_from m > int MAXPLAYER then (True, None)
      else
        let i = nat (m_from m); wl = whitelisted i; ig = ignored c i in
        if has f MALL then (has ig MALL \<longrightarrow> wl \<and> whitelist_all c, None)
        else if has f MTEAM then (has ig MTEAM \<longrightarrow> wl \<and> whitelist_team c, None)
        else if has f MINDIV then
          if parseQuery m then (False, Some (drop 10 (m_data m)))
          else if has ig MINDIV then
            if wl \<and> whitelist_indiv c
            then (True, Some ''Player is ignoring you but your whitelist entry overrides it.'')
            else (False, Some ''That player is currently ignoring you.'')
          else (True, None)
        else (False, None))"

definition update_message :: "(message \<Rightarrow> string) \<Rightarrow> (nat \<Rightarrow> bool) \<Rightarrow> nat \<Rightarrow> message \<Rightarrow> view \<times> bool \<Rightarrow> view \<times> bool" where
  "update_message makedistress whitelisted me m s =
     (let g = fst (fst s); c = snd (fst s); shown = snd s; f = show_flags (m_flags m) in
      if macroignore c \<and> has (m_flags m) MMACRO \<or> dooshignore c \<and> m_from m = DOOSHMSG \<or> \<not> addressed me g m then s
      else
        let (go, tell) = send_msg whitelisted f m c;
            g = (if go \<and> shown then g else case tell of None \<Rightarrow> g | Some t \<Rightarrow> emit (God (m_from m) t) g)
        in ((g, if go then updtMessage makedistress me f m g c else c), shown \<or> go \<and> tell \<noteq> None))"

definition updateMessages :: "(message \<Rightarrow> string) \<Rightarrow> (nat \<Rightarrow> bool) \<Rightarrow> nat \<Rightarrow> message list \<Rightarrow> view \<Rightarrow> view" where
  "updateMessages makedistress whitelisted me new s =
     fst (fold (update_message makedistress whitelisted me) new (s, False))"

subsection \<open>One update of a client\<close>

definition updateClient :: "(message \<Rightarrow> string) \<Rightarrow> (nat \<Rightarrow> bool) \<Rightarrow> nat \<Rightarrow> message list \<Rightarrow> view \<Rightarrow> view" where
  "updateClient makedistress whitelisted me new s =
     (let before = sent (snd s); g = fst s;
          (g, c) = updateStatus True me (g, updatePlasmas me g (updateTorps me g (snd s)));
          c = updatePhasers me g (updateSelf False me g c);
          (g, c) = updateShips me (g, c);
          (g, c) = updatePlayerStats me (updateMessages makedistress whitelisted me new (g, updatePlanets me g c));
          c = (if sent c = before then updateSelf True me g c else c)
      in (g, c\<lparr>repCount := repCount c + 1\<rparr>))"

text \<open>A new client, and the request to send everything again.\<close>

definition initSPackets :: "client \<Rightarrow> client" where
  "initSPackets c =
     c\<lparr>clientHostile := (\<lambda>i. (clientHostile c i)\<lparr>ho_hostile := -1\<rparr>),
       clientStats := (\<lambda>i. (clientStats c i)\<lparr>stt_counts := (stt_counts (clientStats c i))[3 := -1]\<rparr>),
       clientLogin := (\<lambda>i. (clientLogin c i)\<lparr>lg_rank := -1\<rparr>),
       clientPlayersInfo := (\<lambda>i. (clientPlayersInfo c i)\<lparr>in_shiptype := -1\<rparr>),
       clientPStatus := (\<lambda>i. None),
       clientPlayers := (\<lambda>i. (clientPlayers c i)\<lparr>cpl_x := -1\<rparr>),
       clientPhasers := (\<lambda>i. (clientPhasers c i)\<lparr>phs_status := None\<rparr>),
       clientKills := (\<lambda>i. -1),
       clientFlags := (\<lambda>i. (clientFlags c i)\<lparr>fl_flags := -1\<rparr>),
       mustUpdate := (\<lambda>i. False),
       clientTorpsInfo := (\<lambda>i. \<lparr>ti_war = 0, ti_status = None\<rparr>),
       clientTorps := (\<lambda>i. (clientTorps c i)\<lparr>ts_x := -1\<rparr>),
       clientPlasmasInfo := (\<lambda>i. (clientPlasmasInfo c i)\<lparr>ti_status := None\<rparr>),
       clientPlasmas := (\<lambda>i. (clientPlasmas c i)\<lparr>pas_x := -1\<rparr>),
       clientPlanets := (\<lambda>i. (clientPlanets c i)\<lparr>pls_armies := -1\<rparr>),
       clientPlanetLocs := (\<lambda>i. (clientPlanetLocs c i)\<lparr>loc_x := -1\<rparr>),
       clientSelf := (clientSelf c)\<lparr>y_pnum := -1\<rparr>,
       clientGeneric32 := Generic_32_none\<rparr>"

definition clear_slot :: "bool \<Rightarrow> bool \<Rightarrow> game \<Rightarrow> nat \<Rightarrow> client \<Rightarrow> client" where
  "clear_slot update_all update_sall g i c =
     (if (update_all \<or> update_sall) \<and> p_status (players g i) = PFREE then c
      else
        let c = (if update_sall then c
                 else
                   let c = (if update_all then c
                            else c\<lparr>clientStats := (clientStats c)
                              (i := (clientStats c i)\<lparr>stt_counts := (stt_counts (clientStats c i))[3 := -1]\<rparr>)\<rparr>)
                   in c\<lparr>clientHostile := (clientHostile c)(i := (clientHostile c i)\<lparr>ho_hostile := -1\<rparr>),
                        clientPlayers := (clientPlayers c)(i := (clientPlayers c i)\<lparr>cpl_x := -1\<rparr>),
                        clientPhasers := (clientPhasers c)(i := (clientPhasers c i)\<lparr>phs_status := None\<rparr>),
                        clientFlags := (clientFlags c)(i := (clientFlags c i)\<lparr>fl_flags := -1\<rparr>)\<rparr>)
        in c\<lparr>clientKills := (clientKills c)(i := -1), mustUpdate := (mustUpdate c)(i := False)\<rparr>)"

definition clearSPackets :: "bool \<Rightarrow> bool \<Rightarrow> nat \<Rightarrow> game \<Rightarrow> client \<Rightarrow> client" where
  "clearSPackets update_all update_sall me g c =
     (let c = for_upto MAXPLAYER (clear_slot update_all update_sall g) c;
          c = c\<lparr>clientTorpsInfo := (\<lambda>i. (clientTorpsInfo c i)\<lparr>ti_status := None\<rparr>),
                clientTorps := (\<lambda>i. (clientTorps c i)\<lparr>ts_x := -1\<rparr>),
                clientPlasmasInfo := (\<lambda>i. (clientPlasmasInfo c i)\<lparr>ti_status := None\<rparr>),
                clientPlanets := (\<lambda>i. (clientPlanets c i)\<lparr>pls_info := pls_info (clientPlanets c i) OR p_team (players g me),
                                                          pls_armies := -1\<rparr>),
                clientSelf := (clientSelf c)\<lparr>y_pnum := -1\<rparr>\<rparr>
      in c)"

section \<open>Properties\<close>

subsection \<open>Sending changes the list of packets only\<close>

lemma send_frame: "sendClientPacket p c = c\<lparr>sent := sent (sendClientPacket p c)\<rparr>"
  by (cases p) (simp_all add: sendClientPacket_def Let_def)

lemma send_fields [simp]:
  "clientTorpsInfo (sendClientPacket p c) = clientTorpsInfo c" "clientTorps (sendClientPacket p c) = clientTorps c"
  "clientPlanets (sendClientPacket p c) = clientPlanets c" "clientPlanetLocs (sendClientPacket p c) = clientPlanetLocs c"
  "clientPlayers (sendClientPacket p c) = clientPlayers c" "feature_var (sendClientPacket p c) = feature_var c"
  "f_sp_rank_was (sendClientPacket p c) = f_sp_rank_was c" "clientLogin (sendClientPacket p c) = clientLogin c"
  by (subst send_frame, simp)+

lemma feature_on_send [simp]: "feature_on f (sendClientPacket p c) = feature_on f c"
  by (simp add: feature_on_def)

subsection \<open>Torpedoes\<close>

text \<open>What the client was told last about a torpedo.\<close>

definition told_torp :: "nat \<Rightarrow> (bool \<times> packet) list \<Rightarrow> torp_info_spacket option" where
  "told_torp i ps =
     fold (\<lambda>(u, p) last. case p of SP_TORP_INFO j r \<Rightarrow> if j = i then Some r else last | _ \<Rightarrow> last) ps None"

lemma told_torp_send [simp]:
  "told_torp i (sent (snd_torp_info j r c)) = (if j = i then Some r else told_torp i (sent c))"
  "told_torp i (sent (snd_torp_place j t c)) = told_torp i (sent c)"
  by (simp_all add: told_torp_def snd_torp_info_def snd_torp_place_def sendClientPacket_def Let_def)

lemma snd_torp_fields [simp]:
  "clientTorpsInfo (snd_torp_info j r c) = (clientTorpsInfo c)(j := r)" "clientTorps (snd_torp_info j r c) = clientTorps c"
  "clientTorpsInfo (snd_torp_place j t c) = clientTorpsInfo c"
  "clientTorps (snd_torp_place j t c) = (clientTorps c)(j := \<lparr>ts_dir = t_dir t, ts_x = t_x t, ts_y = t_y t\<rparr>)"
  "feature_on f (snd_torp_info j r c) = feature_on f c" "feature_on f (snd_torp_place j t c) = feature_on f c"
  by (simp_all add: snd_torp_info_def snd_torp_place_def Let_def) (simp_all add: feature_on_def)

text \<open>
  The record of the server agrees with what was told, but that an explosion fades without a packet.
\<close>

definition torp_told :: "nat \<Rightarrow> client \<Rightarrow> bool" where
  "torp_told i c \<longleftrightarrow>
     (let r = clientTorpsInfo c i in
      ti_status r \<noteq> None \<longrightarrow>
      told_torp i (sent c) = Some r \<or>
      ti_status r = Some TFREE \<and> told_torp i (sent c) = Some (r\<lparr>ti_status := Some TEXPLODE\<rparr>))"

definition torp_seen :: "nat \<Rightarrow> game \<Rightarrow> torp \<Rightarrow> bool" where
  "torp_seen me g t \<longleftrightarrow> myTorp me t \<or> \<not> out_of_view me (t_x t) (t_y t) g"

lemma sndTorp_other:
  assumes "j \<noteq> i"
  shows "clientTorpsInfo (sndTorp me t i m g c) j = clientTorpsInfo c j"
    and "clientTorps (sndTorp me t i m g c) j = clientTorps c j"
    and "told_torp j (sent (sndTorp me t i m g c)) = told_torp j (sent c)"
    and "feature_on f (sndTorp me t i m g c) = feature_on f c"
  using assms by (simp_all add: sndTorp_def Let_def) (simp_all add: feature_on_def)

lemma sndTorp_features: "feature_on f (sndTorp me t i m g c) = feature_on f c"
  by (simp add: sndTorp_def Let_def) (simp add: feature_on_def)

lemma update_torp_features [simp]: "feature_on f (update_torp me g i c) = feature_on f c"
  by (simp add: update_torp_def Let_def sndTorp_features)

lemma update_torp_result:
  fixes g :: game and me i :: nat
  assumes "\<not> F_full_weapon_resolution c" and "torp_told i c"
  defines "t \<equiv> torps g i" and "d \<equiv> update_torp me g i c"
  shows "torp_told i d" and "ti_status (clientTorpsInfo d i) = Some (if torp_seen me g t then t_status t else TFREE)"
    and "torp_seen me g t \<Longrightarrow> t_status t \<noteq> TFREE \<Longrightarrow>
      ts_x (clientTorps d i) = t_x t \<and> ts_y (clientTorps d i) = t_y t \<and>
      ti_war (clientTorpsInfo d i) = (if myTorp me t then t_war t else t_war t AND p_team (players g me))"
  using assms by (auto simp: update_torp_def sndTorp_def torp_told_def torp_seen_def Let_def)
lemma update_torp_other:
  "j \<noteq> i \<Longrightarrow> clientTorpsInfo (update_torp me g i c) j = clientTorpsInfo c j"
  "j \<noteq> i \<Longrightarrow> clientTorps (update_torp me g i c) j = clientTorps c j"
  "j \<noteq> i \<Longrightarrow> told_torp j (sent (update_torp me g i c)) = told_torp j (sent c)"
  by (simp_all add: update_torp_def Let_def sndTorp_other)

lemma torp_told_other: "j \<noteq> i \<Longrightarrow> torp_told j (update_torp me g i c) = torp_told j c"
  by (simp add: torp_told_def update_torp_other)

lemma updateTorps_result:
  fixes g :: game and me i :: nat
  assumes "\<not> F_full_weapon_resolution c" and "torp_told i c" and "i < MAXTORP * MAXPLAYER"
  defines "t \<equiv> torps g i" and "d \<equiv> updateTorps me g c"
  shows "torp_told i d \<and> ti_status (clientTorpsInfo d i) = Some (if torp_seen me g t then t_status t else TFREE) \<and>
    (torp_seen me g t \<and> t_status t \<noteq> TFREE \<longrightarrow>
      ts_x (clientTorps d i) = t_x t \<and> ts_y (clientTorps d i) = t_y t \<and>
      ti_war (clientTorpsInfo d i) = (if myTorp me t then t_war t else t_war t AND p_team (players g me)))"
proof -
  let ?P = "\<lambda>d. torp_told i d \<and> ti_status (clientTorpsInfo d i) = Some (if torp_seen me g t then t_status t else TFREE) \<and>
    (torp_seen me g t \<and> t_status t \<noteq> TFREE \<longrightarrow>
      ts_x (clientTorps d i) = t_x t \<and> ts_y (clientTorps d i) = t_y t \<and>
      ti_war (clientTorpsInfo d i) = (if myTorp me t then t_war t else t_war t AND p_team (players g me)))"
  define F where "F n = for_upto n (update_torp me g) c" for n
  have features: "\<not> F_full_weapon_resolution (F n)" for n
    by (induction n) (simp_all add: F_def assms(1))
  have told: "torp_told i (F n)" if "n \<le> i" for n
    using that by (induction n) (simp_all add: F_def assms(2) torp_told_other)
  have "?P (F n)" if "i < n" for n
    using that
  proof (induction n)
    case (Suc n)
    have step: "F (Suc n) = update_torp me g n (F n)" by (simp add: F_def)
    show ?case
    proof (cases "n = i")
      case True
      then show ?thesis
        unfolding step using update_torp_result [OF features told, of n] by (simp add: t_def)
    next
      case False
      then have "?P (F n)" using Suc by simp
      then show ?thesis unfolding step torp_told_def using False by (simp add: update_torp_other)
    qed
  qed simp
  then have "?P (F (MAXTORP * MAXPLAYER))" using assms(3) .
  then show ?thesis unfolding d_def updateTorps_def F_def .
qed

text \<open>
  C26: the packets about torpedoes tell the truth and no more.  After an update, what the client was
  told last of any torpedo is its status if it is its own or in its view, and that it is free if
  it is not (an explosion that is over may have been left to fade); of one that is in flight and in
  view it knows the place, and whether it is hostile to its own team only.
\<close>

theorem torps_shown_truly:
  fixes g :: game and me i :: nat
  assumes "\<not> F_full_weapon_resolution c" and "torp_told i c" and "i < MAXTORP * MAXPLAYER"
  defines "t \<equiv> torps g i" and "d \<equiv> updateTorps me g c"
  defines "shown \<equiv> (if torp_seen me g t then t_status t else TFREE)"
  shows "(\<exists>r. told_torp i (sent d) = Some r \<and>
      (ti_status r = Some shown \<or> shown = TFREE \<and> ti_status r = Some TEXPLODE) \<and>
      (shown \<noteq> TFREE \<longrightarrow> ti_war r = (if myTorp me t then t_war t else t_war t AND p_team (players g me)))) \<and>
    (shown \<noteq> TFREE \<longrightarrow> ts_x (clientTorps d i) = t_x t \<and> ts_y (clientTorps d i) = t_y t) \<and>
    torp_told i d"
proof -
  note * = updateTorps_result [OF assms(1-3), of me g, folded t_def d_def]
  then have st: "ti_status (clientTorpsInfo d i) = Some shown" by (simp add: shown_def)
  have war: "ti_war (clientTorpsInfo d i) = (if myTorp me t then t_war t else t_war t AND p_team (players g me))"
    if "shown \<noteq> TFREE" using * that by (auto simp: shown_def split: if_splits)
  from * consider "told_torp i (sent d) = Some (clientTorpsInfo d i)"
    | "shown = TFREE" "told_torp i (sent d) = Some ((clientTorpsInfo d i)\<lparr>ti_status := Some TEXPLODE\<rparr>)"
    using st unfolding torp_told_def Let_def by auto
  then have "\<exists>r. told_torp i (sent d) = Some r \<and>
      (ti_status r = Some shown \<or> shown = TFREE \<and> ti_status r = Some TEXPLODE) \<and>
      (shown \<noteq> TFREE \<longrightarrow> ti_war r = (if myTorp me t then t_war t else t_war t AND p_team (players g me)))"
  proof cases
    case 1
    then show ?thesis using st war by simp
  next
    case 2
    then show ?thesis by simp
  qed
  with * show ?thesis by (simp add: shown_def)
qed

subsection \<open>Planets\<close>

lemma sndPlanet_fields:
  "clientPlanetLocs (sndPlanet me i m g c) = clientPlanetLocs c"
  "j \<noteq> i \<Longrightarrow> clientPlanets (sndPlanet me i m g c) j = clientPlanets c j"
  "clientPlanets (sndPlanetLoc i g c) = clientPlanets c"
  "j \<noteq> i \<Longrightarrow> clientPlanetLocs (sndPlanetLoc i g c) j = clientPlanetLocs c j"
  by (simp_all add: sndPlanet_def sndPlanetLoc_def Let_def)

text \<open>What is known of a planet: all who have its team's scouting, or are neutral and in the game, see it.\<close>

definition planet_seen :: "nat \<Rightarrow> game \<Rightarrow> nat \<Rightarrow> bool" where
  "planet_seen me g i \<longleftrightarrow>
     (let p = players g me in
      p_x p > 0 \<and> p_y p > 0 \<and> p_team p = NOBODY \<or> meets (pl_info (planets g i)) (p_team p))"

definition planet_current :: "nat \<Rightarrow> game \<Rightarrow> client \<Rightarrow> nat \<Rightarrow> bool" where
  "planet_current me g c i \<longleftrightarrow>
     (let l = planets g i; r = clientPlanets c i in
      (if planet_seen me g i
       then r = \<lparr>pls_owner = pl_owner l, pls_info = pl_info l, pls_flags = pl_flags l AND PLFLAGMASK, pls_armies = pl_armies l\<rparr>
       else \<not> meets (pls_info r) (p_team (players g me))) \<and>
      loc_x (clientPlanetLocs c i) = pl_x l \<and> loc_y (clientPlanetLocs c i) = pl_y l)"

lemma update_planet_current: "planet_current me g (update_planet me g i c) i"
  by (simp add: planet_current_def planet_seen_def update_planet_def sndPlanet_def sndPlanetLoc_def Let_def meets_def)

lemma update_planet_other:
  "j \<noteq> i \<Longrightarrow> planet_current me g (update_planet me g i c) j = planet_current me g c j"
  by (simp add: planet_current_def planet_seen_def update_planet_def Let_def sndPlanet_fields)

lemma update_planet_quiet: "planet_current me g c i \<Longrightarrow> update_planet me g i c = c"
  by (auto simp: planet_current_def planet_seen_def update_planet_def sndPlanet_def sndPlanetLoc_def Let_def split: if_splits)

lemma updatePlanets_current: "i < n \<Longrightarrow> planet_current me g (for_upto n (update_planet me g) c) i"
  by (induction n) (auto simp: less_Suc_eq update_planet_current update_planet_other)

text \<open>
  C27: after an update of the planets the client has the present facts of every planet that its team
  has scouted and where every planet is, and believes that it knows nothing of the others; and a
  second update right after it sends nothing.
\<close>

theorem planets_shown_truly:
  fixes g :: game and me :: nat and c :: client
  defines "d \<equiv> updatePlanets me g c"
  shows "(\<forall>i < MAXPLANETS. let l = planets g i; r = clientPlanets d i in
      (if planet_seen me g i
       then pls_owner r = pl_owner l \<and> pls_info r = pl_info l \<and> pls_flags r = pl_flags l AND PLFLAGMASK \<and> pls_armies r = pl_armies l
       else \<not> meets (pls_info r) (p_team (players g me))) \<and>
      loc_x (clientPlanetLocs d i) = pl_x l \<and> loc_y (clientPlanetLocs d i) = pl_y l) \<and>
    updatePlanets me g d = d"
proof -
  have current: "planet_current me g d i" if "i < MAXPLANETS" for i
    using updatePlanets_current [OF that] by (simp only: d_def updatePlanets_def)
  have "for_upto n (update_planet me g) d = d" if "n \<le> MAXPLANETS" for n
    using that by (induction n) (simp_all add: update_planet_quiet current)
  then have "updatePlanets me g d = d" by (simp only: updatePlanets_def)
  then show ?thesis using current by (auto simp: planet_current_def Let_def)
qed

subsection \<open>Nothing else is told\<close>

text \<open>
  Two games look the same to a player when they agree on the player itself, the settings and the
  random numbers, and on the parts of everything else that the player may know: of every ship its
  public part, and its place only if the ship is not hidden; of a torpedo that is not its own and
  out of view only whether it is there; of a planet that its team has not scouted only its place.
\<close>

definition shown_to :: "nat \<Rightarrow> nat \<Rightarrow> game \<Rightarrow> int \<Rightarrow> int" where
  "shown_to me i g x = (if hostility_shown me i g = UPDT_ALL then x else x AND p_team (players g me))"

definition public_part :: "nat \<Rightarrow> nat \<Rightarrow> game \<Rightarrow>
    (nat \<times> pstatus \<times> int \<times> string \<times> string \<times> string \<times> int \<times> int \<times> rat) \<times> (int \<times> int \<times> bool \<times> bool \<times> bool)" where
  "public_part me i g =
     (let p = players g i in
      ((p_no p, p_status p, st_rank (p_stats p), p_name p, p_monitor p, p_login p, s_type (p_ship p), p_team p, p_kills p),
       (shown_to me i g (p_swar p), shown_to me i g (p_hostile p), hostility_shown me i g = UPDT_ALL,
        hidden_from me i g, has (p_flags p) PFCLOAK)))"

definition public_flags :: "nat \<Rightarrow> nat \<Rightarrow> game \<Rightarrow> 32 word" where
  "public_flags me i g =
     p_flags (players g i) AND
       (if p_status (players g i) = POBSERV then PFOBSERV else if hidden_from me i g then INVISOMASK else FLAGMASK)"

definition place_of_ship :: "player \<Rightarrow> int \<times> int \<times> 8 word \<times> int \<times> int" where
  "place_of_ship p = (p_x p, p_y p, p_dir p, p_speed p, p_cloakphase p)"

definition ship_unseen :: "nat \<Rightarrow> nat \<Rightarrow> game \<Rightarrow> bool" where
  "ship_unseen me i g \<longleftrightarrow> out_of_view me (p_x (players g i)) (p_y (players g i)) g"

definition same_ship :: "nat \<Rightarrow> game \<Rightarrow> game \<Rightarrow> nat \<Rightarrow> bool" where
  "same_ship me g h i \<longleftrightarrow>
     public_part me i g = public_part me i h \<and> public_flags me i g = public_flags me i h \<and>
     ship_unseen me i g = ship_unseen me i h \<and> (ship_unseen me i g \<or> phasers g i = phasers h i) \<and>
     (hidden_from me i g \<or> place_of_ship (players g i) = place_of_ship (players h i))"

definition same_torp :: "nat \<Rightarrow> game \<Rightarrow> game \<Rightarrow> nat \<Rightarrow> bool" where
  "same_torp me g h i \<longleftrightarrow>
     torps g i = torps h i \<or>
     \<not> torp_seen me g (torps g i) \<and> \<not> torp_seen me h (torps h i) \<and>
     (t_status (torps g i) = TFREE) = (t_status (torps h i) = TFREE)"

definition same_planet :: "nat \<Rightarrow> game \<Rightarrow> game \<Rightarrow> nat \<Rightarrow> bool" where
  "same_planet me g h i \<longleftrightarrow>
     (let l = planets g i; m = planets h i in
      pl_no l = pl_no m \<and> pl_x l = pl_x m \<and> pl_y l = pl_y m \<and> pl_name l = pl_name m \<and>
      planet_seen me g i = planet_seen me h i \<and>
      (planet_seen me g i \<longrightarrow> pl_owner l = pl_owner m \<and> pl_info l = pl_info m \<and>
         pl_flags l AND PLFLAGMASK = pl_flags m AND PLFLAGMASK \<and> pl_armies l = pl_armies m))"

definition looks_same :: "nat \<Rightarrow> game \<Rightarrow> game \<Rightarrow> bool" where
  "looks_same me g h \<longleftrightarrow>
     players g me = players h me \<and> cfg g = cfg h \<and> rng g = rng h \<and> rng_pos g = rng_pos h \<and>
     (\<forall>i < MAXPLAYER. same_ship me g h i) \<and>
     (\<forall>i < MAXTORP * MAXPLAYER + MAXPLASMA * MAXPLAYER. same_torp me g h i) \<and>
     (\<forall>i < MAXPLANETS. same_planet me g h i)"

lemma same_view:
  assumes "players g me = players h me"
  shows "out_of_view me x y g = out_of_view me x y h" and "last_out_of_view me cpl g = last_out_of_view me cpl h"
  by (simp_all add: out_of_view_def last_out_of_view_def assms)

lemma sndTorp_same:
  assumes "players g me = players h me"
  shows "sndTorp me t i m g c = sndTorp me t i m h c"
  by (simp add: sndTorp_def assms)

lemma sndPlasma_same:
  assumes "players g me = players h me" and "cfg g = cfg h"
  shows "sndPlasma me t i m g c = sndPlasma me t i m h c"
  by (simp add: sndPlasma_def assms)

lemma update_torp_same:
  assumes "players g me = players h me" and "same_torp me g h i" and "\<not> F_full_weapon_resolution c"
  shows "update_torp me g i c = update_torp me h i c"
proof (cases "torps g i = torps h i")
  case True
  then show ?thesis by (simp add: update_torp_def Let_def assms(1) same_view [OF assms(1)] sndTorp_same [OF assms(1)])
next
  case False
  then have "\<not> torp_seen me g (torps g i)" "\<not> torp_seen me h (torps h i)"
    "(t_status (torps g i) = TFREE) = (t_status (torps h i) = TFREE)"
    using assms(2) by (auto simp: same_torp_def)
  then show ?thesis using assms(3) by (auto simp: update_torp_def torp_seen_def Let_def sndTorp_def)
qed

lemma update_plasma_same:
  assumes "players g me = players h me" and "cfg g = cfg h"
    and "same_torp me g h (MAXTORP * MAXPLAYER + i)" and "\<not> F_full_weapon_resolution c"
  shows "update_plasma me g i c = update_plasma me h i c"
proof (cases "torps g (MAXTORP * MAXPLAYER + i) = torps h (MAXTORP * MAXPLAYER + i)")
  case True
  then show ?thesis
    by (simp add: update_plasma_def Let_def assms(1) same_view [OF assms(1)] sndPlasma_same [OF assms(1,2)])
next
  case False
  let ?i = "MAXTORP * MAXPLAYER + i"
  from False have "\<not> torp_seen me g (torps g ?i)" "\<not> torp_seen me h (torps h ?i)"
    "(t_status (torps g ?i) = TFREE) = (t_status (torps h ?i) = TFREE)"
    using assms(3) by (auto simp: same_torp_def)
  then show ?thesis using assms(4) by (auto simp: update_plasma_def torp_seen_def Let_def sndPlasma_def)
qed

lemma update_phaser_same:
  assumes "players g me = players h me" and "same_ship me g h i" and "\<not> F_full_weapon_resolution c"
  shows "update_phaser me g i c = update_phaser me h i c"
  using assms by (auto simp: update_phaser_def same_ship_def ship_unseen_def Let_def sndPhaser_def)

lemma update_planet_same:
  assumes "players g me = players h me" and "same_planet me g h i"
  shows "update_planet me g i c = update_planet me h i c"
proof -
  let ?m = "if planet_seen me g i then UPDT_ALL else UPDT_LITTLE"
  have eq: "pl_no (planets g i) = pl_no (planets h i)" "pl_x (planets g i) = pl_x (planets h i)"
    "pl_y (planets g i) = pl_y (planets h i)" "pl_name (planets g i) = pl_name (planets h i)"
    "planet_seen me h i = planet_seen me g i"
    using assms(2) by (simp_all add: same_planet_def Let_def)
  have loc: "sndPlanetLoc i g d = sndPlanetLoc i h d" for d by (simp add: sndPlanetLoc_def Let_def eq)
  have "sndPlanet me i ?m g c = sndPlanet me i ?m h c"
  proof (cases "planet_seen me g i")
    case True
    then have "pl_owner (planets g i) = pl_owner (planets h i)" "pl_info (planets g i) = pl_info (planets h i)"
      "pl_flags (planets g i) AND PLFLAGMASK = pl_flags (planets h i) AND PLFLAGMASK"
      "pl_armies (planets g i) = pl_armies (planets h i)"
      using assms(2) by (simp_all add: same_planet_def Let_def)
    then show ?thesis using True by (simp only: sndPlanet_def Let_def eq simp_thms if_True)
  qed (simp add: sndPlanet_def eq assms(1))
  then have "update_planet me g i c = sndPlanetLoc i h (sndPlanet me i ?m h c)"
    by (simp only: update_planet_def planet_seen_def Let_def loc)
  also have "\<dots> = update_planet me h i c"
    unfolding eq(5) [symmetric] by (simp only: update_planet_def planet_seen_def Let_def)
  finally show ?thesis .
qed

text \<open>Loops that agree step by step agree, as long as the steps keep the features.\<close>

lemma loop_same:
  assumes "P c" and "\<And>i c. i < n \<Longrightarrow> P c \<Longrightarrow> f i c = f' i c \<and> P (f i c)"
  shows "for_upto n f c = for_upto n f' c \<and> P (for_upto n f c)"
  using assms(2)
proof (induction n)
  case (Suc n)
  have IH: "for_upto n f c = for_upto n f' c \<and> P (for_upto n f c)"
    by (rule Suc.IH) (rule Suc.prems, simp)
  have eq: "for_upto n f' c = for_upto n f c" using IH by simp
  show ?case
    unfolding for_upto_Suc eq by (rule Suc.prems) (simp, rule IH [THEN conjunct2])
qed (simp add: assms(1))

subsection \<open>Ships\<close>

lemma same_shipD:
  assumes "public_part me i g = public_part me i h"
  shows "p_no (players g i) = p_no (players h i)" and "p_status (players g i) = p_status (players h i)"
    and "st_rank (p_stats (players g i)) = st_rank (p_stats (players h i))"
    and "p_name (players g i) = p_name (players h i)" and "p_monitor (players g i) = p_monitor (players h i)"
    and "p_login (players g i) = p_login (players h i)"
    and "s_type (p_ship (players g i)) = s_type (p_ship (players h i))"
    and "p_team (players g i) = p_team (players h i)" and "p_kills (players g i) = p_kills (players h i)"
    and "shown_to me i g (p_swar (players g i)) = shown_to me i h (p_swar (players h i))"
    and "shown_to me i g (p_hostile (players g i)) = shown_to me i h (p_hostile (players h i))"
    and "hidden_from me i g = hidden_from me i h"
    and "has (p_flags (players g i)) PFCLOAK = has (p_flags (players h i)) PFCLOAK"
  using assms by (simp_all add: public_part_def Let_def)

lemma sndHostile_shown:
  "sndHostile me i (hostility_shown me i g) g c =
     (let pl = players g i; new = \<lparr>ho_war = shown_to me i g (p_swar pl), ho_hostile = shown_to me i g (p_hostile pl)\<rparr> in
      if new \<noteq> clientHostile c i
      then sendClientPacket (SP_HOSTILE (p_no pl) new) (c\<lparr>clientHostile := (clientHostile c)(i := new)\<rparr>)
      else c)"
  by (simp only: sndHostile_def shown_to_def Let_def)

lemma told_once_same:
  assumes "public_part me i g = public_part me i h"
  shows "sndLogin me i g c = sndLogin me i h c"
    and "sndHostile me i (hostility_shown me i g) g c = sndHostile me i (hostility_shown me i h) h c"
    and "sndPlayerInfo i g c = sndPlayerInfo i h c" and "sndKills i g c = sndKills i h c"
    and "sndPStatus me i g c = sndPStatus me i h c"
proof -
  note eq = same_shipD [OF assms]
  show "sndLogin me i g c = sndLogin me i h c" by (simp only: sndLogin_def eq Let_def)
  show "sndHostile me i (hostility_shown me i g) g c = sndHostile me i (hostility_shown me i h) h c"
    by (simp only: sndHostile_shown eq Let_def)
  show "sndPlayerInfo i g c = sndPlayerInfo i h c" by (simp only: sndPlayerInfo_def eq Let_def)
  show "sndKills i g c = sndKills i h c" by (simp only: sndKills_def eq Let_def)
  show "sndPStatus me i g c = sndPStatus me i h c" by (simp only: sndPStatus_def observed_status_def eq Let_def)
qed

definition plain_client :: "client \<Rightarrow> bool" where
  "plain_client c \<longleftrightarrow> \<not> F_show_all_tractors c \<and> \<not> F_full_weapon_resolution c \<and> \<not> F_flags_all c"

lemma sndFlags_plain:
  assumes "plain_client c" and "m = (if hidden_from me i g then UPDT_MOST else UPDT_ALL)"
  shows "sndFlags i m g c =
     (let new = \<lparr>fl_flags = public_flags me i g, fl_tractor = 0\<rparr> in
      if clientFlags c i = new then c
      else sendClientPacket (SP_FLAGS (p_no (players g i)) new) (c\<lparr>clientFlags := (clientFlags c)(i := new)\<rparr>))"
  using assms(1) unfolding assms(2)
  by (cases "hidden_from me i g"; cases "p_status (players g i) = POBSERV")
    (simp_all add: sndFlags_def public_flags_def plain_client_def Let_def)

lemma plain_send [simp]: "plain_client (sendClientPacket p c) = plain_client c"
  by (simp add: plain_client_def)

lemma plain_fields [simp]:
  "plain_client (c\<lparr>clientLogin := a\<rparr>) = plain_client c" "plain_client (c\<lparr>f_sp_rank_was := n\<rparr>) = plain_client c"
  "plain_client (c\<lparr>clientHostile := ho\<rparr>) = plain_client c" "plain_client (c\<lparr>clientPlayersInfo := b\<rparr>) = plain_client c"
  "plain_client (c\<lparr>clientKills := k\<rparr>) = plain_client c" "plain_client (c\<lparr>clientFlags := d\<rparr>) = plain_client c"
  "plain_client (c\<lparr>clientPStatus := e\<rparr>) = plain_client c" "plain_client (c\<lparr>clientPlayers := r\<rparr>) = plain_client c"
  "plain_client (c\<lparr>ignored := ig\<rparr>) = plain_client c"
  "feature_var c = v \<Longrightarrow> plain_client (c\<lparr>feature_var := v(''DEAD_WARP'' := n)\<rparr>) = plain_client c"
  by (simp_all add: plain_client_def feature_on_def)

lemma plain_snd:
  "plain_client (sndLogin me i g c) = plain_client c" "plain_client (sndHostile me i m g c) = plain_client c"
  "plain_client (sndPlayerInfo i g c) = plain_client c" "plain_client (sndKills i g c) = plain_client c"
  "plain_client (sndFlags i m g c) = plain_client c" "plain_client (fst (sndPStatus me i g c)) = plain_client c"
  by (simp_all add: sndLogin_def sndHostile_def sndPlayerInfo_def sndKills_def sndFlags_def sndPStatus_def Let_def
    split: prod.split)

text \<open>Pairs of games that differ from a given pair in the number of random values used, and in that alike.\<close>

definition drawn :: "nat \<Rightarrow> game \<Rightarrow> game" where
  "drawn k g = g\<lparr>rng_pos := k\<rparr>"

lemma drawn_simps [simp]:
  "players (drawn k g) = players g" "cfg (drawn k g) = cfg g" "status (drawn k g) = status g" "rng (drawn k g) = rng g"
  "rng_pos (drawn k g) = k" "drawn j (drawn k g) = drawn j g" "rand_next (drawn k g) = drawn (Suc k) g"
  "planets (drawn k g) = planets g" "torps (drawn k g) = torps g" "phasers (drawn k g) = phasers g"
  by (simp_all add: drawn_def rand_next_def)

lemma drawn_idle [simp]: "is_invisible_due_idle i (drawn k g) = is_invisible_due_idle i g"
  by (simp add: is_invisible_due_idle_def is_idle_def)

lemma drawn_seen [simp]:
  "out_of_view me x y (drawn k g) = out_of_view me x y g" "last_out_of_view me cpl (drawn k g) = last_out_of_view me cpl g"
  "hidden_from me i (drawn k g) = hidden_from me i g"
  "hostility_shown me i (drawn k g) = hostility_shown me i g"
  by (simp_all add: out_of_view_def last_out_of_view_def hidden_from_def hostility_shown_def)

lemma drawn_shown [simp]: "shown_to me i (drawn k g) = shown_to me i g"
  by (rule ext) (simp add: shown_to_def)

lemma drawn_public [simp]:
  "public_part me i (drawn k g) = public_part me i g" "public_flags me i (drawn k g) = public_flags me i g"
  by (simp_all add: public_part_def public_flags_def)

definition alike :: "game \<Rightarrow> game \<Rightarrow> client \<Rightarrow> view \<times> bool \<Rightarrow> view \<times> bool \<Rightarrow> bool" where
  "alike g h c s s' \<longleftrightarrow>
     (\<exists>k d b. s = ((drawn k g, d), b) \<and> s' = ((drawn k h, d), b) \<and> plain_client d = plain_client c)"

lemma alikeI [simp]: "plain_client d = plain_client c \<Longrightarrow> alike g h c ((drawn k g, d), b) ((drawn k h, d), b)"
  unfolding alike_def by blast

lemma sndPlayer_same:
  assumes "p_no (players g i) = p_no (players h i)" and "p_status (players g i) = p_status (players h i)"
    and "m = UPDT_LEAST \<or> place_of_ship (players g i) = place_of_ship (players h i)" and "rng g = rng h"
  obtains k d where "sndPlayer i m (drawn j g, c) = (drawn k g, d)" and "sndPlayer i m (drawn j h, c) = (drawn k h, d)"
    and "plain_client d = plain_client c"
proof -
  have "alike g h c (updtPlayer i m (drawn j g, c)) (updtPlayer i m (drawn j h, c))"
  proof (cases "m = UPDT_LEAST")
    case True
    then show ?thesis using assms(1,2) by (simp add: updtPlayer_def send_dead_def Let_def)
  next
    case False
    then have "p_x (players g i) = p_x (players h i)" "p_y (players g i) = p_y (players h i)"
      "p_dir (players g i) = p_dir (players h i)" "p_speed (players g i) = p_speed (players h i)"
      using assms(3) by (simp_all add: place_of_ship_def)
    then show ?thesis using assms(1,2,4) False
      by (simp add: updtPlayer_def send_dead_def rand_val_def Let_def)
  qed
  then obtain k d b where b: "updtPlayer i m (drawn j g, c) = ((drawn k g, d), b)"
    "updtPlayer i m (drawn j h, c) = ((drawn k h, d), b)" "plain_client d = plain_client c" unfolding alike_def by blast
  show thesis
    by (rule that [of k "if b then sendClientPacket (SP_PLAYER (clientPlayers d i)) d else d"])
      (simp_all add: sndPlayer_def b)
qed

lemma show_ship_same:
  assumes "players g me = players h me" and "cfg g = cfg h" and "rng g = rng h"
    and "public_part me i g = public_part me i h" and "place_of_ship (players g i) = place_of_ship (players h i)"
  obtains k d where "show_ship me i u (drawn j g, c) = (drawn k g, d)" and "show_ship me i u (drawn j h, c) = (drawn k h, d)"
    and "plain_client d = plain_client c"
proof -
  note eq = same_shipD [OF assms(4)]
  have place: "p_x (players g i) = p_x (players h i)" "p_y (players g i) = p_y (players h i)"
    "p_cloakphase (players g i) = p_cloakphase (players h i)"
    using assms(5) by (simp_all add: place_of_ship_def)
  let ?skip = "\<not> u \<and> \<not> galactic_smooth (cfg g) \<and> repCount c smod efticks 9 me g \<noteq> 0 \<and>
    last_out_of_view me (clientPlayers c i) g \<and> out_of_view me (p_x (players g i)) (p_y (players g i)) g"
  let ?m = "if has (p_flags (players g i)) PFCLOAK \<and> p_cloakphase (players g i) = CLOAK_PHASES - 1 \<and> i \<noteq> me \<and> \<not> mustUpdate c i
    then if repCount c smod efticks 9 me g \<noteq> 0 then UPDT_LITTLE else UPDT_MANY
    else if i \<noteq> me \<and> has (p_flags (players g i)) PFCLOAK then UPDT_MOST else UPDT_ALL"
  have "show_ship me i u (drawn j g, c) = (if ?skip then (drawn j g, c) else sndPlayer i ?m (drawn j g, c))"
    by (simp add: show_ship_def Let_def)
  moreover have "show_ship me i u (drawn j h, c) = (if ?skip then (drawn j h, c) else sndPlayer i ?m (drawn j h, c))"
    by (simp add: show_ship_def Let_def eq place assms(1,2) same_view [OF assms(1)])
  moreover obtain k d where "sndPlayer i ?m (drawn j g, c) = (drawn k g, d)" "sndPlayer i ?m (drawn j h, c) = (drawn k h, d)"
    "plain_client d = plain_client c"
    by (rule sndPlayer_same [OF eq(1,2) disjI2 [OF assms(5)] assms(3), of ?m j c])
  ultimately show thesis by (cases ?skip) (simp_all add: that)
qed

text \<open>One ship: first what is sent of every ship, then its flags and its place.\<close>

definition announced :: "nat \<Rightarrow> nat \<Rightarrow> game \<Rightarrow> client \<Rightarrow> client \<times> bool" where
  "announced me i g c =
     (let (c, update) = sndPStatus me i g (sndKills i g (sndPlayerInfo i g
            (sndHostile me i (hostility_shown me i g) g (sndLogin me i g c))));
          c = (if update \<and> p_status (players g i) = PFREE then c\<lparr>ignored := (ignored c)(i := 0)\<rparr> else c);
          m = (if hidden_from me i g then UPDT_MOST else UPDT_ALL)
      in (if me \<noteq> i then sndFlags i m g c else c, update))"

lemma update_ship_announced:
  "update_ship me i (g, c) =
     (case announced me i g c of (c, u) \<Rightarrow>
        if hidden_from me i g then sndPlayer i UPDT_LEAST (g, c) else show_ship me i u (g, c))"
  by (simp add: update_ship_def announced_def Let_def split: prod.split)

lemma announced_same:
  assumes "public_part me i g = public_part me i h" and "public_flags me i g = public_flags me i h" and "plain_client c"
  shows "announced me i g c = announced me i h c \<and> plain_client (fst (announced me i g c))"
proof -
  note eq = same_shipD [OF assms(1)]
  let ?c = "sndKills i g (sndPlayerInfo i g (sndHostile me i (hostility_shown me i g) g (sndLogin me i g c)))"
  have c: "?c = sndKills i h (sndPlayerInfo i h (sndHostile me i (hostility_shown me i h) h (sndLogin me i h c)))"
    by (simp only: told_once_same [OF assms(1)])
  obtain d u where d: "sndPStatus me i g ?c = (d, u)" by (cases "sndPStatus me i g ?c")
  have plain: "plain_client d"
    using plain_snd(6) [of me i g ?c] assms(3) by (simp add: d plain_snd)
  have dh: "sndPStatus me i h (sndKills i h (sndPlayerInfo i h (sndHostile me i (hostility_shown me i h) h (sndLogin me i h c)))) = (d, u)"
    by (simp only: c [symmetric] told_once_same(5) [OF assms(1), symmetric] d)
  have flags: "sndFlags i (if hidden_from me i g then UPDT_MOST else UPDT_ALL) g e =
      sndFlags i (if hidden_from me i h then UPDT_MOST else UPDT_ALL) h e" if "plain_client e" for e
    unfolding sndFlags_plain [OF that refl, of i me g] sndFlags_plain [OF that refl, of i me h] by (simp only: eq assms(2))
  let ?e = "if u \<and> p_status (players h i) = PFREE then d\<lparr>ignored := (ignored d)(i := 0)\<rparr> else d"
  have e: "plain_client ?e" using plain by simp
  have "announced me i g c = (if me \<noteq> i then sndFlags i (if hidden_from me i g then UPDT_MOST else UPDT_ALL) g ?e else ?e, u)"
    by (simp only: announced_def d Let_def prod.case eq)
  moreover have "announced me i h c = (if me \<noteq> i then sndFlags i (if hidden_from me i h then UPDT_MOST else UPDT_ALL) h ?e else ?e, u)"
    by (simp only: announced_def dh Let_def prod.case)
  ultimately show ?thesis using flags [OF e] e by (simp add: plain_snd)
qed

lemma update_ship_same:
  assumes "players g me = players h me" and "cfg g = cfg h" and "rng g = rng h"
    and "same_ship me g h i" and "plain_client c"
  obtains k d where "update_ship me i (drawn j g, c) = (drawn k g, d)" and "update_ship me i (drawn j h, c) = (drawn k h, d)"
    and "plain_client d"
proof -
  from assms(4) have pub: "public_part me i g = public_part me i h" "public_flags me i g = public_flags me i h"
    by (simp_all add: same_ship_def)
  note eq = same_shipD [OF pub(1)]
  obtain d u where d: "announced me i (drawn j g) c = (d, u)" "announced me i (drawn j h) c = (d, u)" "plain_client d"
    using announced_same [of me i "drawn j g" "drawn j h" c] pub assms(5)
    by (cases "announced me i (drawn j g) c") simp
  show thesis
  proof (cases "hidden_from me i g")
    case True
    then have "hidden_from me i h" by (simp add: eq)
    obtain k e where "sndPlayer i UPDT_LEAST (drawn j g, d) = (drawn k g, e)" "sndPlayer i UPDT_LEAST (drawn j h, d) = (drawn k h, e)"
      "plain_client e = plain_client d"
      by (rule sndPlayer_same [OF eq(1,2) disjI1 [OF refl] assms(3), of j d])
    then show thesis using True \<open>hidden_from me i h\<close> d by (intro that [of k e]) (simp_all add: update_ship_announced)
  next
    case False
    then have "\<not> hidden_from me i h" "place_of_ship (players g i) = place_of_ship (players h i)"
      using assms(4) by (simp_all add: eq same_ship_def)
    obtain k e where "show_ship me i u (drawn j g, d) = (drawn k g, e)" "show_ship me i u (drawn j h, d) = (drawn k h, e)"
      "plain_client e = plain_client d"
      by (rule show_ship_same [OF assms(1-3) pub(1) \<open>place_of_ship (players g i) = _\<close>, of u j d])
    then show thesis using False \<open>\<not> hidden_from me i h\<close> d by (intro that [of k e]) (simp_all add: update_ship_announced)
  qed
qed

lemma updateShips_same:
  assumes "players g me = players h me" and "cfg g = cfg h" and "rng g = rng h" and "rng_pos g = rng_pos h"
    and "\<And>i. i < MAXPLAYER \<Longrightarrow> same_ship me g h i" and "plain_client c"
  shows "snd (updateShips me (g, c)) = snd (updateShips me (h, c))"
proof -
  have "\<exists>k d. for_upto n (update_ship me) (g, c) = (drawn k g, d) \<and> for_upto n (update_ship me) (h, c) = (drawn k h, d) \<and>
      plain_client d" if "n \<le> MAXPLAYER" for n
    using that
  proof (induction n)
    case 0
    have "drawn (rng_pos g) g = g" "drawn (rng_pos g) h = h" by (simp_all add: drawn_def assms(4))
    then show ?case using assms(6) by (metis for_upto_0)
  next
    case (Suc n)
    then obtain j d where d: "for_upto n (update_ship me) (g, c) = (drawn j g, d)"
      "for_upto n (update_ship me) (h, c) = (drawn j h, d)" "plain_client d" by auto
    obtain k e where "update_ship me n (drawn j g, d) = (drawn k g, e)" "update_ship me n (drawn j h, d) = (drawn k h, e)"
      "plain_client e"
      by (rule update_ship_same [OF assms(1-3) assms(5) d(3), of n j]) (use Suc.prems in simp_all)
    then show ?case by (auto simp: d)
  qed
  then obtain k d where d: "for_upto MAXPLAYER (update_ship me) (g, c) = (drawn k g, d)"
    "for_upto MAXPLAYER (update_ship me) (h, c) = (drawn k h, d)" "plain_client d" by blast
  then show ?thesis by (simp only: updateShips_def Let_def prod.case snd_conv plain_client_def if_False)
qed

lemma features_send: "feature_on f (sndPlasma me t i m g c) = feature_on f c" "feature_on f (sndPhaser ph i m c) = feature_on f c"
  by (simp_all add: sndPlasma_def sndPhaser_def snd_plasma_info_def snd_plasma_place_def Let_def) (simp_all add: feature_on_def)

lemma features_step:
  "feature_on f (update_plasma me g i c) = feature_on f c" "feature_on f (update_phaser me g i c) = feature_on f c"
  by (simp_all add: update_plasma_def update_phaser_def Let_def features_send) (simp_all add: feature_on_def)

lemma feature_on_must: "feature_on f (c\<lparr>mustUpdate := m\<rparr>) = feature_on f c"
  by (simp add: feature_on_def)

text \<open>
  C11: a client is told only what it may know.  If two games look the same to a player, then an
  update of torpedoes, plasmas, phasers, planets and ships sends the same packets in both, as long
  as the client has not asked for tractor beams, full weapon resolution or the flags of all ships.
  So no packet depends on where a hidden ship is, on weapons out of view, on a ship's plans towards
  other teams, or on planets that the team has not scouted.
\<close>

theorem client_told_only_what_it_may_know:
  fixes g h :: game and me :: nat and c :: client
  assumes "looks_same me g h"
    and "\<not> F_show_all_tractors c" and "\<not> F_full_weapon_resolution c" and "\<not> F_flags_all c"
  shows "updateTorps me g c = updateTorps me h c \<and> updatePlasmas me g c = updatePlasmas me h c \<and>
    updatePhasers me g c = updatePhasers me h c \<and> updatePlanets me g c = updatePlanets me h c \<and>
    snd (updateShips me (g, c)) = snd (updateShips me (h, c))"
proof -
  let ?P = "\<lambda>c. \<not> F_full_weapon_resolution c"
  have me: "players g me = players h me" and conf: "cfg g = cfg h" and r: "rng g = rng h" "rng_pos g = rng_pos h"
    and ship: "\<And>i. i < MAXPLAYER \<Longrightarrow> same_ship me g h i"
    and torp: "\<And>i. i < MAXTORP * MAXPLAYER + MAXPLASMA * MAXPLAYER \<Longrightarrow> same_torp me g h i"
    and planet: "\<And>i. i < MAXPLANETS \<Longrightarrow> same_planet me g h i"
    using assms(1) unfolding looks_same_def by blast+
  have "updateTorps me g c = updateTorps me h c"
    unfolding updateTorps_def
    by (rule loop_same [of ?P, THEN conjunct1]) (simp_all add: assms(3) update_torp_same me torp)
  moreover have "updatePlasmas me g c = updatePlasmas me h c"
    unfolding updatePlasmas_def
    by (rule loop_same [of ?P, THEN conjunct1]) (simp_all add: assms(3) update_plasma_same me conf torp features_step)
  moreover have "\<not> F_full_weapon_resolution (for_upto n (\<lambda>i c. c\<lparr>mustUpdate := (mustUpdate c)(i := False)\<rparr>) c)" for n
    by (induction n) (simp_all add: assms(3) feature_on_must)
  then have "updatePhasers me g c = updatePhasers me h c"
    unfolding updatePhasers_def
    by (intro loop_same [of ?P, THEN conjunct1]) (simp_all add: update_phaser_same me ship features_step)
  moreover have "updatePlanets me g c = updatePlanets me h c"
    unfolding updatePlanets_def
    by (rule loop_same [of "\<lambda>_. True", THEN conjunct1]) (simp_all add: update_planet_same me planet)
  moreover have "snd (updateShips me (g, c)) = snd (updateShips me (h, c))"
    by (rule updateShips_same [OF me conf r ship]) (simp_all add: plain_client_def assms(2-4))
  ultimately show ?thesis by blast
qed

subsection \<open>Examples\<close>

text \<open>A client that was told of one torpedo in flight, and two games that differ out of its sight.\<close>

definition blank_client :: client where
  "blank_client =
     \<lparr>clientLogin = (\<lambda>_. \<lparr>lg_rank = -1, lg_name = [], lg_monitor = [], lg_login = []\<rparr>),
      clientHostile = (\<lambda>_. \<lparr>ho_war = 0, ho_hostile = -1\<rparr>),
      clientPlayersInfo = (\<lambda>_. \<lparr>in_shiptype = -1, in_team = 0\<rparr>),
      clientKills = (\<lambda>_. -1), clientFlags = (\<lambda>_. \<lparr>fl_flags = -1, fl_tractor = 0\<rparr>), clientPStatus = (\<lambda>_. None),
      clientPlayers = (\<lambda>_. \<lparr>cpl_type = 0, cpl_pnum = 0, cpl_dir = 0, cpl_speed = 0, cpl_x = -1, cpl_y = 0\<rparr>),
      clientTorpsInfo = (\<lambda>_. \<lparr>ti_war = 0, ti_status = None\<rparr>),
      clientTorps = (\<lambda>_. \<lparr>ts_dir = 0, ts_x = -1, ts_y = 0\<rparr>),
      clientPlasmasInfo = (\<lambda>_. \<lparr>ti_war = 0, ti_status = None\<rparr>), clientPlasmas = (\<lambda>_. \<lparr>pas_x = -1, pas_y = 0\<rparr>),
      clientPhasers = (\<lambda>_. \<lparr>phs_status = None, phs_dir = 0, phs_x = 0, phs_y = 0, phs_target = 0\<rparr>),
      clientPlanets = (\<lambda>_. \<lparr>pls_owner = 0, pls_info = 0, pls_flags = 0, pls_armies = -1\<rparr>),
      clientPlanetLocs = (\<lambda>_. \<lparr>loc_x = -1, loc_y = 0, loc_name = []\<rparr>),
      clientSelf = \<lparr>y_pnum = -1, y_hostile = 0, y_swar = 0, y_armies = 0, y_tractor = 0, y_flags = 0, y_damage = 0,
        y_shield = 0, y_fuel = 0, y_etemp = 0, y_wtemp = 0, y_whydead = KQUIT, y_whodead = 0\<rparr>,
      clientStatus = \<lparr>sts_tourn = False, sts_armsbomb = 0, sts_planets = 0, sts_kills = 0, sts_losses = 0, sts_time = 0,
        sts_timeprod = 0\<rparr>,
      clientGeneric32 = Generic_32_none, clientStats = (\<lambda>_. \<lparr>stt_counts = [], stt_maxkills = 0, stt_sbmaxkills = 0\<rparr>),
      mustUpdate = (\<lambda>_. False), repCount = 0, feature_var = (\<lambda>_. 0), A_sp_generic_32 = 0, f_sp_rank_was = 0, lastpno = 0,
      start_totals = [], ignored = (\<lambda>_. 0), macroignore = False, dooshignore = False,
      whitelist_all = False, whitelist_team = False, whitelist_indiv = False, comm_udp = False, udpMode = 0,
      sent = []\<rparr>"

definition ex_fog :: "int \<Rightarrow> game" where
  "ex_fog x = blank_game\<lparr>players := (players blank_game)(5 := blank_player\<lparr>p_no := 5, p_status := POBSERV, p_x := x\<rparr>),
     torps := (torps blank_game)(9 := blank_torp\<lparr>t_owner := 1, t_status := TMOVE, t_x := x\<rparr>)\<rparr>"

lemma torps_shown_truly_witness:
  "let g = ex_fog 50; d = updateTorps 0 g blank_client in
     told_torp 9 (sent d) = Some \<lparr>ti_war = t_war (torps g 9) AND p_team (players g 0), ti_status = Some TMOVE\<rparr>"
proof -
  have "\<not> F_full_weapon_resolution blank_client" "torp_told 9 blank_client"
    by (simp_all add: blank_client_def feature_on_def torp_told_def)
  moreover have "torp_seen 0 (ex_fog 50) (torps (ex_fog 50) 9)" "\<not> myTorp 0 (torps (ex_fog 50) 9)"
    "t_status (torps (ex_fog 50) 9) = TMOVE"
    by (simp_all add: torp_seen_def out_of_view_def ex_fog_def blank_defs Let_def)
  ultimately obtain r where "told_torp 9 (sent (updateTorps 0 (ex_fog 50) blank_client)) = Some r" "ti_status r = Some TMOVE"
    "ti_war r = t_war (torps (ex_fog 50) 9) AND p_team (players (ex_fog 50) 0)"
    using torps_shown_truly [where c = blank_client and i = 9 and me = 0 and g = "ex_fog 50"] by auto
  then show ?thesis by (simp add: Let_def)
qed

lemma planets_shown_truly_witness:
  "loc_x (clientPlanetLocs (updatePlanets 0 (ex_fog 50) blank_client) 3) = pl_x (planets (ex_fog 50) 3)"
  using planets_shown_truly [where me = 0 and g = "ex_fog 50" and c = blank_client] by (simp add: Let_def)

lemma client_told_only_what_it_may_know_witness:
  "snd (updateShips 0 (ex_fog 50000, blank_client)) = snd (updateShips 0 (ex_fog 60000, blank_client))"
proof -
  have "looks_same 0 (ex_fog 50000) (ex_fog 60000)"
  proof -
    have "same_ship 0 (ex_fog 50000) (ex_fog 60000) i" for i
      by (cases "i = 5")
        (simp_all add: same_ship_def public_part_def public_flags_def shown_to_def hostility_shown_def hidden_from_def
          ship_unseen_def out_of_view_def place_of_ship_def is_invisible_due_idle_def is_idle_def ex_fog_def blank_defs Let_def)
    moreover have "same_torp 0 (ex_fog 50000) (ex_fog 60000) i" for i
      by (cases "i = 9") (simp_all add: same_torp_def torp_seen_def out_of_view_def ex_fog_def blank_defs Let_def)
    moreover have "same_planet 0 (ex_fog 50000) (ex_fog 60000) i" for i
      by (simp add: same_planet_def planet_seen_def ex_fog_def Let_def)
    ultimately show ?thesis by (simp add: looks_same_def) (simp add: ex_fog_def)
  qed
  moreover have "\<not> F_show_all_tractors blank_client" "\<not> F_full_weapon_resolution blank_client" "\<not> F_flags_all blank_client"
    by (simp_all add: blank_client_def feature_on_def)
  ultimately show ?thesis using client_told_only_what_it_may_know by blast
qed

end
