(* ===== verification/Requests.thy ===== *)
theory Requests
  imports View Cmds
begin

text \<open>
  What a client asks for (\<^verbatim>\<open>ntserv/socket.c\<close>): the requests, which of them the server
  accepts, and what each of them does to the game, to the packets that are sent back and to the
  session, the variables of the server process that no other process sees.  Short packets are off
  in this model, so the requests about them, and the login of the standard client's key, are left
  out.  A request can end the process; then there is no result.
\<close>

subsection \<open>Requests and sessions\<close>

datatype cpacket =
    CP_MESSAGE "8 word" nat string
  | CP_SPEED int
  | CP_DIRECTION "8 word"
  | CP_PHASER "8 word"
  | CP_PLASMA "8 word"
  | CP_TORP "8 word"
  | CP_QUIT
  | CP_LOGIN bool string string string
  | CP_OUTFIT int int
  | CP_WAR int
  | CP_PRACTR
  | CP_SHIELD bool
  | CP_REPAIR bool
  | CP_ORBIT bool
  | CP_PLANLOCK int
  | CP_PLAYLOCK int
  | CP_BOMB bool
  | CP_BEAM int
  | CP_CLOAK bool
  | CP_DET_TORPS
  | CP_DET_MYTORP nat
  | CP_COPILOT bool
  | CP_REFIT int
  | CP_TRACTOR bool int
  | CP_REPRESS bool int
  | CP_COUP
  | CP_SOCKET int int "32 word"
  | CP_OPTIONS "32 word" string
  | CP_BYE
  | CP_DOCKPERM bool
  | CP_UPDATES "32 word"
  | CP_RESETSTATS char
  | CP_SCAN int
  | CP_UDP_REQ int int int
  | CP_SEQUENCE
  | CP_PLANET int planet_spacket
  | CP_PING_RESPONSE int
  | CP_OGGV int int
  | CP_FEATURE string int int

fun packet_type :: "cpacket \<Rightarrow> nat" where
  "packet_type (CP_MESSAGE _ _ _) = 1"
| "packet_type (CP_SPEED _) = 2"
| "packet_type (CP_DIRECTION _) = 3"
| "packet_type (CP_PHASER _) = 4"
| "packet_type (CP_PLASMA _) = 5"
| "packet_type (CP_TORP _) = 6"
| "packet_type CP_QUIT = 7"
| "packet_type (CP_LOGIN _ _ _ _) = 8"
| "packet_type (CP_OUTFIT _ _) = 9"
| "packet_type (CP_WAR _) = 10"
| "packet_type CP_PRACTR = 11"
| "packet_type (CP_SHIELD _) = 12"
| "packet_type (CP_REPAIR _) = 13"
| "packet_type (CP_ORBIT _) = 14"
| "packet_type (CP_PLANLOCK _) = 15"
| "packet_type (CP_PLAYLOCK _) = 16"
| "packet_type (CP_BOMB _) = 17"
| "packet_type (CP_BEAM _) = 18"
| "packet_type (CP_CLOAK _) = 19"
| "packet_type CP_DET_TORPS = 20"
| "packet_type (CP_DET_MYTORP _) = 21"
| "packet_type (CP_COPILOT _) = 22"
| "packet_type (CP_REFIT _) = 23"
| "packet_type (CP_TRACTOR _ _) = 24"
| "packet_type (CP_REPRESS _ _) = 25"
| "packet_type CP_COUP = 26"
| "packet_type (CP_SOCKET _ _ _) = 27"
| "packet_type (CP_OPTIONS _ _) = 28"
| "packet_type CP_BYE = 29"
| "packet_type (CP_DOCKPERM _) = 30"
| "packet_type (CP_UPDATES _) = 31"
| "packet_type (CP_RESETSTATS _) = 32"
| "packet_type (CP_SCAN _) = 34"
| "packet_type (CP_UDP_REQ _ _ _) = 35"
| "packet_type CP_SEQUENCE = 36"
| "packet_type (CP_PLANET _ _) = 38"
| "packet_type (CP_PING_RESPONSE _) = 42"
| "packet_type (CP_OGGV _ _) = 50"
| "packet_type (CP_FEATURE _ _ _) = 60"

text \<open>
  The server's record of a feature is its name, kind, value and two more values.  \<open>mail\<close> collects the
  messages that were passed on: recipient, flags, address line, sender and text.
\<close>

type_synonym feature = "string \<times> char \<times> int \<times> int \<times> int"

record session =
  inputMask :: "nat \<Rightarrow> bool"
  shipPick :: int
  teamPick :: int
  namePick :: string
  passPick :: string
  login :: string
  nextSocket :: "32 word"
  userVersion :: int
  userUdpVersion :: int
  mute :: bool
  lasttime :: int
  balance :: int
  clueFuse :: int
  features :: "feature list"
  start_sb :: "int list"
  udpSock :: bool
  udpClientPort :: int
  portswap :: bool
  sequence_no :: int
  lastone :: int
  spk_update_all :: bool
  spk_update_sall :: bool
  ping :: bool
  mail :: "(int \<times> 32 word \<times> string \<times> nat \<times> string) list"

text \<open>
  What the process reads from outside: the clock, the arc tangent, the settings that only requests
  look at, and the local port of a new UDP connection, if one can be made.
\<close>

record world =
  w_now :: int
  w_atan :: "int \<Rightarrow> int \<Rightarrow> rat"
  whitelisted :: bool
  observer_muting :: bool
  muteall :: bool
  udpAllowed :: bool
  connUdpConn :: "int option"

type_synonym desk = "game \<times> client \<times> session"

subsection \<open>Orders to the ship\<close>

definition handleTorpReq :: "nat \<Rightarrow> 8 word \<Rightarrow> game \<Rightarrow> game" where
  "handleTorpReq me dir = ntorp me dir (TWOBBLE OR TOWNERSAFE OR TDETTEAMSAFE)"

definition handleDirReq :: "nat \<Rightarrow> 8 word \<Rightarrow> game \<Rightarrow> game" where
  "handleDirReq me dir g = set_course me dir (clear_orders me (PFPLOCK OR PFPLLOCK) g)"

definition handleShieldReq :: "nat \<Rightarrow> bool \<Rightarrow> game \<Rightarrow> game" where
  "handleShieldReq me state = (if state then shield_up me else shield_down me)"

definition handleRepairReq :: "nat \<Rightarrow> bool \<Rightarrow> game \<Rightarrow> game" where
  "handleRepairReq me state = (if state then repair me else clear_orders me PFREPAIR)"

definition handleOrbitReq :: "(int \<Rightarrow> int \<Rightarrow> rat) \<Rightarrow> nat \<Rightarrow> bool \<Rightarrow> game \<Rightarrow> game" where
  "handleOrbitReq atan me state g = (if state then orbit atan me g else clear_orders me PFORBIT (bay_release me g))"

text \<open>The practice robot is a process of its own; the second part of the result says that it was started.\<close>

definition practice_robo :: "nat \<Rightarrow> game \<Rightarrow> game \<times> bool" where
  "practice_robo me g =
     (if list_ex (\<lambda>i. p_status (players g i) = PALIVE \<and> \<not> pflag i PFPRACTR g \<and> i \<noteq> me) [0..<MAXPLAYER]
      then (warn me 84 ''Can't send in practice robot with other players in the game.'' g, False)
      else
        let t = p_team (players g me);
            arg = (if t = ROM then ''-Tr'' else if t = KLI then ''-Tk'' else if t = ORI then ''-To'' else ''-Tf'')
        in (emit (Script (''robot '' @ arg @ '' -p -f -h'')) g, True))"

definition handlePractrReq :: "nat \<Rightarrow> game \<Rightarrow> game" where
  "handlePractrReq me g =
     (if is_idle me g then g
      else case practice_robo me g of
        (g, True) \<Rightarrow> g
      | (g, False) \<Rightarrow> if twarpMode (cfg g) then fst (handleTranswarp me g) else g)"

definition handleBombReq :: "nat \<Rightarrow> bool \<Rightarrow> game \<Rightarrow> game" where
  "handleBombReq me state = (if state then bomb_planet me else clear_orders me PFBOMB)"

definition handleBeamReq :: "nat \<Rightarrow> int \<Rightarrow> game \<Rightarrow> game" where
  "handleBeamReq me state =
     (if state = 1 then beam_up me else if state \<noteq> 0 then beam_down me else clear_orders me PF_BEAMS)"

definition handleCloakReq :: "nat \<Rightarrow> bool \<Rightarrow> game \<Rightarrow> game" where
  "handleCloakReq me state = (if state then cloak_on me else cloak_off me)"

definition handleDetTReq :: "nat \<Rightarrow> game \<Rightarrow> game" where
  "handleDetTReq me g = (if is_idle me g then g else detothers me g)"

definition handleDetMReq :: "nat \<Rightarrow> nat \<Rightarrow> game \<Rightarrow> game" where
  "handleDetMReq me n g =
     (if n \<ge> MAXPLAYER * MAXTORP \<or> t_owner (torps g n) \<noteq> p_no (players g me) then g
      else if t_status (torps g n) = TMOVE
      then ltd_update_torp_selfdetted me (upd_torp n (\<lambda>t. t\<lparr>t_status := TOFF\<rparr>) g)
      else g)"

text \<open>Tractors and pressors; \<open>ray\<close> are the flags that a new beam sets, \<open>select\<close> what a choice in the draft does.\<close>

definition handle_beam :: "32 word \<Rightarrow> (nat \<Rightarrow> int \<Rightarrow> game \<Rightarrow> game) \<Rightarrow> nat \<Rightarrow> bool \<Rightarrow> int \<Rightarrow> game \<Rightarrow> game" where
  "handle_beam ray select me state target g =
     (let v = nat target in
      if \<not> wp_tractor (cfg g) then warn me 0 ''Tractor beams haven't been invented yet.'' g
      else if \<not> state then clear_orders me (PFTRACT OR PFPRESS) g
      else if pflag me PFCLOAK g then warn me 1 ''Weapons's Officer:  Cannot tractor while cloaked, sir!'' g
      else if target < 0 \<or> target \<ge> int MAXPLAYER \<or> v = p_no (players g me) then g
      else if p_inl_draft (players g me) \<noteq> INL_DRAFT_OFF then select me target g
      else if pflag v PFCLOAK g then g
      else if in_tractor_range (players g me) (players g v) then
        let g = bay_release me (bay_release v g);
            g = clear_orders me PFORBIT (clear_orders v PFORBIT g);
            g = upd_player me (\<lambda>p. p\<lparr>p_tractor := v\<rparr>) g
        in order me ray 0 g
      else warn me 2 ''Weapon's Officer:  Vessel is out of range of our tractor beam.'' g)"

definition handleTractorReq :: "nat \<Rightarrow> bool \<Rightarrow> int \<Rightarrow> game \<Rightarrow> game" where
  "handleTractorReq = handle_beam PFTRACT inl_draft_select"

definition handleRepressReq :: "nat \<Rightarrow> bool \<Rightarrow> int \<Rightarrow> game \<Rightarrow> game" where
  "handleRepressReq = handle_beam (PFTRACT OR PFPRESS) inl_draft_reject"

definition handleQuitReq :: "nat \<Rightarrow> game \<Rightarrow> game" where
  "handleQuitReq me g =
     (let sd_time = (if s_type (p_ship (players g me)) \<noteq> STARBASE then 10 else 60);
          sd_time = (if is_idle me g then sd_time sdiv 5 else sd_time);
          g = upd_player me (\<lambda>p. p\<lparr>p_selfdest := p_updates p + sd_time * 10\<rparr>) g
      in warn me 90 ''Self destruct initiated'' (order me PFSELFDEST 0 g))"

definition handleDockingReq :: "nat \<Rightarrow> bool \<Rightarrow> game \<Rightarrow> game" where
  "handleDockingReq me state g =
     (if s_type (p_ship (players g me)) \<noteq> STARBASE then g
      else if state then order me PFDOCKOK 0 g
      else bay_release_all me (clear_orders me PFDOCKOK g))"

definition handleOggV :: "nat \<Rightarrow> int \<Rightarrow> int \<Rightarrow> game \<Rightarrow> game" where
  "handleOggV me def targ g =
     order me PFBPROBOT 0 (upd_player me (\<lambda>p. p\<lparr>p_df := (if def > 100 then 100 else def), p_tg := targ\<rparr>) g)"

text \<open>The flag of cyborgs is kept as it was.\<close>

abbreviation (input) ST_KEEPPEACE :: int where "ST_KEEPPEACE \<equiv> 8"
abbreviation (input) ST_CYBORG :: int where "ST_CYBORG \<equiv> 256"

definition handleOptionsPacket :: "nat \<Rightarrow> 32 word \<Rightarrow> string \<Rightarrow> game \<Rightarrow> game" where
  "handleOptionsPacket me flags keymap g =
     (let f = sint flags OR (st_flags (p_stats (players g me)) AND ST_CYBORG);
          g = upd_player me (\<lambda>p. p\<lparr>p_stats := (p_stats p)\<lparr>st_keymap := take 96 keymap, st_flags := f\<rparr>\<rparr>) g
      in upd_proc me (\<lambda>m. m\<lparr>keeppeace := odd (f sdiv ST_KEEPPEACE)\<rparr>) g)"

text \<open>All requests that are orders to the ship, by their number of arguments as the packets have them.\<close>

fun order_request :: "world \<Rightarrow> nat \<Rightarrow> cpacket \<Rightarrow> game \<Rightarrow> game" where
  "order_request w me (CP_TORP dir) g = handleTorpReq me dir g"
| "order_request w me (CP_PHASER dir) g = phaser_cmd me dir g"
| "order_request w me (CP_PLASMA dir) g = nplasmatorp me dir 0 g"
| "order_request w me (CP_SPEED speed) g = set_speed me speed g"
| "order_request w me (CP_DIRECTION dir) g = handleDirReq me dir g"
| "order_request w me (CP_SHIELD state) g = handleShieldReq me state g"
| "order_request w me (CP_REPAIR state) g = handleRepairReq me state g"
| "order_request w me (CP_ORBIT state) g = handleOrbitReq (w_atan w) me state g"
| "order_request w me CP_PRACTR g = handlePractrReq me g"
| "order_request w me (CP_BOMB state) g = handleBombReq me state g"
| "order_request w me (CP_BEAM state) g = handleBeamReq me state g"
| "order_request w me (CP_CLOAK state) g = handleCloakReq me state g"
| "order_request w me CP_DET_TORPS g = handleDetTReq me g"
| "order_request w me (CP_DET_MYTORP n) g = handleDetMReq me n g"
| "order_request w me (CP_WAR newmask) g = declare_war me newmask True g"
| "order_request w me (CP_PLANLOCK pnum) g = lock_planet me pnum g"
| "order_request w me (CP_PLAYLOCK pnum) g = lock_player inl_draft_select (w_now w) me pnum g"
| "order_request w me (CP_TRACTOR state pnum) g = handleTractorReq me state pnum g"
| "order_request w me (CP_REPRESS state pnum) g = handleRepressReq me state pnum g"
| "order_request w me CP_COUP g = coup me g"
| "order_request w me (CP_REFIT ship) g = do_refit me ship g"
| "order_request w me CP_QUIT g = handleQuitReq me g"
| "order_request w me (CP_DOCKPERM state) g = handleDockingReq me state g"
| "order_request w me (CP_OGGV def targ) g = handleOggV me def targ g"
| "order_request w me (CP_OPTIONS flags keymap) g = handleOptionsPacket me flags keymap g"
| "order_request w me _ g = g"

subsection \<open>Checks of planets, statistics and updates\<close>

text \<open>The test of the number lets \<^verbatim>\<open>MAXPLANETS\<close> through, which is the record after the last planet.\<close>

definition handlePlanReq :: "nat \<Rightarrow> int \<Rightarrow> planet_spacket \<Rightarrow> view \<Rightarrow> view" where
  "handlePlanReq me pnum r s =
     (let g = fst s; c = snd s; plan = planets g (nat pnum);
          new = \<lparr>pls_owner = pl_owner plan, pls_info = pl_info plan, pls_flags = pl_flags plan AND PLFLAGMASK,
                 pls_armies = pl_armies plan\<rparr> in
      if \<not> feature_on ''CHECK_PLANETS'' c \<or> pnum < 0 \<or> pnum > int MAXPLANETS \<or>
         \<not> meets (pl_info plan) (p_team (players g me)) then s
      else if r\<lparr>pls_flags := pls_flags r AND PLFLAGMASK\<rparr> \<noteq> new
      then (g\<lparr>ctxt := (ctxt g)\<lparr>cp_planet_miss := cp_planet_miss (ctxt g) + 1\<rparr>\<rparr>,
            sendClientPacket (SP_PLANET (pl_no plan) new) c)
      else (g\<lparr>ctxt := (ctxt g)\<lparr>cp_planet_hits := cp_planet_hits (ctxt g) + 1\<rparr>\<rparr>, c))"

definition handleReset :: "nat \<Rightarrow> char \<Rightarrow> desk \<Rightarrow> desk" where
  "handleReset me verify s =
     (let (g, c, k) = s in
      if verify \<noteq> CHR ''Y'' then s
      else
        let g = upd_player me (\<lambda>p. let p = ltd_reset p in p\<lparr>p_stats := (p_stats p)\<lparr>st_rank := 0\<rparr>\<rparr>) g;
            (g, t) = read_totals [ltd_kills_of, ltd_deaths_of, ltd_armies_bombed, ltd_planets_taken, ltd_ticks_of]
                       LTD_TOTAL me g;
            (g, b) = read_totals [ltd_kills_of, ltd_deaths_of, ltd_ticks_of] LTD_SB me g
        in (g, c\<lparr>start_totals := t\<rparr>, k\<lparr>start_sb := b\<rparr>))"

definition send_server_feature :: "string \<Rightarrow> int \<Rightarrow> client \<Rightarrow> client" where
  "send_server_feature f v = sendClientPacket (SP_FEATURE CHR ''S'' v 0 0 f)"

definition sendFeatureFps :: "game \<Rightarrow> client \<Rightarrow> client" where
  "sendFeatureFps g = send_server_feature ''FPS'' (fps (cfg g))"

definition sendFeatureUps :: "nat \<Rightarrow> game \<Rightarrow> client \<Rightarrow> client" where
  "sendFeatureUps me g = send_server_feature ''UPS'' (p_ups (players g me))"

definition sendLameRefit :: "game \<Rightarrow> client \<Rightarrow> client" where
  "sendLameRefit g c = (if \<not> lame_refit (cfg g) then send_server_feature ''LAME_REFIT'' 0 c else c)"

definition sendLameBaseRefit :: "game \<Rightarrow> client \<Rightarrow> client" where
  "sendLameBaseRefit g c = (if \<not> lame_base_refit (cfg g) then send_server_feature ''LAME_BASE_REFIT'' 0 c else c)"

text \<open>A rate of no microseconds is a division by zero, which ends the process.\<close>

definition handleUpdatesReq :: "nat \<Rightarrow> 32 word \<Rightarrow> view \<Rightarrow> view option" where
  "handleUpdatesReq me usecs s =
     (if usecs = 0 then None
      else
        let g = fst s; c = snd s;
            (p, changed) = p_ups_set (cfg g) (1000000 div uint usecs) (players g me);
            g = upd_player me (\<lambda>_. p) g
        in Some (g, if changed \<noteq> 0 \<and> feature_on ''FEATURE_PACKETS'' c then sendFeatureUps me g c else c))"

subsection \<open>Features\<close>

text \<open>The features with a variable; one of them keeps the first of the two values as well.\<close>

definition feature_vars :: "string list" where
  "feature_vars =
     [''FEATURE_PACKETS'', ''WHY_DEAD'', ''SBHOURS'', ''SELF_8FLAGS'', ''19FLAGS'', ''RC_DISTRESS'', ''CLOAK_MAXWARP'',
      ''SHIP_CAP'', ''DEAD_WARP'', ''SHOW_ALL_TRACTORS'', ''SHOW_ARMY_COUNT'', ''SHOW_OTHER_SPEED'', ''SHOW_CLOAKERS'',
      ''SP_GENERIC_32'', ''CHECK_PLANETS'', ''TURN_KEYS'', ''SP_FLAGS_ALL'', ''WHY_DEAD_2'',
      ''FULL_DIRECTION_RESOLUTION'', ''FULL_WEAPON_RESOLUTION'', ''SHOW_VISIBILITY_RANGE'', ''AUTO_WEAPONS'', ''SP_RANK'',
      ''SP_LTD'', ''TIPS'']"

definition feature_cmp :: "string \<Rightarrow> string \<Rightarrow> bool" where
  "feature_cmp f s \<longleftrightarrow> map toupper_char f = map toupper_char s"

definition observer_hack :: "feature \<Rightarrow> feature" where
  "observer_hack = (\<lambda>(f, t, v, a). (f, t, if f = ''SHOW_ALL_TRACTORS'' then 1 else v, a))"

text \<open>The answer to the client: the kind, the value and two more values.\<close>

type_synonym answer = "char \<times> int \<times> int \<times> int"

definition getFeature :: "nat \<Rightarrow> string \<Rightarrow> int \<Rightarrow> int \<Rightarrow> desk \<Rightarrow> desk \<times> answer" where
  "getFeature me f v arg1 s =
     (let (g, c, k) = s; unknown = (CHR 0x00, -1, 0, 0) in
      case List.find (\<lambda>(n, _). feature_cmp f n) (features k) of
        None \<Rightarrow> (s, unknown)
      | Some old \<Rightarrow>
          let new = (if Observer (procs g me) then observer_hack old else old);
              k = k\<lparr>features := map (\<lambda>x. if fst x = fst old then new else x) (features k)\<rparr>;
              (n, t, value, args) = new
          in if value < 0 \<or> t = CHR ''C'' then ((g, c, k), (t, value, args))
             else case List.find (feature_cmp f) feature_vars of
                    None \<Rightarrow> ((g, c, k), (t, -1, args))
                  | Some n \<Rightarrow>
                      let c = c\<lparr>feature_var := (feature_var c)(n := if v = 1 \<and> value = 1 then 1 else 0)\<rparr>;
                          c = (if n = ''SP_GENERIC_32'' then c\<lparr>A_sp_generic_32 := arg1\<rparr> else c)
                      in ((g, c, k), (t, if v = 1 then value else 0, args)))"

definition handleFeature :: "nat \<Rightarrow> string \<Rightarrow> int \<Rightarrow> int \<Rightarrow> desk \<Rightarrow> desk" where
  "handleFeature me name v arg1 s =
     (let (g, c, k) = s; was = feature_on ''FEATURE_PACKETS'' c; f = take 79 name;
          c = c\<lparr>feature_var := (feature_var c)(''FEATURE_PACKETS'' := 1)\<rparr>;
          ((g, c, k), (t, value, a1, a2)) = getFeature me f v arg1 (g, c, k);
          c = sendClientPacket (SP_FEATURE t value a1 a2 f) c;
          c = (if was then c
               else sendLameBaseRefit g (sendLameRefit g (sendFeatureUps me g (sendFeatureFps g c))))
      in (g, c, k))"

subsection \<open>Messages\<close>

abbreviation (input) FMMACRO :: "8 word" where "FMMACRO \<equiv> 0x80"

text \<open>
  The flood control: the balance goes down by one a second and up by three with each message; at 15
  or more nothing is passed on.
\<close>

definition flood_settle :: "int \<Rightarrow> session \<Rightarrow> session" where
  "flood_settle t k =
     k\<lparr>balance := (if lasttime k = 0 then balance k else max 0 (balance k - (t - lasttime k))), lasttime := t\<rparr>"

definition flood_control :: "world \<Rightarrow> nat \<Rightarrow> game \<Rightarrow> session \<Rightarrow> session \<times> bool" where
  "flood_control w me g k =
     (let k = flood_settle (w_now w) k in
      if balance k \<ge> 15 \<and> \<not> whitelisted w
      then (k\<lparr>balance := balance k + (if st_tourn (status g) then 6 else 3)\<rparr>, False)
      else (if \<not> inl_mode g \<or> p_inl_captain (players g me) = 0 then k\<lparr>balance := balance k + 3\<rparr> else k, True))"

definition ignore_bit :: "char \<Rightarrow> 32 word" where
  "ignore_bit ch =
     (if ch \<in> {CHR ''a'', CHR ''A''} then MALL else if ch \<in> {CHR ''t'', CHR ''T''} then MTEAM
      else if ch \<in> {CHR ''i'', CHR ''I''} then MINDIV else 0)"

definition ignore_status :: "32 word \<Rightarrow> string" where
  "ignore_status f =
     ''Ignore status for this player: '' @
     (if has f MALL then ''All '' else []) @ (if has f MTEAM then ''Team '' else []) @
     (if has f MINDIV then ''Indiv '' else []) @
     (if \<not> has f MALL \<and> \<not> has f MTEAM \<and> \<not> has f MINDIV then ''None'' else [])"

text \<open>
  Settings of what to ignore are messages that start with a colon; the number of the player is not
  tested.  The second part of the result says that the message is not passed on.
\<close>

definition parseIgnore :: "nat \<Rightarrow> 8 word \<Rightarrow> nat \<Rightarrow> string \<Rightarrow> view \<Rightarrow> view \<times> bool" where
  "parseIgnore me grp who mesg s =
     (let g = fst s; c = snd s; colon = (take 1 mesg = '':''); borg = (mesg = ''     '');
          second = take 1 (drop 1 mesg); own = (who = p_no (players g me));
          what = fold (\<lambda>ch f. f XOR ignore_bit ch) (takeWhile (\<lambda>ch. ignore_bit ch \<noteq> 0) (drop 1 mesg)) (ignored c who) in
      if \<not> colon \<and> \<not> borg then (s, False)
      else if own \<and> second = ''D'' then
        ((warn me UNDEF (if dooshignore c then ''Accepting Doosh messages.'' else ''Ignoring Doosh messages.'') g,
          c\<lparr>dooshignore := \<not> dooshignore c\<rparr>), True)
      else if own \<and> second = ''M'' then
        ((warn me UNDEF (if macroignore c then ''Accepting multi-line macros.'' else ''Ignoring multi-line macros.'') g,
          c\<lparr>macroignore := \<not> macroignore c\<rparr>), True)
      else if own \<or> borg then
        ((warn me UNDEF (if binconfirm (cfg g) then ''No cyborgs allowed in the game at this time.''
                         else ''Possible cyborgs: '') g, c), \<not> borg)
      else if grp \<noteq> ucast MINDIV then (s, False)
      else ((warn me UNDEF (ignore_status what) g, c\<lparr>ignored := (ignored c)(who := what)\<rparr>), True))"

definition teamshort :: "string list" where
  "teamshort = [''IND'', ''FED'', ''ROM'', ''X'', ''KLI'', ''X'', ''X'', ''X'', ''ORI'']"

text \<open>Whom a message is for: the end of the address line, or nobody; with a warning if there is one.\<close>

definition destination :: "nat \<Rightarrow> 8 word \<Rightarrow> nat \<Rightarrow> view \<Rightarrow> string option \<times> string option" where
  "destination me grp indiv s =
     (let g = fst s; c = snd s; q = players g indiv in
      if grp = ucast MALL then (Some ''ALL'', None)
      else if grp = ucast (MTEAM OR MDISTR) \<or> grp = ucast MTEAM then
        (if int indiv \<in> {FED, ROM, KLI, ORI} then Some (teamshort ! indiv) else None, None)
      else if grp = ucast MINDIV then
        if indiv \<ge> MAXPLAYER \<or> p_status q = PFREE then (None, None)
        else if has (ignored c indiv) MINDIV
        then (None, Some ''You are ignoring that player.  Message was not sent.'')
        else (Some [teamlet (p_team q), shipnos indiv, CHR '' ''], None)
      else if grp = 0x42 then (Some [], None)
      else if grp = 0x10 then (Some ''GOD'', None)
      else (None, None))"

text \<open>A message to a team answers the question for a clue.\<close>

definition forward :: "bool \<Rightarrow> int \<times> 32 word \<times> string \<times> nat \<times> string \<Rightarrow> session \<Rightarrow> session" where
  "forward team m k = (let k = (if team then k\<lparr>clueFuse := 0\<rparr> else k) in k\<lparr>mail := mail k @ [m]\<rparr>)"

definition handleMessageReq :: "world \<Rightarrow> nat \<Rightarrow> 8 word \<Rightarrow> nat \<Rightarrow> string \<Rightarrow> desk \<Rightarrow> desk" where
  "handleMessageReq w me grp indiv mesg s =
     (let (g, c, k) = s; p = players g me in
      if mute k \<or> (observer_muting w \<and> p_status p = POBSERV) \<or> (muteall w \<and> grp AND ucast MALL \<noteq> 0)
      then (warn me 86 ''Be quiet'' g, c, k)
      else case flood_control w me g k of
        (k, False) \<Rightarrow> (warn me 86 ''Be quiet'' g, c, k)
      | (k, True) \<Rightarrow>
          let mesg = take 69 mesg; ((g, c), eaten) = parseIgnore me grp indiv mesg (g, c) in
          if eaten then (g, c, k)
          else
            let macro = (grp AND FMMACRO \<noteq> 0 \<and> grp AND 0x40 = 0);
                grp = (if macro then grp AND NOT FMMACRO else grp);
                (to, tell) = destination me grp indiv (g, c);
                g = (case tell of None \<Rightarrow> g | Some m \<Rightarrow> warn me 88 m g)
            in case to of
                 None \<Rightarrow> (g, c, k)
               | Some a \<Rightarrow>
                   let addr = '' '' @ [teamlet (p_team p), shipnos (p_no p)] @ ''->'' @ a;
                       flags = (if macro then MMACRO else 0) OR ucast grp
                   in (g, c, forward (grp = ucast MTEAM \<or> grp = ucast (MTEAM OR MDISTR))
                               (int indiv, flags, addr, p_no p, mesg) k))"

subsection \<open>Logging in, and the connection over UDP\<close>

definition handleOutfit :: "int \<Rightarrow> int \<Rightarrow> session \<Rightarrow> session" where
  "handleOutfit team ship k = k\<lparr>shipPick := ship, teamPick := team\<rparr>"

text \<open>Names are cut to 15 characters; a query is marked in the last place of the password.\<close>

definition handleLoginReq :: "bool \<Rightarrow> string \<Rightarrow> string \<Rightarrow> string \<Rightarrow> session \<Rightarrow> session" where
  "handleLoginReq query name password l k =
     k\<lparr>namePick := take 15 name,
       passPick := (if query then take 15 (take 15 password @ replicate 15 CHR 0x00) @ [CHR 0x01] else take 15 password),
       login := take 15 l\<rparr>"

definition handleSocketReq :: "int \<Rightarrow> int \<Rightarrow> 32 word \<Rightarrow> session \<Rightarrow> session" where
  "handleSocketReq version udp_version socket k =
     k\<lparr>nextSocket := socket, userVersion := version, userUdpVersion := udp_version\<rparr>"

definition closeUdpConn :: "session \<Rightarrow> session" where
  "closeUdpConn k = (if udpSock k then k\<lparr>udpSock := False, portswap := False\<rparr> else k)"

abbreviation (input) COMM_TCP :: int where "COMM_TCP \<equiv> 0"
abbreviation (input) COMM_UDP :: int where "COMM_UDP \<equiv> 1"
abbreviation (input) COMM_VERIFY :: int where "COMM_VERIFY \<equiv> 2"
abbreviation (input) COMM_UPDATE :: int where "COMM_UPDATE \<equiv> 3"
abbreviation (input) COMM_MODE :: int where "COMM_MODE \<equiv> 4"
abbreviation (input) MODE_SIMPLE :: int where "MODE_SIMPLE \<equiv> 1"
abbreviation (input) MODE_FAT :: int where "MODE_FAT \<equiv> 2"
abbreviation (input) MODE_DOUBLE :: int where "MODE_DOUBLE \<equiv> 3"
abbreviation (input) SWITCH_TCP_OK :: int where "SWITCH_TCP_OK \<equiv> 0"
abbreviation (input) SWITCH_UDP_OK :: int where "SWITCH_UDP_OK \<equiv> 1"
abbreviation (input) SWITCH_DENIED :: int where "SWITCH_DENIED \<equiv> 2"
abbreviation (input) SWITCH_VERIFY :: int where "SWITCH_VERIFY \<equiv> 3"
abbreviation (input) CONNMODE_PORT :: int where "CONNMODE_PORT \<equiv> 0"
abbreviation (input) UDPVERSION :: int where "UDPVERSION \<equiv> 10"
abbreviation (input) UDP_UPDATE_WAIT :: int where "UDP_UPDATE_WAIT \<equiv> 5"

definition forceUpdate :: "world \<Rightarrow> nat \<Rightarrow> desk \<Rightarrow> desk" where
  "forceUpdate w me s =
     (let (g, c, k) = s; off = k\<lparr>spk_update_sall := False, spk_update_all := False\<rparr> in
      if w_now w - lastone k < UDP_UPDATE_WAIT
      then (warn me 98 ''Update request DENIED (chill out!)'' g, c, off)
      else (g, clearSPackets (spk_update_all k) (spk_update_sall k) me g c, off\<lparr>lastone := w_now w\<rparr>))"

definition udp_mode_request :: "world \<Rightarrow> nat \<Rightarrow> int \<Rightarrow> desk \<Rightarrow> desk" where
  "udp_mode_request w me mode s =
     (let (g, c, k) = s;
          put = (\<lambda>m (g, c, k). (g, c\<lparr>udpMode := m\<rparr>, k)) in
      if mode < MODE_TCP \<or> mode > MODE_DOUBLE then (warn me 93 ''Server can't do that UDP mode'' g, c, k)
      else if mode = MODE_TCP then put mode (warn me 94 ''Server will send with TCP only'' g, c, k)
      else if mode = MODE_SIMPLE then put mode (warn me 95 ''Server will send with simple UDP'' g, c, k)
      else if mode = MODE_FAT
      then put mode (forceUpdate w me (warn me UNDEF ''Server will send with fat UDP; sent full update'' g, c, k))
      else put MODE_SIMPLE (warn me 97 ''Request for double UDP DENIED (set to simple)'' g, c, k))"

definition udp_reply :: "int \<Rightarrow> int option \<Rightarrow> desk \<Rightarrow> desk" where
  "udp_reply reply port s = (let (g, c, k) = s in (g, sendClientPacket (SP_UDP_REPLY reply port) c, k))"

text \<open>A request to change to UDP; the new connection is used only when the client has answered over it.\<close>

definition udp_connect :: "world \<Rightarrow> nat \<Rightarrow> int \<Rightarrow> int \<Rightarrow> desk \<Rightarrow> desk" where
  "udp_connect w me connmode port s =
     (let (g, c, k) = s; k = k\<lparr>udpClientPort := port\<rparr> in
      if \<not> udpAllowed w then udp_reply SWITCH_DENIED (Some 0) (g, c, k)
      else if userUdpVersion k \<noteq> UDPVERSION
      then udp_reply SWITCH_DENIED (Some 1) (warn me UNDEF ''Server UDP is v%.1f, client is v%.1f'' g, c, k)
      else
        let k = closeUdpConn k;
            k = (if connmode = CONNMODE_PORT then k\<lparr>portswap := True\<rparr> else k)
        in case connUdpConn w of
             None \<Rightarrow> udp_reply SWITCH_DENIED (Some 0) (g, c, k)
           | Some p \<Rightarrow> udp_reply SWITCH_UDP_OK (Some p) (g, c, k\<lparr>udpSock := True\<rparr>))"

definition handleUdpReq :: "world \<Rightarrow> nat \<Rightarrow> int \<Rightarrow> int \<Rightarrow> int \<Rightarrow> desk \<Rightarrow> desk" where
  "handleUdpReq w me req connmode port s =
     (let (g, c, k) = s; mode = (if comm_udp c then COMM_UDP else COMM_TCP) in
      if req = COMM_VERIFY then
        if comm_udp c then udp_reply SWITCH_VERIFY None s
        else udp_reply SWITCH_VERIFY None (g, c\<lparr>comm_udp := True, udpMode := MODE_SIMPLE\<rparr>, k\<lparr>sequence_no := 1\<rparr>)
      else if req = COMM_MODE then udp_mode_request w me connmode s
      else if req = COMM_UPDATE then forceUpdate w me s
      else if req = COMM_TCP \<and> mode = COMM_TCP then
        case udp_reply SWITCH_TCP_OK None s of (g, c, k) \<Rightarrow> (g, c, closeUdpConn k)
      else if req = COMM_UDP then
        udp_connect w me connmode port (if comm_udp c then (g, c\<lparr>comm_udp := False\<rparr>, closeUdpConn k) else s)
      else if req = COMM_TCP then udp_reply SWITCH_TCP_OK (Some 0) (g, c\<lparr>comm_udp := False\<rparr>, closeUdpConn k)
      else s)"

text \<open>The answer to a ping turns pings on and off; what it says about losses is not modelled.\<close>

definition handlePingResponse :: "nat \<Rightarrow> int \<Rightarrow> game \<times> session \<Rightarrow> game \<times> session" where
  "handlePingResponse me pingme s =
     (let (g, k) = s in
      if \<not> ping k \<and> pingme = 1
      then (warn me UNDEF ''Server sending PING packets at %d second intervals'' g, k\<lparr>ping := True\<rparr>)
      else if ping k \<and> pingme = 0
      then (warn me UNDEF ''Server no longer sending PING packets.'' g, k\<lparr>ping := False\<rparr>)
      else s)"

subsection \<open>Which requests are accepted, and what they do\<close>

text \<open>The types that are accepted at any time.\<close>

definition always_valid :: "nat set" where
  "always_valid = {27, 28, 29, 31, 32, 33, 42, 60}"

definition accepted :: "nat \<Rightarrow> cpacket \<Rightarrow> desk \<Rightarrow> bool" where
  "accepted me q s \<longleftrightarrow>
     (let (g, _, k) = s; p = players g me in
      inputMask k (packet_type q) \<and>
      (p_status p = POBSERV \<or> p_flags p AND (PFWAR OR PFREFITTING OR PFTWARP) = 0) \<or>
      packet_type q \<in> always_valid)"

definition cancel_self_destruct :: "nat \<Rightarrow> cpacket \<Rightarrow> game \<Rightarrow> game" where
  "cancel_self_destruct me q g =
     (if pflag me PFSELFDEST g \<and> packet_type q \<noteq> 38 \<and> packet_type q \<noteq> 42
      then warn me 85 ''Self Destruct has been canceled'' (clear_orders me PFSELFDEST g) else g)"

fun handle :: "world \<Rightarrow> nat \<Rightarrow> cpacket \<Rightarrow> desk \<Rightarrow> desk option" where
  "handle w me (CP_MESSAGE grp indiv mesg) s = Some (handleMessageReq w me grp indiv mesg s)"
| "handle w me (CP_LOGIN query name password l) (g, c, k) = Some (g, c, handleLoginReq query name password l k)"
| "handle w me (CP_OUTFIT team ship) (g, c, k) = Some (g, c, handleOutfit team ship k)"
| "handle w me (CP_SOCKET v u n) (g, c, k) = Some (g, c, handleSocketReq v u n k)"
| "handle w me (CP_UPDATES usecs) (g, c, k) = map_option (\<lambda>(g, c). (g, c, k)) (handleUpdatesReq me usecs (g, c))"
| "handle w me (CP_RESETSTATS verify) s = Some (handleReset me verify s)"
| "handle w me (CP_UDP_REQ req connmode port) s = Some (handleUdpReq w me req connmode port s)"
| "handle w me (CP_PLANET pnum r) (g, c, k) = (case handlePlanReq me pnum r (g, c) of (g, c) \<Rightarrow> Some (g, c, k))"
| "handle w me (CP_PING_RESPONSE pingme) (g, c, k) = (case handlePingResponse me pingme (g, k) of (g, k) \<Rightarrow> Some (g, c, k))"
| "handle w me (CP_FEATURE name v arg1) s = Some (handleFeature me name v arg1 s)"
| "handle w me q (g, c, k) = Some (order_request w me q g, c, k)"

definition request :: "world \<Rightarrow> nat \<Rightarrow> cpacket \<Rightarrow> desk \<Rightarrow> desk option" where
  "request w me q s =
     (if \<not> accepted me q s then Some s
      else case s of (g, c, k) \<Rightarrow> handle w me q (cancel_self_destruct me q g, c, k))"

text \<open>All requests of one reading; a process that ends reads no more.\<close>

definition read_requests :: "world \<Rightarrow> nat \<Rightarrow> cpacket list \<Rightarrow> desk \<Rightarrow> desk option" where
  "read_requests w me qs s = fold (\<lambda>q r. Option.bind r (request w me q)) qs (Some s)"

text \<open>What an observer may ask (\<^verbatim>\<open>check_observs\<close>), and what everybody else may.\<close>

definition observer_mask :: "nat \<Rightarrow> bool" where
  "observer_mask n \<longleftrightarrow> n \<in> {1, 7, 8, 9, 15, 16, 27, 28, 29, 31, 33, 35, 36, 42, 43, 44, 45, 46, 60}"

text \<open>
  One turn of the main loop of the process in which the client has sent something: the delays of a
  change of war and of a refit end, and the process is not taken for dead.
\<close>

definition end_delays :: "nat \<Rightarrow> game \<Rightarrow> game" where
  "end_delays me g =
     (let m = procs g me; p = players g me;
          g = (if p_updates p > delay m then clear_orders me PFWAR g else g)
      in if p_updates p > rdelay m then clear_orders me PFREFITTING g else g)"

definition input_turn :: "world \<Rightarrow> nat \<Rightarrow> cpacket list \<Rightarrow> desk \<Rightarrow> desk option" where
  "input_turn w me qs s =
     (let (g, c, k) = s in
      map_option (\<lambda>(g, c, k). (upd_player me (\<lambda>p. p\<lparr>p_ghostbuster := 0\<rparr>) g, c, k))
        (read_requests w me qs (end_delays me g, c, k)))"

section \<open>Properties\<close>

subsection \<open>What orders leave alone\<close>

text \<open>The parts of a player that the exclusive orders and the moorings depend on.\<close>

definition fixtures :: "player \<Rightarrow> (32 word \<times> nat \<times> (nat \<Rightarrow> nat option)) \<times> int \<times> nat \<times> nat \<times> int" where
  "fixtures p =
     ((p_flags p, p_no p, p_bays p), s_type (p_ship p), p_dock_with p, p_dock_bay p, p_inl_draft p)"

definition same_fixtures :: "game \<Rightarrow> game \<Rightarrow> bool" where
  "same_fixtures g h \<longleftrightarrow> (\<forall>i. fixtures (players h i) = fixtures (players g i))"

named_theorems keeps_fixtures

lemma same_fixtures_refl [simp]: "same_fixtures g g"
  by (simp add: same_fixtures_def)

lemma same_fixtures_trans: "same_fixtures g h \<Longrightarrow> same_fixtures h k \<Longrightarrow> same_fixtures g k"
  by (simp add: same_fixtures_def)

lemma same_fixtures_upd [keeps_fixtures]:
  "same_fixtures g h \<Longrightarrow> (\<And>p. fixtures (f p) = fixtures p) \<Longrightarrow> same_fixtures g (upd_player i f h)"
  by (simp add: same_fixtures_def)

lemma same_fixtures_other [keeps_fixtures]:
  "same_fixtures g h \<Longrightarrow> same_fixtures g (emit e h)" "same_fixtures g h \<Longrightarrow> same_fixtures g (upd_proc i m h)"
  "same_fixtures g h \<Longrightarrow> same_fixtures g (upd_torp k t h)" "same_fixtures g h \<Longrightarrow> same_fixtures g (upd_phaser k ph h)"
  "same_fixtures g h \<Longrightarrow> same_fixtures g (rand_next h)"
  by (simp_all add: same_fixtures_def)

lemma same_fixtures_ltd [keeps_fixtures]: "same_fixtures g h \<Longrightarrow> same_fixtures g (upd_ltd i f h)"
  unfolding upd_ltd_def by (erule same_fixtures_upd) (simp add: fixtures_def upd_ltd_slot_def)

lemma same_fixtures_if [keeps_fixtures]:
  "(b \<Longrightarrow> same_fixtures g x) \<Longrightarrow> (\<not> b \<Longrightarrow> same_fixtures g y) \<Longrightarrow> same_fixtures g (if b then x else y)"
  by simp

lemma same_fixtures_let [keeps_fixtures]:
  "same_fixtures g x \<Longrightarrow> (\<And>y. same_fixtures g y \<Longrightarrow> same_fixtures g (f y)) \<Longrightarrow> same_fixtures g (Let x f)"
  by simp

lemma same_fixtures_loop:
  assumes "same_fixtures g h" and "\<And>i h. same_fixtures g h \<Longrightarrow> same_fixtures g (f i h)"
  shows "same_fixtures g (for_upto n f h)"
  using assms by (rule for_upto_inv [where P = "same_fixtures g"])

lemma weapons_keep_fixtures:
  "same_fixtures g h \<Longrightarrow> same_fixtures g (launch_torp me d a cf ce cw h)"
  "same_fixtures g h \<Longrightarrow> same_fixtures g (launch_plasma me d a k h)"
  "same_fixtures g h \<Longrightarrow> same_fixtures g (discharge me d st h)"
  "same_fixtures g h \<Longrightarrow> same_fixtures g (hit_player me j r h)"
  "same_fixtures g h \<Longrightarrow> same_fixtures g (hit_plasma me i r h)"
  "same_fixtures g h \<Longrightarrow> same_fixtures g (ltd_update_phaser_hit me h)"
  by (simp_all add: launch_torp_def launch_plasma_def discharge_def hit_player_def hit_plasma_def return_plasma_def
    deflect_plasma_def take_plasma_def phaser_point_def ltd_update_torp_fired_def ltd_update_plasma_fired_def
    ltd_update_phaser_hit_def ltd_update_phaser_fired_def ltd_update_phaser_damage_def ltd_update_plasma_phasered_def
    Let_def keeps_fixtures fixtures_def)

lemma fire_keeps_fixtures: "same_fixtures g h \<Longrightarrow> same_fixtures g (fire_phaser me d h)"
  by (auto simp: fire_phaser_def Let_def weapons_keep_fixtures same_fixtures_other split: option.split prod.split)

lemma det_keeps_fixtures: "same_fixtures g h \<Longrightarrow> same_fixtures g (det_all me h)"
  unfolding det_all_def
  by (rule same_fixtures_loop, assumption)
    (simp add: keeps_fixtures same_fixtures_loop det_torp_def ltd_update_torp_detted_def Let_def)

lemma shots_keep_fixtures:
  "same_fixtures g (ntorp me d a g)" "same_fixtures g (phaser_cmd me d g)" "same_fixtures g (nplasmatorp me d a g)"
  "same_fixtures g (detothers me g)"
  by (simp_all add: ntorp_def phaser_cmd_def nplasmatorp_def detothers_def Let_def keeps_fixtures weapons_keep_fixtures
    fire_keeps_fixtures det_keeps_fixtures fixtures_def split: option.split)

lemma fixtures_flags: "same_fixtures g h \<Longrightarrow> flags_ok g \<Longrightarrow> flags_ok h"
  by (simp add: same_fixtures_def fixtures_def flags_ok_def)

lemma fixtures_moorings: "same_fixtures g h \<Longrightarrow> moorings_ok g \<Longrightarrow> moorings_ok h"
  by (rule moorings_frame [of g]) (simp_all add: same_fixtures_def fixtures_def ship_berth_def split: if_splits)

subsection \<open>No draft\<close>

text \<open>
  In a draft the captains change ships without leaving their docks.  Where no draft is on, no
  request starts one.
\<close>

definition no_draft :: "game \<Rightarrow> bool" where
  "no_draft g \<longleftrightarrow> (\<forall>i. p_inl_draft (players g i) = INL_DRAFT_OFF)"

named_theorems keeps_draft

lemma no_draft_upd [keeps_draft]:
  "no_draft g \<Longrightarrow> (\<And>p. p_inl_draft (f p) = p_inl_draft p) \<Longrightarrow> no_draft (upd_player i f g)"
  by (simp add: no_draft_def)

lemma no_draft_other [keeps_draft]:
  "no_draft g \<Longrightarrow> no_draft (emit e g)" "no_draft g \<Longrightarrow> no_draft (upd_proc i h g)"
  "no_draft g \<Longrightarrow> no_draft (upd_planet i k g)" "no_draft g \<Longrightarrow> no_draft (bomb_count i c g)"
  "no_draft g \<Longrightarrow> no_draft (upd_torp i t g)"
  by (simp_all add: no_draft_def bomb_count_def)

lemma no_draft_orders [keeps_draft]:
  "no_draft g \<Longrightarrow> no_draft (order i on off g)" "no_draft g \<Longrightarrow> no_draft (clear_orders i off g)"
  by (simp_all add: no_draft_def order_def clear_orders_def)

lemma no_draft_let [keeps_draft]:
  "no_draft x \<Longrightarrow> (\<And>y. no_draft y \<Longrightarrow> no_draft (f y)) \<Longrightarrow> no_draft (Let x f)"
  by simp

lemma no_draft_if [keeps_draft]:
  "(b \<Longrightarrow> no_draft x) \<Longrightarrow> (\<not> b \<Longrightarrow> no_draft y) \<Longrightarrow> no_draft (if b then x else y)"
  by simp

lemma no_draft_release [keeps_draft]: "no_draft g \<Longrightarrow> no_draft (bay_release s g)"
  by (simp add: no_draft_def bay_release_def vacate_def Let_def)

lemma no_draft_release_all [keeps_draft]:
  assumes "no_draft g" shows "no_draft (bay_release_all b g)"
  unfolding bay_release_all_alt
  by (rule for_upto_inv [where P = no_draft], rule assms) (simp add: no_draft_def free_bay_def vacate_def split: option.split)

lemma no_draft_check [keeps_draft]:
  assumes "no_draft g" shows "no_draft (bay_consistency_check b g)"
  unfolding bay_consistency_check_def
  by (rule for_upto_inv [where P = no_draft], rule assms) (simp add: no_draft_def vacate_def split: option.split)

lemma no_draft_simple:
  assumes "no_draft g"
  shows "no_draft (set_speed me n g)" "no_draft (set_course me d g)" "no_draft (shield_up me g)"
    "no_draft (shield_down me g)" "no_draft (repair me g)" "no_draft (cloak_on me g)" "no_draft (cloak_off me g)"
    "no_draft (bomb_planet me g)" "no_draft (beam_up me g)" "no_draft (beam_down me g)" "no_draft (lock_planet me l g)"
    "no_draft (coup me g)"
  using assms
  by (simp_all add: set_speed_def set_course_def shield_up_def shield_down_def repair_def cloak_on_def cloak_off_def
    cloak_def bomb_planet_def beam_up_def beam_down_def lock_planet_def coup_def Let_def keeps_draft)

lemma no_draft_news [keeps_draft]:
  assumes "no_draft g" shows "no_draft (war_news c m g)"
  unfolding war_news_def
  by (rule fold_inv [where P = no_draft], rule assms) (simp add: sendwarn_def keeps_draft)

lemma no_draft_hostile [keeps_draft]:
  assumes "no_draft g" shows "no_draft (release_hostile me m g)"
proof -
  have "no_draft (for_upto NUMBAYS (\<lambda>i g.
             case p_bays (players g me) i of
               None \<Rightarrow> g
             | Some s \<Rightarrow> if meets m (p_team (players g s)) then bay_release s g else g) h)" if "no_draft h" for h
    by (rule for_upto_inv [where P = no_draft], rule that) (simp add: keeps_draft split: option.split)
  then show ?thesis using assms unfolding release_hostile_def by (simp add: Let_def keeps_draft)
qed

lemma no_draft_war: "no_draft g \<Longrightarrow> no_draft (declare_war me m r g)"
  by (simp add: declare_war_def Let_def keeps_draft)

lemma no_draft_new_ship [keeps_draft]: "no_draft g \<Longrightarrow> no_draft (new_ship me t g)"
  unfolding new_ship_def
  by (intro no_draft_let no_draft_if; (simp add: getship_def p_heal_def bay_init_def keeps_draft)?)

lemma no_draft_refit:
  assumes "no_draft g" shows "no_draft (do_refit me n g)"
proof (rule do_refit_inv [where P = no_draft])
  show "no_draft h" if "core h = core g" for h
  proof -
    have "p_inl_draft (players h i) = p_inl_draft (players g i)" for i using that by (rule core_player)
    then show ?thesis using assms by (simp add: no_draft_def)
  qed
qed (simp_all add: keeps_draft)

lemma no_draft_stop [keeps_draft]: "no_draft g \<Longrightarrow> no_draft (stop_warping me g)"
  by (simp add: stop_warping_def Let_def keeps_draft)

lemma no_draft_moor [keeps_draft]: "no_draft g \<Longrightarrow> no_draft (moor_at me base bay g)"
  unfolding moor_at_def Let_def bay_claim_def
  by (intro no_draft_upd no_draft_other no_draft_stop no_draft_orders no_draft_if) (simp_all add: p_x_y_to_internal_def)

lemma no_draft_dock:
  assumes "no_draft g" shows "no_draft (fst (dock me base g))"
proof -
  have refuse: "no_draft h \<Longrightarrow> no_draft (fst (refuse_dock me base a b h))" for a b h
    by (simp add: refuse_dock_def de_lock_def keeps_draft)
  have bay: "no_draft (fst (case bay_closest base dx dy g of
        (g, None) \<Rightarrow> refuse_dock me base a b g
      | (g, Some bay) \<Rightarrow> (moor_at me base bay g, DOCK_SUCCESS)))" for dx dy a b
    using assms by (auto simp: bay_closest_def Let_def refuse keeps_draft split: option.split)
  have ifs: "(c \<Longrightarrow> no_draft (fst x)) \<Longrightarrow> (\<not> c \<Longrightarrow> no_draft (fst y)) \<Longrightarrow>
      no_draft (fst (if c then x else y))" for c and x y :: "game \<times> dock_result" by simp
  show ?thesis
    unfolding dock_def Let_def by (intro ifs refuse bay) (simp_all add: assms)
qed

lemma no_draft_tractored: "no_draft g \<Longrightarrow> no_draft (fst (tractored_by me js t g))"
  by (induction me js t g rule: tractored_by.induct) (simp_all add: keeps_draft)

lemma no_draft_try: "no_draft g \<Longrightarrow> no_draft (fst (try_bases me js g))"
proof (induction js arbitrary: g)
  case (Cons j js)
  then show ?case using no_draft_dock [of g me j] by (auto split: prod.split dock_result.split)
qed simp

lemma no_draft_enter [keeps_draft]: "no_draft g \<Longrightarrow> no_draft (enter_orbit atan me l g)"
  unfolding enter_orbit_def Let_def
  by (intro no_draft_upd no_draft_orders no_draft_if no_draft_other) (simp_all add: p_x_y_go_def)

lemma no_draft_orbit:
  assumes "no_draft g" shows "no_draft (orbit atan me g)"
proof -
  obtain h t b where r: "tractored_by me [0..<MAXPLAYER] None g = (h, t, b)" by (metis prod_cases3)
  have h: "no_draft h" using no_draft_tractored [OF assms, of me "[0..<MAXPLAYER]" None] by (simp add: r)
  obtain k c where k: "(if s_type (p_ship (players h me)) \<noteq> STARBASE \<or> chaosmode (cfg h)
                     then try_bases me [0..<MAXPLAYER] h else (h, False)) = (k, c)" by fastforce
  have "no_draft k"
    using no_draft_try [OF h, of me "[0..<MAXPLAYER]"] h k by (auto split: if_splits)
  moreover from this have "no_draft (orbit_planet atan me k)"
    unfolding orbit_planet_def Let_def
    by (intro option_prop [of _ no_draft] no_draft_if no_draft_enter no_draft_other)
  ultimately show ?thesis
    unfolding orbit_def r prod.case k using h
    by (auto simp: keeps_draft no_draft_dock assms split: option.split bool.split)
qed

lemma fixtures_draft: "same_fixtures g h \<Longrightarrow> no_draft g \<Longrightarrow> no_draft h"
  by (simp add: same_fixtures_def fixtures_def no_draft_def)

subsection \<open>Every request keeps the orders and the moorings\<close>

lemma draft_keeps_flags [keeps_flags]:
  "flags_ok g \<Longrightarrow> flags_ok (tell k m g)" "flags_ok g \<Longrightarrow> flags_ok (shout m g)" "flags_ok g \<Longrightarrow> flags_ok (set_draft d j g)"
  "flags_ok g \<Longrightarrow> flags_ok (getship k t g)" "flags_ok g \<Longrightarrow> flags_ok (number_pick j g)"
  "flags_ok g \<Longrightarrow> flags_ok (change_team_quietly k a b g)"
  by (simp_all add: flags_ok_def tell_def shout_def set_draft_def getship_def number_pick_def upd_ctxt_def
    change_team_quietly_def set_names_def Let_def)

lemma draft_next_flags: "flags_ok g \<Longrightarrow> flags_ok (fst (inl_draft_next k g))"
  by (simp add: inl_draft_next_def inl_draft_highlight_up_def inl_draft_highlight_down_def keeps_flags split: option.split)

lemma draft_pick_flags: "flags_ok g \<Longrightarrow> flags_ok (pick_for j k g)"
  using draft_next_flags [of g k]
  by (auto simp: pick_for_def inl_draft_pick_def Let_def keeps_flags split: prod.split)

lemma select_flags: "flags_ok g \<Longrightarrow> flags_ok (inl_draft_select me n g)" "flags_ok g \<Longrightarrow> flags_ok (inl_draft_reject me n g)"
  using draft_next_flags [of g me]
  by (auto simp: inl_draft_select_def inl_draft_reject_def Let_def keeps_flags draft_pick_flags split: prod.split option.split)

lemma beam_flags:
  assumes "flags_ok g" and "ray \<in> {PFTRACT, PFTRACT OR PFPRESS}" and "\<And>h. flags_ok h \<Longrightarrow> flags_ok (select me n h)"
  shows "flags_ok (handle_beam ray select me state n g)"
  using assms by (auto simp: handle_beam_def Let_def keeps_flags cloaked_frames)

lemma lock_order_flags:
  "flags_ok g \<Longrightarrow> flags_ok (order me PFPLOCK 0 (clear_orders me (PFPLLOCK OR PFORBIT OR PF_BEAMS OR PFBOMB) g))"
  unfolding order_def clear_orders_def
  by (auto simp: flags_ok_def orders_ok_def exclusive_def clear_flags_def [of 0])

lemma lock_flags:
  assumes "flags_ok g" and "\<And>h. flags_ok h \<Longrightarrow> flags_ok (select me n h)"
  shows "flags_ok (lock_player select t me n g)"
  unfolding lock_player_def Let_def
  by (intro flags_ok_if assms flags_ok_other lock_order_flags flags_ok_frame) simp_all

lemma transwarp_flags: "flags_ok g \<Longrightarrow> flags_ok (fst (handleTranswarp me g))"
proof (cases "transwarp_refusal me g")
  case None
  assume "flags_ok g"
  let ?h = "set_speed me 1 (warn me UNDEF ''Transwarp initiated, all systems are DOWN meanwhile!'' g)"
  from None have "p_inl_draft (players g me) = INL_DRAFT_OFF"
    by (simp add: transwarp_refusal_def Let_def split: if_splits)
  then have f: "p_flags (players ?h me) = clear_flags (PFREPAIR OR PFBOMB OR PFORBIT OR PF_BEAMS) (p_flags (players (bay_release me g) me))"
    by (simp add: set_speed_def clear_orders_def bay_release_def vacate_def Let_def)
  have h: "flags_ok ?h" using \<open>flags_ok g\<close> by (simp add: flags_ok_moves keeps_flags)
  have "flags_ok (upd_player me (\<lambda>p. p\<lparr>p_flags :=
                    set_flags (PFSHIELD OR PFTWARP OR PFPLOCK) (clear_flags (PFPLOCK OR PFPLLOCK OR PFDOCK) (p_flags p))\<rparr>) ?h)"
    using h flags_okD [OF h, of me] unfolding f
    by (intro flags_ok_upd) (simp_all add: f orders_ok_def exclusive_def)
  then show ?thesis using None by (simp add: handleTranswarp_def Let_def keeps_flags)
qed (simp add: handleTranswarp_def keeps_flags)

lemma practr_flags: "flags_ok g \<Longrightarrow> flags_ok (handlePractrReq me g)"
  by (simp add: handlePractrReq_def practice_robo_def Let_def transwarp_flags keeps_flags split: prod.split bool.split)

lemma det_mine_fixtures: "same_fixtures g (handleDetMReq me n g)"
  by (simp add: handleDetMReq_def ltd_update_torp_selfdetted_def keeps_fixtures)

lemmas quiet_fixtures = shots_keep_fixtures det_mine_fixtures

lemma order_request_flags:
  assumes "flags_ok g" shows "flags_ok (order_request w me q g)"
proof -
  have quit: "flags_ok (order me PFSELFDEST 0 h)" "flags_ok (order me PFBPROBOT 0 h)" if "flags_ok h" for h
    using that by (auto intro!: flags_ok_order simp: orders_ok_def exclusive_def clear_flags_def [of 0])
  note shots = quiet_fixtures [THEN fixtures_flags]
  show ?thesis
    using assms
    by (cases q)
      (simp_all add: handleTorpReq_def handleDirReq_def handleShieldReq_def handleRepairReq_def handleOrbitReq_def
        handleBombReq_def handleBeamReq_def handleCloakReq_def handleDetTReq_def handleTractorReq_def
        handleRepressReq_def handleQuitReq_def handleDockingReq_def handleOggV_def handleOptionsPacket_def Let_def
        shots practr_flags lock_flags beam_flags select_flags flags_ok_moves flags_ok_armies flags_ok_war flags_ok_refit
        flags_ok_orbit keeps_flags quit quit [simplified])
qed

lemma beam_moorings:
  assumes "moorings_ok g" and "no_draft g" and "ray \<in> {PFTRACT, PFTRACT OR PFPRESS}"
  shows "moorings_ok (handle_beam ray select me state n g)" and "no_draft (handle_beam ray select me state n g)"
  using assms by (auto simp: handle_beam_def no_draft_def [of g] Let_def keeps_moorings keeps_draft)

lemma lock_moorings:
  assumes "moorings_ok g" and "no_draft g"
  shows "moorings_ok (lock_player select t me n g)" and "no_draft (lock_player select t me n g)"
proof -
  have off: "p_inl_draft (players g me) = INL_DRAFT_OFF" using assms(2) by (simp add: no_draft_def)
  show "moorings_ok (lock_player select t me n g)"
    unfolding lock_player_def Let_def off
    by (intro moorings_if) (simp_all add: assms keeps_moorings)
  show "no_draft (lock_player select t me n g)"
    unfolding lock_player_def Let_def off
    by (intro no_draft_if no_draft_other no_draft_orders no_draft_upd assms) simp_all
qed

lemma transwarp_moorings:
  assumes "moorings_ok g" shows "moorings_ok (fst (handleTranswarp me g))"
proof (cases "transwarp_refusal me g")
  case None
  let ?h = "set_speed me 1 (warn me UNDEF ''Transwarp initiated, all systems are DOWN meanwhile!'' g)"
  have h: "moorings_ok ?h" using assms by (simp add: moorings_simple keeps_moorings)
  have "moorings_ok (upd_player me (\<lambda>p. p\<lparr>p_flags :=
                    set_flags (PFSHIELD OR PFTWARP OR PFPLOCK) (clear_flags (PFPLOCK OR PFPLLOCK OR PFDOCK) (p_flags p))\<rparr>) ?h)"
    by (rule moorings_frame [OF h]) (simp_all add: ship_berth_def split: if_splits)
  then show ?thesis using None by (simp add: handleTranswarp_def Let_def keeps_moorings)
qed (simp add: handleTranswarp_def keeps_moorings assms)

lemma practr_moorings: "moorings_ok g \<Longrightarrow> moorings_ok (handlePractrReq me g)"
  by (simp add: handlePractrReq_def practice_robo_def Let_def transwarp_moorings keeps_moorings split: prod.split bool.split)

lemma practr_draft: "no_draft g \<Longrightarrow> no_draft (handlePractrReq me g)"
  by (simp add: handlePractrReq_def practice_robo_def handleTranswarp_def Let_def keeps_draft no_draft_simple
    split: prod.split bool.split option.split)

lemma order_request_moorings:
  assumes "moorings_ok g" and "no_draft g" shows "moorings_ok (order_request w me q g)"
proof -
  note shots = quiet_fixtures [THEN fixtures_moorings]
  show ?thesis
    using assms
    by (cases q)
      (simp_all add: handleTorpReq_def handleDirReq_def handleShieldReq_def handleRepairReq_def handleOrbitReq_def
        handleBombReq_def handleBeamReq_def handleCloakReq_def handleDetTReq_def handleTractorReq_def
        handleRepressReq_def handleQuitReq_def handleDockingReq_def handleOggV_def handleOptionsPacket_def Let_def
        shots practr_moorings lock_moorings beam_moorings undocked_free(3) moorings_simple moorings_armies moorings_war moorings_refit
        moorings_orbit keeps_moorings)
qed

lemma order_request_draft:
  assumes "moorings_ok g" and "no_draft g" shows "no_draft (order_request w me q g)"
proof -
  note shots = quiet_fixtures [THEN fixtures_draft]
  show ?thesis
    using assms
    by (cases q)
      (simp_all add: handleTorpReq_def handleDirReq_def handleShieldReq_def handleRepairReq_def handleOrbitReq_def
        handleBombReq_def handleBeamReq_def handleCloakReq_def handleDetTReq_def handleTractorReq_def
        handleRepressReq_def handleQuitReq_def handleDockingReq_def handleOggV_def handleOptionsPacket_def Let_def
        shots practr_draft lock_moorings beam_moorings no_draft_simple no_draft_war no_draft_refit
        no_draft_orbit keeps_draft)
qed

subsection \<open>Paperwork\<close>

text \<open>
  All other requests touch only the statistics and the update rate of the player itself, besides
  what no other process sees.
\<close>

definition paper_part :: "player \<Rightarrow> player" where
  "paper_part p = p\<lparr>p_stats := blank_stats, p_hist := blank_ltd_history, p_fpu := 0, p_ups := 0\<rparr>"

definition apart :: "nat \<Rightarrow> game \<Rightarrow> game \<Rightarrow> bool" where
  "apart me g h \<longleftrightarrow>
     (\<forall>i. i \<noteq> me \<longrightarrow> players h i = players g i) \<and> torps h = torps g \<and> planets h = planets g \<and>
     phasers h = phasers g \<and> teams h = teams g \<and> status h = status g"

definition paperwork :: "nat \<Rightarrow> game \<Rightarrow> game \<Rightarrow> bool" where
  "paperwork me g h \<longleftrightarrow> apart me g h \<and> paper_part (players h me) = paper_part (players g me)"

lemma paperwork_refl [simp]: "paperwork me g g"
  by (simp add: paperwork_def apart_def)

lemma paperwork_upd [simp]: "(\<And>p. paper_part (f p) = paper_part p) \<Longrightarrow> paperwork me g (upd_player me f h) = paperwork me g h"
  by (simp add: paperwork_def apart_def)

lemma paperwork_other [simp]:
  "paperwork me g (emit e h) = paperwork me g h" "paperwork me g (upd_proc i m h) = paperwork me g h"
  "paperwork me g (h\<lparr>ctxt := x\<rparr>) = paperwork me g h"
  by (simp_all add: paperwork_def apart_def)

lemma paper_fixtures: "paperwork me g h \<Longrightarrow> same_fixtures g h"
proof -
  have f: "fixtures (paper_part p) = fixtures p" for p by (simp add: paper_part_def fixtures_def)
  assume "paperwork me g h"
  then have "fixtures (players h i) = fixtures (players g i)" for i
    using f [of "players h me"] f [of "players g me"] by (cases "i = me") (simp_all add: paperwork_def apart_def)
  then show ?thesis by (simp add: same_fixtures_def)
qed

lemma read_paper:
  assumes "\<forall>f \<in> set fs. \<forall>s p. paper_part (fst (f s p)) = paper_part p" and "paperwork me g h"
  shows "paperwork me g (fst (read_totals fs slot me h))"
proof -
  have "paperwork me g (fst (fold (\<lambda>f s. case f slot (players (fst s) me) of (p, n) \<Rightarrow>
      (upd_player me (\<lambda>_. p) (fst s), snd s @ [n])) fs (h, ns)))" for ns
    using assms
  proof (induction fs arbitrary: h ns)
    case (Cons f fs)
    obtain p n where f: "f slot (players h me) = (p, n)" by fastforce
    then have "paper_part p = paper_part (players h me)" using Cons.prems(1) by (metis fst_conv list.set_intros(1))
    then have "paperwork me g (upd_player me (\<lambda>_. p) h)" using Cons.prems(2) by (simp add: paperwork_def apart_def)
    then show ?case using Cons by (simp add: f)
  qed simp
  then show ?thesis by (simp add: read_totals_def)
qed

lemma reads_paper:
  "paper_part (fst (ltd_kills_of s p)) = paper_part p" "paper_part (fst (ltd_deaths_of s p)) = paper_part p"
  "paper_part (fst (ltd_armies_bombed s p)) = paper_part p" "paper_part (fst (ltd_planets_taken s p)) = paper_part p"
  "paper_part (fst (ltd_ticks_of s p)) = paper_part p"
  by (simp_all add: paper_part_def ltd_kills_of_def ltd_deaths_of_def ltd_armies_bombed_def ltd_planets_taken_def
    ltd_ticks_of_def set_total_def upd_ltd_slot_def Let_def)

lemma reset_paper: "paperwork me g (fst (handleReset me v (g, c, k)))"
proof -
  let ?g = "upd_player me (\<lambda>p. let p = ltd_reset p in p\<lparr>p_stats := (p_stats p)\<lparr>st_rank := 0\<rparr>\<rparr>) g"
  have "paperwork me g ?g" by (simp add: paper_part_def ltd_reset_def ltd_reset_hist_def Let_def)
  then have t: "paperwork me g (fst (read_totals [ltd_kills_of, ltd_deaths_of, ltd_armies_bombed, ltd_planets_taken, ltd_ticks_of]
      LTD_TOTAL me ?g))" (is "paperwork me g (fst ?t)")
    by (rule read_paper [rotated]) (simp add: reads_paper)
  have "paperwork me g (fst (read_totals [ltd_kills_of, ltd_deaths_of, ltd_ticks_of] LTD_SB me (fst ?t)))"
    by (rule read_paper [OF _ t]) (simp add: reads_paper)
  then show ?thesis by (simp add: handleReset_def Let_def split_beta)
qed

lemma updates_paper: "handleUpdatesReq me u (g, c) = Some (h, d) \<Longrightarrow> paperwork me g h"
proof -
  have "paper_part (fst (p_ups_set s n p)) = paper_part p" for s n p
    by (simp add: p_ups_set_def paper_part_def Let_def)
  then have "paperwork me g (upd_player me (\<lambda>_. fst (p_ups_set (cfg g) n (players g me))) g)" for n
    by (simp add: paperwork_def apart_def)
  then show "handleUpdatesReq me u (g, c) = Some (h, d) \<Longrightarrow> paperwork me g h"
    by (auto simp: handleUpdatesReq_def Let_def split: if_splits prod.splits) (metis fst_conv)+
qed

lemma udp_paper:
  "paperwork me g (fst (forceUpdate w me (g, c, k)))" "fst (udp_reply r p (g, c, k)) = g"
  "paperwork me g (fst (udp_mode_request w me m (g, c, k)))" "paperwork me g (fst (udp_connect w me m port (g, c, k)))"
  by (auto simp: forceUpdate_def udp_reply_def udp_mode_request_def udp_connect_def Let_def split: option.split prod.split)

lemma udp_request_paper: "paperwork me g (fst (handleUdpReq w me r m p (g, c, k)))"
  by (simp add: handleUdpReq_def Let_def udp_paper split: prod.split) (auto simp: udp_reply_def)

lemma ignore_paper: "paperwork me g (fst (fst (parseIgnore me f i m (g, c))))"
  unfolding parseIgnore_def Let_def
  by (intro if_prop [of _ "\<lambda>r. paperwork me g (fst (fst r))"]) simp_all

lemma message_paper: "paperwork me g (fst (handleMessageReq w me f i m (g, c, k)))"
proof -
  obtain k' go where k: "flood_control w me g k = (k', go)" by fastforce
  obtain h d eaten where p: "parseIgnore me f i (take 69 m) (g, c) = ((h, d), eaten)"
    by (cases "parseIgnore me f i (take 69 m) (g, c)") auto
  have h: "paperwork me g h" using ignore_paper [of me g f i "take 69 m" c] by (simp only: p fst_conv)
  show ?thesis
    unfolding handleMessageReq_def Let_def split_beta fst_conv snd_conv k p
    by (cases go; simp only: bool.case; intro if_prop [of _ "\<lambda>r. paperwork me g (fst r)"]
      option_prop [of _ "\<lambda>r. paperwork me g (fst r)"]; simp only: fst_conv;
      (intro option_prop [of _ "paperwork me g"])?; simp only: paperwork_other paperwork_refl h)
qed

lemma feature_game: "fst (fst (getFeature me f v a (g, c, k))) = g"
  unfolding getFeature_def Let_def split_beta fst_conv snd_conv
  by (intro option_prop [of _ "\<lambda>r. fst (fst r) = g"] if_prop [of _ "\<lambda>r. fst (fst r) = g"]) simp_all

lemma feature_paper: "paperwork me g (fst (handleFeature me f v a (g, c, k)))"
  unfolding handleFeature_def Let_def split_beta fst_conv snd_conv feature_game by simp

lemma plan_paper: "paperwork me g (fst (handlePlanReq me n r (g, c)))"
  by (simp add: handlePlanReq_def Let_def)

lemma ping_paper: "paperwork me g (fst (handlePingResponse me n (g, k)))"
  by (simp add: handlePingResponse_def)

text \<open>A request is an order, or it is paperwork.\<close>

lemma handle_paper:
  assumes "handle w me q (g, c, k) = Some (h, d, l)"
  shows "paperwork me g h \<or> h = order_request w me q g"
proof (cases q)
  case (CP_MESSAGE f i m)
  then show ?thesis using assms message_paper [of me g w f i m c k] by simp
next
  case (CP_UPDATES u)
  then show ?thesis using assms updates_paper [of me u g c] by auto
next
  case (CP_RESETSTATS v)
  then show ?thesis using assms reset_paper [of me g v c k] by simp
next
  case (CP_UDP_REQ r m p)
  then show ?thesis using assms udp_request_paper [of me g w r m p c k] by simp
next
  case (CP_PLANET n r)
  then show ?thesis using assms plan_paper [of me g n r c] by (auto split: prod.splits)
next
  case (CP_PING_RESPONSE n)
  then show ?thesis using assms ping_paper [of me g n k] by (auto split: prod.splits)
next
  case (CP_FEATURE f v a)
  then show ?thesis using assms feature_paper [of me g f v a c k] by simp
qed (use assms in simp_all)

lemma cancel_cases: "cancel_self_destruct me q g = g \<or> (\<exists>n m. cancel_self_destruct me q g = warn me n m (clear_orders me PFSELFDEST g))"
  by (auto simp: cancel_self_destruct_def)

lemma request_flags:
  assumes "flags_ok g" and "request w me q (g, c, k) = Some (h, d, l)"
  shows "flags_ok h"
proof (cases "accepted me q (g, c, k)")
  case True
  have "flags_ok (cancel_self_destruct me q g)"
    using assms(1) cancel_cases [of me q g] by (auto simp: keeps_flags)
  moreover from True assms(2) have "handle w me q (cancel_self_destruct me q g, c, k) = Some (h, d, l)"
    by (simp add: request_def)
  ultimately show ?thesis
    using handle_paper fixtures_flags [OF paper_fixtures] order_request_flags by blast
qed (use assms in \<open>simp add: request_def\<close>)

lemma request_moorings:
  assumes "moorings_ok g" and "no_draft g" and "request w me q (g, c, k) = Some (h, d, l)"
  shows "moorings_ok h \<and> no_draft h"
proof (cases "accepted me q (g, c, k)")
  case True
  let ?g = "cancel_self_destruct me q g"
  have g: "moorings_ok ?g \<and> no_draft ?g"
    using assms(1,2) cancel_cases [of me q g] by (auto simp: keeps_moorings keeps_draft)
  moreover from True assms(3) have "handle w me q (?g, c, k) = Some (h, d, l)"
    by (simp add: request_def)
  then have "paperwork me ?g h \<or> h = order_request w me q ?g" by (rule handle_paper)
  ultimately show ?thesis
    using fixtures_moorings [OF paper_fixtures] fixtures_draft [OF paper_fixtures] order_request_moorings order_request_draft
    by blast
qed (use assms in \<open>simp add: request_def\<close>)

subsection \<open>All players at once\<close>

text \<open>
  The processes of all players share the game; each has its own client and session.  An event is a
  request of one of them; a process that ends leaves the game as it was.
\<close>

type_synonym table = "game \<times> (nat \<Rightarrow> client) \<times> (nat \<Rightarrow> session)"

fun serve :: "world \<times> nat \<times> cpacket \<Rightarrow> table \<Rightarrow> table" where
  "serve (w, me, q) (g, c, k) =
     (case request w me q (g, c me, k me) of
        None \<Rightarrow> (g, c, k)
      | Some (h, d, l) \<Rightarrow> (h, c(me := d), k(me := l)))"

lemma serve_flags: "flags_ok (fst t) \<Longrightarrow> flags_ok (fst (serve e t))"
  by (cases "(e, t)" rule: serve.cases) (auto split: option.split dest: request_flags)

lemma serve_moorings: "moorings_ok (fst t) \<and> no_draft (fst t) \<Longrightarrow> moorings_ok (fst (serve e t)) \<and> no_draft (fst (serve e t))"
  by (cases "(e, t)" rule: serve.cases) (auto split: option.split dest: request_moorings)

interpretation served_flags: kept "\<lambda>t. flags_ok (fst t)" serve
  by unfold_locales (rule serve_flags)

interpretation served_moorings: kept "\<lambda>t. moorings_ok (fst t) \<and> no_draft (fst t)" serve
  by unfold_locales (rule serve_moorings)


subsection \<open>Properties of all requests\<close>

lemma no_more_requests [simp]: "fold (\<lambda>q r. Option.bind r (request w me q)) qs None = None"
  by (induction qs) simp_all

lemma read_requests_Nil [simp]: "read_requests w me [] s = Some s"
  by (simp add: read_requests_def)

lemma read_requests_Cons:
  "read_requests w me (q # qs) s = Option.bind (request w me q s) (read_requests w me qs)"
  by (cases "request w me q s") (simp_all add: read_requests_def)

text \<open>
  C6: whatever the clients of all players send, in whatever order, no ship ever has two orders that
  exclude each other: shields, repair, bombing and beaming in either direction, the two locks, and
  a cloak with a tractor or pressor beam.
\<close>

theorem requests_keep_orders_exclusive:
  assumes "flags_ok g"
  shows "flags_ok (fst (fold serve es (g, c, k)))"
  using served_flags.keep_run [of "(g, c, k)" es] assms by simp

text \<open>
  C5: whatever the clients of all players send while no draft is on, a docked ship holds the bay it
  names, the ship it is docked with is a starbase, no two ships are docked in one bay, and no draft
  begins.
\<close>

theorem requests_keep_moorings:
  assumes "moorings_ok g" and "no_draft g"
  shows "let h = fst (fold serve es (g, c, k)) in
    moorings_ok h \<and> no_draft h \<and> (\<forall>s t x. ship_berth h s = Some x \<longrightarrow> ship_berth h t = Some x \<longrightarrow> s = t)"
proof -
  let ?h = "fst (fold serve es (g, c, k))"
  have ok: "moorings_ok ?h \<and> no_draft ?h" using served_moorings.keep_run [of "(g, c, k)" es] assms by simp
  then have "bays.moored ?h" by (simp add: moorings_ok_def docks_ok_moored)
  then show ?thesis using ok bays.moored_unique unfolding Let_def by blast
qed

lemma request_None: "request w me q s = None \<longleftrightarrow> q = CP_UPDATES 0"
proof -
  have handle: "handle w me q s = None \<longleftrightarrow> q = CP_UPDATES 0" for s
    by (cases "(w, me, q, s)" rule: handle.cases) (simp_all add: handleUpdatesReq_def Let_def split: prod.split)
  have "accepted me (CP_UPDATES 0) s" by (simp add: accepted_def always_valid_def split: prod.split)
  then show ?thesis by (cases s) (auto simp: request_def handle)
qed

lemma read_requests_None: "read_requests w me qs s = None \<longleftrightarrow> CP_UPDATES 0 \<in> set qs"
proof (induction qs arbitrary: s)
  case (Cons q qs)
  show ?case
    by (cases "request w me q s") (use request_None [of w me q s] Cons.IH in \<open>auto simp: read_requests_Cons\<close>)
qed simp

lemma read_requests_result:
  assumes "CP_UPDATES 0 \<notin> set qs"
  obtains h d l where "read_requests w me qs s = Some (h, d, l)"
  using read_requests_None [of w me qs s] assms by (cases "read_requests w me qs s") auto


subsection \<open>Ships that wait, and observers\<close>

lemma apart_trans: "apart me g h \<Longrightarrow> apart me h k \<Longrightarrow> apart me g k"
  by (simp add: apart_def)

lemma apart_upd: "apart me g h \<Longrightarrow> apart me g (upd_player me f h)"
  by (simp add: apart_def)

lemma apart_other: "apart me g h \<Longrightarrow> apart me g (emit e h)" "apart me g h \<Longrightarrow> apart me g (upd_proc i m h)"
  by (simp_all add: apart_def)

lemma apart_orders: "apart me g h \<Longrightarrow> apart me g (order me on off h)" "apart me g h \<Longrightarrow> apart me g (clear_orders me off h)"
  by (simp_all add: apart_def order_def clear_orders_def)

lemma apart_refl: "apart me g g"
  by (simp add: apart_def)

text \<open>What a request may change of a ship that waits: its statistics, its rate, and the order to destroy itself.\<close>

definition waiting_part :: "player \<Rightarrow> player" where
  "waiting_part p = (paper_part p)\<lparr>p_flags := clear_flags PFSELFDEST (p_flags p)\<rparr>"

lemma waiting_clear: "waiting_part (p\<lparr>p_flags := clear_flags PFSELFDEST (p_flags p)\<rparr>) = waiting_part p"
  by (simp add: waiting_part_def paper_part_def clear_flags_def)

lemma waiting_flags:
  assumes "waiting_part p = waiting_part q"
  shows "p_flags p AND (PFWAR OR PFREFITTING OR PFTWARP) = p_flags q AND (PFWAR OR PFREFITTING OR PFTWARP)"
    and "p_status p = p_status q"
proof -
  have "p_flags (waiting_part p) = p_flags (waiting_part q)" by (simp add: assms)
  then have *: "p_flags p AND NOT PFSELFDEST = p_flags q AND NOT PFSELFDEST" by (simp add: waiting_part_def clear_flags_def)
  have mask: "PFWAR OR PFREFITTING OR PFTWARP = (NOT PFSELFDEST AND (PFWAR OR PFREFITTING OR PFTWARP) :: 32 word)" by simp
  show "p_flags p AND (PFWAR OR PFREFITTING OR PFTWARP) = p_flags q AND (PFWAR OR PFREFITTING OR PFTWARP)"
    by (subst (1 2) mask) (simp only: and.assoc [symmetric] *)
  have "p_status (waiting_part p) = p_status (waiting_part q)" by (simp add: assms)
  then show "p_status p = p_status q" by (simp add: waiting_part_def paper_part_def)
qed

lemma always_valid_order:
  assumes "packet_type q \<in> always_valid" shows "paperwork me g (order_request w me q g)"
  using assms
  by (cases q) (simp_all add: always_valid_def handleOptionsPacket_def Let_def paper_part_def)

lemma waiting_request:
  assumes "p_status (players g me) \<noteq> POBSERV" and "p_flags (players g me) AND (PFWAR OR PFREFITTING OR PFTWARP) \<noteq> 0"
    and "request w me q (g, c, k) = Some (h, d, l)"
  shows "apart me g h \<and> waiting_part (players h me) = waiting_part (players g me)"
proof (cases "accepted me q (g, c, k)")
  case True
  let ?g = "cancel_self_destruct me q g"
  from True have valid: "packet_type q \<in> always_valid" using assms(1,2) by (auto simp: accepted_def)
  have g: "apart me g ?g \<and> waiting_part (players ?g me) = waiting_part (players g me)"
    using cancel_cases [of me q g] waiting_clear [of "players g me"]
    by (auto simp: apart_def clear_orders_def)
  from True assms(3) have "handle w me q (?g, c, k) = Some (h, d, l)" by (simp add: request_def)
  then have "paperwork me ?g h" using handle_paper always_valid_order [OF valid] by blast
  then have "apart me ?g h" and p: "paper_part (players h me) = paper_part (players ?g me)" by (simp_all add: paperwork_def)
  have "p_flags (players h me) = p_flags (players ?g me)"
    using arg_cong [OF p, of p_flags] by (simp add: paper_part_def)
  then have "waiting_part (players h me) = waiting_part (players ?g me)" by (simp add: waiting_part_def p)
  then show ?thesis using g apart_trans [OF _ \<open>apart me ?g h\<close>] by simp
qed (use assms in \<open>simp add: request_def apart_def\<close>)



subsection \<open>What becomes of the session\<close>

text \<open>What a message does to the session: nothing, or the flood control and at most one message more.\<close>

definition passed_on :: "bool \<Rightarrow> session \<Rightarrow> session \<Rightarrow> bool" where
  "passed_on go k l \<longleftrightarrow>
     balance l = balance k \<and> lasttime l = lasttime k \<and> inputMask l = inputMask k \<and>
     length (mail l) \<le> length (mail k) + (if go then 1 else 0)"

lemma message_session:
  obtains (muted) "snd (snd (handleMessageReq w me f i m (g, c, k))) = k"
  | (counted) k' go where "flood_control w me g k = (k', go)"
    and "passed_on go k' (snd (snd (handleMessageReq w me f i m (g, c, k))))"
proof -
  obtain k' go where k: "flood_control w me g k = (k', go)" by fastforce
  obtain h d eaten where p: "parseIgnore me f i (take 69 m) (g, c) = ((h, d), eaten)"
    by (cases "parseIgnore me f i (take 69 m) (g, c)") auto
  define P where "P r \<longleftrightarrow> snd (snd r) = k \<or> passed_on go k' (snd (snd r))" for r :: desk
  have P: "P (x, y, k)" "P (x, y, k')" "go \<Longrightarrow> P (x, y, forward t z k')" for x y t z
    by (simp_all add: P_def passed_on_def forward_def)
  have "P (handleMessageReq w me f i m (g, c, k))"
    unfolding handleMessageReq_def Let_def split_beta fst_conv snd_conv k p
    by (cases go; simp only: bool.case; intro if_prop [of _ P] option_prop [of _ P]; (rule P)?; assumption?)
  then show thesis using muted counted k unfolding P_def by blast
qed

lemma feature_session: "inputMask (snd (snd (handleFeature me f v a (g, c, k)))) = inputMask k"
proof -
  have "inputMask (snd (snd (fst (getFeature me f v a (g, c, k))))) = inputMask k" for f c
    unfolding getFeature_def Let_def split_beta fst_conv snd_conv
    by (intro option_prop [of _ "\<lambda>r. inputMask (snd (snd (fst r))) = inputMask k"]
      if_prop [of _ "\<lambda>r. inputMask (snd (snd (fst r))) = inputMask k"]) simp_all
  then show ?thesis
    unfolding handleFeature_def Let_def split_beta fst_conv snd_conv by simp
qed

lemma udp_session:
  "inputMask (snd (snd (forceUpdate w me (g, c, k)))) = inputMask k"
  "inputMask (snd (snd (udp_reply r p (g, c, k)))) = inputMask k"
  "inputMask (closeUdpConn k) = inputMask k"
  by (simp_all add: forceUpdate_def udp_reply_def closeUdpConn_def Let_def)

lemma udp_session2:
  "inputMask (snd (snd (udp_mode_request w me m (g, c, k)))) = inputMask k"
  "inputMask (snd (snd (udp_connect w me m port (g, c, k)))) = inputMask k"
proof -
  let ?g = "warn me UNDEF ''Server will send with fat UDP; sent full update'' g"
  obtain h d l where f: "forceUpdate w me (?g, c, k) = (h, d, l)" by (cases "forceUpdate w me (?g, c, k)") auto
  then have "inputMask l = inputMask k" using udp_session(1) [of w me ?g c k] by simp
  then show "inputMask (snd (snd (udp_mode_request w me m (g, c, k)))) = inputMask k"
    by (simp add: udp_mode_request_def Let_def f)
  show "inputMask (snd (snd (udp_connect w me m port (g, c, k)))) = inputMask k"
    by (simp add: udp_connect_def Let_def udp_session split: option.split)
qed

lemma udp_request_session: "inputMask (snd (snd (handleUdpReq w me r m p (g, c, k)))) = inputMask k"
  by (simp add: handleUdpReq_def Let_def udp_session2 udp_session split: prod.split)
    (auto simp: udp_reply_def udp_session)

lemma handle_mask:
  assumes "handle w me q (g, c, k) = Some (h, d, l)" shows "inputMask l = inputMask k"
proof (cases q)
  case (CP_MESSAGE f i m)
  then have l: "l = snd (snd (handleMessageReq w me f i m (g, c, k)))" using assms by simp
  have "inputMask (fst (flood_control w me g k)) = inputMask k" by (simp add: flood_control_def flood_settle_def Let_def)
  then show ?thesis unfolding l by (cases rule: message_session [of w me f i m g c k]) (auto simp: passed_on_def)
next
  case (CP_RESETSTATS v)
  then show ?thesis using assms by (auto simp: handleReset_def Let_def split: prod.splits if_splits)
next
  case (CP_UDP_REQ r m p)
  then show ?thesis using assms udp_request_session [of w me r m p g c k] by simp
next
  case (CP_FEATURE f v a)
  then show ?thesis using assms feature_session [of me f v a g c k] by simp
next
  case (CP_LOGIN a b e f)
  then show ?thesis using assms by (auto simp: handleLoginReq_def)
qed (use assms in \<open>auto simp: handleOutfit_def handleSocketReq_def handlePingResponse_def split: prod.splits if_splits\<close>)

subsection \<open>Observers\<close>

definition watching :: "nat \<Rightarrow> game \<Rightarrow> bool" where
  "watching me g \<longleftrightarrow> p_status (players g me) = POBSERV \<and> p_inl_draft (players g me) = INL_DRAFT_OFF"

lemma lock_apart:
  assumes "watching me g"
  shows "apart me g (lock_player select t me n g) \<and> watching me (lock_player select t me n g)"
    and "apart me g (lock_planet me n g) \<and> watching me (lock_planet me n g)"
proof -
  have off: "p_inl_draft (players g me) = INL_DRAFT_OFF" using assms by (simp add: watching_def)
  show "apart me g (lock_player select t me n g) \<and> watching me (lock_player select t me n g)"
    unfolding lock_player_def Let_def off
    by (intro if_prop [of _ "\<lambda>h. apart me g h \<and> watching me h"])
      (use assms in \<open>simp_all add: apart_refl apart_other apart_orders apart_upd watching_def order_def clear_orders_def\<close>)
  show "apart me g (lock_planet me n g) \<and> watching me (lock_planet me n g)"
    unfolding lock_planet_def Let_def off
    by (intro if_prop [of _ "\<lambda>h. apart me g h \<and> watching me h"])
      (use assms in \<open>simp_all add: apart_refl apart_other apart_orders apart_upd watching_def order_def\<close>)
qed

lemma observer_order:
  assumes "watching me g" and "observer_mask (packet_type q)"
  shows "apart me g (order_request w me q g) \<and> watching me (order_request w me q g)"
  using assms
  by (cases q)
    (simp_all add: observer_mask_def lock_apart handleQuitReq_def handleOptionsPacket_def apart_refl apart_other apart_upd
      apart_orders Let_def, simp_all add: watching_def order_def)

lemma paper_watching: "paperwork me g h \<Longrightarrow> watching me g \<Longrightarrow> watching me h"
proof -
  assume "paperwork me g h" "watching me g"
  then have p: "paper_part (players h me) = paper_part (players g me)" by (simp add: paperwork_def)
  have "p_status (players h me) = p_status (players g me)" "p_inl_draft (players h me) = p_inl_draft (players g me)"
    using arg_cong [OF p, of p_status] arg_cong [OF p, of p_inl_draft] by (simp_all add: paper_part_def)
  with \<open>watching me g\<close> show ?thesis by (simp add: watching_def)
qed

lemma observer_request:
  assumes "watching me g" and "\<forall>n. inputMask k n \<longrightarrow> observer_mask n" and "request w me q (g, c, k) = Some (h, d, l)"
  shows "apart me g h \<and> watching me h \<and> inputMask l = inputMask k"
proof (cases "accepted me q (g, c, k)")
  case True
  let ?g = "cancel_self_destruct me q g"
  have g: "apart me g ?g" "watching me ?g"
    using cancel_cases [of me q g] assms(1) by (auto simp: apart_def clear_orders_def watching_def)
  from True assms(3) have h: "handle w me q (?g, c, k) = Some (h, d, l)" by (simp add: request_def)
  have "observer_mask (packet_type q) \<or> packet_type q \<in> always_valid"
    using True assms(2) by (auto simp: accepted_def Let_def)
  then have "apart me ?g (order_request w me q ?g) \<and> watching me (order_request w me q ?g)"
    using observer_order [OF g(2)] always_valid_order [of q me ?g] paper_watching [OF _ g(2)] by (auto simp: paperwork_def)
  then have "apart me ?g h \<and> watching me h"
    using handle_paper [OF h] paper_watching [OF _ g(2)] by (auto simp: paperwork_def)
  then show ?thesis using handle_mask [OF h] apart_trans [OF g(1)] by blast
qed (use assms in \<open>simp add: request_def apart_refl\<close>)



subsection \<open>Flooding\<close>

text \<open>The bound that the balance keeps: \<open>n\<close> messages since \<open>t0\<close>, at the time of the last one.\<close>

definition metered :: "int \<Rightarrow> nat \<Rightarrow> session \<Rightarrow> bool" where
  "metered t0 n k \<longleftrightarrow>
     0 \<le> balance k \<and> 3 * int n \<le> max 0 (lasttime k - t0) + 17 \<and>
     (if lasttime k \<le> t0 \<and> n = 0 then True else t0 \<le> lasttime k \<and> 3 * int n \<le> balance k + (lasttime k - t0))"

lemma flood_step:
  assumes "metered t0 n k" and "lasttime k \<le> w_now w" and "t0 \<le> w_now w" and "0 < t0"
    and "\<not> whitelisted w" and "\<not> inl_mode g \<or> p_inl_captain (players g me) = 0"
    and "flood_control w me g k = (k', go)"
  shows "metered t0 (n + (if go then 1 else 0)) k' \<and> lasttime k' = w_now w \<and> mail k' = mail k"
proof -
  let ?s = "flood_settle (w_now w) k"
  have s: "0 \<le> balance ?s" "3 * int n \<le> balance ?s + (w_now w - t0)" "lasttime ?s = w_now w" "mail ?s = mail k"
    using assms(1-4) by (auto simp: flood_settle_def metered_def max_def split: if_splits)
  have n: "3 * int n \<le> w_now w - t0 + 17" using assms(1-3) by (auto simp: metered_def max_def split: if_splits)
  show ?thesis
    using s n assms(3,5-7) by (auto simp: flood_control_def metered_def Let_def split: if_splits)
qed

lemma message_metered:
  assumes "metered t0 n k" and "lasttime k \<le> w_now w" and "t0 \<le> w_now w" and "0 < t0"
    and "\<not> whitelisted w" and "\<not> inl_mode g \<or> p_inl_captain (players g me) = 0"
    and "handleMessageReq w me f i m (g, c, k) = (h, d, l)"
  shows "\<exists>n'. metered t0 n' l \<and> lasttime l \<le> w_now w \<and> length (mail l) + n \<le> length (mail k) + n' \<and>
    inl_mode h = inl_mode g \<and> p_inl_captain (players h me) = p_inl_captain (players g me)"
proof -
  have "paperwork me g h" using message_paper [of me g w f i m c k] by (simp add: assms(7))
  then have p: "paper_part (players h me) = paper_part (players g me)" and st: "status h = status g"
    by (simp_all add: paperwork_def apart_def)
  have cap: "inl_mode h = inl_mode g" "p_inl_captain (players h me) = p_inl_captain (players g me)"
    using arg_cong [OF p, of p_inl_captain] st by (simp_all add: paper_part_def inl_mode_def)
  show ?thesis
  proof (cases rule: message_session [of w me f i m g c k])
    case muted
    then show ?thesis using assms(1,2,7) cap by auto
  next
    case (counted k' go)
    then have l: "passed_on go k' l" by (simp add: assms(7))
    have "metered t0 (n + (if go then 1 else 0)) k' \<and> lasttime k' = w_now w \<and> mail k' = mail k"
      by (rule flood_step [OF assms(1-6) counted(1)])
    then show ?thesis using l cap
      by (intro exI [of _ "n + (if go then 1 else 0)"]) (auto simp: passed_on_def metered_def)
  qed
qed

text \<open>
  C14: nobody can flood the others with messages.  Between two points of time a client that is not
  on the list of those who may gets at most one message passed on every three seconds, and five
  and two thirds more, whatever it sends; captains of a league game are not counted.
\<close>

theorem flood_is_limited:
  fixes g :: game and c :: client and k :: session and me :: nat
    and ms :: "(world \<times> 8 word \<times> nat \<times> string) list"
  assumes "sorted (map (\<lambda>(w, _). w_now w) ms)"
    and "\<forall>(w, _) \<in> set ms. t0 \<le> w_now w \<and> w_now w \<le> t1 \<and> \<not> whitelisted w"
    and "0 < t0" and "t0 \<le> t1" and "lasttime k \<le> t0" and "0 \<le> balance k"
    and "\<not> inl_mode g \<or> p_inl_captain (players g me) = 0"
  shows "case fold (\<lambda>(w, grp, indiv, mesg). handleMessageReq w me grp indiv mesg) ms (g, c, k) of
    (h, d, l) \<Rightarrow> 3 * (int (length (mail l)) - int (length (mail k))) \<le> t1 - t0 + 17"
proof -
  have run: "\<exists>n'. metered t0 n' l \<and> lasttime l \<le> t1 \<and> length (mail l) + n \<le> length (mail k) + n'"
    if "fold (\<lambda>(w, grp, indiv, mesg). handleMessageReq w me grp indiv mesg) ms (g, c, k) = (h, d, l)"
      and "metered t0 n k" and "lasttime k \<le> t1" and "\<forall>(w, _) \<in> set ms. lasttime k \<le> w_now w"
      and "sorted (map (\<lambda>(w, _). w_now w) ms)"
      and "\<forall>(w, _) \<in> set ms. t0 \<le> w_now w \<and> w_now w \<le> t1 \<and> \<not> whitelisted w"
      and "\<not> inl_mode g \<or> p_inl_captain (players g me) = 0" for g c k n h d l
    using that
  proof (induction ms arbitrary: g c k n)
    case (Cons x ms)
    obtain w f i m where x: "x = (w, f, i, m)" by (cases x) auto
    obtain g' c' k' where s: "handleMessageReq w me f i m (g, c, k) = (g', c', k')" by (metis prod_cases3)
    have w: "lasttime k \<le> w_now w" "t0 \<le> w_now w" "w_now w \<le> t1" "\<not> whitelisted w" using Cons.prems by (auto simp: x)
    obtain n' where n': "metered t0 n' k'" "lasttime k' \<le> w_now w" "length (mail k') + n \<le> length (mail k) + n'"
      and cap: "inl_mode g' = inl_mode g" "p_inl_captain (players g' me) = p_inl_captain (players g me)"
      using message_metered [OF Cons.prems(2) w(1,2) assms(3) w(4) Cons.prems(7) s] by blast
    have "\<exists>n''. metered t0 n'' l \<and> lasttime l \<le> t1 \<and> length (mail l) + n' \<le> length (mail k') + n''"
    proof (rule Cons.IH [where k = k' and g = g' and c = c' and n = n'])
      show "fold (\<lambda>(w, grp, indiv, mesg). handleMessageReq w me grp indiv mesg) ms (g', c', k') = (h, d, l)"
        using Cons.prems(1) s by (simp add: x)
      show "\<forall>(w, _) \<in> set ms. lasttime k' \<le> w_now w" using Cons.prems(5) n'(2) by (fastforce simp: x)
    qed (use Cons.prems n' w cap in auto)
    then obtain n'' where "metered t0 n'' l" "lasttime l \<le> t1" "length (mail l) + n' \<le> length (mail k') + n''" by blast
    then show ?case using n'(3) by (intro exI [of _ n'']) linarith
  qed auto
  obtain h d l where r: "fold (\<lambda>(w, grp, indiv, mesg). handleMessageReq w me grp indiv mesg) ms (g, c, k) = (h, d, l)"
    by (metis prod_cases3)
  have "metered t0 0 k" using assms(5,6) by (simp add: metered_def)
  then obtain n where n: "metered t0 n l" "lasttime l \<le> t1" "length (mail l) \<le> length (mail k) + n"
    using run [OF r, of 0] assms by fastforce
  then have "3 * int n \<le> t1 - t0 + 17" using assms(4) by (auto simp: metered_def max_def split: if_splits)
  then show ?thesis using n(3) by (simp add: r)
qed

subsection \<open>Examples\<close>

text \<open>A session that accepts everything, one of an observer, and games with one player in a state.\<close>

definition blank_session :: session where
  "blank_session =
     \<lparr>inputMask = (\<lambda>n. n \<le> 60), shipPick = -1, teamPick = -1, namePick = [], passPick = [], login = [], nextSocket = 0,
      userVersion = 4, userUdpVersion = 10, mute = False, lasttime = 0, balance = 0, clueFuse = 0,
      features = [], start_sb = [], udpSock = False, udpClientPort = 0, portswap = False, sequence_no = 0, lastone = 0,
      spk_update_all = False, spk_update_sall = False, ping = False, mail = []\<rparr>"

definition blank_world :: world where
  "blank_world =
     \<lparr>w_now = 100, w_atan = (\<lambda>_ _. 0), whitelisted = False, observer_muting = False, muteall = False, udpAllowed = True,
      connUdpConn = Some 4000\<rparr>"

definition ex_state :: "pstatus \<Rightarrow> 32 word \<Rightarrow> game" where
  "ex_state st f = blank_game\<lparr>players := (players blank_game)(3 := blank_player\<lparr>p_no := 3, p_status := st, p_flags := f\<rparr>)\<rparr>"

lemma requests_keep_orders_exclusive_witness:
  "flags_ok (fst (fold serve [(blank_world, 2, CP_REPAIR True), (blank_world, 3, CP_CLOAK True)]
     (ex_fleet, \<lambda>_. blank_client, \<lambda>_. blank_session)))"
  by (rule requests_keep_orders_exclusive) (rule ex_fleet_ok)

lemma requests_keep_moorings_witness:
  "moorings_ok (fst (fold serve [(blank_world, 2, CP_ORBIT True), (blank_world, 3, CP_TORP 5)]
     (ex_fleet, \<lambda>_. blank_client, \<lambda>_. blank_session)))"
proof -
  have "no_draft ex_fleet" by (simp add: no_draft_def ex_fleet_def blank_defs)
  then show ?thesis
    using requests_keep_moorings [OF ex_fleet_ok(2)] by (simp only: Let_def)
qed



lemma flood_is_limited_witness:
  "case fold (\<lambda>(w, grp, indiv, mesg). handleMessageReq w 3 grp indiv mesg) (replicate 9 (blank_world, 8, 0, ''hello''))
     (ex_state PALIVE 0, blank_client, blank_session) of
    (h, d, l) \<Rightarrow> 3 * (int (length (mail l)) - int (length (mail blank_session))) \<le> 100 - 100 + 17"
  by (rule flood_is_limited [where ?t0.0 = 100 and ?t1.0 = 100]) (simp_all add: blank_world_def blank_session_def ex_state_def blank_defs)


end
