(* ===== verification/Spec2Isabelle.thy ===== *)
theory Spec2Isabelle
  imports Bay Ships Sintab Ltd Waitq Slots Galaxy Weapons Interface Cmds Combat Torps Motion Conquer Upkeep Planets Armies Wander Draft Frame Enter Client Votes Balance View Requests
begin

text \<open>
  A model of the Netrek game server (\<^verbatim>\<open>ntserv/\<close> and \<^verbatim>\<open>include/\<close>).

  \<^bold>\<open>The program.\<close>  A game is a block of shared memory.  The daemon (\<^verbatim>\<open>ntserv/daemon.c\<close>) is
  the only process that moves time: a timer calls \<^verbatim>\<open>move\<close>, up to fifty times a second, which moves
  ships and torpedoes, lets planets grow, fight and surrender, and decides whether the game counts
  (tournament mode).  Every player has a server process: it finds a slot (\<^verbatim>\<open>findslot.c\<close>), reads
  the requests of its client (\<^verbatim>\<open>socket.c\<close>), which set wishes and orders in the player's own record
  (\<^verbatim>\<open>interface.c\<close>, \<^verbatim>\<open>orbit.c\<close>, \<^verbatim>\<open>torp.c\<close> and so on), and after each signal of the daemon sends what has
  changed (\<^verbatim>\<open>redraw.c\<close>, \<^verbatim>\<open>genspkt.c\<close>).  The processes share the memory without locks, apart from one
  semaphore around the slots.

  \<^bold>\<open>The state.\<close>  The record \<open>game\<close> is the shared memory: functions from indices to the records
  \<open>player\<close>, \<open>torp\<close>, \<open>phaser\<close>, \<open>planet\<close>, \<open>team\<close>, the wait queues and the status; the settings
  (\<open>cfg\<close>, the variables of \<^verbatim>\<open>ntserv/data.c\<close> that the configuration sets); the variables private to
  the daemon (\<open>dmn\<close>) and to every server process (\<open>procs\<close>); the stream of random numbers; and the
  list of outputs (warnings, messages, scripts, logs), to which \<open>emit\<close> adds.  An operation of the
  program on its own player takes the number \<open>me\<close> of that player and the game, and returns the
  game; operations that only read one player are functions on \<open>player\<close>.  Names are those of the
  source, so that \<^verbatim>\<open>bay_claim\<close> is \<open>bay_claim\<close>; a part of a long function has a name of its own, and
  the composition of the parts has the name of the function.

  \<^bold>\<open>The theories, in the order of the source's layers.\<close>

  \<^item> \<open>Prelude\<close>: collections of rules, C arithmetic, counted loops with their invariant rule, bit
    masks.  \<open>Defs\<close>, \<open>Structs\<close>: constants and structures of \<^verbatim>\<open>include/\<close>.
  \<^item> \<open>Sintab\<close>, \<open>Ships\<close>: the tables of \<^verbatim>\<open>sintab.c\<close> and \<^verbatim>\<open>getship.c\<close>, entry by entry.
  \<^item> \<open>Util\<close> (\<^verbatim>\<open>util.c\<close>), \<open>Ltd\<close> (\<^verbatim>\<open>ltd_stats.c\<close>), \<open>Bay\<close> (\<^verbatim>\<open>bay.c\<close>), \<open>Waitq\<close> (\<^verbatim>\<open>queue.c\<close>), \<open>Slots\<close>
    (\<^verbatim>\<open>slotmaint.c\<close>, \<^verbatim>\<open>findslot.c\<close>), \<open>Galaxy\<close> (\<^verbatim>\<open>planet.c\<close>): the services that both kinds of process
    use.
  \<^item> \<open>Weapons\<close> (\<^verbatim>\<open>torp.c\<close>, \<^verbatim>\<open>plasma.c\<close>, \<^verbatim>\<open>phaser.c\<close>, \<^verbatim>\<open>detonate.c\<close>), \<open>Interface\<close> (\<^verbatim>\<open>interface.c\<close>,
    \<^verbatim>\<open>orbit.c\<close>, \<^verbatim>\<open>coup.c\<close>), \<open>Cmds\<close> (all orders as one type), \<open>Enter\<close> (\<^verbatim>\<open>enter.c\<close>, \<^verbatim>\<open>death.c\<close>), \<open>Client\<close>
    (\<^verbatim>\<open>redraw.c\<close>, \<^verbatim>\<open>transwarp.c\<close>): what the process of a player does to the game.
  \<^item> \<open>Combat\<close>, \<open>Torps\<close>, \<open>Motion\<close>, \<open>Upkeep\<close>, \<open>Planets\<close>, \<open>Armies\<close>, \<open>Frame\<close> (\<^verbatim>\<open>daemon.c\<close>), \<open>Conquer\<close>
    (\<^verbatim>\<open>conquer.c\<close>), \<open>Wander\<close> (\<^verbatim>\<open>wander2.c\<close>), \<open>Draft\<close> (\<^verbatim>\<open>draft.c\<close>), \<open>Bans\<close> (\<^verbatim>\<open>bans.c\<close>): the daemon.
    \<open>Frame\<close> composes all of it into \<open>move\<close>.
  \<^item> \<open>Votes\<close> (\<^verbatim>\<open>gencmds.c\<close>, \<^verbatim>\<open>ntscmds.c\<close>), \<open>Balance\<close> (\<^verbatim>\<open>balance.c\<close>): the commands that players type,
    and what the votes decide.
  \<^item> \<open>View\<close> (\<^verbatim>\<open>genspkt.c\<close> and the sending half of \<^verbatim>\<open>socket.c\<close>) and \<open>Requests\<close> (the receiving half of
    \<^verbatim>\<open>socket.c\<close>, \<^verbatim>\<open>feature.c\<close>, \<^verbatim>\<open>startrobot.c\<close>, \<^verbatim>\<open>input.c\<close>): the connection with the client.  They add
    two records to the game, \<open>client\<close> (what the client has been told) and \<open>session\<close> (what the
    process knows of its connection).

  \<^bold>\<open>Interfaces.\<close>  Three contracts are locales, each interpreted on the model's own operations where
  these are defined: \<open>mooring\<close> (bays and ships that name each other; \<open>Bay\<close>, used by docking),
  \<open>waiting_line\<close> (a queue as an abstract line of people that linked records implement; \<open>Waitq\<close>), and
  \<open>kept\<close> (what every single operation keeps, every sequence keeps), which \<open>Cmds\<close> interprets on the
  orders and \<open>Requests\<close> on the requests of all clients in any interleaving.  The contention for
  slots is the step relation \<open>pick_step\<close> with its reachable states (\<open>Slots\<close>).

  \<^bold>\<open>What is shown.\<close>
  \<^item> Invariants of the shared state under all operations of a group: orders that exclude each other
    (\<open>flags_ok\<close>), moorings (\<open>moorings_ok\<close>), counts of torpedoes in flight, armies, gauges of a ship
    (\<open>Upkeep\<close>), positions (\<open>Motion\<close>), the links of the wait queues, living ships that are intact.
  \<^item> Abstract descriptions and their refinement: the state machine of tournament mode against its
    rule (\<open>Frame\<close>), the wait queues against lines, the list of the best players
    against sorting, the exhaustive search for a balance against a minimum (\<open>Planets\<close>, \<open>Balance\<close>).
  \<^item> Progress: torpedoes end, the parade of a conquest ends, an empire without a home collapses,
    every planet gets its turn, turning terminates.
  \<^item> What is kept from whom: a client is told nothing of what its player may not see (\<open>View\<close>), a
    pause freezes ships and planets (\<open>Frame\<close>), ships that wait and observers cannot act
    (\<open>Requests\<close>), statistics are written in tournament mode only (\<open>Ltd\<close>), nobody can flood the
    others with messages, and a ban or an ejection takes a majority and lasts its time.
  \<^item> Where the code does not do what it says, the theorem states what it does, e.g. a rate of
    updates of nothing ends the process (\<open>Requests\<close>), a ban can be made of the halves of two lines
    (\<open>Bans\<close>), and the next torpedo after a change of team replaces that of another player
    (\<open>Weapons\<close>).
  Every property with a hypothesis is followed by a witness, an example in which it applies.

  \<^bold>\<open>Conventions and bounds.\<close>  The program is modelled in its default configuration
  (\<^verbatim>\<open>config.h.in\<close>): \<^verbatim>\<open>LTD_STATS\<close>, \<^verbatim>\<open>PRETSERVER\<close>, \<^verbatim>\<open>SBFUEL_FIX\<close>, \<^verbatim>\<open>TWO_RACE\<close> on; \<^verbatim>\<open>STURGEON\<close>, \<^verbatim>\<open>RSA\<close>,
  \<^verbatim>\<open>NEWBIESERVER\<close>, \<^verbatim>\<open>DOUBLE_UDP\<close> off (\<open>Balance\<close> is in the build with triple planet mayhem), with 32
  slots and 40 planets.  Directions are 8-bit words, masks, counters of statistics and the one
  product that can overflow are 32-bit words, other integers are unbounded with C's division and
  remainder (\<open>sdiv\<close>, \<open>smod\<close>); \<open>float\<close> and \<open>double\<close> are rationals, so rounding is not modelled.  Loops
  over arrays run over the bounds of the source (\<open>for_upto\<close>, \<open>first_in\<close>).  Three loops follow links
  or search until they find something: \<open>update_loop\<close> and \<open>purge_loop\<close> visit at most as many records
  as there are, which the well-formed queues of \<open>waitq_ok\<close> never exceed, and \<open>fuel_search\<close> runs to
  the end of the table; no other fuel is used, and every function is total.  An undefined access of
  the source (an index one too high) reads or writes a slot that no operation uses.

  \<^bold>\<open>Parameters.\<close>  The functions of the C mathematics library (\<open>atan\<close>, \<open>libm\<close>), what \<^verbatim>\<open>kill\<close> answers
  about another process, the clock, the configuration file when it has changed, the lines of the
  file of bans, the port of a new UDP connection, and the random numbers, which are drawn from a
  stream that is arbitrary in every theorem.

  \<^bold>\<open>Not modelled.\<close>  The bytes on the sockets, short packets, the lists of lost packets of the fat
  UDP mode, pings and keys (the rest of \<^verbatim>\<open>socket.c\<close>, \<^verbatim>\<open>genspkt.c\<close>, \<^verbatim>\<open>ping.c\<close>, \<^verbatim>\<open>reserved.c\<close>): they move
  or compress what \<open>View\<close> and \<open>Requests\<close> decide.  Start-up, log-in and the player file (\<^verbatim>\<open>main.c\<close>,
  \<^verbatim>\<open>getname.c\<close>, \<^verbatim>\<open>getentry.c\<close>, \<^verbatim>\<open>db.c\<close>), signals, the configuration file, the metaserver, logs and
  the ring buffers of messages: input and output around the modelled operations; messages and
  warnings are outputs of the model.  The commands that only answer their caller are outputs with
  the name of the command.  \<^verbatim>\<open>sturgeon.c\<close> is not in the default build.  The robots (\<^verbatim>\<open>robots/\<close>,
  \<^verbatim>\<open>robotd/\<close>), the sequencer, the tools and the monitor are programs of their own that read or edit
  the same memory; the managers among the robots (league games, practice) are started by the
  daemon and are outside the model.
\<close>

end
